(* ===== verification/Prelude.thy ===== *)
theory Prelude
  imports Main "HOL-Library.Sublist"
begin

text \<open>
  The vocabulary every component of the model shares.

  \<^item> \<open>js\<close> is the value a JavaScript program can receive from code outside the
    repository (an HTTP body, an options object, a parsed file).  Objects are association
    lists of own data properties, in insertion order; numbers keep the classes the code
    tells apart (integral, finite and fractional, infinite, NaN).
  \<^item> Strings are \<open>string\<close>: lists of code units below 256.  \<open>lower\<close> is
    \<open>toLowerCase\<close> on ASCII letters, which is all the code's own comparisons look at.
  \<^item> \<open>('s, 'e, 'a) io\<close> is an \<open>async\<close> function seen from outside: it takes the
    state of the world and returns either the error it throws (\<open>Inl\<close>) or its value
    (\<open>Inr\<close>), with the state it left behind.  State left by a failing call is kept, as
    it is in the program.
\<close>

named_theorems io_defs \<open>unfolding of the io combinators\<close>
named_theorems hex_simps \<open>facts about hexadecimal strings and prefixes\<close>

section \<open>Values\<close>

datatype jsnum = NInt int | NFrac int | NInf bool | NNaN

datatype js =
    JUndef | JNull | JBool bool | JNum jsnum | JBig int | JStr string
  | JArr "js list" | JObj "(string \<times> js) list" | JFun

fun js_typeof :: "js \<Rightarrow> string" where
  "js_typeof JUndef = ''undefined''"
| "js_typeof JNull = ''object''"
| "js_typeof (JBool _) = ''boolean''"
| "js_typeof (JNum _) = ''number''"
| "js_typeof (JBig _) = ''bigint''"
| "js_typeof (JStr _) = ''string''"
| "js_typeof (JArr _) = ''object''"
| "js_typeof (JObj _) = ''object''"
| "js_typeof JFun = ''function''"

fun is_object_like :: "js \<Rightarrow> bool" where
  "is_object_like (JArr _) = True"
| "is_object_like (JObj _) = True"
| "is_object_like JFun = True"
| "is_object_like _ = False"

text \<open>\<open>own_prop v k\<close> is \<open>v[k]\<close> for a data property; anything else reads as undefined.\<close>

fun own_prop :: "js \<Rightarrow> string \<Rightarrow> js" where
  "own_prop (JObj ps) k = (case map_of ps k of None \<Rightarrow> JUndef | Some v \<Rightarrow> v)"
| "own_prop _ k = JUndef"

fun has_own :: "js \<Rightarrow> string \<Rightarrow> bool" where
  "has_own (JObj ps) k = (k \<in> fst ` set ps)"
| "has_own _ k = False"

fun own_keys :: "js \<Rightarrow> string list" where
  "own_keys (JObj ps) = map fst ps"
| "own_keys _ = []"

lemma has_own_own_keys: "has_own v k \<longleftrightarrow> k \<in> set (own_keys v)"
  by (cases v) auto

lemma own_prop_not_own: "\<not> has_own v k \<Longrightarrow> own_prop v k = JUndef"
  by (cases v) (force split: option.split dest: map_of_SomeD)+

section \<open>Strings\<close>

definition lower_table :: "(char \<times> char) list" where
  "lower_table = zip ''ABCDEFGHIJKLMNOPQRSTUVWXYZ'' ''abcdefghijklmnopqrstuvwxyz''"

definition to_lower :: "char \<Rightarrow> char" where
  "to_lower c = (case map_of lower_table c of None \<Rightarrow> c | Some d \<Rightarrow> d)"

definition lower :: "string \<Rightarrow> string" where
  "lower s = map to_lower s"

definition is_hex_char :: "char \<Rightarrow> bool" where
  "is_hex_char c \<longleftrightarrow> c \<in> set ''0123456789abcdefABCDEF''"

definition is_hex_digits :: "string \<Rightarrow> bool" where
  "is_hex_digits s \<longleftrightarrow> list_all is_hex_char s"

fun js_includes :: "string \<Rightarrow> string \<Rightarrow> bool" where
  "js_includes sub [] = (sub = [])"
| "js_includes sub (c # s) = (prefix sub (c # s) \<or> js_includes sub s)"

lemma js_includes_sublist: "js_includes sub s \<longleftrightarrow> sublist sub s"
  by (induction s) (auto simp: sublist_Cons_right)

text \<open>\<open>stripHexPrefix\<close>: one leading \<open>0x\<close> or \<open>0X\<close> is removed, nothing else.\<close>

definition strip_hex_prefix :: "string \<Rightarrow> string" where
  "strip_hex_prefix v =
     (if prefix ''0x'' v \<or> prefix ''0X'' v then drop 2 v else v)"

lemma lower_table_images: "list_all (\<lambda>(c, d). d \<notin> set (map fst lower_table)) lower_table"
  by code_simp

lemma lower_table_disjoint:
  assumes "map_of lower_table c = Some d"
  shows "map_of lower_table d = None"
proof -
  from assms have "(c, d) \<in> set lower_table" by (rule map_of_SomeD)
  then have "d \<notin> fst ` set lower_table"
    using lower_table_images by (auto simp: list_all_iff)
  then show ?thesis by (simp add: map_of_eq_None_iff)
qed

lemma to_lower_to_lower [hex_simps]: "to_lower (to_lower c) = to_lower c"
  by (auto simp: to_lower_def split: option.split dest: lower_table_disjoint)

lemma lower_lower [hex_simps]: "lower (lower s) = lower s"
  by (simp add: lower_def to_lower_to_lower)

lemma length_lower [hex_simps]: "length (lower s) = length s"
  by (simp add: lower_def)

lemma lower_Nil [hex_simps]: "lower [] = []"
  by (simp add: lower_def)

lemma lower_Cons [hex_simps]: "lower (c # s) = to_lower c # lower s"
  by (simp add: lower_def)

lemma lower_append [hex_simps]: "lower (s @ t) = lower s @ lower t"
  by (simp add: lower_def)

lemma lower_drop: "lower (drop n s) = drop n (lower s)"
  by (simp add: lower_def drop_map)

lemma lower_take: "lower (take n s) = take n (lower s)"
  by (simp add: lower_def take_map)

lemma hex_chars_closed: "list_all (\<lambda>c. is_hex_char (to_lower c)) ''0123456789abcdefABCDEF''"
  by code_simp

lemma to_lower_hex: "is_hex_char c \<Longrightarrow> is_hex_char (to_lower c)"
  using hex_chars_closed unfolding is_hex_char_def list_all_iff by blast

lemma lower_table_hex: "list_all (\<lambda>(c, d). is_hex_char d \<longrightarrow> is_hex_char c) lower_table"
  by code_simp

lemma to_lower_hexD: "is_hex_char (to_lower c) \<Longrightarrow> is_hex_char c"
  using lower_table_hex unfolding list_all_iff
  by (auto simp: to_lower_def split: option.splits dest: map_of_SomeD)

lemma is_hex_digits_lower: "is_hex_digits s \<Longrightarrow> is_hex_digits (lower s)"
  by (induction s) (auto simp: is_hex_digits_def hex_simps to_lower_hex)

lemma is_hex_digits_lowerD: "is_hex_digits (lower s) \<Longrightarrow> is_hex_digits s"
  by (induction s) (auto simp: is_hex_digits_def hex_simps dest: to_lower_hexD)

lemma is_hex_digits_lower_iff [hex_simps]: "is_hex_digits (lower s) \<longleftrightarrow> is_hex_digits s"
  using is_hex_digits_lower is_hex_digits_lowerD by blast

lemma is_hex_digits_drop: "is_hex_digits s \<Longrightarrow> is_hex_digits (drop n s)"
  by (auto simp: is_hex_digits_def list_all_iff dest: in_set_dropD)

lemma is_hex_digits_take: "is_hex_digits s \<Longrightarrow> is_hex_digits (take n s)"
  by (auto simp: is_hex_digits_def list_all_iff dest: in_set_takeD)

lemma is_hex_digits_append [hex_simps]:
  "is_hex_digits (s @ t) \<longleftrightarrow> is_hex_digits s \<and> is_hex_digits t"
  by (simp add: is_hex_digits_def)

lemma hex_no_x: "is_hex_digits s \<Longrightarrow> \<not> prefix ''0x'' s \<and> \<not> prefix ''0X'' s"
  by (cases s; cases "tl s") (auto simp: is_hex_digits_def is_hex_char_def)

lemma strip_0x [hex_simps]: "strip_hex_prefix (CHR ''0'' # CHR ''x'' # s) = s"
  by (simp add: strip_hex_prefix_def)

lemma strip_hex_digits: "is_hex_digits s \<Longrightarrow> strip_hex_prefix s = s"
  using hex_no_x by (simp add: strip_hex_prefix_def)

text \<open>Decimal rendering of a non-negative integer, as \<open>String(n)\<close> gives it.\<close>

definition decimal_digit :: "nat \<Rightarrow> char" where
  "decimal_digit n = ''0123456789'' ! (n mod 10)"

fun decimal :: "nat \<Rightarrow> string" where
  "decimal n = (if n < 10 then [decimal_digit n] else decimal (n div 10) @ [decimal_digit n])"

declare decimal.simps [simp del]

section \<open>Fallible calls with effects\<close>

type_synonym ('s, 'e, 'a) io = "'s \<Rightarrow> ('e + 'a) \<times> 's"

definition return_io :: "'a \<Rightarrow> ('s, 'e, 'a) io" where
  "return_io x = (\<lambda>s. (Inr x, s))"

definition throw_io :: "'e \<Rightarrow> ('s, 'e, 'a) io" where
  "throw_io e = (\<lambda>s. (Inl e, s))"

definition bind_io :: "('s, 'e, 'a) io \<Rightarrow> ('a \<Rightarrow> ('s, 'e, 'b) io) \<Rightarrow> ('s, 'e, 'b) io" where
  "bind_io m f = (\<lambda>s. case m s of (Inl e, s') \<Rightarrow> (Inl e, s') | (Inr x, s') \<Rightarrow> f x s')"

definition catch_io :: "('s, 'e, 'a) io \<Rightarrow> ('e \<Rightarrow> ('s, 'f, 'a) io) \<Rightarrow> ('s, 'f, 'a) io" where
  "catch_io m h = (\<lambda>s. case m s of (Inl e, s') \<Rightarrow> h e s' | (Inr x, s') \<Rightarrow> (Inr x, s'))"

definition lift_io :: "'e + 'a \<Rightarrow> ('s, 'e, 'a) io" where
  "lift_io r = (\<lambda>s. (r, s))"

text \<open>The pure counterpart: sequencing of values that may be errors.\<close>

definition bind_sum :: "'e + 'a \<Rightarrow> ('a \<Rightarrow> 'e + 'b) \<Rightarrow> 'e + 'b" where
  "bind_sum r f = (case r of Inl e \<Rightarrow> Inl e | Inr x \<Rightarrow> f x)"

lemma bind_sum_simps [simp]:
  "bind_sum (Inl e) f = Inl e"
  "bind_sum (Inr x) f = f x"
  by (simp_all add: bind_sum_def)

lemma bind_sum_Inr: "bind_sum r f = Inr y \<longleftrightarrow> (\<exists>x. r = Inr x \<and> f x = Inr y)"
  by (cases r) auto

lemma bind_sum_Inl: "bind_sum r f = Inl e \<longleftrightarrow> r = Inl e \<or> (\<exists>x. r = Inr x \<and> f x = Inl e)"
  by (cases r) auto

lemma return_io_run [simp]: "return_io x s = (Inr x, s)"
  by (simp add: return_io_def)

lemma throw_io_run [simp]: "throw_io e s = (Inl e, s)"
  by (simp add: throw_io_def)

lemma lift_io_run [simp]: "lift_io r s = (r, s)"
  by (simp add: lift_io_def)

lemma bind_io_return [simp]: "bind_io (return_io x) f = f x"
  by (rule ext) (simp add: bind_io_def)

lemma bind_io_throw [simp]: "bind_io (throw_io e) f = throw_io e"
  by (rule ext) (simp add: bind_io_def)

lemma bind_io_Pair [simp]:
  "bind_io (Pair (Inr x)) f = f x"
  "bind_io (Pair (Inl e)) f = Pair (Inl e)"
  by (simp_all add: bind_io_def)

lemma bind_io_return_right: "bind_io m return_io = m"
  by (rule ext) (auto simp: bind_io_def split: prod.split sum.split)

lemma bind_io_assoc: "bind_io (bind_io m f) g = bind_io m (\<lambda>x. bind_io (f x) g)"
  by (rule ext) (simp add: bind_io_def split: prod.split sum.split)

lemma bind_io_ok: "m s = (Inr x, s') \<Longrightarrow> bind_io m f s = f x s'"
  by (simp add: bind_io_def)

lemma bind_io_err: "m s = (Inl e, s') \<Longrightarrow> bind_io m f s = (Inl e, s')"
  by (simp add: bind_io_def)

lemma catch_io_ok: "m s = (Inr x, s') \<Longrightarrow> catch_io m h s = (Inr x, s')"
  by (simp add: catch_io_def)

lemma catch_io_err: "m s = (Inl e, s') \<Longrightarrow> catch_io m h s = h e s'"
  by (simp add: catch_io_def)

lemma bind_io_InrE:
  assumes "bind_io m f s = (Inr y, t)"
  obtains x s' where "m s = (Inr x, s')" and "f x s' = (Inr y, t)"
proof (cases "m s")
  case (Pair r s')
  then show ?thesis using assms that by (cases r) (auto simp: bind_io_def)
qed

lemma bind_io_InlE:
  assumes "bind_io m f s = (Inl e, t)"
  obtains "m s = (Inl e, t)"
    | x s' where "m s = (Inr x, s')" and "f x s' = (Inl e, t)"
proof (cases "m s")
  case (Pair r s')
  then show ?thesis using assms that by (cases r) (auto simp: bind_io_def)
qed

text \<open>A budget: running \<open>m\<close> raises the counter \<open>cnt\<close> by at most \<open>n\<close>, on every path.\<close>

definition costs :: "('s \<Rightarrow> nat) \<Rightarrow> nat \<Rightarrow> ('s, 'e, 'a) io \<Rightarrow> bool" where
  "costs cnt n m \<longleftrightarrow> (\<forall>s. cnt (snd (m s)) \<le> cnt s + n)"

named_theorems cost_intros \<open>rules that add up budgets\<close>

lemma costs_free [simp, cost_intros]:
  "costs cnt 0 (return_io x)" "costs cnt 0 (throw_io e)" "costs cnt 0 (lift_io r)"
  by (simp_all add: costs_def)

lemma costs_Pair [simp, cost_intros]: "costs cnt n (Pair r)"
  by (simp add: costs_def)

lemma costs_mono: "costs cnt n m \<Longrightarrow> n \<le> k \<Longrightarrow> costs cnt k m"
  unfolding costs_def by (meson add_left_mono le_trans)

lemma costs_bind [cost_intros]:
  assumes m: "costs cnt n m" and f: "\<And>x. costs cnt k (f x)"
  shows "costs cnt (n + k) (bind_io m f)"
  unfolding costs_def
proof
  fix s
  obtain r t where ms: "m s = (r, t)" by force
  have t: "cnt t \<le> cnt s + n" using m ms unfolding costs_def by (metis snd_conv)
  show "cnt (snd (bind_io m f s)) \<le> cnt s + (n + k)"
  proof (cases r)
    case (Inl e)
    then show ?thesis using ms t by (simp add: bind_io_def)
  next
    case (Inr x)
    have "cnt (snd (f x t)) \<le> cnt t + k" using f unfolding costs_def by blast
    then show ?thesis using ms t Inr by (simp add: bind_io_def)
  qed
qed

lemma costs_catch [cost_intros]:
  assumes m: "costs cnt n m" and h: "\<And>e. costs cnt k (h e)"
  shows "costs cnt (n + k) (catch_io m h)"
  unfolding costs_def
proof
  fix s
  obtain r t where ms: "m s = (r, t)" by force
  have t: "cnt t \<le> cnt s + n" using m ms unfolding costs_def by (metis snd_conv)
  show "cnt (snd (catch_io m h s)) \<le> cnt s + (n + k)"
  proof (cases r)
    case (Inl e)
    have "cnt (snd (h e t)) \<le> cnt t + k" using h unfolding costs_def by blast
    then show ?thesis using ms t Inl by (simp add: catch_io_def)
  next
    case (Inr x)
    then show ?thesis using ms t by (simp add: catch_io_def)
  qed
qed

lemma costs_run: "costs cnt n m \<Longrightarrow> cnt (snd (m s)) \<le> cnt s + n"
  by (simp add: costs_def)

lemmas io_run = bind_io_ok bind_io_err catch_io_ok catch_io_err

declare return_io_def [io_defs] throw_io_def [io_defs] bind_io_def [io_defs]
  catch_io_def [io_defs] lift_io_def [io_defs]

end
