(* ===== verification/NodePath.thy ===== *)
theory NodePath
  imports Prelude
begin

text \<open>
  Node's \<open>path\<close> module on a POSIX system, as far as the program uses it, over strings cut at
  their separators.
\<close>

fun split_at_char :: "char \<Rightarrow> string \<Rightarrow> string list" where
  "split_at_char d [] = [[]]"
| "split_at_char d (c # s) =
     (if c = d then [] # split_at_char d s
      else case split_at_char d s of [] \<Rightarrow> [[c]] | w # ws \<Rightarrow> (c # w) # ws)"

definition is_absolute :: "string \<Rightarrow> bool" where
  "is_absolute p \<longleftrightarrow> p \<noteq> [] \<and> hd p = CHR ''/''"

fun join_slash :: "string list \<Rightarrow> string" where
  "join_slash [] = []"
| "join_slash [x] = x"
| "join_slash (x # xs) = x @ CHR ''/'' # join_slash xs"

text \<open>\<open>normalizeString\<close>: the accumulator holds the segments so far, last first.\<close>

definition norm_seg :: "bool \<Rightarrow> string list \<Rightarrow> string \<Rightarrow> string list" where
  "norm_seg escapes acc seg =
     (if seg = [] \<or> seg = ''.'' then acc
      else if seg = ''..'' then
        (case acc of
           [] \<Rightarrow> if escapes then [''..''] else []
         | x # xs \<Rightarrow> if x = ''..'' then (if escapes then ''..'' # acc else acc) else xs)
      else seg # acc)"

definition normal_segments :: "bool \<Rightarrow> string \<Rightarrow> string list" where
  "normal_segments escapes p = rev (foldl (norm_seg escapes) [] (split_at_char (CHR ''/'') p))"

definition path_normalize :: "string \<Rightarrow> string" where
  "path_normalize p =
     (if p = [] then ''.''
      else
        let absolute = is_absolute p; trailing = (last p = CHR ''/'');
            q = join_slash (normal_segments (\<not> absolute) p)
        in if q = [] then (if absolute then ''/'' else if trailing then ''./'' else ''.'')
           else (if absolute then ''/'' else []) @ q @ (if trailing then ''/'' else []))"

definition path_join :: "string \<Rightarrow> string \<Rightarrow> string" where
  "path_join a b = path_normalize (if a = [] then b else if b = [] then a else a @ CHR ''/'' # b)"

definition path_resolve :: "string \<Rightarrow> string \<Rightarrow> string" where
  "path_resolve cwd p =
     (let full = (if is_absolute p then p else cwd @ CHR ''/'' # p)
      in CHR ''/'' # join_slash (normal_segments False full))"

definition path_dirname :: "string \<Rightarrow> string" where
  "path_dirname p =
     (if p = [] then ''.''
      else
        let t = dropWhile (\<lambda>c. c \<noteq> CHR ''/'') (dropWhile (\<lambda>c. c = CHR ''/'') (rev p));
            end1 = length t - 1
        in if length t < 2 then (if is_absolute p then ''/'' else ''.'')
           else if is_absolute p \<and> end1 = 1 then ''//''
           else take end1 p)"

fun common_prefix :: "string list \<Rightarrow> string list \<Rightarrow> nat" where
  "common_prefix (x # xs) (y # ys) = (if x = y then Suc (common_prefix xs ys) else 0)"
| "common_prefix _ _ = 0"

text \<open>Between absolute paths, which is the only way the code uses it.\<close>

definition path_relative :: "string \<Rightarrow> string \<Rightarrow> string" where
  "path_relative from to =
     (let f = normal_segments False from; t = normal_segments False to; n = common_prefix f t
      in join_slash (replicate (length f - n) ''..'' @ drop n t))"

definition slashes :: "string \<Rightarrow> string" where
  "slashes s = map (\<lambda>c. if c = CHR 0x5C then CHR ''/'' else c) s"

section \<open>Facts\<close>

lemma common_prefix_take: "take (common_prefix xs ys) xs = take (common_prefix xs ys) ys"
  by (induction xs ys rule: common_prefix.induct) auto

lemma common_prefix_le: "common_prefix xs ys \<le> length xs"
  by (induction xs ys rule: common_prefix.induct) auto

lemma common_prefix_append: "common_prefix xs (xs @ ys) = length xs"
  by (induction xs) auto

lemma join_dotdot: "prefix ''..'' (join_slash (''..'' # xs))"
  by (cases xs) simp_all

end
