(* ===== verification/InputCauses.thy ===== *)
theory InputCauses
  imports NodePath "HOL-Library.Char_ord" "HOL-Library.List_Lexorder"
begin

text \<open>
  The leaf modules of \<open>validation-input\<close>: the closed set of causes (\<open>causes.ts\<close>), the one
  policy table (\<open>policy.ts\<close>), the supported compiler range (\<open>compiler.ts\<close>), the partition
  (\<open>partition.ts\<close>) and the identity checks (\<open>identity.ts\<close>).  The texts of \<open>diagnose.ts\<close> are
  in \<open>InputDiagnose\<close>.
\<close>

section \<open>Causes and their disposition\<close>

datatype rejection_reason =
    DeployedBytecodeDiffers | NothingToCompare | AstClosureIncomplete | TargetDefinitionAbsent
  | InputPairAbsent | InputPairUnparseable | InputPairUnusable

record rejection =
  rj_file :: string
  rj_reason :: rejection_reason

datatype unreadable_because = SourceMissing | SourceUnreadableOnDisk
datatype absent_because = DirectoryAbsent | DirectoryUnreadable | NoRecordForTarget
datatype band = Band37To38 | Band39Up

datatype cause =
    CompilerUnsupported string "string option"
  | SourceUnreadable string string unreadable_because
  | ImportUnresolvable string string
  | ArtifactShapeUnsupported string string string
  | BuildRecordAbsent absent_because
  | BuildRecordStale "rejection list"
  | LibraryNameUnsupported string nat band

definition ARTIFACT_FIELDS_VERIFIED_SINCE :: string where
  "ARTIFACT_FIELDS_VERIFIED_SINCE = ''4.8.0''"

definition causeKinds :: "string list" where
  "causeKinds = [''compiler-unsupported'', ''source-unreadable'', ''import-unresolvable'',
     ''artifact-shape-unsupported'', ''build-record-absent'', ''build-record-stale'',
     ''library-name-unsupported'']"

fun cause_kind :: "cause \<Rightarrow> string" where
  "cause_kind (CompilerUnsupported _ _) = ''compiler-unsupported''"
| "cause_kind (SourceUnreadable _ _ _) = ''source-unreadable''"
| "cause_kind (ImportUnresolvable _ _) = ''import-unresolvable''"
| "cause_kind (ArtifactShapeUnsupported _ _ _) = ''artifact-shape-unsupported''"
| "cause_kind (BuildRecordAbsent _) = ''build-record-absent''"
| "cause_kind (BuildRecordStale _) = ''build-record-stale''"
| "cause_kind (LibraryNameUnsupported _ _ _) = ''library-name-unsupported''"

datatype reduced_mode = DeclarationOrderOnly
datatype policy_entry = Refuse_entry | Proceed_entry reduced_mode
datatype disposition = Refuse cause | ProceedReduced cause reduced_mode

definition POLICY_TABLE :: "(string \<times> policy_entry) list" where
  "POLICY_TABLE =
     [(''compiler-unsupported'', Refuse_entry), (''source-unreadable'', Refuse_entry),
      (''import-unresolvable'', Refuse_entry), (''artifact-shape-unsupported'', Refuse_entry),
      (''build-record-absent'', Refuse_entry), (''build-record-stale'', Refuse_entry),
      (''library-name-unsupported'', Refuse_entry)]"

text \<open>An entry the table lacked would be the unreachable branch, which raises.\<close>

definition policy :: "cause \<Rightarrow> disposition option" where
  "policy c =
     (case map_of POLICY_TABLE (cause_kind c) of
        None \<Rightarrow> None
      | Some Refuse_entry \<Rightarrow> Some (Refuse c)
      | Some (Proceed_entry m) \<Rightarrow> Some (ProceedReduced c m))"

lemma policy_refuses: "policy c = Some (Refuse c)"
  by (cases c) (simp_all add: policy_def POLICY_TABLE_def)

lemma cause_kinds_complete: "cause_kind c \<in> set causeKinds"
  by (cases c) (simp_all add: causeKinds_def)

section \<open>The supported compiler range\<close>

definition SUPPORTED_MIN :: string where "SUPPORTED_MIN = ''0.8.0''"
definition SUPPORTED_MAX :: string where "SUPPORTED_MAX = ''0.8.26''"

definition is_digit :: "char \<Rightarrow> bool" where
  "is_digit c \<longleftrightarrow> c \<in> set ''0123456789''"

fun digit_value :: "char \<Rightarrow> nat" where
  "digit_value c = length (takeWhile (\<lambda>d. d \<noteq> c) ''0123456789'')"

definition number_of :: "string \<Rightarrow> nat" where
  "number_of s = foldl (\<lambda>n c. n * 10 + digit_value c) 0 s"

text \<open>\<open>Number\<close> on the parts of a triple: digits only; missing parts read as 0.\<close>

fun compare_parts :: "nat list \<Rightarrow> nat list \<Rightarrow> int" where
  "compare_parts [] [] = 0"
| "compare_parts (l # ls) [] = (if l > 0 then 1 else compare_parts ls [])"
| "compare_parts [] (r # rs) = (if r > 0 then -1 else compare_parts [] rs)"
| "compare_parts (l # ls) (r # rs) = (if l > r then 1 else if l < r then -1 else compare_parts ls rs)"

definition compareVersions :: "string \<Rightarrow> string \<Rightarrow> int" where
  "compareVersions left right =
     compare_parts (map number_of (split_at_char (CHR ''.'') left))
       (map number_of (split_at_char (CHR ''.'') right))"

definition isVersionTriple :: "string \<Rightarrow> bool" where
  "isVersionTriple v \<longleftrightarrow>
     (let parts = split_at_char (CHR ''.'') v
      in length parts = 3 \<and> list_all (\<lambda>p. p \<noteq> [] \<and> list_all is_digit p) parts)"

definition isSupportedSolcVersion :: "string \<Rightarrow> bool" where
  "isSupportedSolcVersion v \<longleftrightarrow>
     isVersionTriple v \<and> compareVersions v SUPPORTED_MIN \<ge> 0 \<and> compareVersions v SUPPORTED_MAX \<le> 0"

lemma supported_parts:
  "map number_of (split_at_char (CHR ''.'') SUPPORTED_MIN) = [0, 8, 0]"
  "map number_of (split_at_char (CHR ''.'') SUPPORTED_MAX) = [0, 8, 26]"
  by code_simp+

text \<open>
  The compiler range is exactly 0.8.0 to 0.8.26.  A version is supported exactly when it is
  three dot-separated runs of digits whose values are 0, 8 and a number up to 26; nothing else,
  no prefix, suffix or shorter form, is accepted.
\<close>

theorem supported_versions_are_the_range:
  "isSupportedSolcVersion v \<longleftrightarrow>
    (case split_at_char (CHR ''.'') v of
       [a, b, c] \<Rightarrow> list_all (\<lambda>p. p \<noteq> [] \<and> list_all is_digit p) [a, b, c] \<and>
         number_of a = 0 \<and> number_of b = 8 \<and> number_of c \<le> 26
     | _ \<Rightarrow> False)"
proof -
  have three: "length (xs :: string list) = 3 \<Longrightarrow> \<exists>a b c. xs = [a, b, c]" for xs
    by (simp add: numeral_3_eq_3 length_Suc_conv) blast
  show ?thesis
  proof (cases "length (split_at_char (CHR ''.'') v) = 3")
    case True
    then obtain a b c where s: "split_at_char (CHR ''.'') v = [a, b, c]" using three by blast
    then show ?thesis
      by (auto simp: isSupportedSolcVersion_def isVersionTriple_def compareVersions_def supported_parts
          simp del: split_at_char.simps split: if_splits)
  next
    case False
    then show ?thesis
      by (auto simp: isSupportedSolcVersion_def isVersionTriple_def Let_def split: list.splits)
  qed
qed

section \<open>The partition\<close>

record partition =
  pt_target :: string
  pt_closure :: "string list"

text \<open>\<open>None\<close> is the broken invariant, which raises; the sources are a map in insertion order.\<close>

definition cutPartition :: "string \<Rightarrow> (string \<times> string) list \<Rightarrow> partition option" where
  "cutPartition target sources =
     (if sources = [] then None
      else if target \<notin> set (map fst sources) then None
      else Some \<lparr>pt_target = target, pt_closure = sort (map fst sources)\<rparr>)"

lemma cutPartition_ok:
  "cutPartition t sources = Some p \<longleftrightarrow>
     t \<in> set (map fst sources) \<and> p = \<lparr>pt_target = t, pt_closure = sort (map fst sources)\<rparr>"
  by (auto simp: cutPartition_def)

section \<open>Identity\<close>

definition MAX_LIBRARY_NAME_LENGTH :: nat where "MAX_LIBRARY_NAME_LENGTH = 36"
definition CORRUPTING_NAME_LENGTH :: nat where "CORRUPTING_NAME_LENGTH = 39"

text \<open>Link references: per file, per library, the offsets; in key order.\<close>

record bytecode =
  by_object :: string
  by_links :: js

definition band_of :: "string \<Rightarrow> cause option" where
  "band_of name =
     (if length name \<le> MAX_LIBRARY_NAME_LENGTH then None
      else Some (LibraryNameUnsupported name (length name)
        (if length name \<ge> CORRUPTING_NAME_LENGTH then Band39Up else Band37To38)))"

definition library_names :: "js \<Rightarrow> string list" where
  "library_names links = concat (map (\<lambda>f. own_keys (own_prop links f)) (own_keys links))"

fun first_band :: "string list \<Rightarrow> cause option" where
  "first_band [] = None"
| "first_band (n # ns) = (case band_of n of Some c \<Rightarrow> Some c | None \<Rightarrow> first_band ns)"

definition libraryNameBand :: "bytecode \<Rightarrow> cause option" where
  "libraryNameBand b = first_band (library_names (by_links b))"

datatype freshness = Fresh | NotFresh rejection_reason

text \<open>\<open>unlink\<close> is the engine's pair \<open>extractLinkReferences\<close>, \<open>unlinkBytecode\<close>.\<close>

definition verifyBuildRecordFreshness :: "(bytecode \<Rightarrow> string \<Rightarrow> string) \<Rightarrow> bytecode \<Rightarrow> string \<Rightarrow> freshness" where
  "verifyBuildRecordFreshness unlink deployed artifact =
     (if by_object deployed = [] \<or> artifact = [] \<or> artifact = ''0x'' then NotFresh NothingToCompare
      else if lower (unlink deployed artifact) = lower (''0x'' @ by_object deployed) then Fresh
      else NotFresh DeployedBytecodeDiffers)"

lemma first_band_None: "first_band ns = None \<longleftrightarrow> (\<forall>n \<in> set ns. length n \<le> MAX_LIBRARY_NAME_LENGTH)"
  by (induction ns) (auto simp: band_of_def)

lemma freshness_ok:
  "verifyBuildRecordFreshness unlink d a = Fresh \<longleftrightarrow>
     by_object d \<noteq> [] \<and> a \<noteq> [] \<and> a \<noteq> ''0x'' \<and> lower (unlink d a) = lower (''0x'' @ by_object d)"
  by (simp add: verifyBuildRecordFreshness_def)

end
