(* ===== verification/InputSources.thy ===== *)
theory InputSources
  imports InputCauses
begin

text \<open>
  \<open>validation-input/source-key.ts\<close> and \<open>import-graph.ts\<close>: the key under which the compiler
  sees a source, the imports of a source, and the walk from the target over its transitive
  imports.
\<close>

section \<open>Source keys\<close>

definition sourceKey :: "string \<Rightarrow> string \<Rightarrow> string option" where
  "sourceKey source contractsDirectory =
     (if is_absolute source then
        (let key = path_relative contractsDirectory source
         in if prefix ''..'' key then None else Some (slashes key))
      else Some (slashes source))"

definition isFileSystemSpecifier :: "string \<Rightarrow> bool" where
  "isFileSystemSpecifier s \<longleftrightarrow> is_absolute s \<or> prefix ''.'' s"

definition isExplicitlyRelative :: "string \<Rightarrow> bool" where
  "isExplicitlyRelative s \<longleftrightarrow> prefix ''.'' s"

definition resolveFileSystemImport :: "string \<Rightarrow> string \<Rightarrow> string \<Rightarrow> string" where
  "resolveFileSystemImport cwd importer s = path_resolve cwd (path_join (path_dirname importer) s)"

definition resolveModuleImport :: "string \<Rightarrow> string \<Rightarrow> string" where
  "resolveModuleImport importer s = slashes (path_join (path_dirname importer) s)"

definition modulePathOnDisk :: "string \<Rightarrow> string \<Rightarrow> string" where
  "modulePathOnDisk root s = path_join (path_join root ''node_modules'') s"

text \<open>A segment \<open>..\<close> between slashes of either kind is traversal.\<close>

definition isValidModuleSpecifier :: "string \<Rightarrow> bool" where
  "isValidModuleSpecifier s \<longleftrightarrow>
     \<not> is_absolute s \<and> ''..'' \<notin> set (split_at_char (CHR ''/'') (slashes s)) \<and>
     (if prefix ''@'' s then 2 \<le> count_list s (CHR ''/'') else CHR ''/'' \<in> set s)"

definition absoluteSourcePath :: "string \<Rightarrow> string \<Rightarrow> string" where
  "absoluteSourcePath sourcePath root =
     (if is_absolute sourcePath then sourcePath else path_resolve root sourcePath)"

section \<open>The imports of a source\<close>

datatype scan = InCode | InLine | InBlock | InString char

definition newline :: char where "newline = CHR 0x0A"
definition dquote :: char where "dquote = CHR 0x22"
definition squote :: char where "squote = CHR 0x27"

fun strip_comments :: "scan \<Rightarrow> string \<Rightarrow> string" where
  "strip_comments m [] = []"
| "strip_comments InCode (c # s) =
     (if c = CHR ''/'' \<and> s \<noteq> [] \<and> hd s = CHR ''/'' then strip_comments InLine (tl s)
      else if c = CHR ''/'' \<and> s \<noteq> [] \<and> hd s = CHR ''*'' then strip_comments InBlock (tl s)
      else c # strip_comments (if c = dquote \<or> c = squote then InString c else InCode) s)"
| "strip_comments InLine (c # s) =
     (if c = newline then c # strip_comments InCode s else strip_comments InLine s)"
| "strip_comments InBlock (c # s) =
     (if c = CHR ''*'' \<and> s \<noteq> [] \<and> hd s = CHR ''/'' then strip_comments InCode (tl s)
      else if c = newline then c # strip_comments InBlock s else strip_comments InBlock s)"
| "strip_comments (InString q) (c # s) =
     (if c = CHR 0x5C then
        (case s of [] \<Rightarrow> [c] | d # t \<Rightarrow> c # d # strip_comments (InString q) t)
      else c # strip_comments (if c = q then InCode else InString q) s)"

definition stripComments :: "string \<Rightarrow> string" where
  "stripComments s = strip_comments InCode s"

definition is_word_char :: "char \<Rightarrow> bool" where
  "is_word_char c \<longleftrightarrow>
     c \<in> set ''ABCDEFGHIJKLMNOPQRSTUVWXYZabcdefghijklmnopqrstuvwxyz0123456789_''"

text \<open>
  The matches of \<open>/\bimport\b([^;]*);/g\<close>; the flag says whether the character before is a word
  character.
\<close>

definition import_here :: "bool \<Rightarrow> string \<Rightarrow> bool" where
  "import_here w s \<longleftrightarrow>
     \<not> w \<and> prefix ''import'' s \<and> (case drop 6 s of [] \<Rightarrow> True | c # _ \<Rightarrow> \<not> is_word_char c) \<and>
     CHR '';'' \<in> set (drop 6 s)"

function import_statements :: "bool \<Rightarrow> string \<Rightarrow> string list" where
  "import_statements w [] = []"
| "import_statements w (c # s) =
     (if import_here w (c # s)
      then takeWhile (\<lambda>d. d \<noteq> CHR '';'') (drop 5 s) #
           import_statements False (tl (dropWhile (\<lambda>d. d \<noteq> CHR '';'') (drop 5 s)))
      else import_statements (is_word_char c) s)"
  by pat_completeness auto
termination
proof (relation "measure (\<lambda>(w, s). length s)", goal_cases)
  case (2 w c s)
  have "length (dropWhile (\<lambda>d. d \<noteq> CHR '';'') (drop 5 s)) \<le> length s"
    using length_dropWhile_le [of "\<lambda>d. d \<noteq> CHR '';''" "drop 5 s"] by simp
  then show ?case by auto
qed auto

fun first_literal :: "string \<Rightarrow> string option" where
  "first_literal [] = None"
| "first_literal (c # s) =
     (if (c = dquote \<or> c = squote) \<and> c \<in> set s then Some (takeWhile (\<lambda>d. d \<noteq> c) s)
      else first_literal s)"

definition extractImports :: "string \<Rightarrow> string list" where
  "extractImports source =
     filter (\<lambda>s. s \<noteq> []) (List.map_filter first_literal (import_statements False (stripComments source)))"

section \<open>The walk\<close>

datatype source_ref = FileRef string | ModuleRef string

record pending_ref =
  pe_ref :: source_ref
  pe_from :: "(string \<times> string) option"

record graph_request =
  gr_targetPath :: string
  gr_targetLabel :: string
  gr_contracts :: string
  gr_root :: string
  gr_cwd :: string
  gr_read :: "string \<Rightarrow> string option"
  gr_exists :: "string \<Rightarrow> bool"

fun refAddress :: "source_ref \<Rightarrow> string" where
  "refAddress (FileRef p) = p"
| "refAddress (ModuleRef s) = s"

fun refPath :: "source_ref \<Rightarrow> string \<Rightarrow> string" where
  "refPath (FileRef p) root = p"
| "refPath (ModuleRef s) root = modulePathOnDisk root s"

definition unresolvableImport :: "pending_ref \<Rightarrow> string \<Rightarrow> cause" where
  "unresolvableImport p label =
     (case pe_from p of
        None \<Rightarrow> ImportUnresolvable label (refAddress (pe_ref p))
      | Some (by1, s) \<Rightarrow> ImportUnresolvable by1 s)"

text \<open>The reference an import makes, or none where the host refuses it.\<close>

definition next_ref :: "graph_request \<Rightarrow> source_ref \<Rightarrow> string \<Rightarrow> source_ref option" where
  "next_ref rq current s =
     (if is_absolute s then None
      else
        (case (if isExplicitlyRelative s
               then (case current of
                       FileRef p \<Rightarrow> FileRef (resolveFileSystemImport (gr_cwd rq) p s)
                     | ModuleRef m \<Rightarrow> ModuleRef (resolveModuleImport m s))
               else ModuleRef s) of
           FileRef p \<Rightarrow> Some (FileRef p)
         | ModuleRef m \<Rightarrow> if isValidModuleSpecifier m then Some (ModuleRef m) else None))"

fun import_refs :: "graph_request \<Rightarrow> source_ref \<Rightarrow> string \<Rightarrow> string list \<Rightarrow> cause + pending_ref list" where
  "import_refs rq current key [] = Inr []"
| "import_refs rq current key (s # ss) =
     (case next_ref rq current s of
        None \<Rightarrow> Inl (ImportUnresolvable key s)
      | Some r \<Rightarrow>
          bind_sum (import_refs rq current key ss) (\<lambda>rs.
            Inr (\<lparr>pe_ref = r, pe_from = Some (key, s)\<rparr> # rs)))"

text \<open>One turn of the loop: the key, and what a new source adds.\<close>

definition visit ::
  "graph_request \<Rightarrow> pending_ref \<Rightarrow> string set \<Rightarrow> cause + string \<times> (string \<times> pending_ref list) option" where
  "visit rq p seen =
     (case sourceKey (refAddress (pe_ref p)) (gr_contracts rq) of
        None \<Rightarrow> Inl (unresolvableImport p (gr_targetLabel rq))
      | Some key \<Rightarrow>
          if key \<in> seen then Inr (key, None)
          else
            let disk = refPath (pe_ref p) (gr_root rq)
            in if \<not> gr_exists rq disk
               then Inl (if pe_from p = None then SourceUnreadable key disk SourceMissing
                         else unresolvableImport p (gr_targetLabel rq))
               else
                 (case gr_read rq disk of
                    None \<Rightarrow> Inl (SourceUnreadable key disk SourceUnreadableOnDisk)
                  | Some content \<Rightarrow>
                      bind_sum (import_refs rq (pe_ref p) key (extractImports content)) (\<lambda>rs.
                        Inr (key, Some (content, rs)))))"

partial_function (option) walk ::
  "graph_request \<Rightarrow> pending_ref list \<Rightarrow> string option \<Rightarrow> (string \<times> string) list \<Rightarrow>
   (cause + string \<times> (string \<times> string) list) option" where
  "walk rq pending targetKey sources =
     (case pending of
        [] \<Rightarrow> Some (case targetKey of
                 None \<Rightarrow> Inl (ImportUnresolvable (gr_targetLabel rq) (gr_targetPath rq))
               | Some k \<Rightarrow> Inr (k, sources))
      | p # rest \<Rightarrow>
          (case visit rq p (fst ` set sources) of
             Inl c \<Rightarrow> Some (Inl c)
           | Inr (key, found) \<Rightarrow>
               (case found of
                  None \<Rightarrow> walk rq rest (case targetKey of None \<Rightarrow> Some key | Some k \<Rightarrow> Some k) sources
                | Some (content, rs) \<Rightarrow>
                    walk rq (rest @ rs) (case targetKey of None \<Rightarrow> Some key | Some k \<Rightarrow> Some k)
                      (sources @ [(key, content)]))))"

definition resolveSourceGraph ::
  "graph_request \<Rightarrow> (cause + string \<times> (string \<times> string) list) option" where
  "resolveSourceGraph rq =
     walk rq [\<lparr>pe_ref = FileRef (gr_targetPath rq), pe_from = None\<rparr>] None []"

section \<open>Keys\<close>

text \<open>
  A project source's key is its path inside the contracts directory.  For an absolute
  source, a key exists exactly when the source's normalized path continues the directory's and
  does not start with two dots, and the key is then that continuation, with forward slashes: no
  absolute key, no key outside the directory, no Windows separator.
\<close>

theorem project_key_is_the_path_inside_contracts:
  assumes "is_absolute source"
  shows "sourceKey source dir = Some k \<longleftrightarrow>
    (\<exists>rest. normal_segments False source = normal_segments False dir @ rest \<and>
       \<not> prefix ''..'' (join_slash rest) \<and> k = slashes (join_slash rest))"
proof -
  let ?f = "normal_segments False dir" and ?t = "normal_segments False source"
  let ?n = "common_prefix ?f ?t"
  show ?thesis
  proof (cases "?n < length ?f")
    case True
    then obtain m where "length ?f - ?n = Suc m" by (metis Suc_diff_Suc)
    then have "path_relative dir source = join_slash (''..'' # replicate m ''..'' @ drop ?n ?t)"
      by (simp add: path_relative_def Let_def del: join_slash.simps)
    then have "sourceKey source dir = None"
      using assms join_dotdot by (simp add: sourceKey_def Let_def del: join_slash.simps)
    moreover have "?t \<noteq> ?f @ rest" for rest
      using True common_prefix_append [of ?f rest] by auto
    ultimately show ?thesis by auto
  next
    case False
    then have n: "?n = length ?f" using common_prefix_le [of ?f ?t] by simp
    then have t: "?t = ?f @ drop ?n ?t"
      using common_prefix_take [of ?f ?t] by (metis append_take_drop_id order_refl take_all)
    have "path_relative dir source = join_slash (drop ?n ?t)"
      using n by (simp add: path_relative_def Let_def)
    then have "sourceKey source dir = Some k \<longleftrightarrow>
        \<not> prefix ''..'' (join_slash (drop ?n ?t)) \<and> k = slashes (join_slash (drop ?n ?t))"
      using assms by (auto simp: sourceKey_def Let_def)
    moreover have "?t = ?f @ rest \<longleftrightarrow> rest = drop ?n ?t" for rest
      using t by (metis append_eq_conv_conj n)
    ultimately show ?thesis by auto
  qed
qed

section \<open>What the walk collects\<close>

text \<open>The references the target's imports lead to, over what is readable.\<close>

inductive reachable :: "graph_request \<Rightarrow> source_ref \<Rightarrow> bool" for rq where
  target: "reachable rq (FileRef (gr_targetPath rq))"
| imported: "reachable rq r \<Longrightarrow> gr_read rq (refPath r (gr_root rq)) = Some content \<Longrightarrow>
     s \<in> set (extractImports content) \<Longrightarrow> next_ref rq r s = Some r' \<Longrightarrow> reachable rq r'"

definition key_of :: "graph_request \<Rightarrow> source_ref \<Rightarrow> string option" where
  "key_of rq r = sourceKey (refAddress r) (gr_contracts rq)"

definition imports_among :: "graph_request \<Rightarrow> source_ref \<Rightarrow> string \<Rightarrow> string set \<Rightarrow> source_ref set \<Rightarrow> bool" where
  "imports_among rq r content keys refs \<longleftrightarrow>
     (\<forall>s \<in> set (extractImports content). \<exists>r'. next_ref rq r s = Some r' \<and>
        (r' \<in> refs \<or> (\<exists>k. key_of rq r' = Some k \<and> k \<in> keys)))"

definition sound_source :: "graph_request \<Rightarrow> string set \<Rightarrow> source_ref set \<Rightarrow> string \<times> string \<Rightarrow> bool" where
  "sound_source rq keys refs kc \<longleftrightarrow>
     (\<exists>r. reachable rq r \<and> key_of rq r = Some (fst kc) \<and> gr_exists rq (refPath r (gr_root rq)) \<and>
        gr_read rq (refPath r (gr_root rq)) = Some (snd kc) \<and> imports_among rq r (snd kc) keys refs)"

definition walk_inv :: "graph_request \<Rightarrow> pending_ref list \<Rightarrow> string option \<Rightarrow> (string \<times> string) list \<Rightarrow> bool" where
  "walk_inv rq pending tk sources \<longleftrightarrow>
     (\<forall>p \<in> set pending. reachable rq (pe_ref p)) \<and> distinct (map fst sources) \<and>
     (\<forall>kc \<in> set sources. sound_source rq (fst ` set sources) (pe_ref ` set pending) kc) \<and>
     (case tk of
        None \<Rightarrow> sources = [] \<and> map pe_ref pending = [FileRef (gr_targetPath rq)]
      | Some k \<Rightarrow> k \<in> fst ` set sources \<and> key_of rq (FileRef (gr_targetPath rq)) = Some k)"

lemma import_refs_Cons:
  "import_refs rq r key (s # ss) = Inr rs \<longleftrightarrow>
     (\<exists>r' rs'. next_ref rq r s = Some r' \<and> import_refs rq r key ss = Inr rs' \<and>
        rs = \<lparr>pe_ref = r', pe_from = Some (key, s)\<rparr> # rs')"
  by (auto simp: bind_sum_Inr split: option.split)

lemma import_refs_all:
  assumes "import_refs rq r key ss = Inr rs" and "s \<in> set ss"
  shows "\<exists>r'. next_ref rq r s = Some r' \<and> r' \<in> pe_ref ` set rs"
  using assms
proof (induction ss arbitrary: rs)
  case (Cons x ss)
  then obtain r' rs' where x: "next_ref rq r x = Some r'" "import_refs rq r key ss = Inr rs'"
    "rs = \<lparr>pe_ref = r', pe_from = Some (key, x)\<rparr> # rs'" unfolding import_refs_Cons by blast
  then show ?case using Cons.IH [OF x(2)] Cons.prems(2) by (cases "s = x") auto
qed simp

lemma import_refs_from:
  assumes "import_refs rq r key ss = Inr rs" and "p \<in> set rs"
  shows "\<exists>s \<in> set ss. next_ref rq r s = Some (pe_ref p)"
  using assms
proof (induction ss arbitrary: rs)
  case (Cons x ss)
  then obtain r' rs' where x: "next_ref rq r x = Some r'" "import_refs rq r key ss = Inr rs'"
    "rs = \<lparr>pe_ref = r', pe_from = Some (key, x)\<rparr> # rs'" unfolding import_refs_Cons by blast
  then show ?case using Cons.IH [OF x(2)] Cons.prems(2) by auto
qed simp

lemma imports_among_mono:
  "imports_among rq r c keys refs \<Longrightarrow> keys \<subseteq> keys' \<Longrightarrow>
     (\<forall>r' \<in> refs. r' \<in> refs' \<or> (\<exists>k. key_of rq r' = Some k \<and> k \<in> keys')) \<Longrightarrow>
     imports_among rq r c keys' refs'"
  unfolding imports_among_def by (meson subsetD)

lemma sound_source_mono:
  "sound_source rq keys refs kc \<Longrightarrow> keys \<subseteq> keys' \<Longrightarrow>
     (\<forall>r' \<in> refs. r' \<in> refs' \<or> (\<exists>k. key_of rq r' = Some k \<and> k \<in> keys')) \<Longrightarrow>
     sound_source rq keys' refs' kc"
  unfolding sound_source_def using imports_among_mono by meson

lemma visit_known:
  "visit rq p seen = Inr (key, None) \<longleftrightarrow> key_of rq (pe_ref p) = Some key \<and> key \<in> seen"
  by (auto simp: visit_def key_of_def Let_def bind_sum_def split: option.splits if_splits sum.splits)

lemma visit_new:
  "visit rq p seen = Inr (key, Some (content, rs)) \<longleftrightarrow>
     key_of rq (pe_ref p) = Some key \<and> key \<notin> seen \<and> gr_exists rq (refPath (pe_ref p) (gr_root rq)) \<and>
     gr_read rq (refPath (pe_ref p) (gr_root rq)) = Some content \<and>
     import_refs rq (pe_ref p) key (extractImports content) = Inr rs"
  by (auto simp: visit_def key_of_def Let_def bind_sum_Inr split: option.splits if_splits)

lemma walk_inv_known:
  assumes inv: "walk_inv rq (p # rest) tk sources" and v: "visit rq p (fst ` set sources) = Inr (key, None)"
  shows "walk_inv rq rest (case tk of None \<Rightarrow> Some key | Some k \<Rightarrow> Some k) sources"
proof -
  from v have k: "key_of rq (pe_ref p) = Some key" "key \<in> fst ` set sources"
    by (auto simp: visit_known)
  then have "tk \<noteq> None" using inv by (cases tk) (auto simp: walk_inv_def)
  moreover have "sound_source rq (fst ` set sources) (pe_ref ` set rest) kc" if "kc \<in> set sources" for kc
  proof -
    from inv that have "sound_source rq (fst ` set sources) (pe_ref ` set (p # rest)) kc"
      by (simp add: walk_inv_def)
    moreover have "\<forall>r' \<in> pe_ref ` set (p # rest). r' \<in> pe_ref ` set rest \<or>
        (\<exists>k. key_of rq r' = Some k \<and> k \<in> fst ` set sources)" using k by auto
    ultimately show ?thesis by (rule sound_source_mono [OF _ order_refl])
  qed
  ultimately show ?thesis using inv by (cases tk) (auto simp: walk_inv_def)
qed

lemma walk_inv_new:
  assumes inv: "walk_inv rq (p # rest) tk sources"
    and v: "visit rq p (fst ` set sources) = Inr (key, Some (content, rs))"
  shows "walk_inv rq (rest @ rs) (case tk of None \<Rightarrow> Some key | Some k \<Rightarrow> Some k) (sources @ [(key, content)])"
proof -
  from v have k: "key_of rq (pe_ref p) = Some key" "key \<notin> fst ` set sources"
    "gr_exists rq (refPath (pe_ref p) (gr_root rq))" "gr_read rq (refPath (pe_ref p) (gr_root rq)) = Some content"
    and rs: "import_refs rq (pe_ref p) key (extractImports content) = Inr rs"
    by (auto simp: visit_new)
  have p: "reachable rq (pe_ref p)" using inv by (simp add: walk_inv_def)
  let ?keys = "fst ` set (sources @ [(key, content)])" and ?refs = "pe_ref ` set (rest @ rs)"
  have old: "sound_source rq ?keys ?refs kc" if "kc \<in> set sources" for kc
  proof -
    from inv that have "sound_source rq (fst ` set sources) (pe_ref ` set (p # rest)) kc"
      by (simp add: walk_inv_def)
    moreover have "fst ` set sources \<subseteq> ?keys" by auto
    moreover have "\<forall>r' \<in> pe_ref ` set (p # rest). r' \<in> ?refs \<or> (\<exists>k. key_of rq r' = Some k \<and> k \<in> ?keys)"
      using k(1) by auto
    ultimately show ?thesis by (rule sound_source_mono)
  qed
  have "imports_among rq (pe_ref p) content ?keys ?refs"
    unfolding imports_among_def using import_refs_all [OF rs] by fastforce
  then have new: "sound_source rq ?keys ?refs (key, content)"
    unfolding sound_source_def using p k by (intro exI [of _ "pe_ref p"]) auto
  have reach: "reachable rq (pe_ref q)" if "q \<in> set (rest @ rs)" for q
  proof (cases "q \<in> set rest")
    case False
    then have "q \<in> set rs" using that by simp
    then obtain s where "s \<in> set (extractImports content)" "next_ref rq (pe_ref p) s = Some (pe_ref q)"
      using import_refs_from [OF rs] by blast
    then show ?thesis by (rule reachable.imported [OF p k(4)])
  qed (use inv in \<open>simp add: walk_inv_def\<close>)
  have tk: "case (case tk of None \<Rightarrow> Some key | Some k \<Rightarrow> Some k) of
      None \<Rightarrow> sources @ [(key, content)] = [] \<and> map pe_ref (rest @ rs) = [FileRef (gr_targetPath rq)]
    | Some k \<Rightarrow> k \<in> ?keys \<and> key_of rq (FileRef (gr_targetPath rq)) = Some k"
    using inv k(1) by (cases tk) (auto simp: walk_inv_def)
  show ?thesis
    unfolding walk_inv_def
  proof (intro conjI)
    show "\<forall>kc \<in> set (sources @ [(key, content)]). sound_source rq ?keys ?refs kc"
      using old new by simp
    show "distinct (map fst (sources @ [(key, content)]))"
      using inv k(2) by (simp add: walk_inv_def)
    show "\<forall>q \<in> set (rest @ rs). reachable rq (pe_ref q)" using reach by blast
  qed (rule tk)
qed

lemma walk_partial:
  assumes "walk rq pending tk sources = Some res"
  shows "walk_inv rq pending tk sources \<longrightarrow>
    (\<forall>k out. res = Inr (k, out) \<longrightarrow> walk_inv rq [] (Some k) out)"
proof (rule walk.raw_induct [where P = "\<lambda>rq pending tk sources res. walk_inv rq pending tk sources \<longrightarrow>
    (\<forall>k out. res = Inr (k, out) \<longrightarrow> walk_inv rq [] (Some k) out)", OF _ assms], intro impI allI)
  fix walk' :: "graph_request \<Rightarrow> pending_ref list \<Rightarrow> string option \<Rightarrow> (string \<times> string) list \<Rightarrow>
    (cause + string \<times> (string \<times> string) list) option"
    and rq pending tk sources y k out
  assume IH: "\<And>rq pending tk sources y. walk' rq pending tk sources = Some y \<Longrightarrow>
      walk_inv rq pending tk sources \<longrightarrow> (\<forall>k out. y = Inr (k, out) \<longrightarrow> walk_inv rq [] (Some k) out)"
    and step: "(case pending of
        [] \<Rightarrow> Some (case tk of
                 None \<Rightarrow> Inl (ImportUnresolvable (gr_targetLabel rq) (gr_targetPath rq))
               | Some k \<Rightarrow> Inr (k, sources))
      | p # rest \<Rightarrow>
          (case visit rq p (fst ` set sources) of
             Inl c \<Rightarrow> Some (Inl c)
           | Inr (key, None) \<Rightarrow> walk' rq rest (case tk of None \<Rightarrow> Some key | Some k \<Rightarrow> Some k) sources
           | Inr (key, Some (content, rs)) \<Rightarrow>
               walk' rq (rest @ rs) (case tk of None \<Rightarrow> Some key | Some k \<Rightarrow> Some k)
                 (sources @ [(key, content)]))) = Some y"
    and inv: "walk_inv rq pending tk sources" and y: "y = Inr (k, out)"
  show "walk_inv rq [] (Some k) out"
  proof (cases pending)
    case Nil
    then show ?thesis using step inv y by (cases tk) auto
  next
    case (Cons p rest)
    show ?thesis
    proof (cases "visit rq p (fst ` set sources)")
      case (Inl c)
      then show ?thesis using step y Cons by simp
    next
      case (Inr v)
      obtain key found where v: "v = (key, found)" by force
      show ?thesis
      proof (cases found)
        case None
        then have "walk' rq rest (case tk of None \<Rightarrow> Some key | Some k \<Rightarrow> Some k) sources = Some y"
          using step Cons Inr v by simp
        moreover have "walk_inv rq rest (case tk of None \<Rightarrow> Some key | Some k \<Rightarrow> Some k) sources"
          using inv Inr v None unfolding Cons by (intro walk_inv_known) simp_all
        ultimately show ?thesis using IH y by blast
      next
        case (Some f)
        obtain content rs where f: "f = (content, rs)" by force
        then have "walk' rq (rest @ rs) (case tk of None \<Rightarrow> Some key | Some k \<Rightarrow> Some k)
            (sources @ [(key, content)]) = Some y"
          using step Cons Inr v Some by simp
        moreover have "walk_inv rq (rest @ rs) (case tk of None \<Rightarrow> Some key | Some k \<Rightarrow> Some k)
            (sources @ [(key, content)])"
          using inv Inr v Some f unfolding Cons by (intro walk_inv_new) simp_all
        ultimately show ?thesis using IH y by blast
      qed
    qed
  qed
qed

text \<open>
  C38: the walk collects exactly an import closure.  When it succeeds, the target key is the
  target file's own key and is among the collected keys, no key is collected twice, and every
  collected source is the readable content of a reference the target's imports lead to, all of
  whose own imports resolve to collected keys.
\<close>

theorem graph_is_an_import_closure:
  assumes "resolveSourceGraph rq = Some (Inr (k, sources))"
  shows "key_of rq (FileRef (gr_targetPath rq)) = Some k \<and> k \<in> fst ` set sources \<and>
    distinct (map fst sources) \<and>
    list_all (sound_source rq (fst ` set sources) {}) sources"
proof -
  have "walk_inv rq [\<lparr>pe_ref = FileRef (gr_targetPath rq), pe_from = None\<rparr>] None []"
    by (simp add: walk_inv_def reachable.target)
  then have "walk_inv rq [] (Some k) sources"
    using walk_partial assms unfolding resolveSourceGraph_def by blast
  then show ?thesis by (simp add: walk_inv_def list_all_iff)
qed

section \<open>The walk ends\<close>

definition closure_keys :: "graph_request \<Rightarrow> string set" where
  "closure_keys rq = {k. \<exists>r. reachable rq r \<and> key_of rq r = Some k}"

lemma closure_keys_finite:
  assumes "finite {r. reachable rq r}"
  shows "finite (closure_keys rq)"
proof -
  have "closure_keys rq \<subseteq> (\<lambda>r. the (key_of rq r)) ` {r. reachable rq r}"
    by (force simp: closure_keys_def)
  then show ?thesis using assms by (meson finite_imageI finite_subset)
qed

lemma walk_total:
  assumes fin: "finite {r. reachable rq r}"
  shows "walk_inv rq pending tk sources \<Longrightarrow> \<exists>res. walk rq pending tk sources = Some res"
proof (induction "(card (closure_keys rq - fst ` set sources), length pending)"
    arbitrary: pending tk sources rule: wf_induct_rule [OF wf_lex_prod [OF wf_less wf_less]])
  case 1
  note IH = 1(1) and inv = 1(2)
  show ?case
  proof (cases pending)
    case Nil
    then show ?thesis by (simp add: walk.simps)
  next
    case (Cons p rest)
    show ?thesis
    proof (cases "visit rq p (fst ` set sources)")
      case (Inl c)
      then show ?thesis using Cons by (simp add: walk.simps)
    next
      case (Inr v)
      obtain key found where v: "v = (key, found)" by force
      let ?tk = "case tk of None \<Rightarrow> Some key | Some k \<Rightarrow> Some k"
      show ?thesis
      proof (cases found)
        case None
        have "walk_inv rq rest ?tk sources"
          using inv Inr v None unfolding Cons by (intro walk_inv_known) simp_all
        then obtain res where "walk rq rest ?tk sources = Some res"
          using IH [of sources rest ?tk] Cons by (auto simp: lex_prod_def)
        then show ?thesis using Cons Inr v None by (subst walk.simps) simp
      next
        case (Some f)
        obtain content rs where f: "f = (content, rs)" by force
        have inv': "walk_inv rq (rest @ rs) ?tk (sources @ [(key, content)])"
          using inv Inr v Some f unfolding Cons by (intro walk_inv_new) simp_all
        have "key \<in> closure_keys rq" "key \<notin> fst ` set sources"
          using inv Inr v Some f visit_new unfolding Cons walk_inv_def closure_keys_def by auto
        then have "closure_keys rq - fst ` set (sources @ [(key, content)]) \<subset> closure_keys rq - fst ` set sources"
          by auto
        then have "card (closure_keys rq - fst ` set (sources @ [(key, content)])) <
            card (closure_keys rq - fst ` set sources)"
          using closure_keys_finite [OF fin] by (meson finite_Diff psubset_card_mono)
        then obtain res where "walk rq (rest @ rs) ?tk (sources @ [(key, content)]) = Some res"
          using IH [of "sources @ [(key, content)]" "rest @ rs" ?tk] inv' by (auto simp: lex_prod_def)
        then show ?thesis using Cons Inr v Some f by (subst walk.simps) simp
      qed
    qed
  qed
qed

text \<open>
  C39: the walk ends whenever there is an end.  If only finitely many references are reachable
  from the target through readable sources, the walk returns, with a graph or with a cause:
  import cycles, diamonds and repeated imports never make it run on.
\<close>

theorem graph_walk_terminates:
  assumes "finite {r. reachable rq r}"
  shows "\<exists>res. resolveSourceGraph rq = Some res"
  unfolding resolveSourceGraph_def
  by (rule walk_total [OF assms]) (simp add: walk_inv_def reachable.target)

section \<open>Witnesses\<close>

text \<open>Two sources that import each other.\<close>

definition demo_import :: "string \<Rightarrow> string" where
  "demo_import name = ''import '' @ [dquote] @ ''./'' @ name @ [dquote] @ '';''"

definition demo_graph :: graph_request where
  "demo_graph = \<lparr>gr_targetPath = ''/p/c/T'', gr_targetLabel = ''T'', gr_contracts = ''/p/c'', gr_root = ''/p'',
     gr_cwd = ''/p'',
     gr_read = (\<lambda>f. if f = ''/p/c/T'' then Some (demo_import ''A'')
                else if f = ''/p/c/A'' then Some (demo_import ''T'') else None),
     gr_exists = (\<lambda>f. f = ''/p/c/T'' \<or> f = ''/p/c/A'')\<rparr>"

text \<open>The two references, named so that a step of the walk matches the lemma about it.\<close>

definition demo_first :: pending_ref where
  "demo_first = \<lparr>pe_ref = FileRef ''/p/c/T'', pe_from = None\<rparr>"

definition demo_next :: "string \<Rightarrow> string \<Rightarrow> pending_ref" where
  "demo_next from_key name = \<lparr>pe_ref = FileRef (''/p/c/'' @ name), pe_from = Some (from_key, ''./'' @ name)\<rparr>"

lemma demo_visits:
  "visit demo_graph demo_first (set []) =
     Inr (''T'', Some (demo_import ''A'', [demo_next ''T'' ''A'']))"
  "visit demo_graph (demo_next ''T'' ''A'') (set [''T'']) =
     Inr (''A'', Some (demo_import ''T'', [demo_next ''A'' ''T'']))"
  "visit demo_graph (demo_next ''A'' ''T'') (set [''T'', ''A'']) = Inr (''T'', None)"
  by code_simp+

lemma demo_graph_walks:
  "resolveSourceGraph demo_graph = Some (Inr (''T'', [(''T'', demo_import ''A''), (''A'', demo_import ''T'')]))"
proof -
  note walk3 = walk.simps [of demo_graph]
  have start: "resolveSourceGraph demo_graph = walk demo_graph [demo_first] None []"
    by (simp add: resolveSourceGraph_def demo_first_def demo_graph_def)
  have "walk demo_graph [demo_first] None [] =
      walk demo_graph [demo_next ''T'' ''A''] (Some ''T'') [(''T'', demo_import ''A'')]"
    by (subst walk3) (use demo_visits(1) in simp)
  also have "\<dots> = walk demo_graph [demo_next ''A'' ''T''] (Some ''T'')
      [(''T'', demo_import ''A''), (''A'', demo_import ''T'')]"
    by (subst walk3) (use demo_visits(2) in simp)
  also have "\<dots> = walk demo_graph [] (Some ''T'') [(''T'', demo_import ''A''), (''A'', demo_import ''T'')]"
    by (subst walk3) (use demo_visits(3) in simp)
  also have "\<dots> = Some (Inr (''T'', [(''T'', demo_import ''A''), (''A'', demo_import ''T'')]))"
    by (subst walk3) simp
  finally show ?thesis using start by simp
qed

lemma demo_graph_refs:
  "extractImports (demo_import ''A'') = [''./A'']" "extractImports (demo_import ''T'') = [''./T'']"
  "next_ref demo_graph (FileRef ''/p/c/T'') ''./A'' = Some (FileRef ''/p/c/A'')"
  "next_ref demo_graph (FileRef ''/p/c/A'') ''./T'' = Some (FileRef ''/p/c/T'')"
  by code_simp+

lemma demo_graph_reachable: "reachable demo_graph r \<Longrightarrow> r = FileRef ''/p/c/T'' \<or> r = FileRef ''/p/c/A''"
proof (induction rule: reachable.induct)
  case target
  then show ?case by (simp add: demo_graph_def)
next
  case (imported r content s r')
  have "content = demo_import ''A'' \<and> r = FileRef ''/p/c/T'' \<or> content = demo_import ''T'' \<and> r = FileRef ''/p/c/A''"
    using imported.IH imported.hyps(2) by (auto simp: demo_graph_def)
  then show ?case using imported.hyps(3,4) by (auto simp: demo_graph_refs)
qed

lemma project_key_is_the_path_inside_contracts_witness:
  "\<exists>rest. normal_segments False ''/p/c/T'' = normal_segments False ''/p/c'' @ rest \<and>
     \<not> prefix ''..'' (join_slash rest) \<and> ''T'' = slashes (join_slash rest)"
proof -
  have "is_absolute ''/p/c/T''" by code_simp
  moreover have "sourceKey ''/p/c/T'' ''/p/c'' = Some ''T''" by code_simp
  ultimately show ?thesis using project_key_is_the_path_inside_contracts by blast
qed

lemma graph_is_an_import_closure_witness:
  "key_of demo_graph (FileRef ''/p/c/T'') = Some ''T'' \<and>
   list_all (sound_source demo_graph {''T'', ''A''} {}) [(''T'', demo_import ''A''), (''A'', demo_import ''T'')]"
  using graph_is_an_import_closure [OF demo_graph_walks] by (simp add: demo_graph_def)

lemma graph_walk_terminates_witness: "\<exists>res. resolveSourceGraph demo_graph = Some res"
proof (rule graph_walk_terminates)
  have "{r. reachable demo_graph r} \<subseteq> {FileRef ''/p/c/T'', FileRef ''/p/c/A''}"
    using demo_graph_reachable by blast
  then show "finite {r. reachable demo_graph r}" by (rule finite_subset) simp
qed


end
