(* ===== verification/Output.thy ===== *)
theory Output
  imports Prelude
begin

text \<open>
  \<open>output/silence.ts\<close>, \<open>output/channel.ts\<close> and \<open>output/engine.ts\<close>: the silencing flag, the
  channel that records degraded-mode notes before it writes them, and the window in which a call
  of the upgrade-safety engine has its \<open>console.error\<close> writes captured.

  The state is the process's: the flag, what \<open>console.error\<close> is bound to, the open window, what
  reached the terminal and the host's sink, and the channel of the operation at hand.  An engine
  call is any function on that state that ends in a value or an exception.
\<close>

section \<open>Notes\<close>

datatype degraded_code =
    NamespacedAstOnly | StorageLayoutUnavailable | ArtifactNameIndeterminate
  | EngineWarning | EngineNote | NotesTruncated

definition degradedCodes :: "degraded_code list" where
  "degradedCodes =
     [NamespacedAstOnly, StorageLayoutUnavailable, ArtifactNameIndeterminate, EngineWarning, EngineNote,
      NotesTruncated]"

record degraded_note =
  nt_code :: degraded_code
  nt_summary :: string
  nt_detail :: "string list"
  nt_remedy :: string

text \<open>What a caller hands in: \<open>detail\<close> is none where it is not an array.\<close>

record note_input =
  ni_code :: degraded_code
  ni_summary :: string
  ni_detail :: "string list option"
  ni_remedy :: string

datatype note_field = FieldSummary | FieldDetail | FieldRemedy

definition RECORDED_NOTE_CAP :: nat where
  "RECORDED_NOTE_CAP = 100"

definition DETAIL_INDENT :: string where
  "DETAIL_INDENT = ''    ''"

definition is_space :: "char \<Rightarrow> bool" where
  "is_space c \<longleftrightarrow> (of_char c :: nat) \<in> {9, 10, 11, 12, 13, 32, 160}"

definition trim_end :: "string \<Rightarrow> string" where
  "trim_end s = rev (dropWhile is_space (rev s))"

definition trim :: "string \<Rightarrow> string" where
  "trim s = trim_end (dropWhile is_space s)"

fun join_with :: "char \<Rightarrow> string list \<Rightarrow> string" where
  "join_with d [] = []"
| "join_with d [x] = x"
| "join_with d (x # xs) = x @ d # join_with d xs"

definition newline :: char where
  "newline = CHR 0x0A"

section \<open>The process\<close>

datatype console = HostConsole | CaptureStub

text \<open>
  The host's sink: whether it has a \<open>warn\<close> and a \<open>log\<close>, and for which texts a write raises.
\<close>

record host_facts =
  hf_warn :: bool
  hf_log :: bool
  hf_raises :: "string \<Rightarrow> bool"
  hf_fromDeployer :: bool
  hf_quietRequested :: bool

record process =
  ps_silenced :: bool
  ps_console :: console
  ps_activeCall :: "string option"
  ps_captured :: "string list"
  ps_terminal :: "string list"
  ps_written :: "string list"
  ps_appended :: "degraded_note list"
  ps_suppressed :: nat

definition silenceWarnings :: "process \<Rightarrow> process" where
  "silenceWarnings p = p\<lparr>ps_silenced := True\<rparr>"

definition isSilenced :: "process \<Rightarrow> bool" where
  "isSilenced p = ps_silenced p"

definition resetSilenceForTests :: "process \<Rightarrow> process" where
  "resetSilenceForTests p = p\<lparr>ps_silenced := False\<rparr>"

section \<open>The channel\<close>

text \<open>Texts are the code's; a dash beyond Latin-1 is written as a hyphen.\<close>

datatype level = LevelWarning | LevelNote

fun level_text :: "level \<Rightarrow> string" where
  "level_text LevelWarning = ''Warning''"
| "level_text LevelNote = ''Note''"

text \<open>One write, and only where the flag allows; a write that raises is swallowed.\<close>

definition emit :: "host_facts \<Rightarrow> level \<Rightarrow> string \<Rightarrow> string list \<Rightarrow> process \<Rightarrow> process" where
  "emit hf lv title detail p =
     (if isSilenced p then p
      else
        (let msg = join_with newline ((level_text lv @ '': '' @ title) # map (\<lambda>l. DETAIL_INDENT @ l) detail)
         in if (\<not> hf_warn hf \<and> \<not> hf_log hf) \<or> hf_raises hf msg then p
            else p\<lparr>ps_written := ps_written p @ [msg]\<rparr>))"

definition describe_channel :: "host_facts \<Rightarrow> string" where
  "describe_channel hf =
     ''the plugin output channel (sink lineage: ''
     @ (if hf_fromDeployer hf then ''deployer'' else ''config-lineage'')
     @ ''; host quiet requested: '' @ (if hf_quietRequested hf then ''true'' else ''false'') @ '')''"

definition truncationNote :: "nat \<Rightarrow> degraded_note" where
  "truncationNote n =
     \<lparr>nt_code = NotesTruncated,
      nt_summary = decimal n @ '' further degraded-mode note(s) were suppressed after the first ''
        @ decimal RECORDED_NOTE_CAP @ '' on this operation'',
      nt_detail =
        [''This channel records at most '' @ decimal RECORDED_NOTE_CAP @ '' notes per operation.'',
         ''Suppressed notes were neither recorded nor written, so the count above is the only record of them.''],
      nt_remedy =
        ''Re-run the operation on a smaller set of contracts to see the remaining notes, or address the notes already listed''
        @ '' - an operation producing more than '' @ decimal RECORDED_NOTE_CAP
        @ '' distinct degraded statements usually has one underlying cause.''\<rparr>"

definition warn :: "host_facts \<Rightarrow> string \<Rightarrow> string list \<Rightarrow> process \<Rightarrow> process" where
  "warn hf title detail p = emit hf LevelWarning title detail p"

definition advise :: "host_facts \<Rightarrow> string \<Rightarrow> string list \<Rightarrow> process \<Rightarrow> process" where
  "advise hf title detail p = emit hf LevelNote title detail p"

text \<open>\<open>DegradedNoteInvalidError\<close>: the field and the channel's description.\<close>

datatype note_error = NoteInvalid note_field string

definition degraded :: "host_facts \<Rightarrow> note_input \<Rightarrow> (process, note_error, degraded_note) io" where
  "degraded hf n p =
     (if trim (ni_summary n) = [] then (Inl (NoteInvalid FieldSummary (describe_channel hf)), p)
      else if trim (ni_remedy n) = [] then (Inl (NoteInvalid FieldRemedy (describe_channel hf)), p)
      else
        (case ni_detail n of
           None \<Rightarrow> (Inl (NoteInvalid FieldDetail (describe_channel hf)), p)
         | Some d \<Rightarrow>
             (let frozen = \<lparr>nt_code = ni_code n, nt_summary = ni_summary n, nt_detail = d, nt_remedy = ni_remedy n\<rparr>
              in if RECORDED_NOTE_CAP \<le> length (ps_appended p)
                 then (Inr frozen, p\<lparr>ps_suppressed := ps_suppressed p + 1\<rparr>)
                 else
                   (Inr frozen,
                    emit hf LevelWarning (nt_summary frozen) (nt_detail frozen @ [''Remedy: '' @ nt_remedy frozen])
                      (p\<lparr>ps_appended := ps_appended p @ [frozen]\<rparr>)))))"

definition recorded :: "process \<Rightarrow> degraded_note list" where
  "recorded p = (if ps_suppressed p = 0 then ps_appended p else ps_appended p @ [truncationNote (ps_suppressed p)])"

section \<open>The engine's writes\<close>

datatype declared_return = Synchronous | PromiseReturn

record engine_export =
  ee_name :: string
  ee_return :: declared_return
  ee_site :: string

definition engineWarningCapableExports :: "engine_export list" where
  "engineWarningCapableExports =
     [\<lparr>ee_name = ''getErrors'', ee_return = Synchronous,
       ee_site = ''dist/validate/overrides.js:processExceptions, via dist/validate/query.js''\<rparr>,
      \<lparr>ee_name = ''assertUpgradeSafe'', ee_return = Synchronous,
       ee_site = ''same, via getErrors''\<rparr>,
      \<lparr>ee_name = ''getStorageUpgradeReport'', ee_return = Synchronous,
       ee_site = ''dist/storage/index.js:getStorageUpgradeReport (logWarning and logNote)''\<rparr>,
      \<lparr>ee_name = ''assertStorageUpgradeSafe'', ee_return = Synchronous,
       ee_site = ''same, via getStorageUpgradeReport''\<rparr>,
      \<lparr>ee_name = ''getStorageUpgradeErrors'', ee_return = Synchronous,
       ee_site = ''same, via assertStorageUpgradeSafe''\<rparr>,
      \<lparr>ee_name = ''validate'', ee_return = Synchronous,
       ee_site = ''dist/validate/run.js:assertNotNamespace; dist/validate/run/initializer.js:getPossibleInitializers; dist/storage/namespace.js:warnIfCustomLayoutAndNamespacesFound''\<rparr>,
      \<lparr>ee_name = ''UpgradeableContract'', ee_return = Synchronous,
       ee_site = ''dist/standalone.js constructor, via getErrors''\<rparr>,
      \<lparr>ee_name = ''silenceWarnings'', ee_return = Synchronous,
       ee_site = ''dist/utils/log.js:silenceWarnings - writes its own farewell notice before setting the flag''\<rparr>,
      \<lparr>ee_name = ''addProxyToManifest'', ee_return = PromiseReturn,
       ee_site = ''dist/add-proxy-to-manifest.js:addProxyToManifest''\<rparr>,
      \<lparr>ee_name = ''validateUpgradeSafety'', ee_return = PromiseReturn,
       ee_site = ''via validate''\<rparr>]"

definition capturableEngineExports :: "engine_export list" where
  "capturableEngineExports = filter (\<lambda>e. ee_return e = Synchronous) engineWarningCapableExports"

definition uncapturableEngineExports :: "engine_export list" where
  "uncapturableEngineExports = filter (\<lambda>e. ee_return e = PromiseReturn) engineWarningCapableExports"

record uncaptured_warning =
  uw_export :: string
  uw_text :: string
  uw_detail :: "string list"
  uw_trigger :: string
  uw_owner :: string

definition uncapturedEngineWarnings :: "uncaptured_warning list" where
  "uncapturedEngineWarnings =
     [\<lparr>uw_export = ''addProxyToManifest'',
       uw_text = ''A proxy admin was previously deployed on this network'',
       uw_detail =
         [''This is not natively used with the current kind of proxy ('<kind>').'',
          ''Changes to the admin will have no effect on this new proxy.''],
       uw_trigger =
         ''kind !== 'transparent' && await manifest.getAdmin() is truthy - on the path of every non-transparent proxy deployment'',
       uw_owner = ''the proxy deployment operations''\<rparr>]"

text \<open>\<open>stripAnsi\<close>: escape, bracket, digits and semicolons, one letter.\<close>

definition is_csi_digit :: "char \<Rightarrow> bool" where
  "is_csi_digit c \<longleftrightarrow> c \<in> set ''0123456789;''"

definition is_ascii_letter :: "char \<Rightarrow> bool" where
  "is_ascii_letter c \<longleftrightarrow> to_lower c \<in> set ''abcdefghijklmnopqrstuvwxyz''"

function strip_ansi :: "string \<Rightarrow> string" where
  "strip_ansi [] = []"
| "strip_ansi (c # s) =
     (let rest = dropWhile is_csi_digit (drop 1 s)
      in if c = CHR 0x1B \<and> s \<noteq> [] \<and> hd s = CHR ''['' \<and> rest \<noteq> [] \<and> is_ascii_letter (hd rest)
         then strip_ansi (drop 1 rest) else c # strip_ansi s)"
  by pat_completeness auto
termination
proof (relation "measure length")
  have "length (drop 1 (dropWhile P (drop 1 s))) < length (c # s)" for P :: "char \<Rightarrow> bool" and c s
    using length_dropWhile_le [of P "drop 1 s"] by simp
  then show "\<And>c s rest. rest = dropWhile is_csi_digit (drop 1 s) \<Longrightarrow>
      c = CHR 0x1B \<and> s \<noteq> [] \<and> hd s = CHR ''['' \<and> rest \<noteq> [] \<and> is_ascii_letter (hd rest) \<Longrightarrow>
      (drop 1 rest, c # s) \<in> measure length"
    by simp
qed simp_all

definition renderCapturedWrite :: "js list \<Rightarrow> string" where
  "renderCapturedWrite args =
     join_with (CHR '' '') (map (\<lambda>a. case a of JStr s \<Rightarrow> s | _ \<Rightarrow> ''['' @ js_typeof a @ '']'') args)"

fun split_lines :: "string \<Rightarrow> string list" where
  "split_lines [] = [[]]"
| "split_lines (c # s) =
     (if c = newline then [] # split_lines s
      else case split_lines s of [] \<Rightarrow> [[c]] | l # ls \<Rightarrow> (c # l) # ls)"

text \<open>At most four leading spaces are an indent.\<close>

definition unindent :: "string \<Rightarrow> string" where
  "unindent l = drop (min 4 (length (takeWhile (\<lambda>c. c = CHR '' '') l))) l"

definition WARNING_REMEDY :: string where
  "WARNING_REMEDY =
     ''The text above is the upgrade-safety engine's own, relayed unchanged. ''
     @ ''Address the construct it names, or opt out deliberately through ''
     @ ''unsafeAllow after confirming by hand that it is safe.''"

definition NOTE_REMEDY :: string where
  "NOTE_REMEDY =
     ''Informational: the engine states that it reduced what it validated. Read ''
     @ ''the text above and verify the construct it names by other means if you ''
     @ ''rely on it being checked.''"

definition BLANK_WRITE_SUMMARY :: string where
  "BLANK_WRITE_SUMMARY = ''The upgrade-safety engine wrote an empty line to console.error''"

definition engineNote :: "string \<Rightarrow> note_input" where
  "engineNote captured =
     (let stripped = strip_ansi captured;
          (code, body) =
            (if prefix ''Note: '' stripped then (EngineNote, drop 6 stripped)
             else if prefix ''Warning: '' stripped then (EngineWarning, drop 9 stripped)
             else (EngineWarning, stripped));
          lines = split_lines body;
          title = trim (hd lines)
      in \<lparr>ni_code = code,
          ni_summary = (if title = [] then BLANK_WRITE_SUMMARY else title),
          ni_detail = Some (filter (\<lambda>l. l \<noteq> []) (map (\<lambda>l. trim_end (unindent l)) (tl lines))),
          ni_remedy = (if code = EngineNote then NOTE_REMEDY else WARNING_REMEDY)\<rparr>)"

section \<open>The window\<close>

text \<open>How the value of a call answers \<open>.then\<close>.\<close>

datatype 'x then_access = NotAnObject | ThenIs bool | ThenRaises 'x

datatype ('v, 'x) returned = Returned 'v "'x then_access"

datatype 'x capture_error =
    EngineCallNotSynchronous string
  | EngineCaptureReentrant string string
  | EngineRaised 'x

fun isThenable :: "'x then_access \<Rightarrow> 'x + bool" where
  "isThenable NotAnObject = Inr False"
| "isThenable (ThenIs callable) = Inr callable"
| "isThenable (ThenRaises x) = Inl x"

type_synonym ('v, 'x) engine_call = "process \<Rightarrow> ('x + ('v, 'x) returned) \<times> process"

text \<open>\<open>console.error\<close>, wherever it points.\<close>

definition console_error :: "js list \<Rightarrow> process \<Rightarrow> process" where
  "console_error args p =
     (case ps_console p of
        HostConsole \<Rightarrow> p\<lparr>ps_terminal := ps_terminal p @ [renderCapturedWrite args]\<rparr>
      | CaptureStub \<Rightarrow> p\<lparr>ps_captured := ps_captured p @ [renderCapturedWrite args]\<rparr>)"

text \<open>\<open>Inr None\<close>: the value was a thenable.  What was saved is put back on every way out.\<close>

definition runCaptureWindow ::
  "string \<Rightarrow> ('v, 'x) engine_call \<Rightarrow> process \<Rightarrow> ('x + 'v option) \<times> process" where
  "runCaptureWindow call fn p =
     (let saved = ps_console p;
          (r, q) = fn (p\<lparr>ps_activeCall := Some call, ps_console := CaptureStub, ps_captured := []\<rparr>);
          outcome =
            (case r of
               Inl x \<Rightarrow> Inl x
             | Inr (Returned v access) \<Rightarrow>
                 (case isThenable access of Inl x \<Rightarrow> Inl x | Inr True \<Rightarrow> Inr None | Inr False \<Rightarrow> Inr (Some v)))
      in (outcome, q\<lparr>ps_console := saved, ps_activeCall := None\<rparr>))"

fun relay :: "host_facts \<Rightarrow> string list \<Rightarrow> process \<Rightarrow> process" where
  "relay hf [] p = p"
| "relay hf (w # ws) p = relay hf ws (snd (degraded hf (engineNote w) p))"

definition flush :: "host_facts \<Rightarrow> process \<Rightarrow> process" where
  "flush hf p = relay hf (ps_captured p) (p\<lparr>ps_captured := []\<rparr>)"

definition captureEngineWarnings ::
  "host_facts \<Rightarrow> string \<Rightarrow> ('v, 'x) engine_call \<Rightarrow> process \<Rightarrow> ('x capture_error + 'v) \<times> process" where
  "captureEngineWarnings hf call fn p =
     (case ps_activeCall p of
        Some active \<Rightarrow> (Inl (EngineCaptureReentrant call active), p)
      | None \<Rightarrow>
          (let (outcome, q) = runCaptureWindow call fn p
           in ((case outcome of
                  Inl x \<Rightarrow> Inl (EngineRaised x)
                | Inr None \<Rightarrow> Inl (EngineCallNotSynchronous call)
                | Inr (Some v) \<Rightarrow> Inr v),
               flush hf q)))"


section \<open>The record is bounded and complete\<close>

definition valid_note :: "note_input \<Rightarrow> bool" where
  "valid_note n \<longleftrightarrow> trim (ni_summary n) \<noteq> [] \<and> trim (ni_remedy n) \<noteq> [] \<and> ni_detail n \<noteq> None"

definition note_of :: "note_input \<Rightarrow> degraded_note" where
  "note_of n =
     \<lparr>nt_code = ni_code n, nt_summary = ni_summary n,
      nt_detail = (case ni_detail n of Some d \<Rightarrow> d | None \<Rightarrow> []), nt_remedy = ni_remedy n\<rparr>"

text \<open>The notes a channel accepted so far, over the whole of its life.\<close>

definition holds :: "degraded_note list \<Rightarrow> process \<Rightarrow> bool" where
  "holds ns p \<longleftrightarrow>
     ps_appended p = take RECORDED_NOTE_CAP ns \<and> ps_suppressed p = length ns - RECORDED_NOTE_CAP"

lemma emit_fields [simp]:
  "ps_appended (emit hf lv t d p) = ps_appended p" "ps_suppressed (emit hf lv t d p) = ps_suppressed p"
  "ps_console (emit hf lv t d p) = ps_console p" "ps_activeCall (emit hf lv t d p) = ps_activeCall p"
  "ps_captured (emit hf lv t d p) = ps_captured p" "ps_terminal (emit hf lv t d p) = ps_terminal p"
  "ps_silenced (emit hf lv t d p) = ps_silenced p"
  by (simp_all add: emit_def Let_def)

lemma degraded_fields [simp]:
  "ps_console (snd (degraded hf n p)) = ps_console p" "ps_activeCall (snd (degraded hf n p)) = ps_activeCall p"
  "ps_captured (snd (degraded hf n p)) = ps_captured p" "ps_terminal (snd (degraded hf n p)) = ps_terminal p"
  by (simp_all add: degraded_def Let_def split: option.split)

lemma degraded_valid: "valid_note n \<Longrightarrow> fst (degraded hf n p) = Inr (note_of n)"
  by (auto simp: degraded_def valid_note_def note_of_def Let_def)

lemma degraded_invalid:
  "\<not> valid_note n \<Longrightarrow> (\<exists>f. degraded hf n p = (Inl (NoteInvalid f (describe_channel hf)), p))"
  by (auto simp: degraded_def valid_note_def)

lemma degraded_holds: "holds ns p \<Longrightarrow> valid_note n \<Longrightarrow> holds (ns @ [note_of n]) (snd (degraded hf n p))"
  by (auto simp: holds_def degraded_def valid_note_def note_of_def Let_def RECORDED_NOTE_CAP_def)

lemma trim_end_last: "trim_end t \<noteq> [] \<Longrightarrow> \<not> is_space (last (trim_end t))"
  using hd_dropWhile [of is_space "rev t"] by (simp add: trim_end_def last_rev)

lemma trim_blank: "trim s = [] \<longleftrightarrow> (\<forall>c \<in> set s. is_space c)"
proof -
  have "trim s = [] \<longleftrightarrow> (\<forall>c \<in> set (dropWhile is_space s). is_space c)"
    by (simp add: trim_def trim_end_def)
  also have "\<dots> \<longleftrightarrow> dropWhile is_space s = []"
    using hd_dropWhile [of is_space s] by (cases "dropWhile is_space s") (auto dest: set_dropWhileD)
  finally show ?thesis by simp
qed

lemma trim_trim: "trim (trim s) = [] \<longleftrightarrow> trim s = []"
proof
  assume "trim (trim s) = []"
  then have "\<forall>c \<in> set (trim s). is_space c" by (simp add: trim_blank)
  then show "trim s = []"
    using trim_end_last [of "dropWhile is_space s"] last_in_set [of "trim s"] by (metis trim_def)
next
  assume "trim s = []"
  then show "trim (trim s) = []" by (simp only:) (simp add: trim_def trim_end_def)
qed

lemma engineNote_valid: "valid_note (engineNote w)"
proof -
  have "trim BLANK_WRITE_SUMMARY \<noteq> []" "trim NOTE_REMEDY \<noteq> []" "trim WARNING_REMEDY \<noteq> []"
    by code_simp+
  then show ?thesis by (auto simp: valid_note_def engineNote_def trim_trim Let_def split: prod.split)
qed

lemma relay_holds:
  "holds ns p \<Longrightarrow> holds (ns @ map (\<lambda>w. note_of (engineNote w)) ws) (relay hf ws p)"
proof (induction ws arbitrary: ns p)
  case (Cons w ws)
  then show ?case using degraded_holds [OF Cons.prems engineNote_valid] Cons.IH by fastforce
qed simp

lemma relay_fields [simp]:
  "ps_console (relay hf ws p) = ps_console p" "ps_activeCall (relay hf ws p) = ps_activeCall p"
  "ps_terminal (relay hf ws p) = ps_terminal p" "ps_captured (relay hf ws p) = ps_captured p"
  by (induction ws arbitrary: p) simp_all

text \<open>An engine call that writes its lines and then ends.\<close>

record ('v, 'x) engine_script =
  es_writes :: "js list list"
  es_end :: "'x + ('v, 'x) returned"

definition run_script :: "('v, 'x) engine_script \<Rightarrow> ('v, 'x) engine_call" where
  "run_script sc p = (es_end sc, fold console_error (es_writes sc) p)"

lemma stub_captures:
  "ps_console p = CaptureStub \<Longrightarrow>
     fold console_error ws p = p\<lparr>ps_captured := ps_captured p @ map renderCapturedWrite ws\<rparr>"
  by (induction ws arbitrary: p) (simp_all add: console_error_def)

text \<open>What an operation can do with its channel.\<close>

datatype ('v, 'x) channel_call =
    CallWarn string "string list"
  | CallNote string "string list"
  | CallDegraded note_input
  | CallSilence
  | CallCapture string "('v, 'x) engine_script"

fun run_channel_call :: "host_facts \<Rightarrow> ('v, 'x) channel_call \<Rightarrow> process \<Rightarrow> process" where
  "run_channel_call hf (CallWarn t d) p = warn hf t d p"
| "run_channel_call hf (CallNote t d) p = advise hf t d p"
| "run_channel_call hf (CallDegraded n) p = snd (degraded hf n p)"
| "run_channel_call hf CallSilence p = silenceWarnings p"
| "run_channel_call hf (CallCapture call sc) p = snd (captureEngineWarnings hf call (run_script sc) p)"

text \<open>The notes a call hands to the channel: its own where valid, the engine's lines one by one.\<close>

fun accepted :: "('v, 'x) channel_call \<Rightarrow> degraded_note list" where
  "accepted (CallDegraded n) = (if valid_note n then [note_of n] else [])"
| "accepted (CallCapture call sc) = map (\<lambda>w. note_of (engineNote (renderCapturedWrite w))) (es_writes sc)"
| "accepted _ = []"

definition fresh_process :: "bool \<Rightarrow> string list \<Rightarrow> process" where
  "fresh_process silenced terminal =
     \<lparr>ps_silenced = silenced, ps_console = HostConsole, ps_activeCall = None, ps_captured = [],
      ps_terminal = terminal, ps_written = [], ps_appended = [], ps_suppressed = 0\<rparr>"

definition idle :: "degraded_note list \<Rightarrow> string list \<Rightarrow> process \<Rightarrow> bool" where
  "idle ns terminal p \<longleftrightarrow>
     holds ns p \<and> ps_activeCall p = None \<and> ps_console p = HostConsole \<and> ps_terminal p = terminal"

lemma idle_call: "idle ns t p \<Longrightarrow> idle (ns @ accepted c) t (run_channel_call hf c p)"
proof (cases c)
  case (CallDegraded n)
  then show "idle ns t p \<Longrightarrow> ?thesis"
    using degraded_holds [of ns p n hf] degraded_invalid [of n hf p] by (auto simp: idle_def)
next
  case (CallCapture call sc)
  assume i: "idle ns t p"
  let ?ws = "map renderCapturedWrite (es_writes sc)"
  let ?q = "p\<lparr>ps_console := HostConsole, ps_activeCall := None, ps_captured := []\<rparr>"
  have "run_channel_call hf c p = relay hf ?ws ?q"
    using i by (simp add: CallCapture captureEngineWarnings_def runCaptureWindow_def run_script_def stub_captures
        flush_def idle_def Let_def)
  moreover have "holds ns ?q" using i by (simp add: idle_def holds_def)
  ultimately show ?thesis
    using i relay_holds [of ns ?q ?ws hf] by (simp add: CallCapture idle_def comp_def)
qed (simp_all add: idle_def holds_def warn_def advise_def silenceWarnings_def)

text \<open>
  C23: A channel's record is every note it accepted, in order, up to the cap of one hundred, and
  past the cap one more note that says how many were left out: never more than one hundred and one,
  whatever is silenced, whatever the host's sink does with the writes, and however the engine
  calls in between end.  Not one line an engine call writes reaches the terminal.
\<close>

theorem the_record_is_every_note_up_to_the_cap:
  "recorded (fold (run_channel_call hf) calls (fresh_process silenced terminal)) =
     (let ns = concat (map accepted calls)
      in if length ns \<le> 100 then ns else take 100 ns @ [truncationNote (length ns - 100)]) \<and>
   length (recorded (fold (run_channel_call hf) calls (fresh_process silenced terminal))) \<le> 101 \<and>
   ps_terminal (fold (run_channel_call hf) calls (fresh_process silenced terminal)) = terminal"
proof -
  have "idle ns t p \<Longrightarrow> idle (ns @ concat (map accepted cs)) t (fold (run_channel_call hf) cs p)" for ns t p cs
  proof (induction cs arbitrary: ns p)
    case (Cons c cs)
    then show ?case using idle_call [OF Cons.prems, of c hf] by fastforce
  qed simp
  from this [of "[]" terminal "fresh_process silenced terminal" calls]
  have "idle (concat (map accepted calls)) terminal (fold (run_channel_call hf) calls (fresh_process silenced terminal))"
    by (simp add: idle_def holds_def fresh_process_def)
  then show ?thesis by (auto simp: idle_def holds_def recorded_def RECORDED_NOTE_CAP_def Let_def)
qed

text \<open>
  C33: The capture window closes on every way out.  Whatever an engine call does and however it
  ends, \<open>console.error\<close> is what it was and no window is left open; a window inside a window is
  refused with nothing touched, a thenable is refused rather than awaited, an exception of the
  engine's is passed on, and only a plain value is returned.
\<close>

theorem capture_window_closes_on_every_path:
  "case captureEngineWarnings hf call fn p of
     (r, q) \<Rightarrow>
       ps_console q = ps_console p \<and> ps_activeCall q = ps_activeCall p \<and>
       (case ps_activeCall p of
          Some active \<Rightarrow> r = Inl (EngineCaptureReentrant call active) \<and> q = p
        | None \<Rightarrow>
            (case fst (fn (p\<lparr>ps_activeCall := Some call, ps_console := CaptureStub, ps_captured := []\<rparr>)) of
               Inl x \<Rightarrow> r = Inl (EngineRaised x)
             | Inr (Returned v (ThenIs True)) \<Rightarrow> r = Inl (EngineCallNotSynchronous call)
             | Inr (Returned v (ThenRaises x)) \<Rightarrow> r = Inl (EngineRaised x)
             | Inr (Returned v _) \<Rightarrow> r = Inr v))"
proof (cases "ps_activeCall p")
  case None
  obtain r q where f: "fn (p\<lparr>ps_activeCall := Some call, ps_console := CaptureStub, ps_captured := []\<rparr>) = (r, q)"
    by fastforce
  show ?thesis
    using None f
    by (auto simp: captureEngineWarnings_def runCaptureWindow_def flush_def Let_def
        split: sum.split returned.split then_access.split bool.split)
qed (simp add: captureEngineWarnings_def)

end
