(* ===== verification/JsArray.thy ===== *)
theory JsArray
  imports Prelude "HOL-Library.Multiset"
begin

text \<open>
  What the program uses of JavaScript's arrays and maps beyond HOL's lists:
  \<open>Array.prototype.sort\<close> with a comparator (a stable sort), and a \<open>Map\<close>, which lists
  its keys in the order they were first set.
\<close>

text \<open>The stable sort of the platform: an element goes after those it does not precede.\<close>

fun insert_by :: "('a \<Rightarrow> 'a \<Rightarrow> int) \<Rightarrow> 'a \<Rightarrow> 'a list \<Rightarrow> 'a list" where
  "insert_by cmp x [] = [x]"
| "insert_by cmp x (y # ys) = (if cmp x y < 0 then x # y # ys else y # insert_by cmp x ys)"

definition sort_by :: "('a \<Rightarrow> 'a \<Rightarrow> int) \<Rightarrow> 'a list \<Rightarrow> 'a list" where
  "sort_by cmp xs = foldl (\<lambda>acc x. insert_by cmp x acc) [] xs"

lemma mset_insert_by: "mset (insert_by cmp x xs) = add_mset x (mset xs)"
  by (induction xs) auto

lemma mset_sort_fold: "mset (foldl (\<lambda>acc x. insert_by cmp x acc) ys xs) = mset ys + mset xs"
  by (induction xs arbitrary: ys) (simp_all add: mset_insert_by)

lemma mset_sort_by: "mset (sort_by cmp xs) = mset xs"
  by (simp add: sort_by_def mset_sort_fold)

lemma set_sort_by: "set (sort_by cmp xs) = set xs"
  by (metis mset_sort_by set_mset_mset)

definition total_preorder :: "('a \<Rightarrow> 'a \<Rightarrow> int) \<Rightarrow> bool" where
  "total_preorder cmp \<longleftrightarrow>
     (\<forall>x y. (cmp x y < 0) = (0 < cmp y x)) \<and>
     (\<forall>x y z. cmp x y \<le> 0 \<longrightarrow> cmp y z \<le> 0 \<longrightarrow> cmp x z \<le> 0)"

lemma set_insert_by: "set (insert_by cmp x xs) = insert x (set xs)"
  by (induction xs) auto

lemma sorted_insert_by:
  assumes "total_preorder cmp" and "sorted_wrt (\<lambda>a b. cmp a b \<le> 0) xs"
  shows "sorted_wrt (\<lambda>a b. cmp a b \<le> 0) (insert_by cmp x xs)"
  using assms(2)
proof (induction xs)
  case Nil
  then show ?case by simp
next
  case (Cons y ys)
  have tot: "cmp x y < 0 \<or> cmp y x \<le> 0" for x y
    using assms(1) unfolding total_preorder_def by (meson not_less)
  have trans: "cmp x y \<le> 0 \<Longrightarrow> cmp y z \<le> 0 \<Longrightarrow> cmp x z \<le> 0" for x y z
    using assms(1) unfolding total_preorder_def by blast
  show ?case
  proof (cases "cmp x y < 0")
    case True
    then have "cmp x y \<le> 0" by simp
    with Cons.prems trans have "\<forall>z\<in>set ys. cmp x z \<le> 0" by auto
    with True Cons.prems \<open>cmp x y \<le> 0\<close> show ?thesis by simp
  next
    case False
    with tot have "cmp y x \<le> 0" by blast
    with False Cons show ?thesis by (simp add: set_insert_by)
  qed
qed

lemma sorted_fold:
  assumes "total_preorder cmp" and "sorted_wrt (\<lambda>a b. cmp a b \<le> 0) ys"
  shows "sorted_wrt (\<lambda>a b. cmp a b \<le> 0) (foldl (\<lambda>acc x. insert_by cmp x acc) ys xs)"
  using assms(2) by (induction xs arbitrary: ys) (simp_all add: sorted_insert_by assms(1))

lemma sorted_sort_by: "total_preorder cmp \<Longrightarrow> sorted_wrt (\<lambda>a b. cmp a b \<le> 0) (sort_by cmp xs)"
  unfolding sort_by_def by (rule sorted_fold) simp_all

section \<open>Maps in insertion order\<close>

text \<open>\<open>m.get(k)\<close>, then \<open>push\<close> onto what is there or \<open>set\<close> a first list.\<close>

fun push_at :: "'k \<Rightarrow> 'v \<Rightarrow> ('k \<times> 'v list) list \<Rightarrow> ('k \<times> 'v list) list" where
  "push_at k v [] = [(k, [v])]"
| "push_at k v ((k', vs) # m) = (if k = k' then (k', vs @ [v]) # m else (k', vs) # push_at k v m)"

definition listed :: "('k \<times> 'v list) list \<Rightarrow> 'k \<Rightarrow> 'v list" where
  "listed m k = (case map_of m k of None \<Rightarrow> [] | Some vs \<Rightarrow> vs)"

lemma listed_Nil [simp]: "listed [] k = []"
  by (simp add: listed_def)

lemma listed_push_at: "listed (push_at k v m) k' = (if k' = k then listed m k @ [v] else listed m k')"
  by (induction m) (auto simp: listed_def split: if_splits)

lemma keys_push_at: "set (map fst (push_at k v m)) = insert k (set (map fst m))"
  by (induction k v m rule: push_at.induct) auto

lemma distinct_push_at: "distinct (map fst m) \<Longrightarrow> distinct (map fst (push_at k v m))"
  by (induction k v m rule: push_at.induct) (auto simp: keys_push_at [simplified])

text \<open>The default order of \<open>sort()\<close>: by code units.\<close>

fun compare_units :: "string \<Rightarrow> string \<Rightarrow> int" where
  "compare_units [] [] = 0"
| "compare_units [] (_ # _) = -1"
| "compare_units (_ # _) [] = 1"
| "compare_units (c # s) (d # t) =
     (if (of_char c :: nat) < of_char d then -1 else if (of_char d :: nat) < of_char c then 1 else compare_units s t)"

end
