(* ===== verification/InputLayout.thy ===== *)
theory InputLayout
  imports InputCauses Output JsArray
begin

text \<open>
  \<open>validation-input/layout-fidelity.ts\<close>: which storage positions a produced layout carries,
  whether the record's AST declares the target, and which namespaced storage it declares.

  Values are parsed JSON.  Reading a property of \<open>null\<close> or \<open>undefined\<close> raises a \<open>TypeError\<close>,
  which none of these functions catches: \<open>None\<close> is that exception.
\<close>

section \<open>Reading parsed JSON\<close>

definition get_prop :: "js \<Rightarrow> string \<Rightarrow> js option" where
  "get_prop v k = (if v = JUndef \<or> v = JNull then None else Some (own_prop v k))"

text \<open>\<open>v?.k\<close>\<close>

definition opt_prop :: "js \<Rightarrow> string \<Rightarrow> js" where
  "opt_prop v k = own_prop v k"

fun is_nullish :: "js \<Rightarrow> bool" where
  "is_nullish JUndef = True"
| "is_nullish JNull = True"
| "is_nullish _ = False"

text \<open>An array's elements, an empty list for \<open>x ?? []\<close>, a raise for what has no \<open>forEach\<close>.\<close>

fun members_of :: "js \<Rightarrow> js list option" where
  "members_of JUndef = Some []"
| "members_of JNull = Some []"
| "members_of (JArr xs) = Some xs"
| "members_of _ = None"

fun entries_of :: "js \<Rightarrow> (string \<times> js) list" where
  "entries_of (JObj ps) = ps"
| "entries_of _ = []"

fun map_raise :: "('a \<Rightarrow> 'b option) \<Rightarrow> 'a list \<Rightarrow> 'b list option" where
  "map_raise f [] = Some []"
| "map_raise f (x # xs) =
     (case f x of None \<Rightarrow> None | Some y \<Rightarrow> (case map_raise f xs of None \<Rightarrow> None | Some ys \<Rightarrow> Some (y # ys)))"

lemma map_raise_ok: "map_raise f xs = Some ys \<Longrightarrow> list_all2 (\<lambda>x y. f x = Some y) xs ys"
  by (induction xs arbitrary: ys) (auto split: option.splits)

section \<open>Positions\<close>

datatype fidelity = SlotLevel | DeclarationOrder "string list"

record shortfall =
  sh_storage :: "string list"
  sh_namespaces :: "string list"
  sh_reconstructed :: bool

definition isPositioned :: "js \<Rightarrow> bool option" where
  "isPositioned m =
     (case get_prop m ''slot'' of
        None \<Rightarrow> None
      | Some s \<Rightarrow> Some (s \<noteq> JUndef \<and> own_prop m ''offset'' \<noteq> JUndef))"

definition labelOf :: "js \<Rightarrow> string \<Rightarrow> string" where
  "labelOf m fallback = (case own_prop m ''label'' of JStr l \<Rightarrow> if l \<noteq> [] then l else fallback | _ \<Rightarrow> fallback)"

text \<open>The labels of the members without a position, with their index as a fallback.\<close>

definition unpositioned :: "(nat \<Rightarrow> string) \<Rightarrow> js list \<Rightarrow> string list option" where
  "unpositioned fallback ms =
     map_option concat
       (map_raise (\<lambda>(i, m). map_option (\<lambda>p. if p then [] else [labelOf m (fallback i)]) (isPositioned m))
         (zip [0..<length ms] ms))"

definition index_text :: "nat \<Rightarrow> string" where
  "index_text i = ''['' @ decimal i @ '']''"

definition positionShortfall :: "js \<Rightarrow> shortfall option" where
  "positionShortfall layout =
     (case members_of (own_prop layout ''storage'') of
        None \<Rightarrow> None
      | Some storage \<Rightarrow>
          (case unpositioned (\<lambda>i. ''storage'' @ index_text i) storage of
             None \<Rightarrow> None
           | Some ss \<Rightarrow>
               (case map_raise (\<lambda>(id, ms).
                       case members_of ms of
                         None \<Rightarrow> None
                       | Some xs \<Rightarrow> map_option (map (\<lambda>l. id @ ''.'' @ l)) (unpositioned index_text xs))
                     (entries_of (own_prop layout ''namespaces'')) of
                  None \<Rightarrow> None
                | Some nss \<Rightarrow>
                    Some \<lparr>sh_storage = ss, sh_namespaces = concat nss,
                      sh_reconstructed = (own_prop layout ''flat'' = JBool False \<and> storage \<noteq> [])\<rparr>)))"

definition hasPositionShortfall :: "shortfall \<Rightarrow> bool" where
  "hasPositionShortfall s \<longleftrightarrow> sh_storage s \<noteq> [] \<or> sh_namespaces s \<noteq> []"

text \<open>\<open>layoutOf\<close>: an object of whatever kind, arrays included.\<close>

definition layoutOf :: "js \<Rightarrow> string \<Rightarrow> string \<Rightarrow> js option" where
  "layoutOf output source contract =
     (let l = opt_prop (opt_prop (opt_prop (opt_prop output ''contracts'') source) contract) ''storageLayout''
      in case l of JObj _ \<Rightarrow> Some l | JArr _ \<Rightarrow> Some l | _ \<Rightarrow> None)"

definition lacks_positions :: "js \<Rightarrow> string \<Rightarrow> string \<Rightarrow> bool option" where
  "lacks_positions output source contract =
     (case layoutOf output source contract of
        None \<Rightarrow> Some True
      | Some l \<Rightarrow> map_option (\<lambda>s. sh_storage s \<noteq> []) (positionShortfall l))"

definition detectFidelity :: "js \<Rightarrow> fidelity option" where
  "detectFidelity output =
     (case map_raise (\<lambda>(source, contract).
             map_option (\<lambda>b. if b then [source @ '':'' @ contract] else []) (lacks_positions output source contract))
           (concat (map (\<lambda>(source, contracts). map (Pair source) (own_keys contracts))
             (entries_of (own_prop output ''contracts'')))) of
        None \<Rightarrow> None
      | Some missing \<Rightarrow>
          Some (if concat missing = [] then SlotLevel
                else DeclarationOrder (sort_by compare_units (concat missing))))"

section \<open>Definitions in the AST\<close>

definition astNodes :: "js \<Rightarrow> string \<Rightarrow> js list" where
  "astNodes output source =
     (case opt_prop (opt_prop (opt_prop (opt_prop output ''sources'') source) ''ast'') ''nodes'' of
        JArr ns \<Rightarrow> ns
      | _ \<Rightarrow> [])"

text \<open>\<open>find\<close>: the outer none is a raise, the inner one that nothing was found.\<close>

fun find_definition :: "string \<Rightarrow> js list \<Rightarrow> js option option" where
  "find_definition contract [] = Some None"
| "find_definition contract (n # ns) =
     (case get_prop n ''nodeType'' of
        None \<Rightarrow> None
      | Some t \<Rightarrow>
          if t = JStr ''ContractDefinition'' \<and> own_prop n ''name'' = JStr contract then Some (Some n)
          else find_definition contract ns)"

definition findContractDefinition :: "js \<Rightarrow> string \<Rightarrow> string \<Rightarrow> js option option" where
  "findContractDefinition output source contract = find_definition contract (astNodes output source)"

definition isLayoutVacuous :: "js \<Rightarrow> string \<Rightarrow> string \<Rightarrow> bool option" where
  "isLayoutVacuous output source contract =
     map_option (\<lambda>d. d = None) (findContractDefinition output source contract)"

definition definition_entry :: "js \<Rightarrow> (jsnum \<times> js) list option" where
  "definition_entry n =
     (case get_prop n ''nodeType'' of
        None \<Rightarrow> None
      | Some t \<Rightarrow>
          Some (case own_prop n ''id'' of
                  JNum i \<Rightarrow> if t = JStr ''ContractDefinition'' then [(i, n)] else []
                | _ \<Rightarrow> []))"

text \<open>A later definition of the same id replaces an earlier one.\<close>

definition contractDefinitions :: "js \<Rightarrow> (jsnum \<times> js) list option" where
  "contractDefinitions output =
     map_option (\<lambda>es. rev (concat es))
       (map_raise definition_entry
         (concat (map (astNodes output) (own_keys (own_prop output ''sources'')))))"

section \<open>Namespaced storage\<close>

text \<open>
  \<open>/@custom:storage-location\s+(\S+)/\<close>: the first place where the tag is followed by a space and
  then by anything else; the id ends at the next space.
\<close>

definition storage_tag :: string where
  "storage_tag = ''@custom:storage-location''"

definition annotation_here :: "string \<Rightarrow> string option" where
  "annotation_here s =
     (if prefix storage_tag s then
        (let rest = drop (length storage_tag) s; body = dropWhile is_space rest
         in if rest \<noteq> [] \<and> is_space (hd rest) \<and> body \<noteq> [] then Some (takeWhile (\<lambda>c. \<not> is_space c) body) else None)
      else None)"

fun namespace_annotation :: "string \<Rightarrow> string option" where
  "namespace_annotation [] = None"
| "namespace_annotation (c # s) =
     (case annotation_here (c # s) of Some i \<Rightarrow> Some i | None \<Rightarrow> namespace_annotation s)"

definition documentationText :: "js \<Rightarrow> string" where
  "documentationText n =
     (case own_prop n ''documentation'' of
        JStr s \<Rightarrow> s
      | d \<Rightarrow> (case own_prop d ''text'' of JStr t \<Rightarrow> t | _ \<Rightarrow> []))"

definition struct_namespace :: "js \<Rightarrow> string list option" where
  "struct_namespace m =
     (case get_prop m ''nodeType'' of
        None \<Rightarrow> None
      | Some t \<Rightarrow>
          Some (if t \<noteq> JStr ''StructDefinition'' then []
                else
                  (case namespace_annotation (documentationText m) of
                     None \<Rightarrow> []
                   | Some i \<Rightarrow>
                       if i \<noteq> [] then [i]
                       else (case own_prop m ''name'' of JStr n \<Rightarrow> if n \<noteq> [] then [n] else [] | _ \<Rightarrow> []))))"

fun first_occurrences :: "string list \<Rightarrow> string list" where
  "first_occurrences [] = []"
| "first_occurrences (x # xs) = x # filter (\<lambda>y. y \<noteq> x) (first_occurrences xs)"

definition declaresNamespacedStorage :: "js \<Rightarrow> string \<Rightarrow> string \<Rightarrow> string list option" where
  "declaresNamespacedStorage output source contract =
     (case contractDefinitions output of
        None \<Rightarrow> None
      | Some defs \<Rightarrow>
          (case findContractDefinition output source contract of
             None \<Rightarrow> None
           | Some None \<Rightarrow> Some []
           | Some (Some target) \<Rightarrow>
               (let bases = (case own_prop target ''linearizedBaseContracts'' of
                               JArr ids \<Rightarrow> ids | _ \<Rightarrow> [own_prop target ''id'']);
                    nodes = map (\<lambda>b. case b of
                                   JNum i \<Rightarrow> (case map_of defs i of Some d \<Rightarrow> members_of (own_prop d ''nodes'') | None \<Rightarrow> Some [])
                                 | _ \<Rightarrow> Some []) bases
                in case map_raise id nodes of
                     None \<Rightarrow> None
                   | Some ms \<Rightarrow>
                       map_option (\<lambda>ns. sort_by compare_units (first_occurrences (concat ns)))
                         (map_raise struct_namespace (concat ms)))))"

end
