(* ===== verification/EnvHost.thy ===== *)
theory EnvHost
  imports Prelude
begin

text \<open>
  \<open>environment/handles.ts\<close> and \<open>environment/config-lineage.ts\<close>: how the plugin reads the
  objects TronBox hands it.

  A host object is an address into a heap, so that identity (\<open>Object.is\<close>) is equality of
  addresses.  A property is a data property or an accessor, whose getter answers a value or
  raises; a getter answers the same for the length of one resolution.  The paths that were read
  are the state (\<open>InternalPathRecorder\<close>): a set in insertion order.
\<close>

section \<open>Host objects\<close>

datatype hval =
    VUndef | VNull | VBool bool | VNum jsnum | VMinusZero | VBig int | VStr string | VSymbol
  | VObj nat

datatype hprop = DataProp hval | AccessorProp "hval option"

record hobj =
  ho_callable :: bool
  ho_array :: bool
  ho_traps :: bool
  ho_own :: "(string \<times> hprop) list"
  ho_inherited :: "(string \<times> hprop) list"

type_synonym heap = "nat \<Rightarrow> hobj"

fun object_like :: "hval \<Rightarrow> bool" where
  "object_like (VObj _) = True"
| "object_like _ = False"

definition callable :: "heap \<Rightarrow> hval \<Rightarrow> bool" where
  "callable h v = (case v of VObj a \<Rightarrow> ho_callable (h a) | _ \<Rightarrow> False)"

fun type_name :: "heap \<Rightarrow> hval \<Rightarrow> string" where
  "type_name h VUndef = ''undefined''"
| "type_name h VNull = ''object''"
| "type_name h (VBool _) = ''boolean''"
| "type_name h (VNum _) = ''number''"
| "type_name h VMinusZero = ''number''"
| "type_name h (VBig _) = ''bigint''"
| "type_name h (VStr _) = ''string''"
| "type_name h VSymbol = ''symbol''"
| "type_name h (VObj a) = (if ho_callable (h a) then ''function'' else ''object'')"

text \<open>What counts as true in a condition.\<close>

fun truthy :: "hval \<Rightarrow> bool" where
  "truthy VUndef = False"
| "truthy VNull = False"
| "truthy (VBool b) = b"
| "truthy (VNum n) = (n \<noteq> NInt 0 \<and> n \<noteq> NNaN)"
| "truthy VMinusZero = False"
| "truthy (VBig i) = (i \<noteq> 0)"
| "truthy (VStr s) = (s \<noteq> [])"
| "truthy VSymbol = True"
| "truthy (VObj _) = True"

section \<open>Recorded reads\<close>

type_synonym paths_read = "string list"

datatype property_read = ReadOk hval | ReadMissing | ReadThrew

definition record_path :: "string \<Rightarrow> (paths_read, 'e, unit) io" where
  "record_path p s = (Inr (), if p \<in> set s then s else s @ [p])"

definition slot_value :: "hprop option \<Rightarrow> property_read" where
  "slot_value p =
     (case p of
        None \<Rightarrow> ReadMissing
      | Some (DataProp v) \<Rightarrow> ReadOk v
      | Some (AccessorProp (Some v)) \<Rightarrow> ReadOk v
      | Some (AccessorProp None) \<Rightarrow> ReadThrew)"

definition own_slot :: "heap \<Rightarrow> nat \<Rightarrow> string \<Rightarrow> hprop option" where
  "own_slot h a k = map_of (ho_own (h a)) k"

definition any_slot :: "heap \<Rightarrow> nat \<Rightarrow> string \<Rightarrow> hprop option" where
  "any_slot h a k = map_of (ho_own (h a) @ ho_inherited (h a)) k"

definition read_slot :: "heap \<Rightarrow> (nat \<Rightarrow> hprop option) \<Rightarrow> hval \<Rightarrow> property_read" where
  "read_slot h look owner =
     (case owner of
        VObj a \<Rightarrow> if ho_traps (h a) then ReadThrew else slot_value (look a)
      | _ \<Rightarrow> ReadMissing)"

definition readOwnProperty ::
  "heap \<Rightarrow> hval \<Rightarrow> string \<Rightarrow> string \<Rightarrow> (paths_read, 'e, property_read) io" where
  "readOwnProperty h owner key path =
     bind_io (record_path path) (\<lambda>_. return_io (read_slot h (\<lambda>a. own_slot h a key) owner))"

definition readProperty ::
  "heap \<Rightarrow> hval \<Rightarrow> string \<Rightarrow> string \<Rightarrow> (paths_read, 'e, property_read) io" where
  "readProperty h owner key path =
     bind_io (record_path path) (\<lambda>_. return_io (read_slot h (\<lambda>a. any_slot h a key) owner))"

definition supplied :: "hval \<Rightarrow> bool" where
  "supplied v \<longleftrightarrow> v \<noteq> VUndef"

section \<open>Lineages\<close>

text \<open>The migration arguments, and the one record that carries them.\<close>

datatype handle_name = HDeployer | HArtifacts | HTronWrap | HTronWeb | HWaitForReceipt

type_synonym raw_handles = "handle_name \<Rightarrow> hval"

datatype because = BecauseMissing | BecauseThrew

text \<open>The sentences of a broken rule; what they interpolate is their argument.\<close>

datatype invariant =
    FieldNotString string string | FieldEmpty string | FieldNotStringOrAbsent string string
  | FieldNotNumberOrAbsent string string | FieldNotObject string string
  | PathNotString string string | PathRelative string string | BuildInfoEscapes string string
  | NoNetworkSelected | NetworksNotObject | NetworkUnconfigured string "string list"
  | NetworkIdMissing string | SolcAbsent | SettingsNotCloneable string | NoDeployerResolver
  | QuietNotBoolean string | SlotNeitherBuiltNorDiagnosed
  | ArtifactRefused string

datatype config_failure =
    HandleMalformed handle_name string because
  | InvariantViolated invariant
  | HostThrow \<comment> \<open>an exception of the host's own that no guard translates\<close>

datatype lineage_binding = LiveConfig | MaterializedSnapshot

record lineage =
  li_handle :: handle_name
  li_prefix :: string
  li_config :: nat
  li_binding :: lineage_binding
  li_resolver :: "nat option"

datatype lineage_attempt =
    LineageAbsent
  | LineageMalformed handle_name string because
  | LineagePresent lineage

record lineages =
  via_deployer :: lineage_attempt
  via_artifacts :: lineage_attempt

text \<open>A live Config exposes its root through a getter, a snapshot as a plain value.\<close>

definition classifyBinding :: "heap \<Rightarrow> nat \<Rightarrow> lineage_binding option" where
  "classifyBinding h a =
     (if ho_traps (h a) then None
      else
        (case own_slot h a ''working_directory'' of
           None \<Rightarrow> None
         | Some (AccessorProp _) \<Rightarrow> Some LiveConfig
         | Some (DataProp _) \<Rightarrow> Some MaterializedSnapshot))"

fun why :: "property_read \<Rightarrow> because" where
  "why ReadThrew = BecauseThrew"
| "why _ = BecauseMissing"

fun handle_text :: "handle_name \<Rightarrow> string" where
  "handle_text HDeployer = ''deployer''"
| "handle_text HArtifacts = ''artifacts''"
| "handle_text HTronWrap = ''tronWrap''"
| "handle_text HTronWeb = ''tronWeb''"
| "handle_text HWaitForReceipt = ''waitForTransactionReceipt''"

text \<open>The walk along the hops; the resolver is remembered where the artifacts pass it.\<close>

fun walk_hops ::
  "heap \<Rightarrow> handle_name \<Rightarrow> nat \<Rightarrow> string \<Rightarrow> nat option \<Rightarrow> string list \<Rightarrow>
   (paths_read, lineage_attempt, nat \<times> string \<times> nat option) io" where
  "walk_hops h who owner path resolver [] = return_io (owner, path, resolver)"
| "walk_hops h who owner path resolver (hop # hops) =
     (let here = path @ ''.'' @ hop
      in bind_io (readOwnProperty h (VObj owner) hop here) (\<lambda>next.
           case next of
             ReadOk (VObj b) \<Rightarrow>
               walk_hops h who b here
                 (if who = HArtifacts \<and> hop = ''resolver'' then Some b else resolver) hops
           | r \<Rightarrow> throw_io (LineageMalformed who here (why r))))"

definition inspectLineage ::
  "heap \<Rightarrow> handle_name \<Rightarrow> hval \<Rightarrow> string list \<Rightarrow> paths_read \<Rightarrow> lineage_attempt \<times> paths_read" where
  "inspectLineage h who root hops s =
     (case root of
        VUndef \<Rightarrow> (LineageAbsent, s)
      | VObj a \<Rightarrow>
          (case bind_io (walk_hops h who a (handle_text who) None hops) (\<lambda>(owner, path, resolver).
                  let bp = path @ ''.working_directory''
                  in bind_io (record_path bp) (\<lambda>_.
                       case classifyBinding h owner of
                         None \<Rightarrow> throw_io (LineageMalformed who bp BecauseMissing)
                       | Some b \<Rightarrow>
                           return_io (LineagePresent \<lparr>li_handle = who, li_prefix = path, li_config = owner,
                             li_binding = b, li_resolver = resolver\<rparr>))) s of
             (Inl m, t) \<Rightarrow> (m, t)
           | (Inr l, t) \<Rightarrow> (l, t))
      | _ \<Rightarrow> (LineageMalformed who (handle_text who) BecauseMissing, s))"

definition inspectConfigLineages ::
  "heap \<Rightarrow> raw_handles \<Rightarrow> (paths_read, 'e, lineages) io" where
  "inspectConfigLineages h hs s =
     (let (d, t) = inspectLineage h HDeployer (hs HDeployer) [''options'', ''options''] s;
          (a, u) = inspectLineage h HArtifacts (hs HArtifacts) [''resolver'', ''options''] t
      in (Inr \<lparr>via_deployer = d, via_artifacts = a\<rparr>, u))"

section \<open>Fields of a lineage\<close>

type_synonym 'a config_io = "(paths_read, config_failure, 'a) io"

definition failMalformed :: "lineage \<Rightarrow> string \<Rightarrow> because \<Rightarrow> 'a config_io" where
  "failMalformed l path b = throw_io (HandleMalformed (li_handle l) path b)"

definition failInvariant :: "invariant \<Rightarrow> 'a config_io" where
  "failInvariant i = throw_io (InvariantViolated i)"

definition readLineageProperty :: "heap \<Rightarrow> lineage \<Rightarrow> string \<Rightarrow> hval config_io" where
  "readLineageProperty h l key =
     (let path = li_prefix l @ ''.'' @ key
      in bind_io (readOwnProperty h (VObj (li_config l)) key path) (\<lambda>r.
           case r of
             ReadOk v \<Rightarrow> return_io v
           | bad \<Rightarrow> failMalformed l path (why bad)))"

definition describe_value :: "heap \<Rightarrow> hval \<Rightarrow> string" where
  "describe_value h v =
     (case v of
        VNull \<Rightarrow> ''null''
      | VObj a \<Rightarrow> if ho_array (h a) then ''an array'' else ''of type '' @ type_name h v
      | _ \<Rightarrow> ''of type '' @ type_name h v)"

definition requireString :: "heap \<Rightarrow> hval \<Rightarrow> string \<Rightarrow> string config_io" where
  "requireString h v field =
     (case v of VStr s \<Rightarrow> return_io s
      | _ \<Rightarrow> failInvariant (FieldNotString field (describe_value h v)))"

definition requireNonEmptyString :: "heap \<Rightarrow> hval \<Rightarrow> string \<Rightarrow> string config_io" where
  "requireNonEmptyString h v field =
     bind_io (requireString h v field) (\<lambda>s.
       if s = [] then failInvariant (FieldEmpty field) else return_io s)"

definition nullableString :: "heap \<Rightarrow> hval \<Rightarrow> string \<Rightarrow> string option config_io" where
  "nullableString h v field =
     (case v of
        VUndef \<Rightarrow> return_io None
      | VNull \<Rightarrow> return_io None
      | VStr s \<Rightarrow> return_io (Some s)
      | _ \<Rightarrow> failInvariant (FieldNotStringOrAbsent field (describe_value h v)))"

text \<open>A number is kept as the value it is: the model has two zeros, as the language does.\<close>

definition nullableNumber :: "heap \<Rightarrow> hval \<Rightarrow> string \<Rightarrow> hval option config_io" where
  "nullableNumber h v field =
     (case v of
        VUndef \<Rightarrow> return_io None
      | VNull \<Rightarrow> return_io None
      | VNum n \<Rightarrow> return_io (Some v)
      | VMinusZero \<Rightarrow> return_io (Some v)
      | _ \<Rightarrow> failInvariant (FieldNotNumberOrAbsent field (describe_value h v)))"

definition requireObjectLike :: "heap \<Rightarrow> hval \<Rightarrow> string \<Rightarrow> nat config_io" where
  "requireObjectLike h v field =
     (case v of VObj a \<Rightarrow> return_io a
      | _ \<Rightarrow> failInvariant (FieldNotObject field (describe_value h v)))"

section \<open>Agreement of the lineages\<close>

datatype inconsistency =
    FieldDisagrees string hval hval
  | ArtifactsNotWrappingResolver
  | ChainHandleConflict
  | CompilerSettingsConflict

text \<open>\<open>Object.is\<close> is equality here: NaN equals itself, the two zeros differ, objects are addresses.\<close>

definition compareConfigValues ::
  "string list \<Rightarrow> (string \<Rightarrow> hval) \<Rightarrow> (string \<Rightarrow> hval) \<Rightarrow> inconsistency list" where
  "compareConfigValues names d a =
     concat (map (\<lambda>f. if d f = a f then [] else [FieldDisagrees f (d f) (a f)]) names)"

datatype pairing = PairingOk | PairingBroken | PairingFailed config_failure

definition checkResolverPairing ::
  "heap \<Rightarrow> lineages \<Rightarrow> (paths_read, 'e, pairing) io" where
  "checkResolverPairing h ls s =
     (case (via_deployer ls, via_artifacts ls) of
        (LineagePresent d, LineagePresent a) \<Rightarrow>
          (case bind_io (readLineageProperty h d ''resolver'') (\<lambda>v.
                  case v of VObj r \<Rightarrow> return_io r | _ \<Rightarrow> failInvariant NoDeployerResolver) s of
             (Inl f, t) \<Rightarrow> (Inr (PairingFailed f), t)
           | (Inr r, t) \<Rightarrow> (Inr (if li_resolver a = Some r then PairingOk else PairingBroken), t))
      | _ \<Rightarrow> (Inr PairingOk, s))"

datatype binding_report = ReportBinding lineage_binding | ReportAbsent
datatype skipped = OnlyDeployer | OnlyArtifacts

record lineage_provenance =
  lp_viaDeployer :: binding_report
  lp_viaArtifacts :: binding_report
  lp_crossChecked :: bool
  lp_skipped :: "skipped option"
  lp_sameObject :: bool

fun present_lineage :: "lineage_attempt \<Rightarrow> lineage option" where
  "present_lineage (LineagePresent l) = Some l"
| "present_lineage _ = None"

definition configLineageProvenance :: "lineages \<Rightarrow> lineage_provenance" where
  "configLineageProvenance ls =
     (let d = present_lineage (via_deployer ls); a = present_lineage (via_artifacts ls);
          bind = (\<lambda>l. case l of None \<Rightarrow> ReportAbsent | Some x \<Rightarrow> ReportBinding (li_binding x))
      in \<lparr>lp_viaDeployer = bind d, lp_viaArtifacts = bind a,
          lp_crossChecked = (d \<noteq> None \<and> a \<noteq> None),
          lp_skipped = (if d \<noteq> None \<and> a = None then Some OnlyDeployer
                        else if d = None \<and> a \<noteq> None then Some OnlyArtifacts else None),
          lp_sameObject =
            (case (d, a) of (Some x, Some y) \<Rightarrow> li_config x = li_config y | _ \<Rightarrow> False)\<rparr>)"

end
