(* ===== verification/EnvProject.thy ===== *)
theory EnvProject
  imports EnvHost NodePath
begin

text \<open>
  \<open>environment/paths.ts\<close>, \<open>network.ts\<close> and \<open>compiler.ts\<close>: what one lineage says about the
  project's paths, its selected network and its compiler, and the frozen records the plugin
  exposes.  \<open>numtext\<close> is the language's rendering of a number, \<open>clone\<close> its
  \<open>structuredClone\<close> (none where it raises).
\<close>

section \<open>Paths\<close>

record path_values =
  pv_working :: string
  pv_contracts :: string
  pv_build :: string
  pv_buildInfo :: string

record project_paths =
  pp_root :: string
  pp_contractsDirectory :: string
  pp_contractsBuildDirectory :: string
  pp_buildInfoDirectory :: string
  pp_buildIsExternal :: bool

definition pathConfigLineageFields :: "string list" where
  "pathConfigLineageFields =
     [''working_directory'', ''contracts_directory'', ''contracts_build_directory'', ''build_info_directory'']"

text \<open>\<open>Inl\<close> is the broken rule, which raises.\<close>

definition assertAbsolutePath :: "heap \<Rightarrow> hval \<Rightarrow> string \<Rightarrow> invariant + string" where
  "assertAbsolutePath h v field =
     (case v of
        VStr p \<Rightarrow> if is_absolute p then Inr p else Inl (PathRelative field p)
      | VNull \<Rightarrow> Inl (PathNotString field ''null'')
      | _ \<Rightarrow> Inl (PathNotString field (type_name h v)))"

definition isContainedIn :: "string \<Rightarrow> string \<Rightarrow> bool" where
  "isContainedIn root candidate \<longleftrightarrow>
     (let relative = path_relative root candidate
      in relative = [] \<or> (relative \<noteq> ''..'' \<and> \<not> prefix ''../'' relative \<and> \<not> is_absolute relative))"

definition read_path :: "heap \<Rightarrow> lineage \<Rightarrow> string \<Rightarrow> string config_io" where
  "read_path h l field =
     bind_io (readLineageProperty h l field) (\<lambda>v.
       case assertAbsolutePath h v field of
         Inl i \<Rightarrow> failInvariant i
       | Inr p \<Rightarrow> return_io p)"

definition projectPathValues :: "heap \<Rightarrow> lineage \<Rightarrow> path_values config_io" where
  "projectPathValues h l =
     bind_io (read_path h l ''working_directory'') (\<lambda>w.
     bind_io (read_path h l ''contracts_directory'') (\<lambda>c.
     bind_io (read_path h l ''contracts_build_directory'') (\<lambda>b.
     bind_io (read_path h l ''build_info_directory'') (\<lambda>i.
       if isContainedIn w i
       then return_io \<lparr>pv_working = w, pv_contracts = c, pv_build = b, pv_buildInfo = i\<rparr>
       else failInvariant (BuildInfoEscapes i w)))))"

definition path_field :: "path_values \<Rightarrow> string \<Rightarrow> hval" where
  "path_field v f =
     (if f = ''working_directory'' then VStr (pv_working v)
      else if f = ''contracts_directory'' then VStr (pv_contracts v)
      else if f = ''contracts_build_directory'' then VStr (pv_build v)
      else if f = ''build_info_directory'' then VStr (pv_buildInfo v)
      else VUndef)"

definition buildProjectPaths :: "path_values \<Rightarrow> project_paths" where
  "buildProjectPaths v =
     \<lparr>pp_root = pv_working v, pp_contractsDirectory = pv_contracts v,
      pp_contractsBuildDirectory = pv_build v, pp_buildInfoDirectory = pv_buildInfo v,
      pp_buildIsExternal = (\<not> isContainedIn (pv_working v) (pv_build v))\<rparr>"

section \<open>The network\<close>

definition networkConfigLineageFields :: "string list" where
  "networkConfigLineageFields =
     [''network'', ''network_id'', ''networks[network].network_id'', ''from'', ''feeLimit'',
      ''userFeePercentage'', ''originEnergyLimit'', ''callValue'', ''tokenValue'', ''tokenId'',
      ''signingKeyConfigured'']"

record network_values =
  nv_network :: string
  nv_network_id :: string
  nv_configured_id :: string
  nv_from :: "string option"
  nv_feeLimit :: "hval option"
  nv_userFeePercentage :: "hval option"
  nv_originEnergyLimit :: "hval option"
  nv_callValue :: "hval option"
  nv_tokenValue :: "hval option"
  nv_tokenId :: "hval option"
  nv_signingKey :: bool

text \<open>
  The entry of the selected network.  Listing the configured names is not guarded: on an object
  whose traps raise, the host's own exception leaves the function.
\<close>

definition assertSelectedNetworkIsConfigured :: "heap \<Rightarrow> lineage \<Rightarrow> string \<Rightarrow> nat config_io" where
  "assertSelectedNetworkIsConfigured h l name =
     (let path = li_prefix l @ ''.networks''
      in bind_io (readOwnProperty h (VObj (li_config l)) ''networks'' path) (\<lambda>r.
           case r of
             ReadOk (VObj n) \<Rightarrow>
               bind_io (readOwnProperty h (VObj n) name (path @ ''.'' @ name)) (\<lambda>e.
                 case e of
                   ReadOk (VObj a) \<Rightarrow> return_io a
                 | _ \<Rightarrow>
                     if ho_traps (h n) then throw_io HostThrow
                     else failInvariant (NetworkUnconfigured name (map fst (ho_own (h n)))))
           | ReadOk _ \<Rightarrow> failInvariant NetworksNotObject
           | bad \<Rightarrow> failMalformed l path (why bad)))"

definition normalizeNetworkId ::
  "heap \<Rightarrow> (jsnum \<Rightarrow> string) \<Rightarrow> hval \<Rightarrow> string \<Rightarrow> string \<Rightarrow> string config_io" where
  "normalizeNetworkId h numtext v field name =
     (case v of
        VNum n \<Rightarrow> if truthy v then return_io (numtext n) else failInvariant (NetworkIdMissing name)
      | VMinusZero \<Rightarrow> failInvariant (NetworkIdMissing name)
      | _ \<Rightarrow> requireString h v field)"

definition selected_network :: "heap \<Rightarrow> lineage \<Rightarrow> string config_io" where
  "selected_network h l =
     bind_io (readLineageProperty h l ''network'') (\<lambda>v.
       if v = VUndef \<or> v = VNull then failInvariant NoNetworkSelected
       else requireNonEmptyString h v ''network'')"

definition configured_id ::
  "heap \<Rightarrow> (jsnum \<Rightarrow> string) \<Rightarrow> string \<Rightarrow> nat \<Rightarrow> string \<Rightarrow> string config_io" where
  "configured_id h numtext path entry name =
     bind_io (readOwnProperty h (VObj entry) ''network_id'' (path @ ''.network_id'')) (\<lambda>r.
       case r of
         ReadOk v \<Rightarrow> normalizeNetworkId h numtext v (''networks.'' @ name @ ''.network_id'') name
       | _ \<Rightarrow> failInvariant (NetworkIdMissing name))"

text \<open>Presence only: the key's value is tested in place.\<close>

definition signing_key_configured :: "heap \<Rightarrow> lineage \<Rightarrow> string \<Rightarrow> nat \<Rightarrow> bool config_io" where
  "signing_key_configured h l path entry =
     bind_io (readOwnProperty h (VObj entry) ''privateKey'' (path @ ''.privateKey'')) (\<lambda>r.
       case r of
         ReadThrew \<Rightarrow> failMalformed l (path @ ''.privateKey'') BecauseThrew
       | ReadOk (VStr s) \<Rightarrow> return_io (s \<noteq> [])
       | _ \<Rightarrow> return_io False)"

definition lineage_number :: "heap \<Rightarrow> lineage \<Rightarrow> string \<Rightarrow> hval option config_io" where
  "lineage_number h l field =
     bind_io (readLineageProperty h l field) (\<lambda>v. nullableNumber h v field)"

definition projectNetworkValues ::
  "heap \<Rightarrow> (jsnum \<Rightarrow> string) \<Rightarrow> lineage \<Rightarrow> network_values config_io" where
  "projectNetworkValues h numtext l =
     bind_io (selected_network h l) (\<lambda>name.
     bind_io (assertSelectedNetworkIsConfigured h l name) (\<lambda>entry.
     let path = li_prefix l @ ''.networks.'' @ name in
     bind_io (configured_id h numtext path entry name) (\<lambda>cid.
     bind_io (signing_key_configured h l path entry) (\<lambda>signing.
     bind_io (readLineageProperty h l ''network_id'') (\<lambda>nid.
     bind_io (normalizeNetworkId h numtext nid ''network_id'' name) (\<lambda>aid.
     bind_io (readLineageProperty h l ''from'') (\<lambda>fv.
     bind_io (nullableString h fv ''from'') (\<lambda>from1.
     bind_io (lineage_number h l ''feeLimit'') (\<lambda>fee.
     bind_io (lineage_number h l ''userFeePercentage'') (\<lambda>pct.
     bind_io (lineage_number h l ''originEnergyLimit'') (\<lambda>energy.
     bind_io (lineage_number h l ''callValue'') (\<lambda>callv.
     bind_io (lineage_number h l ''tokenValue'') (\<lambda>tokv.
     bind_io (lineage_number h l ''tokenId'') (\<lambda>tok.
       return_io \<lparr>nv_network = name, nv_network_id = aid, nv_configured_id = cid, nv_from = from1,
         nv_feeLimit = fee, nv_userFeePercentage = pct, nv_originEnergyLimit = energy,
         nv_callValue = callv, nv_tokenValue = tokv, nv_tokenId = tok, nv_signingKey = signing\<rparr>))))))))))))))"

fun opt_value :: "hval option \<Rightarrow> hval" where
  "opt_value None = VNull"
| "opt_value (Some v) = v"

definition network_field :: "network_values \<Rightarrow> string \<Rightarrow> hval" where
  "network_field v f =
     (if f = ''network'' then VStr (nv_network v)
      else if f = ''network_id'' then VStr (nv_network_id v)
      else if f = ''networks[network].network_id'' then VStr (nv_configured_id v)
      else if f = ''from'' then opt_value (map_option VStr (nv_from v))
      else if f = ''feeLimit'' then opt_value (nv_feeLimit v)
      else if f = ''userFeePercentage'' then opt_value (nv_userFeePercentage v)
      else if f = ''originEnergyLimit'' then opt_value (nv_originEnergyLimit v)
      else if f = ''callValue'' then opt_value (nv_callValue v)
      else if f = ''tokenValue'' then opt_value (nv_tokenValue v)
      else if f = ''tokenId'' then opt_value (nv_tokenId v)
      else if f = ''signingKeyConfigured'' then VBool (nv_signingKey v)
      else VUndef)"

datatype id_syntax = ExactId | WildcardId

record tx_defaults =
  td_feeLimit :: "hval option"
  td_userFeePercentage :: "hval option"
  td_originEnergyLimit :: "hval option"
  td_callValue :: "hval option"
  td_tokenValue :: "hval option"
  td_tokenId :: "hval option"

record network_environment =
  ne_name :: string
  ne_artifactNetworkId :: string
  ne_configuredId :: string
  ne_syntax :: id_syntax
  ne_txDefaults :: tx_defaults
  ne_sender :: "string option"
  ne_signingKeyConfigured :: bool

definition buildNetworkEnvironment :: "network_values \<Rightarrow> network_environment" where
  "buildNetworkEnvironment v =
     \<lparr>ne_name = nv_network v, ne_artifactNetworkId = nv_network_id v,
      ne_configuredId = nv_configured_id v,
      ne_syntax = (if nv_configured_id v = ''*'' then WildcardId else ExactId),
      ne_txDefaults = \<lparr>td_feeLimit = nv_feeLimit v, td_userFeePercentage = nv_userFeePercentage v,
        td_originEnergyLimit = nv_originEnergyLimit v, td_callValue = nv_callValue v,
        td_tokenValue = nv_tokenValue v, td_tokenId = nv_tokenId v\<rparr>,
      ne_sender = nv_from v, ne_signingKeyConfigured = nv_signingKey v\<rparr>"

section \<open>The compiler\<close>

definition HOST_DEFAULT_SOLC_VERSION :: string where
  "HOST_DEFAULT_SOLC_VERSION = ''0.8.26''"

datatype legacy_flag = UseZeroFourCompiler | UseZeroFiveCompiler

fun LEGACY_COMPILER_VERSIONS :: "legacy_flag \<Rightarrow> string" where
  "LEGACY_COMPILER_VERSIONS UseZeroFourCompiler = ''0.4.25''"
| "LEGACY_COMPILER_VERSIONS UseZeroFiveCompiler = ''0.5.4''"

fun flag_key :: "legacy_flag \<Rightarrow> string" where
  "flag_key UseZeroFourCompiler = ''useZeroFourCompiler''"
| "flag_key UseZeroFiveCompiler = ''useZeroFiveCompiler''"

datatype version_source = HostDefault | ViaFlag legacy_flag | GlobalVersion | NetworkVersion

fun source_text :: "version_source \<Rightarrow> string" where
  "source_text HostDefault = ''host default''"
| "source_text (ViaFlag f) = flag_key f"
| "source_text GlobalVersion = ''compilers.solc.version''"
| "source_text NetworkVersion = ''networks.compilers.solc.version''"

datatype settings_source = FromSolc | FromCompilers | NoSettings

datatype compiler_family = Tvm | Evm

record compiler_values =
  cv_version :: string
  cv_family :: compiler_family
  cv_flag :: "legacy_flag option"
  cv_hostDefault :: bool
  cv_settings :: settings_source

definition compilerConfigLineageFields :: "string list" where
  "compilerConfigLineageFields =
     [''compiler.resolvedVersion'', ''compiler.family'', ''compiler.viaLegacyFlag'',
      ''compiler.versionIsHostDefault'', ''compiler.settingsSource'']"

fun ownChainFrom :: "heap \<Rightarrow> lineage \<Rightarrow> hval \<Rightarrow> string \<Rightarrow> string list \<Rightarrow> hval config_io" where
  "ownChainFrom h l current path [] = return_io current"
| "ownChainFrom h l current path (hop # hops) =
     (let here = path @ ''.'' @ hop
      in if \<not> object_like current then return_io VUndef
         else bind_io (readOwnProperty h current hop here) (\<lambda>r.
                case r of
                  ReadOk v \<Rightarrow> ownChainFrom h l v here hops
                | ReadMissing \<Rightarrow> return_io VUndef
                | ReadThrew \<Rightarrow> failMalformed l here BecauseThrew))"

definition ownChain :: "heap \<Rightarrow> lineage \<Rightarrow> string list \<Rightarrow> hval config_io" where
  "ownChain h l hops = ownChainFrom h l (VObj (li_config l)) (li_prefix l) hops"

definition ownKeyCount :: "heap \<Rightarrow> lineage \<Rightarrow> nat \<Rightarrow> string \<Rightarrow> nat config_io" where
  "ownKeyCount h l a path =
     (if ho_traps (h a) then failMalformed l path BecauseThrew else return_io (length (ho_own (h a))))"

definition settingsSourceOf :: "heap \<Rightarrow> lineage \<Rightarrow> settings_source config_io" where
  "settingsSourceOf h l =
     bind_io (readLineageProperty h l ''solc'') (\<lambda>solc.
       if solc = VUndef \<or> solc = VNull then failInvariant SolcAbsent
       else
         bind_io (requireObjectLike h solc ''solc'') (\<lambda>a.
         bind_io (ownKeyCount h l a (li_prefix l @ ''.solc'')) (\<lambda>n.
           if n > 0 then return_io FromSolc
           else bind_io (ownChain h l [''compilers'', ''solc'', ''settings'']) (\<lambda>nested.
                  return_io (if truthy nested then FromCompilers else NoSettings)))))"

text \<open>The flags in their order: the first that is set decides.\<close>

fun first_flag :: "heap \<Rightarrow> lineage \<Rightarrow> hval \<Rightarrow> string \<Rightarrow> legacy_flag list \<Rightarrow> legacy_flag option config_io" where
  "first_flag h l networks path [] = return_io None"
| "first_flag h l networks path (f # fs) =
     bind_io (ownChainFrom h l networks path [flag_key f]) (\<lambda>v.
       if truthy v then return_io (Some f) else first_flag h l networks path fs)"

definition select_version :: "heap \<Rightarrow> lineage \<Rightarrow> hval \<Rightarrow> (version_source \<times> hval) config_io" where
  "select_version h l networks =
     (if \<not> truthy networks then return_io (HostDefault, VStr HOST_DEFAULT_SOLC_VERSION)
      else
        let path = li_prefix l @ ''.networks'' in
        bind_io (first_flag h l networks path [UseZeroFourCompiler, UseZeroFiveCompiler]) (\<lambda>flag.
        bind_io (ownChainFrom h l networks path [''compilers'', ''solc'', ''version'']) (\<lambda>nv.
        bind_io (ownChain h l [''compilers'', ''solc'', ''version'']) (\<lambda>gv.
          return_io
            (if truthy gv then (GlobalVersion, gv)
             else if truthy nv then (NetworkVersion, nv)
             else (case flag of
                     None \<Rightarrow> (HostDefault, VStr HOST_DEFAULT_SOLC_VERSION)
                   | Some f \<Rightarrow> (ViaFlag f, VStr (LEGACY_COMPILER_VERSIONS f))))))))"

definition projectCompilerValues :: "heap \<Rightarrow> lineage \<Rightarrow> compiler_values config_io" where
  "projectCompilerValues h l =
     bind_io (ownChain h l [''evm'']) (\<lambda>evm.
     bind_io (readLineageProperty h l ''networks'') (\<lambda>networks.
     bind_io (select_version h l networks) (\<lambda>(source, raw).
     bind_io (requireString h raw (source_text source)) (\<lambda>version.
     bind_io (settingsSourceOf h l) (\<lambda>settings.
       return_io \<lparr>cv_version = version, cv_family = (if truthy evm then Evm else Tvm),
         cv_flag = (case source of ViaFlag f \<Rightarrow> Some f | _ \<Rightarrow> None),
         cv_hostDefault = (source = HostDefault), cv_settings = settings\<rparr>)))))"

fun settings_text :: "settings_source \<Rightarrow> string" where
  "settings_text FromSolc = ''solc''"
| "settings_text FromCompilers = ''compilers.solc.settings''"
| "settings_text NoSettings = ''none''"

definition compiler_field :: "compiler_values \<Rightarrow> string \<Rightarrow> hval" where
  "compiler_field v f =
     (if f = ''compiler.resolvedVersion'' then VStr (cv_version v)
      else if f = ''compiler.family'' then VStr (case cv_family v of Tvm \<Rightarrow> ''tvm'' | Evm \<Rightarrow> ''evm'')
      else if f = ''compiler.viaLegacyFlag'' then opt_value (map_option (\<lambda>x. VStr (flag_key x)) (cv_flag v))
      else if f = ''compiler.versionIsHostDefault'' then VBool (cv_hostDefault v)
      else if f = ''compiler.settingsSource'' then VStr (settings_text (cv_settings v))
      else VUndef)"

datatype settings_outcome = SettingsResolved js | SettingsFailed config_failure | SettingsConflict

fun settings_hops :: "settings_source \<Rightarrow> string list" where
  "settings_hops FromSolc = [''solc'']"
| "settings_hops _ = [''compilers'', ''solc'', ''settings'']"

definition copyOutSettings :: "(nat \<Rightarrow> js option) \<Rightarrow> nat \<Rightarrow> string \<Rightarrow> js config_io" where
  "copyOutSettings clone a field =
     (case clone a of
        None \<Rightarrow> failInvariant (SettingsNotCloneable field)
      | Some s \<Rightarrow> return_io s)"

text \<open>The settings each present lineage reaches, the deployer's first.\<close>

fun found_settings :: "heap \<Rightarrow> string list \<Rightarrow> lineage_attempt list \<Rightarrow> hval list config_io" where
  "found_settings h hops [] = return_io []"
| "found_settings h hops (LineagePresent l # rest) =
     bind_io (ownChain h l hops) (\<lambda>v.
     bind_io (found_settings h hops rest) (\<lambda>vs. return_io (v # vs)))"
| "found_settings h hops (_ # rest) = found_settings h hops rest"

definition settings_of ::
  "heap \<Rightarrow> (nat \<Rightarrow> js option) \<Rightarrow> settings_source \<Rightarrow> hval list \<Rightarrow> js option config_io" where
  "settings_of h clone source found =
     (case found of
        [first, second] \<Rightarrow>
          if first \<noteq> second then return_io None
          else bind_io (requireObjectLike h first (settings_text source)) (\<lambda>a.
               bind_io (copyOutSettings clone a (settings_text source)) (\<lambda>s. return_io (Some s)))
      | _ \<Rightarrow>
          bind_io (requireObjectLike h (case found of [] \<Rightarrow> VUndef | v # _ \<Rightarrow> v) (settings_text source)) (\<lambda>a.
          bind_io (copyOutSettings clone a (settings_text source)) (\<lambda>s. return_io (Some s))))"

definition compareCompilerSettings ::
  "heap \<Rightarrow> (nat \<Rightarrow> js option) \<Rightarrow> lineages \<Rightarrow> settings_source \<Rightarrow> (paths_read, 'e, settings_outcome) io" where
  "compareCompilerSettings h clone ls source s =
     (if source = NoSettings then (Inr (SettingsResolved (JObj [])), s)
      else
        (case bind_io (found_settings h (settings_hops source) [via_deployer ls, via_artifacts ls])
                (settings_of h clone source) s of
           (Inl f, t) \<Rightarrow> (Inr (SettingsFailed f), t)
         | (Inr None, t) \<Rightarrow> (Inr SettingsConflict, t)
         | (Inr (Some j), t) \<Rightarrow> (Inr (SettingsResolved j), t)))"

record compiler_configuration =
  cc_resolvedVersion :: string
  cc_settings :: js
  cc_family :: compiler_family
  cc_viaLegacyFlag :: "legacy_flag option"
  cc_versionIsHostDefault :: bool
  cc_settingsSource :: settings_source

definition buildCompilerConfiguration :: "compiler_values \<Rightarrow> js \<Rightarrow> compiler_configuration" where
  "buildCompilerConfiguration v settings =
     \<lparr>cc_resolvedVersion = cv_version v, cc_settings = settings, cc_family = cv_family v,
      cc_viaLegacyFlag = cv_flag v, cc_versionIsHostDefault = cv_hostDefault v,
      cc_settingsSource = cv_settings v\<rparr>"

end
