(* ===== verification/EnvArtifacts.thy ===== *)
theory EnvArtifacts
  imports EnvProject JsArray
begin

text \<open>
  \<open>environment/ambiguity.ts\<close>, \<open>artifact-record.ts\<close> and \<open>artifacts.ts\<close>: the build-info files,
  the index of bare contract names built from them, the facts read off a resolved artifact, and
  the slot that resolves artifacts through the host's intercept.

  The file system, the host's \<open>require\<close>, \<open>JSON.parse\<close> and \<open>localeCompare\<close> are parameters.
  What the slot asks of the host is logged, and the host's answers may depend on the log.
\<close>

section \<open>Build-info files\<close>

text \<open>What a raised value shows: its own \<open>code\<close>, where that is a string, and the name of an \<open>Error\<close>.\<close>

record thrown =
  th_code :: "string option"
  th_name :: "string option"

definition safeCause :: "thrown \<Rightarrow> string \<Rightarrow> string" where
  "safeCause e fallback =
     (case th_code e of
        Some c \<Rightarrow> c
      | None \<Rightarrow> (case th_name e of Some n \<Rightarrow> if n \<noteq> ''Error'' then n else fallback | None \<Rightarrow> fallback))"

record build_info_file =
  bf_file :: string
  bf_output :: js
  bf_inputFile :: "string option"
  bf_input :: "js option"

datatype build_info_read =
    BuildInfoAbsent
  | BuildInfoUnreadable string string
  | BuildInfoFiles "build_info_file list"

record dir_entry =
  de_name :: string
  de_isFile :: bool

record file_system =
  fs_list :: "string \<Rightarrow> thrown + dir_entry list"
  fs_text :: "string \<Rightarrow> thrown + string"
  fs_exists :: "string \<Rightarrow> bool"
  fs_parse :: "string \<Rightarrow> js option"

definition ends_with :: "string \<Rightarrow> string \<Rightarrow> bool" where
  "ends_with s t \<longleftrightarrow> suffix t s"

definition OUTPUT_SUFFIX :: string where
  "OUTPUT_SUFFIX = ''.output.json''"

definition output_entries :: "(string \<Rightarrow> string \<Rightarrow> int) \<Rightarrow> dir_entry list \<Rightarrow> dir_entry list" where
  "output_entries locale es =
     sort_by (\<lambda>l r. locale (de_name l) (de_name r))
       (filter (\<lambda>e. de_isFile e \<and> ends_with (de_name e) OUTPUT_SUFFIX) es)"

definition not_absolute_error :: thrown where
  "not_absolute_error = \<lparr>th_code = None, th_name = Some ''ConfigReadFailureError''\<rparr>"

text \<open>The compiler input next to an output: missing and broken both leave nothing parsed.\<close>

definition paired_input :: "file_system \<Rightarrow> string \<Rightarrow> string \<Rightarrow> thrown + (string option \<times> js option)" where
  "paired_input fs dir name =
     (let candidate = path_join dir (take (length name - length OUTPUT_SUFFIX) name @ ''.json'')
      in if \<not> fs_exists fs candidate then Inr (None, None)
         else if \<not> is_absolute candidate then Inl not_absolute_error
         else Inr (Some candidate, case fs_text fs candidate of Inl _ \<Rightarrow> None | Inr t \<Rightarrow> fs_parse fs t))"

text \<open>The loop over the entries: the first output that cannot be used ends it.\<close>

fun read_outputs :: "file_system \<Rightarrow> string \<Rightarrow> dir_entry list \<Rightarrow> build_info_file list \<Rightarrow> thrown + build_info_read" where
  "read_outputs fs dir [] files = Inr (BuildInfoFiles files)"
| "read_outputs fs dir (e # es) files =
     (let file = path_join dir (de_name e)
      in if \<not> is_absolute file then Inl not_absolute_error
         else
           (case fs_text fs file of
              Inl err \<Rightarrow> Inr (BuildInfoUnreadable file (safeCause err ''the file could not be read''))
            | Inr t \<Rightarrow>
                (case fs_parse fs t of
                   None \<Rightarrow> Inr (BuildInfoUnreadable file ''the file is not valid JSON'')
                 | Some out \<Rightarrow>
                     (case paired_input fs dir (de_name e) of
                        Inl err \<Rightarrow> Inl err
                      | Inr (pair, parsed) \<Rightarrow>
                          read_outputs fs dir es
                            (files @ [\<lparr>bf_file = file, bf_output = out, bf_inputFile = pair, bf_input = parsed\<rparr>])))))"

definition defaultRead ::
  "(string \<Rightarrow> string \<Rightarrow> int) \<Rightarrow> file_system \<Rightarrow> string \<Rightarrow> thrown + build_info_read" where
  "defaultRead locale fs dir =
     (case fs_list fs dir of
        Inl err \<Rightarrow>
          if safeCause err [] = ''ENOENT'' then Inr BuildInfoAbsent
          else Inr (BuildInfoUnreadable dir (safeCause err ''the directory could not be listed''))
      | Inr es \<Rightarrow> read_outputs fs dir (output_entries locale es) [])"

section \<open>The index of bare names\<close>

text \<open>One leading \<open>./\<close>, then one trailing \<open>.sol\<close> in any case.\<close>

definition normalizeArtifactName :: "string \<Rightarrow> string" where
  "normalizeArtifactName name =
     (let n = (if prefix ''./'' name then drop 2 name else name)
      in if suffix ''.sol'' (lower n) then take (length n - 4) n else n)"

record candidate =
  ca_sourcePath :: string
  ca_contractName :: string
  ca_buildInfoFile :: string

datatype indeterminate_reason =
    BuildInfoMissing string bool
  | BuildInfoBroken string string
  | LacksContractMap string

datatype ambiguity_report =
    Indexed "(string \<times> candidate list) list" "string list"
  | Indeterminate indeterminate_reason

record ambiguity_index =
  ai_report :: ambiguity_report
  ai_byName :: "(string \<times> candidate list) list"

definition index_candidates :: "ambiguity_index \<Rightarrow> string \<Rightarrow> candidate list" where
  "index_candidates ix name = listed (ai_byName ix) (normalizeArtifactName name)"

fun isObjectRecord :: "js \<Rightarrow> bool" where
  "isObjectRecord (JObj _) = True"
| "isObjectRecord _ = False"

definition indeterminateIndex :: "indeterminate_reason \<Rightarrow> ambiguity_index" where
  "indeterminateIndex r = \<lparr>ai_report = Indeterminate r, ai_byName = []\<rparr>"

definition absentIndex :: "project_paths \<Rightarrow> ambiguity_index" where
  "absentIndex paths =
     indeterminateIndex (BuildInfoMissing (pp_buildInfoDirectory paths) (pp_buildIsExternal paths))"

definition candidateOrder :: "(string \<Rightarrow> string \<Rightarrow> int) \<Rightarrow> candidate \<Rightarrow> candidate \<Rightarrow> int" where
  "candidateOrder locale l r =
     (if locale (ca_sourcePath l) (ca_sourcePath r) \<noteq> 0 then locale (ca_sourcePath l) (ca_sourcePath r)
      else if locale (ca_contractName l) (ca_contractName r) \<noteq> 0
      then locale (ca_contractName l) (ca_contractName r)
      else locale (ca_buildInfoFile l) (ca_buildInfoFile r))"

definition outside_directory :: string where
  "outside_directory = ''the build-info reader named a file outside buildInfoDirectory''"

type_synonym by_name = "(string \<times> candidate list) list"

definition index_contracts :: "string \<Rightarrow> string \<Rightarrow> js \<Rightarrow> by_name \<Rightarrow> by_name" where
  "index_contracts file source contracts m =
     foldl (\<lambda>m c. push_at (normalizeArtifactName c)
         \<lparr>ca_sourcePath = source, ca_contractName = c, ca_buildInfoFile = file\<rparr> m) m (own_keys contracts)"

fun index_sources :: "string \<Rightarrow> (string \<times> js) list \<Rightarrow> by_name \<Rightarrow> by_name option" where
  "index_sources file [] m = Some m"
| "index_sources file ((source, contracts) # rest) m =
     (if \<not> isObjectRecord contracts then None
      else index_sources file rest (index_contracts file source contracts m))"

fun js_entries :: "js \<Rightarrow> (string \<times> js) list" where
  "js_entries (JObj ps) = ps"
| "js_entries _ = []"

fun index_files ::
  "string \<Rightarrow> build_info_file list \<Rightarrow> string list \<Rightarrow> by_name \<Rightarrow> indeterminate_reason + (string list \<times> by_name)" where
  "index_files dir [] indexed m = Inr (indexed, m)"
| "index_files dir (e # es) indexed m =
     (if \<not> is_absolute (bf_file e) \<or> \<not> isContainedIn dir (bf_file e) then Inl (BuildInfoBroken dir outside_directory)
      else if \<not> isObjectRecord (bf_output e) \<or> \<not> isObjectRecord (own_prop (bf_output e) ''contracts'')
      then Inl (LacksContractMap (bf_file e))
      else
        (case index_sources (bf_file e) (js_entries (own_prop (bf_output e) ''contracts'')) m of
           None \<Rightarrow> Inl (LacksContractMap (bf_file e))
         | Some m' \<Rightarrow> index_files dir es (indexed @ [bf_file e]) m'))"

definition settle_index :: "(string \<Rightarrow> string \<Rightarrow> int) \<Rightarrow> string list \<Rightarrow> by_name \<Rightarrow> ambiguity_index" where
  "settle_index locale indexed m =
     (let byName = map (\<lambda>(n, cs). (n, sort_by (candidateOrder locale) cs)) m
      in \<lparr>ai_report = Indexed (sort_by (\<lambda>l r. locale (fst l) (fst r)) (filter (\<lambda>(n, cs). 1 < length cs) byName)) indexed,
          ai_byName = byName\<rparr>)"

definition buildArtifactAmbiguityIndex ::
  "(string \<Rightarrow> string \<Rightarrow> int) \<Rightarrow> project_paths \<Rightarrow> (string \<Rightarrow> thrown + build_info_read) \<Rightarrow> ambiguity_index" where
  "buildArtifactAmbiguityIndex locale paths read =
     (let dir = pp_buildInfoDirectory paths
      in case read dir of
           Inl e \<Rightarrow> indeterminateIndex (BuildInfoBroken dir (safeCause e ''the build-info reader failed''))
         | Inr BuildInfoAbsent \<Rightarrow> absentIndex paths
         | Inr (BuildInfoUnreadable file cause) \<Rightarrow>
             indeterminateIndex
               (if is_absolute file \<and> isContainedIn dir file then BuildInfoBroken file cause
                else BuildInfoBroken dir outside_directory)
         | Inr (BuildInfoFiles files) \<Rightarrow>
             if files = [] then absentIndex paths
             else
               (case index_files dir files [] [] of
                  Inl reason \<Rightarrow> indeterminateIndex reason
                | Inr (indexed, m) \<Rightarrow> settle_index locale indexed m))"


section \<open>What an artifact record says\<close>

datatype record_field = FieldCompilerVersion | FieldSource | FieldSourcePath | FieldBytecode | FieldDeployedBytecode

record artifact_record =
  ar_longCompilerVersion :: string
  ar_bytecode :: string
  ar_deployedBytecode :: string
  ar_source :: string
  ar_sourcePath :: string

datatype record_report =
    RecordComplete artifact_record "string list" paths_read
  | RecordIncomplete "record_field list" "string list" paths_read

definition FIELD_NAMES :: "record_field list" where
  "FIELD_NAMES = [FieldCompilerVersion, FieldSource, FieldSourcePath, FieldBytecode, FieldDeployedBytecode]"

definition JSON_PATH :: string where
  "JSON_PATH = ''contract._json''"

text \<open>A read of one field, with the path that produced it.\<close>

type_synonym 'a record_io = "(paths_read, string, 'a) io"

definition field_at :: "heap \<Rightarrow> hval \<Rightarrow> string \<Rightarrow> string \<Rightarrow> (property_read \<times> string) record_io" where
  "field_at h json key path = bind_io (readOwnProperty h json key path) (\<lambda>r. return_io (r, path))"

fun read_field :: "heap \<Rightarrow> hval \<Rightarrow> record_field \<Rightarrow> (property_read \<times> string) record_io" where
  "read_field h json FieldCompilerVersion =
     (let outer = JSON_PATH @ ''.compiler''
      in bind_io (readOwnProperty h json ''compiler'' outer) (\<lambda>r.
           case r of
             ReadOk v \<Rightarrow>
               if \<not> object_like v then return_io (ReadMissing, outer)
               else field_at h v ''version'' (JSON_PATH @ ''.compiler.version'')
           | bad \<Rightarrow> return_io (bad, outer)))"
| "read_field h json FieldSource = field_at h json ''source'' (JSON_PATH @ ''.source'')"
| "read_field h json FieldSourcePath = field_at h json ''sourcePath'' (JSON_PATH @ ''.sourcePath'')"
| "read_field h json FieldBytecode = field_at h json ''bytecode'' (JSON_PATH @ ''.bytecode'')"
| "read_field h json FieldDeployedBytecode = field_at h json ''deployedBytecode'' (JSON_PATH @ ''.deployedBytecode'')"

definition observedKeysOf :: "heap \<Rightarrow> nat \<Rightarrow> string list option" where
  "observedKeysOf h a = (if ho_traps (h a) then None else Some (sort_by compare_units (map fst (ho_own (h a)))))"

text \<open>The loop over the fields: what is a string is kept, the rest is missing, a raise ends it.\<close>

fun read_fields ::
  "heap \<Rightarrow> hval \<Rightarrow> record_field list \<Rightarrow> ((record_field \<times> string) list \<times> record_field list) record_io" where
  "read_fields h json [] = return_io ([], [])"
| "read_fields h json (f # fs) =
     bind_io (read_field h json f) (\<lambda>(r, path).
       case r of
         ReadThrew \<Rightarrow> throw_io path
       | _ \<Rightarrow>
           bind_io (read_fields h json fs) (\<lambda>(vs, ms).
             return_io (case r of ReadOk (VStr s) \<Rightarrow> ((f, s) # vs, ms) | _ \<Rightarrow> (vs, f # ms))))"

definition value_of :: "(record_field \<times> string) list \<Rightarrow> record_field \<Rightarrow> string" where
  "value_of vs f = (case map_of vs f of Some s \<Rightarrow> s | None \<Rightarrow> [])"

definition record_of :: "(record_field \<times> string) list \<Rightarrow> artifact_record" where
  "record_of vs =
     \<lparr>ar_longCompilerVersion = value_of vs FieldCompilerVersion, ar_bytecode = value_of vs FieldBytecode,
      ar_deployedBytecode = value_of vs FieldDeployedBytecode, ar_source = value_of vs FieldSource,
      ar_sourcePath = value_of vs FieldSourcePath\<rparr>"

text \<open>\<open>Inl path\<close>: the host's accessor at that path raised.\<close>

definition readArtifactRecord :: "heap \<Rightarrow> hval \<Rightarrow> string + record_report" where
  "readArtifactRecord h contract =
     (let (r, s) = readOwnProperty h contract ''_json'' JSON_PATH []
      in case r of
           Inl e \<Rightarrow> Inl e
         | Inr ReadThrew \<Rightarrow> Inl JSON_PATH
         | Inr ReadMissing \<Rightarrow> Inr (RecordIncomplete FIELD_NAMES [] s)
         | Inr (ReadOk json) \<Rightarrow>
             (case json of
                VObj a \<Rightarrow>
                  (case observedKeysOf h a of
                     None \<Rightarrow> Inl JSON_PATH
                   | Some keys \<Rightarrow>
                       (case read_fields h json FIELD_NAMES s of
                          (Inl path, _) \<Rightarrow> Inl path
                        | (Inr (vs, ms), t) \<Rightarrow>
                            Inr (if ms \<noteq> [] then RecordIncomplete ms keys t
                                 else RecordComplete (record_of vs) keys t)))
              | _ \<Rightarrow> Inr (RecordIncomplete FIELD_NAMES [] s)))"

section \<open>Resolving artifacts\<close>

datatype require_result = RequireThrew | RequireReturned hval

datatype channel = ChannelThrew | ChannelNullish

datatype access_event = Required string | IndexRead | Probed string

record access_host =
  ah_heap :: heap
  ah_require :: "access_event list \<Rightarrow> string \<Rightarrow> require_result"
  ah_read :: "access_event list \<Rightarrow> string \<Rightarrow> thrown + build_info_read"
  ah_exists :: "access_event list \<Rightarrow> string \<Rightarrow> thrown + bool"
  ah_locale :: "string \<Rightarrow> string \<Rightarrow> int"

record access_state =
  as_log :: "access_event list"
  as_index :: "ambiguity_index option"

datatype artifact_error =
    NameNotString string
  | NameUnresolved string channel
  | NoSourcePath string
  | PackagedNotString string
  | PackagedEmpty
  | PackagedNul
  | PackagedEscapes string
  | PackagedNotJson string
  | PackagedProbeFailed string string
  | PackagedMissing string string
  | PackagedMalformed string string
  | RecordAccessorRaised string

type_synonym 'a access = "(access_state, artifact_error, 'a) io"

datatype resolution =
    UniqueArtifact string hval string
  | AmbiguousArtifact string "candidate list" hval
  | IndeterminateArtifact string indeterminate_reason hval

definition log_access :: "access_event \<Rightarrow> (access_state, 'e, unit) io" where
  "log_access e s = (Inr (), s\<lparr>as_log := as_log s @ [e]\<rparr>)"

definition resolveThroughIntercept ::
  "access_host \<Rightarrow> string \<Rightarrow> (access_state, 'e, channel + hval) io" where
  "resolveThroughIntercept host input s =
     (case log_access (Required input) s of
        (Inl e, t) \<Rightarrow> (Inl e, t)
      | (Inr _, t) \<Rightarrow>
          (Inr (case ah_require host (as_log s) input of
                  RequireThrew \<Rightarrow> Inl ChannelThrew
                | RequireReturned v \<Rightarrow> if object_like v then Inr v else Inl ChannelNullish), t))"

definition contractSourcePath :: "heap \<Rightarrow> hval \<Rightarrow> string option" where
  "contractSourcePath h c =
     (case read_slot h (\<lambda>a. any_slot h a ''sourcePath'') c of ReadOk (VStr p) \<Rightarrow> Some p | _ \<Rightarrow> None)"

definition is_letter :: "char \<Rightarrow> bool" where
  "is_letter c \<longleftrightarrow> to_lower c \<in> set ''abcdefghijklmnopqrstuvwxyz''"

text \<open>The path's checks, in their order; nothing is asked of the host.\<close>

definition validatePackageRelativePath :: "js \<Rightarrow> artifact_error + string" where
  "validatePackageRelativePath v =
     (case v of
        JStr p \<Rightarrow>
          if p = [] then Inl PackagedEmpty
          else if CHR 0x00 \<in> set p then Inl PackagedNul
          else
            (let normalized = path_normalize (slashes p);
                 drive = (length normalized \<ge> 3 \<and> is_letter (normalized ! 0) \<and> normalized ! 1 = CHR '':'' \<and> normalized ! 2 = CHR ''/'')
             in if prefix ''./'' p \<or> is_absolute p \<or> is_absolute normalized \<or> drive
                   \<or> normalized = ''..'' \<or> prefix ''../'' normalized
                then Inl (PackagedEscapes p)
                else if \<not> ends_with normalized ''.json'' then Inl (PackagedNotJson p)
                else Inr p)
      | _ \<Rightarrow> Inl (PackagedNotString (js_typeof v)))"

text \<open>The index is built at the first use and kept.\<close>

definition getIndex :: "access_host \<Rightarrow> project_paths \<Rightarrow> (access_state, 'e, ambiguity_index) io" where
  "getIndex host paths s =
     (case as_index s of
        Some ix \<Rightarrow> (Inr ix, s)
      | None \<Rightarrow>
          (let ix = buildArtifactAmbiguityIndex (ah_locale host) paths (ah_read host (as_log s))
           in (Inr ix, s\<lparr>as_log := as_log s @ [IndexRead], as_index := Some ix\<rparr>)))"

definition resolve_artifact :: "access_host \<Rightarrow> project_paths \<Rightarrow> js \<Rightarrow> resolution access" where
  "resolve_artifact host paths v =
     (case v of
        JStr n \<Rightarrow>
          (let name = normalizeArtifactName n
           in bind_io (resolveThroughIntercept host name) (\<lambda>outcome.
                case outcome of
                  Inl ch \<Rightarrow> throw_io (NameUnresolved name ch)
                | Inr contract \<Rightarrow>
                    bind_io (getIndex host paths) (\<lambda>ix.
                      case ai_report ix of
                        Indeterminate reason \<Rightarrow> return_io (IndeterminateArtifact name reason contract)
                      | Indexed _ _ \<Rightarrow>
                          (let cs = index_candidates ix name
                           in if 1 < length cs then return_io (AmbiguousArtifact name cs contract)
                              else
                                (case (case cs of c # _ \<Rightarrow> Some (ca_sourcePath c) | [] \<Rightarrow> contractSourcePath (ah_heap host) contract) of
                                   None \<Rightarrow> throw_io (NoSourcePath name)
                                 | Some p \<Rightarrow> return_io (UniqueArtifact name contract p))))))
      | _ \<Rightarrow> throw_io (NameNotString (js_typeof v)))"

definition host_path :: "project_paths \<Rightarrow> string \<Rightarrow> string" where
  "host_path paths p = path_join (pp_root paths) (''node_modules/'' @ p)"

definition resolvePackaged :: "access_host \<Rightarrow> project_paths \<Rightarrow> js \<Rightarrow> hval access" where
  "resolvePackaged host paths v =
     (case validatePackageRelativePath v of
        Inl e \<Rightarrow> throw_io e
      | Inr p \<Rightarrow>
          bind_io (resolveThroughIntercept host p) (\<lambda>outcome.
            case outcome of
              Inr contract \<Rightarrow> return_io contract
            | Inl _ \<Rightarrow>
                (let hp = host_path paths p
                 in if \<not> is_absolute hp then throw_io (PackagedProbeFailed p hp)
                    else (\<lambda>s.
                      (case ah_exists host (as_log s) hp of
                         Inl _ \<Rightarrow> Inl (PackagedProbeFailed p hp)
                       | Inr False \<Rightarrow> Inl (PackagedMissing p hp)
                       | Inr True \<Rightarrow> Inl (PackagedMalformed p hp),
                       s\<lparr>as_log := as_log s @ [Probed hp]\<rparr>)))))"

definition record_artifact :: "access_host \<Rightarrow> hval \<Rightarrow> record_report access" where
  "record_artifact host contract =
     (case readArtifactRecord (ah_heap host) contract of
        Inl path \<Rightarrow> throw_io (RecordAccessorRaised path)
      | Inr report \<Rightarrow> return_io report)"

definition ambiguities :: "access_host \<Rightarrow> project_paths \<Rightarrow> (access_state, 'e, ambiguity_report) io" where
  "ambiguities host paths = bind_io (getIndex host paths) (\<lambda>ix. return_io (ai_report ix))"


section \<open>The index holds every name\<close>

definition file_candidates :: "build_info_file \<Rightarrow> candidate list" where
  "file_candidates e =
     concat (map (\<lambda>(source, contracts).
         map (\<lambda>c. \<lparr>ca_sourcePath = source, ca_contractName = c, ca_buildInfoFile = bf_file e\<rparr>) (own_keys contracts))
       (js_entries (own_prop (bf_output e) ''contracts'')))"

definition all_candidates :: "build_info_file list \<Rightarrow> candidate list" where
  "all_candidates files = concat (map file_candidates files)"

definition named :: "string \<Rightarrow> candidate list \<Rightarrow> candidate list" where
  "named k cs = filter (\<lambda>c. normalizeArtifactName (ca_contractName c) = k) cs"

lemma named_append [simp]: "named k (xs @ ys) = named k xs @ named k ys"
  by (simp add: named_def)

lemma named_Nil [simp]: "named k [] = []"
  by (simp add: named_def)

text \<open>Every list of a map under construction is non-empty, under keys that do not repeat.\<close>

definition well_keyed :: "by_name \<Rightarrow> bool" where
  "well_keyed m \<longleftrightarrow> distinct (map fst m)"

lemma index_contracts_listed:
  "listed (index_contracts file source contracts m) k =
     listed m k @ named k (map (\<lambda>c. \<lparr>ca_sourcePath = source, ca_contractName = c, ca_buildInfoFile = file\<rparr>) (own_keys contracts))"
proof -
  have "listed (foldl (\<lambda>m c. push_at (normalizeArtifactName c)
         \<lparr>ca_sourcePath = source, ca_contractName = c, ca_buildInfoFile = file\<rparr> m) m cs) k =
     listed m k @ named k (map (\<lambda>c. \<lparr>ca_sourcePath = source, ca_contractName = c, ca_buildInfoFile = file\<rparr>) cs)" for cs
    by (induction cs arbitrary: m) (auto simp: listed_push_at named_def)
  then show ?thesis by (simp add: index_contracts_def)
qed

lemma index_contracts_keys: "well_keyed m \<Longrightarrow> well_keyed (index_contracts file source contracts m)"
proof -
  have "well_keyed m \<Longrightarrow> well_keyed (foldl (\<lambda>m c. push_at (normalizeArtifactName c)
         \<lparr>ca_sourcePath = source, ca_contractName = c, ca_buildInfoFile = file\<rparr> m) m cs)" for cs
    by (induction cs arbitrary: m) (auto simp: well_keyed_def distinct_push_at)
  then show "well_keyed m \<Longrightarrow> ?thesis" by (simp add: index_contracts_def)
qed

lemma index_sources_ok:
  "index_sources file entries m = Some m' \<Longrightarrow>
     list_all (\<lambda>(_, contracts). isObjectRecord contracts) entries
     \<and> (\<forall>k. listed m' k = listed m k @ named k (concat (map (\<lambda>(source, contracts).
           map (\<lambda>c. \<lparr>ca_sourcePath = source, ca_contractName = c, ca_buildInfoFile = file\<rparr>) (own_keys contracts)) entries)))
     \<and> (well_keyed m \<longrightarrow> well_keyed m')"
  by (induction entries arbitrary: m)
    (auto simp: index_contracts_listed index_contracts_keys split: if_splits prod.splits)

text \<open>What the code requires of a file that contributes.\<close>

definition contributes :: "string \<Rightarrow> build_info_file \<Rightarrow> bool" where
  "contributes dir e \<longleftrightarrow>
     is_absolute (bf_file e) \<and> isContainedIn dir (bf_file e)
     \<and> isObjectRecord (own_prop (bf_output e) ''contracts'')
     \<and> list_all (\<lambda>(_, contracts). isObjectRecord contracts) (js_entries (own_prop (bf_output e) ''contracts''))"

lemma index_files_ok:
  "index_files dir files indexed m = Inr (indexed', m') \<Longrightarrow>
     list_all (contributes dir) files \<and> indexed' = indexed @ map bf_file files
     \<and> (\<forall>k. listed m' k = listed m k @ named k (all_candidates files)) \<and> (well_keyed m \<longrightarrow> well_keyed m')"
proof (induction dir files indexed m rule: index_files.induct)
  case (2 dir e es indexed m)
  then obtain m1 where s: "index_sources (bf_file e) (js_entries (own_prop (bf_output e) ''contracts'')) m = Some m1"
    and r: "index_files dir es (indexed @ [bf_file e]) m1 = Inr (indexed', m')"
    and c: "is_absolute (bf_file e)" "isContainedIn dir (bf_file e)" "isObjectRecord (own_prop (bf_output e) ''contracts'')"
    "isObjectRecord (bf_output e)"
    by (auto split: if_splits option.splits)
  have "list_all (contributes dir) es \<and> indexed' = (indexed @ [bf_file e]) @ map bf_file es
     \<and> (\<forall>k. listed m' k = listed m1 k @ named k (all_candidates es)) \<and> (well_keyed m1 \<longrightarrow> well_keyed m')"
    using 2(1) c s r by simp
  moreover have "contributes dir e" using index_sources_ok [OF s] c by (simp add: contributes_def)
  ultimately show ?case using index_sources_ok [OF s]
    by (simp add: all_candidates_def file_candidates_def)
qed (simp add: all_candidates_def)

lemma build_indexed:
  assumes "ai_report (buildArtifactAmbiguityIndex locale paths read) = Indexed collisions indexed"
  obtains files m where "read (pp_buildInfoDirectory paths) = Inr (BuildInfoFiles files)" "files \<noteq> []"
    "index_files (pp_buildInfoDirectory paths) files [] [] = Inr (indexed, m)"
    "buildArtifactAmbiguityIndex locale paths read = settle_index locale indexed m"
  using assms
  by (auto simp: buildArtifactAmbiguityIndex_def Let_def indeterminateIndex_def absentIndex_def settle_index_def
      split: sum.splits build_info_read.splits if_splits)

lemma listed_map: "listed (map (\<lambda>(n, cs). (n, f cs)) m) k = (if k \<in> set (map fst m) then f (listed m k) else [])"
  by (induction m) (auto simp: listed_def map_of_eq_None_iff image_iff split: option.splits)

lemma listed_mem:
  "distinct (map fst m) \<Longrightarrow> listed m k \<noteq> [] \<Longrightarrow> (k, listed m k) \<in> set m"
  by (auto simp: listed_def split: option.splits dest: map_of_SomeD)

text \<open>
  The index is complete or there is none.  A report that says \<open>indexed\<close> stands on every
  build-info file the reader returned, each absolute, inside the directory and with a contract
  map; the candidates of a name are then exactly the contracts of those files whose bare name it
  is, none dropped and none invented, and the collisions are exactly the bare names that more than
  one contract has.
\<close>

theorem ambiguity_index_is_complete:
  assumes "ai_report (buildArtifactAmbiguityIndex locale paths read) = Indexed collisions indexed"
  shows "\<exists>files. read (pp_buildInfoDirectory paths) = Inr (BuildInfoFiles files) \<and> files \<noteq> [] \<and>
    indexed = map bf_file files \<and> list_all (contributes (pp_buildInfoDirectory paths)) files \<and>
    (\<forall>name. mset (index_candidates (buildArtifactAmbiguityIndex locale paths read) name) =
       mset (named (normalizeArtifactName name) (all_candidates files))) \<and>
    (\<forall>n. n \<in> fst ` set collisions \<longleftrightarrow> 1 < length (named n (all_candidates files)))"
proof -
  let ?dir = "pp_buildInfoDirectory paths"
  obtain files m where files: "read ?dir = Inr (BuildInfoFiles files)" "files \<noteq> []"
    and ix: "index_files ?dir files [] [] = Inr (indexed, m)"
    and b: "buildArtifactAmbiguityIndex locale paths read = settle_index locale indexed m"
    by (rule build_indexed [OF assms])
  have l: "listed m k = named k (all_candidates files)" for k
    using index_files_ok [OF ix] by simp
  have d: "distinct (map fst m)"
    using index_files_ok [OF ix] by (simp_all add: well_keyed_def)
  have c: "collisions = sort_by (\<lambda>l r. locale (fst l) (fst r))
      (filter (\<lambda>(n, cs). 1 < length cs) (map (\<lambda>(n, cs). (n, sort_by (candidateOrder locale) cs)) m))"
    using assms b by (simp add: settle_index_def Let_def)
  have len: "length (sort_by f xs) = length xs" for f :: "candidate \<Rightarrow> candidate \<Rightarrow> int" and xs
    by (metis mset_sort_by size_mset)
  have keys: "n \<in> fst ` set collisions \<longleftrightarrow> 1 < length (listed m n)" for n
  proof
    assume "n \<in> fst ` set collisions"
    then obtain cs where "(n, cs) \<in> set m" "1 < length cs" by (auto simp: c set_sort_by len)
    then show "1 < length (listed m n)" using d by (simp add: listed_def)
  next
    assume a: "1 < length (listed m n)"
    then have "listed m n \<noteq> []" by auto
    then have "(n, listed m n) \<in> set m" by (rule listed_mem [OF d])
    then show "n \<in> fst ` set collisions" using a by (force simp: c set_sort_by len image_iff)
  qed
  have "listed m k = []" if "k \<notin> set (map fst m)" for k
  proof -
    have "map_of m k = None" using that by (simp add: map_of_eq_None_iff)
    then show ?thesis by (simp add: listed_def)
  qed
  then have "mset (index_candidates (settle_index locale indexed m) name) =
      mset (named (normalizeArtifactName name) (all_candidates files))" for name
    using l by (auto simp: index_candidates_def settle_index_def listed_map mset_sort_by Let_def)
  then show ?thesis using files index_files_ok [OF ix] keys l b by auto
qed


definition demo_compare :: "string \<Rightarrow> string \<Rightarrow> int" where
  "demo_compare = compare_units"

definition demo_project :: project_paths where
  "demo_project =
     \<lparr>pp_root = ''/p'', pp_contractsDirectory = ''/p/c'', pp_contractsBuildDirectory = ''/p/b'',
      pp_buildInfoDirectory = ''/p/i'', pp_buildIsExternal = False\<rparr>"

definition demo_build_info :: "thrown + build_info_read" where
  "demo_build_info =
     Inr (BuildInfoFiles
       [\<lparr>bf_file = ''/p/i/a.output.json'',
         bf_output = JObj [(''contracts'', JObj [(''A.sol'', JObj [(''Box'', JNull)]), (''B.sol'', JObj [(''Box'', JNull)])])],
         bf_inputFile = None, bf_input = None\<rparr>])"

lemma demo_index:
  "ai_report (buildArtifactAmbiguityIndex demo_compare demo_project (\<lambda>_. demo_build_info)) =
     Indexed
       [(''Box'',
         [\<lparr>ca_sourcePath = ''A.sol'', ca_contractName = ''Box'', ca_buildInfoFile = ''/p/i/a.output.json''\<rparr>,
          \<lparr>ca_sourcePath = ''B.sol'', ca_contractName = ''Box'', ca_buildInfoFile = ''/p/i/a.output.json''\<rparr>])]
       [''/p/i/a.output.json'']"
  by code_simp

theorem ambiguity_index_is_complete_witness:
  "\<exists>files. demo_build_info = Inr (BuildInfoFiles files) \<and> 1 < length (named ''Box'' (all_candidates files))"
  using ambiguity_index_is_complete [OF demo_index] by auto

section \<open>Packaged paths\<close>

lemma split_at_char_ne [simp]: "split_at_char d a \<noteq> []"
  by (induction a) (auto split: list.splits)

lemma split_at_char_append: "split_at_char d (a @ d # b) = split_at_char d a @ split_at_char d b"
  by (induction a) (auto split: list.splits)

lemma norm_seg_steps [simp]:
  "norm_seg e acc [] = acc" "norm_seg e acc ''.'' = acc"
  "norm_seg True [] ''..'' = [''..'']" "norm_seg True (''..'' # xs) ''..'' = ''..'' # ''..'' # xs"
  "x \<noteq> ''..'' \<Longrightarrow> norm_seg e (x # xs) ''..'' = xs"
  "seg \<noteq> [] \<Longrightarrow> seg \<noteq> ''.'' \<Longrightarrow> seg \<noteq> ''..'' \<Longrightarrow> norm_seg e acc seg = seg # acc"
  by (simp_all add: norm_seg_def)

lemma seg_cases:
  obtains (skip) "seg = [] \<or> seg = ''.''" | (up) "seg = ''..''" | (down) "seg \<noteq> []" "seg \<noteq> ''.''" "seg \<noteq> ''..''"
  by blast

lemma dotdot_stays:
  assumes "''..'' \<in> set acc"
  shows "''..'' \<in> set (norm_seg True acc seg) \<and> last (norm_seg True acc seg) = last acc"
proof (cases rule: seg_cases [of seg])
  case up
  then show ?thesis using assms
    by (cases acc; cases "acc = [] \<or> hd acc = ''..''") auto
qed (use assms in auto)

text \<open>Where nothing climbs out, normalising below a directory leaves the directory alone.\<close>

lemma norm_below:
  "''..'' \<notin> set (foldl (norm_seg True) [] segs) \<Longrightarrow>
     foldl (norm_seg False) base segs = foldl (norm_seg True) [] segs @ base"
proof (induction segs rule: rev_induct)
  case (snoc x segs)
  let ?t = "foldl (norm_seg True) [] segs"
  have no: "''..'' \<notin> set ?t" using snoc.prems dotdot_stays by fastforce
  then have ih: "foldl (norm_seg False) base segs = ?t @ base" by (rule snoc.IH)
  show ?case
  proof (cases rule: seg_cases [of x])
    case up
    then have "?t \<noteq> []" using snoc.prems by auto
    then obtain y ys where "?t = y # ys" by (cases ?t) auto
    then show ?thesis using ih no up by auto
  qed (use ih in auto)
qed simp

text \<open>The climbing segments stand first.\<close>

lemma dotdot_first:
  "''..'' \<in> set (foldl (norm_seg True) [] segs) \<Longrightarrow> last (foldl (norm_seg True) [] segs) = ''..''"
proof (induction segs rule: rev_induct)
  case (snoc x segs)
  let ?t = "foldl (norm_seg True) [] segs"
  show ?case
  proof (cases "''..'' \<in> set ?t")
    case True
    then show ?thesis using snoc.IH dotdot_stays [OF True] by auto
  next
    case False
    then show ?thesis using snoc.prems
      by (cases rule: seg_cases [of x]; cases ?t) (auto split: if_splits)
  qed
qed simp


definition clean_seg :: "string \<Rightarrow> bool" where
  "clean_seg x \<longleftrightarrow> x \<noteq> [] \<and> x \<noteq> ''.'' \<and> CHR ''/'' \<notin> set x"

lemma split_without: "x \<in> set (split_at_char d s) \<Longrightarrow> d \<notin> set x"
  by (induction s arbitrary: x) (auto split: list.splits if_splits)

lemma norm_seg_clean:
  "\<forall>x \<in> set acc. clean_seg x \<Longrightarrow> CHR ''/'' \<notin> set seg \<Longrightarrow> \<forall>x \<in> set (norm_seg e acc seg). clean_seg x"
  by (cases acc) (auto simp: norm_seg_def clean_seg_def)

lemma fold_clean:
  "\<forall>x \<in> set acc. clean_seg x \<Longrightarrow> \<forall>x \<in> set segs. CHR ''/'' \<notin> set x \<Longrightarrow>
     \<forall>x \<in> set (foldl (norm_seg e) acc segs). clean_seg x"
proof (induction segs arbitrary: acc)
  case (Cons x segs)
  then show ?case using norm_seg_clean [of acc x e] by simp
qed simp

lemma normal_segments_clean: "\<forall>x \<in> set (normal_segments e p). clean_seg x"
  unfolding normal_segments_def set_rev by (rule fold_clean) (auto dest: split_without)

lemma fold_no_dotdot: "''..'' \<notin> set acc \<Longrightarrow> ''..'' \<notin> set (foldl (norm_seg False) acc segs)"
proof (induction segs arbitrary: acc)
  case (Cons x segs)
  have "''..'' \<notin> set (norm_seg False acc x)" using Cons.prems by (cases acc) (auto simp: norm_seg_def)
  then show ?case using Cons.IH by simp
qed simp

lemma split_one: "d \<notin> set x \<Longrightarrow> split_at_char d x = [x]"
  by (induction x) auto

lemma split_join:
  "segs \<noteq> [] \<Longrightarrow> \<forall>x \<in> set segs. CHR ''/'' \<notin> set x \<Longrightarrow> split_at_char (CHR ''/'') (join_slash segs) = segs"
proof (induction segs rule: join_slash.induct)
  case (2 x)
  then show ?case by (simp add: split_one)
next
  case (3 x y ys)
  then show ?case by (simp add: split_at_char_append split_one)
qed simp

lemma fold_id:
  "\<forall>x \<in> set segs. clean_seg x \<and> x \<noteq> ''..'' \<Longrightarrow> foldl (norm_seg e) acc segs = rev segs @ acc"
  by (induction segs arbitrary: acc) (simp_all add: clean_seg_def)

lemma normal_segments_normalize:
  assumes a: "is_absolute p"
  shows "normal_segments False (path_normalize p) = normal_segments False p"
proof -
  let ?n = "normal_segments False p"
  have clean: "\<forall>x \<in> set ?n. clean_seg x \<and> x \<noteq> ''..''"
    using normal_segments_clean [of False p] fold_no_dotdot [of "[]"] by (auto simp: normal_segments_def)
  obtain tail where tail: "path_normalize p = CHR ''/'' # join_slash ?n @ tail" and "tail = [] \<or> tail = ''/'' \<and> ?n \<noteq> []"
  proof (cases "join_slash ?n = []")
    case True
    then have "?n = []" using clean by (cases ?n rule: join_slash.cases) (auto simp: clean_seg_def)
    then show thesis using that [of "[]"] a by (auto simp: path_normalize_def is_absolute_def)
  next
    case False
    then have "?n \<noteq> []" by auto
    then show thesis using that [of "if last p = CHR ''/'' then ''/'' else []"] a False
      by (auto simp: path_normalize_def is_absolute_def Let_def)
  qed
  moreover have "split_at_char (CHR ''/'') (join_slash ?n) = (if ?n = [] then [[]] else ?n)"
    using split_join [of ?n] clean by (auto simp: clean_seg_def)
  moreover have "split_at_char (CHR ''/'') (join_slash ?n @ ''/'') = split_at_char (CHR ''/'') (join_slash ?n) @ [[]]"
    using split_at_char_append [of _ _ "[]"] by simp
  ultimately have "foldl (norm_seg False) [] (split_at_char (CHR ''/'') (path_normalize p)) = rev ?n"
    using fold_id [of ?n False "[]"] clean by auto
  then show ?thesis by (simp add: normal_segments_def)
qed

lemma relative_stays:
  assumes p: "p \<noteq> []" "\<not> is_absolute p" and n: "path_normalize p \<noteq> ''..''" "\<not> prefix ''../'' (path_normalize p)"
  shows "''..'' \<notin> set (normal_segments True p)"
proof
  assume d: "''..'' \<in> set (normal_segments True p)"
  then have "hd (normal_segments True p) = ''..''"
    using dotdot_first [of "split_at_char (CHR ''/'') p"] by (auto simp: normal_segments_def hd_rev)
  then obtain xs where xs: "normal_segments True p = ''..'' # xs" using d by (cases "normal_segments True p") auto
  then have "path_normalize p = join_slash (''..'' # xs) @ (if last p = CHR ''/'' then ''/'' else [])"
    using p by (cases xs) (auto simp: path_normalize_def Let_def)
  then show False using n by (cases xs) (auto split: if_splits)
qed

lemma inside_head:
  assumes "clean_seg x" "x \<noteq> ''..''"
  shows "x @ CHR ''/'' # r \<noteq> ''..'' \<and> \<not> prefix ''../'' (x @ CHR ''/'' # r) \<and> \<not> is_absolute (x @ CHR ''/'' # r)"
proof (intro conjI)
  have s: "split_at_char (CHR ''/'') (x @ CHR ''/'' # r) = x # split_at_char (CHR ''/'') r"
    using assms by (simp add: clean_seg_def split_at_char_append split_one)
  have "CHR ''/'' \<in> set (x @ CHR ''/'' # r)" "CHR ''/'' \<notin> set ''..''" by simp_all
  then show "x @ CHR ''/'' # r \<noteq> ''..''" by metis
  show "\<not> prefix ''../'' (x @ CHR ''/'' # r)"
  proof
    assume "prefix ''../'' (x @ CHR ''/'' # r)"
    then obtain z where "x @ CHR ''/'' # r = ''..'' @ CHR ''/'' # z" by (auto simp: prefix_def)
    then have "x # split_at_char (CHR ''/'') r = ''..'' # split_at_char (CHR ''/'') z"
      using s split_at_char_append [of "CHR ''/''" "''..''" z] by (simp only: split_one append_Cons append_Nil) simp
    then show False using assms by simp
  qed
  show "\<not> is_absolute (x @ CHR ''/'' # r)" using assms by (cases x) (auto simp: clean_seg_def is_absolute_def)
qed

lemma join_slash_inside:
  assumes "\<forall>x \<in> set segs. clean_seg x \<and> x \<noteq> ''..''"
  shows "join_slash segs = [] \<or>
    (join_slash segs \<noteq> ''..'' \<and> \<not> prefix ''../'' (join_slash segs) \<and> \<not> is_absolute (join_slash segs))"
proof (cases segs rule: join_slash.cases)
  case (2 x)
  then have "clean_seg x" "x \<noteq> ''..''" using assms by simp_all
  moreover have "\<not> prefix ''../'' x" using calculation by (auto simp: clean_seg_def prefix_def)
  moreover have "\<not> is_absolute x" using calculation by (cases x) (auto simp: clean_seg_def is_absolute_def)
  ultimately show ?thesis using 2 by simp
next
  case (3 x y ys)
  then show ?thesis using assms inside_head [of x "join_slash (y # ys)"] by simp
qed simp


lemma slashes_id: "CHR 0x5C \<notin> set p \<Longrightarrow> slashes p = p"
  by (induction p) (auto simp: slashes_def)

text \<open>The package directory as the host resolves it.\<close>

definition package_directory :: "project_paths \<Rightarrow> string" where
  "package_directory paths = pp_root paths @ ''/node_modules''"

lemma host_path_segments:
  assumes root: "is_absolute (pp_root paths)" and p: "p \<noteq> []" and up: "''..'' \<notin> set (normal_segments True p)"
  shows "normal_segments False (host_path paths p) =
     normal_segments False (package_directory paths) @ normal_segments True p"
proof -
  have r: "pp_root paths \<noteq> []" using root by (simp add: is_absolute_def)
  let ?full = "(pp_root paths @ ''/node_modules'') @ CHR ''/'' # p"
  have "is_absolute ?full" using root by (auto simp: is_absolute_def)
  moreover have "host_path paths p = path_normalize ?full" using r by (simp add: host_path_def path_join_def)
  moreover have "normal_segments False ?full =
      normal_segments False (pp_root paths @ ''/node_modules'') @ normal_segments True p"
  proof -
    have "foldl (norm_seg False) base (split_at_char (CHR ''/'') p) =
        foldl (norm_seg True) [] (split_at_char (CHR ''/'') p) @ base" for base
      using up by (intro norm_below) (simp add: normal_segments_def)
    then show ?thesis by (simp only: normal_segments_def split_at_char_append foldl_append rev_append)
  qed
  ultimately show ?thesis by (simp add: normal_segments_normalize package_directory_def)
qed

lemma contained_below:
  assumes "normal_segments False q = normal_segments False dir @ segs" "\<forall>x \<in> set segs. clean_seg x \<and> x \<noteq> ''..''"
  shows "isContainedIn dir q"
  using join_slash_inside [OF assms(2)] assms(1)
  by (auto simp: isContainedIn_def path_relative_def common_prefix_append Let_def)

text \<open>
  C30: A packaged path without a backslash never leads out of \<open>node_modules\<close>: either it is refused
  and the host is asked nothing at all, or the host is asked for that very path, and the only
  location the existence probe may look at lies inside the project's package directory.
\<close>

theorem packaged_paths_stay_under_node_modules:
  assumes "is_absolute (pp_root paths)" and "CHR 0x5C \<notin> set p"
  shows "case validatePackageRelativePath (JStr p) of
      Inl e \<Rightarrow> resolvePackaged host paths (JStr p) s = (Inl e, s)
    | Inr q \<Rightarrow>
        isContainedIn (package_directory paths) (host_path paths q) \<and>
        as_log (snd (resolvePackaged host paths (JStr p) s)) \<in>
          {as_log s @ [Required p], as_log s @ [Required p, Probed (host_path paths q)]} \<and>
        as_index (snd (resolvePackaged host paths (JStr p) s)) = as_index s"
proof (cases "validatePackageRelativePath (JStr p)")
  case (Inl e)
  then show ?thesis by (simp add: resolvePackaged_def throw_io_def)
next
  case (Inr q)
  then have q: "q = p" and p: "p \<noteq> []" "\<not> is_absolute p" "path_normalize p \<noteq> ''..''" "\<not> prefix ''../'' (path_normalize p)"
    using slashes_id [OF assms(2)]
    by (auto simp: validatePackageRelativePath_def Let_def split: if_splits)
  have up: "''..'' \<notin> set (normal_segments True p)" by (rule relative_stays [OF p])
  then have "\<forall>x \<in> set (normal_segments True p). clean_seg x \<and> x \<noteq> ''..''"
    using normal_segments_clean [of True p] by auto
  then have "isContainedIn (package_directory paths) (host_path paths p)"
    by (rule contained_below [OF host_path_segments [OF assms(1) p(1) up]])
  moreover have "as_log (snd (resolvePackaged host paths (JStr p) s)) \<in>
      {as_log s @ [Required p], as_log s @ [Required p, Probed (host_path paths p)]} \<and>
    as_index (snd (resolvePackaged host paths (JStr p) s)) = as_index s"
    using Inr q
    by (simp add: resolvePackaged_def resolveThroughIntercept_def log_access_def bind_io_def return_io_def throw_io_def
        Let_def split: require_result.split sum.split)
  ultimately show ?thesis using Inr q by simp
qed

text \<open>A backslash defeats the check on POSIX, where it is an ordinary character.\<close>

lemma backslash_escapes:
  "validatePackageRelativePath (JStr (''a'' @ [CHR 0x5C] @ ''b'' @ [CHR 0x5C] @ ''c/../../x.json'')) =
     Inr (''a'' @ [CHR 0x5C] @ ''b'' @ [CHR 0x5C] @ ''c/../../x.json'')"
  "host_path demo_project (''a'' @ [CHR 0x5C] @ ''b'' @ [CHR 0x5C] @ ''c/../../x.json'') = ''/p/x.json''"
  "\<not> isContainedIn (package_directory demo_project) ''/p/x.json''"
  by code_simp+

theorem packaged_paths_stay_under_node_modules_witness:
  "isContainedIn (package_directory demo_project) (host_path demo_project ''pkg/build/Box.json'')"
proof -
  have "validatePackageRelativePath (JStr ''pkg/build/Box.json'') = Inr ''pkg/build/Box.json''"
    and "is_absolute (pp_root demo_project)" by code_simp+
  then show ?thesis
    using packaged_paths_stay_under_node_modules [of demo_project "''pkg/build/Box.json''"] by simp
qed

section \<open>What a session of calls does\<close>

datatype access_call = CallResolve js | CallPackaged js | CallRecord hval | CallAmbiguities

fun run_call :: "access_host \<Rightarrow> project_paths \<Rightarrow> access_call \<Rightarrow> access_state \<Rightarrow> access_state" where
  "run_call host paths (CallResolve v) s = snd (resolve_artifact host paths v s)"
| "run_call host paths (CallPackaged v) s = snd (resolvePackaged host paths v s)"
| "run_call host paths (CallRecord c) s = snd (record_artifact host c s)"
| "run_call host paths CallAmbiguities s =
     snd (ambiguities host paths s :: (artifact_error + ambiguity_report) \<times> access_state)"

definition fresh_access :: access_state where
  "fresh_access = \<lparr>as_log = [], as_index = None\<rparr>"

definition read_once :: "access_state \<Rightarrow> bool" where
  "read_once s \<longleftrightarrow> count_list (as_log s) IndexRead = (if as_index s = None then 0 else 1)"

definition keeps_index :: "access_state \<Rightarrow> access_state \<Rightarrow> bool" where
  "keeps_index s t \<longleftrightarrow> (as_index s \<noteq> None \<longrightarrow> as_index t = as_index s) \<and> (read_once s \<longrightarrow> read_once t)"

lemma keeps_refl [simp]: "keeps_index s s"
  by (simp add: keeps_index_def)

lemma keeps_trans: "keeps_index s t \<Longrightarrow> keeps_index t u \<Longrightarrow> keeps_index s u"
  by (auto simp: keeps_index_def)

lemma keeps_require: "keeps_index s (snd (resolveThroughIntercept host p s))"
  by (simp add: keeps_index_def read_once_def resolveThroughIntercept_def log_access_def)

lemma keeps_getIndex: "keeps_index s (snd (getIndex host paths s))"
  by (simp add: keeps_index_def read_once_def getIndex_def Let_def split: option.split)

lemma keeps_bind:
  "keeps_index s (snd (m s)) \<Longrightarrow> (\<And>x t. m s = (Inr x, t) \<Longrightarrow> keeps_index t (snd (f x t))) \<Longrightarrow>
     keeps_index s (snd (bind_io m f s))"
  by (cases "m s"; cases "fst (m s)") (auto simp: bind_io_def intro: keeps_trans)

lemma keeps_call: "keeps_index s (run_call host paths c s)"
proof (cases c)
  case (CallResolve v)
  then show ?thesis
    by (auto simp: resolve_artifact_def throw_io_def return_io_def Let_def split: js.split sum.split ambiguity_report.split option.split
        intro!: keeps_bind keeps_require keeps_getIndex)
next
  case (CallPackaged v)
  have "keeps_index s (s\<lparr>as_log := as_log s @ [Probed p]\<rparr>)" for s p
    by (simp add: keeps_index_def read_once_def)
  then show ?thesis using CallPackaged
    by (auto simp: resolvePackaged_def throw_io_def return_io_def Let_def split: sum.split
        intro!: keeps_bind keeps_require)
next
  case (CallRecord x)
  then show ?thesis by (simp add: record_artifact_def throw_io_def return_io_def split: sum.split)
next
  case CallAmbiguities
  then show ?thesis by (auto simp: ambiguities_def return_io_def intro!: keeps_bind keeps_getIndex)
qed

text \<open>
  However a slot is used, build-info is read at most once: after any sequence of calls the log
  holds one read exactly when the index is there, and an index once built is the one every later
  call sees.
\<close>

theorem build_info_is_read_at_most_once:
  "read_once (fold (run_call host paths) calls fresh_access) \<and>
   count_list (as_log (fold (run_call host paths) calls fresh_access)) IndexRead \<le> 1 \<and>
   (case as_index (fold (run_call host paths) calls fresh_access) of
      None \<Rightarrow> True
    | Some ix \<Rightarrow> as_index (fold (run_call host paths) (calls @ later) fresh_access) = Some ix)"
proof -
  have "keeps_index s (fold (run_call host paths) cs s)" for cs s
    by (induction cs arbitrary: s) (auto intro: keeps_trans keeps_call)
  then have "keeps_index fresh_access (fold (run_call host paths) calls fresh_access)"
    and "keeps_index (fold (run_call host paths) calls fresh_access)
      (fold (run_call host paths) (calls @ later) fresh_access)" by simp_all
  then show ?thesis by (auto simp: keeps_index_def read_once_def fresh_access_def split: option.split)
qed


section \<open>A resolved artifact is the host's\<close>

fun resolved_contract :: "resolution \<Rightarrow> hval" where
  "resolved_contract (UniqueArtifact _ c _) = c"
| "resolved_contract (AmbiguousArtifact _ _ c) = c"
| "resolved_contract (IndeterminateArtifact _ _ c) = c"

text \<open>
  What \<open>resolve\<close> answers is what the host's intercept returned for the normalised name, and
  never a value that is not an object.  It says \<open>unique\<close> only under a complete index that holds at
  most one candidate for the name, \<open>ambiguous\<close> only with more than one, and a name the host does
  not resolve fails before build-info is touched.
\<close>

theorem resolution_is_the_hosts_and_honest:
  "case resolve_artifact host paths v s of
     (Inr r, t) \<Rightarrow>
       (\<exists>n ix. v = JStr n \<and> as_index t = Some ix \<and> object_like (resolved_contract r) \<and>
          ah_require host (as_log s) (normalizeArtifactName n) = RequireReturned (resolved_contract r) \<and>
          (case r of
             UniqueArtifact m _ p \<Rightarrow>
               m = normalizeArtifactName n \<and> (\<exists>c f. ai_report ix = Indexed c f) \<and>
               (case index_candidates ix m of
                  [] \<Rightarrow> contractSourcePath (ah_heap host) (resolved_contract r) = Some p
                | [c] \<Rightarrow> p = ca_sourcePath c
                | _ \<Rightarrow> False)
           | AmbiguousArtifact m cs _ \<Rightarrow>
               m = normalizeArtifactName n \<and> cs = index_candidates ix m \<and> 1 < length cs
           | IndeterminateArtifact m reason _ \<Rightarrow> m = normalizeArtifactName n \<and> ai_report ix = Indeterminate reason))
   | (Inl (NameUnresolved m _), t) \<Rightarrow> as_log t = as_log s @ [Required m] \<and> as_index t = as_index s
   | _ \<Rightarrow> True"
proof (cases v)
  case (JStr n)
  let ?n = "normalizeArtifactName n"
  let ?t = "s\<lparr>as_log := as_log s @ [Required ?n]\<rparr>"
  show ?thesis
  proof (cases "ah_require host (as_log s) ?n")
    case RequireThrew
    then show ?thesis
      by (simp add: JStr resolve_artifact_def resolveThroughIntercept_def log_access_def bind_io_def throw_io_def Let_def)
  next
    case (RequireReturned c)
    obtain ix u where g: "getIndex host paths ?t = (Inr ix :: artifact_error + ambiguity_index, u)" "as_index u = Some ix"
      by (cases "as_index s") (auto simp: getIndex_def Let_def)
    show ?thesis
      using RequireReturned g
      by (cases "index_candidates ix ?n" rule: remdups_adj.cases; cases "ai_report ix")
        (auto simp: JStr resolve_artifact_def resolveThroughIntercept_def log_access_def bind_io_def throw_io_def
          return_io_def Let_def split: option.split)
  qed
qed (simp_all add: resolve_artifact_def throw_io_def)

section \<open>An artifact record is whole or says what is missing\<close>

definition field_value :: "heap \<Rightarrow> hval \<Rightarrow> record_field \<Rightarrow> property_read" where
  "field_value h json f =
     (let own = (\<lambda>k v. read_slot h (\<lambda>a. own_slot h a k) v)
      in case f of
           FieldCompilerVersion \<Rightarrow>
             (case own ''compiler'' json of
                ReadOk v \<Rightarrow> if object_like v then own ''version'' v else ReadMissing
              | bad \<Rightarrow> bad)
         | FieldSource \<Rightarrow> own ''source'' json
         | FieldSourcePath \<Rightarrow> own ''sourcePath'' json
         | FieldBytecode \<Rightarrow> own ''bytecode'' json
         | FieldDeployedBytecode \<Rightarrow> own ''deployedBytecode'' json)"

fun text_of :: "property_read \<Rightarrow> string option" where
  "text_of (ReadOk (VStr s)) = Some s"
| "text_of _ = None"

lemma read_own: "readOwnProperty h v k p s = (Inr (read_slot h (\<lambda>a. own_slot h a k) v), snd (record_path p s :: (unit + unit) \<times> paths_read))"
  by (simp add: readOwnProperty_def record_path_def bind_io_def return_io_def)

lemma read_field_value:
  "\<exists>p t. read_field h json f s = (Inr (field_value h json f, p), t)"
  by (cases f)
    (auto simp: field_value_def field_at_def bind_io_def return_io_def read_own Let_def split: property_read.split)

lemma read_fields_values:
  "read_fields h json fs s = (Inr (vs, ms), t) \<Longrightarrow>
     vs = concat (map (\<lambda>f. case text_of (field_value h json f) of None \<Rightarrow> [] | Some x \<Rightarrow> [(f, x)]) fs) \<and>
     ms = filter (\<lambda>f. text_of (field_value h json f) = None) fs \<and>
     (\<forall>f \<in> set fs. field_value h json f \<noteq> ReadThrew)"
proof (induction fs arbitrary: s vs ms t)
  case (Cons f fs)
  obtain p u where r: "read_field h json f s = (Inr (field_value h json f, p), u)"
    using read_field_value by blast
  show ?case
  proof (cases "field_value h json f = ReadThrew")
    case True
    then show ?thesis using Cons.prems r by (simp add: bind_io_def throw_io_def)
  next
    case False
    then obtain vs' ms' u' where i: "read_fields h json fs u = (Inr (vs', ms'), u')"
      and e: "(vs, ms) = (case field_value h json f of ReadOk (VStr x) \<Rightarrow> ((f, x) # vs', ms') | _ \<Rightarrow> (vs', f # ms'))"
      using Cons.prems r by (auto elim!: bind_io_InrE split: property_read.splits)
    show ?thesis using Cons.IH [OF i] e False
      by (cases "field_value h json f" rule: text_of.cases) auto
  qed
qed simp

lemma map_of_present:
  "map_of (concat (map (\<lambda>f. case g f of None \<Rightarrow> [] | Some x \<Rightarrow> [(f, x)]) fs)) f = (if f \<in> set fs then g f else None)"
  by (induction fs) (auto split: option.split)

text \<open>
  A record is complete exactly when each of the five fields is an own property holding a
  string, and then carries those very strings; otherwise the missing list is exactly the fields
  that are not, in their order, and never empty.  Nothing but a raising accessor fails.
\<close>

theorem artifact_record_is_whole_or_names_what_is_missing:
  "case readArtifactRecord h c of
     Inl path \<Rightarrow> True
   | Inr (RecordComplete r keys paths) \<Rightarrow>
       (\<exists>a. read_slot h (\<lambda>x. own_slot h x ''_json'') c = ReadOk (VObj a) \<and>
          set keys = fst ` set (ho_own (h a)) \<and>
          field_value h (VObj a) FieldCompilerVersion = ReadOk (VStr (ar_longCompilerVersion r)) \<and>
          field_value h (VObj a) FieldSource = ReadOk (VStr (ar_source r)) \<and>
          field_value h (VObj a) FieldSourcePath = ReadOk (VStr (ar_sourcePath r)) \<and>
          field_value h (VObj a) FieldBytecode = ReadOk (VStr (ar_bytecode r)) \<and>
          field_value h (VObj a) FieldDeployedBytecode = ReadOk (VStr (ar_deployedBytecode r)))
   | Inr (RecordIncomplete missing keys paths) \<Rightarrow>
       missing \<noteq> [] \<and>
       (case read_slot h (\<lambda>x. own_slot h x ''_json'') c of
          ReadOk (VObj a) \<Rightarrow> missing = filter (\<lambda>f. text_of (field_value h (VObj a) f) = None) FIELD_NAMES
        | _ \<Rightarrow> missing = FIELD_NAMES)"
proof (cases "\<exists>a. read_slot h (\<lambda>x. own_slot h x ''_json'') c = ReadOk (VObj a)")
  case False
  then show ?thesis
    by (auto simp: readArtifactRecord_def read_own Let_def FIELD_NAMES_def split: property_read.split hval.split)
next
  case True
  then obtain a where a: "read_slot h (\<lambda>x. own_slot h x ''_json'') c = ReadOk (VObj a)" by blast
  let ?s = "snd (record_path JSON_PATH [] :: (unit + unit) \<times> paths_read)"
  obtain r t where r: "read_fields h (VObj a) FIELD_NAMES ?s = (r, t)" by fastforce
  have some: "text_of x = Some y \<longleftrightarrow> x = ReadOk (VStr y)" for x y by (cases x rule: text_of.cases) auto
  show ?thesis
  proof (cases r)
    case (Inl p)
    then show ?thesis using a r by (simp add: readArtifactRecord_def read_own observedKeysOf_def Let_def)
  next
    case (Inr p)
    obtain vs ms where p: "p = (vs, ms)" by fastforce
    note v = read_fields_values [OF r [unfolded Inr p]]
    have keys: "set (sort_by compare_units (map fst (ho_own (h a)))) = fst ` set (ho_own (h a))"
      by (simp add: set_sort_by)
    have whole: "ms = [] \<Longrightarrow> f \<in> set FIELD_NAMES \<Longrightarrow> field_value h (VObj a) f = ReadOk (VStr (value_of vs f))" for f
      using v by (auto simp: value_of_def map_of_present some filter_empty_conv)
    have e: "readArtifactRecord h c = Inr (if ms \<noteq> [] then RecordIncomplete ms (sort_by compare_units (map fst (ho_own (h a)))) t
        else RecordComplete (record_of vs) (sort_by compare_units (map fst (ho_own (h a)))) t)"
      if "\<not> ho_traps (h a)"
      using a r Inr p that by (simp add: readArtifactRecord_def read_own observedKeysOf_def Let_def)
    have trap: "readArtifactRecord h c = Inl JSON_PATH" if "ho_traps (h a)"
      using a that by (simp add: readArtifactRecord_def read_own observedKeysOf_def Let_def)
    show ?thesis
    proof (cases "ho_traps (h a)")
      case False
      have fields: "f \<in> set FIELD_NAMES" for f by (cases f) (simp_all add: FIELD_NAMES_def)
      show ?thesis
      proof (cases "ms = []")
        case True
        then show ?thesis using whole [OF True fields] e [OF False] a keys by (simp add: record_of_def)
      next
        case missing: False
        then show ?thesis using e [OF False] a v by simp
      qed
    qed (simp add: trap)
  qed
qed

end
