(* ===== verification/InputPipeline.thy ===== *)
theory InputPipeline
  imports InputSources InputLayout EnvArtifacts
begin

text \<open>
  \<open>validation-input/pipeline.ts\<close>: how one validation input is derived, or refused, without ever
  compiling.  The artifact and its record come through the artifacts slot of \<open>EnvArtifacts\<close>, the
  closure through \<open>InputSources\<close>, the notes go to the channel of \<open>Output\<close>; the gate reads the
  build records and keeps the one whose bytecode is the artifact's.

  The file system, the build-info reader, \<open>localeCompare\<close> and the engine's link functions are
  parameters.  A refusal is a value that carries its cause; the text \<open>diagnose\<close> renders for it is
  not modelled.  The outer \<open>None\<close> is a walk over the imports that does not end.
\<close>

section \<open>Reading a build record\<close>

fun asObject :: "js \<Rightarrow> js option" where
  "asObject (JObj ps) = Some (JObj ps)"
| "asObject _ = None"

definition asBytecode :: "js \<Rightarrow> bytecode option" where
  "asBytecode v =
     (case asObject v of
        None \<Rightarrow> None
      | Some holder \<Rightarrow>
          (case own_prop holder ''object'' of
             JStr obj1 \<Rightarrow>
               Some \<lparr>by_object = obj1,
                 by_links = (case asObject (own_prop holder ''linkReferences'') of None \<Rightarrow> JObj [] | Some l \<Rightarrow> l)\<rparr>
           | _ \<Rightarrow> None))"

record record_maps =
  rm_contracts :: js
  rm_sources :: js

definition recordMaps :: "js \<Rightarrow> record_maps option" where
  "recordMaps output =
     (let top = (case asObject output of None \<Rightarrow> JUndef | Some t \<Rightarrow> t)
      in case (asObject (own_prop top ''contracts''), asObject (own_prop top ''sources'')) of
           (Some c, Some s) \<Rightarrow> Some \<lparr>rm_contracts = c, rm_sources = s\<rparr>
         | _ \<Rightarrow> None)"

text \<open>The entries kept for a closure; a key without an AST ends the projection.\<close>

fun project_keys :: "record_maps \<Rightarrow> string list \<Rightarrow> ((string \<times> js) list \<times> (string \<times> js) list) option" where
  "project_keys m [] = Some ([], [])"
| "project_keys m (k # ks) =
     (let source = own_prop (rm_sources m) k
      in if asObject source = None \<or> asObject (own_prop source ''ast'') = None then None
         else
           (case project_keys m ks of
              None \<Rightarrow> None
            | Some (ss, cs) \<Rightarrow>
                Some ((k, source) # ss,
                  (case asObject (own_prop (rm_contracts m) k) of None \<Rightarrow> cs | Some c \<Rightarrow> (k, c) # cs))))"

definition projectBuildRecord :: "record_maps \<Rightarrow> string list \<Rightarrow> js option" where
  "projectBuildRecord m closure =
     (case project_keys m closure of
        None \<Rightarrow> None
      | Some (ss, cs) \<Rightarrow> Some (JObj [(''contracts'', JObj cs), (''sources'', JObj ss)]))"

fun is_string :: "js \<Rightarrow> bool" where
  "is_string (JStr _) = True"
| "is_string _ = False"

definition narrowRecordedInput :: "js \<Rightarrow> js option" where
  "narrowRecordedInput v =
     (let sources = own_prop v ''sources''; settings = own_prop v ''settings''
      in if asObject v = None \<or> own_prop v ''language'' \<noteq> JStr ''Solidity'' then None
         else if asObject sources = None then None
         else if \<not> list_all (\<lambda>(_, e). asObject e \<noteq> None \<and> is_string (own_prop e ''content'')) (entries_of sources) then None
         else if asObject settings = None \<or> asObject (own_prop settings ''outputSelection'') = None then None
         else Some v)"

section \<open>The gate\<close>

record gate_request =
  gq_targetKey :: string
  gq_contractName :: string
  gq_deployedBytecode :: string
  gq_closure :: "string list"
  gq_unlink :: "bytecode \<Rightarrow> string \<Rightarrow> string"

record fresh_record =
  fr_file :: string
  fr_candidates :: nat
  fr_output :: js
  fr_creation :: "bytecode option"
  fr_solcInput :: js
  fr_inputFile :: string

datatype gate_result = GateFresh fresh_record | GateStale "rejection list" | GateAbsent absent_because

text \<open>What one file is to the request: no record of it, a rejected one, or the one to use.\<close>

datatype candidate_verdict = NotLocated | Rejected rejection_reason | Usable js "bytecode option" js string

definition record_entry :: "record_maps \<Rightarrow> gate_request \<Rightarrow> js option" where
  "record_entry m rq = asObject (own_prop (own_prop (rm_contracts m) (gq_targetKey rq)) (gq_contractName rq))"

definition evm_bytecode :: "js \<Rightarrow> string \<Rightarrow> bytecode option" where
  "evm_bytecode entry k =
     (case asObject (own_prop entry ''evm'') of None \<Rightarrow> None | Some evm \<Rightarrow> asBytecode (own_prop evm k))"

definition judge_pair :: "gate_request \<Rightarrow> build_info_file \<Rightarrow> js \<Rightarrow> js \<Rightarrow> candidate_verdict" where
  "judge_pair rq file entry output =
     (case bf_inputFile file of
        None \<Rightarrow> Rejected InputPairAbsent
      | Some inputFile \<Rightarrow>
          (case bf_input file of
             None \<Rightarrow> Rejected InputPairUnparseable
           | Some input \<Rightarrow>
               (case narrowRecordedInput input of
                  None \<Rightarrow> Rejected InputPairUnusable
                | Some solcInput \<Rightarrow>
                    if list_ex (\<lambda>k. own_prop (own_prop solcInput ''sources'') k = JUndef) (gq_closure rq)
                    then Rejected InputPairUnusable
                    else Usable output (evm_bytecode entry ''bytecode'') solcInput inputFile)))"

text \<open>The body of the loop over the files; \<open>None\<close> is a raised \<open>TypeError\<close>.\<close>

definition judge :: "gate_request \<Rightarrow> build_info_file \<Rightarrow> candidate_verdict option" where
  "judge rq file =
     (case recordMaps (bf_output file) of
        None \<Rightarrow> Some NotLocated
      | Some m \<Rightarrow>
          (case record_entry m rq of
             None \<Rightarrow> Some NotLocated
           | Some entry \<Rightarrow>
               (case evm_bytecode entry ''deployedBytecode'' of
                  None \<Rightarrow> Some (Rejected NothingToCompare)
                | Some deployed \<Rightarrow>
                    (case verifyBuildRecordFreshness (gq_unlink rq) deployed (gq_deployedBytecode rq) of
                       NotFresh reason \<Rightarrow> Some (Rejected reason)
                     | Fresh \<Rightarrow>
                         (case projectBuildRecord m (gq_closure rq) of
                            None \<Rightarrow> Some (Rejected AstClosureIncomplete)
                          | Some output \<Rightarrow>
                              (case isLayoutVacuous output (gq_targetKey rq) (gq_contractName rq) of
                                 None \<Rightarrow> None
                               | Some True \<Rightarrow> Some (Rejected TargetDefinitionAbsent)
                               | Some False \<Rightarrow> Some (judge_pair rq file entry output)))))))"

fun consult_files :: "gate_request \<Rightarrow> build_info_file list \<Rightarrow> rejection list \<Rightarrow> gate_result option" where
  "consult_files rq [] rejected =
     Some (if rejected = [] then GateAbsent NoRecordForTarget else GateStale rejected)"
| "consult_files rq (f # fs) rejected =
     (case judge rq f of
        None \<Rightarrow> None
      | Some NotLocated \<Rightarrow> consult_files rq fs rejected
      | Some (Rejected reason) \<Rightarrow> consult_files rq fs (rejected @ [\<lparr>rj_file = bf_file f, rj_reason = reason\<rparr>])
      | Some (Usable output creation solcInput inputFile) \<Rightarrow>
          Some (GateFresh \<lparr>fr_file = bf_file f, fr_candidates = length rejected + 1, fr_output = output,
            fr_creation = creation, fr_solcInput = solcInput, fr_inputFile = inputFile\<rparr>))"

definition consultBuildRecord ::
  "(string \<Rightarrow> string \<Rightarrow> int) \<Rightarrow> thrown + build_info_read \<Rightarrow> gate_request \<Rightarrow> gate_result option" where
  "consultBuildRecord locale result rq =
     (case result of
        Inl _ \<Rightarrow> Some (GateAbsent DirectoryUnreadable)
      | Inr BuildInfoAbsent \<Rightarrow> Some (GateAbsent DirectoryAbsent)
      | Inr (BuildInfoUnreadable _ _) \<Rightarrow> Some (GateAbsent DirectoryUnreadable)
      | Inr (BuildInfoFiles files) \<Rightarrow>
          consult_files rq (sort_by (\<lambda>l r. locale (bf_file l) (bf_file r)) files) [])"

section \<open>The operation\<close>

record pipeline_env =
  vn_host :: access_host
  vn_paths :: project_paths
  vn_compiler :: compiler_configuration
  vn_facts :: host_facts
  vn_cwd :: string
  vn_readSource :: "string \<Rightarrow> string option"
  vn_exists :: "string \<Rightarrow> bool"
  vn_readBuildInfo :: "thrown + build_info_read"
  vn_locale :: "string \<Rightarrow> string \<Rightarrow> int"
  vn_unlink :: "bytecode \<Rightarrow> string \<Rightarrow> string"

record pipe_state =
  pi_access :: access_state
  pi_process :: process

text \<open>\<open>NameAmbiguous\<close> is the seam's own error; \<open>TypeErrorRaised\<close> is the language's.\<close>

datatype pipeline_error =
    SeamRefused artifact_error
  | NameAmbiguous string "candidate list"
  | InvariantBroken string
  | NoteRefused note_error
  | TypeErrorRaised

record validation_input =
  vi_solcInput :: js
  vi_solcOutput :: js
  vi_solcVersion :: string
  vi_fidelity :: fidelity
  vi_file :: string
  vi_candidates :: nat
  vi_inputFile :: string
  vi_partition :: partition
  vi_sourceKeys :: "string list"

datatype outcome = ProducedInput validation_input | Refused cause

type_synonym 'a pipe = "(pipe_state, pipeline_error, 'a) io"

definition on_access :: "'a access \<Rightarrow> 'a pipe" where
  "on_access m s =
     (case m (pi_access s) of
        (Inl e, t) \<Rightarrow> (Inl (SeamRefused e), s\<lparr>pi_access := t\<rparr>)
      | (Inr x, t) \<Rightarrow> (Inr x, s\<lparr>pi_access := t\<rparr>))"

definition state_note :: "pipeline_env \<Rightarrow> note_input \<Rightarrow> unit pipe" where
  "state_note env n s =
     (case degraded (vn_facts env) n (pi_process s) of
        (Inl e, p) \<Rightarrow> (Inl (NoteRefused e), s\<lparr>pi_process := p\<rparr>)
      | (Inr _, p) \<Rightarrow> (Inr (), s\<lparr>pi_process := p\<rparr>))"

definition raising :: "'a option \<Rightarrow> 'a pipe" where
  "raising v = (case v of None \<Rightarrow> throw_io TypeErrorRaised | Some x \<Rightarrow> return_io x)"

text \<open>
  \<open>dispose\<close>.  Every cause is decided before an input exists, so no caller has one to proceed
  with, and a lenient policy row would raise.
\<close>

definition dispose :: "cause \<Rightarrow> outcome pipe" where
  "dispose c =
     (case policy c of
        None \<Rightarrow> throw_io TypeErrorRaised
      | Some (Refuse c') \<Rightarrow> return_io (Refused c')
      | Some (ProceedReduced _ _) \<Rightarrow> throw_io (InvariantBroken (cause_kind c)))"

definition candidate_identity :: "candidate \<Rightarrow> string" where
  "candidate_identity c = ca_sourcePath c @ '':'' @ ca_contractName c"

definition artifactAbstraction :: "pipeline_env \<Rightarrow> string \<Rightarrow> (string \<times> hval) pipe" where
  "artifactAbstraction env contract =
     bind_io (on_access (resolve_artifact (vn_host env) (vn_paths env) (JStr contract))) (\<lambda>r.
       case r of
         UniqueArtifact name c _ \<Rightarrow> return_io (name, c)
       | IndeterminateArtifact name _ c \<Rightarrow> return_io (name, c)
       | AmbiguousArtifact name cs c \<Rightarrow>
           if length (remdups (map candidate_identity cs)) \<le> 1 then return_io (name, c)
           else throw_io (NameAmbiguous name cs))"

text \<open>The boundary's assertions; the first that fails is named.\<close>

definition broken_assertion :: "validation_input \<Rightarrow> string option" where
  "broken_assertion i =
     (let keys = own_keys (own_prop (vi_solcInput i) ''sources''); part = vi_partition i
      in if vi_sourceKeys i = [] then Some ''no source keys''
         else if vi_sourceKeys i \<noteq> keys then Some ''keys are not the input's own''
         else if pt_target part \<notin> set (pt_closure part) then Some ''closure without its target''
         else if list_ex (\<lambda>k. own_prop (own_prop (vi_solcInput i) ''sources'') k = JUndef) (pt_closure part)
         then Some ''closure source missing''
         else if vi_solcVersion i = [] then Some ''empty compiler version''
         else (case vi_fidelity i of
                 SlotLevel \<Rightarrow> Some ''slot-level fidelity''
               | DeclarationOrder missing \<Rightarrow> if missing = [] then Some ''no contracts'' else None))"

definition assertInput :: "validation_input \<Rightarrow> unit pipe" where
  "assertInput i = (case broken_assertion i of None \<Rightarrow> return_io () | Some broken \<Rightarrow> throw_io (InvariantBroken broken))"

record arm_context =
  ac_name :: string
  ac_record :: artifact_record
  ac_partition :: partition

fun comma_list :: "string list \<Rightarrow> string" where
  "comma_list [] = []"
| "comma_list [x] = x"
| "comma_list (x # xs) = x @ '', '' @ comma_list xs"

definition namespace_note :: "string \<Rightarrow> string list \<Rightarrow> note_input" where
  "namespace_note name namespaces =
     \<lparr>ni_code = NamespacedAstOnly,
      ni_summary = name @ '': namespaced storage ('' @ comma_list namespaces
        @ '') is compared by name and declaration order, not by slot position.'',
      ni_detail = Some
        [''Slot positions for namespaced members require a second compilation of the same sources with a storage variable injected for each namespaced struct. This version does not perform it.'',
         ''The validation engine reports nothing here on its own: its reduced-information check reads only the flat storage list, and for a contract whose storage lives entirely in namespaces that list is empty.''],
      ni_remedy = ''Add new members at the end of each namespaced struct and leave reserved padding in place. Renames, retypes, reorders and deletions inside a namespace are still refused; a change that needs slot positions is refused rather than silently accepted.''\<rparr>"

definition layout_note :: "string \<Rightarrow> note_input" where
  "layout_note name =
     \<lparr>ni_code = StorageLayoutUnavailable,
      ni_summary = name @ '': upgrade-safety validation is comparing storage by declaration order, without slot positions.'',
      ni_detail = Some
        [''TronBox does not ask the compiler for storage layouts, so the build record it wrote for this contract carries none and the layout is reconstructed from the record's own AST.'',
         ''A reconstructed layout is stricter, not blinder: renames, retypes, reordering and deletions are all still detected, and appending new variables is still safe. What it cannot decide is whether a change fits inside space a `__gap` array or intra-slot padding already reserved - those two shapes are refused rather than silently accepted.''],
      ni_remedy = ''Storage-layout positions were not available from the TronBox build record, so the comparison used declaration order. See the README section \"Validation without storage layouts\" for what that mode can and cannot decide.''\<rparr>"

definition stateNamespaceShortfall :: "pipeline_env \<Rightarrow> arm_context \<Rightarrow> js \<Rightarrow> unit pipe" where
  "stateNamespaceShortfall env ctx output =
     bind_io (raising (declaresNamespacedStorage output (pt_target (ac_partition ctx)) (ac_name ctx))) (\<lambda>ns.
       if ns = [] then return_io () else state_note env (namespace_note (ac_name ctx) ns))"

definition fresh_input :: "arm_context \<Rightarrow> fresh_record \<Rightarrow> fidelity \<Rightarrow> validation_input" where
  "fresh_input ctx fresh fid =
     \<lparr>vi_solcInput = fr_solcInput fresh, vi_solcOutput = fr_output fresh,
      vi_solcVersion = ar_longCompilerVersion (ac_record ctx), vi_fidelity = fid, vi_file = fr_file fresh,
      vi_candidates = fr_candidates fresh, vi_inputFile = fr_inputFile fresh, vi_partition = ac_partition ctx,
      vi_sourceKeys = own_keys (own_prop (fr_solcInput fresh) ''sources'')\<rparr>"

definition freshArm :: "pipeline_env \<Rightarrow> arm_context \<Rightarrow> fresh_record \<Rightarrow> outcome pipe" where
  "freshArm env ctx fresh =
     (case (case fr_creation fresh of None \<Rightarrow> None | Some b \<Rightarrow> libraryNameBand b) of
        Some band \<Rightarrow> dispose band
      | None \<Rightarrow>
          bind_io (raising (detectFidelity (fr_output fresh))) (\<lambda>fid.
          bind_io (state_note env (layout_note (ac_name ctx))) (\<lambda>_.
          bind_io (stateNamespaceShortfall env ctx (fr_output fresh)) (\<lambda>_.
          let i = fresh_input ctx fresh fid in
          bind_io (assertInput i) (\<lambda>_. return_io (ProducedInput i))))))"

definition rangeGate :: "compiler_configuration \<Rightarrow> cause option" where
  "rangeGate c =
     (if isSupportedSolcVersion (cc_resolvedVersion c) then None
      else Some (CompilerUnsupported (cc_resolvedVersion c) (map_option flag_key (cc_viaLegacyFlag c))))"

fun field_name :: "record_field \<Rightarrow> string" where
  "field_name FieldCompilerVersion = ''compiler.version''"
| "field_name FieldSource = ''source''"
| "field_name FieldSourcePath = ''sourcePath''"
| "field_name FieldBytecode = ''bytecode''"
| "field_name FieldDeployedBytecode = ''deployedBytecode''"

definition graph_of :: "pipeline_env \<Rightarrow> string \<Rightarrow> artifact_record \<Rightarrow> graph_request" where
  "graph_of env name r =
     \<lparr>gr_targetPath = absoluteSourcePath (ar_sourcePath r) (pp_root (vn_paths env)), gr_targetLabel = name,
      gr_contracts = pp_contractsDirectory (vn_paths env), gr_root = pp_root (vn_paths env), gr_cwd = vn_cwd env,
      gr_read = vn_readSource env, gr_exists = vn_exists env\<rparr>"

definition gate_of :: "pipeline_env \<Rightarrow> string \<Rightarrow> artifact_record \<Rightarrow> string \<Rightarrow> partition \<Rightarrow> gate_request" where
  "gate_of env name r targetKey part =
     \<lparr>gq_targetKey = targetKey, gq_contractName = name, gq_deployedBytecode = ar_deployedBytecode r,
      gq_closure = pt_closure part, gq_unlink = vn_unlink env\<rparr>"

text \<open>From the closure on: cut the partition, consult the records, take the arm.\<close>

definition derive_from_graph ::
  "pipeline_env \<Rightarrow> string \<Rightarrow> artifact_record \<Rightarrow> cause + string \<times> (string \<times> string) list \<Rightarrow> outcome pipe" where
  "derive_from_graph env name r graph =
     (case graph of
        Inl c \<Rightarrow> dispose c
      | Inr (targetKey, sources) \<Rightarrow>
          (case cutPartition targetKey sources of
             None \<Rightarrow> throw_io (InvariantBroken ''partition'')
           | Some part \<Rightarrow>
               bind_io (raising (consultBuildRecord (vn_locale env) (vn_readBuildInfo env)
                 (gate_of env name r targetKey part))) (\<lambda>g.
                   case g of
                     GateFresh fresh \<Rightarrow> freshArm env \<lparr>ac_name = name, ac_record = r, ac_partition = part\<rparr> fresh
                   | GateStale rejected \<Rightarrow> dispose (BuildRecordStale rejected)
                   | GateAbsent because \<Rightarrow> dispose (BuildRecordAbsent because))))"

text \<open>Up to the closure: what is settled early, or the name and the record to go on with.\<close>

definition derive_facts :: "pipeline_env \<Rightarrow> string \<Rightarrow> (outcome + string \<times> artifact_record) pipe" where
  "derive_facts env contract =
     bind_io (artifactAbstraction env contract) (\<lambda>(name, c).
     bind_io (on_access (record_artifact (vn_host env) c)) (\<lambda>report.
       case report of
         RecordIncomplete missing _ _ \<Rightarrow>
           (case missing of
              [] \<Rightarrow> throw_io (InvariantBroken ''incomplete without a missing field'')
            | f # _ \<Rightarrow>
                bind_io (dispose (ArtifactShapeUnsupported name (field_name f) ARTIFACT_FIELDS_VERIFIED_SINCE))
                  (\<lambda>o1. return_io (Inl o1)))
       | RecordComplete r _ _ \<Rightarrow>
           (case rangeGate (vn_compiler env) of
              Some cause \<Rightarrow> bind_io (dispose cause) (\<lambda>o1. return_io (Inl o1))
            | None \<Rightarrow> return_io (Inr (name, r)))))"

definition deriveValidationInput ::
  "pipeline_env \<Rightarrow> string \<Rightarrow> pipe_state \<Rightarrow> ((pipeline_error + outcome) \<times> pipe_state) option" where
  "deriveValidationInput env contract s =
     (case derive_facts env contract s of
        (Inl e, t) \<Rightarrow> Some (Inl e, t)
      | (Inr (Inl o1), t) \<Rightarrow> Some (Inr o1, t)
      | (Inr (Inr (name, r)), t) \<Rightarrow>
          (case resolveSourceGraph (graph_of env name r) of
             None \<Rightarrow> None
           | Some graph \<Rightarrow> Some (derive_from_graph env name r graph t)))"

section \<open>One candidate\<close>

lemma project_keys_ok:
  "project_keys m ks = Some (ss, cs) \<Longrightarrow>
     ss = map (\<lambda>k. (k, own_prop (rm_sources m) k)) ks \<and>
     list_all (\<lambda>k. asObject (own_prop (own_prop (rm_sources m) k) ''ast'') \<noteq> None) ks"
  by (induction ks arbitrary: ss cs) (auto simp: Let_def split: if_splits option.splits)

lemma map_of_keys: "map_of (map (\<lambda>k. (k, f k)) ks) k = (if k \<in> set ks then Some (f k) else None)"
  by (induction ks) auto

lemma project_ok:
  assumes "projectBuildRecord m closure = Some output" and "k \<in> set closure"
  shows "own_prop (own_prop output ''sources'') k = own_prop (rm_sources m) k \<and>
    asObject (own_prop (own_prop (own_prop output ''sources'') k) ''ast'') \<noteq> None"
proof -
  obtain ss cs where p: "project_keys m closure = Some (ss, cs)"
    and o1: "output = JObj [(''contracts'', JObj cs), (''sources'', JObj ss)]"
    using assms(1) by (auto simp: projectBuildRecord_def split: option.splits)
  have "own_prop (JObj ss) k = own_prop (rm_sources m) k"
    using project_keys_ok [OF p] assms(2) by (simp add: map_of_keys)
  moreover have "asObject (own_prop (own_prop (rm_sources m) k) ''ast'') \<noteq> None"
    using project_keys_ok [OF p] assms(2) by (auto simp: list_all_iff)
  ultimately show ?thesis by (simp add: o1 del: own_prop.simps) (simp add: o1)
qed

lemma narrow_ok:
  "narrowRecordedInput v = Some w \<Longrightarrow> w = v \<and>
     list_all (\<lambda>(_, e). is_string (own_prop e ''content'')) (entries_of (own_prop v ''sources''))"
  by (auto simp: narrowRecordedInput_def Let_def list_all_iff split: if_splits)

lemma entry_content:
  assumes "list_all (\<lambda>(_, e). is_string (own_prop e ''content'')) (entries_of v)" and "own_prop v k \<noteq> JUndef"
  shows "is_string (own_prop (own_prop v k) ''content'')"
  using assms by (cases v) (force simp: list_all_iff split: option.splits dest: map_of_SomeD)+

text \<open>
  What vouches for an input: its file holds a record of the target whose deployed bytecode is the
  artifact's, an AST for every source of the closure that the output carries on unchanged, and a
  definition of the target; and the compiler input is the file's own pair, with a text for each.
\<close>

definition verified_record :: "gate_request \<Rightarrow> build_info_file \<Rightarrow> js \<Rightarrow> bytecode option \<Rightarrow> js \<Rightarrow> string \<Rightarrow> bool" where
  "verified_record rq f output creation solcInput inputFile \<longleftrightarrow>
     (\<exists>m entry deployed.
        recordMaps (bf_output f) = Some m \<and> record_entry m rq = Some entry \<and>
        evm_bytecode entry ''deployedBytecode'' = Some deployed \<and> evm_bytecode entry ''bytecode'' = creation \<and>
        by_object deployed \<noteq> [] \<and>
        lower (gq_unlink rq deployed (gq_deployedBytecode rq)) = lower (''0x'' @ by_object deployed) \<and>
        (\<forall>k \<in> set (gq_closure rq).
           own_prop (own_prop output ''sources'') k = own_prop (rm_sources m) k \<and>
           asObject (own_prop (own_prop (own_prop output ''sources'') k) ''ast'') \<noteq> None)) \<and>
     (\<exists>d. findContractDefinition output (gq_targetKey rq) (gq_contractName rq) = Some (Some d)) \<and>
     bf_inputFile f = Some inputFile \<and> bf_input f = Some solcInput \<and>
     (\<forall>k \<in> set (gq_closure rq). is_string (own_prop (own_prop (own_prop solcInput ''sources'') k) ''content''))"

lemma judge_pair_usable:
  "judge_pair rq f entry output = Usable out1 creation solcInput inputFile \<Longrightarrow>
     out1 = output \<and> creation = evm_bytecode entry ''bytecode'' \<and> bf_inputFile f = Some inputFile \<and>
     bf_input f = Some solcInput \<and>
     (\<forall>k \<in> set (gq_closure rq). is_string (own_prop (own_prop (own_prop solcInput ''sources'') k) ''content''))"
  by (auto simp: judge_pair_def list_ex_iff intro!: entry_content split: option.splits if_splits dest!: narrow_ok)

lemma judge_usable:
  assumes "judge rq f = Some (Usable output creation solcInput inputFile)"
  shows "verified_record rq f output creation solcInput inputFile"
proof -
  obtain m entry deployed where m: "recordMaps (bf_output f) = Some m" "record_entry m rq = Some entry"
    "evm_bytecode entry ''deployedBytecode'' = Some deployed"
    and v: "verifyBuildRecordFreshness (gq_unlink rq) deployed (gq_deployedBytecode rq) = Fresh"
    using assms by (auto simp: judge_def split: option.splits freshness.splits)
  obtain out1 where p: "projectBuildRecord m (gq_closure rq) = Some out1"
    and l: "isLayoutVacuous out1 (gq_targetKey rq) (gq_contractName rq) = Some False"
    and j: "judge_pair rq f entry out1 = Usable output creation solcInput inputFile"
    using assms m v by (auto simp: judge_def split: option.splits bool.splits)
  note pair = judge_pair_usable [OF j]
  have "\<exists>d. findContractDefinition output (gq_targetKey rq) (gq_contractName rq) = Some (Some d)"
    using l pair by (auto simp: isLayoutVacuous_def)
  moreover have "by_object deployed \<noteq> [] \<and>
      lower (gq_unlink rq deployed (gq_deployedBytecode rq)) = lower (''0x'' @ by_object deployed)"
    using v by (auto simp: verifyBuildRecordFreshness_def split: if_splits)
  ultimately show ?thesis
    using m p pair project_ok [OF p] unfolding verified_record_def by blast
qed

section \<open>The candidates together\<close>

fun located :: "candidate_verdict option \<Rightarrow> bool" where
  "located (Some NotLocated) = False"
| "located _ = True"

fun usable :: "candidate_verdict option \<Rightarrow> bool" where
  "usable (Some (Usable _ _ _ _)) = True"
| "usable _ = False"

definition rejections :: "gate_request \<Rightarrow> build_info_file list \<Rightarrow> rejection list" where
  "rejections rq fs =
     concat (map (\<lambda>f. case judge rq f of
         Some (Rejected reason) \<Rightarrow> [\<lparr>rj_file = bf_file f, rj_reason = reason\<rparr>] | _ \<Rightarrow> []) fs)"

text \<open>The first usable file, and how many located ones were examined up to it.\<close>

definition chosen :: "gate_request \<Rightarrow> nat \<Rightarrow> build_info_file list \<Rightarrow> fresh_record \<Rightarrow> bool" where
  "chosen rq n fs fr \<longleftrightarrow>
     (\<exists>pre f post. fs = pre @ f # post \<and> list_all (\<lambda>g. \<not> usable (judge rq g)) pre \<and>
        fr_file fr = bf_file f \<and> fr_candidates fr = n + length (rejections rq pre) + 1 \<and>
        judge rq f = Some (Usable (fr_output fr) (fr_creation fr) (fr_solcInput fr) (fr_inputFile fr)))"

lemma chosen_skip:
  assumes "chosen rq (n + length (rejections rq [f])) fs fr" and "\<not> usable (judge rq f)"
  shows "chosen rq n (f # fs) fr"
proof -
  obtain pre g post where "fs = pre @ g # post" "list_all (\<lambda>g. \<not> usable (judge rq g)) pre"
    "fr_file fr = bf_file g"
    "fr_candidates fr = n + length (rejections rq [f]) + length (rejections rq pre) + 1"
    "judge rq g = Some (Usable (fr_output fr) (fr_creation fr) (fr_solcInput fr) (fr_inputFile fr))"
    using assms(1) unfolding chosen_def by blast
  then show ?thesis
    using assms(2) unfolding chosen_def
    by (intro exI [of _ "f # pre"] exI [of _ g] exI [of _ post]) (simp add: rejections_def)
qed

lemma consult_files_cases:
  "case consult_files rq fs rejected of
     None \<Rightarrow> list_ex (\<lambda>f. judge rq f = None) fs
   | Some (GateFresh fr) \<Rightarrow> chosen rq (length rejected) fs fr
   | Some (GateStale rj) \<Rightarrow>
       rj = rejected @ rejections rq fs \<and> rj \<noteq> [] \<and> list_all (\<lambda>g. judge rq g \<noteq> None \<and> \<not> usable (judge rq g)) fs
   | Some (GateAbsent b) \<Rightarrow>
       b = NoRecordForTarget \<and> rejected = [] \<and> list_all (\<lambda>g. judge rq g = Some NotLocated) fs"
proof (induction fs arbitrary: rejected)
  case Nil
  then show ?case by (simp add: rejections_def)
next
  case (Cons f fs)
  show ?case
  proof (cases "judge rq f")
    case None
    then show ?thesis by simp
  next
    case (Some v)
    show ?thesis
    proof (cases v)
      case NotLocated
      then have r: "rejections rq (f # xs) = rejections rq xs" for xs using Some by (simp add: rejections_def)
      have none: "rejections rq [] = []" by (simp add: rejections_def)
      show ?thesis using Cons.IH [of rejected] Some NotLocated r none
        by (auto split: option.splits gate_result.splits intro!: chosen_skip)
    next
      case (Rejected reason)
      then have r: "rejections rq (f # xs) = \<lparr>rj_file = bf_file f, rj_reason = reason\<rparr> # rejections rq xs" for xs
        using Some by (simp add: rejections_def)
      have none: "rejections rq [] = []" by (simp add: rejections_def)
      show ?thesis using Cons.IH [of "rejected @ [\<lparr>rj_file = bf_file f, rj_reason = reason\<rparr>]"] Some Rejected r none
        by (auto split: option.splits gate_result.splits intro!: chosen_skip)
    next
      case (Usable out1 creation solcInput inputFile)
      then show ?thesis using Some
        by (auto simp: chosen_def rejections_def intro!: exI [of _ "[]"])
    qed
  qed
qed

lemma chosen_verified:
  assumes "chosen rq n fs fr"
  obtains f where "f \<in> set fs" "bf_file f = fr_file fr"
    "verified_record rq f (fr_output fr) (fr_creation fr) (fr_solcInput fr) (fr_inputFile fr)"
  using assms judge_usable unfolding chosen_def by (metis in_set_conv_decomp)

text \<open>
  The gate's verdict is its candidates'.  It is fresh exactly on the first file, in path
  order, that holds an acceptable record; stale only where some file holds a record of the target
  and every such record was rejected, each with the reason it failed for; absent, once the
  directory could be read, only where no file holds one.
\<close>

theorem gate_verdict_is_its_candidates:
  "case result of
     Inr (BuildInfoFiles files) \<Rightarrow>
       (let sorted = sort_by (\<lambda>l r. locale (bf_file l) (bf_file r)) files
        in mset sorted = mset files \<and>
          (case consultBuildRecord locale result rq of
             None \<Rightarrow> list_ex (\<lambda>f. judge rq f = None) files
           | Some (GateFresh fr) \<Rightarrow> chosen rq 0 sorted fr
           | Some (GateStale rj) \<Rightarrow>
               rj = rejections rq sorted \<and> rj \<noteq> [] \<and> list_all (\<lambda>g. \<not> usable (judge rq g)) files
           | Some (GateAbsent b) \<Rightarrow> b = NoRecordForTarget \<and> list_all (\<lambda>g. judge rq g = Some NotLocated) files))
   | Inr BuildInfoAbsent \<Rightarrow> consultBuildRecord locale result rq = Some (GateAbsent DirectoryAbsent)
   | _ \<Rightarrow> consultBuildRecord locale result rq = Some (GateAbsent DirectoryUnreadable)"
proof (cases result)
  case (Inr found)
  show ?thesis
  proof (cases found)
    case (BuildInfoFiles files)
    let ?sorted = "sort_by (\<lambda>l r. locale (bf_file l) (bf_file r)) files"
    have sorted: "list_ex P ?sorted = list_ex P files" "list_all P ?sorted = list_all P files" for P
      by (simp_all add: list_ex_iff list_all_iff set_sort_by)
    have weaker: "list_all (\<lambda>g. judge rq g \<noteq> None \<and> \<not> usable (judge rq g)) fs \<Longrightarrow>
        list_all (\<lambda>g. \<not> usable (judge rq g)) fs" for fs by (simp add: list_all_iff)
    have c: "consultBuildRecord locale result rq = consult_files rq ?sorted []"
      by (simp add: consultBuildRecord_def Inr BuildInfoFiles)
    show ?thesis
    proof (cases "consult_files rq ?sorted []")
      case None
      then show ?thesis using consult_files_cases [of rq ?sorted "[]"] c
        by (simp add: Inr BuildInfoFiles mset_sort_by sorted Let_def)
    next
      case (Some g)
      then show ?thesis using consult_files_cases [of rq ?sorted "[]"] c weaker
        by (cases g) (simp_all add: Inr BuildInfoFiles mset_sort_by sorted Let_def)
    qed
  qed (simp_all add: consultBuildRecord_def Inr)
qed (simp add: consultBuildRecord_def)

section \<open>What an operation produces\<close>

lemma dispose_ok: "dispose c s = (Inr o1, t) \<Longrightarrow> o1 = Refused c \<and> t = s"
proof -
  have "policy c = Some (Refuse c)" by (cases c) (simp_all add: policy_def POLICY_TABLE_def)
  then show "dispose c s = (Inr o1, t) \<Longrightarrow> ?thesis" by (auto simp: dispose_def)
qed

lemma on_access_ok: "on_access m s = (Inr x, t) \<Longrightarrow> m (pi_access s) = (Inr x, pi_access t) \<and> pi_process t = pi_process s"
  by (auto simp: on_access_def split: prod.splits sum.splits)

lemma derive_facts_ok:
  assumes "derive_facts env contract s = (Inr res, t)"
  shows "pi_process t = pi_process s \<and>
    (case res of
       Inl o1 \<Rightarrow> (\<exists>c. o1 = Refused c)
     | Inr (name, r) \<Rightarrow>
         isSupportedSolcVersion (cc_resolvedVersion (vn_compiler env)) \<and>
         (\<exists>c u keys paths. artifactAbstraction env contract s = (Inr (name, c), u) \<and>
            readArtifactRecord (ah_heap (vn_host env)) c = Inr (RecordComplete r keys paths)))"
proof -
  obtain p u where p: "artifactAbstraction env contract s = (Inr p :: pipeline_error + string \<times> hval, u)"
    and r: "(case p of (name, c) \<Rightarrow> bind_io (on_access (record_artifact (vn_host env) c)) (\<lambda>report.
       case report of
         RecordIncomplete missing _ _ \<Rightarrow>
           (case missing of
              [] \<Rightarrow> throw_io (InvariantBroken ''incomplete without a missing field'')
            | f # _ \<Rightarrow>
                bind_io (dispose (ArtifactShapeUnsupported name (field_name f) ARTIFACT_FIELDS_VERIFIED_SINCE))
                  (\<lambda>o1. return_io (Inl o1)))
       | RecordComplete r _ _ \<Rightarrow>
           (case rangeGate (vn_compiler env) of
              Some cause \<Rightarrow> bind_io (dispose cause) (\<lambda>o1. return_io (Inl o1))
            | None \<Rightarrow> return_io (Inr (name, r))))) u = (Inr res, t)"
    using assms unfolding derive_facts_def by (rule bind_io_InrE)
  have u: "pi_process u = pi_process s"
    using p unfolding artifactAbstraction_def
    by (elim bind_io_InrE) (auto dest!: on_access_ok split: resolution.splits if_splits)
  obtain name c where nc: "p = (name, c)" by fastforce
  obtain report w where a: "on_access (record_artifact (vn_host env) c) u = (Inr report :: pipeline_error + record_report, w)"
    and e: "(case report of
         RecordIncomplete missing _ _ \<Rightarrow>
           (case missing of
              [] \<Rightarrow> throw_io (InvariantBroken ''incomplete without a missing field'')
            | f # _ \<Rightarrow>
                bind_io (dispose (ArtifactShapeUnsupported name (field_name f) ARTIFACT_FIELDS_VERIFIED_SINCE))
                  (\<lambda>o1. return_io (Inl o1)))
       | RecordComplete r _ _ \<Rightarrow>
           (case rangeGate (vn_compiler env) of
              Some cause \<Rightarrow> bind_io (dispose cause) (\<lambda>o1. return_io (Inl o1))
            | None \<Rightarrow> return_io (Inr (name, r)))) w = (Inr res, t)"
    using r unfolding nc prod.case by (rule bind_io_InrE)
  note w = on_access_ok [OF a]
  have read: "readArtifactRecord (ah_heap (vn_host env)) c = Inr report"
    using w by (auto simp: record_artifact_def split: sum.splits)
  show ?thesis
  proof (cases report)
    case (RecordComplete r keys paths)
    have whole: "\<exists>c u keys paths. artifactAbstraction env contract s = (Inr (name, c), u) \<and>
        readArtifactRecord (ah_heap (vn_host env)) c = Inr (RecordComplete r keys paths)"
      using p nc read RecordComplete by blast
    show ?thesis
    proof (cases "rangeGate (vn_compiler env)")
      case None
      then have "res = Inr (name, r)" "t = w" using e RecordComplete by simp_all
      then show ?thesis using whole w u None by (auto simp: rangeGate_def split: if_splits)
    next
      case (Some cause)
      then show ?thesis using e w u RecordComplete by (auto elim!: bind_io_InrE dest!: dispose_ok)
    qed
  next
    case (RecordIncomplete missing keys paths)
    then show ?thesis using e w u
      by (auto elim!: bind_io_InrE dest!: dispose_ok split: list.splits)
  qed
qed

lemma raising_ok: "raising v s = (Inr x, t) \<Longrightarrow> v = Some x \<and> t = s"
  by (auto simp: raising_def split: option.splits)

lemma layout_note_valid: "valid_note (layout_note name)"
proof -
  have "trim (ni_remedy (layout_note name)) \<noteq> []" by (simp add: layout_note_def) code_simp
  moreover have "\<not> is_space (CHR '':'')" by code_simp
  then have "trim (ni_summary (layout_note name)) \<noteq> []" by (auto simp: layout_note_def trim_blank)
  ultimately show ?thesis by (simp add: valid_note_def layout_note_def)
qed

lemma namespace_note_valid: "valid_note (namespace_note name ns)"
proof -
  have "trim (ni_remedy (namespace_note name ns)) \<noteq> []" by (simp add: namespace_note_def) code_simp
  moreover have "\<not> is_space (CHR '':'')" by code_simp
  then have "trim (ni_summary (namespace_note name ns)) \<noteq> []" by (auto simp: namespace_note_def trim_blank)
  ultimately show ?thesis by (simp add: valid_note_def namespace_note_def)
qed

lemma state_note_ok:
  "state_note env n s = (Inr x, t) \<Longrightarrow> valid_note n \<Longrightarrow> holds ns (pi_process s) \<Longrightarrow>
     holds (ns @ [note_of n]) (pi_process t)"
  using degraded_holds [of ns "pi_process s" n "vn_facts env"]
  by (auto simp: state_note_def split: prod.splits sum.splits)

text \<open>Between two moments of the process, exactly these notes were stated.\<close>

definition notes_added :: "degraded_note list \<Rightarrow> process \<Rightarrow> process \<Rightarrow> bool" where
  "notes_added ns p q \<longleftrightarrow> (\<forall>ms. holds ms p \<longrightarrow> holds (ms @ ns) q)"

lemma freshArm_ok:
  assumes "freshArm env ctx fresh s = (Inr o1, t)"
  shows "case o1 of
      Refused c \<Rightarrow> t = s \<and> (\<exists>b. fr_creation fresh = Some b \<and> libraryNameBand b = Some c)
    | ProducedInput i \<Rightarrow>
        (case fr_creation fresh of None \<Rightarrow> True | Some b \<Rightarrow> libraryNameBand b = None) \<and>
        broken_assertion i = None \<and>
        (\<exists>fid. detectFidelity (fr_output fresh) = Some fid \<and> i = fresh_input ctx fresh fid) \<and>
        (\<exists>namespaces. declaresNamespacedStorage (fr_output fresh) (pt_target (ac_partition ctx)) (ac_name ctx) = Some namespaces \<and>
           notes_added (note_of (layout_note (ac_name ctx)) #
               (if namespaces = [] then [] else [note_of (namespace_note (ac_name ctx) namespaces)]))
             (pi_process s) (pi_process t))"
proof (cases "case fr_creation fresh of None \<Rightarrow> None | Some b \<Rightarrow> libraryNameBand b")
  case (Some band)
  then have "dispose band s = (Inr o1, t)" using assms by (simp add: freshArm_def)
  then have "o1 = Refused band" "t = s" by (auto dest: dispose_ok)
  then show ?thesis using Some by (auto split: option.splits)
next
  case None
  define tail where "tail fid = (\<lambda>_ :: unit. let i = fresh_input ctx fresh fid in
      bind_io (assertInput i) (\<lambda>_. return_io (ProducedInput i)))" for fid
  have whole: "bind_io (raising (detectFidelity (fr_output fresh))) (\<lambda>fid.
      bind_io (state_note env (layout_note (ac_name ctx))) (\<lambda>_.
      bind_io (stateNamespaceShortfall env ctx (fr_output fresh)) (tail fid))) s = (Inr o1, t)"
    using assms None by (simp add: freshArm_def tail_def)
  obtain fid s1 where f1: "raising (detectFidelity (fr_output fresh)) s = (Inr fid :: pipeline_error + fidelity, s1)"
    and r1: "bind_io (state_note env (layout_note (ac_name ctx))) (\<lambda>_.
      bind_io (stateNamespaceShortfall env ctx (fr_output fresh)) (tail fid)) s1 = (Inr o1, t)"
    using whole by (rule bind_io_InrE)
  obtain z u where n1: "state_note env (layout_note (ac_name ctx)) s1 = (Inr z :: pipeline_error + unit, u)"
    and rest: "bind_io (stateNamespaceShortfall env ctx (fr_output fresh)) (tail fid) u = (Inr o1, t)"
    using r1 by (rule bind_io_InrE)
  note f = raising_ok [OF f1, THEN conjunct1]
  have n: "state_note env (layout_note (ac_name ctx)) s = (Inr z, u)" using n1 raising_ok [OF f1] by simp
  obtain v where sh: "stateNamespaceShortfall env ctx (fr_output fresh) u = (Inr () :: pipeline_error + unit, v)"
    and as: "bind_io (assertInput (fresh_input ctx fresh fid)) (\<lambda>_. return_io (ProducedInput (fresh_input ctx fresh fid))) v = (Inr o1, t)"
    using rest by (rule bind_io_InrE) (auto simp: Let_def tail_def)
  have o1: "o1 = ProducedInput (fresh_input ctx fresh fid)" "broken_assertion (fresh_input ctx fresh fid) = None" "t = v"
    using as by (auto simp: assertInput_def elim!: bind_io_InrE split: option.splits)
  obtain namespaces where d: "declaresNamespacedStorage (fr_output fresh) (pt_target (ac_partition ctx)) (ac_name ctx) = Some namespaces"
    and nn: "(if namespaces = [] then return_io () else state_note env (namespace_note (ac_name ctx) namespaces)) u = (Inr () :: pipeline_error + unit, v)"
    using sh unfolding stateNamespaceShortfall_def by (auto elim!: bind_io_InrE dest!: raising_ok)
  have "holds (ns @ note_of (layout_note (ac_name ctx)) #
      (if namespaces = [] then [] else [note_of (namespace_note (ac_name ctx) namespaces)])) (pi_process v)"
    if h: "holds ns (pi_process s)" for ns
  proof -
    have l: "holds (ns @ [note_of (layout_note (ac_name ctx))]) (pi_process u)"
      by (rule state_note_ok [OF n layout_note_valid h])
    show ?thesis
    proof (cases "namespaces = []")
      case False
      then have "state_note env (namespace_note (ac_name ctx) namespaces) u = (Inr (), v)" using nn by simp
      then show ?thesis using state_note_ok [OF _ namespace_note_valid l] False by simp
    qed (use nn l in auto)
  qed
  then have "notes_added (note_of (layout_note (ac_name ctx)) #
      (if namespaces = [] then [] else [note_of (namespace_note (ac_name ctx) namespaces)])) (pi_process s) (pi_process v)"
    by (simp add: notes_added_def)
  then show ?thesis using o1 f d None by (auto split: option.splits)
qed


lemma consulted_fresh:
  assumes "consultBuildRecord locale result rq = Some (GateFresh fr)"
  obtains files f where "result = Inr (BuildInfoFiles files)" "f \<in> set files" "bf_file f = fr_file fr"
    "verified_record rq f (fr_output fr) (fr_creation fr) (fr_solcInput fr) (fr_inputFile fr)"
proof -
  obtain files where r: "result = Inr (BuildInfoFiles files)"
    using assms by (auto simp: consultBuildRecord_def split: sum.splits build_info_read.splits)
  let ?sorted = "sort_by (\<lambda>l r. locale (bf_file l) (bf_file r)) files"
  have "chosen rq 0 ?sorted fr"
    using assms consult_files_cases [of rq ?sorted "[]"] by (simp add: consultBuildRecord_def r)
  then obtain f where "f \<in> set ?sorted" "bf_file f = fr_file fr"
    "verified_record rq f (fr_output fr) (fr_creation fr) (fr_solcInput fr) (fr_inputFile fr)"
    by (rule chosen_verified)
  with r that show thesis by (simp add: set_sort_by)
qed

text \<open>What an input that reached the caller has passed, from the artifact to the notes.\<close>

definition derived_input ::
  "pipeline_env \<Rightarrow> string \<Rightarrow> artifact_record \<Rightarrow> process \<Rightarrow> validation_input \<Rightarrow> process \<Rightarrow> bool" where
  "derived_input env name r p i q \<longleftrightarrow>
     (\<exists>key sources fresh fid namespaces.
        let part = vi_partition i; ctx = \<lparr>ac_name = name, ac_record = r, ac_partition = part\<rparr>
        in resolveSourceGraph (graph_of env name r) = Some (Inr (key, sources)) \<and>
           cutPartition key sources = Some part \<and>
           consultBuildRecord (vn_locale env) (vn_readBuildInfo env) (gate_of env name r key part) = Some (GateFresh fresh) \<and>
           (case fr_creation fresh of None \<Rightarrow> True | Some b \<Rightarrow> libraryNameBand b = None) \<and>
           detectFidelity (fr_output fresh) = Some fid \<and> i = fresh_input ctx fresh fid \<and> broken_assertion i = None \<and>
           declaresNamespacedStorage (vi_solcOutput i) (pt_target part) name = Some namespaces \<and>
           notes_added (note_of (layout_note name) #
             (if namespaces = [] then [] else [note_of (namespace_note name namespaces)])) p q)"

lemma derive_from_graph_ok:
  assumes g: "resolveSourceGraph (graph_of env name r) = Some graph"
    and "derive_from_graph env name r graph s = (Inr o1, t)"
  shows "case o1 of
      Refused c \<Rightarrow> t = s
    | ProducedInput i \<Rightarrow> derived_input env name r (pi_process s) i (pi_process t)"
proof (cases graph)
  case (Inl c)
  then show ?thesis using assms(2) by (auto simp: derive_from_graph_def dest!: dispose_ok)
next
  case (Inr found)
  obtain key sources where f: "found = (key, sources)" by fastforce
  show ?thesis
  proof (cases "cutPartition key sources")
    case None
    then show ?thesis using assms(2) by (simp add: derive_from_graph_def Inr f)
  next
    case (Some part)
    let ?ctx = "\<lparr>ac_name = name, ac_record = r, ac_partition = part\<rparr>"
    obtain v u where v: "raising (consultBuildRecord (vn_locale env) (vn_readBuildInfo env)
          (gate_of env name r key part)) s = (Inr v :: pipeline_error + gate_result, u)"
      and e: "(case v of
           GateFresh fresh \<Rightarrow> freshArm env ?ctx fresh
         | GateStale rejected \<Rightarrow> dispose (BuildRecordStale rejected)
         | GateAbsent because \<Rightarrow> dispose (BuildRecordAbsent because)) u = (Inr o1, t)"
      using assms(2) unfolding derive_from_graph_def Inr f sum.case prod.case Some option.case by (rule bind_io_InrE)
    note v = raising_ok [OF v]
    show ?thesis
    proof (cases v)
      case (GateFresh fresh)
      then have "freshArm env ?ctx fresh s = (Inr o1, t)" using e v by simp
      note arm = freshArm_ok [OF this]
      show ?thesis
      proof (cases o1)
        case (ProducedInput i)
        then have "vi_partition i = part" "vi_solcOutput i = fr_output fresh" using arm by (auto simp: fresh_input_def)
        then show ?thesis
          using arm g v GateFresh Some Inr f ProducedInput by (fastforce simp: derived_input_def Let_def)
      qed (use arm in auto)
    next
      case (GateStale rejected)
      then show ?thesis using e v by (auto dest!: dispose_ok)
    next
      case (GateAbsent because)
      then show ?thesis using e v by (auto dest!: dispose_ok)
    qed
  qed
qed

lemma derive_ok:
  assumes "deriveValidationInput env contract s = Some (Inr o1, t)"
  shows "case o1 of
      Refused c \<Rightarrow> pi_process t = pi_process s
    | ProducedInput i \<Rightarrow>
        isSupportedSolcVersion (cc_resolvedVersion (vn_compiler env)) \<and>
        (\<exists>name r c u keys paths. artifactAbstraction env contract s = (Inr (name, c), u) \<and>
           readArtifactRecord (ah_heap (vn_host env)) c = Inr (RecordComplete r keys paths) \<and>
           derived_input env name r (pi_process s) i (pi_process t))"
proof -
  obtain res u where d: "derive_facts env contract s = (Inr res, u)"
    using assms by (auto simp: deriveValidationInput_def split: prod.splits sum.splits)
  note facts = derive_facts_ok [OF d]
  show ?thesis
  proof (cases res)
    case (Inl o2)
    then show ?thesis using assms d facts by (auto simp: deriveValidationInput_def)
  next
    case (Inr nr)
    obtain name r where nr: "nr = (name, r)" by fastforce
    obtain graph where g: "resolveSourceGraph (graph_of env name r) = Some graph"
      and e: "derive_from_graph env name r graph u = (Inr o1, t)"
      using assms d Inr nr by (auto simp: deriveValidationInput_def split: option.splits)
    show ?thesis using derive_from_graph_ok [OF g e] facts Inr nr by (cases o1) auto
  qed
qed

text \<open>
  C14: A produced input comes from one verified build record.  The compiler is in range; the
  artifact the host resolved for the name has a whole record; the partition is cut from the import
  closure of its source, target included; and one of the files read holds a record of the target
  whose deployed bytecode is the artifact's, with an AST and a text for every source of that
  closure, which is what the input and the output carry; and no library name in its creation
  bytecode is too long.
\<close>

theorem input_comes_from_one_verified_record:
  assumes "deriveValidationInput env contract s = Some (Inr (ProducedInput i), t)"
  shows "isSupportedSolcVersion (cc_resolvedVersion (vn_compiler env)) \<and>
    (\<exists>name c r u keys paths key sources files f creation.
       artifactAbstraction env contract s = (Inr (name, c), u) \<and>
       readArtifactRecord (ah_heap (vn_host env)) c = Inr (RecordComplete r keys paths) \<and>
       vi_solcVersion i = ar_longCompilerVersion r \<and>
       resolveSourceGraph (graph_of env name r) = Some (Inr (key, sources)) \<and>
       pt_target (vi_partition i) = key \<and> key \<in> set (pt_closure (vi_partition i)) \<and>
       set (pt_closure (vi_partition i)) = fst ` set sources \<and>
       vn_readBuildInfo env = Inr (BuildInfoFiles files) \<and> f \<in> set files \<and> bf_file f = vi_file i \<and>
       verified_record (gate_of env name r key (vi_partition i)) f (vi_solcOutput i) creation (vi_solcInput i) (vi_inputFile i) \<and>
       (case creation of None \<Rightarrow> True | Some b \<Rightarrow> libraryNameBand b = None) \<and>
       vi_sourceKeys i = own_keys (own_prop (vi_solcInput i) ''sources'') \<and> vi_solcVersion i \<noteq> [])"
proof -
  obtain name r c u keys paths where a: "artifactAbstraction env contract s = (Inr (name, c), u)"
    "readArtifactRecord (ah_heap (vn_host env)) c = Inr (RecordComplete r keys paths)"
    and d: "derived_input env name r (pi_process s) i (pi_process t)"
    and v: "isSupportedSolcVersion (cc_resolvedVersion (vn_compiler env))"
    using derive_ok [OF assms] by auto
  obtain key sources fresh fid where g: "resolveSourceGraph (graph_of env name r) = Some (Inr (key, sources))"
    and p: "cutPartition key sources = Some (vi_partition i)"
    and fr: "consultBuildRecord (vn_locale env) (vn_readBuildInfo env) (gate_of env name r key (vi_partition i)) = Some (GateFresh fresh)"
    and b: "case fr_creation fresh of None \<Rightarrow> True | Some b \<Rightarrow> libraryNameBand b = None"
    and i: "i = fresh_input \<lparr>ac_name = name, ac_record = r, ac_partition = vi_partition i\<rparr> fresh fid"
    and ok: "broken_assertion i = None"
    using d unfolding derived_input_def Let_def by blast
  obtain files f where f: "vn_readBuildInfo env = Inr (BuildInfoFiles files)" "f \<in> set files" "bf_file f = fr_file fresh"
    "verified_record (gate_of env name r key (vi_partition i)) f (fr_output fresh) (fr_creation fresh) (fr_solcInput fresh) (fr_inputFile fresh)"
    using fr by (rule consulted_fresh)
  have parts: "vi_solcVersion i = ar_longCompilerVersion r" "vi_file i = fr_file fresh" "vi_solcOutput i = fr_output fresh"
    "vi_solcInput i = fr_solcInput fresh" "vi_inputFile i = fr_inputFile fresh"
    "vi_sourceKeys i = own_keys (own_prop (fr_solcInput fresh) ''sources'')"
    by (subst i, simp add: fresh_input_def)+
  have "key \<in> set (map fst sources)" "pt_target (vi_partition i) = key" "pt_closure (vi_partition i) = sort (map fst sources)"
    using p by (auto simp: cutPartition_ok)
  moreover have "vi_solcVersion i \<noteq> []" using ok by (auto simp: broken_assertion_def Let_def split: if_splits)
  ultimately show ?thesis
    using v a g f b parts by (intro conjI exI [of _ name] exI [of _ c] exI [of _ r] exI [of _ u] exI [of _ keys]
        exI [of _ paths] exI [of _ key] exI [of _ sources] exI [of _ files] exI [of _ f] exI [of _ "fr_creation fresh"])
      simp_all
qed

text \<open>
  C16: Reduced fidelity is always stated, and nothing else is.  A produced input never claims slot
  positions: it names the contracts whose layout lacks them, the layout note was stated for it,
  and the namespace note exactly when the target declares namespaced storage.  A refusal states
  nothing, whatever the state of the channel's record.
\<close>

theorem reduced_fidelity_is_always_stated:
  assumes "deriveValidationInput env contract s = Some (Inr o1, t)"
  shows "case o1 of
      Refused c \<Rightarrow> pi_process t = pi_process s
    | ProducedInput i \<Rightarrow>
        (\<exists>missing name namespaces.
           detectFidelity (vi_solcOutput i) = Some (vi_fidelity i) \<and> vi_fidelity i = DeclarationOrder missing \<and> missing \<noteq> [] \<and>
           declaresNamespacedStorage (vi_solcOutput i) (pt_target (vi_partition i)) name = Some namespaces \<and>
           notes_added (note_of (layout_note name) #
             (if namespaces = [] then [] else [note_of (namespace_note name namespaces)])) (pi_process s) (pi_process t))"
proof (cases o1)
  case (Refused c)
  then show ?thesis using derive_ok [OF assms] by simp
next
  case (ProducedInput i)
  obtain name r where d: "derived_input env name r (pi_process s) i (pi_process t)"
    using derive_ok [OF assms] ProducedInput by auto
  obtain fresh fid namespaces where fid: "detectFidelity (fr_output fresh) = Some fid"
    and i: "i = fresh_input \<lparr>ac_name = name, ac_record = r, ac_partition = vi_partition i\<rparr> fresh fid"
    and ok: "broken_assertion i = None"
    and n: "declaresNamespacedStorage (vi_solcOutput i) (pt_target (vi_partition i)) name = Some namespaces"
      "notes_added (note_of (layout_note name) #
        (if namespaces = [] then [] else [note_of (namespace_note name namespaces)])) (pi_process s) (pi_process t)"
    using d unfolding derived_input_def Let_def by blast
  have parts: "vi_fidelity i = fid" "vi_solcOutput i = fr_output fresh" by (subst i, simp add: fresh_input_def)+
  obtain missing where "vi_fidelity i = DeclarationOrder missing" "missing \<noteq> []"
    using ok by (auto simp: broken_assertion_def Let_def split: if_splits fidelity.splits)
  then have "\<exists>missing name namespaces.
      detectFidelity (vi_solcOutput i) = Some (vi_fidelity i) \<and> vi_fidelity i = DeclarationOrder missing \<and> missing \<noteq> [] \<and>
      declaresNamespacedStorage (vi_solcOutput i) (pt_target (vi_partition i)) name = Some namespaces \<and>
      notes_added (note_of (layout_note name) #
        (if namespaces = [] then [] else [note_of (namespace_note name namespaces)])) (pi_process s) (pi_process t)"
    using n fid parts by metis
  then show ?thesis using ProducedInput by simp
qed


section \<open>A project whose contract is derived\<close>

definition demo_heap :: heap where
  "demo_heap a =
     \<lparr>ho_callable = False, ho_array = False, ho_traps = False,
      ho_own =
        (if a = 1 then [(''_json'', DataProp (VObj 2)), (''sourcePath'', DataProp (VStr ''/p/c/T''))]
         else if a = 2 then
           [(''compiler'', DataProp (VObj 3)), (''source'', DataProp (VStr ''s'')),
            (''sourcePath'', DataProp (VStr ''/p/c/T'')), (''bytecode'', DataProp (VStr ''0x60'')),
            (''deployedBytecode'', DataProp (VStr ''0x6001''))]
         else if a = 3 then [(''version'', DataProp (VStr ''0.8.20''))] else []),
      ho_inherited = []\<rparr>"

definition demo_contract :: "string \<Rightarrow> js" where
  "demo_contract name =
     JObj [(name, JObj [(''evm'', JObj
       [(''bytecode'', JObj [(''object'', JStr ''60''), (''linkReferences'', JObj [])]),
        (''deployedBytecode'', JObj [(''object'', JStr ''6001''), (''linkReferences'', JObj [])])])])]"

definition demo_ast :: "string \<Rightarrow> int \<Rightarrow> js" where
  "demo_ast name i =
     JObj [(''ast'', JObj [(''nodes'', JArr [JObj
       [(''nodeType'', JStr ''ContractDefinition''), (''name'', JStr name), (''id'', JNum (NInt i)), (''nodes'', JArr [])]])])]"

definition demo_file :: build_info_file where
  "demo_file =
     \<lparr>bf_file = ''/p/i/x.output.json'',
      bf_output = JObj
        [(''contracts'', JObj [(''A'', demo_contract ''A''), (''T'', demo_contract ''T'')]),
         (''sources'', JObj [(''A'', demo_ast ''A'' 1), (''T'', demo_ast ''T'' 2)])],
      bf_inputFile = Some ''/p/i/x.input.json'',
      bf_input = Some (JObj
        [(''language'', JStr ''Solidity''),
         (''sources'', JObj
           [(''A'', JObj [(''content'', JStr (demo_import ''T''))]), (''T'', JObj [(''content'', JStr (demo_import ''A''))])]),
         (''settings'', JObj [(''outputSelection'', JObj [])])])\<rparr>"

definition demo_host :: access_host where
  "demo_host =
     \<lparr>ah_heap = demo_heap, ah_require = (\<lambda>_ _. RequireReturned (VObj 1)),
      ah_read = (\<lambda>_ _. Inr (BuildInfoFiles [demo_file])), ah_exists = (\<lambda>_ _. Inr False), ah_locale = demo_compare\<rparr>"

definition demo_pipeline :: pipeline_env where
  "demo_pipeline =
     \<lparr>vn_host = demo_host, vn_paths = demo_project,
      vn_compiler = \<lparr>cc_resolvedVersion = ''0.8.20'', cc_settings = JUndef, cc_family = Tvm, cc_viaLegacyFlag = None,
        cc_versionIsHostDefault = False, cc_settingsSource = NoSettings\<rparr>,
      vn_facts = \<lparr>hf_warn = True, hf_log = True, hf_raises = (\<lambda>_. False), hf_fromDeployer = True, hf_quietRequested = False\<rparr>,
      vn_cwd = ''/p'', vn_readSource = gr_read demo_graph, vn_exists = gr_exists demo_graph,
      vn_readBuildInfo = Inr (BuildInfoFiles [demo_file]), vn_locale = demo_compare, vn_unlink = (\<lambda>_ artifact. artifact)\<rparr>"

definition demo_record :: artifact_record where
  "demo_record =
     \<lparr>ar_longCompilerVersion = ''0.8.20'', ar_bytecode = ''0x60'', ar_deployedBytecode = ''0x6001'', ar_source = ''s'',
      ar_sourcePath = ''/p/c/T''\<rparr>"

definition demo_partition :: partition where
  "demo_partition = \<lparr>pt_target = ''T'', pt_closure = [''A'', ''T'']\<rparr>"

lemma demo_graph_of: "graph_of demo_pipeline ''T'' demo_record = demo_graph"
proof -
  have "is_absolute ''/p/c/T''" by code_simp
  then show ?thesis
    by (simp add: graph_of_def demo_pipeline_def demo_record_def demo_graph_def demo_project_def absoluteSourcePath_def)
qed

lemma demo_cut: "cutPartition ''T'' [(''T'', demo_import ''A''), (''A'', demo_import ''T'')] = Some demo_partition"
  by code_simp

lemma demo_judged:
  "\<exists>output solcInput. judge (gate_of demo_pipeline ''T'' demo_record ''T'' demo_partition) demo_file =
     Some (Usable output (Some \<lparr>by_object = ''60'', by_links = JObj []\<rparr>) solcInput ''/p/i/x.input.json'') \<and>
     detectFidelity output = Some (DeclarationOrder [''A:A'', ''T:T'']) \<and>
     declaresNamespacedStorage output ''T'' ''T'' = Some [] \<and>
     own_keys (own_prop solcInput ''sources'') = [''A'', ''T''] \<and>
     own_prop (own_prop solcInput ''sources'') ''A'' \<noteq> JUndef \<and> own_prop (own_prop solcInput ''sources'') ''T'' \<noteq> JUndef"
proof -
  let ?j = "judge (gate_of demo_pipeline ''T'' demo_record ''T'' demo_partition) demo_file"
  have "(case ?j of Some (Usable output cr solcInput f) \<Rightarrow>
      cr = Some \<lparr>by_object = ''60'', by_links = JObj []\<rparr> \<and> f = ''/p/i/x.input.json'' \<and>
      detectFidelity output = Some (DeclarationOrder [''A:A'', ''T:T'']) \<and>
      declaresNamespacedStorage output ''T'' ''T'' = Some [] \<and>
      own_keys (own_prop solcInput ''sources'') = [''A'', ''T''] \<and>
      own_prop (own_prop solcInput ''sources'') ''A'' \<noteq> JUndef \<and>
      own_prop (own_prop solcInput ''sources'') ''T'' \<noteq> JUndef | _ \<Rightarrow> False)" by code_simp
  then show ?thesis by (auto split: option.splits candidate_verdict.splits)
qed


lemma demo_reads_whole: "\<exists>keys paths. readArtifactRecord demo_heap (VObj 1) = Inr (RecordComplete demo_record keys paths)"
proof -
  have "(case readArtifactRecord demo_heap (VObj 1) of Inr (RecordComplete r keys paths) \<Rightarrow> r = demo_record | _ \<Rightarrow> False)"
    by code_simp
  then show ?thesis by (auto split: sum.splits record_report.splits)
qed

lemma demo_one_candidate:
  defines "ix \<equiv> buildArtifactAmbiguityIndex demo_compare demo_project (\<lambda>_. Inr (BuildInfoFiles [demo_file]))"
  shows "\<exists>ns fs. ai_report ix = Indexed ns fs"
    and "\<exists>f. index_candidates ix ''T'' = [\<lparr>ca_sourcePath = ''T'', ca_contractName = ''T'', ca_buildInfoFile = f\<rparr>]"
proof -
  have "(case ai_report ix of Indexed _ _ \<Rightarrow> True | _ \<Rightarrow> False)" unfolding ix_def by code_simp
  then show "\<exists>ns fs. ai_report ix = Indexed ns fs" by (auto split: ambiguity_report.splits)
  have "index_candidates ix ''T'' =
      [\<lparr>ca_sourcePath = ''T'', ca_contractName = ''T'', ca_buildInfoFile = ''/p/i/x.output.json''\<rparr>]"
    unfolding ix_def by code_simp
  then show "\<exists>f. index_candidates ix ''T'' = [\<lparr>ca_sourcePath = ''T'', ca_contractName = ''T'', ca_buildInfoFile = f\<rparr>]"
    by blast
qed

lemma demo_abstraction:
  "\<exists>a. artifactAbstraction demo_pipeline ''T'' \<lparr>pi_access = fresh_access, pi_process = p\<rparr> =
     (Inr (''T'', VObj 1), \<lparr>pi_access = a, pi_process = p\<rparr>)"
proof -
  have name: "normalizeArtifactName ''T'' = ''T''" by code_simp
  show ?thesis using demo_one_candidate
    by (auto simp: artifactAbstraction_def resolve_artifact_def on_access_def bind_io_def return_io_def name
        resolveThroughIntercept_def log_access_def getIndex_def demo_pipeline_def demo_host_def fresh_access_def Let_def)
qed

lemma demo_facts:
  "\<exists>a. derive_facts demo_pipeline ''T'' \<lparr>pi_access = fresh_access, pi_process = p\<rparr> =
     (Inr (Inr (''T'', demo_record)), \<lparr>pi_access = a, pi_process = p\<rparr>)"
proof -
  obtain a where a: "artifactAbstraction demo_pipeline ''T'' \<lparr>pi_access = fresh_access, pi_process = p\<rparr> =
      (Inr (''T'', VObj 1), \<lparr>pi_access = a, pi_process = p\<rparr>)" using demo_abstraction by blast
  obtain keys paths where r: "readArtifactRecord demo_heap (VObj 1) = Inr (RecordComplete demo_record keys paths)"
    using demo_reads_whole by blast
  have heap: "ah_heap (vn_host demo_pipeline) = demo_heap" by (simp add: demo_pipeline_def demo_host_def)
  have "isSupportedSolcVersion ''0.8.20''" by code_simp
  then have "rangeGate (vn_compiler demo_pipeline) = None" by (simp add: rangeGate_def demo_pipeline_def)
  then show ?thesis
    using a r heap by (simp add: derive_facts_def bind_io_def on_access_def record_artifact_def return_io_def)
qed


lemma demo_gate:
  obtains fresh where "consultBuildRecord (vn_locale demo_pipeline) (vn_readBuildInfo demo_pipeline)
      (gate_of demo_pipeline ''T'' demo_record ''T'' demo_partition) = Some (GateFresh fresh)"
    "fr_creation fresh = Some \<lparr>by_object = ''60'', by_links = JObj []\<rparr>"
    "detectFidelity (fr_output fresh) = Some (DeclarationOrder [''A:A'', ''T:T''])"
    "declaresNamespacedStorage (fr_output fresh) ''T'' ''T'' = Some []"
    "own_keys (own_prop (fr_solcInput fresh) ''sources'') = [''A'', ''T'']"
    "own_prop (own_prop (fr_solcInput fresh) ''sources'') ''A'' \<noteq> JUndef"
    "own_prop (own_prop (fr_solcInput fresh) ''sources'') ''T'' \<noteq> JUndef"
proof -
  have b: "vn_readBuildInfo demo_pipeline = Inr (BuildInfoFiles [demo_file])" by (simp add: demo_pipeline_def)
  have one: "sort_by f [x] = [x]" for f and x :: build_info_file by (simp add: sort_by_def)
  show thesis
    using demo_judged by (auto simp: consultBuildRecord_def one b intro!: that)
qed

lemma demo_derives:
  "\<exists>i t. deriveValidationInput demo_pipeline ''T'' \<lparr>pi_access = fresh_access, pi_process = p\<rparr> = Some (Inr (ProducedInput i), t) \<and>
     vi_fidelity i = DeclarationOrder [''A:A'', ''T:T'']"
proof -
  obtain a where f: "derive_facts demo_pipeline ''T'' \<lparr>pi_access = fresh_access, pi_process = p\<rparr> =
      (Inr (Inr (''T'', demo_record)), \<lparr>pi_access = a, pi_process = p\<rparr>)" using demo_facts by blast
  obtain fresh where g: "consultBuildRecord (vn_locale demo_pipeline) (vn_readBuildInfo demo_pipeline)
      (gate_of demo_pipeline ''T'' demo_record ''T'' demo_partition) = Some (GateFresh fresh)"
    "fr_creation fresh = Some \<lparr>by_object = ''60'', by_links = JObj []\<rparr>"
    "detectFidelity (fr_output fresh) = Some (DeclarationOrder [''A:A'', ''T:T''])"
    "declaresNamespacedStorage (fr_output fresh) ''T'' ''T'' = Some []"
    "own_keys (own_prop (fr_solcInput fresh) ''sources'') = [''A'', ''T'']"
    "own_prop (own_prop (fr_solcInput fresh) ''sources'') ''A'' \<noteq> JUndef"
    "own_prop (own_prop (fr_solcInput fresh) ''sources'') ''T'' \<noteq> JUndef"
    by (rule demo_gate)
  let ?ctx = "\<lparr>ac_name = ''T'', ac_record = demo_record, ac_partition = demo_partition\<rparr>"
  have l: "libraryNameBand \<lparr>by_object = ''60'', by_links = JObj []\<rparr> = None" by code_simp
  obtain q where n: "degraded (vn_facts demo_pipeline) (layout_note ''T'') p = (Inr (note_of (layout_note ''T'')), q)"
    using degraded_valid [OF layout_note_valid, of "vn_facts demo_pipeline" "''T''" p] by (metis prod.collapse)
  have ok: "broken_assertion (fresh_input ?ctx fresh (DeclarationOrder [''A:A'', ''T:T''])) = None"
    using g by (simp add: broken_assertion_def fresh_input_def demo_partition_def demo_record_def)
  have "freshArm demo_pipeline ?ctx fresh \<lparr>pi_access = a, pi_process = p\<rparr> =
      (Inr (ProducedInput (fresh_input ?ctx fresh (DeclarationOrder [''A:A'', ''T:T'']))), \<lparr>pi_access = a, pi_process = q\<rparr>)"
    using g l n ok
    by (simp add: freshArm_def bind_io_def raising_def return_io_def state_note_def stateNamespaceShortfall_def
        assertInput_def demo_partition_def)
  then show ?thesis
    using f g(1) demo_cut demo_graph_walks demo_graph_of
    by (simp add: deriveValidationInput_def derive_from_graph_def bind_io_def raising_def return_io_def fresh_input_def)
qed



definition demo_start :: pipe_state where
  "demo_start =
     \<lparr>pi_access = fresh_access,
      pi_process = \<lparr>ps_silenced = False, ps_console = HostConsole, ps_activeCall = None, ps_captured = [], ps_terminal = [],
        ps_written = [], ps_appended = [], ps_suppressed = 0\<rparr>\<rparr>"

theorem input_comes_from_one_verified_record_witness:
  "\<exists>i t name r key creation. deriveValidationInput demo_pipeline ''T'' demo_start = Some (Inr (ProducedInput i), t) \<and>
     verified_record (gate_of demo_pipeline name r key (vi_partition i)) demo_file (vi_solcOutput i) creation
       (vi_solcInput i) (vi_inputFile i)"
proof -
  obtain i t where d: "deriveValidationInput demo_pipeline ''T'' demo_start = Some (Inr (ProducedInput i), t)"
    using demo_derives unfolding demo_start_def by blast
  moreover have "vn_readBuildInfo demo_pipeline = Inr (BuildInfoFiles [demo_file])" by (simp add: demo_pipeline_def)
  ultimately show ?thesis using input_comes_from_one_verified_record [OF d] by auto
qed

theorem reduced_fidelity_is_always_stated_witness:
  "\<exists>i t name. deriveValidationInput demo_pipeline ''T'' demo_start = Some (Inr (ProducedInput i), t) \<and>
     vi_fidelity i = DeclarationOrder [''A:A'', ''T:T''] \<and>
     note_of (layout_note name) \<in> set (ps_appended (pi_process t))"
proof -
  obtain i t where d: "deriveValidationInput demo_pipeline ''T'' demo_start = Some (Inr (ProducedInput i), t)"
    and f: "vi_fidelity i = DeclarationOrder [''A:A'', ''T:T'']"
    using demo_derives unfolding demo_start_def by blast
  have start: "holds [] (pi_process demo_start)" by (simp add: holds_def demo_start_def)
  obtain name ns where "holds (note_of (layout_note name) # ns) (pi_process t)"
    using reduced_fidelity_is_always_stated [OF d] start by (auto simp: notes_added_def)
  then show ?thesis using d f by (auto simp: holds_def RECORDED_NOTE_CAP_def numeral_eq_Suc)
qed

end
