(* ===== verification/ChainSlots.thy ===== *)
theory ChainSlots
  imports Prelude
begin

text \<open>
  \<open>chain/slots.ts\<close>: the ERC-1967 slot keys, the decoding of a 32-byte storage word into a
  20-byte address, the one sanctioned address comparison, and the form an address takes in
  a JSON-RPC request.  The two error classes are \<open>slots_error\<close>; the prose of a message
  is represented by the branch that chose it and the value it quotes.
\<close>

section \<open>Constants and errors\<close>

abbreviation SLOT_WORD_HEX_CHARS :: nat where "SLOT_WORD_HEX_CHARS \<equiv> 64"
abbreviation ADDRESS_HEX_CHARS :: nat where "ADDRESS_HEX_CHARS \<equiv> 40"
abbreviation ADDRESS_PAD_HEX_CHARS :: nat where "ADDRESS_PAD_HEX_CHARS \<equiv> 24"
abbreviation TRON_HEX_CHARS :: nat where "TRON_HEX_CHARS \<equiv> 42"
abbreviation BASE58_ADDRESS_CHARS :: nat where "BASE58_ADDRESS_CHARS \<equiv> 34"

datatype slot_fault = WordNotHex | WordWidth nat | TopBytesNonZero
datatype addr_fault = AddrEmpty | AddrBase58 | AddrNotHex | AddrWidth nat

datatype slots_error =
    ChainSlotMalformed slot_fault string
  | ChainAddressUnusable addr_fault string

datatype slot_label = Implementation | Admin | Beacon

fun eip1967Slots :: "slot_label \<Rightarrow> string" where
  "eip1967Slots Implementation =
     ''0x360894a13ba1a3210667c828492db98dca3e2076cc3735a920a3ca505d382bbc''"
| "eip1967Slots Admin =
     ''0xb53127684a568b3173ae13b9f8a6016e243e63b6e8ee1178d6a717850b5d6103''"
| "eip1967Slots Beacon =
     ''0xa3f0ad74e5423aebfd80d3ef4346578335a9a72aeaee59ff6cb3582b35133d50''"

text \<open>The beacon has no legacy slot.\<close>

fun legacyEip1967Slots :: "slot_label \<Rightarrow> string option" where
  "legacyEip1967Slots Implementation =
     Some ''0x7050c9e0f4ca769c69bd3a8ef740bc37934f8e2c036e5a723fd8ee048ed3f8c3''"
| "legacyEip1967Slots Admin =
     Some ''0x10d6a54a4754c8869d6886b5f5d7fbfa5b4522237ea5c60d11bc4e7a1ff9390b''"
| "legacyEip1967Slots Beacon = None"

definition sel_upgradeInterfaceVersion :: string where
  "sel_upgradeInterfaceVersion = ''0xad3cb1cc''"

definition sel_owner :: string where
  "sel_owner = ''0x8da5cb5b''"

definition sel_implementation :: string where
  "sel_implementation = ''0x5c60da1b''"

definition zeroSlotWord :: string where
  "zeroSlotWord = ''0x'' @ replicate SLOT_WORD_HEX_CHARS (CHR ''0'')"

section \<open>Words\<close>

definition all_zeros :: "string \<Rightarrow> bool" where
  "all_zeros s = list_all (\<lambda>c. c = CHR ''0'') s"

definition isEmptySlotWord :: "string \<Rightarrow> bool" where
  "isEmptySlotWord word =
     (let digits = strip_hex_prefix word
      in if \<not> is_hex_digits digits then False else all_zeros digits)"

definition looksLikeSlotAddressWord :: "string \<Rightarrow> bool" where
  "looksLikeSlotAddressWord word =
     (let digits = strip_hex_prefix word
      in length digits = SLOT_WORD_HEX_CHARS \<and> is_hex_digits digits \<and>
         all_zeros (take ADDRESS_PAD_HEX_CHARS digits))"

definition slotToAddress :: "string \<Rightarrow> slots_error + string" where
  "slotToAddress word =
     (let digits = strip_hex_prefix word
      in if \<not> is_hex_digits digits then Inl (ChainSlotMalformed WordNotHex word)
         else if length digits \<noteq> SLOT_WORD_HEX_CHARS
           then Inl (ChainSlotMalformed (WordWidth (length digits)) word)
         else if \<not> all_zeros (take ADDRESS_PAD_HEX_CHARS digits)
           then Inl (ChainSlotMalformed TopBytesNonZero word)
         else Inr (''0x'' @ lower (drop ADDRESS_PAD_HEX_CHARS digits)))"

text \<open>The zero address, minted through the same validation as every other.\<close>

definition zeroChainAddress :: string where
  "zeroChainAddress = (case slotToAddress zeroSlotWord of Inl _ \<Rightarrow> [] | Inr a \<Rightarrow> a)"

section \<open>Addresses\<close>

definition sameAddress :: "string \<Rightarrow> string \<Rightarrow> bool" where
  "sameAddress a b =
     (let left = lower (strip_hex_prefix a);
          right = lower (strip_hex_prefix b)
      in if length left \<noteq> ADDRESS_HEX_CHARS \<or> \<not> is_hex_digits left then False
         else if length right \<noteq> ADDRESS_HEX_CHARS \<or> \<not> is_hex_digits right then False
         else left = right)"

definition base58_alphabet :: string where
  "base58_alphabet = ''123456789ABCDEFGHJKLMNPQRSTUVWXYZabcdefghijkmnopqrstuvwxyz''"

definition looksLikeBase58Address :: "string \<Rightarrow> bool" where
  "looksLikeBase58Address v \<longleftrightarrow>
     length v = BASE58_ADDRESS_CHARS \<and> prefix ''T'' v \<and>
     list_all (\<lambda>c. c \<in> set base58_alphabet) v"

definition toRpcAddress :: "string \<Rightarrow> slots_error + string" where
  "toRpcAddress address =
     (if address = [] then Inl (ChainAddressUnusable AddrEmpty address)
      else if looksLikeBase58Address address
        then Inl (ChainAddressUnusable AddrBase58 address)
      else let digits = strip_hex_prefix address
        in if \<not> is_hex_digits digits then Inl (ChainAddressUnusable AddrNotHex address)
           else if length digits = ADDRESS_HEX_CHARS then Inr (''0x'' @ lower digits)
           else if length digits = TRON_HEX_CHARS \<and> lower (take 2 digits) = ''41''
             then Inr (''0x'' @ lower (drop 2 digits))
           else Inl (ChainAddressUnusable (AddrWidth (length digits)) address))"

text \<open>What a 20-byte address in request form is: the shape every reader sends to the node.\<close>

definition rpc_form :: "string \<Rightarrow> bool" where
  "rpc_form a \<longleftrightarrow> prefix ''0x'' a \<and> length a = 42 \<and> is_hex_digits (drop 2 a) \<and> lower a = a"

section \<open>Facts about words\<close>

lemma zero_hex [hex_simps]: "is_hex_char (CHR ''0'')"
  by (simp add: is_hex_char_def)

lemma all_zeros_hex: "all_zeros s \<Longrightarrow> is_hex_digits s"
  by (induction s) (simp_all add: all_zeros_def is_hex_digits_def zero_hex)

lemma all_zeros_replicate [hex_simps]: "all_zeros (replicate n (CHR ''0''))"
  by (simp add: all_zeros_def list_all_iff)

lemma all_zeros_eq: "all_zeros s \<longleftrightarrow> s = replicate (length s) (CHR ''0'')"
  by (induction s) (simp_all add: all_zeros_def)

lemma is_hex_replicate [hex_simps]: "is_hex_digits (replicate n (CHR ''0''))"
  using all_zeros_hex all_zeros_replicate by blast

lemma lower_0x: "lower (''0x'' @ s) = ''0x'' @ lower s"
  by (simp add: hex_simps to_lower_def lower_table_def)

lemma rpc_formI:
  "is_hex_digits d \<Longrightarrow> length d = 40 \<Longrightarrow> rpc_form (''0x'' @ lower d)"
  unfolding rpc_form_def lower_0x lower_lower by (simp add: length_lower is_hex_digits_lower)

lemma slotToAddress_ok_iff:
  "(\<exists>a. slotToAddress w = Inr a) \<longleftrightarrow> looksLikeSlotAddressWord w"
  by (auto simp: slotToAddress_def looksLikeSlotAddressWord_def Let_def)

lemma slotToAddress_ok:
  assumes "slotToAddress w = Inr a"
  shows "rpc_form a" and "looksLikeSlotAddressWord w"
    and "lower (strip_hex_prefix w) = replicate 24 (CHR ''0'') @ drop 2 a"
proof -
  let ?d = "strip_hex_prefix w"
  from assms have hex: "is_hex_digits ?d" and len: "length ?d = 64"
    and pad: "all_zeros (take 24 ?d)" and a: "a = ''0x'' @ lower (drop 24 ?d)"
    by (auto simp: slotToAddress_def Let_def split: if_splits)
  show "rpc_form a" unfolding a by (rule rpc_formI) (simp_all add: hex is_hex_digits_drop len)
  show "looksLikeSlotAddressWord w"
    using hex len pad by (simp add: looksLikeSlotAddressWord_def)
  have zeros: "take 24 ?d = replicate 24 (CHR ''0'')"
    using pad len by (simp add: all_zeros_eq)
  have "lower (take 24 ?d) = take 24 ?d"
    unfolding zeros by (simp add: lower_def to_lower_def lower_table_def)
  then have "lower ?d = take 24 ?d @ lower (drop 24 ?d)"
    by (metis append_take_drop_id lower_append)
  then show "lower ?d = replicate 24 (CHR ''0'') @ drop 2 a"
    using a zeros by simp
qed

section \<open>Facts about addresses\<close>

text \<open>The 40 digits an accepted spelling carries, and the encodings that are accepted.\<close>

definition rpc_tail :: "string \<Rightarrow> string option" where
  "rpc_tail a =
     (let digits = strip_hex_prefix a
      in if \<not> is_hex_digits digits then None
         else if length digits = 40 then Some digits
         else if length digits = 42 \<and> lower (take 2 digits) = ''41'' then Some (drop 2 digits)
         else None)"

lemma length_strip: "length v \<le> length (strip_hex_prefix v) + 2"
  by (auto simp: strip_hex_prefix_def)

lemma length_strip_le: "length (strip_hex_prefix v) \<le> length v"
  by (simp add: strip_hex_prefix_def)

lemma base58_not_tail: "looksLikeBase58Address a \<Longrightarrow> rpc_tail a = None"
  using length_strip_le [of a] by (auto simp: looksLikeBase58Address_def rpc_tail_def Let_def)

lemma toRpcAddress_tail:
  "toRpcAddress a = Inr r \<longleftrightarrow> (\<exists>d. rpc_tail a = Some d \<and> r = ''0x'' @ lower d)"
proof (cases "a = [] \<or> looksLikeBase58Address a")
  case True
  then show ?thesis
    by (auto simp: toRpcAddress_def rpc_tail_def strip_hex_prefix_def Let_def
        dest: base58_not_tail)
next
  case False
  then show ?thesis
    by (auto simp: toRpcAddress_def rpc_tail_def Let_def)
qed

lemma rpc_tail_shape: "rpc_tail a = Some d \<Longrightarrow> is_hex_digits d \<and> length d = 40"
  by (auto simp: rpc_tail_def Let_def is_hex_digits_drop split: if_splits)

lemma toRpcAddress_form: "toRpcAddress a = Inr r \<Longrightarrow> rpc_form r"
  by (auto simp: toRpcAddress_tail dest!: rpc_tail_shape intro!: rpc_formI [simplified])

lemma rpc_form_tail:
  assumes "rpc_form r"
  shows "rpc_tail r = Some (drop 2 r)" and "r = ''0x'' @ drop 2 r" and "lower (drop 2 r) = drop 2 r"
proof -
  from assms obtain t where r: "r = ''0x'' @ t" by (auto simp: rpc_form_def prefix_def)
  then have t: "length t = 40" "is_hex_digits t" "lower t = t"
    using assms unfolding rpc_form_def r lower_0x by auto
  then show "rpc_tail r = Some (drop 2 r)" and "r = ''0x'' @ drop 2 r"
    and "lower (drop 2 r) = drop 2 r"
    using r by (simp_all add: rpc_tail_def hex_simps)
qed

lemma toRpcAddress_rpc_form: "rpc_form r \<Longrightarrow> toRpcAddress r = Inr r"
  by (subst toRpcAddress_tail) (metis rpc_form_tail)

lemma sameAddress_iff:
  "sameAddress a b \<longleftrightarrow>
     (\<exists>d. length d = 40 \<and> is_hex_digits d \<and>
          lower (strip_hex_prefix a) = d \<and> lower (strip_hex_prefix b) = d)"
  by (auto simp: sameAddress_def Let_def)

lemma sameAddress_rpc:
  assumes "length (strip_hex_prefix a) = 40" and "length (strip_hex_prefix b) = 40"
  shows "sameAddress a b \<longleftrightarrow> (\<exists>r. toRpcAddress a = Inr r \<and> toRpcAddress b = Inr r)"
  using assms
  by (auto simp: sameAddress_iff toRpcAddress_tail rpc_tail_def Let_def hex_simps)
    (metis is_hex_digits_lower_iff)+

section \<open>Properties\<close>

lemma lower_table_no_zero: "list_all (\<lambda>(c, d). d \<noteq> CHR ''0'') lower_table"
  by code_simp

lemma to_lower_zero: "to_lower (CHR ''0'') = CHR ''0''"
  by code_simp

lemma to_lower_zeroD: "to_lower c = CHR ''0'' \<Longrightarrow> c = CHR ''0''"
  using lower_table_no_zero unfolding list_all_iff
  by (auto simp: to_lower_def split: option.splits dest: map_of_SomeD)

lemma all_zeros_lower: "all_zeros (lower s) \<longleftrightarrow> all_zeros s"
  by (induction s) (auto simp: all_zeros_def hex_simps to_lower_zero dest: to_lower_zeroD)

text \<open>
  Decoding a storage word never truncates.  \<open>slotToAddress\<close> answers \<open>a\<close> exactly when
  \<open>a\<close> is a lowercase 20-byte address and the word, casing aside, is twelve zero bytes
  followed by that address; every other word is refused.
\<close>

theorem slotToAddress_exact:
  "slotToAddress w = Inr a \<longleftrightarrow>
     rpc_form a \<and> lower (strip_hex_prefix w) = replicate 24 (CHR ''0'') @ drop 2 a"
proof
  assume "slotToAddress w = Inr a"
  then show "rpc_form a \<and> lower (strip_hex_prefix w) = replicate 24 (CHR ''0'') @ drop 2 a"
    using slotToAddress_ok by blast
next
  assume r: "rpc_form a \<and> lower (strip_hex_prefix w) = replicate 24 (CHR ''0'') @ drop 2 a"
  let ?d = "strip_hex_prefix w"
  from r have tail: "length (drop 2 a) = 40" "is_hex_digits (drop 2 a)" "a = ''0x'' @ drop 2 a"
    using rpc_form_tail by (auto simp: rpc_form_def)
  have "is_hex_digits (lower ?d)" using r tail by (simp add: hex_simps)
  then have hex: "is_hex_digits ?d" by (rule is_hex_digits_lowerD)
  have "length (lower ?d) = 64" using r tail by simp
  then have len: "length ?d = 64" by (simp add: length_lower)
  have "lower (take 24 ?d) = replicate 24 (CHR ''0'')" using r by (simp add: lower_take)
  then have "all_zeros (lower (take 24 ?d))" by (simp add: hex_simps)
  then have pad: "all_zeros (take 24 ?d)" by (simp add: all_zeros_lower)
  have "lower (drop 24 ?d) = drop 2 a" using r by (simp add: lower_drop)
  with hex len pad tail(3) show "slotToAddress w = Inr a" by (simp add: slotToAddress_def)
qed

text \<open>
  An address has one request form.  The four spellings the node tolerates (with and
  without \<open>0x\<close>, with and without TRON's \<open>41\<close>) of the same 20 bytes all become the same
  lowercase \<open>0x\<close> string, and that string is a fixed point.
\<close>

theorem toRpcAddress_encodings:
  assumes "is_hex_digits d" and "length d = 40"
  shows "toRpcAddress d = Inr (''0x'' @ lower d) \<and>
    toRpcAddress (''0x'' @ d) = Inr (''0x'' @ lower d) \<and>
    toRpcAddress (''41'' @ d) = Inr (''0x'' @ lower d) \<and>
    toRpcAddress (''0x41'' @ d) = Inr (''0x'' @ lower d) \<and>
    toRpcAddress (''0x'' @ lower d) = Inr (''0x'' @ lower d)"
proof (intro conjI)
  have x41: "is_hex_digits (CHR ''4'' # CHR ''1'' # d)"
    using assms by (simp add: is_hex_digits_def is_hex_char_def)
  have l41: "lower ''41'' = ''41''" by code_simp
  note s = strip_hex_digits [OF assms(1)] strip_hex_digits [OF x41]
  show "toRpcAddress d = Inr (''0x'' @ lower d)"
    and "toRpcAddress (''0x'' @ d) = Inr (''0x'' @ lower d)"
    and "toRpcAddress (''41'' @ d) = Inr (''0x'' @ lower d)"
    and "toRpcAddress (''0x41'' @ d) = Inr (''0x'' @ lower d)"
    using assms s x41 l41 by (simp_all add: toRpcAddress_tail rpc_tail_def strip_0x)
  show "toRpcAddress (''0x'' @ lower d) = Inr (''0x'' @ lower d)"
    by (rule toRpcAddress_rpc_form) (rule rpc_formI [OF assms])
qed

theorem toRpcAddress_encodings_witness:
  "toRpcAddress (''41'' @ ''A614F803b6FD780986A42c78EC9C7f77e6DED13C'') =
     Inr (''0x'' @ ''a614f803b6fd780986a42c78ec9c7f77e6ded13c'')"
proof -
  have "is_hex_digits ''A614F803b6FD780986A42c78EC9C7f77e6DED13C''" by code_simp
  moreover have "length ''A614F803b6FD780986A42c78EC9C7f77e6DED13C'' = 40" by simp
  moreover have "lower ''A614F803b6FD780986A42c78EC9C7f77e6DED13C'' =
      ''a614f803b6fd780986a42c78ec9c7f77e6ded13c''" by code_simp
  ultimately show ?thesis
    using toRpcAddress_encodings [of "''A614F803b6FD780986A42c78EC9C7f77e6DED13C''"] by simp
qed

text \<open>
  The sanctioned comparison is sound.  \<open>sameAddress\<close> is symmetric and transitive, and
  two strings it equates are both 20-byte addresses with the same request form; in
  particular \<open>0x\<close> does not equal \<open>0x\<close>.
\<close>

theorem sameAddress_sound:
  assumes "sameAddress a b"
  shows "sameAddress b a \<and> sameAddress b c = sameAddress a c \<and>
    (\<exists>r. toRpcAddress a = Inr r \<and> toRpcAddress b = Inr r) \<and> \<not> sameAddress ''0x'' ''0x''"
proof (intro conjI)
  from assms obtain d where d: "length d = 40" "lower (strip_hex_prefix a) = d"
    "lower (strip_hex_prefix b) = d" by (auto simp: sameAddress_iff)
  then have len: "length (strip_hex_prefix a) = 40" "length (strip_hex_prefix b) = 40"
    by (metis length_lower)+
  show "sameAddress b a" and "sameAddress b c = sameAddress a c"
    using assms d by (auto simp: sameAddress_iff)
  show "\<exists>r. toRpcAddress a = Inr r \<and> toRpcAddress b = Inr r"
    using assms sameAddress_rpc [OF len] by blast
  show "\<not> sameAddress ''0x'' ''0x''"
    by (simp add: sameAddress_iff strip_hex_prefix_def lower_def)
qed

theorem sameAddress_sound_witness:
  "sameAddress ''a614f803b6fd780986a42c78ec9c7f77e6ded13c''
               ''0xA614F803B6FD780986A42C78EC9C7F77E6DED13C''"
proof -
  have "sameAddress ''0xA614F803B6FD780986A42C78EC9C7F77E6DED13C''
                    ''a614f803b6fd780986a42c78ec9c7f77e6ded13c''" by code_simp
  then show ?thesis using sameAddress_sound by blast
qed

end
