(* ===== verification/ChainRpc.thy ===== *)
theory ChainRpc
  imports ChainSlots
begin

text \<open>
  One JSON-RPC round trip, from the provider the readers and the engine call down to the
  HTTP post: \<open>chain/classify.ts\<close> (what a node error means), \<open>chain/policy.ts\<close>
  (which methods and block tags are refused, which results must have a shape),
  \<open>chain/transport.ts\<close> (the envelope) and \<open>chain/provider.ts\<close> (the composition).
  The HTTP post itself is code outside the repository: it is the parameter \<open>post\<close>, an
  \<open>io\<close> that resolves a body or rejects with a value.
\<close>

section \<open>Errors of the chain layer\<close>

text \<open>\<open>excerpt\<close> keeps a text of at most 200 units, else its head and its full length.\<close>

datatype excerpt = Whole string | Cut string nat

definition excerpt_of :: "string \<Rightarrow> excerpt" where
  "excerpt_of text = (if length text \<le> 200 then Whole text else Cut (take 200 text) (length text))"

datatype rejection_text = Quoted excerpt | NoMessage string

datatype inconsistency =
    BlockNotObject string string | BlockHashUnusable string | NoGenesisBlock
  | ChainIdNotGenesisTail string string

datatype envelope_fault =
    BodyNotObject string nat | ErrorNotWellFormed js nat | NeitherResultNorError js nat
  | Inconsistent inconsistency

datatype transport_failure =
    Unreachable rejection_text | HttpStatus jsnum | NonJsonBody excerpt
  | MalformedEnvelope envelope_fault | Timeout

record rpc_payload =
  pl_code :: jsnum
  pl_message :: string
  pl_data :: js

datatype tag_refusal =
    TagUnsupported string | TagHistoricalHeight string | TagUnknown string
  | TagNumeric js | TagBlockObject | TagWrongType string

datatype endpoint_origin = FromArgument | FromEnvironment | Derived

datatype endpoint_fault =
    NotAbsoluteUrl | UnsupportedScheme string | CheatcodePath | NoTransport

datatype handle_fault =
    HandleMissing string | HandleThrew string | HandleWrongType string

datatype chain_error =
    ChainSlots slots_error
  | ChainMethodRefused string
  | ChainBlockTagRefused string tag_refusal
  | ChainRpc string rpc_payload string
  | ChainTransport string transport_failure string
  | ChainResultShape string js
  | ChainImplementationNotFound string
  | ChainBeaconNotFound string
  | ChainEndpointRefused endpoint_origin endpoint_fault
  | EnvironmentIncomplete handle_fault

definition lift_slots :: "slots_error + 'a \<Rightarrow> chain_error + 'a" where
  "lift_slots r = (case r of Inl e \<Rightarrow> Inl (ChainSlots e) | Inr a \<Rightarrow> Inr a)"

section \<open>What a node error means\<close>

datatype tvm_diagnosis =
    NoContractAtAddress | Reverted "string option" | MethodUnsupported | ArgumentRejected
  | Unclassified

definition saysNoContract :: "string \<Rightarrow> bool" where
  "saysNoContract message =
     (let text = lower message
      in js_includes ''contract'' text \<and>
         (js_includes ''not exist'' text \<or> js_includes (''doesn'' @ [CHR 0x27] @ ''t exist'') text))"

definition saysReverted :: "string \<Rightarrow> bool" where
  "saysReverted message = js_includes ''revert'' (lower message)"

fun revertData :: "js \<Rightarrow> string option" where
  "revertData (JStr s) = (if prefix ''0x'' s then Some s else None)"
| "revertData _ = None"

definition classifyNodeError :: "rpc_payload \<Rightarrow> tvm_diagnosis" where
  "classifyNodeError e =
     (if pl_code e = NInt (-32600) then
        (if saysNoContract (pl_message e) then NoContractAtAddress else Unclassified)
      else if pl_code e = NInt (-32000) then
        (if \<not> saysReverted (pl_message e) then Unclassified
         else Reverted (revertData (pl_data e)))
      else if pl_code e = NInt (-32601) then MethodUnsupported
      else if pl_code e = NInt (-32602) then ArgumentRejected
      else Unclassified)"

fun isProbeOutcome :: "tvm_diagnosis \<Rightarrow> bool" where
  "isProbeOutcome NoContractAtAddress = True"
| "isProbeOutcome (Reverted _) = True"
| "isProbeOutcome MethodUnsupported = False"
| "isProbeOutcome ArgumentRejected = False"
| "isProbeOutcome Unclassified = False"

section \<open>Policy tables\<close>

definition refusedMethods :: "string list" where
  "refusedMethods = [''anvil_metadata'', ''hardhat_metadata'']"

definition requiredMethods :: "string list" where
  "requiredMethods =
     [''eth_chainId'', ''web3_clientVersion'', ''eth_getCode'', ''eth_getStorageAt'',
      ''eth_call'', ''eth_getTransactionByHash'', ''eth_getTransactionReceipt'',
      ''eth_getBlockByNumber'']"

datatype method_policy = Forward | Refuse

definition policyFor :: "string \<Rightarrow> method_policy" where
  "policyFor m = (if m \<in> set refusedMethods then Refuse else Forward)"

definition HEX_QUANTITY :: "string \<Rightarrow> bool" where
  "HEX_QUANTITY v \<longleftrightarrow>
     prefix ''0x'' v \<and> is_hex_digits (drop 2 v) \<and> 1 \<le> length (drop 2 v) \<and> length (drop 2 v) \<le> 64"

definition HEX_DATA :: "string \<Rightarrow> bool" where
  "HEX_DATA v \<longleftrightarrow> prefix ''0x'' v \<and> is_hex_digits (drop 2 v)"

definition hex_val :: "char \<Rightarrow> nat" where
  "hex_val c = (case map_of (zip ''0123456789abcdefABCDEF''
       [0, 1, 2, 3, 4, 5, 6, 7, 8, 9, 10, 11, 12, 13, 14, 15, 10, 11, 12, 13, 14, 15]) c of
     None \<Rightarrow> 0 | Some n \<Rightarrow> n)"

definition parse_hex :: "string \<Rightarrow> nat" where
  "parse_hex s = foldl (\<lambda>n c. 16 * n + hex_val c) 0 s"

lemma foldl_hex_pos:
  "0 < foldl (\<lambda>n c. 16 * n + hex_val c) k s \<longleftrightarrow> 0 < k \<or> list_ex (\<lambda>c. 0 < hex_val c) s"
  by (induction s arbitrary: k) auto

lemma parse_hex_pos [code_unfold]: "0 < parse_hex s \<longleftrightarrow> list_ex (\<lambda>c. 0 < hex_val c) s"
  by (simp add: parse_hex_def foldl_hex_pos)

text \<open>The rules of \<open>stringResultMethods\<close>; a method without a rule has none of its own.\<close>

definition string_rule :: "string \<Rightarrow> (string \<Rightarrow> bool) option" where
  "string_rule m =
     (if m = ''eth_chainId'' then Some (\<lambda>v. HEX_QUANTITY v \<and> 0 < parse_hex (drop 2 v))
      else if m = ''web3_clientVersion'' then Some (\<lambda>v. 0 < length v)
      else if m = ''eth_getStorageAt'' then Some HEX_DATA
      else if m = ''eth_getCode'' then Some HEX_DATA
      else if m = ''eth_call'' then Some HEX_DATA
      else None)"

definition requireResultShape :: "string \<Rightarrow> js \<Rightarrow> chain_error + string" where
  "requireResultShape m v =
     (case string_rule m of
        None \<Rightarrow> Inl (ChainResultShape m v)
      | Some accepts \<Rightarrow>
          (case v of JStr s \<Rightarrow> if accepts s then Inr s else Inl (ChainResultShape m v)
           | _ \<Rightarrow> Inl (ChainResultShape m v)))"

definition blockTagIndex :: "string \<Rightarrow> nat option" where
  "blockTagIndex m =
     (if m = ''eth_getStorageAt'' then Some 2
      else if m = ''eth_getCode'' then Some 1
      else if m = ''eth_call'' then Some 1 else None)"

abbreviation acceptedBlockTag :: string where "acceptedBlockTag \<equiv> ''latest''"

definition refusedBlockTags :: "string list" where
  "refusedBlockTags = [''pending'', ''earliest'', ''finalized'', ''safe'']"

text \<open>\<open>None\<close> accepts; \<open>Some r\<close> refuses for the reason \<open>r\<close>.\<close>

definition tag_verdict :: "js \<Rightarrow> tag_refusal option" where
  "tag_verdict tag =
     (case tag of
        JStr t \<Rightarrow>
          if t = acceptedBlockTag then None
          else if t \<in> set refusedBlockTags then Some (TagUnsupported t)
          else if HEX_QUANTITY t then Some (TagHistoricalHeight t)
          else Some (TagUnknown t)
      | JNum n \<Rightarrow> Some (TagNumeric tag)
      | JBig n \<Rightarrow> Some (TagNumeric tag)
      | JArr xs \<Rightarrow> Some TagBlockObject
      | JObj ps \<Rightarrow> Some TagBlockObject
      | _ \<Rightarrow> Some (TagWrongType (js_typeof tag)))"

definition blockTagVerdict :: "string \<Rightarrow> js list \<Rightarrow> tag_refusal option" where
  "blockTagVerdict m params =
     (case blockTagIndex m of
        None \<Rightarrow> None
      | Some i \<Rightarrow> if length params \<le> i then None else tag_verdict (params ! i))"

section \<open>The envelope\<close>

datatype rpc_outcome = Result js | NodeError rpc_payload | TransportFailure transport_failure

definition nullish :: "js \<Rightarrow> bool" where
  "nullish v \<longleftrightarrow> v = JUndef \<or> v = JNull"

definition peek :: "js \<Rightarrow> string \<Rightarrow> js" where
  "peek owner key = (if is_object_like owner then own_prop owner key else JUndef)"

fun nonempty_string :: "js \<Rightarrow> string option" where
  "nonempty_string (JStr s) = (if 0 < length s then Some s else None)"
| "nonempty_string _ = None"

definition renderRejection :: "js \<Rightarrow> rejection_text" where
  "renderRejection cause =
     (case nonempty_string (peek cause ''message'') of
        Some m \<Rightarrow> Quoted (excerpt_of m)
      | None \<Rightarrow>
          (case nonempty_string (peek cause ''code'') of
             Some c \<Rightarrow> Quoted (excerpt_of c)
           | None \<Rightarrow> NoMessage (js_typeof cause)))"

definition timeoutCodes :: "string list" where
  "timeoutCodes = [''ECONNABORTED'', ''ETIMEDOUT'', ''ERR_CANCELED'',
     ''UND_ERR_HEADERS_TIMEOUT'', ''UND_ERR_BODY_TIMEOUT'']"

definition classifyRejection :: "js \<Rightarrow> transport_failure" where
  "classifyRejection cause =
     (let nested = peek (peek cause ''response'') ''status'';
          status = (if nullish nested then peek cause ''status'' else nested)
      in case status of
           JNum n \<Rightarrow> HttpStatus n
         | _ \<Rightarrow> if peek cause ''code'' \<in> JStr ` set timeoutCodes then Timeout
                else Unreachable (renderRejection cause))"

definition validateEnvelope :: "js \<Rightarrow> nat \<Rightarrow> rpc_outcome" where
  "validateEnvelope body requestId =
     (case body of
        JStr s \<Rightarrow> TransportFailure (NonJsonBody (excerpt_of s))
      | _ \<Rightarrow>
        if \<not> is_object_like body
        then TransportFailure (MalformedEnvelope (BodyNotObject (js_typeof body) requestId))
        else
          (let observedId = own_prop body ''id''; error = own_prop body ''error''
           in if \<not> nullish error then
                (case (peek error ''code'', peek error ''message'') of
                   (JNum c, JStr m) \<Rightarrow>
                     NodeError \<lparr>pl_code = c, pl_message = m, pl_data = peek error ''data''\<rparr>
                 | _ \<Rightarrow> TransportFailure (MalformedEnvelope (ErrorNotWellFormed observedId requestId)))
              else if has_own body ''result'' then Result (own_prop body ''result'')
              else TransportFailure
                     (MalformedEnvelope (NeitherResultNorError observedId requestId))))"

text \<open>The channel's closure is one counter, kept on the instance beside the world.\<close>

record 'w chan =
  next_id :: nat
  world :: 'w

definition rpc_request :: "nat \<Rightarrow> string \<Rightarrow> js list \<Rightarrow> js" where
  "rpc_request i m params =
     JObj [(''jsonrpc'', JStr ''2.0''), (''id'', JNum (NInt (int i))), (''method'', JStr m),
           (''params'', JArr params)]"

definition channel_post ::
  "(js \<Rightarrow> ('w, js, js) io) \<Rightarrow> string \<Rightarrow> js list \<Rightarrow> 'w chan \<Rightarrow> rpc_outcome \<times> 'w chan" where
  "channel_post post m params s =
     (let i = next_id s
      in case post (rpc_request i m params) (world s) of
           (Inl cause, w) \<Rightarrow>
             (TransportFailure (classifyRejection cause), \<lparr>next_id = i + 1, world = w\<rparr>)
         | (Inr body, w) \<Rightarrow> (validateEnvelope body i, \<lparr>next_id = i + 1, world = w\<rparr>))"

definition provider_send ::
  "(js \<Rightarrow> ('w, js, js) io) \<Rightarrow> string \<Rightarrow> string \<Rightarrow> js list \<Rightarrow> ('w chan, chain_error, js) io" where
  "provider_send post endpoint m params s =
     (if policyFor m = Refuse then (Inl (ChainMethodRefused m), s)
      else case blockTagVerdict m params of
        Some because \<Rightarrow> (Inl (ChainBlockTagRefused m because), s)
      | None \<Rightarrow>
          (case channel_post post m params s of
             (Result r, s') \<Rightarrow>
               (if string_rule m = None then Inr r
                else map_sum id JStr (requireResultShape m r), s')
           | (NodeError e, s') \<Rightarrow> (Inl (ChainRpc m e endpoint), s')
           | (TransportFailure c, s') \<Rightarrow> (Inl (ChainTransport m c endpoint), s')))"

section \<open>The contract of a provider\<close>

text \<open>
  What the readers and the identity read rely on: the two refusals happen without a
  request, and a method with a declared result shape answers in that shape or not at all.
  \<open>metered_provider\<close> adds that a call costs at most one round trip.
\<close>

locale checked_provider =
  fixes send :: "string \<Rightarrow> js list \<Rightarrow> 's \<Rightarrow> (chain_error + js) \<times> 's"
  assumes refuses_method: "policyFor m = Refuse \<Longrightarrow> send m ps s = (Inl (ChainMethodRefused m), s)"
    and refuses_tag: "policyFor m = Forward \<Longrightarrow> blockTagVerdict m ps = Some r \<Longrightarrow>
      send m ps s = (Inl (ChainBlockTagRefused m r), s)"
    and answers_in_shape: "send m ps s = (Inr v, t) \<Longrightarrow> string_rule m = Some ok \<Longrightarrow>
      \<exists>x. v = JStr x \<and> ok x"
begin

lemma shape_check_transparent:
  assumes "send m ps s = (Inr v, t)" and "string_rule m = Some ok"
  shows "\<exists>x. v = JStr x \<and> requireResultShape m v = Inr x"
  using answers_in_shape [OF assms] assms(2) by (auto simp: requireResultShape_def)

end

locale metered_provider = checked_provider send
  for send :: "string \<Rightarrow> js list \<Rightarrow> 's \<Rightarrow> (chain_error + js) \<times> 's" +
  fixes requests :: "'s \<Rightarrow> nat"
  assumes one_request: "requests (snd (send m ps s)) \<le> Suc (requests s)"

section \<open>The channel and the provider keep it\<close>

lemma requireResultShape_ok:
  "requireResultShape m v = Inr x \<longleftrightarrow> (\<exists>ok. string_rule m = Some ok \<and> v = JStr x \<and> ok x)"
  by (auto simp: requireResultShape_def split: option.splits js.splits if_splits)

lemma requireResultShape_err: "requireResultShape m v = Inl e \<Longrightarrow> e = ChainResultShape m v"
  by (auto simp: requireResultShape_def split: option.splits js.splits if_splits)

lemma next_id_channel_post: "next_id (snd (channel_post post m params s)) = Suc (next_id s)"
  by (simp add: channel_post_def Let_def split: prod.split sum.split)

lemma provider_send_next_id:
  "next_id (snd (provider_send post ep m params s)) \<le> Suc (next_id s)"
  using next_id_channel_post [of post m params s]
  by (auto simp: provider_send_def split: prod.splits option.split rpc_outcome.splits)

lemma provider_send_result:
  assumes "provider_send post ep m params s = (Inr v, t)"
  shows "\<exists>body. post (rpc_request (next_id s) m params) (world s) = (Inr body, world t) \<and>
           validateEnvelope body (next_id s) = Result v \<and> next_id t = Suc (next_id s)"
  using assms
  by (auto simp: provider_send_def channel_post_def Let_def requireResultShape_ok
      split: prod.splits sum.splits option.splits rpc_outcome.splits if_splits)
     (auto simp: requireResultShape_def split: option.splits js.splits if_splits)

interpretation tron: metered_provider "provider_send post ep" next_id for post ep
proof unfold_locales
  show "provider_send post ep m ps s = (Inl (ChainMethodRefused m), s)"
    if "policyFor m = Refuse" for m ps s
    using that by (simp add: provider_send_def)
  show "provider_send post ep m ps s = (Inl (ChainBlockTagRefused m r), s)"
    if "policyFor m = Forward" "blockTagVerdict m ps = Some r" for m ps r s
    using that by (simp add: provider_send_def)
  show "\<exists>x. v = JStr x \<and> ok x"
    if "provider_send post ep m ps s = (Inr v, t)" "string_rule m = Some ok" for m ps s v t ok
    using that
    by (auto simp: provider_send_def requireResultShape_def
        split: prod.splits option.splits rpc_outcome.splits js.splits if_splits)
  show "next_id (snd (provider_send post ep m ps s)) \<le> Suc (next_id s)" for m ps s
    by (rule provider_send_next_id)
qed

lemma string_rules [simp]:
  "string_rule ''eth_getCode'' = Some HEX_DATA"
  "string_rule ''eth_getStorageAt'' = Some HEX_DATA"
  "string_rule ''eth_call'' = Some HEX_DATA"
  "string_rule ''eth_getBlockByNumber'' = None"
  by (simp_all add: string_rule_def)

section \<open>Properties\<close>

lemma validateEnvelope_not_object:
  "\<not> is_object_like body \<Longrightarrow> \<exists>f. validateEnvelope body n = TransportFailure f"
  by (cases body) (simp_all add: validateEnvelope_def)

lemma validateEnvelope_object:
  "is_object_like body \<Longrightarrow> validateEnvelope body n =
     (if \<not> nullish (own_prop body ''error'') then
        (case (peek (own_prop body ''error'') ''code'', peek (own_prop body ''error'') ''message'') of
           (JNum c, JStr m) \<Rightarrow>
             NodeError \<lparr>pl_code = c, pl_message = m, pl_data = peek (own_prop body ''error'') ''data''\<rparr>
         | _ \<Rightarrow> TransportFailure
                  (MalformedEnvelope (ErrorNotWellFormed (own_prop body ''id'') n)))
      else if has_own body ''result'' then Result (own_prop body ''result'')
      else TransportFailure (MalformedEnvelope (NeitherResultNorError (own_prop body ''id'') n)))"
  by (cases body)
    (simp_all only: validateEnvelope_def Let_def is_object_like.simps js.case simp_thms
      if_False if_True)

lemma code_message_cases:
  "(case x of JNum c \<Rightarrow> (case y of JStr m \<Rightarrow> f c m | _ \<Rightarrow> g) | _ \<Rightarrow> g) =
     (if \<exists>c m. x = JNum c \<and> y = JStr m then f (THE c. x = JNum c) (THE m. y = JStr m) else g)"
  by (cases x; cases y) simp_all

lemma validateEnvelope_Result:
  "validateEnvelope body n = Result v \<longleftrightarrow>
     is_object_like body \<and> nullish (own_prop body ''error'') \<and> has_own body ''result'' \<and>
     v = own_prop body ''result''"
proof (cases "is_object_like body")
  case True
  then show ?thesis by (auto simp: validateEnvelope_object code_message_cases)
next
  case False
  then show ?thesis using validateEnvelope_not_object [of body n] by auto
qed

lemma validateEnvelope_NodeError:
  "validateEnvelope body n = NodeError e \<longleftrightarrow>
     is_object_like body \<and> \<not> nullish (own_prop body ''error'') \<and>
     peek (own_prop body ''error'') ''code'' = JNum (pl_code e) \<and>
     peek (own_prop body ''error'') ''message'' = JStr (pl_message e) \<and>
     pl_data e = peek (own_prop body ''error'') ''data''"
proof (cases "is_object_like body")
  case True
  then show ?thesis
    by (cases e) (auto simp: validateEnvelope_object code_message_cases)
next
  case False
  then show ?thesis using validateEnvelope_not_object [of body n] by auto
qed

text \<open>
  The response id is a diagnostic and never a discriminator.  Whatever \<open>id\<close> a reply
  carries (java-tron answers some errors with the string \<open>null\<close>), and whatever id was
  asked for, the same reply is classified as the same result or the same node error.
\<close>

theorem envelope_id_no_discriminator:
  "(validateEnvelope (JObj ((''id'', x) # ps)) n = Result v) =
     (validateEnvelope (JObj ps) k = Result v) \<and>
   (validateEnvelope (JObj ((''id'', x) # ps)) n = NodeError e) =
     (validateEnvelope (JObj ps) k = NodeError e)"
  unfolding validateEnvelope_Result validateEnvelope_NodeError by simp

lemma peek_well_formed: "peek x k = JNum c \<Longrightarrow> \<not> nullish x"
  by (auto simp: peek_def nullish_def)

lemma envelope_result_iff:
  "(\<exists>v. validateEnvelope body n = Result v) =
     (is_object_like body \<and> nullish (own_prop body ''error'') \<and> has_own body ''result'')"
  unfolding validateEnvelope_Result by blast

lemma envelope_node_error_iff:
  "(\<exists>e. validateEnvelope body n = NodeError e) =
     (is_object_like body \<and>
      (\<exists>c m. peek (own_prop body ''error'') ''code'' = JNum c \<and>
             peek (own_prop body ''error'') ''message'' = JStr m))"
proof
  assume "\<exists>e. validateEnvelope body n = NodeError e"
  then show "is_object_like body \<and>
      (\<exists>c m. peek (own_prop body ''error'') ''code'' = JNum c \<and>
             peek (own_prop body ''error'') ''message'' = JStr m)"
    unfolding validateEnvelope_NodeError by blast
next
  assume r: "is_object_like body \<and>
      (\<exists>c m. peek (own_prop body ''error'') ''code'' = JNum c \<and>
             peek (own_prop body ''error'') ''message'' = JStr m)"
  then obtain c m where "peek (own_prop body ''error'') ''code'' = JNum c"
    and "peek (own_prop body ''error'') ''message'' = JStr m" by blast
  then have "validateEnvelope body n =
      NodeError \<lparr>pl_code = c, pl_message = m, pl_data = peek (own_prop body ''error'') ''data''\<rparr>"
    unfolding validateEnvelope_NodeError using r by (simp add: peek_well_formed)
  then show "\<exists>e. validateEnvelope body n = NodeError e" by blast
qed

lemma envelope_transport_iff:
  "(\<exists>f. validateEnvelope body n = TransportFailure f) =
     (\<not> (\<exists>v. validateEnvelope body n = Result v) \<and> \<not> (\<exists>e. validateEnvelope body n = NodeError e))"
  by (cases "validateEnvelope body n") simp_all

text \<open>
  No reply is both a result and an error.  A result is reported exactly for a reply
  whose \<open>error\<close> is absent or null and which has a \<open>result\<close> key (a null result is a
  result), a node error exactly for a well-formed \<open>error\<close>, and every other body,
  a text page included, is a transport failure.
\<close>

theorem envelope_trichotomy:
  "(\<exists>v. validateEnvelope body n = Result v) =
     (is_object_like body \<and> nullish (own_prop body ''error'') \<and> has_own body ''result'') \<and>
   (\<exists>e. validateEnvelope body n = NodeError e) =
     (is_object_like body \<and>
      (\<exists>c m. peek (own_prop body ''error'') ''code'' = JNum c \<and>
             peek (own_prop body ''error'') ''message'' = JStr m)) \<and>
   (\<exists>f. validateEnvelope body n = TransportFailure f) =
     (if is_object_like body then
        (if nullish (own_prop body ''error'') then \<not> has_own body ''result''
         else \<nexists>c m. peek (own_prop body ''error'') ''code'' = JNum c \<and>
                    peek (own_prop body ''error'') ''message'' = JStr m)
      else True)"
  unfolding envelope_transport_iff envelope_result_iff envelope_node_error_iff
  using peek_well_formed [of "own_prop body ''error''" "''code''"] by simp blast

text \<open>
  A refused request never reaches the node.  For the two dev-instance probes, and for a
  state method asked about anything but the latest block, \<open>send\<close> fails with the named
  refusal and the channel (request counter and world) is untouched.
\<close>

theorem provider_refusal_sends_nothing:
  "(policyFor m = Refuse) =
     (provider_send post ep m ps s = (Inl (ChainMethodRefused m), s) \<and> m \<in> set refusedMethods) \<and>
   (policyFor m = Forward \<and> blockTagVerdict m ps = Some r) =
     (provider_send post ep m ps s = (Inl (ChainBlockTagRefused m r), s) \<and>
      blockTagVerdict m ps = Some r)"
proof (intro conjI)
  show "(policyFor m = Refuse) =
     (provider_send post ep m ps s = (Inl (ChainMethodRefused m), s) \<and> m \<in> set refusedMethods)"
    by (auto simp: provider_send_def policyFor_def)
  show "(policyFor m = Forward \<and> blockTagVerdict m ps = Some r) =
     (provider_send post ep m ps s = (Inl (ChainBlockTagRefused m r), s) \<and>
      blockTagVerdict m ps = Some r)"
    by (cases "policyFor m") (auto simp: provider_send_def)
qed

lemma tag_verdict_None: "tag_verdict t = None \<Longrightarrow> t = JStr ''latest''"
  by (cases t) (simp_all add: tag_verdict_def split: if_splits)

text \<open>
  What reaches the wire is present state only.  If a call of a state method with a block
  parameter moved the request counter, that parameter was the string \<open>latest\<close>.
\<close>

theorem only_latest_reaches_the_node:
  assumes "next_id (snd (provider_send post ep m ps s)) \<noteq> next_id s"
    and "blockTagIndex m = Some i" and "i < length ps"
  shows "ps ! i = JStr ''latest''"
proof -
  have "blockTagVerdict m ps = None"
  proof (rule ccontr)
    assume "blockTagVerdict m ps \<noteq> None"
    then obtain r where "blockTagVerdict m ps = Some r" by blast
    then have "snd (provider_send post ep m ps s) = s" by (simp add: provider_send_def)
    with assms(1) show False by simp
  qed
  then have "tag_verdict (ps ! i) = None" using assms by (simp add: blockTagVerdict_def)
  then show ?thesis by (rule tag_verdict_None)
qed

theorem only_latest_reaches_the_node_witness:
  "[JStr ''0x00'', JStr ''latest''] ! 1 = JStr ''latest''"
proof (rule only_latest_reaches_the_node
    [of "\<lambda>q w. (Inr (JObj [(''result'', JStr ''0x'')]), w)" "''http://n''" "''eth_getCode''"
        "[JStr ''0x00'', JStr ''latest'']" "\<lparr>next_id = 1, world = ()\<rparr>" 1])
  show "next_id (snd (provider_send (\<lambda>q w. (Inr (JObj [(''result'', JStr ''0x'')]), w)) ''http://n''
      ''eth_getCode'' [JStr ''0x00'', JStr ''latest''] \<lparr>next_id = 1, world = ()\<rparr>))
      \<noteq> next_id \<lparr>next_id = 1, world = ()\<rparr>"
    by code_simp
qed (simp_all add: blockTagIndex_def)

text \<open>
  An unreadable answer is never handed on as a value.  A call that succeeds made exactly
  one request, whose body is a well-formed result, and for a method with a declared shape the
  value is a string of that shape.
\<close>

theorem provider_answers_are_results:
  assumes "provider_send post ep m ps s = (Inr v, t)"
  shows "(\<exists>body. post (rpc_request (next_id s) m ps) (world s) = (Inr body, world t) \<and>
            validateEnvelope body (next_id s) = Result v) \<and>
         next_id t = Suc (next_id s) \<and>
         (\<forall>ok. string_rule m = Some ok \<longrightarrow> (\<exists>x. v = JStr x \<and> ok x))"
  using provider_send_result [OF assms] tron.answers_in_shape [OF assms] by blast

theorem provider_answers_are_results_witness:
  "\<exists>body. (Inr body, ()) = ((Inr (JObj [(''result'', JStr ''TRE/1.0'')]), ()) :: (js + js) \<times> unit) \<and>
     validateEnvelope body 7 = Result (JStr ''TRE/1.0'')"
proof -
  let ?post = "\<lambda>q w. (Inr (JObj [(''result'', JStr ''TRE/1.0'')]), w) :: (js + js) \<times> unit"
  have ok: "provider_send ?post ''http://n'' ''web3_clientVersion'' [] \<lparr>next_id = 7, world = ()\<rparr> =
      (Inr (JStr ''TRE/1.0''), \<lparr>next_id = 8, world = ()\<rparr>)"
    by code_simp
  show ?thesis using conjunct1 [OF provider_answers_are_results [OF ok]] by simp
qed


end
