(* ===== verification/ChainRead.thy ===== *)
theory ChainRead
  imports ChainRpc
begin

text \<open>
  \<open>chain/read.ts\<close>: the readers.  As in the source every reader takes the provider as its
  first argument; here that is any \<open>send\<close> of type
  \<open>string \<Rightarrow> js list \<Rightarrow> ('s, chain_error, js) io\<close>, and \<open>checked_provider\<close> is the
  contract the readers rely on.  A string decoded from UTF-8 is a list of code points.
\<close>

section \<open>The raw reads\<close>

type_synonym 's provider = "string \<Rightarrow> js list \<Rightarrow> ('s, chain_error, js) io"

definition isEmptyCode :: "string \<Rightarrow> bool" where
  "isEmptyCode code = ((if prefix ''0x'' code then drop 2 code else code) = [])"

definition shaped :: "string \<Rightarrow> ('s, chain_error, js) io \<Rightarrow> ('s, chain_error, string) io" where
  "shaped m io = bind_io io (\<lambda>v. lift_io (requireResultShape m v))"

definition rpc_address :: "string \<Rightarrow> ('s, chain_error, string) io" where
  "rpc_address a = lift_io (lift_slots (toRpcAddress a))"

definition getCode :: "'s provider \<Rightarrow> string \<Rightarrow> ('s, chain_error, string) io" where
  "getCode send address =
     bind_io (rpc_address address) (\<lambda>a.
       shaped ''eth_getCode'' (send ''eth_getCode'' [JStr a, JStr acceptedBlockTag]))"

definition getStorageAt :: "'s provider \<Rightarrow> string \<Rightarrow> string \<Rightarrow> ('s, chain_error, string) io" where
  "getStorageAt send address slot =
     bind_io (rpc_address address) (\<lambda>a.
       shaped ''eth_getStorageAt''
         (send ''eth_getStorageAt'' [JStr a, JStr slot, JStr acceptedBlockTag]))"

text \<open>The loop of \<open>readSlotWithFallback\<close>: the last word read, and whether it was empty.\<close>

fun slot_loop ::
  "'s provider \<Rightarrow> string \<Rightarrow> string \<Rightarrow> string list \<Rightarrow> ('s, chain_error, string \<times> bool) io" where
  "slot_loop send address word [] = return_io (word, True)"
| "slot_loop send address word (slot # slots) =
     bind_io (getStorageAt send address slot) (\<lambda>w.
       if \<not> isEmptySlotWord w then return_io (w, False)
       else slot_loop send address w slots)"

definition readSlotWithFallback ::
  "'s provider \<Rightarrow> string \<Rightarrow> string list \<Rightarrow> ('s, chain_error, string \<times> bool) io" where
  "readSlotWithFallback send address slots = slot_loop send address [] slots"

definition slotsFor :: "slot_label \<Rightarrow> string list" where
  "slotsFor label =
     (case legacyEip1967Slots label of
        None \<Rightarrow> [eip1967Slots label]
      | Some legacy \<Rightarrow> [eip1967Slots label, legacy])"

definition hasCode :: "'s provider \<Rightarrow> string \<Rightarrow> ('s, chain_error, bool) io" where
  "hasCode send address = bind_io (getCode send address) (\<lambda>c. return_io (\<not> isEmptyCode c))"

definition slot_address :: "string \<Rightarrow> ('s, chain_error, string) io" where
  "slot_address word = lift_io (lift_slots (slotToAddress word))"

definition readImplementationAddress :: "'s provider \<Rightarrow> string \<Rightarrow> ('s, chain_error, string) io" where
  "readImplementationAddress send proxy =
     bind_io (readSlotWithFallback send proxy (slotsFor Implementation)) (\<lambda>(word, empty).
       if empty
       then bind_io (rpc_address proxy) (\<lambda>a. throw_io (ChainImplementationNotFound a))
       else slot_address word)"

definition readAdminAddress :: "'s provider \<Rightarrow> string \<Rightarrow> ('s, chain_error, string) io" where
  "readAdminAddress send proxy =
     bind_io (readSlotWithFallback send proxy (slotsFor Admin)) (\<lambda>(word, empty).
       if empty then return_io zeroChainAddress else slot_address word)"

definition readBeaconAddress :: "'s provider \<Rightarrow> string \<Rightarrow> ('s, chain_error, string) io" where
  "readBeaconAddress send proxy =
     bind_io (readSlotWithFallback send proxy (slotsFor Beacon)) (\<lambda>(word, empty).
       if empty
       then bind_io (rpc_address proxy) (\<lambda>a. throw_io (ChainBeaconNotFound a))
       else slot_address word)"

section \<open>Several slots at once\<close>

datatype proxy_slots =
    NoCode
  | Code "string option" "string option" "string option"

text \<open>\<open>[...new Set(slots)]\<close> keeps first occurrences in order.\<close>

definition js_dedupe :: "'a list \<Rightarrow> 'a list" where
  "js_dedupe xs = rev (remdups (rev xs))"

fun slots_loop ::
  "'s provider \<Rightarrow> string \<Rightarrow> (slot_label \<Rightarrow> string option) \<Rightarrow> slot_label list \<Rightarrow>
   ('s, chain_error, slot_label \<Rightarrow> string option) io" where
  "slots_loop send address found [] = return_io found"
| "slots_loop send address found (label # labels) =
     bind_io (readSlotWithFallback send address (slotsFor label)) (\<lambda>(word, empty).
       if empty then slots_loop send address (found(label := None)) labels
       else bind_io (slot_address word) (\<lambda>a.
              slots_loop send address (found(label := Some a)) labels))"

definition readProxySlots ::
  "'s provider \<Rightarrow> string \<Rightarrow> slot_label list \<Rightarrow> ('s, chain_error, proxy_slots) io" where
  "readProxySlots send address slots =
     bind_io (getCode send address) (\<lambda>code.
       if isEmptyCode code then return_io NoCode
       else bind_io (slots_loop send address (\<lambda>_. None) (js_dedupe slots)) (\<lambda>found.
              return_io (Code (found Implementation) (found Admin) (found Beacon))))"

section \<open>Optional calls\<close>

datatype no_answer = CallReverted | CallNoContract
datatype call_outcome = Answered string | NoAnswer no_answer

definition probeReason :: "tvm_diagnosis \<Rightarrow> no_answer" where
  "probeReason d = (case d of Reverted _ \<Rightarrow> CallReverted | _ \<Rightarrow> CallNoContract)"

definition call_params :: "string \<Rightarrow> string \<Rightarrow> js list" where
  "call_params r selector =
     [JObj [(''to'', JStr r), (''data'', JStr selector)], JStr acceptedBlockTag]"

definition tvmCallOptional ::
  "'s provider \<Rightarrow> string \<Rightarrow> string \<Rightarrow> ('s, chain_error, call_outcome) io" where
  "tvmCallOptional send address selector =
     catch_io
       (bind_io (rpc_address address) (\<lambda>a.
          bind_io
            (shaped ''eth_call''
              (send ''eth_call'' (call_params a selector)))
            (\<lambda>d. return_io (Answered d))))
       (\<lambda>cause.
          case cause of
            ChainRpc m payload endpoint \<Rightarrow>
              if isProbeOutcome (classifyNodeError payload)
              then return_io (NoAnswer (probeReason (classifyNodeError payload)))
              else throw_io cause
          | _ \<Rightarrow> throw_io cause)"

section \<open>ABI strings\<close>

fun hex_bytes :: "string \<Rightarrow> nat list" where
  "hex_bytes (a # b # s) = (16 * hex_val a + hex_val b) # hex_bytes s"
| "hex_bytes _ = []"

definition utf8_cont :: "nat \<Rightarrow> bool" where
  "utf8_cont b \<longleftrightarrow> 128 \<le> b \<and> b \<le> 191"

text \<open>The octet sequences \<open>decodeURIComponent\<close> accepts, and what they decode to.\<close>

fun utf8_decode :: "nat list \<Rightarrow> nat list option" where
  "utf8_decode [] = Some []"
| "utf8_decode (b # bs) =
     (if b < 128 then map_option (Cons b) (utf8_decode bs)
      else if 194 \<le> b \<and> b \<le> 223 then
        (case bs of
           c1 # r \<Rightarrow>
             if utf8_cont c1
             then map_option (Cons ((b - 192) * 64 + (c1 - 128))) (utf8_decode r) else None
         | _ \<Rightarrow> None)
      else if 224 \<le> b \<and> b \<le> 239 then
        (case bs of
           c1 # c2 # r \<Rightarrow>
             (let cp = (b - 224) * 4096 + (c1 - 128) * 64 + (c2 - 128)
              in if utf8_cont c1 \<and> utf8_cont c2 \<and> 2048 \<le> cp \<and> \<not> (55296 \<le> cp \<and> cp \<le> 57343)
                 then map_option (Cons cp) (utf8_decode r) else None)
         | _ \<Rightarrow> None)
      else if 240 \<le> b \<and> b \<le> 244 then
        (case bs of
           c1 # c2 # c3 # r \<Rightarrow>
             (let cp = (b - 240) * 262144 + (c1 - 128) * 4096 + (c2 - 128) * 64 + (c3 - 128)
              in if utf8_cont c1 \<and> utf8_cont c2 \<and> utf8_cont c3 \<and> 65536 \<le> cp \<and> cp \<le> 1114111
                 then map_option (Cons cp) (utf8_decode r) else None)
         | _ \<Rightarrow> None)
      else None)"

definition decodeAbiString :: "string \<Rightarrow> nat list option" where
  "decodeAbiString data =
     (let hex = (if prefix ''0x'' data then drop 2 data else data)
      in if length hex < 128 then None
         else if parse_hex (take 64 hex) \<noteq> 32 then None
         else let len = parse_hex (take 64 (drop 64 hex));
                  bytes = take (len * 2) (drop 128 hex)
              in if odd (length bytes) then None else utf8_decode (hex_bytes bytes))"

definition readUpgradeInterfaceVersion ::
  "'s provider \<Rightarrow> string \<Rightarrow> ('s, chain_error, nat list option) io" where
  "readUpgradeInterfaceVersion send address =
     bind_io (tvmCallOptional send address sel_upgradeInterfaceVersion) (\<lambda>out.
       case out of Answered d \<Rightarrow> return_io (decodeAbiString d) | NoAnswer _ \<Rightarrow> return_io None)"

definition looksLikeProxyAdmin :: "'s provider \<Rightarrow> string \<Rightarrow> ('s, chain_error, bool) io" where
  "looksLikeProxyAdmin send address =
     bind_io (tvmCallOptional send address sel_owner) (\<lambda>out.
       case out of
         Answered d \<Rightarrow> return_io (looksLikeSlotAddressWord d)
       | NoAnswer _ \<Rightarrow> return_io False)"

datatype not_a_beacon = CallDidNotAnswer | AnswerIsNotAnAddress
datatype beacon_read = BeaconImplementation string | NoCodeAtBeacon | NotABeacon not_a_beacon

definition readBeaconImplementation ::
  "'s provider \<Rightarrow> string \<Rightarrow> ('s, chain_error, beacon_read) io" where
  "readBeaconImplementation send beacon =
     bind_io (hasCode send beacon) (\<lambda>code.
       if \<not> code then return_io NoCodeAtBeacon
       else bind_io (tvmCallOptional send beacon sel_implementation) (\<lambda>out.
         case out of
           NoAnswer _ \<Rightarrow> return_io (NotABeacon CallDidNotAnswer)
         | Answered d \<Rightarrow>
             if \<not> looksLikeSlotAddressWord d then return_io (NotABeacon AnswerIsNotAnAddress)
             else bind_io (slot_address d) (\<lambda>a. return_io (BeaconImplementation a))))"

section \<open>Facts about the readers, from the contract of the provider\<close>

lemma rpc_address_run: "rpc_address a s = (lift_slots (toRpcAddress a), s)"
  by (simp add: rpc_address_def)

lemma slot_loop_empty:
  assumes "slot_loop send address w0 slots s = (Inr (word, True), t)" and "slots \<noteq> []"
  shows "isEmptySlotWord word"
  using assms
proof (induction slots arbitrary: w0 s)
  case Nil
  then show ?case by simp
next
  case (Cons slot slots)
  from Cons.prems(1) obtain w s' where w: "getStorageAt send address slot s = (Inr w, s')"
    and rest: "(if \<not> isEmptySlotWord w then return_io (w, False)
                else slot_loop send address w slots) s' = (Inr (word, True), t)"
    by (auto elim: bind_io_InrE)
  show ?case
  proof (cases "isEmptySlotWord w")
    case True
    with rest Cons.IH show ?thesis by (cases "slots = []") auto
  next
    case False
    with rest show ?thesis by simp
  qed
qed

lemma slot_loop_found:
  assumes "slot_loop send address w0 slots s = (Inr (word, False), t)"
  shows "\<not> isEmptySlotWord word"
  using assms
proof (induction slots arbitrary: w0 s)
  case Nil
  then show ?case by simp
next
  case (Cons slot slots)
  then show ?case by (auto elim!: bind_io_InrE split: if_splits)
qed

context checked_provider
begin

lemma shaped_ok:
  assumes "string_rule m = Some ok"
  shows "shaped m (send m ps) s = (Inr x, t) \<longleftrightarrow> send m ps s = (Inr (JStr x), t)"
proof
  assume "shaped m (send m ps) s = (Inr x, t)"
  then obtain v where v: "send m ps s = (Inr v, t)" and x: "requireResultShape m v = Inr x"
    unfolding shaped_def by (auto elim!: bind_io_InrE)
  from x have "v = JStr x" by (auto simp: requireResultShape_ok)
  with v show "send m ps s = (Inr (JStr x), t)" by simp
next
  assume v: "send m ps s = (Inr (JStr x), t)"
  from shape_check_transparent [OF v assms] show "shaped m (send m ps) s = (Inr x, t)"
    using v by (auto simp: shaped_def bind_io_def)
qed

lemma shaped_err:
  assumes "string_rule m = Some ok"
  shows "shaped m (send m ps) s = (Inl e, t) \<longleftrightarrow> send m ps s = (Inl e, t)"
proof
  assume a: "shaped m (send m ps) s = (Inl e, t)"
  show "send m ps s = (Inl e, t)"
    using a unfolding shaped_def
  proof (cases rule: bind_io_InlE)
    case 1
    then show ?thesis .
  next
    case (2 v s')
    with shape_check_transparent [OF 2(1) assms] show ?thesis by auto
  qed
qed (simp add: shaped_def io_run)

lemma getCode_ok:
  "getCode send a s = (Inr c, t) \<longleftrightarrow>
     (\<exists>r. toRpcAddress a = Inr r \<and>
          send ''eth_getCode'' [JStr r, JStr acceptedBlockTag] s = (Inr (JStr c), t))"
  by (cases "toRpcAddress a")
     (auto simp: getCode_def bind_io_def [of "rpc_address a"] rpc_address_run lift_slots_def
       shaped_ok)

lemma getCode_shape: "getCode send a s = (Inr c, t) \<Longrightarrow> HEX_DATA c"
  using answers_in_shape [of "''eth_getCode''"] by (fastforce simp: getCode_ok)

lemma hasCode_ok:
  "hasCode send a s = (Inr b, t) \<longleftrightarrow> (\<exists>c. getCode send a s = (Inr c, t) \<and> b = (\<not> isEmptyCode c))"
  by (auto simp: hasCode_def bind_io_ok elim!: bind_io_InrE)

lemma isEmptyCode_0x: "HEX_DATA c \<Longrightarrow> isEmptyCode c \<longleftrightarrow> c = ''0x''"
  by (auto simp: isEmptyCode_def HEX_DATA_def prefix_def)

lemma call_raw:
  "bind_io (rpc_address a) (\<lambda>r. bind_io (shaped ''eth_call'' (send ''eth_call'' (ps r)))
      (\<lambda>d. return_io (Answered d))) s =
   (case toRpcAddress a of
      Inl e \<Rightarrow> (Inl (ChainSlots e), s)
    | Inr r \<Rightarrow> map_prod (map_sum id (\<lambda>v. Answered (case v of JStr d \<Rightarrow> d | _ \<Rightarrow> []))) id
                 (send ''eth_call'' (ps r) s))"
proof (cases "toRpcAddress a")
  case (Inl e)
  then show ?thesis by (simp add: bind_io_def rpc_address_run lift_slots_def)
next
  case (Inr r)
  obtain res t where res: "send ''eth_call'' (ps r) s = (res, t)" by force
  show ?thesis
  proof (cases res)
    case (Inl e)
    then show ?thesis
      using Inr res shaped_err [of "''eth_call''" _ "ps r" s e t]
      by (simp add: bind_io_def [of "rpc_address a"] rpc_address_run lift_slots_def bind_io_err)
  next
    case (Inr v)
    from answers_in_shape [of "''eth_call''" "ps r"] obtain x where "v = JStr x"
      using res Inr by fastforce
    then show ?thesis
      using \<open>toRpcAddress a = Inr r\<close> res Inr shaped_ok [of "''eth_call''" _ "ps r" s x t]
      by (simp add: bind_io_def [of "rpc_address a"] rpc_address_run lift_slots_def bind_io_ok)
  qed
qed

lemma tvmCallOptional_raises:
  assumes "toRpcAddress a = Inr r" and "send ''eth_call'' (call_params r selector) s = (Inl e, t)"
  shows "tvmCallOptional send a selector s =
     (case e of
        ChainRpc m p ep \<Rightarrow>
          if isProbeOutcome (classifyNodeError p)
          then (Inr (NoAnswer (probeReason (classifyNodeError p))), t) else (Inl e, t)
      | _ \<Rightarrow> (Inl e, t))"
  using assms
  by (simp add: tvmCallOptional_def catch_io_def call_raw split: chain_error.split)

lemma tvmCallOptional_answers:
  assumes "toRpcAddress a = Inr r"
    and "send ''eth_call'' (call_params r selector) s = (Inr (JStr d), t)"
  shows "tvmCallOptional send a selector s = (Inr (Answered d), t)"
  using assms by (simp add: tvmCallOptional_def catch_io_def call_raw)

lemma tvmCallOptional_bad_address:
  "toRpcAddress a = Inl e \<Longrightarrow> tvmCallOptional send a selector s = (Inl (ChainSlots e), s)"
  by (simp add: tvmCallOptional_def catch_io_def call_raw)

lemma tvmCallOptional_no_answer:
  "tvmCallOptional send a selector s = (Inr (NoAnswer why), t) \<longleftrightarrow>
     (\<exists>r m p ep. toRpcAddress a = Inr r \<and>
        send ''eth_call'' (call_params r selector) s = (Inl (ChainRpc m p ep), t) \<and>
        isProbeOutcome (classifyNodeError p) \<and> why = probeReason (classifyNodeError p))"
proof (cases "toRpcAddress a")
  case (Inl e)
  then show ?thesis by (simp add: tvmCallOptional_bad_address)
next
  case (Inr r)
  obtain res u where res: "send ''eth_call'' (call_params r selector) s = (res, u)" by force
  show ?thesis
  proof (cases res)
    case (Inl e)
    then show ?thesis using Inr res
      by (auto simp: tvmCallOptional_raises split: chain_error.split)
  next
    case (Inr v)
    from answers_in_shape [of "''eth_call''" "call_params r selector"] obtain d where "v = JStr d"
      using res Inr by fastforce
    then show ?thesis using \<open>toRpcAddress a = Inr r\<close> Inr res
      by (simp add: tvmCallOptional_answers)
  qed
qed

end

section \<open>Budgets\<close>

context metered_provider
begin

lemma costs_send [cost_intros]: "costs requests 1 (send m ps)"
  using one_request by (simp add: costs_def)

lemma costs_shaped: "costs requests 1 (shaped m (send m ps))"
  unfolding shaped_def by (rule costs_mono, (rule cost_intros)+) simp

lemma costs_getCode: "costs requests 1 (getCode send a)"
  unfolding getCode_def rpc_address_def
  by (rule costs_mono, (rule cost_intros costs_shaped)+) simp

lemma costs_getStorageAt: "costs requests 1 (getStorageAt send a slot)"
  unfolding getStorageAt_def rpc_address_def
  by (rule costs_mono, (rule cost_intros costs_shaped)+) simp

lemma costs_slot_loop: "costs requests (length slots) (slot_loop send a w slots)"
proof (induction slots arbitrary: w)
  case Nil
  then show ?case by (simp add: cost_intros)
next
  case (Cons slot slots)
  have "costs requests (1 + length slots) (slot_loop send a w (slot # slots))"
    unfolding slot_loop.simps
    by (intro costs_bind costs_getStorageAt)
       (auto intro: Cons.IH costs_mono [OF costs_free(1)])
  then show ?case by simp
qed

lemma costs_fallback: "costs requests (length (slotsFor l)) (readSlotWithFallback send a (slotsFor l))"
  unfolding readSlotWithFallback_def by (rule costs_slot_loop)

lemma costs_slots_loop:
  "costs requests (sum_list (map (\<lambda>l. length (slotsFor l)) labels)) (slots_loop send a found labels)"
proof (induction labels arbitrary: found)
  case Nil
  then show ?case by (simp add: cost_intros)
next
  case (Cons l labels)
  let ?n = "sum_list (map (\<lambda>l. length (slotsFor l)) labels)"
  have "costs requests (0 + ?n) (bind_io (slot_address w)
          (\<lambda>a'. slots_loop send a (found(l := Some a')) labels))" for w
    unfolding slot_address_def by (intro costs_bind cost_intros Cons.IH)
  then have "costs requests (length (slotsFor l) + ?n) (slots_loop send a found (l # labels))"
    unfolding slots_loop.simps
    by (intro costs_bind costs_fallback) (auto intro: Cons.IH split: prod.split)
  then show ?case by simp
qed

lemma costs_readProxySlots:
  "costs requests (1 + sum_list (map (\<lambda>l. length (slotsFor l)) (js_dedupe labels)))
     (readProxySlots send a labels)"
proof -
  let ?n = "sum_list (map (\<lambda>l. length (slotsFor l)) (js_dedupe labels))"
  have "costs requests (?n + 0) (bind_io (slots_loop send a (\<lambda>_. None) (js_dedupe labels))
      (\<lambda>found. return_io (Code (found Implementation) (found Admin) (found Beacon))))"
    by (intro costs_bind cost_intros costs_slots_loop)
  then show ?thesis
    unfolding readProxySlots_def
    by (intro costs_bind costs_getCode) (auto intro: costs_mono [OF costs_free(1)])
qed

lemma costs_tvmCallOptional: "costs requests 1 (tvmCallOptional send a selector)"
proof -
  have handler: "costs requests 0 (case cause of
      ChainRpc m payload endpoint \<Rightarrow>
        if isProbeOutcome (classifyNodeError payload)
        then return_io (NoAnswer (probeReason (classifyNodeError payload))) else throw_io cause
    | _ \<Rightarrow> throw_io cause)" for cause
    by (simp split: chain_error.split)
  have "costs requests ((0 + (1 + 0)) + 0) (tvmCallOptional send a selector)"
    unfolding tvmCallOptional_def rpc_address_def
    by (intro costs_catch costs_bind costs_shaped handler costs_free)
  then show ?thesis by simp
qed

lemma costs_hasCode: "costs requests 1 (hasCode send a)"
  unfolding hasCode_def by (rule costs_mono, (rule cost_intros costs_getCode)+) simp

lemma costs_readBeaconImplementation: "costs requests 2 (readBeaconImplementation send a)"
proof -
  have answer: "costs requests 0 (case out of
      NoAnswer _ \<Rightarrow> return_io (NotABeacon CallDidNotAnswer)
    | Answered d \<Rightarrow>
        if \<not> looksLikeSlotAddressWord d then return_io (NotABeacon AnswerIsNotAnAddress)
        else bind_io (slot_address d) (\<lambda>a. return_io (BeaconImplementation a)))" for out
    unfolding slot_address_def using costs_bind [OF costs_free(3) costs_free(1), of requests]
    by (auto simp: cost_intros split: call_outcome.split)
  have "costs requests (1 + (1 + 0)) (readBeaconImplementation send a)"
    unfolding readBeaconImplementation_def
    by (intro costs_bind costs_hasCode)
       (auto intro: costs_mono [OF costs_free(1)] costs_bind [OF costs_tvmCallOptional answer, simplified])
  then show ?thesis by (simp add: numeral_2_eq_2)
qed

end

lemma set_js_dedupe: "set (js_dedupe xs) = set xs"
  by (simp add: js_dedupe_def)

lemma distinct_js_dedupe: "distinct (js_dedupe xs)"
  by (simp add: js_dedupe_def)

lemma slot_label_UNIV: "(UNIV :: slot_label set) = {Implementation, Admin, Beacon}"
  using slot_label.exhaust by auto

lemma finite_slot_label: "finite (UNIV :: slot_label set)"
  by (simp add: slot_label_UNIV)

lemma dedupe_slot_cost: "sum_list (map (\<lambda>l. length (slotsFor l)) (js_dedupe labels)) \<le> 5"
proof -
  let ?w = "\<lambda>l. length (slotsFor l)"
  have "sum_list (map ?w (js_dedupe labels)) = sum ?w (set labels)"
    by (simp add: sum_list_distinct_conv_sum_set distinct_js_dedupe set_js_dedupe)
  also have "\<dots> \<le> sum ?w (UNIV :: slot_label set)"
    by (rule sum_mono2) (simp_all add: finite_slot_label)
  also have "\<dots> = 5"
    by (simp add: slot_label_UNIV slotsFor_def)
  finally show ?thesis .
qed

section \<open>The ABI encoding the decoder inverts\<close>

definition hex_digit :: "nat \<Rightarrow> char" where
  "hex_digit n = ''0123456789abcdef'' ! (n mod 16)"

fun hex_pad :: "nat \<Rightarrow> nat \<Rightarrow> string" where
  "hex_pad 0 n = []"
| "hex_pad (Suc k) n = hex_pad k (n div 16) @ [hex_digit n]"

definition utf8_encode1 :: "nat \<Rightarrow> nat list" where
  "utf8_encode1 cp =
     (if cp < 128 then [cp]
      else if cp < 2048 then [192 + cp div 64, 128 + cp mod 64]
      else if cp < 65536 then [224 + cp div 4096, 128 + cp div 64 mod 64, 128 + cp mod 64]
      else [240 + cp div 262144, 128 + cp div 4096 mod 64, 128 + cp div 64 mod 64, 128 + cp mod 64])"

definition scalar_value :: "nat \<Rightarrow> bool" where
  "scalar_value cp \<longleftrightarrow> cp \<le> 1114111 \<and> \<not> (55296 \<le> cp \<and> cp \<le> 57343)"

definition utf8_encode :: "nat list \<Rightarrow> nat list" where
  "utf8_encode cps = concat (map utf8_encode1 cps)"

text \<open>An ABI-encoded \<open>string\<close> return value: offset, length, content, padding.\<close>

definition abi_string :: "nat list \<Rightarrow> string \<Rightarrow> string" where
  "abi_string cps padding =
     ''0x'' @ hex_pad 64 32 @ hex_pad 64 (length (utf8_encode cps)) @
     concat (map (hex_pad 2) (utf8_encode cps)) @ padding"

lemma length_hex_pad [simp]: "length (hex_pad k n) = k"
  by (induction k arbitrary: n) simp_all

lemma hex_val_digits: "list_all (\<lambda>n. hex_val (hex_digit n) = n) [0..<16]"
  by code_simp

lemma hex_val_digit: "hex_val (hex_digit n) = n mod 16"
proof -
  have "hex_digit n = hex_digit (n mod 16)" by (simp add: hex_digit_def)
  moreover have "hex_val (hex_digit (n mod 16)) = n mod 16"
    using hex_val_digits by (simp add: list_all_iff)
  ultimately show ?thesis by simp
qed

lemma parse_hex_snoc: "parse_hex (s @ [c]) = 16 * parse_hex s + hex_val c"
  by (simp add: parse_hex_def)

lemma parse_hex_pad: "parse_hex (hex_pad k n) = n mod 16 ^ k"
proof (induction k arbitrary: n)
  case 0
  then show ?case by (simp add: parse_hex_def)
next
  case (Suc k)
  have "n mod (16 * 16 ^ k) = 16 * (n div 16 mod 16 ^ k) + n mod 16"
    by (rule mod_mult2_eq)
  then show ?case using Suc.IH by (simp add: parse_hex_snoc hex_val_digit)
qed

lemma hex_pad_byte: "b < 256 \<Longrightarrow> hex_bytes (hex_pad 2 b @ s) = b # hex_bytes s"
proof -
  assume "b < 256"
  then have "b div 16 < 16" by simp
  then have "b div 16 mod 16 = b div 16" by simp
  moreover have "16 * (b div 16) + b mod 16 = b" by simp
  ultimately show ?thesis by (simp add: numeral_2_eq_2 hex_val_digit)
qed

lemma hex_bytes_pads: "\<forall>b\<in>set bs. b < 256 \<Longrightarrow> hex_bytes (concat (map (hex_pad 2) bs)) = bs"
  by (induction bs) (simp_all add: hex_pad_byte del: hex_pad.simps)

lemma utf8_encode1_bytes:
  assumes "scalar_value cp"
  shows "\<forall>b\<in>set (utf8_encode1 cp). b < 256"
proof -
  have m: "n mod 64 < 64" for n :: nat by simp
  have "cp < 2048 \<Longrightarrow> cp div 64 < 32" "cp < 65536 \<Longrightarrow> cp div 4096 < 16" by simp_all
  moreover have "cp \<le> 1114111" using assms by (simp add: scalar_value_def)
  then have "cp div 262144 < 5" by simp
  ultimately show ?thesis using m [of cp] m [of "cp div 64"] m [of "cp div 4096"]
    by (auto simp: utf8_encode1_def)
qed

lemma utf8_encode_bytes: "list_all scalar_value cps \<Longrightarrow> \<forall>b\<in>set (utf8_encode cps). b < 256"
  using utf8_encode1_bytes by (induction cps) (auto simp: utf8_encode_def)

lemma utf8_one: "b < 128 \<Longrightarrow> utf8_decode (b # r) = map_option (Cons b) (utf8_decode r)"
  by simp

lemma utf8_two:
  assumes "128 \<le> cp" and "cp < 2048"
  shows "utf8_decode ((192 + cp div 64) # (128 + cp mod 64) # r) =
    map_option (Cons cp) (utf8_decode r)"
proof -
  define q where "q = cp div 64"
  define d where "d = cp mod 64"
  have q: "2 \<le> q" "q < 32" using assms by (simp_all add: q_def)
  have d: "d < 64" and cp: "q * 64 + d = cp" by (simp_all add: q_def d_def)
  show ?thesis unfolding q_def [symmetric] d_def [symmetric]
    using q d cp by (simp add: utf8_cont_def)
qed

lemma sextets: "(cp div 4096) * 4096 + (cp div 64 mod 64) * 64 + cp mod 64 = (cp :: nat)"
proof -
  define q where "q = cp div 64"
  have "cp div 4096 = q div 64" by (simp add: q_def div_mult2_eq [symmetric])
  moreover have "q div 64 * 64 + q mod 64 = q" by simp
  moreover have "q * 64 + cp mod 64 = cp" by (simp add: q_def)
  ultimately show ?thesis unfolding q_def [symmetric] by linarith
qed

lemma utf8_three:
  assumes "2048 \<le> cp" and "cp < 65536" and "\<not> (55296 \<le> cp \<and> cp \<le> 57343)"
  shows "utf8_decode ((224 + cp div 4096) # (128 + cp div 64 mod 64) # (128 + cp mod 64) # r) =
    map_option (Cons cp) (utf8_decode r)"
proof -
  define a b c where "a = cp div 4096" and "b = cp div 64 mod 64" and "c = cp mod 64"
  have cp: "a * 4096 + b * 64 + c = cp" unfolding a_def b_def c_def by (rule sextets)
  have bounds: "a < 16" "b < 64" "c < 64" using assms(2) by (simp_all add: a_def b_def c_def)
  show ?thesis unfolding a_def [symmetric] b_def [symmetric] c_def [symmetric]
    using bounds cp assms by (simp add: utf8_cont_def Let_def)
qed

lemma utf8_four:
  assumes "65536 \<le> cp" and "cp \<le> 1114111"
  shows "utf8_decode ((240 + cp div 262144) # (128 + cp div 4096 mod 64) # (128 + cp div 64 mod 64) #
      (128 + cp mod 64) # r) = map_option (Cons cp) (utf8_decode r)"
proof -
  define a b c d where "a = cp div 262144" and "b = cp div 4096 mod 64"
    and "c = cp div 64 mod 64" and "d = cp mod 64"
  have "cp div 262144 = cp div 4096 div 64" by (simp add: div_mult2_eq [symmetric])
  then have "a * 64 + b = cp div 4096" by (simp add: a_def b_def)
  then have cp: "a * 262144 + b * 4096 + c * 64 + d = cp"
    using sextets [of cp] unfolding c_def d_def by linarith
  have bounds: "a < 5" "b < 64" "c < 64" "d < 64"
    using assms(2) by (simp_all add: a_def b_def c_def d_def)
  show ?thesis unfolding a_def [symmetric] b_def [symmetric] c_def [symmetric] d_def [symmetric]
    using bounds cp assms by (simp add: utf8_cont_def Let_def)
qed

lemma utf8_decode_encode1:
  assumes "scalar_value cp"
  shows "utf8_decode (utf8_encode1 cp @ r) = map_option (Cons cp) (utf8_decode r)"
proof -
  consider "cp < 128" | "128 \<le> cp" "cp < 2048" | "2048 \<le> cp" "cp < 65536" | "65536 \<le> cp"
    by linarith
  then show ?thesis
  proof cases
    case 1
    then show ?thesis by (simp add: utf8_encode1_def)
  next
    case 2
    then have "utf8_encode1 cp = [192 + cp div 64, 128 + cp mod 64]"
      by (simp add: utf8_encode1_def)
    with utf8_two [OF 2] show ?thesis by (metis append_Cons append_Nil)
  next
    case 3
    then have "utf8_encode1 cp = [224 + cp div 4096, 128 + cp div 64 mod 64, 128 + cp mod 64]"
      by (simp add: utf8_encode1_def)
    with utf8_three [of cp r] 3 assms show ?thesis
      unfolding scalar_value_def by (metis append_Cons append_Nil)
  next
    case 4
    then have "utf8_encode1 cp = [240 + cp div 262144, 128 + cp div 4096 mod 64,
        128 + cp div 64 mod 64, 128 + cp mod 64]"
      by (simp add: utf8_encode1_def)
    with utf8_four [of cp r] 4 assms show ?thesis
      unfolding scalar_value_def by (metis append_Cons append_Nil)
  qed
qed

lemma utf8_decode_encode: "list_all scalar_value cps \<Longrightarrow> utf8_decode (utf8_encode cps) = Some cps"
  by (induction cps) (simp_all add: utf8_encode_def utf8_decode_encode1)

lemma length_pads: "length (concat (map (hex_pad 2) bs)) = 2 * length bs"
  by (induction bs) simp_all

section \<open>Properties\<close>

text \<open>
  Whether an address holds code is decided by one well-formed answer of the node.
  \<open>hasCode\<close> returns \<open>b\<close> exactly when the address has a request form, the node answered
  \<open>eth_getCode\<close> for that form at the latest block, and \<open>b\<close> says the answer is not
  \<open>0x\<close>.  No failure of any kind is read as the absence of code.
\<close>

theorem hasCode_exact:
  "hasCode (provider_send post ep) a s = (Inr b, t) \<longleftrightarrow>
     (\<exists>r c. toRpcAddress a = Inr r \<and>
        provider_send post ep ''eth_getCode'' [JStr r, JStr ''latest''] s = (Inr (JStr c), t) \<and>
        b = (c \<noteq> ''0x''))"
proof
  assume "hasCode (provider_send post ep) a s = (Inr b, t)"
  then obtain c where c: "getCode (provider_send post ep) a s = (Inr c, t)"
    and b: "b = (\<not> isEmptyCode c)" by (auto simp: tron.hasCode_ok)
  from tron.getCode_shape [OF c] b have "b = (c \<noteq> ''0x'')" by (simp add: tron.isEmptyCode_0x)
  with c show "\<exists>r c. toRpcAddress a = Inr r \<and>
        provider_send post ep ''eth_getCode'' [JStr r, JStr ''latest''] s = (Inr (JStr c), t) \<and>
        b = (c \<noteq> ''0x'')" by (auto simp: tron.getCode_ok)
next
  assume "\<exists>r c. toRpcAddress a = Inr r \<and>
        provider_send post ep ''eth_getCode'' [JStr r, JStr ''latest''] s = (Inr (JStr c), t) \<and>
        b = (c \<noteq> ''0x'')"
  then obtain c where c: "getCode (provider_send post ep) a s = (Inr c, t)" and b: "b = (c \<noteq> ''0x'')"
    by (auto simp: tron.getCode_ok)
  from tron.getCode_shape [OF c] b have "b = (\<not> isEmptyCode c)" by (simp add: tron.isEmptyCode_0x)
  with c show "hasCode (provider_send post ep) a s = (Inr b, t)" by (auto simp: tron.hasCode_ok)
qed

lemma map_sum_Inl: "map_sum f g r = Inl e \<longleftrightarrow> (\<exists>x. r = Inl x \<and> e = f x)"
  by (cases r) auto

text \<open>
  An optional call reports "no answer" only for what the node said about the contract.
  The outcome is \<open>NoAnswer\<close> exactly when the node answered \<open>eth_call\<close> with an error that
  classifies as a revert or as no contract at the address; a refused request, a transport
  failure, a malformed result, an unknown method or an unclassified error all propagate.
\<close>

theorem optional_call_swallows_only_probes:
  "tvmCallOptional (provider_send post ep) a sel s = (Inr (NoAnswer why), t) \<longleftrightarrow>
     (\<exists>r p. toRpcAddress a = Inr r \<and>
        provider_send post ep ''eth_call'' (call_params r sel) s = (Inl (ChainRpc ''eth_call'' p ep), t) \<and>
        (case classifyNodeError p of
           NoContractAtAddress \<Rightarrow> why = CallNoContract
         | Reverted _ \<Rightarrow> why = CallReverted
         | _ \<Rightarrow> False))"
proof -
  have node: "m = ''eth_call'' \<and> ep' = ep"
    if "provider_send post ep ''eth_call'' ps s = (Inl (ChainRpc m p ep'), t)" for ps m p ep'
    using that
    by (auto simp: provider_send_def map_sum_Inl dest!: requireResultShape_err
        split: prod.splits option.splits rpc_outcome.splits if_splits)
  have diag: "(isProbeOutcome d \<and> why = probeReason d) =
      (case d of NoContractAtAddress \<Rightarrow> why = CallNoContract | Reverted _ \<Rightarrow> why = CallReverted
       | _ \<Rightarrow> False)" for d
    by (cases d) (simp_all add: probeReason_def)
  show ?thesis unfolding tron.tvmCallOptional_no_answer diag using node by blast
qed

text \<open>
  Reading every EIP-1967 slot of an address costs at most six requests, whatever labels
  are asked for (repeated ones included) and whatever the node answers: the code, and at most
  five slot words (the admin and implementation slots have a legacy fallback).
\<close>

theorem readProxySlots_at_most_six_requests:
  "next_id (snd (readProxySlots (provider_send post ep) a labels s)) \<le> next_id s + 6"
proof -
  have "next_id (snd (readProxySlots (provider_send post ep) a labels s)) \<le>
      next_id s + (1 + sum_list (map (\<lambda>l. length (slotsFor l)) (js_dedupe labels)))"
    by (rule costs_run [OF tron.costs_readProxySlots])
  then show ?thesis using dedupe_slot_cost [of labels] by linarith
qed

lemma slots_loop_no_code: "readProxySlots send a labels s = (Inr NoCode, t) \<longleftrightarrow>
    (\<exists>c. getCode send a s = (Inr c, t) \<and> isEmptyCode c)"
  unfolding readProxySlots_def
  by (auto simp: bind_io_ok elim!: bind_io_InrE split: if_splits)

text \<open>
  An address without code is reported as such and its slots are not read.  The answer
  \<open>NoCode\<close> is given exactly when \<open>eth_getCode\<close> answered \<open>0x\<close>, and the state is the one
  that single request left.
\<close>

theorem readProxySlots_NoCode:
  "readProxySlots (provider_send post ep) a labels s = (Inr NoCode, t) \<longleftrightarrow>
     (\<exists>r. toRpcAddress a = Inr r \<and>
        provider_send post ep ''eth_getCode'' [JStr r, JStr ''latest''] s = (Inr (JStr ''0x''), t))"
proof -
  have "isEmptyCode ''0x''" by (simp add: isEmptyCode_def)
  then show ?thesis unfolding slots_loop_no_code
    using tron.getCode_ok tron.getCode_shape tron.isEmptyCode_0x by metis
qed

lemma empty_word_iff:
  assumes "slotToAddress w = Inr a"
  shows "isEmptySlotWord w \<longleftrightarrow> a = zeroChainAddress"
proof -
  have zero: "slotToAddress zeroSlotWord = Inr zeroChainAddress"
    unfolding zeroChainAddress_def by code_simp
  let ?d = "strip_hex_prefix w"
  from slotToAddress_ok [OF assms] have l: "lower ?d = replicate 24 (CHR ''0'') @ drop 2 a"
    and f: "rpc_form a" by blast+
  from assms have hex: "is_hex_digits ?d" by (simp add: slotToAddress_def Let_def split: if_splits)
  have z: "zeroChainAddress = ''0x'' @ replicate 40 (CHR ''0'')" by code_simp
  from f have a: "length (drop 2 a) = 40" "a = ''0x'' @ drop 2 a"
    using rpc_form_tail by (auto simp: rpc_form_def)
  have "isEmptySlotWord w \<longleftrightarrow> all_zeros (lower ?d)"
    using hex by (simp add: isEmptySlotWord_def Let_def all_zeros_lower)
  also have "\<dots> \<longleftrightarrow> all_zeros (drop 2 a)"
    by (simp add: l all_zeros_def list_all_iff)
  also have "\<dots> \<longleftrightarrow> a = zeroChainAddress"
    using a unfolding z by (metis all_zeros_eq append_same_eq same_append_eq)
  finally show ?thesis .
qed

lemma slot_address_ok: "slot_address w s = (Inr a, t) \<longleftrightarrow> slotToAddress w = Inr a \<and> t = s"
  by (auto simp: slot_address_def lift_slots_def split: sum.splits)

text \<open>
  An address read from a proxy is a usable, non-zero address.  What
  \<open>readImplementationAddress\<close> returns is a lowercase 20-byte address different from the
  zero address; an empty slot pair is an error, never the zero address.
\<close>

theorem readImplementationAddress_usable:
  assumes "readImplementationAddress (provider_send post ep) proxy s = (Inr a, t)"
  shows "rpc_form a \<and> a \<noteq> zeroChainAddress \<and> toRpcAddress a = Inr a"
proof -
  from assms obtain word s' where
    w: "readSlotWithFallback (provider_send post ep) proxy (slotsFor Implementation) s =
          (Inr (word, False), s')" and a: "slotToAddress word = Inr a"
    unfolding readImplementationAddress_def
    by (auto elim!: bind_io_InrE simp: slot_address_ok split: if_splits)
  from w have "\<not> isEmptySlotWord word"
    unfolding readSlotWithFallback_def by (rule slot_loop_found)
  with a have "a \<noteq> zeroChainAddress" by (simp add: empty_word_iff)
  with slotToAddress_ok(1) [OF a] show ?thesis by (simp add: toRpcAddress_rpc_form)
qed

theorem readImplementationAddress_usable_witness:
  "rpc_form ''0xa614f803b6fd780986a42c78ec9c7f77e6ded13c''"
proof -
  let ?word = "''0x000000000000000000000000a614f803b6fd780986a42c78ec9c7f77e6ded13c''"
  let ?post = "\<lambda>q w. (Inr (JObj [(''result'', JStr ?word)]), w) :: (js + js) \<times> unit"
  have ok: "readImplementationAddress (provider_send ?post ''http://n'')
      ''0xa614f803b6fd780986a42c78ec9c7f77e6ded13c'' \<lparr>next_id = 1, world = ()\<rparr> =
    (Inr ''0xa614f803b6fd780986a42c78ec9c7f77e6ded13c'', \<lparr>next_id = 2, world = ()\<rparr>)"
    by code_simp
  show ?thesis using conjunct1 [OF readImplementationAddress_usable [OF ok]] .
qed

text \<open>
  The decoder inverts the ABI encoding of a \<open>string\<close>.  Every sequence of Unicode scalar
  values, encoded as offset, length, UTF-8 content and any padding, is read back unchanged,
  for every content shorter than \<open>16 ^ 64\<close> bytes.
\<close>

theorem decodeAbiString_inverts_encoding:
  assumes "list_all scalar_value cps" and "length (utf8_encode cps) < 16 ^ 64"
  shows "decodeAbiString (abi_string cps padding) = Some cps"
proof -
  let ?n = "length (utf8_encode cps)"
  define body where "body = concat (map (hex_pad 2) (utf8_encode cps))"
  define h1 h2 where "h1 = hex_pad 64 32" and "h2 = hex_pad 64 ?n"
  have len: "length h1 = 64" "length h2 = 64" "length body = ?n * 2"
    unfolding h1_def h2_def body_def by (simp_all add: length_pads)
  have p: "parse_hex h1 = 32" "parse_hex h2 = ?n"
    unfolding h1_def h2_def parse_hex_pad using assms(2) by simp_all
  have dec: "utf8_decode (hex_bytes body) = Some cps"
    using assms(1) by (simp add: body_def hex_bytes_pads utf8_encode_bytes utf8_decode_encode)
  have abi: "abi_string cps padding = ''0x'' @ h1 @ h2 @ body @ padding"
    by (simp add: abi_string_def h1_def h2_def body_def)
  show ?thesis unfolding abi using len p dec by (simp add: decodeAbiString_def Let_def)
qed

theorem decodeAbiString_inverts_encoding_witness:
  "decodeAbiString (abi_string [53, 46, 48, 8364] (replicate 52 (CHR ''0''))) =
     Some [53, 46, 48, 8364]"
proof (rule decodeAbiString_inverts_encoding)
  show "list_all scalar_value [53, 46, 48, 8364]" by (simp add: scalar_value_def)
  show "length (utf8_encode [53, 46, 48, 8364]) < 16 ^ 64"
    by (simp add: utf8_encode_def utf8_encode1_def)
qed


end
