(* ===== verification/ChainInstance.thy ===== *)
theory ChainInstance
  imports ChainRead
begin

text \<open>
  \<open>chain/instance.ts\<close>: the fingerprint of a chain instance, read in three requests, and the
  comparison of a recorded fingerprint with an observed one.  \<open>manifestPathFor\<close> (a name
  rendered into a message from a JavaScript double) is not modelled.
\<close>

section \<open>Canonical forms\<close>

text \<open>
  \<open>replace(/^0+(?=.)/, '')\<close>: leading zeros go, as long as a character follows that the
  dot of the pattern matches (it does not match a line terminator).
\<close>

definition line_terminator :: "char \<Rightarrow> bool" where
  "line_terminator c \<longleftrightarrow> c = CHR 0x0A \<or> c = CHR 0x0D"

fun drop_leading_zeros :: "string \<Rightarrow> string" where
  "drop_leading_zeros [] = []"
| "drop_leading_zeros [c] = [c]"
| "drop_leading_zeros (c # d # s) =
     (if c \<noteq> CHR ''0'' then c # d # s
      else if d = CHR ''0'' then drop_leading_zeros (d # s)
      else if line_terminator d then c # d # s
      else d # s)"

definition canonicalChainId :: "string \<Rightarrow> string" where
  "canonicalChainId v = ''0x'' @ drop_leading_zeros (lower (strip_hex_prefix v))"

definition canonicalHash :: "string \<Rightarrow> string" where
  "canonicalHash v = ''0x'' @ lower (strip_hex_prefix v)"

definition BLOCK_HASH :: "string \<Rightarrow> bool" where
  "BLOCK_HASH v \<longleftrightarrow> prefix ''0x'' v \<and> length (drop 2 v) = 64 \<and> is_hex_digits (drop 2 v)"

section \<open>Reading the fingerprint\<close>

record identity =
  id_chain :: string
  id_genesis :: string
  id_first :: "string option"
  id_observed :: string

definition inconsistent :: "string \<Rightarrow> inconsistency \<Rightarrow> ('s, chain_error, 'a) io" where
  "inconsistent describe detail =
     throw_io (ChainTransport ''eth_chainId + eth_getBlockByNumber''
       (MalformedEnvelope (Inconsistent detail)) describe)"

definition readBlockHash ::
  "'s provider \<Rightarrow> string \<Rightarrow> string \<Rightarrow> ('s, chain_error, string option) io" where
  "readBlockHash send describe tag =
     bind_io (send ''eth_getBlockByNumber'' [JStr tag, JBool False]) (\<lambda>block.
       if block = JNull then return_io None
       else if \<not> is_object_like block
         then inconsistent describe (BlockNotObject tag (js_typeof block))
       else case own_prop block ''hash'' of
           JStr hash \<Rightarrow>
             if BLOCK_HASH hash then return_io (Some (canonicalHash hash))
             else inconsistent describe (BlockHashUnusable tag)
         | _ \<Rightarrow> inconsistent describe (BlockHashUnusable tag))"

definition readChainInstanceIdentity ::
  "'s provider \<Rightarrow> string \<Rightarrow> ('s, chain_error, identity) io" where
  "readChainInstanceIdentity send describe =
     bind_io (shaped ''eth_chainId'' (send ''eth_chainId'' [])) (\<lambda>raw.
       let chainId = canonicalChainId raw in
       bind_io (readBlockHash send describe ''0x0'') (\<lambda>genesis.
         case genesis of
           None \<Rightarrow> inconsistent describe NoGenesisBlock
         | Some genesisHash \<Rightarrow>
             let tail = canonicalChainId (drop (length genesisHash - 8) genesisHash) in
             if tail \<noteq> chainId
             then inconsistent describe (ChainIdNotGenesisTail chainId tail)
             else bind_io (readBlockHash send describe ''0x1'') (\<lambda>firstBlockHash.
               return_io \<lparr>id_chain = chainId, id_genesis = genesisHash,
                 id_first = firstBlockHash, id_observed = describe\<rparr>)))"

section \<open>Comparing a recorded fingerprint with an observed one\<close>

text \<open>
  What a record holds.  An absent \<open>firstBlockHash\<close> key is \<open>None\<close>; a present one holding
  null (or undefined) is \<open>Some None\<close>.
\<close>

record recorded =
  rec_chain :: string
  rec_genesis :: "string option"
  rec_first :: "string option option"

datatype signal = ChainIdSignal | GenesisSignal | FirstBlockSignal
datatype undecided = NoRecordedIdentity | RecordedIdentityIncomplete

datatype comparison =
    Same
  | Changed signal "string option" "string option"
  | Indeterminate undecided

definition compareChainInstance :: "recorded option \<Rightarrow> identity \<Rightarrow> comparison" where
  "compareChainInstance rec observed =
     (case rec of
        None \<Rightarrow> Indeterminate NoRecordedIdentity
      | Some r \<Rightarrow>
          if rec_chain r = [] then Indeterminate NoRecordedIdentity
          else let c = canonicalChainId (rec_chain r) in
          if c \<noteq> id_chain observed then Changed ChainIdSignal (Some c) (Some (id_chain observed))
          else case rec_genesis r of
            None \<Rightarrow> Indeterminate RecordedIdentityIncomplete
          | Some g0 \<Rightarrow>
              let g = canonicalHash g0 in
              if g \<noteq> id_genesis observed
              then Changed GenesisSignal (Some g) (Some (id_genesis observed))
              else case rec_first r of
                None \<Rightarrow> Indeterminate RecordedIdentityIncomplete
              | Some None \<Rightarrow>
                  if id_first observed = None then Same else Indeterminate RecordedIdentityIncomplete
              | Some (Some f0) \<Rightarrow>
                  let f = canonicalHash f0 in
                  (case id_first observed of
                     None \<Rightarrow> Changed FirstBlockSignal (Some f) None
                   | Some o1 \<Rightarrow>
                       if f \<noteq> o1 then Changed FirstBlockSignal (Some f) (Some o1) else Same))"

section \<open>Facts about canonical forms\<close>

lemma drop_leading_zeros_nonzero: "c \<noteq> CHR ''0'' \<Longrightarrow> drop_leading_zeros (c # s) = c # s"
  by (cases s) simp_all

lemma drop_leading_zeros_idem [simp]:
  "drop_leading_zeros (drop_leading_zeros s) = drop_leading_zeros s"
  by (induction s rule: drop_leading_zeros.induct) (simp_all add: drop_leading_zeros_nonzero)

lemma lower_drop_leading_zeros: "lower s = s \<Longrightarrow> lower (drop_leading_zeros s) = drop_leading_zeros s"
  by (induction s rule: drop_leading_zeros.induct) (auto simp: hex_simps)

lemma drop_leading_zeros_hex:
  "is_hex_digits s \<Longrightarrow> is_hex_digits (drop_leading_zeros s)"
  by (induction s rule: drop_leading_zeros.induct) (auto simp: is_hex_digits_def)

lemma drop_leading_zeros_Nil: "drop_leading_zeros s = [] \<longleftrightarrow> s = []"
  by (induction s rule: drop_leading_zeros.induct) simp_all

lemma canonicalHash_idem: "is_hex_digits (strip_hex_prefix v) \<Longrightarrow>
    canonicalHash (canonicalHash v) = canonicalHash v"
  by (simp add: canonicalHash_def hex_simps)

lemma canonicalChainId_idem: "canonicalChainId (canonicalChainId v) = canonicalChainId v"
  by (simp add: canonicalChainId_def hex_simps lower_drop_leading_zeros)

lemma BLOCK_HASH_canonical:
  assumes "BLOCK_HASH h"
  shows "BLOCK_HASH (canonicalHash h)" and "canonicalHash (canonicalHash h) = canonicalHash h"
proof -
  from assms obtain d where h: "h = ''0x'' @ d" and d: "length d = 64" "is_hex_digits d"
    by (auto simp: BLOCK_HASH_def prefix_def)
  then have c: "canonicalHash h = ''0x'' @ lower d" by (simp add: canonicalHash_def strip_0x)
  show "BLOCK_HASH (canonicalHash h)"
    unfolding c using d by (simp add: BLOCK_HASH_def hex_simps)
  show "canonicalHash (canonicalHash h) = canonicalHash h"
    unfolding c by (simp add: canonicalHash_def hex_simps)
qed

text \<open>The chain id is padding-insensitive: how many leading zeros a node prints is no matter.\<close>

lemma drop_leading_zeros_pad:
  assumes "s \<noteq> []" and "\<not> line_terminator (hd s)"
  shows "drop_leading_zeros (replicate n (CHR ''0'') @ s) = drop_leading_zeros s"
proof (induction n)
  case (Suc n)
  obtain c r where s: "s = c # r" using assms(1) by (cases s) auto
  show ?case
  proof (cases n)
    case 0
    then show ?thesis using assms(2) s by (simp add: drop_leading_zeros_nonzero)
  next
    case (Suc m)
    then show ?thesis using Suc.IH by simp
  qed
qed simp

section \<open>Facts about the read, from the contract of the provider\<close>

definition identity_ok :: "identity \<Rightarrow> bool" where
  "identity_ok i \<longleftrightarrow>
     canonicalChainId (id_chain i) = id_chain i \<and> 2 < length (id_chain i) \<and>
     BLOCK_HASH (id_genesis i) \<and> canonicalHash (id_genesis i) = id_genesis i \<and>
     canonicalChainId (drop (length (id_genesis i) - 8) (id_genesis i)) = id_chain i \<and>
     (case id_first i of None \<Rightarrow> True | Some h \<Rightarrow> BLOCK_HASH h \<and> canonicalHash h = h)"

lemma inconsistent_run [simp]: "inconsistent ep d s = (Inl (ChainTransport
    ''eth_chainId + eth_getBlockByNumber'' (MalformedEnvelope (Inconsistent d)) ep), s)"
  by (simp add: inconsistent_def)

lemma readBlockHash_ok:
  assumes "readBlockHash send ep tag s = (Inr r, t)"
  shows "case r of None \<Rightarrow> True | Some h \<Rightarrow> BLOCK_HASH h \<and> canonicalHash h = h"
proof -
  from assms obtain block s' where
    blk: "(if block = JNull then return_io None
       else if \<not> is_object_like block
         then inconsistent ep (BlockNotObject tag (js_typeof block))
       else case own_prop block ''hash'' of
           JStr hash \<Rightarrow>
             if BLOCK_HASH hash then return_io (Some (canonicalHash hash))
             else inconsistent ep (BlockHashUnusable tag)
         | _ \<Rightarrow> inconsistent ep (BlockHashUnusable tag)) s' = (Inr r, t)"
    unfolding readBlockHash_def by (elim bind_io_InrE)
  show ?thesis
  proof (cases r)
    case None
    then show ?thesis by simp
  next
    case (Some h)
    then have "block \<noteq> JNull" and obj: "is_object_like block"
      using blk by (simp_all split: if_splits)
    with blk Some have "(case own_prop block ''hash'' of
           JStr hash \<Rightarrow>
             if BLOCK_HASH hash then return_io (Some (canonicalHash hash))
             else inconsistent ep (BlockHashUnusable tag)
         | _ \<Rightarrow> inconsistent ep (BlockHashUnusable tag)) s' = (Inr (Some h), t)"
      by simp
    then obtain x where "BLOCK_HASH x" and "h = canonicalHash x"
      by (cases "own_prop block ''hash''") (simp_all split: if_splits)
    then show ?thesis using Some by (simp add: BLOCK_HASH_canonical)
  qed
qed

lemma canonicalChainId_length:
  assumes "HEX_QUANTITY v"
  shows "2 < length (canonicalChainId v)"
proof -
  from assms have "prefix ''0x'' v" and l: "1 \<le> length (drop 2 v)"
    unfolding HEX_QUANTITY_def by blast+
  then obtain d where v: "v = ''0x'' @ d" by (elim prefixE)
  with l have d: "d \<noteq> []" by auto
  then have "drop_leading_zeros (lower d) \<noteq> []"
    by (simp add: drop_leading_zeros_Nil lower_def)
  then show ?thesis by (simp add: canonicalChainId_def v strip_0x)
qed

lemma string_rule_chainId:
  "string_rule ''eth_chainId'' = Some (\<lambda>v. HEX_QUANTITY v \<and> 0 < parse_hex (drop 2 v))"
  by (simp add: string_rule_def)

lemma readChainInstanceIdentity_ok:
  assumes "readChainInstanceIdentity send ep s = (Inr i, t)"
  shows "identity_ok i" and "id_observed i = ep"
proof -
  from assms obtain raw s1 g s2 f s3 where
    raw: "shaped ''eth_chainId'' (send ''eth_chainId'' []) s = (Inr raw, s1)"
    and g: "readBlockHash send ep ''0x0'' s1 = (Inr (Some g), s2)"
    and tail: "canonicalChainId (drop (length g - 8) g) = canonicalChainId raw"
    and f: "readBlockHash send ep ''0x1'' s2 = (Inr f, s3)"
    and i: "i = \<lparr>id_chain = canonicalChainId raw, id_genesis = g, id_first = f, id_observed = ep\<rparr>"
    unfolding readChainInstanceIdentity_def Let_def
    by (auto elim!: bind_io_InrE split: option.splits if_splits)
  from raw have "HEX_QUANTITY raw"
    unfolding shaped_def
    by (auto elim!: bind_io_InrE simp: requireResultShape_ok string_rule_chainId)
  then show "identity_ok i"
    using readBlockHash_ok [OF g] readBlockHash_ok [OF f] tail
    by (auto simp: identity_ok_def i canonicalChainId_idem canonicalChainId_length)
  show "id_observed i = ep" by (simp add: i)
qed

context metered_provider
begin

lemma costs_readBlockHash: "costs requests 1 (readBlockHash send ep tag)"
  unfolding readBlockHash_def inconsistent_def
  by (rule costs_mono, rule costs_bind [OF costs_send, of 0]) (auto split: js.split)

lemma costs_readChainInstanceIdentity: "costs requests 3 (readChainInstanceIdentity send ep)"
proof -
  have last: "costs requests 1 (bind_io (readBlockHash send ep ''0x1'') (\<lambda>f. return_io (mk f)))" for mk
    by (rule costs_mono, (rule cost_intros costs_readBlockHash)+) simp
  have "costs requests (1 + (1 + 1)) (readChainInstanceIdentity send ep)"
    unfolding readChainInstanceIdentity_def Let_def inconsistent_def
    by (intro costs_bind costs_shaped costs_readBlockHash)
       (auto intro: last [simplified] costs_mono [OF costs_free(2)] split: option.split)
  then show ?thesis by (simp add: numeral_3_eq_3)
qed

end

section \<open>Properties\<close>

text \<open>
  A fingerprint that is returned is canonical and self-consistent, and was read in at
  most three requests: the chain id is its own canonical form, the hashes are 32 bytes of
  lowercase hexadecimal, and the chain id is the last four bytes of the genesis hash.
\<close>

theorem identity_read_is_canonical:
  assumes "readChainInstanceIdentity (provider_send post ep) describe s = (Inr i, t)"
  shows "identity_ok i \<and> id_observed i = describe \<and> next_id t \<le> next_id s + 3"
  using readChainInstanceIdentity_ok [OF assms] assms
    costs_run [OF tron.costs_readChainInstanceIdentity, of post ep describe s] by simp

definition demo_genesis :: string where
  "demo_genesis = ''0x00000000000000001ebf88508a03865c71d452e25f4d51194196a1d22b6653dc''"

definition demo_post :: "js \<Rightarrow> (unit, js, js) io" where
  "demo_post q w =
     (Inr (JObj [(''result'',
        if own_prop q ''method'' = JStr ''eth_chainId'' then JStr ''0x2B6653DC''
        else case own_prop q ''params'' of
            JArr (t # _) \<Rightarrow>
              if t = JStr ''0x0'' then JObj [(''hash'', JStr demo_genesis)] else JNull
          | _ \<Rightarrow> JNull)]), w)"

theorem identity_read_is_canonical_witness:
  "identity_ok \<lparr>id_chain = ''0x2b6653dc'', id_genesis = demo_genesis, id_first = None,
     id_observed = ''http://n''\<rparr>"
proof -
  have "readChainInstanceIdentity (provider_send demo_post ''http://n'') ''http://n''
      \<lparr>next_id = 1, world = ()\<rparr> =
    (Inr \<lparr>id_chain = ''0x2b6653dc'', id_genesis = demo_genesis, id_first = None,
       id_observed = ''http://n''\<rparr>, \<lparr>next_id = 4, world = ()\<rparr>)"
    by code_simp
  from conjunct1 [OF identity_read_is_canonical [OF this]] show ?thesis .
qed

lemma canonicalChainId_Nil: "canonicalChainId [] = ''0x''"
  by (simp add: canonicalChainId_def strip_hex_prefix_def hex_simps)

text \<open>
  A change is reported exactly for the first signal that disagrees, over the whole
  canonical value.  \<open>Changed\<close> is never the verdict where a recorded signal that comes first
  is missing, and the two values it carries differ.
\<close>

theorem changed_iff_first_disagreeing_signal:
  "compareChainInstance (Some r) i = Changed sig a b \<longleftrightarrow>
     rec_chain r \<noteq> [] \<and> a \<noteq> b \<and>
     (case sig of
        ChainIdSignal \<Rightarrow> a = Some (canonicalChainId (rec_chain r)) \<and> b = Some (id_chain i)
      | GenesisSignal \<Rightarrow>
          canonicalChainId (rec_chain r) = id_chain i \<and>
          a = map_option canonicalHash (rec_genesis r) \<and> a \<noteq> None \<and> b = Some (id_genesis i)
      | FirstBlockSignal \<Rightarrow>
          canonicalChainId (rec_chain r) = id_chain i \<and>
          map_option canonicalHash (rec_genesis r) = Some (id_genesis i) \<and>
          (\<exists>f. rec_first r = Some (Some f) \<and> a = Some (canonicalHash f)) \<and> b = id_first i)"
  by (cases sig)
     (auto simp: compareChainInstance_def Let_def split: option.splits if_splits)

text \<open>
  An undecided comparison is one where the record carries too little.  It never depends
  on what a recorded signal says: it arises exactly when nothing disagrees up to the first
  signal the record lacks.
\<close>

theorem indeterminate_iff_record_lacks_a_signal:
  "(\<exists>u. compareChainInstance rec i = Indeterminate u) \<longleftrightarrow>
     (case rec of
        None \<Rightarrow> True
      | Some r \<Rightarrow>
          if rec_chain r = [] then True
          else canonicalChainId (rec_chain r) = id_chain i \<and>
            (case rec_genesis r of
               None \<Rightarrow> True
             | Some g \<Rightarrow> canonicalHash g = id_genesis i \<and>
                 (case rec_first r of
                    None \<Rightarrow> True
                  | Some None \<Rightarrow> id_first i \<noteq> None
                  | Some (Some _) \<Rightarrow> False)))"
  by (auto simp: compareChainInstance_def Let_def split: option.splits)

lemma compare_spelling:
  assumes "canonicalChainId (rec_chain r) = canonicalChainId (rec_chain q)"
    and "rec_chain r \<noteq> []" and "rec_chain q \<noteq> []"
    and "map_option canonicalHash (rec_genesis r) = map_option canonicalHash (rec_genesis q)"
    and "map_option (map_option canonicalHash) (rec_first r) =
         map_option (map_option canonicalHash) (rec_first q)"
  shows "compareChainInstance (Some r) i = compareChainInstance (Some q) i"
  using assms
  by (auto simp: compareChainInstance_def Let_def map_option_case split: option.splits)

lemma lower_digits: "to_lower (CHR ''0'') = CHR ''0''" "to_lower (CHR ''1'') = CHR ''1''"
  by code_simp+

lemma lower_replicate: "lower (replicate n (CHR ''0'')) = replicate n (CHR ''0'')"
  by (induction n) (simp_all add: hex_simps lower_digits)

text \<open>
  How a recorded fingerprint is spelled does not matter.  Re-casing a recorded hash,
  re-casing the chain id or padding it with zeros never changes the verdict, so a record
  written in another notation is not read as another chain.
\<close>

theorem comparison_ignores_spelling:
  "compareChainInstance (Some \<lparr>rec_chain = ''0x'' @ replicate n (CHR ''0'') @ ''1'' @ c,
       rec_genesis = Some (''0X'' @ g), rec_first = Some (Some (''0x'' @ f))\<rparr>) i =
   compareChainInstance (Some \<lparr>rec_chain = ''0X1'' @ lower c,
       rec_genesis = Some (''0x'' @ lower g), rec_first = Some (Some (''0X'' @ lower f))\<rparr>) i"
proof -
  have "canonicalChainId (''0x'' @ replicate n (CHR ''0'') @ ''1'' @ c) =
      canonicalChainId (''0X1'' @ lower c)"
    using drop_leading_zeros_pad [of "''1'' @ lower c" n]
    by (simp add: canonicalChainId_def strip_hex_prefix_def hex_simps lower_digits
        line_terminator_def lower_replicate)
  moreover have "canonicalHash (''0X'' @ g) = canonicalHash (''0x'' @ lower g)"
    and "canonicalHash (''0x'' @ f) = canonicalHash (''0X'' @ lower f)"
    by (simp_all add: canonicalHash_def strip_hex_prefix_def hex_simps)
  ultimately show ?thesis by (intro compare_spelling) simp_all
qed

end
