(* ===== verification/ChainEndpoint.thy ===== *)
theory ChainEndpoint
  imports ChainInstance
begin

text \<open>
  \<open>chain/endpoint.ts\<close>: where the requests go.  One endpoint is chosen by a fixed
  precedence, validated, and given a transport that never lends the handle's client to
  another origin.  The URL parser of the platform (\<open>new URL\<close>), its \<open>fetch\<close>, its JSON
  functions and the client of the host's handle are code outside the repository: they are
  the parameters \<open>parse\<close>, \<open>fetch\<close>, \<open>stringify\<close>, \<open>json\<close> and \<open>request\<close>.
\<close>

section \<open>The handle\<close>

text \<open>
  A value of the host program: a plain value, or an object whose properties may be accessors
  that raise.
\<close>

datatype host_value = HJs js | HObj "(string \<times> host_value) list" | HRaises

fun host_object :: "host_value \<Rightarrow> bool" where
  "host_object (HJs v) = is_object_like v"
| "host_object (HObj _) = True"
| "host_object HRaises = False"

fun host_prop :: "host_value \<Rightarrow> string \<Rightarrow> host_value" where
  "host_prop (HJs v) k = HJs (own_prop v k)"
| "host_prop (HObj ps) k = (case map_of ps k of None \<Rightarrow> HJs JUndef | Some v \<Rightarrow> v)"
| "host_prop HRaises k = HJs JUndef"

definition readHandlePath :: "host_value \<Rightarrow> string \<Rightarrow> string \<Rightarrow> chain_error + host_value" where
  "readHandlePath owner key path =
     (if \<not> host_object owner then Inl (EnvironmentIncomplete (HandleMissing path))
      else case host_prop owner key of
          HRaises \<Rightarrow> Inl (EnvironmentIncomplete (HandleThrew path))
        | v \<Rightarrow> if v = HJs JUndef then Inl (EnvironmentIncomplete (HandleMissing path)) else Inr v)"

text \<open>The host of the handle; its request function is the parameter \<open>request\<close> below.\<close>

definition readRpcHandle :: "host_value \<Rightarrow> chain_error + string" where
  "readRpcHandle tronWrap =
     bind_sum (readHandlePath tronWrap ''fullNode'' ''tronWrap.fullNode'') (\<lambda>fullNode.
       if \<not> host_object fullNode
       then Inl (EnvironmentIncomplete (HandleWrongType ''tronWrap.fullNode''))
       else bind_sum (readHandlePath fullNode ''host'' ''tronWrap.fullNode.host'') (\<lambda>hv.
         case hv of
           HJs (JStr h) \<Rightarrow>
             if h = [] then Inl (EnvironmentIncomplete (HandleWrongType ''tronWrap.fullNode.host''))
             else bind_sum (readHandlePath fullNode ''request'' ''tronWrap.fullNode.request'') (\<lambda>rq.
               if rq = HJs JFun then Inr h
               else Inl (EnvironmentIncomplete (HandleWrongType ''tronWrap.fullNode.request'')))
         | _ \<Rightarrow> Inl (EnvironmentIncomplete (HandleWrongType ''tronWrap.fullNode.host''))))"

section \<open>The endpoint\<close>

text \<open>A parsed URL, by the properties of the platform's class.\<close>

record url =
  u_protocol :: string
  u_username :: string
  u_password :: string
  u_hostname :: string
  u_port :: string
  u_pathname :: string
  u_search :: string
  u_hash :: string
  u_origin :: string

definition scrubEndpoint :: "url \<Rightarrow> string" where
  "scrubEndpoint u =
     u_protocol u @ ''//'' @ u_hostname u @ (if u_port u = [] then [] else '':'' @ u_port u) @
     (if u_pathname u = ''/'' then [] else u_pathname u)"

definition stripTrailingSlashes :: "string \<Rightarrow> string" where
  "stripTrailingSlashes v = rev (dropWhile (\<lambda>c. c = CHR ''/'') (rev v))"

definition validateEndpoint ::
  "(string \<Rightarrow> url option) \<Rightarrow> string \<Rightarrow> endpoint_origin \<Rightarrow> chain_error + url" where
  "validateEndpoint parse raw source =
     (case parse raw of
        None \<Rightarrow> Inl (ChainEndpointRefused source NotAbsoluteUrl)
      | Some u \<Rightarrow>
          if u_protocol u \<noteq> ''http:'' \<and> u_protocol u \<noteq> ''https:''
          then Inl (ChainEndpointRefused source (UnsupportedScheme (u_protocol u)))
          else let path = stripTrailingSlashes (u_pathname u) in
            if path = ''/tre'' \<or> suffix ''/tre'' path
            then Inl (ChainEndpointRefused source CheatcodePath)
            else Inr u)"

definition RPC_URL_ENV_VAR :: string where
  "RPC_URL_ENV_VAR = ''TRONBOX_UPGRADES_RPC_URL''"

definition DERIVED_RPC_PATH :: string where
  "DERIVED_RPC_PATH = ''jsonrpc''"

definition chooseEndpoint ::
  "string \<Rightarrow> string option \<Rightarrow> (string \<Rightarrow> string option) \<Rightarrow> string \<times> endpoint_origin" where
  "chooseEndpoint hst endpointOverride env =
     (case endpointOverride of
        Some raw \<Rightarrow> (raw, FromArgument)
      | None \<Rightarrow>
          (case env RPC_URL_ENV_VAR of
             Some raw \<Rightarrow> (raw, FromEnvironment)
           | None \<Rightarrow> (stripTrailingSlashes hst @ ''/'' @ DERIVED_RPC_PATH, Derived)))"

definition isSameOriginAsHandle :: "(string \<Rightarrow> url option) \<Rightarrow> url \<Rightarrow> string \<Rightarrow> bool" where
  "isSameOriginAsHandle parse target hst =
     (case parse hst of None \<Rightarrow> False | Some h \<Rightarrow> u_origin h = u_origin target)"

section \<open>The transport\<close>

text \<open>
  Which of the three posts is used: the injected one, the handle's own client (with the
  url it is given), or the platform's \<open>fetch\<close>.
\<close>

datatype transport = ExplicitPost | HandlePost string | FetchPost string

definition selectPost ::
  "(string \<Rightarrow> url option) \<Rightarrow> string \<Rightarrow> endpoint_origin \<Rightarrow> url \<Rightarrow> string \<Rightarrow> bool \<Rightarrow> bool \<Rightarrow>
   chain_error + transport" where
  "selectPost parse raw origin u hst explicitPost globalFetch =
     (if explicitPost then Inr ExplicitPost
      else if origin = Derived \<or> isSameOriginAsHandle parse u hst
        then Inr (HandlePost (if origin = Derived then DERIVED_RPC_PATH else raw))
      else if \<not> globalFetch then Inl (ChainEndpointRefused origin NoTransport)
      else Inr (FetchPost raw))"

record descriptor =
  describe :: string
  origin :: endpoint_origin

definition resolveEndpoint ::
  "(string \<Rightarrow> url option) \<Rightarrow> bool \<Rightarrow> host_value \<Rightarrow> string option \<Rightarrow> (string \<Rightarrow> string option) \<Rightarrow>
   bool \<Rightarrow> chain_error + descriptor \<times> transport" where
  "resolveEndpoint parse globalFetch tronWrap endpointOverride env explicitPost =
     bind_sum (readRpcHandle tronWrap) (\<lambda>hst.
       case chooseEndpoint hst endpointOverride env of (raw, org) \<Rightarrow>
         bind_sum (validateEndpoint parse raw org) (\<lambda>u.
           bind_sum (selectPost parse raw org u hst explicitPost globalFetch) (\<lambda>tr.
             Inr (\<lparr>describe = scrubEndpoint u, origin = org\<rparr>, tr))))"

record 'w fetch_response =
  fr_ok :: bool
  fr_status :: nat
  fr_text :: "('w, js, string) io"

definition parseBody :: "(string \<Rightarrow> js option) \<Rightarrow> string \<Rightarrow> js" where
  "parseBody json text = (case json text of None \<Rightarrow> JStr text | Some v \<Rightarrow> v)"

definition http_error :: "nat \<Rightarrow> js" where
  "http_error status =
     JObj [(''message'', JStr (''HTTP '' @ decimal status)), (''status'', JNum (NInt (int status)))]"

definition fetchPoster ::
  "(string \<Rightarrow> js option) \<Rightarrow> (js \<Rightarrow> string) \<Rightarrow>
   (string \<Rightarrow> js \<Rightarrow> ('w, js, 'w fetch_response) io) \<Rightarrow> string \<Rightarrow> js \<Rightarrow> ('w, js, js) io" where
  "fetchPoster json stringify fetch target payload =
     bind_io
       (fetch target
         (JObj [(''method'', JStr ''POST''),
                (''headers'', JObj [(''content-type'', JStr ''application/json'')]),
                (''body'', JStr (stringify payload))]))
       (\<lambda>r. if \<not> fr_ok r then throw_io (http_error (fr_status r))
            else bind_io (fr_text r) (\<lambda>text. return_io (parseBody json text)))"

text \<open>The post a transport stands for.\<close>

fun transport_post ::
  "(js \<Rightarrow> ('w, js, js) io) \<Rightarrow> (string \<Rightarrow> js \<Rightarrow> string \<Rightarrow> ('w, js, js) io) \<Rightarrow>
   (string \<Rightarrow> js \<Rightarrow> ('w, js, js) io) \<Rightarrow> transport \<Rightarrow> js \<Rightarrow> ('w, js, js) io" where
  "transport_post explicit request poster ExplicitPost payload = explicit payload"
| "transport_post explicit request poster (HandlePost target) payload = request target payload ''post''"
| "transport_post explicit request poster (FetchPost target) payload = poster target payload"

definition probeNativeApi ::
  "(string \<Rightarrow> js \<Rightarrow> string \<Rightarrow> ('w, js, js) io) \<Rightarrow> ('w, js, bool) io" where
  "probeNativeApi request =
     bind_io (request ''wallet/getnowblock'' (JObj []) ''get'') (\<lambda>answer.
       return_io (is_object_like answer \<and> own_prop answer ''blockID'' \<noteq> JUndef))"

section \<open>Properties\<close>

lemma resolveEndpoint_ok:
  "resolveEndpoint parse gf tw ov env ex = Inr (d, tr) \<longleftrightarrow>
     (\<exists>hst raw org u. readRpcHandle tw = Inr hst \<and> chooseEndpoint hst ov env = (raw, org) \<and>
        validateEndpoint parse raw org = Inr u \<and>
        selectPost parse raw org u hst ex gf = Inr tr \<and>
        d = \<lparr>describe = scrubEndpoint u, origin = org\<rparr>)"
  by (auto simp: resolveEndpoint_def bind_sum_Inr case_prod_beta) (metis prod.collapse)

lemma validateEndpoint_ok:
  "validateEndpoint parse raw src = Inr u \<longleftrightarrow>
     parse raw = Some u \<and> (u_protocol u = ''http:'' \<or> u_protocol u = ''https:'') \<and>
     \<not> suffix ''/tre'' (stripTrailingSlashes (u_pathname u))"
  by (auto simp: validateEndpoint_def Let_def split: option.splits if_splits)

text \<open>
  The handle's client never crosses origins.  When the resolved transport is the client
  of the network's own handle, either the endpoint was derived from that handle and the
  request url is the relative \<open>jsonrpc\<close>, or the url it is given parses to the origin of the
  handle's own host.  So headers and credentials the client carries stay where they belong.
\<close>

theorem handle_client_stays_on_its_origin:
  assumes "resolveEndpoint parse gf tronWrap endpointOverride env explicit = Inr (d, HandlePost target)"
  shows "\<exists>hst. readRpcHandle tronWrap = Inr hst \<and>
    (if origin d = Derived then target = ''jsonrpc''
     else \<exists>h u. parse hst = Some h \<and> parse target = Some u \<and> u_origin h = u_origin u)"
proof -
  from assms obtain hst raw org u where h: "readRpcHandle tronWrap = Inr hst"
    and v: "validateEndpoint parse raw org = Inr u"
    and s: "selectPost parse raw org u hst explicit gf = Inr (HandlePost target)"
    and d: "origin d = org"
    by (auto simp: resolveEndpoint_ok)
  from v have "parse raw = Some u" by (simp add: validateEndpoint_ok)
  with s h d show ?thesis
    by (auto simp: selectPost_def isSameOriginAsHandle_def DERIVED_RPC_PATH_def
        split: if_splits option.splits)
qed

text \<open>
  There is no fallback between endpoint sources.  An endpoint that resolves came from
  the first source that is present (argument, then environment, then the handle), that
  source's text parsed, its scheme is http or https, its path is not the cheatcode
  namespace, and what is reported is the scrubbed form of exactly that url.
\<close>

theorem endpoint_without_fallback:
  assumes "resolveEndpoint parse gf tronWrap endpointOverride env explicit = Inr (d, tr)"
  shows "\<exists>hst u.
    readRpcHandle tronWrap = Inr hst \<and>
    parse (case endpointOverride of Some raw \<Rightarrow> raw
           | None \<Rightarrow> (case env RPC_URL_ENV_VAR of Some raw \<Rightarrow> raw
                     | None \<Rightarrow> stripTrailingSlashes hst @ ''/jsonrpc'')) = Some u \<and>
    origin d = (if endpointOverride \<noteq> None then FromArgument
                else if env RPC_URL_ENV_VAR \<noteq> None then FromEnvironment else Derived) \<and>
    u_protocol u \<in> {''http:'', ''https:''} \<and>
    \<not> suffix ''/tre'' (stripTrailingSlashes (u_pathname u)) \<and> describe d = scrubEndpoint u"
  using assms
  by (auto simp: resolveEndpoint_ok validateEndpoint_ok chooseEndpoint_def DERIVED_RPC_PATH_def
      split: option.splits)

definition demo_parse :: "string \<Rightarrow> url option" where
  "demo_parse raw =
     (if raw = ''http://u:p@node:8545/jsonrpc?k=1'' then
        Some \<lparr>u_protocol = ''http:'', u_username = ''u'', u_password = ''p'', u_hostname = ''node'',
              u_port = ''8545'', u_pathname = ''/jsonrpc'', u_search = ''?k=1'', u_hash = [],
              u_origin = ''http://node:8545''\<rparr>
      else if raw = ''http://node:8545'' then
        Some \<lparr>u_protocol = ''http:'', u_username = [], u_password = [], u_hostname = ''node'',
              u_port = ''8545'', u_pathname = ''/'', u_search = [], u_hash = [],
              u_origin = ''http://node:8545''\<rparr>
      else None)"

definition demo_handle :: host_value where
  "demo_handle =
     HObj [(''fullNode'', HObj [(''host'', HJs (JStr ''http://node:8545'')), (''request'', HJs JFun)])]"

lemma demo_resolves:
  "resolveEndpoint demo_parse True demo_handle (Some ''http://u:p@node:8545/jsonrpc?k=1'') (\<lambda>_. None) False
     = Inr (\<lparr>describe = ''http://node:8545/jsonrpc'', origin = FromArgument\<rparr>,
            HandlePost ''http://u:p@node:8545/jsonrpc?k=1'')"
  by code_simp

theorem handle_client_stays_on_its_origin_witness:
  "\<exists>h u. demo_parse ''http://node:8545'' = Some h \<and>
     demo_parse ''http://u:p@node:8545/jsonrpc?k=1'' = Some u \<and> u_origin h = u_origin u"
proof -
  have "readRpcHandle demo_handle = Inr ''http://node:8545''" by code_simp
  then show ?thesis using handle_client_stays_on_its_origin [OF demo_resolves] by simp
qed

theorem endpoint_without_fallback_witness:
  "\<exists>u. demo_parse ''http://u:p@node:8545/jsonrpc?k=1'' = Some u \<and>
     scrubEndpoint u = ''http://node:8545/jsonrpc''"
  using endpoint_without_fallback [OF demo_resolves] by auto

text \<open>
  The two HTTP transports agree on what a failed response is.  A non-2xx answer to the
  platform's \<open>fetch\<close> is rejected so that the envelope layer reads it as the same
  \<open>HttpStatus\<close> a rejection of the handle's client with \<open>response.status\<close> gives, and a body
  that is not JSON is resolved as text, which is the non-JSON failure.
\<close>

theorem fetch_failures_classify_alike:
  "(\<not> fr_ok r \<longrightarrow>
      map_prod (map_sum classifyRejection id) id
        (fetchPoster json stringify (\<lambda>u i. return_io r) target payload w) =
      (Inl (classifyRejection
         (JObj [(''response'', JObj [(''status'', JNum (NInt (int (fr_status r))))])])), w)) \<and>
   (\<forall>text w'. fr_ok r \<and> fr_text r w = (Inr text, w') \<and> json text = None \<longrightarrow>
      map_prod (map_sum id (\<lambda>b. validateEnvelope b n)) id
        (fetchPoster json stringify (\<lambda>u i. return_io r) target payload w) =
      (Inr (TransportFailure (NonJsonBody (excerpt_of text))), w'))"
  by (auto simp: fetchPoster_def http_error_def classifyRejection_def peek_def nullish_def Let_def
      parseBody_def validateEnvelope_def bind_io_def)

theorem fetch_failures_classify_alike_witness:
  "map_prod (map_sum classifyRejection id) id
     (fetchPoster (\<lambda>_. None) (\<lambda>_. []) (\<lambda>u i. return_io
        \<lparr>fr_ok = False, fr_status = 405, fr_text = return_io []\<rparr>) ''http://n/x'' JNull ()) =
   (Inl (HttpStatus (NInt 405)), ())"
proof -
  have "classifyRejection (JObj [(''response'', JObj [(''status'', JNum (NInt 405))])]) =
      HttpStatus (NInt 405)" by code_simp
  then show ?thesis
    using fetch_failures_classify_alike
      [of "\<lparr>fr_ok = False, fr_status = 405, fr_text = return_io []\<rparr>" "\<lambda>_. None" "\<lambda>_. []" "''http://n/x''" JNull "()"]
    by simp
qed

end
