(* ===== verification/ChainAccess.thy ===== *)
theory ChainAccess
  imports ChainEndpoint
begin

text \<open>
  \<open>chain/index.ts\<close>: the composite.  The capability probe that gates it, the fingerprint
  read once per instance, and the capability report.  An access is the state of its channel
  and the memo of its fingerprint; the promise memo is modelled for calls that settle one
  after another.
\<close>

section \<open>The capability probe\<close>

datatype access_error = AccessChain chain_error | JsonRpcUnavailable string bool chain_error

fun is_node_failure :: "chain_error \<Rightarrow> bool" where
  "is_node_failure (ChainTransport _ _ _) = True"
| "is_node_failure (ChainRpc _ _ _) = True"
| "is_node_failure (ChainResultShape _ _) = True"
| "is_node_failure _ = False"

text \<open>\<open>native\<close> is the reachability probe: its answer or its failure selects a wording only.\<close>

definition probeJsonRpc ::
  "'s provider \<Rightarrow> string \<Rightarrow> ('s, js, js) io \<Rightarrow> ('s, access_error, unit) io" where
  "probeJsonRpc send ep native s =
     (case send ''eth_chainId'' [] s of
        (Inr _, t) \<Rightarrow> (Inr (), t)
      | (Inl cause, t) \<Rightarrow>
          if \<not> is_node_failure cause then (Inl (AccessChain cause), t)
          else (case native t of
                 (answer, t') \<Rightarrow>
                   (Inl (JsonRpcUnavailable ep (answer = Inr (JBool True)) cause), t')))"

section \<open>The access\<close>

record 's access =
  acc_chan :: 's
  acc_memo :: "(chain_error + identity) option"

definition createChainAccess ::
  "(string \<Rightarrow> url option) \<Rightarrow> bool \<Rightarrow> host_value \<Rightarrow> string option \<Rightarrow> (string \<Rightarrow> string option) \<Rightarrow>
   bool \<Rightarrow> (transport \<Rightarrow> js \<Rightarrow> ('w, js, js) io) \<Rightarrow> ('w chan, js, js) io \<Rightarrow> 'w \<Rightarrow>
   (access_error + descriptor \<times> transport \<times> 'w chan access) \<times> 'w" where
  "createChainAccess parse globalFetch tronWrap endpointOverride env explicit post native w =
     (case resolveEndpoint parse globalFetch tronWrap endpointOverride env explicit of
        Inl e \<Rightarrow> (Inl (AccessChain e), w)
      | Inr (d, tr) \<Rightarrow>
          (case probeJsonRpc (provider_send (post tr) (describe d)) (describe d) native
                  \<lparr>next_id = 1, world = w\<rparr> of
             (Inl e, t) \<Rightarrow> (Inl e, world t)
           | (Inr _, t) \<Rightarrow> (Inr (d, tr, \<lparr>acc_chan = t, acc_memo = None\<rparr>), world t)))"

definition identity_call ::
  "'s provider \<Rightarrow> string \<Rightarrow> 's access \<Rightarrow> (chain_error + identity) \<times> 's access" where
  "identity_call send ep a =
     (case acc_memo a of
        Some r \<Rightarrow> (r, a)
      | None \<Rightarrow>
          (case readChainInstanceIdentity send ep (acc_chan a) of
             (r, t) \<Rightarrow> (r, \<lparr>acc_chan = t, acc_memo = Some r\<rparr>)))"

text \<open>\<open>n\<close> calls in a row, with the answers they gave.\<close>

fun identity_calls ::
  "'s provider \<Rightarrow> string \<Rightarrow> nat \<Rightarrow> 's access \<Rightarrow> (chain_error + identity) list \<times> 's access" where
  "identity_calls send ep 0 a = ([], a)"
| "identity_calls send ep (Suc n) a =
     (case identity_call send ep a of
        (r, a') \<Rightarrow> (case identity_calls send ep n a' of (rs, a'') \<Rightarrow> (r # rs, a'')))"

section \<open>The capability report\<close>

definition zeroTransactionHash :: string where "zeroTransactionHash = zeroSlotWord"

definition probeArguments :: "string \<Rightarrow> js list option" where
  "probeArguments m =
     (if m = ''eth_chainId'' then Some []
      else if m = ''web3_clientVersion'' then Some []
      else if m = ''eth_getCode'' then Some [JStr zeroChainAddress, JStr acceptedBlockTag]
      else if m = ''eth_getStorageAt''
        then Some [JStr zeroChainAddress, JStr (eip1967Slots Implementation), JStr acceptedBlockTag]
      else if m = ''eth_call'' then Some (call_params zeroChainAddress sel_owner)
      else if m = ''eth_getTransactionByHash'' then Some [JStr zeroTransactionHash]
      else if m = ''eth_getTransactionReceipt'' then Some [JStr zeroTransactionHash]
      else if m = ''eth_getBlockByNumber'' then Some [JStr ''0x0'', JBool False]
      else None)"

datatype verdict_detail =
    NoDetail | NoProbeArguments | MethodNotServed | ServedButRejected string
  | ProbeFailed chain_error

record verdict =
  v_method :: string
  v_ok :: bool
  v_detail :: verdict_detail

definition probeMethod :: "'s provider \<Rightarrow> string \<Rightarrow> ('s, chain_error, verdict) io" where
  "probeMethod send m =
     (case probeArguments m of
        None \<Rightarrow> return_io \<lparr>v_method = m, v_ok = False, v_detail = NoProbeArguments\<rparr>
      | Some params \<Rightarrow>
          catch_io
            (bind_io (send m params) (\<lambda>_. return_io \<lparr>v_method = m, v_ok = True, v_detail = NoDetail\<rparr>))
            (\<lambda>cause. case cause of
               ChainRpc _ payload _ \<Rightarrow>
                 (if classifyNodeError payload = MethodUnsupported
                  then return_io \<lparr>v_method = m, v_ok = False, v_detail = MethodNotServed\<rparr>
                  else return_io \<lparr>v_method = m, v_ok = True,
                         v_detail = ServedButRejected (pl_message payload)\<rparr>)
             | ChainTransport _ _ _ \<Rightarrow>
                 return_io \<lparr>v_method = m, v_ok = False, v_detail = ProbeFailed cause\<rparr>
             | ChainResultShape _ _ \<Rightarrow>
                 return_io \<lparr>v_method = m, v_ok = False, v_detail = ProbeFailed cause\<rparr>
             | _ \<Rightarrow> throw_io cause))"

definition probeRefusal :: "'s provider \<Rightarrow> string \<Rightarrow> ('s, chain_error, string \<times> bool) io" where
  "probeRefusal send m =
     bind_io
       (catch_io (bind_io (send m []) (\<lambda>_. return_io False))
         (\<lambda>cause. case cause of ChainMethodRefused _ \<Rightarrow> return_io True | _ \<Rightarrow> throw_io cause))
       (\<lambda>b. return_io (m, b))"

fun map_io :: "('a \<Rightarrow> ('s, 'e, 'b) io) \<Rightarrow> 'a list \<Rightarrow> ('s, 'e, 'b list) io" where
  "map_io f [] = return_io []"
| "map_io f (x # xs) = bind_io (f x) (\<lambda>y. bind_io (map_io f xs) (\<lambda>ys. return_io (y # ys)))"

definition verifyCapabilities ::
  "'s provider \<Rightarrow> ('s, chain_error, verdict list \<times> (string \<times> bool) list) io" where
  "verifyCapabilities send =
     bind_io (map_io (probeMethod send) requiredMethods) (\<lambda>vs.
       bind_io (map_io (probeRefusal send) refusedMethods) (\<lambda>rs. return_io (vs, rs)))"

section \<open>Facts\<close>

lemma map_io_ok:
  assumes "\<And>x s. x \<in> set xs \<Longrightarrow> \<exists>y t. f x s = (Inr y, t) \<and> P x y \<and> cnt t \<le> cnt s + k"
  shows "\<exists>ys t. map_io f xs s = (Inr ys, t) \<and> list_all2 P xs ys \<and> cnt t \<le> cnt s + k * length xs"
  using assms
proof (induction xs arbitrary: s)
  case Nil
  then show ?case by simp
next
  case (Cons x xs)
  from Cons.prems [of x s] obtain y u where y: "f x s = (Inr y, u)" "P x y" "cnt u \<le> cnt s + k"
    by auto
  from Cons.IH [of u] Cons.prems obtain ys t where
    ys: "map_io f xs u = (Inr ys, t)" "list_all2 P xs ys" "cnt t \<le> cnt u + k * length xs"
    by auto
  then have "map_io f (x # xs) s = (Inr (y # ys), t)"
    using y by (simp add: bind_io_def)
  then show ?case using y ys by auto
qed

lemma provider_send_errors:
  assumes "provider_send post ep m ps s = (Inl e, t)" and "policyFor m = Forward"
    and "blockTagVerdict m ps = None"
  shows "is_node_failure e"
  using assms
  by (auto simp: provider_send_def map_sum_Inl dest!: requireResultShape_err
      split: prod.splits rpc_outcome.splits if_splits)

lemma required_probes:
  "list_all (\<lambda>m. case probeArguments m of
       None \<Rightarrow> False
     | Some ps \<Rightarrow> policyFor m = Forward \<and> blockTagVerdict m ps = None) requiredMethods"
  by code_simp

lemma required_probe:
  assumes "m \<in> set requiredMethods"
  shows "\<exists>ps. probeArguments m = Some ps \<and> policyFor m = Forward \<and> blockTagVerdict m ps = None"
  using required_probes assms unfolding list_all_iff by (auto split: option.splits)

text \<open>What a verdict says: the method is served exactly when the node did not deny it.\<close>

definition serves :: "chain_error + js \<Rightarrow> bool" where
  "serves r = (case r of
     Inr _ \<Rightarrow> True
   | Inl (ChainRpc _ p _) \<Rightarrow> classifyNodeError p \<noteq> MethodUnsupported
   | Inl _ \<Rightarrow> False)"

lemma probeMethod_run:
  assumes "probeArguments m = Some ps" and "send m ps s = (r, t)"
    and "\<And>e. r = Inl e \<Longrightarrow> is_node_failure e"
  shows "\<exists>d. probeMethod send m s = (Inr \<lparr>v_method = m, v_ok = serves r, v_detail = d\<rparr>, t)"
proof (cases r)
  case (Inr v)
  then show ?thesis using assms
    by (simp add: probeMethod_def catch_io_def bind_io_def serves_def)
next
  case (Inl e)
  then show ?thesis using assms
    by (cases e) (simp_all add: probeMethod_def catch_io_def bind_io_def serves_def)
qed

lemma probeMethod_tron:
  assumes "m \<in> set requiredMethods"
  shows "\<exists>v t. probeMethod (provider_send post ep) m s = (Inr v, t) \<and> v_method v = m \<and>
    next_id t \<le> next_id s + 1"
proof -
  from required_probe [OF assms] obtain ps where
    ps: "probeArguments m = Some ps" "policyFor m = Forward" "blockTagVerdict m ps = None" by blast
  obtain r t where r: "provider_send post ep m ps s = (r, t)" by force
  have "\<And>e. r = Inl e \<Longrightarrow> is_node_failure e"
    using r by (auto intro: provider_send_errors [OF _ ps(2,3)])
  from probeMethod_run [where send = "provider_send post ep", OF ps(1) r this]
  obtain d where "probeMethod (provider_send post ep) m s =
      (Inr \<lparr>v_method = m, v_ok = serves r, v_detail = d\<rparr>, t)" by blast
  moreover have "next_id t \<le> Suc (next_id s)"
    using provider_send_next_id [of post ep m ps s] r by simp
  ultimately show ?thesis by auto
qed

lemma probeRefusal_tron:
  assumes "m \<in> set refusedMethods"
  shows "probeRefusal (provider_send post ep) m s = (Inr (m, True), s)"
proof -
  have "provider_send post ep m [] s = (Inl (ChainMethodRefused m), s)"
    using tron.refuses_method [of m] assms by (simp add: policyFor_def)
  then show ?thesis by (simp add: probeRefusal_def catch_io_def bind_io_def)
qed

lemma map_io_pure: "(\<And>x s. x \<in> set xs \<Longrightarrow> f x s = (Inr (g x), s)) \<Longrightarrow> map_io f xs s = (Inr (map g xs), s)"
  by (induction xs) (simp_all add: bind_io_def)

section \<open>Properties\<close>

text \<open>
  C12: a capability report is always produced, costs at most eight requests, and never claims
  a local refusal that did not happen.  Whatever the node answers, \<open>verifyCapabilities\<close>
  returns one verdict per required method in order, and both refused methods are reported
  refused, with no request made for them.
\<close>

theorem capability_report_total:
  "\<exists>vs t. verifyCapabilities (provider_send post ep) s =
       (Inr (vs, map (\<lambda>m. (m, True)) refusedMethods), t) \<and>
     map v_method vs = requiredMethods \<and> next_id t \<le> next_id s + 8"
proof -
  have "\<exists>vs t. map_io (probeMethod (provider_send post ep)) requiredMethods s = (Inr vs, t) \<and>
      list_all2 (\<lambda>m v. v_method v = m) requiredMethods vs \<and>
      next_id t \<le> next_id s + 1 * length requiredMethods"
    by (rule map_io_ok) (use probeMethod_tron in blast)
  then obtain vs t where vs: "map_io (probeMethod (provider_send post ep)) requiredMethods s = (Inr vs, t)"
    "list_all2 (\<lambda>m v. v_method v = m) requiredMethods vs" "next_id t \<le> next_id s + 8"
    by (auto simp: requiredMethods_def)
  have refused: "map_io (probeRefusal (provider_send post ep)) refusedMethods t =
      (Inr (map (\<lambda>m. (m, True)) refusedMethods), t)"
    by (rule map_io_pure) (rule probeRefusal_tron)
  have "map v_method vs = requiredMethods"
    using vs(2) by (induction rule: list_all2_induct) simp_all
  moreover have "verifyCapabilities (provider_send post ep) s =
      (Inr (vs, map (\<lambda>m. (m, True)) refusedMethods), t)"
    unfolding verifyCapabilities_def using vs(1) refused by (simp add: bind_io_def)
  ultimately show ?thesis using vs(3) by blast
qed

lemma identity_call_memo:
  "identity_call send ep a = (r, a') \<Longrightarrow> acc_memo a' = Some r"
  by (auto simp: identity_call_def split: option.splits prod.splits)

lemma identity_calls_memo:
  "acc_memo a = Some r \<Longrightarrow> identity_calls send ep n a = (replicate n r, a)"
  by (induction n) (simp_all add: identity_call_def)

text \<open>
  The fingerprint is read at most once per access.  Any number of calls of
  \<open>identity()\<close> costs at most three requests together and gives one and the same answer,
  a failure included.
\<close>

theorem identity_is_read_once:
  "\<exists>r. fst (identity_calls (provider_send post ep) ep n a) = replicate n r \<and>
     next_id (acc_chan (snd (identity_calls (provider_send post ep) ep n a))) \<le>
       next_id (acc_chan a) + 3"
proof (cases n)
  case 0
  then show ?thesis by simp
next
  case (Suc k)
  obtain r a' where call: "identity_call (provider_send post ep) ep a = (r, a')" by force
  have "next_id (acc_chan a') \<le> next_id (acc_chan a) + 3"
    using call costs_run [OF tron.costs_readChainInstanceIdentity, of post ep ep "acc_chan a"]
    by (auto simp: identity_call_def split: option.splits prod.splits)
  then show ?thesis
    using call identity_calls_memo [OF identity_call_memo [OF call], of "provider_send post ep" ep k]
    by (simp add: Suc)
qed

text \<open>
  No access exists without the probe.  \<open>createChainAccess\<close> succeeds only after the node
  answered \<open>eth_chainId\<close> with a positive hexadecimal quantity, and when the endpoint resolved
  but the node did not, the failure is the capability diagnosis, whatever the
  reachability probe did: that probe changes one boolean of the message.
\<close>

theorem access_is_gated_by_the_probe:
  assumes "resolveEndpoint parse gf tronWrap ov env explicit = Inr (d, tr)"
  shows "case provider_send (post tr) (describe d) ''eth_chainId'' [] \<lparr>next_id = 1, world = w\<rparr> of
      (Inr v, t) \<Rightarrow>
        createChainAccess parse gf tronWrap ov env explicit post native w =
          (Inr (d, tr, \<lparr>acc_chan = t, acc_memo = None\<rparr>), world t) \<and>
        (\<exists>x. v = JStr x \<and> HEX_QUANTITY x \<and> 0 < parse_hex (drop 2 x))
    | (Inl cause, t) \<Rightarrow>
        createChainAccess parse gf tronWrap ov env explicit post native w =
          (Inl (JsonRpcUnavailable (describe d) (fst (native t) = Inr (JBool True)) cause),
           world (snd (native t)))"
proof (cases "provider_send (post tr) (describe d) ''eth_chainId'' [] \<lparr>next_id = 1, world = w\<rparr>")
  case (Pair r t)
  show ?thesis
  proof (cases r)
    case (Inr v)
    have "\<exists>x. v = JStr x \<and> HEX_QUANTITY x \<and> 0 < parse_hex (drop 2 x)"
      using tron.answers_in_shape [OF Pair [unfolded Inr] string_rule_chainId] .
    then show ?thesis using Pair Inr assms
      by (simp add: createChainAccess_def probeJsonRpc_def)
  next
    case (Inl cause)
    have "is_node_failure cause"
      by (rule provider_send_errors [OF Pair [unfolded Inl]])
         (simp_all add: policyFor_def refusedMethods_def blockTagVerdict_def blockTagIndex_def)
    then show ?thesis using Pair Inl assms
      by (simp add: createChainAccess_def probeJsonRpc_def split: prod.split)
  qed
qed

theorem access_is_gated_by_the_probe_witness:
  "fst (createChainAccess demo_parse True demo_handle (Some ''http://u:p@node:8545/jsonrpc?k=1'')
     (\<lambda>_. None) False (\<lambda>tr q w. (Inr (JStr ''<html>''), w)) (\<lambda>s. (Inl JNull, s)) ()) =
   Inl (JsonRpcUnavailable ''http://node:8545/jsonrpc'' False
     (ChainTransport ''eth_chainId'' (NonJsonBody (Whole ''<html>'')) ''http://node:8545/jsonrpc''))"
proof -
  have "provider_send (\<lambda>q w. (Inr (JStr ''<html>''), w)) ''http://node:8545/jsonrpc'' ''eth_chainId'' []
      \<lparr>next_id = 1, world = ()\<rparr> =
    (Inl (ChainTransport ''eth_chainId'' (NonJsonBody (Whole ''<html>'')) ''http://node:8545/jsonrpc''),
     \<lparr>next_id = 2, world = ()\<rparr>)" by code_simp
  then show ?thesis
    using access_is_gated_by_the_probe [OF demo_resolves,
        where post = "\<lambda>tr q w. (Inr (JStr ''<html>''), w)" and w = "()"
          and native = "\<lambda>s. (Inl JNull, s)"] by simp
qed

end
