(* ===== verification/RecordAddress.thy ===== *)
theory RecordAddress
  imports ChainAccess
begin

text \<open>
  \<open>record/address.ts\<close>: the one canonical spelling of an address.  The base58check codec of
  the TRON library and the EIP-55 checksummer are code outside the repository: they are the
  fields of \<open>codec\<close>.  \<open>checksummer\<close> states what the code relies on: on lowercase digits the
  checksummer changes nothing but the case of letters.
\<close>

datatype address_cause =
  UnrecognisedEncoding | Base58Checksum | WrongLength | WrongPrefixByte | PostConversionShape

text \<open>The rejected value is kept as it was received.\<close>

datatype address_error = AddressNotCanonicalizable js address_cause

record codec =
  isAddress :: "string \<Rightarrow> bool"
  toHex :: "string \<Rightarrow> string"
  fromHex :: "string \<Rightarrow> string"
  getAddress :: "string \<Rightarrow> string"

definition checksummer :: "codec \<Rightarrow> bool" where
  "checksummer c \<longleftrightarrow>
     (\<forall>d. length d = 40 \<and> is_hex_digits d \<and> lower d = d \<longrightarrow>
        (\<exists>t. getAddress c (''0x'' @ d) = ''0x'' @ t \<and> lower t = d))"

section \<open>Shapes\<close>

definition hex40 :: "string \<Rightarrow> bool" where
  "hex40 d \<longleftrightarrow> length d = 40 \<and> is_hex_digits d"

definition EVM_HEX :: "string \<Rightarrow> bool" where
  "EVM_HEX v \<longleftrightarrow> prefix ''0x'' v \<and> hex40 (drop 2 v)"

definition TRON_HEX :: "string \<Rightarrow> bool" where
  "TRON_HEX v \<longleftrightarrow> prefix ''41'' v \<and> hex40 (drop 2 v)"

definition PREFIXED_HEX :: "string \<Rightarrow> bool" where
  "PREFIXED_HEX v \<longleftrightarrow> prefix ''0x'' v \<and> is_hex_digits (drop 2 v)"

definition BARE_HEX :: "string \<Rightarrow> bool" where
  "BARE_HEX v \<longleftrightarrow> v \<noteq> [] \<and> is_hex_digits v"

definition BASE58_SHAPE :: "string \<Rightarrow> bool" where
  "BASE58_SHAPE v \<longleftrightarrow> prefix ''T'' v \<and> drop 1 v \<noteq> [] \<and> list_all (\<lambda>c. c \<in> set base58_alphabet) (drop 1 v)"

definition HAS_LOWER_HEX_LETTER :: "string \<Rightarrow> bool" where
  "HAS_LOWER_HEX_LETTER s = list_ex (\<lambda>c. c \<in> set ''abcdef'') s"

definition HAS_UPPER_HEX_LETTER :: "string \<Rightarrow> bool" where
  "HAS_UPPER_HEX_LETTER s = list_ex (\<lambda>c. c \<in> set ''ABCDEF'') s"

section \<open>The mint\<close>

definition evmTailOf :: "codec \<Rightarrow> string \<Rightarrow> address_cause + string" where
  "evmTailOf c input =
     (if PREFIXED_HEX input then
        (let digits = drop 2 input
         in if length digits = 40 then Inr digits else Inl WrongLength)
      else if BARE_HEX input then
        (if length input \<noteq> 42 then Inl WrongLength
         else if \<not> prefix ''41'' input then Inl WrongPrefixByte
         else Inr (drop 2 input))
      else if BASE58_SHAPE input then
        (if length input \<noteq> 34 then Inl WrongLength
         else if \<not> isAddress c input then Inl Base58Checksum
         else let tronHex = toHex c input
              in if TRON_HEX tronHex then Inr (drop 2 tronHex) else Inl PostConversionShape)
      else Inl UnrecognisedEncoding)"

definition assertsChecksum :: "string \<Rightarrow> bool" where
  "assertsChecksum tail \<longleftrightarrow> HAS_LOWER_HEX_LETTER tail \<and> HAS_UPPER_HEX_LETTER tail"

definition checksummed :: "codec \<Rightarrow> string \<Rightarrow> string" where
  "checksummed c tail = getAddress c (''0x'' @ lower tail)"

definition mintFrom :: "codec \<Rightarrow> string \<Rightarrow> address_cause + string" where
  "mintFrom c input =
     bind_sum (evmTailOf c input) (\<lambda>tail.
       let address = checksummed c tail
       in if assertsChecksum tail \<and> ''0x'' @ tail \<noteq> address then Inl PostConversionShape
          else Inr address)"

definition canonicalizeAddress :: "codec \<Rightarrow> js \<Rightarrow> address_error + string" where
  "canonicalizeAddress c input =
     (case input of
        JStr s \<Rightarrow>
          (case mintFrom c s of
             Inl because \<Rightarrow> Inl (AddressNotCanonicalizable input because)
           | Inr address \<Rightarrow> Inr address)
      | _ \<Rightarrow> Inl (AddressNotCanonicalizable input UnrecognisedEncoding))"

definition tryCanonicalizeAddress :: "codec \<Rightarrow> js \<Rightarrow> string option" where
  "tryCanonicalizeAddress c input =
     (case input of
        JStr s \<Rightarrow> (case mintFrom c s of Inl _ \<Rightarrow> None | Inr address \<Rightarrow> Some address)
      | _ \<Rightarrow> None)"

definition isCanonicalAddress :: "codec \<Rightarrow> js \<Rightarrow> bool" where
  "isCanonicalAddress c v =
     (case v of JStr s \<Rightarrow> EVM_HEX s \<and> checksummed c (drop 2 s) = s | _ \<Rightarrow> False)"

definition assertCanonicalAddress :: "codec \<Rightarrow> js \<Rightarrow> address_error + string" where
  "assertCanonicalAddress c v =
     (case v of
        JStr s \<Rightarrow>
          if isCanonicalAddress c v then Inr s
          else bind_sum (canonicalizeAddress c v) (\<lambda>_.
                 Inl (AddressNotCanonicalizable v PostConversionShape))
      | _ \<Rightarrow> bind_sum (canonicalizeAddress c v) (\<lambda>_.
               Inl (AddressNotCanonicalizable v PostConversionShape)))"

definition toTronHex :: "string \<Rightarrow> string" where
  "toTronHex address = ''41'' @ drop 2 address"

definition toBase58 :: "codec \<Rightarrow> string \<Rightarrow> string" where
  "toBase58 c address = fromHex c (toTronHex address)"

section \<open>Facts\<close>

lemma evmTailOf_hex: "evmTailOf c s = Inr t \<Longrightarrow> hex40 t"
  by (auto simp: evmTailOf_def Let_def hex40_def PREFIXED_HEX_def BARE_HEX_def TRON_HEX_def
      is_hex_digits_drop split: if_splits)

lemma evmTailOf_evm: "hex40 d \<Longrightarrow> evmTailOf c (''0x'' @ d) = Inr d"
  by (simp add: evmTailOf_def PREFIXED_HEX_def hex40_def)

lemma evmTailOf_tron:
  assumes "hex40 d"
  shows "evmTailOf c (''41'' @ d) = Inr d"
proof -
  have "is_hex_digits (''41'' @ d)"
    using assms by (simp add: hex40_def is_hex_digits_def is_hex_char_def)
  moreover have "\<not> PREFIXED_HEX (''41'' @ d)" by (simp add: PREFIXED_HEX_def)
  ultimately show ?thesis using assms by (simp add: evmTailOf_def BARE_HEX_def hex40_def)
qed

lemma checksummed_form:
  assumes "checksummer c" and "hex40 d"
  obtains t where "checksummed c d = ''0x'' @ t" and "lower t = lower d" and "hex40 t"
proof -
  have "length (lower d) = 40" "is_hex_digits (lower d)" "lower (lower d) = lower d"
    using assms(2) by (simp_all add: hex40_def hex_simps)
  with assms(1) obtain t where t: "getAddress c (''0x'' @ lower d) = ''0x'' @ t" "lower t = lower d"
    unfolding checksummer_def by blast
  then have "hex40 t"
    using assms(2) by (metis hex40_def is_hex_digits_lower_iff length_lower)
  with t that show thesis by (simp add: checksummed_def)
qed

lemma checksummed_lower: "lower s = lower t \<Longrightarrow> checksummed c s = checksummed c t"
  by (simp add: checksummed_def)

lemma mintFrom_ok:
  "mintFrom c s = Inr a \<longleftrightarrow>
     (\<exists>t. evmTailOf c s = Inr t \<and> a = checksummed c t \<and> (assertsChecksum t \<longrightarrow> ''0x'' @ t = a))"
  by (auto simp: mintFrom_def bind_sum_Inr Let_def)

lemma mint_canonical:
  assumes "checksummer c" and "mintFrom c s = Inr a"
  shows "EVM_HEX a" and "checksummed c (drop 2 a) = a" and "mintFrom c a = Inr a"
proof -
  from assms(2) obtain t where t: "evmTailOf c s = Inr t" and a: "a = checksummed c t"
    by (auto simp: mintFrom_ok)
  from checksummed_form [OF assms(1) evmTailOf_hex [OF t]] obtain u where
    u: "a = ''0x'' @ u" "lower u = lower t" "hex40 u" by (metis a)
  then show "EVM_HEX a" by (simp add: EVM_HEX_def)
  show fp: "checksummed c (drop 2 a) = a"
    using u a checksummed_lower [of u t] by simp
  have "evmTailOf c a = Inr u" using u evmTailOf_evm [of u] by simp
  with fp u show "mintFrom c a = Inr a" by (auto simp: mintFrom_ok)
qed

lemma canonicalizeAddress_ok:
  "canonicalizeAddress c v = Inr a \<longleftrightarrow> (\<exists>s. v = JStr s \<and> mintFrom c s = Inr a)"
  by (cases v) (auto simp: canonicalizeAddress_def split: sum.split)

lemma tryCanonicalizeAddress_ok:
  "tryCanonicalizeAddress c v = Some a \<longleftrightarrow> (\<exists>s. v = JStr s \<and> mintFrom c s = Inr a)"
  by (cases v) (auto simp: tryCanonicalizeAddress_def split: sum.split)

lemma try_agrees: "tryCanonicalizeAddress c v = Some a \<longleftrightarrow> canonicalizeAddress c v = Inr a"
  by (simp add: tryCanonicalizeAddress_ok canonicalizeAddress_ok)

lemma isCanonicalAddress_mint:
  "checksummer c \<Longrightarrow> mintFrom c s = Inr a \<Longrightarrow> isCanonicalAddress c (JStr a)"
  by (simp add: isCanonicalAddress_def mint_canonical)

section \<open>The contract of a mint\<close>

text \<open>
  What a client that stores addresses relies on: minting a minted address gives it back.
  The law is conditional, because the checksummer is a parameter.
\<close>

locale address_mint =
  fixes law :: bool and mint :: "string \<Rightarrow> string option"
  assumes mint_idem: "law \<Longrightarrow> mint s = Some a \<Longrightarrow> mint a = Some a"
begin

lemma mint_range: "law \<Longrightarrow> (\<exists>s. mint s = Some a) \<longleftrightarrow> mint a = Some a"
  using mint_idem by blast

end

interpretation canonical: address_mint "checksummer c" "\<lambda>s. tryCanonicalizeAddress c (JStr s)" for c
  by unfold_locales (simp add: tryCanonicalizeAddress_ok mint_canonical(3))

section \<open>Properties\<close>

definition demo_codec :: codec where
  "demo_codec = \<lparr>isAddress = (\<lambda>s. s = ''TR7NHqjeKQxGTCi8q8ZY4pL8otSzgjLj6t''),
     toHex = (\<lambda>s. ''41a614f803b6fd780986a42c78ec9c7f77e6ded13c''),
     fromHex = (\<lambda>s. ''TR7NHqjeKQxGTCi8q8ZY4pL8otSzgjLj6t''),
     getAddress = (\<lambda>s. if s = ''0xa614f803b6fd780986a42c78ec9c7f77e6ded13c''
       then ''0xa614f803B6FD780986A42c78Ec9c7f77e6DeD13C'' else s)\<rparr>"

lemma demo_checksum_lower:
  "lower ''a614f803B6FD780986A42c78Ec9c7f77e6DeD13C'' = ''a614f803b6fd780986a42c78ec9c7f77e6ded13c''"
  by code_simp

lemma demo_codec_checksummer: "checksummer demo_codec"
  unfolding checksummer_def
proof (intro allI impI)
  fix d assume d: "length d = 40 \<and> is_hex_digits d \<and> lower d = d"
  show "\<exists>t. getAddress demo_codec (''0x'' @ d) = ''0x'' @ t \<and> lower t = d"
  proof (cases "d = ''a614f803b6fd780986a42c78ec9c7f77e6ded13c''")
    case True
    then show ?thesis
      by (intro exI [of _ "''a614f803B6FD780986A42c78Ec9c7f77e6DeD13C''"])
         (simp add: demo_codec_def demo_checksum_lower)
  next
    case False
    with d show ?thesis by (intro exI [of _ d]) (simp add: demo_codec_def)
  qed
qed

lemma demo_mint:
  "canonicalizeAddress demo_codec (JStr ''TR7NHqjeKQxGTCi8q8ZY4pL8otSzgjLj6t'') =
     Inr ''0xa614f803B6FD780986A42c78Ec9c7f77e6DeD13C''"
  by code_simp

text \<open>
  Canonicalization reaches a fixed point in one step.  Whatever accepted spelling came in,
  the address that comes out is canonical, is returned unchanged by both mints, passes the
  re-assertion at the record's boundary, and is usable in a request.
\<close>

theorem canonical_address_is_fixed_point:
  assumes "checksummer c" and "canonicalizeAddress c v = Inr a"
  shows "isCanonicalAddress c (JStr a) \<and> canonicalizeAddress c (JStr a) = Inr a \<and>
    tryCanonicalizeAddress c (JStr a) = Some a \<and> assertCanonicalAddress c (JStr a) = Inr a \<and>
    toRpcAddress a = Inr (''0x'' @ lower (drop 2 a))"
proof -
  from assms(2) obtain s where s: "mintFrom c s = Inr a" by (auto simp: canonicalizeAddress_ok)
  note m = mint_canonical [OF assms(1) s]
  from m(1) obtain d where d: "a = ''0x'' @ d" "hex40 d"
    by (auto simp: EVM_HEX_def prefix_def)
  then have "rpc_tail a = Some d" by (simp add: rpc_tail_def hex40_def strip_0x)
  then have "toRpcAddress a = Inr (''0x'' @ lower (drop 2 a))"
    using d by (simp add: toRpcAddress_tail)
  then show ?thesis
    using m isCanonicalAddress_mint [OF assms(1) s]
    by (simp add: canonicalizeAddress_ok tryCanonicalizeAddress_ok assertCanonicalAddress_def)
qed

theorem canonical_address_is_fixed_point_witness:
  "canonicalizeAddress demo_codec (JStr ''0xa614f803B6FD780986A42c78Ec9c7f77e6DeD13C'') =
     Inr ''0xa614f803B6FD780986A42c78Ec9c7f77e6DeD13C''"
  using canonical_address_is_fixed_point [OF demo_codec_checksummer demo_mint] by blast

text \<open>
  A mixed-case spelling is checked, a single-case one is not.  On 40 hexadecimal digits
  the mint answers the checksummed form, whichever of the \<open>0x\<close> and \<open>41\<close> prefixes carries
  them, except that digits in both cases which are not exactly that form are refused.
\<close>

theorem mixed_case_is_a_checksum_claim:
  assumes "length d = 40" and "is_hex_digits d"
  shows "canonicalizeAddress c (JStr (''0x'' @ d)) =
      (if HAS_LOWER_HEX_LETTER d \<and> HAS_UPPER_HEX_LETTER d \<and> getAddress c (''0x'' @ lower d) \<noteq> ''0x'' @ d
       then Inl (AddressNotCanonicalizable (JStr (''0x'' @ d)) PostConversionShape)
       else Inr (getAddress c (''0x'' @ lower d))) \<and>
    tryCanonicalizeAddress c (JStr (''41'' @ d)) = tryCanonicalizeAddress c (JStr (''0x'' @ d))"
proof -
  have h: "hex40 d" using assms by (simp add: hex40_def)
  show ?thesis
    using evmTailOf_evm [OF h, of c] evmTailOf_tron [OF h, of c]
    by (auto simp: canonicalizeAddress_def tryCanonicalizeAddress_def mintFrom_def Let_def
        assertsChecksum_def checksummed_def)
qed

theorem mixed_case_is_a_checksum_claim_witness:
  "canonicalizeAddress demo_codec (JStr (''0x'' @ ''A614f803b6fd780986a42c78ec9c7f77e6ded13c'')) =
     Inl (AddressNotCanonicalizable (JStr (''0x'' @ ''A614f803b6fd780986a42c78ec9c7f77e6ded13c''))
       PostConversionShape)"
proof -
  let ?d = "''A614f803b6fd780986a42c78ec9c7f77e6ded13c''"
  have len: "length ?d = 40" and hex: "is_hex_digits ?d"
    and low: "HAS_LOWER_HEX_LETTER ?d" and up: "HAS_UPPER_HEX_LETTER ?d"
    and neq: "getAddress demo_codec (''0x'' @ lower ?d) \<noteq> ''0x'' @ ?d"
    by code_simp+
  show ?thesis
    using conjunct1 [OF mixed_case_is_a_checksum_claim [OF len hex, of demo_codec]] low up neq by metis
qed

text \<open>
  Canonical addresses are equal exactly when the 20 bytes are.  Two accepted spellings
  of hexadecimal tails mint the same canonical address if and only if the tails agree up to
  casing, so record lookups by string equality neither miss nor collide.
\<close>

theorem canonical_equality_is_address_equality:
  assumes "checksummer c"
    and "canonicalizeAddress c (JStr (''0x'' @ d)) = Inr a"
    and "canonicalizeAddress c (JStr (''41'' @ e)) = Inr b"
  shows "(a = b) = (lower d = lower e) \<and> (a = b) = sameAddress a b"
proof -
  have "PREFIXED_HEX (''0x'' @ d)"
    using assms(2) by (auto simp: canonicalizeAddress_ok mintFrom_ok evmTailOf_def BARE_HEX_def
        BASE58_SHAPE_def is_hex_digits_def is_hex_char_def split: if_splits)
  then have d: "evmTailOf c (''0x'' @ d) = Inr d" "a = checksummed c d"
    using assms(2) by (auto simp: canonicalizeAddress_ok mintFrom_ok evmTailOf_def split: if_splits)
  have "\<not> PREFIXED_HEX (''41'' @ e)" "\<not> BASE58_SHAPE (''41'' @ e)"
    by (simp_all add: PREFIXED_HEX_def BASE58_SHAPE_def)
  then have e: "evmTailOf c (''41'' @ e) = Inr e" "b = checksummed c e"
    using assms(3) by (auto simp: canonicalizeAddress_ok mintFrom_ok evmTailOf_def split: if_splits)
  obtain u where u: "a = ''0x'' @ u" "lower u = lower d" "hex40 u"
    using checksummed_form [OF assms(1) evmTailOf_hex [OF d(1)]] d(2) by metis
  obtain v where v: "b = ''0x'' @ v" "lower v = lower e" "hex40 v"
    using checksummed_form [OF assms(1) evmTailOf_hex [OF e(1)]] e(2) by metis
  have eq: "(a = b) = (lower d = lower e)"
    using u v d(2) e(2) checksummed_lower [of d e c] by auto
  have "length (lower u) = 40" "is_hex_digits (lower u)"
    using u(3) by (simp_all add: hex40_def hex_simps)
  then have "sameAddress a b \<longleftrightarrow> lower u = lower v"
    using u(1) v(1) by (auto simp: sameAddress_iff strip_0x)
  with eq u v show ?thesis by simp
qed

theorem canonical_equality_is_address_equality_witness:
  "sameAddress ''0xa614f803B6FD780986A42c78Ec9c7f77e6DeD13C''
               ''0xa614f803B6FD780986A42c78Ec9c7f77e6DeD13C''"
proof -
  let ?d = "''A614F803B6FD780986A42C78EC9C7F77E6DED13C''"
  have "canonicalizeAddress demo_codec (JStr (''0x'' @ ?d)) =
      Inr ''0xa614f803B6FD780986A42c78Ec9c7f77e6DeD13C''"
    and "canonicalizeAddress demo_codec (JStr (''41'' @ ?d)) =
      Inr ''0xa614f803B6FD780986A42c78Ec9c7f77e6DeD13C''"
    by code_simp+
  from canonical_equality_is_address_equality [OF demo_codec_checksummer this] show ?thesis by simp
qed

end
