(* ===== verification/RecordManifest.thy ===== *)
theory RecordManifest
  imports RecordAddress
begin

text \<open>
  \<open>record/errors.ts\<close>, \<open>record/refusals.ts\<close> and \<open>record/manifest.ts\<close>: the errors of the
  record layer, the two wrappers that name them, and the record file.  The engine's
  \<open>Manifest\<close> class (\<open>@openzeppelin/upgrades-core\<close>) is code outside the repository: its
  operations are parameters, and what they throw is a \<open>foreign\<close> error.
\<close>

section \<open>Errors\<close>

record foreign =
  fe_code :: js
  fe_syntax :: bool
  fe_not_found :: bool
  fe_message :: string

datatype location_cause =
  AnchorNotAbsolute | ConfiguredValueRelative | ResolvedOutsideAnchor | SetTooLate

datatype fingerprint_cause =
  FpNotJson | FpNotAnObject | FpUnrecognisedSchema | FpChainIdUnusable | FpHashFieldUnusable
| FpUnexpectedKeys | FpUnreadableFile

datatype refusal_diagnosis = ProxiesLive | ProxiesAbsent | NoProxies | DiagnosisIndeterminate

datatype unreadable_cause = NotJson | ContentsRefused

record instance_change =
  ic_signal :: signal
  ic_recorded :: "string option"
  ic_observed :: "string option"
  ic_manifest :: string
  ic_count :: nat
  ic_endpoint :: string
  ic_sidecar :: string

text \<open>A wrapper keeps the error it wraps: its \<open>detail\<close> is that error's message.\<close>

datatype record_error =
    RecAddress address_error
  | RecChain chain_error
  | RecForeign foreign
  | RecLocation location_cause
  | RecFingerprint string fingerprint_cause refusal_diagnosis
  | RecInstanceChanged instance_change
  | RecUnreadable string unreadable_cause record_error
  | RecLocked string record_error
  | RecDefect

fun isLockContention :: "record_error \<Rightarrow> bool" where
  "isLockContention (RecForeign f) = (fe_code f = JStr ''ELOCKED'')"
| "isLockContention _ = False"

fun isSyntaxError :: "record_error \<Rightarrow> bool" where
  "isSyntaxError (RecForeign f) = fe_syntax f"
| "isSyntaxError _ = False"

definition throughRecordLock ::
  "string \<Rightarrow> ('s, record_error, 'a) io \<Rightarrow> ('s, record_error, 'a) io" where
  "throughRecordLock file action =
     catch_io action (\<lambda>e. if isLockContention e then throw_io (RecLocked file e) else throw_io e)"

definition throughRecordRead ::
  "string \<Rightarrow> ('s, record_error, 'a) io \<Rightarrow> ('s, record_error, 'a) io" where
  "throughRecordRead file action =
     catch_io action (\<lambda>e.
       if isLockContention e then throw_io (RecLocked file e)
       else throw_io (RecUnreadable file (if isSyntaxError e then NotJson else ContentsRefused) e))"

section \<open>The record\<close>

record impl_record =
  im_address :: string
  im_all :: "string list option"
  im_rest :: js

record proxy_record =
  px_address :: string
  px_kind :: string
  px_rest :: js

record admin_record =
  ad_address :: string
  ad_rest :: js

record manifest_data =
  md_impls :: "(string \<times> impl_record option) list"
  md_proxies :: "proxy_record list"
  md_admin :: "admin_record option"
  md_rest :: js

definition recordCount :: "manifest_data \<Rightarrow> nat" where
  "recordCount d =
     length (md_proxies d) + length (map fst (md_impls d)) + (if md_admin d = None then 0 else 1)"

section \<open>Migrating stored addresses\<close>

text \<open>The two counters of the pass, threaded through it: rewritten and unmigratable.\<close>

type_synonym counts = "nat \<times> nat"

definition migrate :: "(string \<Rightarrow> string option) \<Rightarrow> string \<Rightarrow> counts \<Rightarrow> string \<times> counts" where
  "migrate mint v n =
     (case mint v of
        None \<Rightarrow> (v, (fst n, snd n + 1))
      | Some a \<Rightarrow> (a, (if a \<noteq> v then (fst n + 1, snd n) else n)))"

fun map_count :: "('a \<Rightarrow> counts \<Rightarrow> 'b \<times> counts) \<Rightarrow> 'a list \<Rightarrow> counts \<Rightarrow> 'b list \<times> counts" where
  "map_count f [] n = ([], n)"
| "map_count f (x # xs) n =
     (case f x n of (y, n1) \<Rightarrow> (case map_count f xs n1 of (ys, n2) \<Rightarrow> (y # ys, n2)))"

definition migrate_impl ::
  "(string \<Rightarrow> string option) \<Rightarrow> string \<times> impl_record option \<Rightarrow> counts \<Rightarrow>
   (string \<times> impl_record option) \<times> counts" where
  "migrate_impl mint e n =
     (case snd e of
        None \<Rightarrow> (e, n)
      | Some im \<Rightarrow>
          (case migrate mint (im_address im) n of
             (a, n1) \<Rightarrow>
               (case im_all im of
                  None \<Rightarrow> ((fst e, Some (im\<lparr>im_address := a\<rparr>)), n1)
                | Some xs \<Rightarrow>
                    (case map_count (migrate mint) xs n1 of
                       (ys, n2) \<Rightarrow>
                         ((fst e, Some (im\<lparr>im_address := a, im_all := Some ys\<rparr>)), n2)))))"

definition migrate_proxy ::
  "(string \<Rightarrow> string option) \<Rightarrow> proxy_record \<Rightarrow> counts \<Rightarrow> proxy_record \<times> counts" where
  "migrate_proxy mint p n =
     (case migrate mint (px_address p) n of (a, n1) \<Rightarrow> (p\<lparr>px_address := a\<rparr>, n1))"

definition migrate_admin ::
  "(string \<Rightarrow> string option) \<Rightarrow> admin_record option \<Rightarrow> counts \<Rightarrow> admin_record option \<times> counts" where
  "migrate_admin mint ad n =
     (case ad of
        None \<Rightarrow> (None, n)
      | Some r \<Rightarrow> (case migrate mint (ad_address r) n of (a, n1) \<Rightarrow> (Some (r\<lparr>ad_address := a\<rparr>), n1)))"

record migration =
  mg_data :: manifest_data
  mg_rewritten :: nat
  mg_unmigratable :: nat

definition migrateStored :: "(string \<Rightarrow> string option) \<Rightarrow> manifest_data \<Rightarrow> migration" where
  "migrateStored mint d =
     (case map_count (migrate_impl mint) (md_impls d) (0, 0) of
        (impls, n1) \<Rightarrow>
          (case map_count (migrate_proxy mint) (md_proxies d) n1 of
             (proxies, n2) \<Rightarrow>
               (case migrate_admin mint (md_admin d) n2 of
                  (admin, n3) \<Rightarrow>
                    \<lparr>mg_data = d\<lparr>md_impls := impls, md_proxies := proxies, md_admin := admin\<rparr>,
                     mg_rewritten = fst n3, mg_unmigratable = snd n3\<rparr>)))"

definition canonicalizeStoredAddresses :: "codec \<Rightarrow> manifest_data \<Rightarrow> migration" where
  "canonicalizeStoredAddresses c d = migrateStored (\<lambda>s. tryCanonicalizeAddress c (JStr s)) d"

section \<open>The record behind the engine\<close>

text \<open>The engine's operations, over whatever state they act on.\<close>

record 's engine =
  en_file :: string
  en_read :: "('s, record_error, manifest_data) io"
  en_write :: "manifest_data \<Rightarrow> ('s, record_error, unit) io"
  en_locked :: "('s, record_error, migration) io \<Rightarrow> ('s, record_error, migration) io"
  en_proxy :: "string \<Rightarrow> ('s, record_error, proxy_record) io"
  en_impl :: "string \<Rightarrow> ('s, record_error, impl_record) io"
  en_add_proxy :: "string \<Rightarrow> string \<Rightarrow> ('s, record_error, unit) io"

text \<open>The chain id is validated before the engine is asked for a manifest of that number.\<close>

definition openRecordManifest ::
  "(nat \<Rightarrow> 's engine) \<Rightarrow> string \<Rightarrow> record_error + 's engine" where
  "openRecordManifest engine chainIdHex =
     (case requireResultShape ''eth_chainId'' (JStr chainIdHex) of
        Inl e \<Rightarrow> Inl (RecChain e)
      | Inr validated \<Rightarrow> Inr (engine (parse_hex (drop 2 validated))))"

fun is_not_found :: "record_error \<Rightarrow> bool" where
  "is_not_found (RecForeign f) = fe_not_found f"
| "is_not_found _ = False"

definition absentOrThrow :: "('s, record_error, 'a) io \<Rightarrow> ('s, record_error, 'a option) io" where
  "absentOrThrow lookup =
     catch_io (bind_io lookup (\<lambda>x. return_io (Some x)))
       (\<lambda>e. if is_not_found e then return_io None else throw_io e)"

definition asserted :: "codec \<Rightarrow> string \<Rightarrow> ('s, record_error, string) io" where
  "asserted c a = lift_io (map_sum RecAddress id (assertCanonicalAddress c (JStr a)))"

definition proxyRecord :: "codec \<Rightarrow> 's engine \<Rightarrow> string \<Rightarrow> ('s, record_error, proxy_record option) io" where
  "proxyRecord c en address = absentOrThrow (bind_io (asserted c address) (en_proxy en))"

definition implRecord :: "codec \<Rightarrow> 's engine \<Rightarrow> string \<Rightarrow> ('s, record_error, impl_record option) io" where
  "implRecord c en address = absentOrThrow (bind_io (asserted c address) (en_impl en))"

definition addProxyRecord :: "codec \<Rightarrow> 's engine \<Rightarrow> string \<Rightarrow> string \<Rightarrow> ('s, record_error, unit) io" where
  "addProxyRecord c en address kind =
     bind_io (asserted c address) (\<lambda>a. en_add_proxy en a kind)"

section \<open>The migration is a map over the stored addresses\<close>

definition impl_addresses :: "impl_record option \<Rightarrow> string list" where
  "impl_addresses e =
     (case e of None \<Rightarrow> [] | Some im \<Rightarrow>
        im_address im # (case im_all im of None \<Rightarrow> [] | Some xs \<Rightarrow> xs))"

definition addresses_of :: "manifest_data \<Rightarrow> string list" where
  "addresses_of d =
     concat (map (\<lambda>e. impl_addresses (snd e)) (md_impls d)) @
     map px_address (md_proxies d) @
     (case md_admin d of None \<Rightarrow> [] | Some a \<Rightarrow> [ad_address a])"

definition map_impl :: "(string \<Rightarrow> string) \<Rightarrow> impl_record \<Rightarrow> impl_record" where
  "map_impl f im = im\<lparr>im_address := f (im_address im), im_all := map_option (map f) (im_all im)\<rparr>"

definition map_addresses :: "(string \<Rightarrow> string) \<Rightarrow> manifest_data \<Rightarrow> manifest_data" where
  "map_addresses f d =
     d\<lparr>md_impls := map (map_prod id (map_option (map_impl f))) (md_impls d),
       md_proxies := map (\<lambda>p. p\<lparr>px_address := f (px_address p)\<rparr>) (md_proxies d),
       md_admin := map_option (\<lambda>a. a\<lparr>ad_address := f (ad_address a)\<rparr>) (md_admin d)\<rparr>"

definition minted :: "(string \<Rightarrow> string option) \<Rightarrow> string \<Rightarrow> string" where
  "minted mint v = (case mint v of None \<Rightarrow> v | Some a \<Rightarrow> a)"

definition tally :: "(string \<Rightarrow> string option) \<Rightarrow> string list \<Rightarrow> counts" where
  "tally mint vs =
     (length (filter (\<lambda>v. minted mint v \<noteq> v) vs), length (filter (\<lambda>v. mint v = None) vs))"

definition add_counts :: "counts \<Rightarrow> counts \<Rightarrow> counts" where
  "add_counts m n = (fst m + fst n, snd m + snd n)"

lemma add_counts_simps [simp]:
  "add_counts n (tally mint []) = n"
  "add_counts (add_counts n (tally mint xs)) (tally mint ys) = add_counts n (tally mint (xs @ ys))"
  by (simp_all add: add_counts_def tally_def)

lemma migrate_tally: "migrate mint v n = (minted mint v, add_counts n (tally mint [v]))"
  by (cases n) (simp add: migrate_def minted_def add_counts_def tally_def split: option.split)

lemma map_count_tally:
  assumes "\<And>x n. f x n = (g x, add_counts n (tally mint (vs x)))"
  shows "map_count f xs n = (map g xs, add_counts n (tally mint (concat (map vs xs))))"
  by (induction xs arbitrary: n) (simp_all add: assms)

lemma map_count_migrate:
  "map_count (migrate mint) xs n = (map (minted mint) xs, add_counts n (tally mint xs))"
  using map_count_tally [of "migrate mint" "minted mint" mint "\<lambda>v. [v]" xs n, OF migrate_tally]
  by simp

lemma migrate_impl_tally:
  "migrate_impl mint e n =
     (map_prod id (map_option (map_impl (minted mint))) e,
      add_counts n (tally mint (impl_addresses (snd e))))"
  by (cases e)
     (simp add: migrate_impl_def migrate_tally map_count_migrate map_impl_def impl_addresses_def
       split: option.split)

lemma migrate_proxy_tally:
  "migrate_proxy mint p n =
     (p\<lparr>px_address := minted mint (px_address p)\<rparr>, add_counts n (tally mint [px_address p]))"
  by (simp add: migrate_proxy_def migrate_tally)

lemma migrate_admin_tally:
  "migrate_admin mint ad n =
     (map_option (\<lambda>a. a\<lparr>ad_address := minted mint (ad_address a)\<rparr>) ad,
      add_counts n (tally mint (case ad of None \<Rightarrow> [] | Some a \<Rightarrow> [ad_address a])))"
  by (simp add: migrate_admin_def migrate_tally split: option.split)

lemma add_counts_zero [simp]: "add_counts (0, 0) n = n"
  by (simp add: add_counts_def)

lemma migrateStored_map:
  "migrateStored mint d =
     \<lparr>mg_data = map_addresses (minted mint) d,
      mg_rewritten = length (filter (\<lambda>v. minted mint v \<noteq> v) (addresses_of d)),
      mg_unmigratable = length (filter (\<lambda>v. mint v = None) (addresses_of d))\<rparr>"
proof -
  have proxies: "map_count (migrate_proxy mint) ps n =
      (map (\<lambda>p. p\<lparr>px_address := minted mint (px_address p)\<rparr>) ps,
       add_counts n (tally mint (map px_address ps)))" for ps n
    using map_count_tally [of "migrate_proxy mint", OF migrate_proxy_tally, of ps n] by simp
  show ?thesis
    unfolding migrateStored_def map_count_tally [OF migrate_impl_tally] proxies migrate_admin_tally
    by (simp add: map_addresses_def addresses_of_def tally_def add_counts_def)
qed

lemma impl_addresses_map: "impl_addresses (map_option (map_impl f) e) = map f (impl_addresses e)"
  by (simp add: impl_addresses_def map_impl_def split: option.split)

lemma map_impl_comp: "map_impl f (map_impl g im) = map_impl (\<lambda>v. f (g v)) im"
  by (simp add: map_impl_def option.map_comp comp_def)

lemma map_impl_cong:
  "(\<And>v. v \<in> set (impl_addresses e) \<Longrightarrow> f v = g v) \<Longrightarrow>
     map_option (map_impl f) e = map_option (map_impl g) e"
  by (cases e; cases "im_all (the e)") (simp_all add: impl_addresses_def map_impl_def)

lemma map_impl_id: "map_impl (\<lambda>v. v) = (\<lambda>im. im)"
  by (rule ext) (simp add: map_impl_def option.map_ident)

lemma impl_entry_comp:
  "map_prod id (map_option (map_impl f)) (map_prod id (map_option (map_impl g)) x) =
     map_prod id (map_option (map_impl (\<lambda>v. f (g v)))) x"
  by (cases x; cases "snd x") (simp_all add: map_impl_comp)

lemma impl_entry_id: "map_prod id (map_option (map_impl (\<lambda>v. v))) x = x"
  by (cases x; cases "snd x") (simp_all add: map_impl_id)

lemma addresses_of_map: "addresses_of (map_addresses f d) = map f (addresses_of d)"
  by (simp add: addresses_of_def map_addresses_def map_concat comp_def impl_addresses_map
      split: option.split)

lemma map_addresses_comp: "map_addresses f (map_addresses g d) = map_addresses (\<lambda>v. f (g v)) d"
  by (simp add: map_addresses_def comp_def option.map_comp impl_entry_comp)

lemma map_addresses_cong:
  assumes "\<And>v. v \<in> set (addresses_of d) \<Longrightarrow> f v = g v"
  shows "map_addresses f d = map_addresses g d"
proof -
  have impls: "map (map_prod id (map_option (map_impl f))) (md_impls d) =
      map (map_prod id (map_option (map_impl g))) (md_impls d)"
  proof (rule map_cong [OF refl])
    fix e assume "e \<in> set (md_impls d)"
    then have "map_option (map_impl f) (snd e) = map_option (map_impl g) (snd e)"
      using assms by (intro map_impl_cong) (auto simp: addresses_of_def)
    then show "map_prod id (map_option (map_impl f)) e = map_prod id (map_option (map_impl g)) e"
      by (cases e) simp
  qed
  have proxies: "map (\<lambda>p. p\<lparr>px_address := f (px_address p)\<rparr>) (md_proxies d) =
      map (\<lambda>p. p\<lparr>px_address := g (px_address p)\<rparr>) (md_proxies d)"
    using assms by (intro map_cong [OF refl]) (simp add: addresses_of_def)
  have admin: "map_option (\<lambda>a. a\<lparr>ad_address := f (ad_address a)\<rparr>) (md_admin d) =
      map_option (\<lambda>a. a\<lparr>ad_address := g (ad_address a)\<rparr>) (md_admin d)"
    using assms by (cases "md_admin d") (simp_all add: addresses_of_def)
  show ?thesis unfolding map_addresses_def impls proxies admin ..
qed

lemma map_addresses_id: "map_addresses (\<lambda>v. v) d = d"
  by (simp add: map_addresses_def impl_entry_id option.map_ident cong: map_cong)

lemma map_fixed: "map f xs = xs \<longleftrightarrow> (\<forall>x\<in>set xs. f x = x)"
  by (induction xs) auto

lemma map_addresses_unchanged:
  "map_addresses f d = d \<longleftrightarrow> (\<forall>v\<in>set (addresses_of d). f v = v)"
proof
  assume "map_addresses f d = d"
  then have "map f (addresses_of d) = addresses_of d" by (metis addresses_of_map)
  then show "\<forall>v\<in>set (addresses_of d). f v = v" by (simp add: map_fixed)
next
  assume "\<forall>v\<in>set (addresses_of d). f v = v"
  then have "map_addresses f d = map_addresses (\<lambda>v. v) d" by (intro map_addresses_cong) simp
  then show "map_addresses f d = d" by (simp add: map_addresses_id)
qed

context address_mint
begin

lemma minted_idem: "law \<Longrightarrow> minted mint (minted mint v) = minted mint v"
  using mint_idem by (auto simp: minted_def split: option.split)

lemma minted_None: "law \<Longrightarrow> mint (minted mint v) = None \<longleftrightarrow> mint v = None"
  using mint_idem by (auto simp: minted_def split: option.split)

lemma migrateStored_idem:
  assumes law
  shows "migrateStored mint (mg_data (migrateStored mint d)) =
    \<lparr>mg_data = mg_data (migrateStored mint d), mg_rewritten = 0,
     mg_unmigratable = mg_unmigratable (migrateStored mint d)\<rparr>"
  using assms
  by (simp add: migrateStored_map addresses_of_map map_addresses_comp comp_def filter_map
      minted_idem minted_None)

end

section \<open>Properties\<close>

abbreviation canonical_mint :: "codec \<Rightarrow> string \<Rightarrow> string option" where
  "canonical_mint c \<equiv> (\<lambda>s. tryCanonicalizeAddress c (JStr s))"

text \<open>
  The migration rewrites stored addresses and nothing else.  The migrated record is the
  record with the mint applied to every stored address (an address that cannot be minted
  stays as it is), its counters are exactly how many addresses changed and how many could
  not be minted, "nothing rewritten" means the record is untouched, and the number of
  deployments is preserved.
\<close>

theorem migration_is_a_map:
  "mg_data (canonicalizeStoredAddresses c d) = map_addresses (minted (canonical_mint c)) d \<and>
   mg_rewritten (canonicalizeStoredAddresses c d) =
     length (filter (\<lambda>v. minted (canonical_mint c) v \<noteq> v) (addresses_of d)) \<and>
   mg_unmigratable (canonicalizeStoredAddresses c d) =
     length (filter (\<lambda>v. canonicalizeAddress c (JStr v) = Inl
        (AddressNotCanonicalizable (JStr v) (projl (mintFrom c v)))) (addresses_of d)) \<and>
   (mg_rewritten (canonicalizeStoredAddresses c d) = 0) =
     (mg_data (canonicalizeStoredAddresses c d) = d) \<and>
   recordCount (mg_data (canonicalizeStoredAddresses c d)) = recordCount d"
proof -
  have bad: "canonical_mint c v = None \<longleftrightarrow> canonicalizeAddress c (JStr v) = Inl
        (AddressNotCanonicalizable (JStr v) (projl (mintFrom c v)))" for v
    by (simp add: tryCanonicalizeAddress_def canonicalizeAddress_def split: sum.split)
  have "(length (filter (\<lambda>v. minted (canonical_mint c) v \<noteq> v) (addresses_of d)) = 0) =
      (map_addresses (minted (canonical_mint c)) d = d)"
    by (simp add: map_addresses_unchanged filter_empty_conv)
  moreover have "recordCount (map_addresses f d) = recordCount d" for f
    by (simp add: recordCount_def map_addresses_def)
  ultimately show ?thesis
    unfolding canonicalizeStoredAddresses_def migrateStored_map by (simp add: bad)
qed

text \<open>
  Migrating twice is migrating once.  On a record this version has migrated, the pass
  finds nothing to rewrite, so the steady-state run takes no lock and writes nothing.
\<close>

theorem migration_is_idempotent:
  assumes "checksummer c"
  shows "canonicalizeStoredAddresses c (mg_data (canonicalizeStoredAddresses c d)) =
    \<lparr>mg_data = mg_data (canonicalizeStoredAddresses c d), mg_rewritten = 0,
     mg_unmigratable = mg_unmigratable (canonicalizeStoredAddresses c d)\<rparr>"
  unfolding canonicalizeStoredAddresses_def by (rule canonical.migrateStored_idem [OF assms])

definition demo_record :: manifest_data where
  "demo_record = \<lparr>md_impls = [(''v1'', Some \<lparr>im_address = ''41a614f803b6fd780986a42c78ec9c7f77e6ded13c'',
       im_all = Some [''nonsense''], im_rest = JNull\<rparr>)],
     md_proxies = [\<lparr>px_address = ''0xa614f803b6fd780986a42c78ec9c7f77e6ded13c'', px_kind = ''uups'',
       px_rest = JNull\<rparr>],
     md_admin = None, md_rest = JNull\<rparr>"

theorem migration_is_idempotent_witness:
  "mg_rewritten (canonicalizeStoredAddresses demo_codec demo_record) = 2 \<and>
   mg_rewritten (canonicalizeStoredAddresses demo_codec
     (mg_data (canonicalizeStoredAddresses demo_codec demo_record))) = 0"
proof -
  have "mg_rewritten (canonicalizeStoredAddresses demo_codec demo_record) = 2" by code_simp
  then show ?thesis using migration_is_idempotent [OF demo_codec_checksummer, of demo_record] by simp
qed

text \<open>
  No raw engine error leaves a record read.  A call through \<open>throughRecordRead\<close> either
  gives the action's own value and state, or fails with one of the two named errors, locked
  exactly when the cause carried \<open>ELOCKED\<close>, unreadable otherwise; and the lock-only wrapper
  changes no other error.
\<close>

theorem record_errors_are_named:
  "throughRecordRead file action s =
     (case action s of
        (Inr x, t) \<Rightarrow> (Inr x, t)
      | (Inl e, t) \<Rightarrow>
          (Inl (if \<exists>f. e = RecForeign f \<and> fe_code f = JStr ''ELOCKED'' then RecLocked file e
                else if \<exists>f. e = RecForeign f \<and> fe_syntax f then RecUnreadable file NotJson e
                else RecUnreadable file ContentsRefused e), t)) \<and>
   throughRecordLock file action s =
     (case action s of
        (Inr x, t) \<Rightarrow> (Inr x, t)
      | (Inl e, t) \<Rightarrow>
          (Inl (if \<exists>f. e = RecForeign f \<and> fe_code f = JStr ''ELOCKED'' then RecLocked file e else e), t))"
proof -
  have l: "isLockContention e \<longleftrightarrow> (\<exists>f. e = RecForeign f \<and> fe_code f = JStr ''ELOCKED'')" for e
    by (cases e) simp_all
  have y: "isSyntaxError e \<longleftrightarrow> (\<exists>f. e = RecForeign f \<and> fe_syntax f)" for e
    by (cases e) simp_all
  show ?thesis
    unfolding throughRecordRead_def throughRecordLock_def catch_io_def l [symmetric] y [symmetric]
    by (auto split: prod.split sum.split)
qed

lemma asserted_run:
  "asserted c a s =
     (if isCanonicalAddress c (JStr a) then Inr a
      else Inl (RecAddress (case mintFrom c a of
        Inl w \<Rightarrow> AddressNotCanonicalizable (JStr a) w
      | Inr _ \<Rightarrow> AddressNotCanonicalizable (JStr a) PostConversionShape)), s)"
  by (simp add: asserted_def assertCanonicalAddress_def canonicalizeAddress_def split: sum.split)

text \<open>
  Only the engine's own "not found" is read as an absent record, and an address that is
  not canonical never reaches the engine.  A proxy lookup answers "none" exactly when the
  address is canonical and the engine raised not-found for it; every other engine failure
  propagates, and an un-minted address fails without the engine being asked.
\<close>

theorem lookup_absence_is_not_found:
  "(proxyRecord c en a s = (Inr None, t)) =
     (isCanonicalAddress c (JStr a) \<and> (\<exists>f. en_proxy en a s = (Inl (RecForeign f), t) \<and> fe_not_found f)) \<and>
   (proxyRecord c en a s = (Inr (Some p), t)) =
     (isCanonicalAddress c (JStr a) \<and> en_proxy en a s = (Inr p, t)) \<and>
   (if isCanonicalAddress c (JStr a) then True
    else (\<exists>w. proxyRecord c en a s = (Inl (RecAddress w), s)))"
proof -
  have nf: "is_not_found e \<longleftrightarrow> (\<exists>f. e = RecForeign f \<and> fe_not_found f)" for e
    by (cases e) simp_all
  show ?thesis
  proof (cases "isCanonicalAddress c (JStr a)")
    case True
    obtain r u where r: "en_proxy en a s = (r, u)" by force
    have run: "proxyRecord c en a s =
        (case r of Inr x \<Rightarrow> (Inr (Some x), u)
         | Inl e \<Rightarrow> (if is_not_found e then (Inr None, u) else (Inl e, u)))"
      using True r
      by (simp add: proxyRecord_def absentOrThrow_def catch_io_def bind_io_def asserted_run
          split: sum.split)
    show ?thesis using True r unfolding run nf by (cases r) auto
  next
    case False
    then have "\<exists>w. proxyRecord c en a s = (Inl (RecAddress w), s)"
      by (simp add: proxyRecord_def absentOrThrow_def catch_io_def bind_io_def asserted_run)
    with False show ?thesis by auto
  qed
qed


end
