(* ===== verification/RecordSidecar.thy ===== *)
theory RecordSidecar
  imports RecordManifest
begin

text \<open>
  \<open>record/location.ts\<close> and \<open>record/sidecar.ts\<close>: where the record lives, and the fingerprint
  file beside it.  The path functions and the file operations of the platform, and its JSON
  functions, are parameters; \<open>atomic_files\<close> and \<open>json_faithful\<close> state the documented
  behaviour the properties rely on.
\<close>

section \<open>Where the record lives\<close>

record paths =
  isAbsolute :: "string \<Rightarrow> bool"
  join :: "string list \<Rightarrow> string"
  dirname :: "string \<Rightarrow> string"
  basename :: "string \<Rightarrow> string"
  basename_ext :: "string \<Rightarrow> string \<Rightarrow> string"
  relative :: "string \<Rightarrow> string \<Rightarrow> string"

type_synonym env = "string \<Rightarrow> string option"

definition MANIFEST_DIR_VAR :: string where
  "MANIFEST_DIR_VAR = ''MANIFEST_DEFAULT_DIR''"

definition configureRecordLocation ::
  "paths \<Rightarrow> string \<Rightarrow> env \<Rightarrow> (record_error + string) \<times> env" where
  "configureRecordLocation ps root env =
     (case env MANIFEST_DIR_VAR of
        Some (c # cs) \<Rightarrow>
          (if \<not> isAbsolute ps (c # cs) then (Inl (RecLocation ConfiguredValueRelative), env)
           else (Inr (c # cs), env))
      | _ \<Rightarrow>
          (let dir = join ps [root, ''.openzeppelin'']
           in if \<not> isAbsolute ps dir then (Inl (RecLocation AnchorNotAbsolute), env)
              else (Inr dir, env(MANIFEST_DIR_VAR \<mapsto> dir))))"

definition assertRecordLocation :: "paths \<Rightarrow> string \<Rightarrow> string \<Rightarrow> record_error + string" where
  "assertRecordLocation ps dir manifestFile =
     (if \<not> isAbsolute ps manifestFile then Inl (RecLocation SetTooLate)
      else if relative ps (dirname ps manifestFile) dir \<noteq> []
        then Inl (RecLocation ResolvedOutsideAnchor)
      else Inr manifestFile)"

section \<open>The fingerprint file\<close>

definition fingerprintPathFor :: "paths \<Rightarrow> string \<Rightarrow> string" where
  "fingerprintPathFor ps manifestFile =
     join ps [dirname ps manifestFile, basename_ext ps manifestFile ''.json'' @ ''.instance.json'']"

record fingerprint =
  fp_schema :: int
  fp_chain :: string
  fp_genesis :: string
  fp_first :: "string option"

definition FINGERPRINT_SCHEMA :: int where "FINGERPRINT_SCHEMA = 1"

definition fingerprintFor :: "identity \<Rightarrow> fingerprint" where
  "fingerprintFor i =
     \<lparr>fp_schema = FINGERPRINT_SCHEMA, fp_chain = id_chain i, fp_genesis = id_genesis i,
      fp_first = id_first i\<rparr>"

definition fingerprint_json :: "fingerprint \<Rightarrow> js" where
  "fingerprint_json r =
     JObj [(''schema'', JNum (NInt (fp_schema r))), (''chainId'', JStr (fp_chain r)),
           (''genesisHash'', JStr (fp_genesis r)),
           (''firstBlockHash'', case fp_first r of None \<Rightarrow> JNull | Some h \<Rightarrow> JStr h)]"

definition persistable :: "fingerprint \<Rightarrow> bool" where
  "persistable r \<longleftrightarrow>
     BLOCK_HASH (fp_genesis r) \<and> (case fp_first r of None \<Rightarrow> True | Some h \<Rightarrow> BLOCK_HASH h)"

record 'w files =
  mkdir :: "string \<Rightarrow> ('w, record_error, unit) io"
  readFile :: "string \<Rightarrow> ('w, foreign, string) io"
  writeFile :: "string \<Rightarrow> string \<Rightarrow> ('w, record_error, unit) io"
  rename :: "string \<Rightarrow> string \<Rightarrow> ('w, record_error, unit) io"

definition temp_path :: "paths \<Rightarrow> nat \<Rightarrow> string \<Rightarrow> string" where
  "temp_path ps pid file =
     join ps [dirname ps file, ''.'' @ basename ps file @ ''.'' @ decimal pid @ ''.tmp'']"

definition writeFingerprint ::
  "paths \<Rightarrow> 'w files \<Rightarrow> (js \<Rightarrow> string) \<Rightarrow> nat \<Rightarrow> string \<Rightarrow> fingerprint \<Rightarrow> ('w, record_error, unit) io" where
  "writeFingerprint ps fs stringify pid file r =
     (if \<not> persistable r then throw_io RecDefect
      else bind_io (mkdir fs (dirname ps file)) (\<lambda>_.
           bind_io (writeFile fs (temp_path ps pid file)
                      (stringify (fingerprint_json r) @ [CHR 0x0A])) (\<lambda>_.
           rename fs (temp_path ps pid file) file)))"

section \<open>Reading it back\<close>

datatype fingerprint_read = FpAbsent | FpUnreadable fingerprint_cause | FpRecord recorded

definition HEX_QUANTITY_ANY :: "string \<Rightarrow> bool" where
  "HEX_QUANTITY_ANY v \<longleftrightarrow> prefix ''0x'' v \<and> drop 2 v \<noteq> [] \<and> is_hex_digits (drop 2 v)"

definition FINGERPRINT_KEYS :: "string list" where
  "FINGERPRINT_KEYS = [''schema'', ''chainId'', ''genesisHash'', ''firstBlockHash'']"

fun block_hash_of :: "js \<Rightarrow> string option" where
  "block_hash_of (JStr h) = (if BLOCK_HASH h then Some h else None)"
| "block_hash_of _ = None"

definition validateFingerprint :: "js \<Rightarrow> fingerprint_read" where
  "validateFingerprint raw =
     (case raw of
        JObj ps \<Rightarrow>
          if own_prop raw ''schema'' \<noteq> JNum (NInt FINGERPRINT_SCHEMA)
            then FpUnreadable FpUnrecognisedSchema
          else if list_ex (\<lambda>k. k \<notin> set FINGERPRINT_KEYS) (own_keys raw)
            then FpUnreadable FpUnexpectedKeys
          else (case own_prop raw ''chainId'' of
              JStr c \<Rightarrow>
                if \<not> HEX_QUANTITY_ANY c then FpUnreadable FpChainIdUnusable
                else if has_own raw ''genesisHash'' \<and> block_hash_of (own_prop raw ''genesisHash'') = None
                  then FpUnreadable FpHashFieldUnusable
                else if has_own raw ''firstBlockHash'' \<and> own_prop raw ''firstBlockHash'' \<noteq> JNull \<and>
                    block_hash_of (own_prop raw ''firstBlockHash'') = None
                  then FpUnreadable FpHashFieldUnusable
                else FpRecord
                  \<lparr>rec_chain = c,
                   rec_genesis = (if has_own raw ''genesisHash''
                      then block_hash_of (own_prop raw ''genesisHash'') else None),
                   rec_first = (if has_own raw ''firstBlockHash''
                      then Some (block_hash_of (own_prop raw ''firstBlockHash'')) else None)\<rparr>
            | _ \<Rightarrow> FpUnreadable FpChainIdUnusable)
      | _ \<Rightarrow> FpUnreadable FpNotAnObject)"

definition isFileAbsent :: "foreign \<Rightarrow> bool" where
  "isFileAbsent f \<longleftrightarrow> fe_code f = JStr ''ENOENT''"

definition readFingerprint ::
  "'w files \<Rightarrow> (string \<Rightarrow> js option) \<Rightarrow> string \<Rightarrow> 'w \<Rightarrow> fingerprint_read \<times> 'w" where
  "readFingerprint fs json file w =
     (case readFile fs file w of
        (Inl f, w') \<Rightarrow>
          ((if isFileAbsent f then FpAbsent
            else FpUnreadable (if fe_syntax f then FpNotJson else FpUnreadableFile)), w')
      | (Inr text, w') \<Rightarrow>
          ((case json text of
              None \<Rightarrow> FpUnreadable FpNotJson
            | Some parsed \<Rightarrow> validateFingerprint parsed), w'))"

section \<open>Facts\<close>

text \<open>The documented behaviour of the file operations, over a view of file contents.\<close>

definition atomic_files :: "'w files \<Rightarrow> ('w \<Rightarrow> string \<Rightarrow> string option) \<Rightarrow> bool" where
  "atomic_files fs content \<longleftrightarrow>
     (\<forall>d w. content (snd (mkdir fs d w)) = content w) \<and>
     (\<forall>p s w q. q \<noteq> p \<longrightarrow> content (snd (writeFile fs p s w)) q = content w q) \<and>
     (\<forall>p s w w'. writeFile fs p s w = (Inr (), w') \<longrightarrow> content w' p = Some s) \<and>
     (\<forall>a b w w'. rename fs a b w = (Inr (), w') \<longrightarrow> content w' b = content w a) \<and>
     (\<forall>a b w e w'. rename fs a b w = (Inl e, w') \<longrightarrow> content w' = content w) \<and>
     (\<forall>p w s. content w p = Some s \<longrightarrow> readFile fs p w = (Inr s, w))"

definition json_faithful :: "(js \<Rightarrow> string) \<Rightarrow> (string \<Rightarrow> js option) \<Rightarrow> js \<Rightarrow> bool" where
  "json_faithful stringify json v \<longleftrightarrow> json (stringify v @ [CHR 0x0A]) = Some v"

definition recorded_of :: "fingerprint \<Rightarrow> recorded" where
  "recorded_of r = \<lparr>rec_chain = fp_chain r, rec_genesis = Some (fp_genesis r), rec_first = Some (fp_first r)\<rparr>"

lemma validate_written:
  assumes "fp_schema r = 1" and "HEX_QUANTITY_ANY (fp_chain r)" and "persistable r"
  shows "validateFingerprint (fingerprint_json r) = FpRecord (recorded_of r)"
  using assms
  by (cases "fp_first r")
     (simp_all add: validateFingerprint_def fingerprint_json_def FINGERPRINT_SCHEMA_def
      FINGERPRINT_KEYS_def persistable_def recorded_of_def)

lemma fingerprintFor_persistable: "identity_ok i \<Longrightarrow> persistable (fingerprintFor i)"
  by (auto simp: identity_ok_def persistable_def fingerprintFor_def split: option.split)

lemma BLOCK_HASH_tail:
  assumes "BLOCK_HASH h"
  shows "is_hex_digits (drop (length h - 8) h)"
proof -
  from assms obtain d where "h = ''0x'' @ d" "length d = 64" "is_hex_digits d"
    by (auto simp: BLOCK_HASH_def prefix_def)
  then show ?thesis by (simp add: is_hex_digits_drop)
qed

lemma canonicalChainId_hex:
  assumes "is_hex_digits d" and "d \<noteq> []"
  shows "HEX_QUANTITY_ANY (canonicalChainId d)"
proof -
  have "is_hex_digits (drop_leading_zeros (lower d))"
    using assms(1) by (simp add: drop_leading_zeros_hex hex_simps)
  moreover have "drop_leading_zeros (lower d) \<noteq> []"
    using assms(2) by (simp add: drop_leading_zeros_Nil lower_def)
  ultimately show ?thesis
    using assms(1) by (simp add: HEX_QUANTITY_ANY_def canonicalChainId_def strip_hex_digits)
qed

lemma identity_chain_hex:
  assumes "identity_ok i"
  shows "HEX_QUANTITY_ANY (id_chain i)"
proof -
  let ?t = "drop (length (id_genesis i) - 8) (id_genesis i)"
  have b: "BLOCK_HASH (id_genesis i)" and c: "canonicalChainId ?t = id_chain i"
    using assms by (simp_all add: identity_ok_def)
  from b have "length (id_genesis i) = 66"
    by (auto simp: BLOCK_HASH_def prefix_def)
  then have "?t \<noteq> []" by auto
  with canonicalChainId_hex [OF BLOCK_HASH_tail [OF b]] c show ?thesis by simp
qed

lemma own_fingerprint_same:
  assumes "identity_ok i"
  shows "compareChainInstance (Some (recorded_of (fingerprintFor i))) i = Same"
proof -
  have "canonicalChainId (id_chain i) = id_chain i" "id_chain i \<noteq> []"
    "canonicalHash (id_genesis i) = id_genesis i" "\<forall>h. id_first i = Some h \<longrightarrow> canonicalHash h = h"
    using assms by (auto simp: identity_ok_def split: option.splits)
  then show ?thesis
    by (simp add: compareChainInstance_def recorded_of_def fingerprintFor_def split: option.split)
qed

lemma writeFingerprint_cases:
  assumes fs: "atomic_files fs content" and ne: "temp_path ps pid file \<noteq> file"
    and run: "writeFingerprint ps fs stringify pid file r w = (res, w')"
  shows "(case res of
      Inr _ \<Rightarrow> persistable r \<and> content w' file = Some (stringify (fingerprint_json r) @ [CHR 0x0A])
    | Inl _ \<Rightarrow> content w' file = content w file)"
proof (cases "persistable r")
  case False
  then show ?thesis using run by (auto simp: writeFingerprint_def)
next
  case True
  let ?t = "temp_path ps pid file" and ?text = "stringify (fingerprint_json r) @ [CHR 0x0A]"
  obtain r1 w1 where m: "mkdir fs (dirname ps file) w = (r1, w1)" by force
  then have c1: "content w1 = content w" using fs unfolding atomic_files_def by (metis snd_conv)
  show ?thesis
  proof (cases r1)
    case (Inl e)
    then have "res = Inl e \<and> w' = w1" using run True m by (simp add: writeFingerprint_def bind_io_def)
    then show ?thesis using c1 by simp
  next
    case (Inr u)
    obtain r2 w2 where wr: "writeFile fs ?t ?text w1 = (r2, w2)" by force
    then have c2: "content w2 file = content w file"
      using fs ne c1 unfolding atomic_files_def by (metis snd_conv)
    have c2t: "content w2 ?t = Some ?text" if "r2 = Inr ()"
      using fs wr that unfolding atomic_files_def by blast
    show ?thesis
    proof (cases r2)
      case (Inl e)
      then have "res = Inl e \<and> w' = w2"
        using run True m \<open>r1 = Inr u\<close> wr by (simp add: writeFingerprint_def bind_io_def)
      then show ?thesis using c2 by simp
    next
      case (Inr v)
      then have rn: "rename fs ?t file w2 = (res, w')"
        using run True m \<open>r1 = Inr u\<close> wr by (simp add: writeFingerprint_def bind_io_def)
      show ?thesis
      proof (cases res)
        case (Inl e)
        then show ?thesis using fs rn c2 unfolding atomic_files_def by fastforce
      next
        case (Inr x)
        then show ?thesis using fs rn c2t \<open>r2 = Inr v\<close> True unfolding atomic_files_def by fastforce
      qed
    qed
  qed
qed

lemma block_hash_of_Some: "block_hash_of v = Some h \<longleftrightarrow> v = JStr h \<and> BLOCK_HASH h"
  by (cases v) auto

section \<open>Properties\<close>

text \<open>
  C22: what the plugin writes, the next run recognises as this chain.  After a successful
  write of the fingerprint of an observed instance, reading the file gives a record, and
  comparing it with that instance says "same".
\<close>

theorem written_fingerprint_reads_back_same:
  assumes "atomic_files fs content" and "json_faithful stringify json (fingerprint_json (fingerprintFor i))"
    and "temp_path ps pid file \<noteq> file" and "identity_ok i"
    and "writeFingerprint ps fs stringify pid file (fingerprintFor i) w = (Inr (), w')"
  shows "\<exists>r. readFingerprint fs json file w' = (FpRecord r, w') \<and>
             compareChainInstance (Some r) i = Same"
proof -
  let ?r = "fingerprintFor i"
  have "content w' file = Some (stringify (fingerprint_json ?r) @ [CHR 0x0A])"
    using writeFingerprint_cases [OF assms(1,3,5)] by simp
  then have rd: "readFile fs file w' = (Inr (stringify (fingerprint_json ?r) @ [CHR 0x0A]), w')"
    using assms(1) unfolding atomic_files_def by blast
  have "validateFingerprint (fingerprint_json ?r) = FpRecord (recorded_of ?r)"
    using identity_chain_hex [OF assms(4)]
    by (intro validate_written fingerprintFor_persistable [OF assms(4)])
       (simp_all add: fingerprintFor_def FINGERPRINT_SCHEMA_def)
  then show ?thesis
    using rd assms(2) own_fingerprint_same [OF assms(4)]
    by (auto simp: readFingerprint_def json_faithful_def)
qed

text \<open>A file system whose state is its contents, and a JSON codec for one fingerprint.\<close>

definition demo_files :: "(string \<Rightarrow> string option) files" where
  "demo_files = \<lparr>mkdir = (\<lambda>d. return_io ()),
     readFile = (\<lambda>p w. case w p of
        None \<Rightarrow> (Inl \<lparr>fe_code = JStr ''ENOENT'', fe_syntax = False, fe_not_found = False,
                      fe_message = []\<rparr>, w)
      | Some s \<Rightarrow> (Inr s, w)),
     writeFile = (\<lambda>p s w. (Inr (), w(p \<mapsto> s))),
     rename = (\<lambda>a b w. (Inr (), w(b := w a)))\<rparr>"

definition demo_paths :: paths where
  "demo_paths = \<lparr>isAbsolute = (\<lambda>p. prefix ''/'' p), join = concat, dirname = (\<lambda>p. ''/r/''),
     basename = (\<lambda>p. ''f''), basename_ext = (\<lambda>p e. ''f''), relative = (\<lambda>a b. [])\<rparr>"

lemma demo_files_atomic: "atomic_files demo_files (\<lambda>w. w)"
  by (auto simp: atomic_files_def demo_files_def)

definition demo_hash :: string where
  "demo_hash = ''0x00000000000000001ebf88508a03865c71d452e25f4d51194196a1d200000007''"

definition demo_identity :: identity where
  "demo_identity = \<lparr>id_chain = ''0x7'', id_genesis = demo_hash, id_first = None,
     id_observed = ''http://n''\<rparr>"

lemma demo_identity_ok: "identity_ok demo_identity"
  by code_simp

theorem written_fingerprint_reads_back_same_witness:
  "\<exists>r w. compareChainInstance (Some r) demo_identity = Same \<and>
     readFingerprint demo_files (\<lambda>_. Some (fingerprint_json (fingerprintFor demo_identity)))
       ''/r/m.instance.json'' w = (FpRecord r, w)"
proof -
  let ?r = "fingerprintFor demo_identity"
  let ?fs = "demo_files :: (string \<Rightarrow> string option) files"
  let ?json = "\<lambda>_. Some (fingerprint_json ?r)"
  let ?w = "(\<lambda>_. None)(''/r/.f.7.tmp'' \<mapsto> ''{}'' @ [CHR 0x0A], ''/r/m.instance.json'' \<mapsto> ''{}'' @ [CHR 0x0A])
      :: string \<Rightarrow> string option"
  have temp: "temp_path demo_paths 7 ''/r/m.instance.json'' = ''/r/.f.7.tmp''" by code_simp
  have pers: "persistable ?r" by code_simp
  have run: "writeFingerprint demo_paths ?fs (\<lambda>_. ''{}'') 7 ''/r/m.instance.json'' ?r (\<lambda>_. None) =
      (Inr (), ?w)"
    unfolding writeFingerprint_def temp using pers
    by (simp add: demo_files_def bind_io_def demo_paths_def)
  have ne: "temp_path demo_paths 7 ''/r/m.instance.json'' \<noteq> ''/r/m.instance.json''"
    unfolding temp by simp
  have jf: "json_faithful (\<lambda>_. ''{}'') ?json (fingerprint_json ?r)" by (simp add: json_faithful_def)
  show ?thesis
    using written_fingerprint_reads_back_same [OF demo_files_atomic jf ne demo_identity_ok run] by blast
qed

text \<open>
  The fingerprint file is never torn.  Whatever step of the write fails, the file holds
  what it held before; after a success it holds the complete new text, and only a fingerprint
  of two full-width hashes is ever written.
\<close>

theorem fingerprint_write_is_atomic:
  assumes "atomic_files fs content" and "temp_path ps pid file \<noteq> file"
    and "writeFingerprint ps fs stringify pid file r w = (res, w')"
  shows "content w' file =
      (if res = Inr () then Some (stringify (fingerprint_json r) @ [CHR 0x0A]) else content w file) \<and>
    (if res = Inr () then BLOCK_HASH (fp_genesis r) \<and> pred_option BLOCK_HASH (fp_first r) else True)"
  using writeFingerprint_cases [OF assms]
  by (cases res) (auto simp: persistable_def split: option.splits)

theorem fingerprint_write_is_atomic_witness:
  "\<exists>w'. writeFingerprint demo_paths (demo_files\<lparr>rename := \<lambda>a b. throw_io RecDefect\<rparr>) (\<lambda>_. ''{}'') 7
        ''/r/m.instance.json'' (fingerprintFor demo_identity)
        [''/r/m.instance.json'' \<mapsto> ''old''] = (Inl RecDefect, w') \<and>
      w' ''/r/m.instance.json'' = Some ''old''"
proof -
  let ?fs = "demo_files\<lparr>rename := \<lambda>a b. throw_io RecDefect\<rparr> :: (string \<Rightarrow> string option) files"
  have temp: "temp_path demo_paths 7 ''/r/m.instance.json'' = ''/r/.f.7.tmp''" by code_simp
  have pers: "persistable (fingerprintFor demo_identity)" by code_simp
  have at: "atomic_files ?fs (\<lambda>w. w)"
    by (auto simp: atomic_files_def demo_files_def)
  have ne: "temp_path demo_paths 7 ''/r/m.instance.json'' \<noteq> ''/r/m.instance.json''"
    unfolding temp by simp
  obtain w' where run: "writeFingerprint demo_paths ?fs (\<lambda>_. ''{}'') 7
        ''/r/m.instance.json'' (fingerprintFor demo_identity)
        [''/r/m.instance.json'' \<mapsto> ''old''] = (Inl RecDefect, w')"
    unfolding writeFingerprint_def temp using pers
    by (simp add: demo_files_def bind_io_def demo_paths_def)
  show ?thesis using fingerprint_write_is_atomic [OF at ne run] run by simp
qed

lemma hash_field:
  "\<not> (has \<and> block_hash_of v = None) \<and> x = (if has then block_hash_of v else None) \<longleftrightarrow>
     (case x of None \<Rightarrow> \<not> has | Some g \<Rightarrow> has \<and> BLOCK_HASH g \<and> v = JStr g)"
proof (cases "block_hash_of v")
  case None
  then show ?thesis by (cases x) auto
next
  case (Some h)
  then have "v = JStr h" "BLOCK_HASH h" by (simp_all add: block_hash_of_Some)
  then show ?thesis by (cases x) auto
qed

lemma nullable_hash_field:
  "\<not> (has \<and> v \<noteq> JNull \<and> block_hash_of v = None) \<and>
   x = (if has then Some (block_hash_of v) else None) \<longleftrightarrow>
     (case x of None \<Rightarrow> \<not> has | Some None \<Rightarrow> has \<and> v = JNull
      | Some (Some h) \<Rightarrow> has \<and> BLOCK_HASH h \<and> v = JStr h)"
proof (cases "block_hash_of v")
  case None
  then show ?thesis by (auto split: option.splits)
next
  case (Some h)
  then have "v = JStr h" "BLOCK_HASH h" by (simp_all add: block_hash_of_Some)
  then show ?thesis by (auto split: option.splits)
qed

lemma validateFingerprint_object:
  "validateFingerprint (JObj ps) = FpRecord r \<longleftrightarrow>
     own_prop (JObj ps) ''schema'' = JNum (NInt 1) \<and>
     set (own_keys (JObj ps)) \<subseteq> set FINGERPRINT_KEYS \<and>
     (\<exists>c. own_prop (JObj ps) ''chainId'' = JStr c \<and> HEX_QUANTITY_ANY c \<and> rec_chain r = c) \<and>
     (\<not> (has_own (JObj ps) ''genesisHash'' \<and> block_hash_of (own_prop (JObj ps) ''genesisHash'') = None) \<and>
      rec_genesis r = (if has_own (JObj ps) ''genesisHash''
         then block_hash_of (own_prop (JObj ps) ''genesisHash'') else None)) \<and>
     (\<not> (has_own (JObj ps) ''firstBlockHash'' \<and> own_prop (JObj ps) ''firstBlockHash'' \<noteq> JNull \<and>
         block_hash_of (own_prop (JObj ps) ''firstBlockHash'') = None) \<and>
      rec_first r = (if has_own (JObj ps) ''firstBlockHash''
         then Some (block_hash_of (own_prop (JObj ps) ''firstBlockHash'')) else None))"
proof -
  define raw where "raw = JObj ps"
  have keys: "list_ex (\<lambda>k. k \<notin> set FINGERPRINT_KEYS) (own_keys raw) \<longleftrightarrow>
      \<not> set (own_keys raw) \<subseteq> set FINGERPRINT_KEYS"
    by (auto simp: list_ex_iff)
  have unf: "validateFingerprint raw =
     (if own_prop raw ''schema'' \<noteq> JNum (NInt FINGERPRINT_SCHEMA) then FpUnreadable FpUnrecognisedSchema
      else if list_ex (\<lambda>k. k \<notin> set FINGERPRINT_KEYS) (own_keys raw) then FpUnreadable FpUnexpectedKeys
      else (case own_prop raw ''chainId'' of
          JStr c \<Rightarrow>
            if \<not> HEX_QUANTITY_ANY c then FpUnreadable FpChainIdUnusable
            else if has_own raw ''genesisHash'' \<and> block_hash_of (own_prop raw ''genesisHash'') = None
              then FpUnreadable FpHashFieldUnusable
            else if has_own raw ''firstBlockHash'' \<and> own_prop raw ''firstBlockHash'' \<noteq> JNull \<and>
                block_hash_of (own_prop raw ''firstBlockHash'') = None
              then FpUnreadable FpHashFieldUnusable
            else FpRecord
              \<lparr>rec_chain = c,
               rec_genesis = (if has_own raw ''genesisHash''
                  then block_hash_of (own_prop raw ''genesisHash'') else None),
               rec_first = (if has_own raw ''firstBlockHash''
                  then Some (block_hash_of (own_prop raw ''firstBlockHash'')) else None)\<rparr>
        | _ \<Rightarrow> FpUnreadable FpChainIdUnusable))"
    by (simp only: raw_def validateFingerprint_def js.case)
  have eq: "r = \<lparr>rec_chain = c, rec_genesis = g, rec_first = f\<rparr> \<longleftrightarrow>
      rec_chain r = c \<and> rec_genesis r = g \<and> rec_first r = f" for c g f
    by (cases r) auto
  show ?thesis
    unfolding raw_def [symmetric] unf keys FINGERPRINT_SCHEMA_def
    by (cases "own_prop raw ''chainId''") (simp_all add: eq eq_commute [of _ r], blast?)
qed

lemma accepted_fingerprint_iff:
  "validateFingerprint raw = FpRecord r \<longleftrightarrow>
     (\<exists>ps. raw = JObj ps) \<and> own_prop raw ''schema'' = JNum (NInt 1) \<and>
     set (own_keys raw) \<subseteq> set FINGERPRINT_KEYS \<and>
     own_prop raw ''chainId'' = JStr (rec_chain r) \<and> HEX_QUANTITY_ANY (rec_chain r) \<and>
     (case rec_genesis r of
        None \<Rightarrow> \<not> has_own raw ''genesisHash''
      | Some g \<Rightarrow> BLOCK_HASH g \<and> own_prop raw ''genesisHash'' = JStr g) \<and>
     (case rec_first r of
        None \<Rightarrow> \<not> has_own raw ''firstBlockHash''
      | Some None \<Rightarrow> has_own raw ''firstBlockHash'' \<and> own_prop raw ''firstBlockHash'' = JNull
      | Some (Some h) \<Rightarrow> BLOCK_HASH h \<and> own_prop raw ''firstBlockHash'' = JStr h)"
proof (cases "\<exists>ps. raw = JObj ps")
  case False
  then show ?thesis by (cases raw) (simp_all add: validateFingerprint_def)
next
  case True
  then obtain ps where raw: "raw = JObj ps" by blast
  have has: "own_prop raw k = JStr g \<Longrightarrow> has_own raw k" for k g
    using own_prop_not_own [of raw k] by auto
  show ?thesis
    unfolding raw validateFingerprint_object hash_field nullable_hash_field
    unfolding raw [symmetric] using has True
    by (auto split: option.splits)
qed

text \<open>
  The comparator is only ever handed values it can compare.  A parsed file is accepted
  exactly when it is an object of this schema with no foreign key, a hexadecimal chain id,
  and hashes that are 32 bytes where present; an explicit null genesis hash is refused, a null
  first block hash is kept apart from an absent one.
\<close>

theorem accepted_fingerprints:
  "validateFingerprint raw = FpRecord r \<longleftrightarrow>
     (\<exists>ps. raw = JObj ps) \<and> own_prop raw ''schema'' = JNum (NInt 1) \<and>
     set (own_keys raw) \<subseteq> {''schema'', ''chainId'', ''genesisHash'', ''firstBlockHash''} \<and>
     own_prop raw ''chainId'' = JStr (rec_chain r) \<and> HEX_QUANTITY_ANY (rec_chain r) \<and>
     (case rec_genesis r of
        None \<Rightarrow> \<not> has_own raw ''genesisHash''
      | Some g \<Rightarrow> BLOCK_HASH g \<and> own_prop raw ''genesisHash'' = JStr g) \<and>
     (case rec_first r of
        None \<Rightarrow> \<not> has_own raw ''firstBlockHash''
      | Some None \<Rightarrow> has_own raw ''firstBlockHash'' \<and> own_prop raw ''firstBlockHash'' = JNull
      | Some (Some h) \<Rightarrow> BLOCK_HASH h \<and> own_prop raw ''firstBlockHash'' = JStr h)"
  unfolding accepted_fingerprint_iff FINGERPRINT_KEYS_def by simp

text \<open>
  Anchoring the record is idempotent and never relative.  When it succeeds the directory
  is absolute, it is the value the engine will read from the environment, and anchoring again
  in the environment it left gives the same directory and changes nothing.
\<close>

theorem record_location_is_stable:
  assumes "configureRecordLocation ps root env = (Inr dir, env')" and "dir \<noteq> []"
  shows "isAbsolute ps dir \<and> env' MANIFEST_DIR_VAR = Some dir \<and>
    configureRecordLocation ps root env' = (Inr dir, env')"
  using assms
  by (auto simp: configureRecordLocation_def Let_def split: option.splits list.splits if_splits)

theorem record_location_is_stable_witness:
  "configureRecordLocation demo_paths ''/p/'' [MANIFEST_DIR_VAR \<mapsto> ''/p/.openzeppelin''] =
     (Inr ''/p/.openzeppelin'', [MANIFEST_DIR_VAR \<mapsto> ''/p/.openzeppelin''])"
proof -
  have "configureRecordLocation demo_paths ''/p/'' Map.empty =
      (Inr ''/p/.openzeppelin'', [MANIFEST_DIR_VAR \<mapsto> ''/p/.openzeppelin''])"
    by (simp add: configureRecordLocation_def demo_paths_def Let_def)
  from record_location_is_stable [OF this] show ?thesis by simp
qed


end
