(* ===== verification/RecordReconcile.thy ===== *)
theory RecordReconcile
  imports RecordSidecar JsArray
begin

text \<open>
  \<open>record/reconcile.ts\<close>: how a settled comparison is reported, and what the record and the
  chain say together about the addresses an operation names.  \<open>localeCompare\<close> depends on
  the locale of the host, so the comparison of the final sort is a parameter \<open>cmp\<close>.
\<close>

section \<open>The outcome of the comparison\<close>

datatype incomplete_field = GenesisHashField | FirstBlockHashField
datatype indeterminate_cause = Undecided undecided | FingerprintUnreadable
datatype instance_verdict = InstanceSame | InstanceIndeterminate | ReArmed

datatype settled = SettledSame | SettledIndeterminate undecided

fun settle :: "comparison \<Rightarrow> settled option" where
  "settle Same = Some SettledSame"
| "settle (Indeterminate u) = Some (SettledIndeterminate u)"
| "settle (Changed _ _ _) = None"

record instance_outcome =
  io_instance :: instance_verdict
  io_because :: "indeterminate_cause option"
  io_field :: "incomplete_field option"

definition incompleteFieldOf :: "recorded \<Rightarrow> incomplete_field option" where
  "incompleteFieldOf r =
     (if rec_genesis r = None then Some GenesisHashField
      else if rec_first r = None then Some FirstBlockHashField
      else None)"

definition instanceOutcomeOf :: "fingerprint_read \<Rightarrow> settled \<Rightarrow> instance_outcome" where
  "instanceOutcomeOf rd cmp =
     (case cmp of
        SettledSame \<Rightarrow> \<lparr>io_instance = InstanceSame, io_because = None, io_field = None\<rparr>
      | SettledIndeterminate because \<Rightarrow>
          (case rd of
             FpUnreadable _ \<Rightarrow>
               \<lparr>io_instance = InstanceIndeterminate, io_because = Some FingerprintUnreadable, io_field = None\<rparr>
           | FpRecord r \<Rightarrow>
               \<lparr>io_instance = InstanceIndeterminate, io_because = Some (Undecided because),
                io_field = (if because = RecordedIdentityIncomplete then incompleteFieldOf r else None)\<rparr>
           | FpAbsent \<Rightarrow>
               \<lparr>io_instance = InstanceIndeterminate, io_because = Some (Undecided because), io_field = None\<rparr>))"

section \<open>The verdicts\<close>

datatype proxy_status = Authoritative | NoCodeAtAddress | Unrecorded
datatype provenance = FromRecord | InferredByEngine | AssertedByCaller

record named_address =
  na_address :: string
  na_kind :: "string option"

record proxy_verdict =
  pv_address :: string
  pv_status :: proxy_status
  pv_provenance :: provenance
  pv_kind :: "string option"

definition unrecordedVerdict :: "string \<Rightarrow> string option \<Rightarrow> proxy_verdict" where
  "unrecordedVerdict address assertedKind =
     (case assertedKind of
        None \<Rightarrow> \<lparr>pv_address = address, pv_status = Unrecorded, pv_provenance = InferredByEngine,
                  pv_kind = None\<rparr>
      | Some k \<Rightarrow> \<lparr>pv_address = address, pv_status = Unrecorded, pv_provenance = AssertedByCaller,
                  pv_kind = Some k\<rparr>)"

definition storedRecordFor :: "proxy_record list \<Rightarrow> string \<Rightarrow> proxy_record option" where
  "storedRecordFor stored address = find (\<lambda>p. px_address p = address) stored"

text \<open>The verdict on one canonical address, given whether it holds code.\<close>

definition verdict_for :: "proxy_record list \<Rightarrow> string \<Rightarrow> string option \<Rightarrow> bool \<Rightarrow> proxy_verdict option" where
  "verdict_for stored address assertedKind code =
     (case storedRecordFor stored address of
        None \<Rightarrow> if \<not> code then None else Some (unrecordedVerdict address assertedKind)
      | Some r \<Rightarrow>
          Some \<lparr>pv_address = address, pv_status = (if code then Authoritative else NoCodeAtAddress),
                pv_provenance = FromRecord, pv_kind = Some (px_kind r)\<rparr>)"

fun reconcile_loop ::
  "codec \<Rightarrow> (string \<Rightarrow> ('s, record_error, bool) io) \<Rightarrow> proxy_record list \<Rightarrow> named_address list \<Rightarrow>
   ('s, record_error, proxy_verdict list) io" where
  "reconcile_loop c has_code stored [] = return_io []"
| "reconcile_loop c has_code stored (entry # named) =
     bind_io (lift_io (map_sum RecAddress id (canonicalizeAddress c (JStr (na_address entry))))) (\<lambda>address.
       bind_io (has_code address) (\<lambda>code.
         bind_io (reconcile_loop c has_code stored named) (\<lambda>rest.
           return_io (case verdict_for stored address (na_kind entry) code of
               None \<Rightarrow> rest | Some v \<Rightarrow> v # rest))))"

definition reconcileProxies ::
  "codec \<Rightarrow> (string \<Rightarrow> string \<Rightarrow> int) \<Rightarrow> (string \<Rightarrow> ('s, record_error, bool) io) \<Rightarrow>
   named_address list \<Rightarrow> proxy_record list \<Rightarrow> ('s, record_error, proxy_verdict list) io" where
  "reconcileProxies c cmp has_code named stored =
     bind_io (reconcile_loop c has_code stored named) (\<lambda>vs.
       return_io (sort_by (\<lambda>a b. cmp (pv_address a) (pv_address b)) vs))"

section \<open>The report\<close>

record report =
  rp_chain :: string
  rp_instance :: instance_verdict
  rp_because :: "indeterminate_cause option"
  rp_field :: "incomplete_field option"
  rp_migrated :: nat
  rp_unmigratable :: nat
  rp_proxies :: "proxy_verdict list"

definition buildReport :: "string \<Rightarrow> instance_outcome \<Rightarrow> nat \<Rightarrow> nat \<Rightarrow> proxy_verdict list \<Rightarrow> report" where
  "buildReport chainId outcome migrated unmigratable proxies =
     \<lparr>rp_chain = chainId, rp_instance = io_instance outcome, rp_because = io_because outcome,
      rp_field = io_field outcome, rp_migrated = migrated, rp_unmigratable = unmigratable,
      rp_proxies = proxies\<rparr>"

section \<open>Facts\<close>

text \<open>A verdict is honest about where its kind came from.\<close>

definition honest_verdict :: "proxy_record list \<Rightarrow> named_address list \<Rightarrow> proxy_verdict \<Rightarrow> bool" where
  "honest_verdict stored named v \<longleftrightarrow>
     (case pv_provenance v of
        FromRecord \<Rightarrow>
          (\<exists>r\<in>set stored. px_address r = pv_address v \<and> pv_kind v = Some (px_kind r)) \<and>
          pv_status v \<noteq> Unrecorded
      | InferredByEngine \<Rightarrow> pv_kind v = None \<and> pv_status v = Unrecorded \<and>
          (\<forall>r\<in>set stored. px_address r \<noteq> pv_address v)
      | AssertedByCaller \<Rightarrow> pv_kind v \<in> na_kind ` set named \<and> pv_kind v \<noteq> None \<and>
          pv_status v = Unrecorded \<and> (\<forall>r\<in>set stored. px_address r \<noteq> pv_address v))"

lemma storedRecordFor_None: "storedRecordFor stored a = None \<longleftrightarrow> (\<forall>r\<in>set stored. px_address r \<noteq> a)"
  by (auto simp: storedRecordFor_def find_None_iff)

lemma storedRecordFor_Some: "storedRecordFor stored a = Some r \<Longrightarrow> r \<in> set stored \<and> px_address r = a"
  by (auto simp: storedRecordFor_def find_Some_iff)

lemma verdict_for_honest:
  assumes "verdict_for stored a k code = Some v" and "k \<in> na_kind ` set named"
  shows "honest_verdict stored named v \<and> pv_address v = a"
proof (cases "storedRecordFor stored a")
  case None
  then have none: "\<forall>r\<in>set stored. px_address r \<noteq> a" by (simp add: storedRecordFor_None)
  from None assms(1) have "v = unrecordedVerdict a k"
    by (simp add: verdict_for_def split: if_splits)
  then show ?thesis using none assms(2)
    by (cases k) (auto simp: unrecordedVerdict_def honest_verdict_def)
next
  case (Some r)
  then show ?thesis using assms storedRecordFor_Some [OF Some]
    by (auto simp: verdict_for_def honest_verdict_def)
qed

lemma honest_verdict_mono: "honest_verdict stored named v \<Longrightarrow> set named \<subseteq> set others \<Longrightarrow> honest_verdict stored others v"
  by (auto simp: honest_verdict_def split: provenance.splits)

lemma reconcile_loop_honest:
  assumes "reconcile_loop c has_code stored named s = (Inr vs, t)" and "v \<in> set vs"
  shows "honest_verdict stored named v \<and>
    (\<exists>e\<in>set named. canonicalizeAddress c (JStr (na_address e)) = Inr (pv_address v))"
  using assms
proof (induction named arbitrary: s vs)
  case Nil
  then show ?case by simp
next
  case (Cons e named)
  from Cons.prems(1) obtain a code s' rest where
    a: "canonicalizeAddress c (JStr (na_address e)) = Inr a"
    and rest: "reconcile_loop c has_code stored named s' = (Inr rest, t)"
    and vs: "vs = (case verdict_for stored a (na_kind e) code of None \<Rightarrow> rest | Some v \<Rightarrow> v # rest)"
    by (cases "canonicalizeAddress c (JStr (na_address e))") (auto elim!: bind_io_InrE)
  from vs Cons.prems(2) consider "v \<in> set rest" | "verdict_for stored a (na_kind e) code = Some v"
    by (auto split: option.splits)
  then show ?case
  proof cases
    case 1
    with Cons.IH [OF rest] have ih: "honest_verdict stored named v"
      "\<exists>e\<in>set named. canonicalizeAddress c (JStr (na_address e)) = Inr (pv_address v)" by blast+
    then show ?thesis using honest_verdict_mono [OF ih(1), of "e # named"] by auto
  next
    case 2
    with verdict_for_honest [OF 2, of "e # named"] a show ?thesis by auto
  qed
qed

section \<open>Properties\<close>


definition demo_named :: "named_address list" where
  "demo_named = [\<lparr>na_address = ''TR7NHqjeKQxGTCi8q8ZY4pL8otSzgjLj6t'', na_kind = Some ''uups''\<rparr>]"


text \<open>
  With a chain that answers, every named address is accounted for.  When the code reader
  answers \<open>code\<close> without failing and all names canonicalize, the verdicts are exactly those
  of the decision table (recorded and live, recorded and gone, unrecorded and live; an address
  neither recorded nor live has none), in sorted order.
\<close>

theorem reconciliation_is_complete:
  assumes "\<forall>e\<in>set named. canonicalizeAddress c (JStr (na_address e)) = Inr (canon e)"
    and "total_preorder cmp"
  shows "\<exists>vs. reconcileProxies c cmp (\<lambda>a. return_io (code a)) named stored s = (Inr vs, s) \<and>
    mset vs = mset (List.map_filter
      (\<lambda>e. verdict_for stored (canon e) (na_kind e) (code (canon e))) named) \<and>
    sorted_wrt (\<lambda>v w. cmp (pv_address v) (pv_address w) \<le> 0) vs"
proof -
  let ?vs = "List.map_filter (\<lambda>e. verdict_for stored (canon e) (na_kind e) (code (canon e))) named"
  have "reconcile_loop c (\<lambda>a. return_io (code a)) stored named s = (Inr ?vs, s)"
    using assms(1)
    by (induction named) (auto simp: bind_io_def List.map_filter_simps split: option.split)
  moreover have "total_preorder (\<lambda>a b. cmp (pv_address a) (pv_address b))"
    using assms(2) unfolding total_preorder_def by blast
  ultimately show ?thesis
    using sorted_sort_by [of "\<lambda>a b. cmp (pv_address a) (pv_address b)" ?vs]
    by (simp add: reconcileProxies_def bind_io_def mset_sort_by)
qed

theorem reconciliation_is_complete_witness:
  "\<exists>vs. reconcileProxies demo_codec (\<lambda>a b. 0) (\<lambda>a. return_io True) demo_named [] () = (Inr vs, ()) \<and>
     size (mset vs) = 1"
proof -
  let ?canon = "\<lambda>_. ''0xa614f803B6FD780986A42c78Ec9c7f77e6DeD13C''"
  have "\<forall>e\<in>set demo_named. canonicalizeAddress demo_codec (JStr (na_address e)) = Inr (?canon e)"
    by (simp add: demo_named_def demo_mint)
  moreover have "total_preorder (\<lambda>a b :: string. 0)" by (simp add: total_preorder_def)
  ultimately obtain vs where vs: "reconcileProxies demo_codec (\<lambda>a b. 0) (\<lambda>a. return_io True) demo_named [] ()
      = (Inr vs, ())"
    "mset vs = mset (List.map_filter
      (\<lambda>e. verdict_for [] (?canon e) (na_kind e) True) demo_named)"
    using reconciliation_is_complete [where named = demo_named and c = demo_codec
        and canon = ?canon and cmp = "\<lambda>a b. 0" and code = "\<lambda>_. True" and stored = "[]" and s = "()"]
    by auto
  then have "size (mset vs) = 1"
    by (simp add: demo_named_def List.map_filter_simps verdict_for_def storedRecordFor_def)
  with vs(1) show ?thesis by blast
qed

text \<open>
  The report of an undecided comparison names what the record lacks.  Whenever the
  comparator answers "incomplete" for a record, the named field is the one it stopped at:
  the genesis hash, else an absent first-block key, and no field when the key is present
  and null.
\<close>

theorem incomplete_field_agrees_with_comparator:
  assumes "compareChainInstance (Some r) i = Indeterminate RecordedIdentityIncomplete"
  shows "io_field (instanceOutcomeOf (FpRecord r) (SettledIndeterminate RecordedIdentityIncomplete)) =
    (case rec_genesis r of
       None \<Rightarrow> Some GenesisHashField
     | Some g \<Rightarrow> (case rec_first r of None \<Rightarrow> Some FirstBlockHashField | Some _ \<Rightarrow> None)) \<and>
    (case (rec_genesis r, rec_first r) of
       (Some _, Some f) \<Rightarrow> f = None \<and> id_first i \<noteq> None
     | _ \<Rightarrow> True)"
  using assms
  by (auto simp: instanceOutcomeOf_def incompleteFieldOf_def compareChainInstance_def Let_def
      split: option.splits if_splits)

theorem incomplete_field_agrees_with_comparator_witness:
  "io_field (instanceOutcomeOf (FpRecord \<lparr>rec_chain = ''0x7'', rec_genesis = None, rec_first = None\<rparr>)
     (SettledIndeterminate RecordedIdentityIncomplete)) = Some GenesisHashField"
proof -
  have "compareChainInstance (Some \<lparr>rec_chain = ''0x7'', rec_genesis = None, rec_first = None\<rparr>)
      demo_identity = Indeterminate RecordedIdentityIncomplete"
    by code_simp
  from conjunct1 [OF incomplete_field_agrees_with_comparator [OF this]] show ?thesis by simp
qed

end
