(* ===== verification/RecordSession.thy ===== *)
theory RecordSession
  imports RecordReconcile
begin

text \<open>
  \<open>record/session.ts\<close>: \<open>openRecord\<close>, in the order of the source.  The state is the
  environment the engine reads, the world, and a trace of the calls that change something:
  the fingerprint write, the manifest write and the disclosure.  An event is logged when the
  call is made, whether or not it then succeeds.
\<close>

section \<open>State\<close>

datatype event =
    WriteFingerprint string fingerprint
  | WriteManifest manifest_data
  | Disclose string string

record 'w rs =
  rs_env :: env
  rs_world :: 'w
  rs_trace :: "event list"

definition lift_w :: "('w, 'e, 'a) io \<Rightarrow> ('w rs, 'e, 'a) io" where
  "lift_w m s = (case m (rs_world s) of (r, w) \<Rightarrow> (r, s\<lparr>rs_world := w\<rparr>))"

definition log_event :: "event \<Rightarrow> ('w rs, 'e, unit) io" where
  "log_event ev s = (Inr (), s\<lparr>rs_trace := rs_trace s @ [ev]\<rparr>)"

record 'w deps =
  dp_codec :: codec
  dp_paths :: paths
  dp_root :: string
  dp_identity :: "('w rs, record_error, identity) io"
  dp_hasCode :: "string \<Rightarrow> ('w rs, record_error, bool) io"
  dp_engine :: "nat \<Rightarrow> 'w rs engine"
  dp_files :: "'w files"
  dp_stringify :: "js \<Rightarrow> string"
  dp_json :: "string \<Rightarrow> js option"
  dp_pid :: nat
  dp_addresses :: "named_address list"
  dp_compare :: "string \<Rightarrow> string \<Rightarrow> int"

section \<open>The diagnosis of a fingerprint refusal\<close>

fun any_live :: "(string \<Rightarrow> ('s, record_error, bool) io) \<Rightarrow> proxy_record list \<Rightarrow> ('s, record_error, bool) io" where
  "any_live has_code [] = return_io False"
| "any_live has_code (p # ps) =
     bind_io (has_code (px_address p)) (\<lambda>b. if b then return_io True else any_live has_code ps)"

definition diagnoseFingerprintRefusal ::
  "'s engine \<Rightarrow> (string \<Rightarrow> ('s, record_error, bool) io) \<Rightarrow> ('s, record_error, refusal_diagnosis) io" where
  "diagnoseFingerprintRefusal en has_code =
     catch_io
       (bind_io (en_read en) (\<lambda>d.
          if md_proxies d = [] then return_io NoProxies
          else bind_io (any_live has_code (md_proxies d)) (\<lambda>live.
            return_io (if live then ProxiesLive else ProxiesAbsent))))
       (\<lambda>_. return_io DiagnosisIndeterminate)"

section \<open>Opening the record\<close>

record session =
  ss_manifest_file :: string
  ss_fingerprint_file :: string
  ss_identity :: identity
  ss_report :: report

definition change_error :: "comparison \<Rightarrow> string \<Rightarrow> nat \<Rightarrow> string \<Rightarrow> string \<Rightarrow> record_error" where
  "change_error cmp manifestFile n endpoint sidecar =
     (case cmp of
        Changed sig a b \<Rightarrow> RecInstanceChanged
          \<lparr>ic_signal = sig, ic_recorded = a, ic_observed = b, ic_manifest = manifestFile,
           ic_count = n, ic_endpoint = endpoint, ic_sidecar = sidecar\<rparr>
      | _ \<Rightarrow> RecDefect)"

text \<open>The callback run under the engine's lock.\<close>

definition locked_body ::
  "'w deps \<Rightarrow> 'w rs engine \<Rightarrow> identity \<Rightarrow> comparison \<Rightarrow> string \<Rightarrow> string \<Rightarrow>
   ('w rs, record_error, migration) io" where
  "locked_body dp en i cmp manifestFile fingerprintFile =
     bind_io (en_read en) (\<lambda>raw.
       let locked = canonicalizeStoredAddresses (dp_codec dp) raw;
           changed = (settle cmp = None)
       in if changed \<and> 0 < recordCount (mg_data locked)
          then throw_io (change_error cmp manifestFile (recordCount (mg_data locked))
                           (id_observed i) fingerprintFile)
          else bind_io
            (if cmp \<noteq> Same then
               bind_io (log_event (WriteFingerprint fingerprintFile (fingerprintFor i))) (\<lambda>_.
                 lift_w (writeFingerprint (dp_paths dp) (dp_files dp) (dp_stringify dp) (dp_pid dp)
                           fingerprintFile (fingerprintFor i)))
             else return_io ()) (\<lambda>_.
            bind_io
              (if 0 < mg_rewritten locked then
                 bind_io (log_event (WriteManifest (mg_data locked))) (\<lambda>_. en_write en (mg_data locked))
               else return_io ()) (\<lambda>_.
              return_io locked)))"

text \<open>Step 6 and the disclosure: the migration in force and how many addresses it changed.\<close>

definition settle_record ::
  "'w deps \<Rightarrow> 'w rs engine \<Rightarrow> identity \<Rightarrow> comparison \<Rightarrow> string \<Rightarrow> string \<Rightarrow> manifest_data \<Rightarrow>
   ('w rs, record_error, migration \<times> nat) io" where
  "settle_record dp en i cmp manifestFile fingerprintFile raw =
     (let migrated = canonicalizeStoredAddresses (dp_codec dp) raw
      in if cmp \<noteq> Same \<or> 0 < mg_rewritten migrated then
           bind_io (throughRecordLock manifestFile
             (en_locked en (locked_body dp en i cmp manifestFile fingerprintFile))) (\<lambda>written.
           bind_io (if settle cmp = None then log_event (Disclose (id_observed i) (id_chain i))
                    else return_io ()) (\<lambda>_.
           return_io (written, mg_rewritten written)))
         else return_io (migrated, 0))"

definition open_settled ::
  "'w deps \<Rightarrow> 'w rs engine \<Rightarrow> identity \<Rightarrow> string \<Rightarrow> string \<Rightarrow> fingerprint_read \<Rightarrow>
   ('w rs, record_error, session) io" where
  "open_settled dp en i manifestFile fingerprintFile rd =
     (let cmp = compareChainInstance (case rd of FpRecord r \<Rightarrow> Some r | _ \<Rightarrow> None) i
      in bind_io (throughRecordRead manifestFile (en_read en)) (\<lambda>raw.
         if settle cmp = None \<and> recordCount raw \<noteq> 0
         then throw_io (change_error cmp manifestFile (recordCount raw) (id_observed i) fingerprintFile)
         else bind_io (settle_record dp en i cmp manifestFile fingerprintFile raw) (\<lambda>(mig, n).
           bind_io (reconcileProxies (dp_codec dp) (dp_compare dp) (dp_hasCode dp) (dp_addresses dp)
                      (md_proxies (mg_data mig))) (\<lambda>verdicts.
           return_io
             \<lparr>ss_manifest_file = manifestFile, ss_fingerprint_file = fingerprintFile, ss_identity = i,
              ss_report = buildReport (id_chain i)
                (case settle cmp of
                   None \<Rightarrow> \<lparr>io_instance = ReArmed, io_because = None, io_field = None\<rparr>
                 | Some st \<Rightarrow> instanceOutcomeOf rd st)
                n (mg_unmigratable mig) verdicts\<rparr>))))"

definition configure :: "'w deps \<Rightarrow> ('w rs, record_error, string) io" where
  "configure dp s =
     (case configureRecordLocation (dp_paths dp) (dp_root dp) (rs_env s) of
        (r, e) \<Rightarrow> (r, s\<lparr>rs_env := e\<rparr>))"

definition read_fingerprint :: "'w deps \<Rightarrow> string \<Rightarrow> ('w rs, record_error, fingerprint_read) io" where
  "read_fingerprint dp file =
     lift_w (\<lambda>w. case readFingerprint (dp_files dp) (dp_json dp) file w of (r, w') \<Rightarrow> (Inr r, w'))"

definition openRecord :: "'w deps \<Rightarrow> ('w rs, record_error, session) io" where
  "openRecord dp =
     bind_io (configure dp) (\<lambda>dir.
     bind_io (dp_identity dp) (\<lambda>i.
     bind_io (lift_io (openRecordManifest (dp_engine dp) (id_chain i))) (\<lambda>en.
     bind_io (lift_io (assertRecordLocation (dp_paths dp) dir (en_file en))) (\<lambda>manifestFile.
     let fingerprintFile = fingerprintPathFor (dp_paths dp) manifestFile in
     bind_io (read_fingerprint dp fingerprintFile) (\<lambda>rd.
       case rd of
         FpUnreadable because \<Rightarrow>
           bind_io (diagnoseFingerprintRefusal en (dp_hasCode dp)) (\<lambda>diagnosis.
             throw_io (RecFingerprint fingerprintFile because diagnosis))
       | _ \<Rightarrow> open_settled dp en i manifestFile fingerprintFile rd)))))"

text \<open>The accessors of a session: the address is minted outside the wrapper.\<close>

definition canonical_key :: "codec \<Rightarrow> string \<Rightarrow> ('s, record_error, string) io" where
  "canonical_key c a = lift_io (map_sum RecAddress id (canonicalizeAddress c (JStr a)))"

definition getProxyRecord ::
  "codec \<Rightarrow> 's engine \<Rightarrow> string \<Rightarrow> string \<Rightarrow> ('s, record_error, proxy_record option) io" where
  "getProxyRecord c en manifestFile address =
     bind_io (canonical_key c address) (\<lambda>key. throughRecordRead manifestFile (proxyRecord c en key))"

definition getImplRecord ::
  "codec \<Rightarrow> 's engine \<Rightarrow> string \<Rightarrow> string \<Rightarrow> ('s, record_error, impl_record option) io" where
  "getImplRecord c en manifestFile address =
     bind_io (canonical_key c address) (\<lambda>key. throughRecordRead manifestFile (implRecord c en key))"

definition session_addProxyRecord ::
  "codec \<Rightarrow> 's engine \<Rightarrow> string \<Rightarrow> string \<Rightarrow> string \<Rightarrow> ('s, record_error, unit) io" where
  "session_addProxyRecord c en manifestFile address kind =
     bind_io (canonical_key c address) (\<lambda>key.
       throughRecordRead manifestFile (addProxyRecord c en key kind))"

definition session_recordCount :: "'s engine \<Rightarrow> string \<Rightarrow> ('s, record_error, nat) io" where
  "session_recordCount en manifestFile =
     bind_io (throughRecordRead manifestFile (en_read en)) (\<lambda>d. return_io (recordCount d))"

section \<open>What the surroundings do not do\<close>

text \<open>
  \<open>silent m\<close>: running \<open>m\<close> logs nothing.  \<open>quiet_deps\<close>: the engine's reads and the chain's
  reads make none of the logged calls, \<open>lockedRun\<close> either fails without running its callback, or runs it once
  and gives its outcome, and what these and the file operations throw is their own.
\<close>

definition silent :: "('w rs, 'e, 'a) io \<Rightarrow> bool" where
  "silent m \<longleftrightarrow> (\<forall>s. rs_trace (snd (m s)) = rs_trace s)"

definition honest_lock :: "'w rs engine \<Rightarrow> bool" where
  "honest_lock en \<longleftrightarrow>
     (\<forall>cb s. (\<exists>f t. en_locked en cb s = (Inl (RecForeign f), t) \<and> rs_trace t = rs_trace s) \<or>
             (\<exists>s1 t1 t. rs_trace s1 = rs_trace s \<and> cb s1 = (fst (en_locked en cb s), t1) \<and>
                snd (en_locked en cb s) = t \<and> rs_trace t = rs_trace t1))"

definition raises_only :: "('e \<Rightarrow> bool) \<Rightarrow> ('s, 'e, 'a) io \<Rightarrow> bool" where
  "raises_only P m \<longleftrightarrow> (\<forall>s e t. m s = (Inl e, t) \<longrightarrow> P e)"

fun is_foreign :: "record_error \<Rightarrow> bool" where
  "is_foreign (RecForeign _) = True"
| "is_foreign _ = False"

fun is_chain :: "record_error \<Rightarrow> bool" where
  "is_chain (RecChain _) = True"
| "is_chain _ = False"

definition quiet_deps :: "'w deps \<Rightarrow> bool" where
  "quiet_deps dp \<longleftrightarrow>
     silent (dp_identity dp) \<and> raises_only is_chain (dp_identity dp) \<and>
     (\<forall>a. silent (dp_hasCode dp a) \<and> raises_only is_chain (dp_hasCode dp a)) \<and>
     (\<forall>n. silent (en_read (dp_engine dp n)) \<and> raises_only is_foreign (en_read (dp_engine dp n)) \<and>
          (\<forall>d. silent (en_write (dp_engine dp n) d) \<and>
               raises_only is_foreign (en_write (dp_engine dp n) d)) \<and>
          honest_lock (dp_engine dp n)) \<and>
     (\<forall>d. raises_only is_foreign (mkdir (dp_files dp) d)) \<and>
     (\<forall>p x. raises_only is_foreign (writeFile (dp_files dp) p x)) \<and>
     (\<forall>a b. raises_only is_foreign (rename (dp_files dp) a b))"

named_theorems silent_intros \<open>computations that log nothing\<close>

lemma silent_basic [silent_intros]:
  "silent (return_io x)" "silent (throw_io e)" "silent (lift_io r)" "silent (Pair r)"
  by (simp_all add: silent_def)

lemma silent_lift_w [silent_intros]: "silent (lift_w m)"
  by (simp add: silent_def lift_w_def split: prod.split)

lemma silent_bind [silent_intros]:
  assumes "silent m" and "\<And>x. silent (f x)"
  shows "silent (bind_io m f)"
  unfolding silent_def
proof
  fix s
  obtain r t where m: "m s = (r, t)" by force
  then have t: "rs_trace t = rs_trace s" using assms(1) unfolding silent_def by (metis snd_conv)
  show "rs_trace (snd (bind_io m f s)) = rs_trace s"
    using m t assms(2) by (cases r) (simp_all add: bind_io_def silent_def)
qed

lemma silent_catch [silent_intros]:
  assumes "silent m" and "\<And>e. silent (h e)"
  shows "silent (catch_io m h)"
  unfolding silent_def
proof
  fix s
  obtain r t where m: "m s = (r, t)" by force
  then have t: "rs_trace t = rs_trace s" using assms(1) unfolding silent_def by (metis snd_conv)
  show "rs_trace (snd (catch_io m h s)) = rs_trace s"
    using m t assms(2) by (cases r) (simp_all add: catch_io_def silent_def)
qed

lemma silent_run: "silent m \<Longrightarrow> m s = (r, t) \<Longrightarrow> rs_trace t = rs_trace s"
  by (metis silent_def snd_conv)

lemma silent_configure [silent_intros]: "silent (configure dp)"
  by (simp add: silent_def configure_def split: prod.split)

lemma silent_read_fingerprint [silent_intros]: "silent (read_fingerprint dp file)"
  by (simp add: read_fingerprint_def silent_lift_w)

lemma silent_any_live: "(\<And>a. silent (has_code a)) \<Longrightarrow> silent (any_live has_code ps)"
  by (induction ps) (auto intro!: silent_intros)

lemma silent_diagnose:
  "silent (en_read en) \<Longrightarrow> (\<And>a. silent (has_code a)) \<Longrightarrow> silent (diagnoseFingerprintRefusal en has_code)"
  unfolding diagnoseFingerprintRefusal_def by (auto intro!: silent_intros silent_any_live)

lemma silent_throughRecordRead: "silent m \<Longrightarrow> silent (throughRecordRead file m)"
  unfolding throughRecordRead_def by (auto intro!: silent_intros)

lemma silent_reconcile: "(\<And>a. silent (has_code a)) \<Longrightarrow> silent (reconcileProxies c cmp has_code named stored)"
proof -
  assume h: "\<And>a. silent (has_code a)"
  have "silent (reconcile_loop c has_code stored named)"
    by (induction named) (auto intro!: silent_intros h)
  then show ?thesis unfolding reconcileProxies_def by (auto intro!: silent_intros)
qed

section \<open>Refusals\<close>

fun refusal :: "record_error \<Rightarrow> bool" where
  "refusal (RecInstanceChanged _) = True"
| "refusal (RecFingerprint _ _ _) = True"
| "refusal _ = False"

definition clean :: "('w rs, record_error, 'a) io \<Rightarrow> bool" where
  "clean m \<longleftrightarrow> (\<forall>s e t. m s = (Inl e, t) \<and> refusal e \<longrightarrow> rs_trace t = rs_trace s)"

abbreviation unrefusing :: "('s, record_error, 'a) io \<Rightarrow> bool" where
  "unrefusing m \<equiv> raises_only (\<lambda>e. \<not> refusal e) m"

lemma unrefusing_own: "raises_only is_foreign m \<Longrightarrow> unrefusing m" "raises_only is_chain m \<Longrightarrow> unrefusing m"
  unfolding raises_only_def by (metis is_foreign.elims(2) is_chain.elims(2) refusal.simps)+

lemma unrefusing_basic:
  "unrefusing (return_io x)" "\<not> refusal e \<Longrightarrow> unrefusing (throw_io e)" "unrefusing (log_event ev)"
  "unrefusing (Pair (Inr x))"
  by (simp_all add: raises_only_def log_event_def)

lemma unrefusing_bind: "unrefusing m \<Longrightarrow> (\<And>x. unrefusing (f x)) \<Longrightarrow> unrefusing (bind_io m f)"
  unfolding raises_only_def by (blast elim: bind_io_InlE)

lemma unrefusing_lift_w: "unrefusing m \<Longrightarrow> unrefusing (lift_w m)"
  by (auto simp: raises_only_def lift_w_def split: prod.splits)

lemma unrefusing_lift: "(\<And>e. r = Inl e \<Longrightarrow> \<not> refusal e) \<Longrightarrow> unrefusing (lift_io r)"
  by (auto simp: raises_only_def)

lemma unrefusing_through: "unrefusing (throughRecordRead file m)"
  by (auto simp: raises_only_def throughRecordRead_def catch_io_def split: prod.splits sum.splits if_splits)

lemma clean_silent: "silent m \<Longrightarrow> clean m"
  unfolding clean_def by (blast intro: silent_run)

lemma clean_basic: "clean (return_io x)" "clean (throw_io e)" "clean (Pair r)"
  by (simp_all add: clean_def)

lemma clean_if: "clean a \<Longrightarrow> clean b \<Longrightarrow> clean (if c then a else b)"
  by simp

lemma clean_unrefusing: "unrefusing m \<Longrightarrow> clean m"
  unfolding clean_def raises_only_def by blast

lemma clean_after_silent:
  assumes "silent m" and "\<And>x. clean (f x)"
  shows "clean (bind_io m f)"
  unfolding clean_def
proof (intro allI impI)
  fix s e t assume r: "bind_io m f s = (Inl e, t) \<and> refusal e"
  then show "rs_trace t = rs_trace s"
  proof (elim conjE bind_io_InlE)
    assume "m s = (Inl e, t)"
    with assms(1) show ?thesis by (rule silent_run)
  next
    fix x s' assume "m s = (Inr x, s')" and "f x s' = (Inl e, t)"
    with assms r show ?thesis unfolding clean_def by (metis silent_run)
  qed
qed

lemma clean_before_unrefusing: "clean m \<Longrightarrow> (\<And>x. unrefusing (f x)) \<Longrightarrow> clean (bind_io m f)"
  unfolding clean_def raises_only_def by (blast elim: bind_io_InlE)

lemma clean_throughRecordLock: "clean m \<Longrightarrow> clean (throughRecordLock file m)"
  by (auto simp: clean_def throughRecordLock_def catch_io_def split: prod.splits sum.splits if_splits)

lemma clean_locked:
  assumes "honest_lock en" and "clean cb"
  shows "clean (en_locked en cb)"
  unfolding clean_def
proof (intro allI impI)
  fix s e t assume r: "en_locked en cb s = (Inl e, t) \<and> refusal e"
  from assms(1) consider
      (not_run) f u where "en_locked en cb s = (Inl (RecForeign f), u)"
    | (run) s1 t1 where "rs_trace s1 = rs_trace s" "cb s1 = (fst (en_locked en cb s), t1)"
        "rs_trace (snd (en_locked en cb s)) = rs_trace t1"
    unfolding honest_lock_def by blast
  then show "rs_trace t = rs_trace s"
  proof cases
    case not_run
    with r show ?thesis by auto
  next
    case run
    with r assms(2) show ?thesis unfolding clean_def by (metis fst_conv snd_conv)
  qed
qed

lemma unrefusing_writeFingerprint:
  assumes "quiet_deps dp"
  shows "unrefusing (writeFingerprint (dp_paths dp) (dp_files dp) stringify pid file r)"
proof -
  have "unrefusing (mkdir (dp_files dp) d)" and "unrefusing (writeFile (dp_files dp) p x)"
    and "unrefusing (rename (dp_files dp) u v)" for d p x u v
    using assms unfolding quiet_deps_def by (blast intro: unrefusing_own)+
  then show ?thesis
    unfolding writeFingerprint_def by (auto intro!: unrefusing_bind unrefusing_basic)
qed

lemma clean_locked_body:
  assumes "quiet_deps dp"
  shows "clean (locked_body dp (dp_engine dp n) i cmp mf ff)"
proof -
  let ?en = "dp_engine dp n"
  have rd: "silent (en_read ?en)" and wr: "\<And>d. unrefusing (en_write ?en d)"
    using assms unfolding quiet_deps_def by (auto intro: unrefusing_own)
  show ?thesis
    unfolding locked_body_def Let_def
    by (intro clean_after_silent [OF rd])
       (auto intro!: clean_basic clean_unrefusing unrefusing_bind unrefusing_basic
          unrefusing_lift_w unrefusing_writeFingerprint [OF assms] wr)
qed

lemma clean_settle_record:
  assumes "quiet_deps dp"
  shows "clean (settle_record dp (dp_engine dp n) i cmp mf ff raw)"
proof -
  have "honest_lock (dp_engine dp n)" using assms unfolding quiet_deps_def by blast
  then have "clean (throughRecordLock mf (en_locked (dp_engine dp n)
      (locked_body dp (dp_engine dp n) i cmp mf ff)))"
    by (intro clean_throughRecordLock clean_locked clean_locked_body assms)
  then show ?thesis
    unfolding settle_record_def Let_def
    by (auto intro!: clean_before_unrefusing unrefusing_bind unrefusing_basic clean_basic)
qed

lemma unrefusing_reconcile:
  assumes "quiet_deps dp"
  shows "unrefusing (reconcileProxies c cmp (dp_hasCode dp) named stored)"
proof -
  have h: "unrefusing (dp_hasCode dp a)" for a
    using assms unfolding quiet_deps_def by (blast intro: unrefusing_own)
  have l: "unrefusing (lift_io (map_sum RecAddress id r))" for r
    by (rule unrefusing_lift) (auto simp: map_sum_Inl)
  have "unrefusing (reconcile_loop c (dp_hasCode dp) stored named)"
    by (induction named) (auto intro!: unrefusing_basic unrefusing_bind h l)
  then show ?thesis unfolding reconcileProxies_def by (intro unrefusing_bind unrefusing_basic)
qed

lemma clean_open_settled:
  assumes "quiet_deps dp"
  shows "clean (open_settled dp (dp_engine dp n) i mf ff rd)"
proof -
  have "silent (throughRecordRead mf (en_read (dp_engine dp n)))"
    using assms unfolding quiet_deps_def by (blast intro: silent_throughRecordRead)
  then show ?thesis
    unfolding open_settled_def Let_def
    by (intro clean_after_silent clean_if clean_basic
          clean_before_unrefusing [OF clean_settle_record [OF assms]])
       (auto intro!: unrefusing_bind unrefusing_basic unrefusing_reconcile [OF assms] split: prod.split)
qed

lemma clean_openRecord:
  assumes "quiet_deps dp"
  shows "clean (openRecord dp)"
proof -
  have idn: "silent (dp_identity dp)" and hc: "\<And>a. silent (dp_hasCode dp a)"
    and rd: "\<And>n. silent (en_read (dp_engine dp n))"
    using assms unfolding quiet_deps_def by blast+
  have settled: "clean (open_settled dp en i mf ff r)"
    if "openRecordManifest (dp_engine dp) c = Inr en" for en c i mf ff r
    using that clean_open_settled [OF assms]
    by (auto simp: openRecordManifest_def split: sum.splits)
  have diag: "silent (diagnoseFingerprintRefusal en (dp_hasCode dp))"
    if "openRecordManifest (dp_engine dp) c = Inr en" for en c
    using that by (auto simp: openRecordManifest_def split: sum.splits intro!: silent_diagnose rd hc)
  have rest: "clean (bind_io (lift_io (assertRecordLocation (dp_paths dp) dir (en_file en))) (\<lambda>mf.
     let ff = fingerprintPathFor (dp_paths dp) mf in
     bind_io (read_fingerprint dp ff) (\<lambda>rd.
       case rd of
         FpUnreadable because \<Rightarrow>
           bind_io (diagnoseFingerprintRefusal en (dp_hasCode dp)) (\<lambda>diagnosis.
             throw_io (RecFingerprint ff because diagnosis))
       | _ \<Rightarrow> open_settled dp en i mf ff rd)))"
    if "openRecordManifest (dp_engine dp) c = Inr en" for en c dir i
    unfolding Let_def
    by (intro clean_after_silent silent_intros)
       (auto intro!: settled [OF that] clean_after_silent diag [OF that] clean_basic
          split: fingerprint_read.split)
  have man: "clean (bind_io (lift_io (openRecordManifest (dp_engine dp) c)) f)"
    if "\<And>en. openRecordManifest (dp_engine dp) c = Inr en \<Longrightarrow> clean (f en)"
    for c and f :: "'a rs engine \<Rightarrow> ('a rs, record_error, session) io"
    using that by (cases "openRecordManifest (dp_engine dp) c") (auto simp: clean_def bind_io_def)
  show ?thesis
    unfolding openRecord_def
    by (intro clean_after_silent silent_configure idn man rest)
qed

section \<open>What a successful opening did\<close>

definition settling_events :: "comparison \<Rightarrow> identity \<Rightarrow> string \<Rightarrow> migration \<Rightarrow> event list" where
  "settling_events cmp i ff mig =
     (if cmp = Same then [] else [WriteFingerprint ff (fingerprintFor i)]) @
     (if mg_rewritten mig = 0 then [] else [WriteManifest (mg_data mig)])"

lemma log_event_run: "log_event ev s = (Inr (), s\<lparr>rs_trace := rs_trace s @ [ev]\<rparr>)"
  by (simp add: log_event_def)

lemma locked_body_ok:
  assumes q: "quiet_deps dp" and run: "locked_body dp (dp_engine dp n) i cmp mf ff s = (Inr mig, t)"
  shows "rs_trace t = rs_trace s @ settling_events cmp i ff mig"
    and "settle cmp = None \<Longrightarrow> recordCount (mg_data mig) = 0"
proof -
  let ?en = "dp_engine dp n"
  have rd: "silent (en_read ?en)" and wr: "\<And>d. silent (en_write ?en d)"
    using q unfolding quiet_deps_def by blast+
  let ?fp = "if cmp \<noteq> Same then
        bind_io (log_event (WriteFingerprint ff (fingerprintFor i))) (\<lambda>_.
          lift_w (writeFingerprint (dp_paths dp) (dp_files dp) (dp_stringify dp) (dp_pid dp)
                    ff (fingerprintFor i)))
      else return_io ()"
  from run obtain raw s1 where raw: "en_read ?en s = (Inr raw, s1)"
    and mig: "mig = canonicalizeStoredAddresses (dp_codec dp) raw"
    and empty: "\<not> (settle cmp = None \<and> 0 < recordCount (mg_data mig))"
    and rest: "bind_io ?fp (\<lambda>_. bind_io
        (if 0 < mg_rewritten mig then
           bind_io (log_event (WriteManifest (mg_data mig))) (\<lambda>_. en_write ?en (mg_data mig))
         else return_io ()) (\<lambda>_. return_io mig)) s1 = (Inr mig, t)"
    unfolding locked_body_def Let_def
    by (elim bind_io_InrE) (auto split: if_splits elim!: bind_io_InrE simp: bind_io_ok)
  from rest obtain s2 s3 where fp: "?fp s1 = (Inr (), s2)"
    and man: "(if 0 < mg_rewritten mig then
           bind_io (log_event (WriteManifest (mg_data mig))) (\<lambda>_. en_write ?en (mg_data mig))
         else return_io ()) s2 = (Inr (), t)"
    by (elim bind_io_InrE) (auto simp: old.unit.exhaust)
  have "rs_trace s2 = rs_trace s1 @ (if cmp = Same then [] else [WriteFingerprint ff (fingerprintFor i)])"
    using fp
    by (auto simp: log_event_run elim!: bind_io_InrE split: if_splits
        dest!: silent_run [OF silent_lift_w])
  moreover have "rs_trace t = rs_trace s2 @ (if mg_rewritten mig = 0 then [] else [WriteManifest (mg_data mig)])"
    using man
    by (auto simp: log_event_run elim!: bind_io_InrE split: if_splits dest!: silent_run [OF wr])
  ultimately show "rs_trace t = rs_trace s @ settling_events cmp i ff mig"
    using silent_run [OF rd raw] by (simp add: settling_events_def)
  show "settle cmp = None \<Longrightarrow> recordCount (mg_data mig) = 0" using empty by simp
qed

lemma locked_ok:
  assumes q: "quiet_deps dp"
    and run: "en_locked (dp_engine dp n) (locked_body dp (dp_engine dp n) i cmp mf ff) s = (Inr mig, t)"
  shows "rs_trace t = rs_trace s @ settling_events cmp i ff mig"
    and "settle cmp = None \<Longrightarrow> recordCount (mg_data mig) = 0"
proof -
  let ?cb = "locked_body dp (dp_engine dp n) i cmp mf ff"
  have "honest_lock (dp_engine dp n)" using q unfolding quiet_deps_def by blast
  with run obtain s1 t1 where "rs_trace s1 = rs_trace s" and cb: "?cb s1 = (Inr mig, t1)"
    and "rs_trace t = rs_trace t1"
    unfolding honest_lock_def by (metis Inl_Inr_False fst_conv prod.inject snd_conv)
  then show "rs_trace t = rs_trace s @ settling_events cmp i ff mig"
    and "settle cmp = None \<Longrightarrow> recordCount (mg_data mig) = 0"
    using locked_body_ok [OF q cb] by simp_all
qed

lemma throughRecordLock_ok: "throughRecordLock file m s = (Inr x, t) \<longleftrightarrow> m s = (Inr x, t)"
  by (auto simp: throughRecordLock_def catch_io_def split: prod.splits sum.splits if_splits)

lemma settle_record_ok:
  assumes q: "quiet_deps dp"
    and run: "settle_record dp (dp_engine dp n) i cmp mf ff raw s = (Inr (mig, k), t)"
  shows "rs_trace t = rs_trace s @
      (if cmp = Same then [] else [WriteFingerprint ff (fingerprintFor i)]) @
      (if k = 0 then [] else [WriteManifest (mg_data mig)]) @
      (if settle cmp = None then [Disclose (id_observed i) (id_chain i)] else [])"
    and "settle cmp = None \<Longrightarrow> recordCount (mg_data mig) = 0"
proof -
  let ?m = "canonicalizeStoredAddresses (dp_codec dp) raw"
  have "rs_trace t = rs_trace s @
      (if cmp = Same then [] else [WriteFingerprint ff (fingerprintFor i)]) @
      (if k = 0 then [] else [WriteManifest (mg_data mig)]) @
      (if settle cmp = None then [Disclose (id_observed i) (id_chain i)] else []) \<and>
      (settle cmp = None \<longrightarrow> recordCount (mg_data mig) = 0)"
  proof (cases "cmp \<noteq> Same \<or> 0 < mg_rewritten ?m")
    case True
    with run obtain s1 where
      locked: "en_locked (dp_engine dp n) (locked_body dp (dp_engine dp n) i cmp mf ff) s = (Inr mig, s1)"
      and k: "k = mg_rewritten mig"
      and t: "rs_trace t = rs_trace s1 @
        (if settle cmp = None then [Disclose (id_observed i) (id_chain i)] else [])"
      unfolding settle_record_def Let_def
      by (auto elim!: bind_io_InrE simp: throughRecordLock_ok log_event_run split: if_splits)
    then show ?thesis using locked_ok [OF q locked] by (simp add: settling_events_def)
  next
    case False
    with run show ?thesis by (auto simp: settle_record_def Let_def)
  qed
  then show "rs_trace t = rs_trace s @
      (if cmp = Same then [] else [WriteFingerprint ff (fingerprintFor i)]) @
      (if k = 0 then [] else [WriteManifest (mg_data mig)]) @
      (if settle cmp = None then [Disclose (id_observed i) (id_chain i)] else [])"
    and "settle cmp = None \<Longrightarrow> recordCount (mg_data mig) = 0" by blast+
qed

lemma reported_instance:
  assumes "\<forall>c. rd \<noteq> FpUnreadable c"
  shows "io_instance (case settle cmp of
      None \<Rightarrow> \<lparr>io_instance = ReArmed, io_because = None, io_field = None\<rparr>
    | Some st \<Rightarrow> instanceOutcomeOf rd st) =
    (case cmp of Same \<Rightarrow> InstanceSame | Indeterminate _ \<Rightarrow> InstanceIndeterminate | Changed _ _ _ \<Rightarrow> ReArmed)"
  using assms by (cases cmp; cases rd) (simp_all add: instanceOutcomeOf_def)

text \<open>What one opening may do, as a function of what it reports.\<close>

definition reported_events :: "session \<Rightarrow> manifest_data \<Rightarrow> event list" where
  "reported_events ss d =
     (if rp_instance (ss_report ss) = InstanceSame then []
      else [WriteFingerprint (ss_fingerprint_file ss) (fingerprintFor (ss_identity ss))]) @
     (if rp_migrated (ss_report ss) = 0 then [] else [WriteManifest d]) @
     (if rp_instance (ss_report ss) = ReArmed
      then [Disclose (id_observed (ss_identity ss)) (id_chain (ss_identity ss))] else [])"

lemma open_settled_ok:
  assumes q: "quiet_deps dp" and rd: "\<forall>c. rd \<noteq> FpUnreadable c"
    and run: "open_settled dp (dp_engine dp n) i mf ff rd s = (Inr ss, t)"
  shows "\<exists>d. rs_trace t = rs_trace s @ reported_events ss d \<and>
    (rp_instance (ss_report ss) = ReArmed \<longrightarrow> recordCount d = 0)"
proof -
  let ?cmp = "compareChainInstance (case rd of FpRecord r \<Rightarrow> Some r | _ \<Rightarrow> None) i"
  have rs: "silent (throughRecordRead mf (en_read (dp_engine dp n)))"
    and rc: "silent (reconcileProxies c k (dp_hasCode dp) a b)" for c k a b
    using q unfolding quiet_deps_def by (blast intro: silent_throughRecordRead silent_reconcile)+
  from run obtain raw s1 mig k s2 vs where
    raw: "throughRecordRead mf (en_read (dp_engine dp n)) s = (Inr raw, s1)"
    and st: "settle_record dp (dp_engine dp n) i ?cmp mf ff raw s1 = (Inr (mig, k), s2)"
    and vs: "reconcileProxies (dp_codec dp) (dp_compare dp) (dp_hasCode dp) (dp_addresses dp)
        (md_proxies (mg_data mig)) s2 = (Inr vs, t)"
    and ss: "ss_fingerprint_file ss = ff" "ss_identity ss = i"
      "rp_migrated (ss_report ss) = k"
      "rp_instance (ss_report ss) = io_instance (case settle ?cmp of
          None \<Rightarrow> \<lparr>io_instance = ReArmed, io_because = None, io_field = None\<rparr>
        | Some st \<Rightarrow> instanceOutcomeOf rd st)"
    unfolding open_settled_def Let_def buildReport_def
    by (auto elim!: bind_io_InrE split: if_splits)
  have inst: "rp_instance (ss_report ss) = (case ?cmp of Same \<Rightarrow> InstanceSame
      | Indeterminate _ \<Rightarrow> InstanceIndeterminate | Changed _ _ _ \<Rightarrow> ReArmed)"
    unfolding ss(4) by (rule reported_instance [OF rd])
  have same: "rp_instance (ss_report ss) = InstanceSame \<longleftrightarrow> ?cmp = Same"
    and rearmed: "rp_instance (ss_report ss) = ReArmed \<longleftrightarrow> settle ?cmp = None"
    unfolding inst by (cases ?cmp; simp)+
  have "rs_trace t = rs_trace s2" "rs_trace s1 = rs_trace s"
    using silent_run [OF rc vs] silent_run [OF rs raw] by simp_all
  then have "rs_trace t = rs_trace s @ reported_events ss (mg_data mig)"
    using settle_record_ok(1) [OF q st] unfolding reported_events_def same rearmed ss(1-3) by simp
  then show ?thesis using settle_record_ok(2) [OF q st]
    by (intro exI [of _ "mg_data mig"]) (simp add: rearmed)
qed

lemma openRecord_ok:
  assumes q: "quiet_deps dp" and run: "openRecord dp s = (Inr ss, t)"
  shows "\<exists>d. rs_trace t = rs_trace s @ reported_events ss d \<and>
    (rp_instance (ss_report ss) = ReArmed \<longrightarrow> recordCount d = 0)"
proof -
  from run obtain dir s1 i s2 n s3 mf rd where
    c: "configure dp s = (Inr dir, s1)" and i: "dp_identity dp s1 = (Inr i, s2)"
    and r: "read_fingerprint dp (fingerprintPathFor (dp_paths dp) mf) s2 = (Inr rd, s3)"
    and rest: "(case rd of
         FpUnreadable because \<Rightarrow>
           bind_io (diagnoseFingerprintRefusal (dp_engine dp n) (dp_hasCode dp)) (\<lambda>diagnosis.
             throw_io (RecFingerprint (fingerprintPathFor (dp_paths dp) mf) because diagnosis))
       | _ \<Rightarrow> open_settled dp (dp_engine dp n) i mf (fingerprintPathFor (dp_paths dp) mf) rd) s3 = (Inr ss, t)"
    unfolding openRecord_def Let_def openRecordManifest_def
    by (elim bind_io_InrE) (auto split: sum.splits)
  have ok: "\<forall>c. rd \<noteq> FpUnreadable c" using rest by (auto elim!: bind_io_InrE)
  then have "open_settled dp (dp_engine dp n) i mf (fingerprintPathFor (dp_paths dp) mf) rd s3 = (Inr ss, t)"
    using rest by (cases rd) auto
  from open_settled_ok [OF q ok this] obtain d where
    "rs_trace t = rs_trace s3 @ reported_events ss d \<and>
     (rp_instance (ss_report ss) = ReArmed \<longrightarrow> recordCount d = 0)" by blast
  moreover have idn: "silent (dp_identity dp)" using q unfolding quiet_deps_def by blast
  ultimately show ?thesis
    using silent_run [OF silent_configure c] silent_run [OF idn i] silent_run [OF silent_read_fingerprint r]
    by metis
qed

section \<open>Properties\<close>

text \<open>Surroundings for the witnesses: a readable record, a chain, one fingerprint text.\<close>

definition demo_engine :: "manifest_data \<Rightarrow> nat \<Rightarrow> unit rs engine" where
  "demo_engine d n = \<lparr>en_file = ''/r/unknown-1.json'', en_read = return_io d, en_write = (\<lambda>_. return_io ()),
     en_locked = (\<lambda>cb. cb), en_proxy = (\<lambda>_. throw_io RecDefect), en_impl = (\<lambda>_. throw_io RecDefect),
     en_add_proxy = (\<lambda>_ _. return_io ())\<rparr>"

definition demo_deps :: "manifest_data \<Rightarrow> js option \<Rightarrow> unit deps" where
  "demo_deps d fp = \<lparr>dp_codec = demo_codec, dp_paths = demo_paths, dp_root = ''/r/'',
     dp_identity = return_io demo_identity, dp_hasCode = (\<lambda>_. return_io True),
     dp_engine = demo_engine d,
     dp_files = \<lparr>mkdir = (\<lambda>_. return_io ()), readFile = (\<lambda>_. return_io ''text''),
       writeFile = (\<lambda>_ _. return_io ()), rename = (\<lambda>_ _. return_io ())\<rparr>,
     dp_stringify = (\<lambda>_. []), dp_json = (\<lambda>_. fp), dp_pid = 7, dp_addresses = [],
     dp_compare = (\<lambda>_ _. 0)\<rparr>"

definition demo_start :: "unit rs" where
  "demo_start = \<lparr>rs_env = Map.empty, rs_world = (), rs_trace = []\<rparr>"

definition empty_record :: manifest_data where
  "empty_record = \<lparr>md_impls = [], md_proxies = [], md_admin = None, md_rest = JNull\<rparr>"

lemma demo_quiet: "quiet_deps (demo_deps d fp)"
proof -
  have lock: "honest_lock (demo_engine d n)" for n
    unfolding honest_lock_def
  proof (intro allI disjI2)
    fix cb :: "(unit rs, record_error, migration) io" and s
    show "\<exists>s1 t1 t. rs_trace s1 = rs_trace s \<and> cb s1 = (fst (en_locked (demo_engine d n) cb s), t1) \<and>
        snd (en_locked (demo_engine d n) cb s) = t \<and> rs_trace t = rs_trace t1"
      by (intro exI [of _ s] exI [of _ "snd (cb s)"]) (simp add: demo_engine_def)
  qed
  show ?thesis
    by (simp add: quiet_deps_def demo_deps_def lock)
       (simp add: demo_engine_def silent_def raises_only_def)
qed

text \<open>
  C17: a refusal changes nothing.  When opening the record fails because the chain is another
  instance than the fingerprint remembers, or because the fingerprint cannot be used, no
  fingerprint write, no manifest write and no disclosure has been made, also when the
  change is only noticed under the lock.
\<close>

theorem record_refusal_writes_nothing:
  assumes "quiet_deps dp" and "openRecord dp s = (Inl e, t)"
    and "(\<exists>c. e = RecInstanceChanged c) \<or> (\<exists>f c d. e = RecFingerprint f c d)"
  shows "rs_trace t = rs_trace s"
proof -
  have "refusal e" using assms(3) by auto
  then show ?thesis using clean_openRecord [OF assms(1)] assms(2) unfolding clean_def by blast
qed

theorem record_refusal_writes_nothing_witness:
  "rs_trace (snd (openRecord (demo_deps demo_record None) demo_start)) = []"
proof -
  obtain r t where run: "openRecord (demo_deps demo_record None) demo_start = (r, t)" by force
  have "fst (openRecord (demo_deps demo_record None) demo_start) =
      Inl (RecFingerprint ''/r/f.instance.json'' FpNotJson ProxiesLive)"
    by code_simp
  with run have r: "r = Inl (RecFingerprint ''/r/f.instance.json'' FpNotJson ProxiesLive)" by simp
  show ?thesis
    using record_refusal_writes_nothing [OF demo_quiet run [unfolded r]] run
    by (simp add: demo_start_def)
qed


definition other_chain :: js where
  "other_chain = JObj [(''schema'', JNum (NInt 1)), (''chainId'', JStr ''0x1'')]"



end
