(* ===== verification/DeployChecks.thy ===== *)
theory DeployChecks
  imports RecordSession
begin

text \<open>
  \<open>deploy/confirm.ts\<close>, \<open>deploy/sender.ts\<close> and \<open>deploy/link.ts\<close>: what a deployment may believe
  about a transaction, about who signed it, and about the bytecode it is going to send.
  The wait handle of the host (\<open>wait\<close>) and the platform's lossy UTF-8 decoder (\<open>utf8\<close>) are
  parameters.
\<close>

section \<open>Confirmation\<close>

datatype indeterminate_why = WaitExhausted | ReceiptFieldAbsent

datatype verdict_tx =
    ConfirmedSuccessful string js
  | Reverted_tx string string "string option" js
  | Indeterminate_tx string indeterminate_why "nat option"

record bounds =
  intervalMs :: nat
  maxRetries :: nat

definition HOST_CONFIRMATION_BOUNDS :: bounds where
  "HOST_CONFIRMATION_BOUNDS = \<lparr>intervalMs = 500, maxRetries = 240\<rparr>"

fun decodeHexMessage :: "(nat list \<Rightarrow> string) \<Rightarrow> js \<Rightarrow> string option" where
  "decodeHexMessage utf8 (JStr s) =
     (if s = [] then None
      else if \<not> is_hex_digits s then Some s
      else Some (utf8 (hex_bytes s)))"
| "decodeHexMessage utf8 _ = None"

text \<open>A value of type object, else the empty object.\<close>

fun object_or_empty :: "js \<Rightarrow> js" where
  "object_or_empty (JObj ps) = JObj ps"
| "object_or_empty (JArr xs) = JArr xs"
| "object_or_empty _ = JObj []"

definition verdict_of_info :: "(nat list \<Rightarrow> string) \<Rightarrow> string \<Rightarrow> js \<Rightarrow> verdict_tx" where
  "verdict_of_info utf8 hash info =
     (let rec = object_or_empty info;
          vmResult = own_prop (object_or_empty (own_prop rec ''receipt'')) ''result''
      in if vmResult = JStr ''SUCCESS'' then ConfirmedSuccessful hash rec
         else case vmResult of
             JStr (c # cs) \<Rightarrow>
               Reverted_tx hash (c # cs) (decodeHexMessage utf8 (own_prop rec ''resMessage'')) rec
           | _ \<Rightarrow> Indeterminate_tx hash ReceiptFieldAbsent None)"

definition confirmTransaction ::
  "(nat list \<Rightarrow> string) \<Rightarrow> string \<Rightarrow> (string \<Rightarrow> nat \<Rightarrow> nat \<Rightarrow> ('w, js, js) io) \<Rightarrow> bounds \<Rightarrow>
   'w \<Rightarrow> verdict_tx \<times> 'w" where
  "confirmTransaction utf8 hash wait b w =
     (case wait hash (intervalMs b) (maxRetries b) w of
        (Inl _, w') \<Rightarrow> (Indeterminate_tx hash WaitExhausted (Some (intervalMs b * maxRetries b)), w')
      | (Inr info, w') \<Rightarrow> (verdict_of_info utf8 hash info, w'))"

section \<open>The sender\<close>

datatype deploy_error =
    DepAddress address_error
  | SenderMismatch string string
  | LinkedImplementationRefused "string list"
  | LinkVerificationFailed "string list"
  | CheatcodeSlotCollision string
  | StaleTransactionIdentity string
  | SeamInvariant
  | NestedOperation string

datatype sender = Resolved string | Unconfigured

definition resolveEffectiveSender :: "codec \<Rightarrow> string option \<Rightarrow> deploy_error + sender" where
  "resolveEffectiveSender c configured =
     (case configured of
        None \<Rightarrow> Inr Unconfigured
      | Some a \<Rightarrow> map_sum DepAddress Resolved (canonicalizeAddress c (JStr a)))"

definition assertSignerMatches :: "codec \<Rightarrow> sender \<Rightarrow> string \<Rightarrow> deploy_error + string" where
  "assertSignerMatches c resolved signedBy =
     bind_sum (map_sum DepAddress id (canonicalizeAddress c (JStr signedBy))) (\<lambda>signer.
       case resolved of
         Unconfigured \<Rightarrow> Inr signer
       | Resolved a \<Rightarrow>
           bind_sum (map_sum DepAddress id (canonicalizeAddress c (JStr a))) (\<lambda>expected.
             if signer \<noteq> expected then Inl (SenderMismatch expected signer) else Inr signer))"

section \<open>Linking\<close>

text \<open>The hashed placeholder: \<open>__$\<close>, 34 hexadecimal digits, \<open>$__\<close>.\<close>

definition hashed_at :: "string \<Rightarrow> bool" where
  "hashed_at s \<longleftrightarrow>
     prefix ''__$'' s \<and> length (take 34 (drop 3 s)) = 34 \<and> is_hex_digits (take 34 (drop 3 s)) \<and>
     prefix ''$__'' (drop 37 s)"

text \<open>The global replacement: the hashes found, left to right, and the text with zeros for them.\<close>

function scan_hashed :: "string \<Rightarrow> string list \<times> string" where
  "scan_hashed s =
     (if hashed_at s then
        (case scan_hashed (drop 40 s) of
           (ns, r) \<Rightarrow> (take 34 (drop 3 s) # ns, replicate 40 (CHR ''0'') @ r))
      else case s of
          [] \<Rightarrow> ([], [])
        | c # s' \<Rightarrow> (case scan_hashed s' of (ns, r) \<Rightarrow> (ns, c # r)))"
  by pat_completeness auto
termination
  by (relation "measure length") (auto simp: hashed_at_def)

declare scan_hashed.simps [simp del]

definition legacy_char :: "char \<Rightarrow> bool" where
  "legacy_char c \<longleftrightarrow>
     c \<in> set ''ABCDEFGHIJKLMNOPQRSTUVWXYZabcdefghijklmnopqrstuvwxyz0123456789.:/-''"

definition legacy_at :: "string \<Rightarrow> bool" where
  "legacy_at s \<longleftrightarrow> prefix ''__'' s \<and> takeWhile legacy_char (drop 2 s) \<noteq> []"

lemma length_dropWhile_less: "length (dropWhile P xs) \<le> length xs"
  by (simp add: length_dropWhile_le)

function scan_legacy :: "string \<Rightarrow> string list" where
  "scan_legacy s =
     (if legacy_at s then
        takeWhile legacy_char (drop 2 s) #
          scan_legacy (dropWhile (\<lambda>c. c = CHR ''_'') (dropWhile legacy_char (drop 2 s)))
      else case s of [] \<Rightarrow> [] | c # s' \<Rightarrow> scan_legacy s')"
  by pat_completeness auto
termination
proof (relation "measure length")
  fix s :: string assume "legacy_at s"
  then have "2 \<le> length s" by (auto simp: legacy_at_def prefix_def)
  moreover have "length (dropWhile (\<lambda>c. c = CHR ''_'') (dropWhile legacy_char (drop 2 s))) \<le> length (drop 2 s)"
    by (meson length_dropWhile_less le_trans)
  ultimately show "(dropWhile (\<lambda>c. c = CHR ''_'') (dropWhile legacy_char (drop 2 s)), s) \<in> measure length"
    by simp
qed simp_all

declare scan_legacy.simps [simp del]

definition strip_bytecode :: "string \<Rightarrow> string" where
  "strip_bytecode b = (if prefix ''0x'' b then drop 2 b else b)"

definition linkedLibraryNames :: "string \<Rightarrow> string list" where
  "linkedLibraryNames bytecode =
     (case scan_hashed (strip_bytecode bytecode) of
        (hashes, rest) \<Rightarrow> js_dedupe (hashes @ scan_legacy rest))"

definition refuseUnlessLinkingAllowed :: "string list \<Rightarrow> bool \<Rightarrow> deploy_error + unit" where
  "refuseUnlessLinkingAllowed libraries allowed =
     (if libraries \<noteq> [] \<and> \<not> allowed then Inl (LinkedImplementationRefused libraries) else Inr ())"

definition assertFullyLinked :: "string \<Rightarrow> deploy_error + unit" where
  "assertFullyLinked bytecode =
     (let remaining = linkedLibraryNames bytecode
      in if remaining \<noteq> [] then Inl (LinkVerificationFailed remaining)
         else if CHR ''_'' \<in> set (strip_bytecode bytecode)
           then Inl (LinkVerificationFailed [''<unrecognized placeholder form>''])
         else Inr ())"

section \<open>Facts\<close>

lemma not_hashed: "CHR ''_'' \<notin> set s \<Longrightarrow> \<not> hashed_at s"
  by (auto simp: hashed_at_def prefix_def)

lemma not_legacy: "CHR ''_'' \<notin> set s \<Longrightarrow> \<not> legacy_at s"
  by (auto simp: legacy_at_def prefix_def)

lemma scan_hashed_clean: "CHR ''_'' \<notin> set s \<Longrightarrow> scan_hashed s = ([], s)"
proof (induction s)
  case Nil
  then show ?case by (simp add: scan_hashed.simps not_hashed)
next
  case (Cons c s)
  then show ?case by (subst scan_hashed.simps) (simp add: not_hashed)
qed

lemma scan_legacy_clean: "CHR ''_'' \<notin> set s \<Longrightarrow> scan_legacy s = []"
proof (induction s)
  case Nil
  then show ?case by (simp add: scan_legacy.simps not_legacy)
next
  case (Cons c s)
  then show ?case by (subst scan_legacy.simps) (simp add: not_legacy)
qed

lemma js_dedupe_Nil: "js_dedupe xs = [] \<longleftrightarrow> xs = []"
  by (simp add: js_dedupe_def)

lemma scan_hashed_skip:
  assumes "CHR ''_'' \<notin> set pre"
  shows "scan_hashed (pre @ s) = (fst (scan_hashed s), pre @ snd (scan_hashed s))"
  using assms
proof (induction pre)
  case Nil
  then show ?case by simp
next
  case (Cons c pre)
  have "\<not> hashed_at ((c # pre) @ s)"
    using Cons.prems by (auto simp: hashed_at_def prefix_def)
  then show ?case using Cons by (subst scan_hashed.simps) simp
qed

section \<open>Properties\<close>

text \<open>
  C27: Success is only what the chain said.  A transaction is reported confirmed exactly when
  the wait handle resolved with an object whose receipt's result is the string \<open>SUCCESS\<close>, and
  reverted exactly when that result is another non-empty string; a rejected wait and every
  other shape are indeterminate.  The wait is used once: the world is the one it left.
\<close>

theorem confirmation_never_invents_success:
  "snd (confirmTransaction utf8 h wait b w) = snd (wait h (intervalMs b) (maxRetries b) w) \<and>
   (case fst (wait h (intervalMs b) (maxRetries b) w) of
      Inl cause \<Rightarrow> fst (confirmTransaction utf8 h wait b w) =
        Indeterminate_tx h WaitExhausted (Some (intervalMs b * maxRetries b))
    | Inr info \<Rightarrow>
        (\<exists>r. fst (confirmTransaction utf8 h wait b w) = ConfirmedSuccessful h r) =
          (own_prop (own_prop info ''receipt'') ''result'' = JStr ''SUCCESS'') \<and>
        (\<exists>x m r. fst (confirmTransaction utf8 h wait b w) = Reverted_tx h x m r) =
          (\<exists>x. own_prop (own_prop info ''receipt'') ''result'' = JStr x \<and> x \<noteq> [] \<and> x \<noteq> ''SUCCESS'') \<and>
        (fst (confirmTransaction utf8 h wait b w) = Indeterminate_tx h ReceiptFieldAbsent None) =
          (\<nexists>x. own_prop (own_prop info ''receipt'') ''result'' = JStr x \<and> x \<noteq> []))"
proof -
  obtain r w' where wait: "wait h (intervalMs b) (maxRetries b) w = (r, w')" by force
  have obj: "own_prop (object_or_empty v) k = own_prop v k" for v k
    by (cases v) simp_all
  show ?thesis
  proof (cases r)
    case (Inl cause)
    then show ?thesis using wait by (simp add: confirmTransaction_def)
  next
    case (Inr info)
    define res where "res = own_prop (own_prop info ''receipt'') ''result''"
    have v: "verdict_of_info utf8 h info =
        (if res = JStr ''SUCCESS'' then ConfirmedSuccessful h (object_or_empty info)
         else case res of
             JStr (c # cs) \<Rightarrow> Reverted_tx h (c # cs)
               (decodeHexMessage utf8 (own_prop info ''resMessage'')) (object_or_empty info)
           | _ \<Rightarrow> Indeterminate_tx h ReceiptFieldAbsent None)"
      by (simp only: verdict_of_info_def Let_def obj res_def)
    have run: "confirmTransaction utf8 h wait b w = (verdict_of_info utf8 h info, w')"
      using wait Inr by (simp add: confirmTransaction_def)
    show ?thesis
      unfolding run wait Inr fst_conv snd_conv sum.case res_def [symmetric] v
      by (cases res) (auto split: list.split)
  qed
qed

text \<open>
  A deployment is attributed to the configured sender or refused.  With a configured
  sender, the signer of a confirmed transaction is accepted exactly when both spellings
  canonicalize to the same address; with none, exactly when the signer canonicalizes.
\<close>

theorem sender_check_is_address_equality:
  assumes "checksummer c" and "resolveEffectiveSender c configured = Inr resolved"
  shows "assertSignerMatches c resolved signedBy = Inr a \<longleftrightarrow>
    canonicalizeAddress c (JStr signedBy) = Inr a \<and>
    (case configured of None \<Rightarrow> True | Some x \<Rightarrow> canonicalizeAddress c (JStr x) = Inr a)"
proof (cases configured)
  case None
  then show ?thesis using assms(2)
    by (cases "canonicalizeAddress c (JStr signedBy)")
       (auto simp: resolveEffectiveSender_def assertSignerMatches_def)
next
  case (Some x)
  then obtain e where e: "canonicalizeAddress c (JStr x) = Inr e" and s: "resolved = Resolved e"
    using assms(2) by (cases "canonicalizeAddress c (JStr x)") (auto simp: resolveEffectiveSender_def)
  have "canonicalizeAddress c (JStr e) = Inr e"
    using canonical.mint_idem [OF assms(1)] e by (simp add: try_agrees)
  then show ?thesis using Some s e
    by (cases "canonicalizeAddress c (JStr signedBy)")
       (auto simp: assertSignerMatches_def)
qed

theorem sender_check_is_address_equality_witness:
  "assertSignerMatches demo_codec (Resolved ''0xa614f803B6FD780986A42c78Ec9c7f77e6DeD13C'')
     ''41a614f803b6fd780986a42c78ec9c7f77e6ded13c'' = Inr ''0xa614f803B6FD780986A42c78Ec9c7f77e6DeD13C''"
proof -
  have r: "resolveEffectiveSender demo_codec (Some ''TR7NHqjeKQxGTCi8q8ZY4pL8otSzgjLj6t'') =
      Inr (Resolved ''0xa614f803B6FD780986A42c78Ec9c7f77e6DeD13C'')"
    by (simp add: resolveEffectiveSender_def demo_mint)
  have "canonicalizeAddress demo_codec (JStr ''41a614f803b6fd780986a42c78ec9c7f77e6ded13c'') =
      Inr ''0xa614f803B6FD780986A42c78Ec9c7f77e6DeD13C''" by code_simp
  then show ?thesis
    using sender_check_is_address_equality [OF demo_codec_checksummer r] demo_mint by simp
qed

text \<open>
  Bytecode passes the link check exactly when it holds no placeholder fragment at all.
  The extractor and the underscore belt together accept a bytecode if and only if no
  underscore is left in it after an optional \<open>0x\<close>.
\<close>

theorem fully_linked_iff_no_underscore:
  "assertFullyLinked b = Inr () \<longleftrightarrow> CHR ''_'' \<notin> set (strip_bytecode b)"
proof
  assume "CHR ''_'' \<notin> set (strip_bytecode b)"
  then show "assertFullyLinked b = Inr ()"
    by (simp add: assertFullyLinked_def linkedLibraryNames_def scan_hashed_clean
        scan_legacy_clean js_dedupe_Nil)
qed (auto simp: assertFullyLinked_def Let_def split: if_splits)

text \<open>
  A library reference is named before it can be deployed.  Bytecode that holds a hashed
  placeholder (after any text without underscores) reports that placeholder's hash among its
  libraries, so linking is refused unless allowed and the unlinked code fails the link check.
\<close>

theorem hashed_library_is_named:
  assumes "CHR ''_'' \<notin> set pre" and "length h = 34" and "is_hex_digits h"
  shows "h \<in> set (linkedLibraryNames (''0x'' @ pre @ ''__$'' @ h @ ''$__'' @ post)) \<and>
    (\<exists>ls. refuseUnlessLinkingAllowed (linkedLibraryNames (''0x'' @ pre @ ''__$'' @ h @ ''$__'' @ post)) False =
       Inl (LinkedImplementationRefused ls) \<and> h \<in> set ls) \<and>
    (\<exists>ls. assertFullyLinked (''0x'' @ pre @ ''__$'' @ h @ ''$__'' @ post) = Inl (LinkVerificationFailed ls) \<and>
       h \<in> set ls)"
proof -
  let ?s = "''__$'' @ h @ ''$__'' @ post" and ?b = "''0x'' @ pre @ ''__$'' @ h @ ''$__'' @ post"
  have at: "hashed_at ?s" and tk: "take 34 (drop 3 ?s) = h"
    using assms by (simp_all add: hashed_at_def)
  have "h \<in> set (fst (scan_hashed ?s))"
    by (subst scan_hashed.simps) (simp only: if_P [OF at] tk split: prod.split, simp)
  then have "h \<in> set (fst (scan_hashed (pre @ ?s)))"
    using scan_hashed_skip [OF assms(1)] by simp
  moreover have "strip_bytecode ?b = pre @ ?s" by (simp add: strip_bytecode_def)
  ultimately have h: "h \<in> set (linkedLibraryNames ?b)"
    by (simp add: linkedLibraryNames_def set_js_dedupe case_prod_beta)
  then have "linkedLibraryNames ?b \<noteq> []" by auto
  with h show ?thesis by (simp add: refuseUnlessLinkingAllowed_def assertFullyLinked_def Let_def)
qed

theorem hashed_library_is_named_witness:
  "replicate 34 (CHR ''a'') \<in>
     set (linkedLibraryNames (''0x'' @ ''6080'' @ ''__$'' @ replicate 34 (CHR ''a'') @ ''$__'' @ ''00''))"
proof -
  have h: "is_hex_digits (replicate 34 (CHR ''a''))" by code_simp
  have p: "CHR ''_'' \<notin> set ''6080''" by simp
  show ?thesis
    using hashed_library_is_named [OF p length_replicate h, of "''00''"] by blast
qed

end
