(* ===== verification/DeployQueue.thy ===== *)
theory DeployQueue
  imports DeployChecks
begin

text \<open>
  \<open>deploy/queue.ts\<close> and \<open>deploy/serialize.ts\<close>: how a step joins the host's migration queue,
  and the mutex that runs one operation at a time on a deployer.
\<close>

section \<open>One step through the host's queue\<close>

text \<open>
  The state of one promise made by \<open>runThroughQueue\<close>: whether it settled, and with what.
  The host's chain is fulfilled or rejected with a failure when it reaches the step; the
  seam's own invariant failure is \<open>SeamFailure\<close>.
\<close>

datatype 'e failure = Failure 'e | SeamFailure
datatype ('e, 'a) outcome = Pending | Resolved_with 'a | Rejected_with "'e failure"
datatype 'e chain = Fulfilled | Rejected "'e failure"

record ('e, 'a) promise =
  settled_flag :: bool
  settled_as :: "('e, 'a) outcome"

definition settleOnce :: "('e, 'a) outcome \<Rightarrow> ('e, 'a) promise \<Rightarrow> (unit + unit) \<times> ('e, 'a) promise" where
  "settleOnce how p =
     (if settled_flag p then (Inl (), p) else (Inr (), \<lparr>settled_flag = True, settled_as = how\<rparr>))"

text \<open>The fulfilment handler: the step inside \<open>try\<close>, the rejection inside \<open>catch\<close>.\<close>

definition queued_step ::
  "('w, 'e, 'a) io \<Rightarrow> ('e, 'a) promise \<Rightarrow> 'w \<Rightarrow> 'e chain \<times> ('e, 'a) promise \<times> 'w" where
  "queued_step step p w =
     (case step w of
        (Inr v, w') \<Rightarrow>
          (case settleOnce (Resolved_with v) p of
             (Inr _, p') \<Rightarrow> (Fulfilled, p', w')
           | (Inl _, p') \<Rightarrow>
               (case settleOnce (Rejected_with SeamFailure) p' of
                  (Inr _, p'') \<Rightarrow> (Fulfilled, p'', w')
                | (Inl _, p'') \<Rightarrow> (Rejected SeamFailure, p'', w')))
      | (Inl f, w') \<Rightarrow>
          (case settleOnce (Rejected_with (Failure f)) p of
             (Inr _, p') \<Rightarrow> (Fulfilled, p', w')
           | (Inl _, p') \<Rightarrow> (Rejected SeamFailure, p', w')))"

text \<open>The rejection handler, where the host's object has a \<open>catch\<close>; it rethrows.\<close>

definition skipped_step ::
  "bool \<Rightarrow> 'e failure \<Rightarrow> ('e, 'a) promise \<Rightarrow> 'e chain \<times> ('e, 'a) promise" where
  "skipped_step catchable f p =
     (if catchable \<and> \<not> settled_flag p
      then (Rejected f, snd (settleOnce (Rejected_with f) p)) else (Rejected f, p))"

definition runThroughQueue ::
  "bool \<Rightarrow> ('w, 'e, 'a) io \<Rightarrow> 'e chain \<Rightarrow> 'w \<Rightarrow> 'e chain \<times> ('e, 'a) promise \<times> 'w" where
  "runThroughQueue catchable step chain w =
     (let p = \<lparr>settled_flag = False, settled_as = Pending\<rparr>
      in case chain of
           Fulfilled \<Rightarrow>
             (case queued_step step p w of
                (Fulfilled, p', w') \<Rightarrow> (Fulfilled, p', w')
              | (Rejected f, p', w') \<Rightarrow>
                  (case skipped_step catchable f p' of (c, p'') \<Rightarrow> (c, p'', w')))
         | Rejected f \<Rightarrow> (case skipped_step catchable f p of (c, p') \<Rightarrow> (c, p', w)))"

text \<open>Several steps queued one after another: the promises, the chain and the world after all.\<close>

fun run_steps ::
  "bool \<Rightarrow> ('w, 'e, 'a) io list \<Rightarrow> 'e chain \<Rightarrow> 'w \<Rightarrow> ('e, 'a) promise list \<times> 'e chain \<times> 'w" where
  "run_steps catchable [] chain w = ([], chain, w)"
| "run_steps catchable (step # steps) chain w =
     (case runThroughQueue catchable step chain w of
        (chain', p, w') \<Rightarrow>
          (case run_steps catchable steps chain' w' of (ps, c, w'') \<Rightarrow> (p # ps, c, w'')))"

section \<open>Guards on the host's calls\<close>

text \<open>The last argument of a call: null and plain objects land in the host's options slot.\<close>

definition assertNoCheatcodeCollision :: "js list \<Rightarrow> deploy_error + unit" where
  "assertNoCheatcodeCollision args =
     (if args = [] then Inr ()
      else case last args of
          JNull \<Rightarrow> Inl (CheatcodeSlotCollision ''null'')
        | JObj _ \<Rightarrow> Inl (CheatcodeSlotCollision ''plain-object'')
        | _ \<Rightarrow> Inr ())"

definition assertFreshTransaction :: "string option \<Rightarrow> string \<Rightarrow> deploy_error + unit" where
  "assertFreshTransaction before after =
     (if before = Some after then Inl (StaleTransactionIdentity after) else Inr ())"

section \<open>The operation mutex\<close>

text \<open>
  One entry per operation that was let in, in the order of the calls.  \<open>op_host\<close> is the
  deployer it is keyed on (\<open>None\<close> runs free).  An entry begins when every earlier entry of
  its host has settled, which is what chaining on the host's tail promise means; a call from
  inside an operation (a non-empty async store) is refused and leaves no entry.
\<close>

datatype op_status = Waiting | Running | Succeeded | Failed

record op =
  op_id :: nat
  op_host :: "nat option"
  op_status :: op_status

definition is_settled :: "op \<Rightarrow> bool" where
  "is_settled x \<longleftrightarrow> op_status x = Succeeded \<or> op_status x = Failed"

definition tail_settled :: "op list \<Rightarrow> nat option \<Rightarrow> bool" where
  "tail_settled ops h \<longleftrightarrow> (h = None \<or> list_all (\<lambda>x. op_host x = h \<longrightarrow> is_settled x) ops)"

definition serializeOperation ::
  "nat option \<Rightarrow> string \<Rightarrow> nat \<Rightarrow> nat option \<Rightarrow> op list \<Rightarrow> (deploy_error + unit) \<times> op list" where
  "serializeOperation store operation i h ops =
     (if store \<noteq> None then (Inl (NestedOperation operation), ops)
      else (Inr (), ops @ [\<lparr>op_id = i, op_host = h,
                            op_status = (if tail_settled ops h then Running else Waiting)\<rparr>]))"

definition can_begin :: "op list \<Rightarrow> nat \<Rightarrow> bool" where
  "can_begin ops k \<longleftrightarrow>
     k < length ops \<and> op_status (ops ! k) = Waiting \<and> tail_settled (take k ops) (op_host (ops ! k))"

inductive mutex_step :: "op list \<Rightarrow> op list \<Rightarrow> bool" where
  call: "serializeOperation store operation i h ops = (r, ops') \<Longrightarrow> mutex_step ops ops'"
| begin_op: "can_begin ops k \<Longrightarrow> mutex_step ops (ops[k := (ops ! k)\<lparr>op_status := Running\<rparr>])"
| settle_op: "k < length ops \<Longrightarrow> op_status (ops ! k) = Running \<Longrightarrow> st = Succeeded \<or> st = Failed \<Longrightarrow>
    mutex_step ops (ops[k := (ops ! k)\<lparr>op_status := st\<rparr>])"

inductive mutex_reachable :: "op list \<Rightarrow> bool" where
  start: "mutex_reachable []"
| step: "mutex_reachable ops \<Longrightarrow> mutex_step ops ops' \<Longrightarrow> mutex_reachable ops'"

inductive_cases mutex_stepE: "mutex_step ops ops'"

text \<open>No operation has begun before an earlier one of its host settled.\<close>

definition in_turn :: "op list \<Rightarrow> bool" where
  "in_turn ops \<longleftrightarrow>
     (\<forall>j k. j < k \<and> k < length ops \<and> op_host (ops ! j) = op_host (ops ! k) \<and>
        op_host (ops ! k) \<noteq> None \<and> op_status (ops ! k) \<noteq> Waiting \<longrightarrow> is_settled (ops ! j))"

section \<open>Facts\<close>

lemma tail_settled_nth:
  "tail_settled ops (Some h) \<longleftrightarrow>
     (\<forall>j<length ops. op_host (ops ! j) = Some h \<longrightarrow> is_settled (ops ! j))"
  by (auto simp: tail_settled_def list_all_length)

lemma in_turnD:
  "in_turn ops \<Longrightarrow> j < k \<Longrightarrow> k < length ops \<Longrightarrow> op_host (ops ! j) = op_host (ops ! k) \<Longrightarrow>
     op_host (ops ! k) \<noteq> None \<Longrightarrow> op_status (ops ! k) \<noteq> Waiting \<Longrightarrow> is_settled (ops ! j)"
  unfolding in_turn_def by blast

lemma map_keys_update:
  "map (\<lambda>x. (op_id x, op_host x)) (ops[k := (ops ! k)\<lparr>op_status := st\<rparr>]) =
     map (\<lambda>x. (op_id x, op_host x)) ops"
proof (rule nth_equalityI)
  fix i assume "i < length (map (\<lambda>x. (op_id x, op_host x)) (ops[k := (ops ! k)\<lparr>op_status := st\<rparr>]))"
  then show "map (\<lambda>x. (op_id x, op_host x)) (ops[k := (ops ! k)\<lparr>op_status := st\<rparr>]) ! i =
      map (\<lambda>x. (op_id x, op_host x)) ops ! i"
    by (cases "i = k") simp_all
qed simp

lemma in_turn_call:
  assumes "in_turn ops" and "serializeOperation store operation i h ops = (r, ops')"
  shows "in_turn ops'"
proof (cases "store = None")
  case False
  then show ?thesis using assms by (simp add: serializeOperation_def)
next
  case True
  define x where "x = \<lparr>op_id = i, op_host = h, op_status = (if tail_settled ops h then Running else Waiting)\<rparr>"
  have ops': "ops' = ops @ [x]" using assms(2) True by (simp add: serializeOperation_def x_def)
  show ?thesis
    unfolding in_turn_def
  proof (intro allI impI)
    fix j k
    assume a: "j < k \<and> k < length ops' \<and> op_host (ops' ! j) = op_host (ops' ! k) \<and>
      op_host (ops' ! k) \<noteq> None \<and> op_status (ops' ! k) \<noteq> Waiting"
    show "is_settled (ops' ! j)"
    proof (cases "k < length ops")
      case True
      then have j: "j < length ops" using a by simp
      have "ops' ! j = ops ! j" "ops' ! k = ops ! k"
        using j True by (simp_all add: ops' nth_append)
      with True a have "is_settled (ops ! j)"
        by (intro in_turnD [OF assms(1), of j k]) simp_all
      with j show ?thesis by (simp add: ops' nth_append_left)
    next
      case False
      then have k: "k = length ops" using a by (simp add: ops')
      then have "tail_settled ops h" using a by (simp add: ops' x_def split: if_splits)
      moreover obtain hh where "h = Some hh" using a k by (auto simp: ops' x_def)
      ultimately show ?thesis using a k
        by (auto simp: ops' nth_append tail_settled_nth x_def)
    qed
  qed
qed

lemma in_turn_begin:
  assumes "in_turn ops" and "can_begin ops k"
  shows "in_turn (ops[k := (ops ! k)\<lparr>op_status := Running\<rparr>])"
  unfolding in_turn_def
proof (intro allI impI)
  let ?o = "ops[k := (ops ! k)\<lparr>op_status := Running\<rparr>]"
  fix i j
  assume a: "i < j \<and> j < length ?o \<and> op_host (?o ! i) = op_host (?o ! j) \<and>
    op_host (?o ! j) \<noteq> None \<and> op_status (?o ! j) \<noteq> Waiting"
  have host: "op_host (?o ! n) = op_host (ops ! n)" if "n < length ops" for n
    using that by (cases "n = k") simp_all
  show "is_settled (?o ! i)"
  proof (cases "j = k")
    case True
    then have t: "tail_settled (take k ops) (op_host (ops ! k))" using assms(2) by (simp add: can_begin_def)
    from a True host obtain h where "op_host (ops ! k) = Some h" "op_host (ops ! i) = Some h" by auto
    with t a True have "is_settled (ops ! i)" by (auto simp: tail_settled_nth)
    then show ?thesis using a True by simp
  next
    case False
    have "is_settled (ops ! i)"
      using assms(1) a False host [of i] host [of j] unfolding in_turn_def
      by (metis length_list_update less_trans nth_list_update_neq)
    moreover have "i \<noteq> k" using calculation assms(2) by (auto simp: can_begin_def is_settled_def)
    ultimately show ?thesis by simp
  qed
qed

lemma in_turn_settle:
  assumes "in_turn ops" and "op_status (ops ! k) = Running" and "st = Succeeded \<or> st = Failed"
  shows "in_turn (ops[k := (ops ! k)\<lparr>op_status := st\<rparr>])"
  unfolding in_turn_def
proof (intro allI impI)
  let ?o = "ops[k := (ops ! k)\<lparr>op_status := st\<rparr>]"
  fix i j
  assume a: "i < j \<and> j < length ?o \<and> op_host (?o ! i) = op_host (?o ! j) \<and>
    op_host (?o ! j) \<noteq> None \<and> op_status (?o ! j) \<noteq> Waiting"
  have host: "op_host (?o ! n) = op_host (ops ! n)" if "n < length ops" for n
    using that by (cases "n = k") simp_all
  have begun: "op_status (ops ! j) \<noteq> Waiting"
    using a assms(2) by (cases "j = k") auto
  then have "is_settled (ops ! i)"
    using assms(1) a host [of i] host [of j] unfolding in_turn_def
    by (metis length_list_update less_trans)
  then show "is_settled (?o ! i)"
    using assms(3) a by (cases "i = k") (auto simp: is_settled_def)
qed

lemma in_turn_reachable: "mutex_reachable ops \<Longrightarrow> in_turn ops"
proof (induction rule: mutex_reachable.induct)
  case start
  then show ?case by (simp add: in_turn_def)
next
  case (step ops ops')
  from step.hyps(2) step.IH show ?case
    by (cases rule: mutex_step.cases) (auto intro: in_turn_call in_turn_begin in_turn_settle)
qed

text \<open>A step never changes who is in the list, nor reorders it.\<close>

lemma mutex_step_ids:
  "mutex_step ops ops' \<Longrightarrow> \<exists>more. map (\<lambda>x. (op_id x, op_host x)) ops' = map (\<lambda>x. (op_id x, op_host x)) ops @ more"
proof (induction rule: mutex_step.induct)
  case (call store operation i h ops r ops')
  then show ?case by (auto simp: serializeOperation_def split: if_splits)
next
  case (begin_op ops k)
  show ?case unfolding map_keys_update by simp
next
  case (settle_op k ops st)
  show ?case unfolding map_keys_update by simp
qed

lemma queued_fresh:
  "queued_step step \<lparr>settled_flag = False, settled_as = Pending\<rparr> w =
     (case step w of
        (Inr v, w') \<Rightarrow> (Fulfilled, \<lparr>settled_flag = True, settled_as = Resolved_with v\<rparr>, w')
      | (Inl f, w') \<Rightarrow> (Fulfilled, \<lparr>settled_flag = True, settled_as = Rejected_with (Failure f)\<rparr>, w'))"
  by (auto simp: queued_step_def settleOnce_def split: prod.split sum.split)

lemma run_fulfilled:
  "runThroughQueue c step Fulfilled w =
     (Fulfilled, \<lparr>settled_flag = True, settled_as = (case fst (step w) of
        Inr v \<Rightarrow> Resolved_with v | Inl f \<Rightarrow> Rejected_with (Failure f))\<rparr>, snd (step w))"
  by (simp add: runThroughQueue_def queued_fresh split: prod.split sum.split)

lemma run_rejected:
  "runThroughQueue c step (Rejected f) w =
     (Rejected f, if c then \<lparr>settled_flag = True, settled_as = Rejected_with f\<rparr>
                  else \<lparr>settled_flag = False, settled_as = Pending\<rparr>, w)"
  by (simp add: runThroughQueue_def skipped_step_def settleOnce_def)

section \<open>Properties\<close>

text \<open>
  A queued step settles exactly once and never breaks the host's chain.  Reached by a
  fulfilled chain, the step runs once, its promise settles with the step's own outcome and
  the chain goes on fulfilled, a failing step included; reached by a rejected chain, the step
  does not run, the promise rejects with the upstream failure and the chain stays rejected.
\<close>

theorem queued_step_settles_once:
  "runThroughQueue True step Fulfilled w =
     (Fulfilled, \<lparr>settled_flag = True, settled_as = (case fst (step w) of
        Inr v \<Rightarrow> Resolved_with v | Inl f \<Rightarrow> Rejected_with (Failure f))\<rparr>, snd (step w)) \<and>
   runThroughQueue True step (Rejected f) w =
     (Rejected f, \<lparr>settled_flag = True, settled_as = Rejected_with f\<rparr>, w)"
  by (simp add: run_fulfilled run_rejected)

text \<open>
  Steps queued on a healthy migration run in order, each exactly once.  Whatever some of
  them fail with, the world is the composition of all of them, every promise is settled and
  the host's chain is still fulfilled; on a migration that had already failed none runs and
  every promise rejects with that failure.
\<close>

theorem queued_steps_run_in_order:
  "snd (run_steps True steps Fulfilled w) = (Fulfilled, foldl (\<lambda>v step. snd (step v)) w steps) \<and>
   length (fst (run_steps True steps Fulfilled w)) = length steps \<and>
   list_all settled_flag (fst (run_steps True steps Fulfilled w)) \<and>
   run_steps True steps (Rejected f) w =
     (replicate (length steps) \<lparr>settled_flag = True, settled_as = Rejected_with f\<rparr>, Rejected f, w)"
proof -
  have "snd (run_steps True steps Fulfilled w) = (Fulfilled, foldl (\<lambda>v step. snd (step v)) w steps) \<and>
    length (fst (run_steps True steps Fulfilled w)) = length steps \<and>
    list_all settled_flag (fst (run_steps True steps Fulfilled w))"
  proof (induction steps arbitrary: w)
    case (Cons step steps)
    obtain ps c w' where "run_steps True steps Fulfilled (snd (step w)) = (ps, c, w')"
      by (metis prod_cases3)
    with Cons.IH [of "snd (step w)"] show ?case by (simp add: run_fulfilled)
  qed simp
  moreover have "run_steps True steps (Rejected f) w =
     (replicate (length steps) \<lparr>settled_flag = True, settled_as = Rejected_with f\<rparr>, Rejected f, w)"
    by (induction steps) (simp_all add: run_rejected)
  ultimately show ?thesis by blast
qed


definition demo_ops :: "op list" where
  "demo_ops = [\<lparr>op_id = 1, op_host = Some 5, op_status = Running\<rparr>,
               \<lparr>op_id = 2, op_host = Some 5, op_status = Waiting\<rparr>]"

lemma demo_ops_reachable: "mutex_reachable demo_ops"
proof -
  have "serializeOperation None ''deployProxy'' 1 (Some 5) [] = (Inr (), [\<lparr>op_id = 1, op_host = Some 5, op_status = Running\<rparr>])"
    by (simp add: serializeOperation_def tail_settled_def)
  then have one: "mutex_reachable [\<lparr>op_id = 1, op_host = Some 5, op_status = Running\<rparr>]"
    by (rule mutex_reachable.step [OF mutex_reachable.start mutex_step.call])
  have "serializeOperation None ''upgradeProxy'' 2 (Some 5) [\<lparr>op_id = 1, op_host = Some 5, op_status = Running\<rparr>] =
      (Inr (), demo_ops)"
    by (simp add: serializeOperation_def tail_settled_def is_settled_def demo_ops_def)
  then show ?thesis by (rule mutex_reachable.step [OF one mutex_step.call])
qed




end
