(* ===== verification/Options.thy ===== *)
theory Options
  imports Prelude
begin

text \<open>
  \<open>options/types.ts\<close>, \<open>options/defaults.ts\<close>, \<open>options/errors.ts\<close> and
  \<open>options/resolve.ts\<close>: what a migration may pass, checked in a fixed order, and the resolved
  options every operation works with.  The engine's \<open>withValidationDefaults\<close> is a parameter
  (\<open>wvd\<close>); what the code relies on of it is \<open>engine_defaults\<close>.  The errors carry
  their structured fields; their texts are in \<open>EnvironmentTexts\<close>.
\<close>

section \<open>Types and defaults\<close>

definition unsafeAllowKinds :: "string list" where
  "unsafeAllowKinds =
     [''state-variable-assignment'', ''state-variable-immutable'', ''external-library-linking'',
      ''struct-definition'', ''enum-definition'', ''constructor'', ''delegatecall'',
      ''selfdestruct'', ''missing-public-upgradeto'', ''internal-function-storage'',
      ''missing-initializer'', ''missing-initializer-call'', ''duplicate-initializer-call'',
      ''incorrect-initializer-order'']"

definition proxyKinds :: "string list" where
  "proxyKinds = [''uups'', ''transparent'', ''beacon'']"

definition redeployModes :: "string list" where
  "redeployModes = [''always'', ''never'', ''onchange'']"

datatype accepted_set = AcceptedSet "string list" | AcceptedText string

datatype option_error =
    OptionValue string js accepted_set "string option"
  | UnknownOption "string list" "string list"
  | OptionConflict "string list"
  | OptionUnsupportedOnTron string

record plugin_defaults =
  d_timeout :: int
  d_pollingInterval :: int
  d_redeployImplementation :: string
  d_useDeployedImplementation :: bool
  d_unsafeSkipProxyAdminCheck :: bool

definition pluginOptionDefaults :: plugin_defaults where
  "pluginOptionDefaults =
     \<lparr>d_timeout = 60000, d_pollingInterval = 5000, d_redeployImplementation = ''onchange'',
      d_useDeployedImplementation = False, d_unsafeSkipProxyAdminCheck = False\<rparr>"

definition defaultConstructorArgs :: "js list" where
  "defaultConstructorArgs = []"

definition DEFAULT_INITIALIZER :: string where
  "DEFAULT_INITIALIZER = ''initialize''"

definition MILLISECOND_OPTION_MINIMUM :: int where
  "MILLISECOND_OPTION_MINIMUM = 0"

definition optionsUnsupportedOnTron :: "string list" where
  "optionsUnsupportedOnTron = []"

text \<open>What goes to the engine (every key may be absent) and what comes back from it.\<close>

record validation_input =
  in_kind :: "string option"
  in_unsafeAllow :: "string list option"
  in_customTypes :: "bool option"
  in_linkedLibraries :: "bool option"
  in_renames :: "bool option"
  in_skipStorage :: "bool option"

record validation =
  vo_kind :: string
  vo_unsafeAllow :: "string list"
  vo_customTypes :: bool
  vo_linkedLibraries :: bool
  vo_renames :: bool
  vo_skipStorage :: bool

text \<open>The three values of \<open>initializer\<close> (\<open>None\<close> is undefined) and of \<open>call\<close>.\<close>

datatype initializer = InitName string | InitFalse
datatype call_option = CallName string | CallPair string "js list option"
datatype initializer_resolution = ResolvedNone | ResolvedCall string

record resolved =
  r_validation :: validation
  r_constructorArgs :: "js list"
  r_redeploy :: string
  r_timeout :: int
  r_pollingInterval :: int
  r_kind :: "string option"
  r_initializer :: "initializer option"
  r_call :: "call_option option"
  r_initialOwner :: "string option"
  r_skipAdminCheck :: bool

section \<open>Readers\<close>

text \<open>\<open>Object.keys\<close> of the caller's value: also the indices of an array or a string.\<close>

fun option_keys :: "js \<Rightarrow> string list" where
  "option_keys (JArr xs) = map decimal [0..<length xs]"
| "option_keys (JStr s) = map decimal [0..<length s]"
| "option_keys v = own_keys v"

definition read_opt :: "js \<Rightarrow> string \<Rightarrow> js" where
  "read_opt supplied key = (if has_own supplied key then own_prop supplied key else JUndef)"

fun str_in :: "string list \<Rightarrow> js \<Rightarrow> bool" where
  "str_in ss (JStr s) = (s \<in> set ss)"
| "str_in ss _ = False"

fun str_of :: "js \<Rightarrow> string" where
  "str_of (JStr s) = s"
| "str_of _ = []"

definition readProxyKind :: "js \<Rightarrow> option_error + string option" where
  "readProxyKind supplied =
     (let value = read_opt supplied ''kind''
      in if value = JUndef then Inr None
         else if \<not> str_in proxyKinds value then Inl (OptionValue ''kind'' value (AcceptedSet proxyKinds) None)
         else Inr (Some (str_of value)))"

definition readUnsafeAllow :: "js \<Rightarrow> option_error + string list option" where
  "readUnsafeAllow supplied =
     (let value = read_opt supplied ''unsafeAllow''
      in if value = JUndef then Inr None
         else case value of
             JArr xs \<Rightarrow>
               (case filter (\<lambda>v. \<not> str_in unsafeAllowKinds v) xs of
                  [] \<Rightarrow> Inr (Some (map str_of (filter (str_in unsafeAllowKinds) xs)))
                | v # _ \<Rightarrow> Inl (OptionValue ''unsafeAllow'' v (AcceptedSet unsafeAllowKinds) None))
           | _ \<Rightarrow> Inl (OptionValue ''unsafeAllow'' value
                         (AcceptedText ''an array of validation-error kinds'') None))"

definition readBooleanOption :: "js \<Rightarrow> string \<Rightarrow> option_error + bool option" where
  "readBooleanOption supplied key =
     (let value = read_opt supplied key
      in if value = JUndef then Inr None
         else case value of
             JBool b \<Rightarrow> Inr (Some b)
           | _ \<Rightarrow> Inl (OptionValue key value (AcceptedSet [''true'', ''false'']) None))"

definition readRedeployMode :: "js \<Rightarrow> option_error + string option" where
  "readRedeployMode supplied =
     (let value = read_opt supplied ''redeployImplementation''
      in if value = JUndef then Inr None
         else if \<not> str_in redeployModes value
           then Inl (OptionValue ''redeployImplementation'' value (AcceptedSet redeployModes) None)
         else Inr (Some (str_of value)))"

definition MILLISECONDS_TEXT :: string where
  "MILLISECONDS_TEXT =
     ''a non-negative integer number of milliseconds (>= 0; 0 waits indefinitely)''"

definition readMilliseconds :: "js \<Rightarrow> string \<Rightarrow> option_error + int option" where
  "readMilliseconds supplied key =
     (let value = read_opt supplied key
      in if value = JUndef then Inr None
         else case value of
             JNum (NInt n) \<Rightarrow>
               if n < MILLISECOND_OPTION_MINIMUM
               then Inl (OptionValue key value (AcceptedText MILLISECONDS_TEXT) None)
               else Inr (Some n)
           | _ \<Rightarrow> Inl (OptionValue key value (AcceptedText MILLISECONDS_TEXT) None))"

definition readConstructorArgs :: "js \<Rightarrow> option_error + js list option" where
  "readConstructorArgs supplied =
     (let value = read_opt supplied ''constructorArgs''
      in if value = JUndef then Inr None
         else case value of
             JArr xs \<Rightarrow> Inr (Some xs)
           | _ \<Rightarrow> Inl (OptionValue ''constructorArgs'' value
                         (AcceptedText ''an array of constructor arguments'') None))"

text \<open>\<open>value.trim() === ''\<close>: only white space and line ends.\<close>

definition is_blank :: "string \<Rightarrow> bool" where
  "is_blank s \<longleftrightarrow>
     list_all (\<lambda>c. c \<in> set [CHR 0x09, CHR 0x0A, CHR 0x0B, CHR 0x0C, CHR 0x0D, CHR 0x20, CHR 0xA0]) s"

definition validateInitializer :: "js \<Rightarrow> option_error + initializer" where
  "validateInitializer value =
     (if value = JBool False then Inr InitFalse
      else case value of
          JStr s \<Rightarrow>
            if is_blank s then Inl (OptionValue ''initializer'' value
              (AcceptedText ''a non-empty function name, or false for no initialization'') None)
            else Inr (InitName s)
        | _ \<Rightarrow> Inl (OptionValue ''initializer'' value
              (AcceptedText ''a non-empty function name, or false for no initialization'') None))"

definition readInitializerOption :: "js \<Rightarrow> option_error + initializer option" where
  "readInitializerOption supplied =
     (let value = read_opt supplied ''initializer''
      in if value = JUndef then Inr None else map_sum id Some (validateInitializer value))"

definition call_refused :: "js \<Rightarrow> option_error" where
  "call_refused value =
     OptionValue ''call'' value
       (AcceptedText ''a function name, or { fn: string; args?: unknown[] }'') None"

definition readCallOption :: "js \<Rightarrow> option_error + call_option option" where
  "readCallOption supplied =
     (let value = read_opt supplied ''call''
      in if value = JUndef then Inr None
         else case value of
             JStr s \<Rightarrow> Inr (Some (CallName s))
           | JObj _ \<Rightarrow>
               (case own_prop value ''fn'' of
                  JStr fn \<Rightarrow>
                    (case own_prop value ''args'' of
                       JUndef \<Rightarrow> Inr (Some (CallPair fn None))
                     | JArr xs \<Rightarrow> Inr (Some (CallPair fn (Some xs)))
                     | _ \<Rightarrow> Inl (call_refused value))
                | _ \<Rightarrow> Inl (call_refused value))
           | _ \<Rightarrow> Inl (call_refused value))"

definition readInitialOwner :: "js \<Rightarrow> option_error + string option" where
  "readInitialOwner supplied =
     (let value = read_opt supplied ''initialOwner''
      in if value = JUndef then Inr None
         else case value of
             JStr s \<Rightarrow>
               if is_blank s then Inl (OptionValue ''initialOwner'' value
                 (AcceptedText ''a non-empty TRON address, as a string'') None)
               else Inr (Some s)
           | _ \<Rightarrow> Inl (OptionValue ''initialOwner'' value
                 (AcceptedText ''a non-empty TRON address, as a string'') None))"

section \<open>The checks, in their order\<close>

text \<open>Run checks one after another; the first refusal ends the run.\<close>

fun all_checks :: "('e + 'a) list \<Rightarrow> 'e + unit" where
  "all_checks [] = Inr ()"
| "all_checks (r # rs) = bind_sum r (\<lambda>_. all_checks rs)"

definition discard :: "'e + 'a \<Rightarrow> 'e + unit" where
  "discard r = map_sum id (\<lambda>_. ()) r"

definition linked_contradiction :: "js \<Rightarrow> option_error + bool" where
  "linked_contradiction supplied =
     bind_sum (readBooleanOption supplied ''unsafeAllowLinkedLibraries'') (\<lambda>flag.
       if flag \<noteq> Some False then Inr False
       else bind_sum (readUnsafeAllow supplied) (\<lambda>allow.
         Inr (''external-library-linking'' \<in> set (case allow of None \<Rightarrow> [] | Some ks \<Rightarrow> ks))))"

definition custom_contradiction :: "js \<Rightarrow> option_error + bool" where
  "custom_contradiction supplied =
     bind_sum (readUnsafeAllow supplied) (\<lambda>allow.
       bind_sum (readBooleanOption supplied ''unsafeAllowCustomTypes'') (\<lambda>flag.
         let ks = (case allow of None \<Rightarrow> [] | Some ks \<Rightarrow> ks)
         in Inr (flag = Some False \<and> ''struct-definition'' \<in> set ks \<and> ''enum-definition'' \<in> set ks)))"

definition redeploy_contradiction :: "js \<Rightarrow> option_error + bool" where
  "redeploy_contradiction supplied =
     Inr (read_opt supplied ''useDeployedImplementation'' = JBool True \<and>
          read_opt supplied ''redeployImplementation'' \<noteq> JUndef)"

definition contradictions :: "(string list \<times> (js \<Rightarrow> option_error + bool)) list" where
  "contradictions =
     [([''unsafeAllowLinkedLibraries: false'', ''unsafeAllow: ['external-library-linking']''],
       linked_contradiction),
      ([''unsafeAllowCustomTypes: false'', ''unsafeAllow: ['struct-definition', 'enum-definition']''],
       custom_contradiction),
      ([''useDeployedImplementation'', ''redeployImplementation''], redeploy_contradiction)]"

definition check_keys :: "js \<Rightarrow> string list \<Rightarrow> option_error + unit" where
  "check_keys supplied accepted =
     (let unknown = filter (\<lambda>k. k \<notin> set accepted) (option_keys supplied)
      in if unknown \<noteq> [] then Inl (UnknownOption unknown accepted)
         else all_checks (map (\<lambda>k. if has_own supplied k then Inl (OptionUnsupportedOnTron k)
                                   else Inr ()) optionsUnsupportedOnTron))"

definition check_closed_sets :: "js \<Rightarrow> option_error + unit" where
  "check_closed_sets supplied =
     all_checks
       [discard (readProxyKind supplied), discard (readUnsafeAllow supplied),
        discard (readRedeployMode supplied),
        discard (readBooleanOption supplied ''unsafeAllowCustomTypes''),
        discard (readBooleanOption supplied ''unsafeAllowLinkedLibraries''),
        discard (readBooleanOption supplied ''unsafeAllowRenames''),
        discard (readBooleanOption supplied ''unsafeSkipStorageCheck''),
        discard (readBooleanOption supplied ''useDeployedImplementation''),
        discard (readBooleanOption supplied ''unsafeSkipProxyAdminCheck'')]"

definition check_contradictions :: "js \<Rightarrow> option_error + unit" where
  "check_contradictions supplied =
     all_checks (map (\<lambda>(names, holds).
       bind_sum (holds supplied) (\<lambda>h. if h then Inl (OptionConflict names) else Inr ()))
       contradictions)"

definition check_bounds :: "js \<Rightarrow> option_error + unit" where
  "check_bounds supplied =
     all_checks [discard (readMilliseconds supplied ''timeout''),
                 discard (readMilliseconds supplied ''pollingInterval'')]"

definition check_shapes :: "js \<Rightarrow> option_error + unit" where
  "check_shapes supplied =
     all_checks [discard (readConstructorArgs supplied), discard (readInitializerOption supplied),
                 discard (readCallOption supplied), discard (readInitialOwner supplied)]"

definition checkSteps :: "js \<Rightarrow> string list \<Rightarrow> (option_error + unit) list" where
  "checkSteps supplied accepted =
     [check_keys supplied accepted, check_closed_sets supplied, check_contradictions supplied,
      check_bounds supplied, check_shapes supplied]"

section \<open>Resolution\<close>

definition resolveRedeployMode :: "js \<Rightarrow> option_error + string" where
  "resolveRedeployMode supplied =
     bind_sum (readRedeployMode supplied) (\<lambda>explicit.
       case explicit of
         Some m \<Rightarrow> Inr m
       | None \<Rightarrow>
           bind_sum (readBooleanOption supplied ''useDeployedImplementation'') (\<lambda>deprecated.
             if deprecated = Some True then Inr ''never''
             else Inr (d_redeployImplementation pluginOptionDefaults)))"

definition read_validation :: "js \<Rightarrow> option_error + validation_input" where
  "read_validation supplied =
     bind_sum (readProxyKind supplied) (\<lambda>k.
     bind_sum (readUnsafeAllow supplied) (\<lambda>allow.
     bind_sum (readBooleanOption supplied ''unsafeAllowCustomTypes'') (\<lambda>custom.
     bind_sum (readBooleanOption supplied ''unsafeAllowLinkedLibraries'') (\<lambda>linked.
     bind_sum (readBooleanOption supplied ''unsafeAllowRenames'') (\<lambda>renames.
     bind_sum (readBooleanOption supplied ''unsafeSkipStorageCheck'') (\<lambda>skip.
       Inr \<lparr>in_kind = k, in_unsafeAllow = allow, in_customTypes = custom,
            in_linkedLibraries = linked, in_renames = renames, in_skipStorage = skip\<rparr>))))))"

definition or_default :: "'a option \<Rightarrow> 'a \<Rightarrow> 'a" where
  "or_default v d = (case v of None \<Rightarrow> d | Some x \<Rightarrow> x)"

definition buildResolved :: "(validation_input \<Rightarrow> validation) \<Rightarrow> js \<Rightarrow> option_error + resolved" where
  "buildResolved wvd supplied =
     bind_sum (read_validation supplied) (\<lambda>input.
     bind_sum (readConstructorArgs supplied) (\<lambda>args.
     bind_sum (readMilliseconds supplied ''timeout'') (\<lambda>timeout.
     bind_sum (readMilliseconds supplied ''pollingInterval'') (\<lambda>polling.
     bind_sum (resolveRedeployMode supplied) (\<lambda>redeploy.
     bind_sum (readInitializerOption supplied) (\<lambda>initializer.
     bind_sum (readCallOption supplied) (\<lambda>call.
     bind_sum (readInitialOwner supplied) (\<lambda>owner.
     bind_sum (readBooleanOption supplied ''unsafeSkipProxyAdminCheck'') (\<lambda>skipAdmin.
       Inr \<lparr>r_validation = wvd input,
            r_constructorArgs = or_default args defaultConstructorArgs,
            r_redeploy = redeploy,
            r_timeout = or_default timeout (d_timeout pluginOptionDefaults),
            r_pollingInterval = or_default polling (d_pollingInterval pluginOptionDefaults),
            r_kind = in_kind input,
            r_initializer = initializer,
            r_call = call,
            r_initialOwner = owner,
            r_skipAdminCheck =
              or_default skipAdmin (d_unsafeSkipProxyAdminCheck pluginOptionDefaults)\<rparr>)))))))))"

definition supplied_of :: "js \<Rightarrow> js" where
  "supplied_of options = (if options = JUndef \<or> options = JNull then JObj [] else options)"

definition resolveUpgradeOptions ::
  "(validation_input \<Rightarrow> validation) \<Rightarrow> js \<Rightarrow> string list \<Rightarrow> option_error + resolved" where
  "resolveUpgradeOptions wvd options accepted =
     (let supplied = supplied_of options
      in bind_sum (all_checks (checkSteps supplied accepted)) (\<lambda>_. buildResolved wvd supplied))"

text \<open>A fresh copy, so equal to the resolved value: \<open>engineValidationOptions\<close>.\<close>

definition engineValidationOptions :: "resolved \<Rightarrow> validation" where
  "engineValidationOptions r = r_validation r"

definition resolveInitializer :: "initializer option \<Rightarrow> nat \<Rightarrow> option_error + initializer_resolution" where
  "resolveInitializer initializer argCount =
     (case initializer of
        None \<Rightarrow> Inr (ResolvedCall DEFAULT_INITIALIZER)
      | Some i \<Rightarrow>
          bind_sum (validateInitializer (case i of InitFalse \<Rightarrow> JBool False | InitName s \<Rightarrow> JStr s))
            (\<lambda>v. case v of InitFalse \<Rightarrow> Inr ResolvedNone | InitName s \<Rightarrow> Inr (ResolvedCall s)))"

definition requireProxyKind :: "string \<Rightarrow> string list \<Rightarrow> string \<Rightarrow> option_error + unit" where
  "requireProxyKind kind allowed operation =
     (if kind \<notin> set allowed
      then Inl (OptionValue ''kind'' (JStr kind) (AcceptedSet allowed) (Some operation)) else Inr ())"

section \<open>What the engine's defaults promise\<close>

text \<open>
  An explicit setting is kept; the two derived flags default to what the array grants, and a
  flag that holds adds its grants to the array.
\<close>

definition engine_defaults :: "(validation_input \<Rightarrow> validation) \<Rightarrow> bool" where
  "engine_defaults wvd \<longleftrightarrow>
     (\<forall>i. let allow = or_default (in_unsafeAllow i) [];
           custom = or_default (in_customTypes i)
             (''struct-definition'' \<in> set allow \<and> ''enum-definition'' \<in> set allow);
           linked = or_default (in_linkedLibraries i) (''external-library-linking'' \<in> set allow)
       in vo_kind (wvd i) = or_default (in_kind i) ''transparent'' \<and>
          vo_customTypes (wvd i) = custom \<and> vo_linkedLibraries (wvd i) = linked \<and>
          vo_renames (wvd i) = or_default (in_renames i) False \<and>
          vo_skipStorage (wvd i) = or_default (in_skipStorage i) False \<and>
          set (vo_unsafeAllow (wvd i)) =
            set allow \<union> (if custom then {''struct-definition'', ''enum-definition''} else {}) \<union>
            (if linked then {''external-library-linking''} else {}))"

section \<open>Facts\<close>

lemma all_checks_ok: "all_checks rs = Inr () \<longleftrightarrow> (\<forall>r\<in>set rs. \<exists>x. r = Inr x)"
  by (induction rs) (auto simp: bind_sum_Inr)

lemma all_checks_append:
  "all_checks (xs @ ys) = bind_sum (all_checks xs) (\<lambda>_. all_checks ys)"
proof (induction xs)
  case (Cons r xs)
  then show ?case by (cases r) simp_all
qed simp

lemma all_checks_Inl: "all_checks rs = Inl e \<Longrightarrow> Inl e \<in> set rs"
  by (induction rs) (auto simp: bind_sum_Inl)

lemma all_checks_not: "list_all (\<lambda>r. r \<noteq> Inl e) rs \<Longrightarrow> all_checks rs \<noteq> Inl e"
  using all_checks_Inl by (fastforce simp: list_all_iff)

lemma discard_ok [simp]: "(\<exists>x. discard r = Inr x) \<longleftrightarrow> (\<exists>x. r = Inr x)"
  by (cases r) (simp_all add: discard_def)

lemma discard_ok' [simp]: "discard r = Inr () \<longleftrightarrow> (\<exists>x. r = Inr x)"
  by (cases r) (simp_all add: discard_def)

lemma discard_Inl [simp]: "discard r = Inl e \<longleftrightarrow> r = Inl e"
  by (cases r) (simp_all add: discard_def)

lemma read_opt_own: "read_opt supplied key = own_prop supplied key"
  by (simp add: read_opt_def own_prop_not_own)

named_theorems option_readers \<open>definitions of the readers\<close>

declare readProxyKind_def [option_readers] readUnsafeAllow_def [option_readers]
  readBooleanOption_def [option_readers] readRedeployMode_def [option_readers]
  readMilliseconds_def [option_readers] readConstructorArgs_def [option_readers]
  readInitializerOption_def [option_readers] readCallOption_def [option_readers]
  readInitialOwner_def [option_readers]

lemma str_in_str_of: "str_in ss v \<Longrightarrow> v = JStr (str_of v) \<and> str_of v \<in> set ss"
  by (cases v) auto

lemma readProxyKind_ok: "readProxyKind supplied = Inr (Some k) \<Longrightarrow> k \<in> set proxyKinds"
  by (auto simp: readProxyKind_def Let_def split: if_splits dest: str_in_str_of)

lemma readRedeployMode_ok: "readRedeployMode supplied = Inr (Some m) \<Longrightarrow> m \<in> set redeployModes"
  by (auto simp: readRedeployMode_def Let_def split: if_splits dest: str_in_str_of)

lemma readUnsafeAllow_ok: "readUnsafeAllow supplied = Inr (Some ks) \<Longrightarrow> set ks \<subseteq> set unsafeAllowKinds"
  by (auto simp: readUnsafeAllow_def Let_def split: if_splits js.splits list.splits
      dest: str_in_str_of)

lemma readMilliseconds_ok: "readMilliseconds supplied key = Inr (Some n) \<Longrightarrow> 0 \<le> n"
  by (auto simp: readMilliseconds_def Let_def MILLISECOND_OPTION_MINIMUM_def
      split: if_splits js.splits jsnum.splits)

lemma readBoolean_false:
  "own_prop supplied key = JBool b \<Longrightarrow> readBooleanOption supplied key = Inr (Some b)"
  by (simp add: readBooleanOption_def read_opt_own)

lemma readBoolean_Some: "readBooleanOption supplied key = Inr (Some b) \<longleftrightarrow> own_prop supplied key = JBool b"
  by (auto simp: readBooleanOption_def read_opt_own Let_def split: js.splits)

lemma readRedeploy_None: "readRedeployMode supplied = Inr None \<longleftrightarrow> own_prop supplied ''redeployImplementation'' = JUndef"
  by (auto simp: readRedeployMode_def read_opt_own Let_def)

lemma readInitializer_ok:
  "readInitializerOption supplied = Inr (Some (InitName s)) \<Longrightarrow> \<not> is_blank s"
  by (auto simp: readInitializerOption_def validateInitializer_def Let_def
      split: if_splits js.splits)

lemma readInitialOwner_ok: "readInitialOwner supplied = Inr (Some s) \<Longrightarrow> \<not> is_blank s"
  by (auto simp: readInitialOwner_def Let_def split: if_splits js.splits)

text \<open>After the checks every read succeeds, so building the result cannot refuse.\<close>

lemma closed_sets_ok:
  "check_closed_sets s = Inr () \<longleftrightarrow>
     (\<exists>x. readProxyKind s = Inr x) \<and> (\<exists>x. readUnsafeAllow s = Inr x) \<and>
     (\<exists>x. readRedeployMode s = Inr x) \<and>
     (\<exists>x. readBooleanOption s ''unsafeAllowCustomTypes'' = Inr x) \<and>
     (\<exists>x. readBooleanOption s ''unsafeAllowLinkedLibraries'' = Inr x) \<and>
     (\<exists>x. readBooleanOption s ''unsafeAllowRenames'' = Inr x) \<and>
     (\<exists>x. readBooleanOption s ''unsafeSkipStorageCheck'' = Inr x) \<and>
     (\<exists>x. readBooleanOption s ''useDeployedImplementation'' = Inr x) \<and>
     (\<exists>x. readBooleanOption s ''unsafeSkipProxyAdminCheck'' = Inr x)"
  by (simp add: check_closed_sets_def all_checks_ok del: all_checks.simps)

lemma bounds_ok:
  "check_bounds s = Inr () \<longleftrightarrow>
     (\<exists>x. readMilliseconds s ''timeout'' = Inr x) \<and> (\<exists>x. readMilliseconds s ''pollingInterval'' = Inr x)"
  by (simp add: check_bounds_def all_checks_ok del: all_checks.simps)

lemma shapes_ok:
  "check_shapes s = Inr () \<longleftrightarrow>
     (\<exists>x. readConstructorArgs s = Inr x) \<and> (\<exists>x. readInitializerOption s = Inr x) \<and>
     (\<exists>x. readCallOption s = Inr x) \<and> (\<exists>x. readInitialOwner s = Inr x)"
  by (simp add: check_shapes_def all_checks_ok del: all_checks.simps)

lemma steps_ok:
  "all_checks (checkSteps s accepted) = Inr () \<longleftrightarrow>
     check_keys s accepted = Inr () \<and> check_closed_sets s = Inr () \<and>
     check_contradictions s = Inr () \<and> check_bounds s = Inr () \<and> check_shapes s = Inr ()"
  by (simp add: checkSteps_def all_checks_ok del: all_checks.simps)

lemma build_total:
  assumes "all_checks (checkSteps s accepted) = Inr ()"
  shows "\<exists>r. buildResolved wvd s = Inr r"
  using assms unfolding steps_ok closed_sets_ok bounds_ok shapes_ok
  by (elim conjE exE)
     (simp add: buildResolved_def read_validation_def resolveRedeployMode_def split: option.split)

lemma resolve_Inr:
  "resolveUpgradeOptions wvd options accepted = Inr r \<Longrightarrow>
     all_checks (checkSteps (supplied_of options) accepted) = Inr () \<and>
     buildResolved wvd (supplied_of options) = Inr r"
  by (auto simp: resolveUpgradeOptions_def Let_def bind_sum_Inr)

text \<open>The fields of a resolved value are what the readers read.\<close>

lemma build_fields:
  assumes "buildResolved wvd s = Inr r"
  obtains i args timeout polling skipAdmin where "read_validation s = Inr i"
    and "readConstructorArgs s = Inr args" and "readMilliseconds s ''timeout'' = Inr timeout"
    and "readMilliseconds s ''pollingInterval'' = Inr polling"
    and "resolveRedeployMode s = Inr (r_redeploy r)"
    and "readInitializerOption s = Inr (r_initializer r)" and "readCallOption s = Inr (r_call r)"
    and "readInitialOwner s = Inr (r_initialOwner r)"
    and "r_validation r = wvd i" and "r_kind r = in_kind i"
    and "r_timeout r = or_default timeout 60000" and "r_pollingInterval r = or_default polling 5000"
    and "readBooleanOption s ''unsafeSkipProxyAdminCheck'' = Inr skipAdmin"
    and "r_skipAdminCheck r = or_default skipAdmin False"
    and "r_constructorArgs r = or_default args []"
  using assms
  by (force simp: buildResolved_def bind_sum_Inr pluginOptionDefaults_def defaultConstructorArgs_def)

lemma read_validation_fields:
  assumes "read_validation s = Inr i"
  shows "readProxyKind s = Inr (in_kind i)" "readUnsafeAllow s = Inr (in_unsafeAllow i)"
    "readBooleanOption s ''unsafeAllowCustomTypes'' = Inr (in_customTypes i)"
    "readBooleanOption s ''unsafeAllowLinkedLibraries'' = Inr (in_linkedLibraries i)"
    "readBooleanOption s ''unsafeAllowRenames'' = Inr (in_renames i)"
    "readBooleanOption s ''unsafeSkipStorageCheck'' = Inr (in_skipStorage i)"
  using assms by (auto simp: read_validation_def bind_sum_Inr)

lemma reader_errors_not_unknown [simp]:
  "readProxyKind s \<noteq> Inl (UnknownOption u a)" "readUnsafeAllow s \<noteq> Inl (UnknownOption u a)"
  "readRedeployMode s \<noteq> Inl (UnknownOption u a)" "readBooleanOption s k \<noteq> Inl (UnknownOption u a)"
  "readMilliseconds s k \<noteq> Inl (UnknownOption u a)" "readConstructorArgs s \<noteq> Inl (UnknownOption u a)"
  "readInitialOwner s \<noteq> Inl (UnknownOption u a)" "readCallOption s \<noteq> Inl (UnknownOption u a)"
  by (auto simp: option_readers call_refused_def Let_def split: js.splits list.splits jsnum.splits)

lemma initializer_errors_not_unknown [simp]: "readInitializerOption s \<noteq> Inl (UnknownOption u a)"
proof -
  have "validateInitializer v \<noteq> Inl (UnknownOption u a)" for v
    by (simp add: validateInitializer_def split: js.splits)
  then show ?thesis
    by (cases "validateInitializer (own_prop s ''initializer'')")
       (auto simp: readInitializerOption_def read_opt_own Let_def)
qed

lemma later_checks_not_unknown:
  "check_closed_sets s \<noteq> Inl (UnknownOption u a)" "check_bounds s \<noteq> Inl (UnknownOption u a)"
  "check_shapes s \<noteq> Inl (UnknownOption u a)"
  unfolding check_closed_sets_def check_bounds_def check_shapes_def
  by (rule all_checks_not, simp)+

lemma contradictions_not_unknown: "check_contradictions s \<noteq> Inl (UnknownOption u a)"
  unfolding check_contradictions_def
  by (rule all_checks_not)
     (simp add: contradictions_def linked_contradiction_def custom_contradiction_def
        redeploy_contradiction_def bind_sum_Inl Let_def)

lemma no_tron_refusals: "check_keys s accepted = Inr () \<longleftrightarrow> set (option_keys s) \<subseteq> set accepted"
  by (auto simp: check_keys_def Let_def optionsUnsupportedOnTron_def filter_empty_conv)

section \<open>Properties\<close>

text \<open>
  A mistyped option is refused by name before anything is examined.  Resolution refuses
  with "unknown option" exactly when the caller's object has a key the operation does not
  accept, whatever its value (undefined included) and whatever else is wrong; the refusal
  names all such keys, in the caller's order, and the accepted ones.
\<close>

theorem unknown_options_are_refused_first:
  "(case resolveUpgradeOptions wvd options accepted of
      Inl (UnknownOption u a) \<Rightarrow>
        u = filter (\<lambda>k. k \<notin> set accepted) (option_keys (supplied_of options)) \<and> u \<noteq> [] \<and> a = accepted
    | _ \<Rightarrow> set (option_keys (supplied_of options)) \<subseteq> set accepted)"
proof (cases "set (option_keys (supplied_of options)) \<subseteq> set accepted")
  case False
  then show ?thesis
    by (auto simp: resolveUpgradeOptions_def checkSteps_def check_keys_def Let_def filter_empty_conv)
next
  case True
  then have "check_keys (supplied_of options) accepted = Inr ()" by (simp add: no_tron_refusals)
  moreover have "all_checks (checkSteps (supplied_of options) accepted) \<noteq> Inl (UnknownOption u a)" for u a
    unfolding checkSteps_def
    by (rule all_checks_not)
       (simp add: calculation later_checks_not_unknown contradictions_not_unknown)
  moreover have "\<exists>r. buildResolved wvd (supplied_of options) = Inr r"
    if "all_checks (checkSteps (supplied_of options) accepted) = Inr ()"
    using build_total that by blast
  ultimately show ?thesis using True
    by (cases "all_checks (checkSteps (supplied_of options) accepted)")
       (auto simp: resolveUpgradeOptions_def Let_def split: option_error.splits sum.splits)
qed

text \<open>
  The checks and the build read the same values.  Resolution succeeds exactly when every
  check passes, and otherwise refuses with the first failing check's refusal; building the
  resolved value never refuses on its own.
\<close>

theorem resolution_is_decided_by_the_checks:
  "(case all_checks (checkSteps (supplied_of options) accepted) of
      Inl e \<Rightarrow> resolveUpgradeOptions wvd options accepted = Inl e
    | Inr _ \<Rightarrow> (\<exists>r. resolveUpgradeOptions wvd options accepted = Inr r))"
proof (cases "all_checks (checkSteps (supplied_of options) accepted)")
  case (Inr x)
  then show ?thesis
    using build_total [of "supplied_of options" accepted wvd] by (simp add: resolveUpgradeOptions_def)
qed (simp add: resolveUpgradeOptions_def)


text \<open>The engine's defaults as its documentation states them, for the witnesses.\<close>

definition documented_defaults :: "validation_input \<Rightarrow> validation" where
  "documented_defaults i =
     (let allow = or_default (in_unsafeAllow i) [];
          custom = or_default (in_customTypes i)
            (''struct-definition'' \<in> set allow \<and> ''enum-definition'' \<in> set allow);
          linked = or_default (in_linkedLibraries i) (''external-library-linking'' \<in> set allow)
      in \<lparr>vo_kind = or_default (in_kind i) ''transparent'',
          vo_unsafeAllow = allow @ (if custom then [''struct-definition'', ''enum-definition''] else []) @
            (if linked then [''external-library-linking''] else []),
          vo_customTypes = custom, vo_linkedLibraries = linked,
          vo_renames = or_default (in_renames i) False,
          vo_skipStorage = or_default (in_skipStorage i) False\<rparr>)"

lemma documented_defaults_contract: "engine_defaults documented_defaults"
  by (auto simp: engine_defaults_def documented_defaults_def Let_def)

definition demo_options :: js where
  "demo_options = JObj [(''kind'', JStr ''uups''), (''unsafeAllowLinkedLibraries'', JBool False),
     (''unsafeAllow'', JArr [JStr ''delegatecall'']), (''timeout'', JNum (NInt 7))]"

definition demo_accepted :: "string list" where
  "demo_accepted = [''kind'', ''unsafeAllow'', ''unsafeAllowLinkedLibraries'', ''timeout'']"

lemma demo_options_resolve:
  "(case resolveUpgradeOptions documented_defaults demo_options demo_accepted of
      Inr r \<Rightarrow> vo_unsafeAllow (r_validation r) = [''delegatecall''] \<and> r_redeploy r = ''onchange'' | Inl _ \<Rightarrow> False)"
  by code_simp

lemma demo_resolved:
  obtains r where "resolveUpgradeOptions documented_defaults demo_options demo_accepted = Inr r"
    and "vo_unsafeAllow (r_validation r) = [''delegatecall'']" and "r_redeploy r = ''onchange''"
  using demo_options_resolve by (auto split: sum.splits)


text \<open>
  An allowance the caller revoked is never granted.  With
  \<open>unsafeAllowLinkedLibraries: false\<close> no resolution hands the engine the linking allowance;
  with \<open>unsafeAllowCustomTypes: false\<close> none hands it both halves of the custom types
  allowance.
\<close>

theorem revoked_allowance_is_never_granted:
  assumes "engine_defaults wvd" and "resolveUpgradeOptions wvd options accepted = Inr r"
  shows "(if own_prop options ''unsafeAllowLinkedLibraries'' = JBool False
      then ''external-library-linking'' \<notin> set (vo_unsafeAllow (engineValidationOptions r)) \<and>
        \<not> vo_linkedLibraries (engineValidationOptions r) else True) \<and>
    (if own_prop options ''unsafeAllowCustomTypes'' = JBool False
     then \<not> {''struct-definition'', ''enum-definition''} \<subseteq> set (vo_unsafeAllow (engineValidationOptions r)) \<and>
        \<not> vo_customTypes (engineValidationOptions r) else True)"
proof -
  let ?s = "supplied_of options"
  note checked = resolve_Inr [OF assms(2)]
  obtain i where i: "read_validation ?s = Inr i" "r_validation r = wvd i"
    using checked by (elim conjE build_fields) blast
  note v = read_validation_fields [OF i(1)]
  have own: "own_prop ?s k = JBool False" if "own_prop options k = JBool False" for k
    using that by (cases options) (auto simp: supplied_of_def)
  have "check_contradictions ?s = Inr ()" using checked steps_ok by blast
  then have holds: "linked_contradiction ?s = Inr False" "custom_contradiction ?s = Inr False"
    by (auto simp: check_contradictions_def contradictions_def all_checks_ok bind_sum_Inr
        simp del: all_checks.simps split: if_splits)
  have linked: "''external-library-linking'' \<notin> set (or_default (in_unsafeAllow i) [])"
    if "in_linkedLibraries i = Some False"
    using holds(1) v that by (simp add: linked_contradiction_def or_default_def)
  have custom: "\<not> {''struct-definition'', ''enum-definition''} \<subseteq> set (or_default (in_unsafeAllow i) [])"
    if "in_customTypes i = Some False"
    using holds(2) v that by (auto simp: custom_contradiction_def or_default_def Let_def)
  have flags: "in_linkedLibraries i = Some False" if "own_prop options ''unsafeAllowLinkedLibraries'' = JBool False"
    using v(4) readBoolean_false [OF own [OF that]] by simp
  have flagc: "in_customTypes i = Some False" if "own_prop options ''unsafeAllowCustomTypes'' = JBool False"
    using v(3) readBoolean_false [OF own [OF that]] by simp
  have e: "let allow = or_default (in_unsafeAllow i) [];
           custom = or_default (in_customTypes i)
             (''struct-definition'' \<in> set allow \<and> ''enum-definition'' \<in> set allow);
           linked = or_default (in_linkedLibraries i) (''external-library-linking'' \<in> set allow)
       in vo_customTypes (wvd i) = custom \<and> vo_linkedLibraries (wvd i) = linked \<and>
          set (vo_unsafeAllow (wvd i)) =
            set allow \<union> (if custom then {''struct-definition'', ''enum-definition''} else {}) \<union>
            (if linked then {''external-library-linking''} else {})"
    using assms(1) unfolding engine_defaults_def by (simp add: Let_def)
  show ?thesis
    using e linked custom flags flagc i(2)
    by (auto simp: Let_def engineValidationOptions_def or_default_def [of "Some False"] split: if_splits)
qed

theorem revoked_allowance_is_never_granted_witness:
  "\<exists>r. resolveUpgradeOptions documented_defaults demo_options demo_accepted = Inr r \<and>
     ''external-library-linking'' \<notin> set (vo_unsafeAllow (engineValidationOptions r))"
proof -
  obtain r where r: "resolveUpgradeOptions documented_defaults demo_options demo_accepted = Inr r"
    by (rule demo_resolved)
  show ?thesis
    using revoked_allowance_is_never_granted [OF documented_defaults_contract r] r
    by (simp add: demo_options_def)
qed

text \<open>
  The redeploy policy is the parity target's.  On every accepted input the resolved mode
  is \<open>redeployImplementation ?? (useDeployedImplementation ? 'never' : 'onchange')\<close>.
\<close>

theorem redeploy_mode_is_the_parity_rule:
  assumes "resolveUpgradeOptions wvd options accepted = Inr r"
  shows "JStr (r_redeploy r) =
    (if own_prop options ''redeployImplementation'' \<noteq> JUndef then own_prop options ''redeployImplementation''
     else if own_prop options ''useDeployedImplementation'' = JBool True then JStr ''never''
     else JStr ''onchange'')"
proof -
  have own: "own_prop (supplied_of options) k = own_prop options k" for k
    by (cases options) (auto simp: supplied_of_def)
  have m: "resolveRedeployMode (supplied_of options) = Inr (r_redeploy r)"
    using resolve_Inr [OF assms] by (elim conjE build_fields) blast
  then obtain explicit where e: "readRedeployMode (supplied_of options) = Inr explicit"
    by (auto simp: resolveRedeployMode_def bind_sum_Inr)
  show ?thesis
  proof (cases explicit)
    case None
    then have "own_prop options ''redeployImplementation'' = JUndef" using e readRedeploy_None own by simp
    moreover have "own_prop options ''useDeployedImplementation'' = JBool True \<longleftrightarrow> x = Some True"
      if "readBooleanOption (supplied_of options) ''useDeployedImplementation'' = Inr x" for x
      using that readBoolean_Some [of "supplied_of options" "''useDeployedImplementation''" True] own
      by simp
    ultimately show ?thesis using m e None
      by (auto simp: resolveRedeployMode_def bind_sum_Inr pluginOptionDefaults_def split: if_splits)
  next
    case (Some x)
    then have "own_prop options ''redeployImplementation'' = JStr x"
      using e own by (auto simp: readRedeployMode_def read_opt_own Let_def split: if_splits dest: str_in_str_of)
    then show ?thesis using m e Some by (simp add: resolveRedeployMode_def)
  qed
qed

theorem redeploy_mode_is_the_parity_rule_witness:
  "\<exists>r. resolveUpgradeOptions documented_defaults demo_options demo_accepted = Inr r \<and>
     r_redeploy r = ''onchange''"
proof -
  obtain r where r: "resolveUpgradeOptions documented_defaults demo_options demo_accepted = Inr r"
    by (rule demo_resolved)
  show ?thesis
    using redeploy_mode_is_the_parity_rule [OF r] r by (simp add: demo_options_def)
qed

end
