(* ===== verification/ProxyDispatch.thy ===== *)
theory ProxyDispatch
  imports DeployQueue Options
begin

text \<open>
  \<open>proxy/dispatch.ts\<close>, \<open>proxy/replay.ts\<close>, \<open>proxy/artifacts.ts\<close> and
  \<open>proxy/errors.ts\<close>: which upgrade entry point a proxy generation takes, whether a new deploy
  may go beside an earlier one, and which compiled artifact a proxy contract name stands for.
  The environment's artifact index is a parameter.  The errors carry their data; their texts are in \<open>RefusalTexts\<close>.
\<close>

section \<open>The refusals of the operations\<close>

datatype stale_cause = StaleNoCode | StaleUnrecorded | StaleNoVerdict

datatype proxy_error =
    UnknownProxyGeneration string "nat list"
  | ProxyArtifactMissing string
  | ProxyArtifactCollision string "string list"
  | BeaconProxyRefused string string
  | NotTransparentProxy string
  | UpgradeVerificationFailed string string string string
  | EmptyInitializerRefused string string
  | StaleProxyRecord string stale_cause
  | ImplementationNotPreviouslyDeployed string
  | InitialOwnerUnsupportedKind string
  | BeaconInitialOwnerRequired
  | TransparentInitialOwnerRequired
  | ProxyAdminAsOwner string
  | OptionsInArgsPosition string string bool
  | NothingToAdopt string "string option"
  | AdoptionVerificationFailed string string
  | AdoptionKindMismatch string string string
  | AuthorityAlreadyTransferred string string string
  | AuthorityVerificationFailed string string string

section \<open>Dispatch\<close>

datatype probe_kind = ProbeTransparent | ProbeUups
datatype call_name = UpgradeAndCall | Upgrade | UpgradeToAndCall | UpgradeTo
datatype route = AdminV5 | AdminV4 | UupsV5 | UupsPre5

record probe =
  pb_kind :: probe_kind
  pb_version :: "nat list option"
  pb_hasCallData :: bool

record plan =
  pl_route :: route
  pl_call :: call_name
  pl_carriesData :: bool

text \<open>A version is the sequence of code points the chain reader decoded; this one is 5.0.0.\<close>

definition KNOWN_VERSION :: "nat list" where
  "KNOWN_VERSION = [53, 46, 48, 46, 48]"

definition planUpgradeDispatch :: "probe \<Rightarrow> proxy_error + plan" where
  "planUpgradeDispatch pb =
     (let v = pb_version pb in
      if v \<noteq> None \<and> v \<noteq> Some KNOWN_VERSION
      then Inl (UnknownProxyGeneration (if pb_kind pb = ProbeTransparent then ''admin'' else ''proxy'') (the v))
      else if pb_kind pb = ProbeTransparent then
        (if v = Some KNOWN_VERSION
         then Inr \<lparr>pl_route = AdminV5, pl_call = UpgradeAndCall, pl_carriesData = True\<rparr>
         else if pb_hasCallData pb
         then Inr \<lparr>pl_route = AdminV4, pl_call = UpgradeAndCall, pl_carriesData = True\<rparr>
         else Inr \<lparr>pl_route = AdminV4, pl_call = Upgrade, pl_carriesData = False\<rparr>)
      else if v = Some KNOWN_VERSION
        then Inr \<lparr>pl_route = UupsV5, pl_call = UpgradeToAndCall, pl_carriesData = True\<rparr>
      else if pb_hasCallData pb
        then Inr \<lparr>pl_route = UupsPre5, pl_call = UpgradeToAndCall, pl_carriesData = True\<rparr>
      else Inr \<lparr>pl_route = UupsPre5, pl_call = UpgradeTo, pl_carriesData = False\<rparr>)"

section \<open>Replay\<close>

datatype replay = Proceed | Refuse_replay string stale_cause

definition decideDeployReplay ::
  "codec \<Rightarrow> string option \<Rightarrow> proxy_verdict list \<Rightarrow> address_error + replay" where
  "decideDeployReplay c priorAddress verdicts =
     (case priorAddress of
        None \<Rightarrow> Inr Proceed
      | Some p \<Rightarrow>
          map_sum id (\<lambda>address.
            case find (\<lambda>v. pv_address v = address) verdicts of
              None \<Rightarrow> Refuse_replay address StaleNoVerdict
            | Some v \<Rightarrow>
                (case pv_status v of
                   Authoritative \<Rightarrow> Proceed
                 | NoCodeAtAddress \<Rightarrow> Refuse_replay address StaleNoCode
                 | Unrecorded \<Rightarrow> Refuse_replay address StaleUnrecorded))
            (canonicalizeAddress c (JStr p)))"

definition isAlreadyCurrent :: "codec \<Rightarrow> string \<Rightarrow> string \<Rightarrow> address_error + bool" where
  "isAlreadyCurrent c live target =
     bind_sum (canonicalizeAddress c (JStr live)) (\<lambda>a.
     bind_sum (canonicalizeAddress c (JStr target)) (\<lambda>b. Inr (a = b)))"

section \<open>Abstractions and artifacts\<close>

text \<open>
  What the operations read off a contract abstraction.  \<open>ab_id\<close> tells abstractions apart;
  \<open>ab_has_new\<close>, \<open>ab_has_at\<close> and \<open>ab_has_deployed\<close> say whether the members of
  that name are functions.
\<close>

record abstraction =
  ab_id :: string
  ab_contractName :: js
  ab_abi :: js
  ab_unlinked_binary :: "string option"
  ab_bytecode :: "string option"
  ab_binary :: "string option"
  ab_deployedBytecode :: js
  ab_has_new :: bool
  ab_has_at :: bool
  ab_has_deployed :: bool

definition PROXY_TRANSPARENT :: string where "PROXY_TRANSPARENT = ''TransparentUpgradeableProxy''"
definition PROXY_TRC1967 :: string where "PROXY_TRC1967 = ''TRC1967Proxy''"
definition PROXY_ADMIN :: string where "PROXY_ADMIN = ''ProxyAdmin''"

text \<open>The index's answer: candidates are pairs of source path and contract name.\<close>

datatype resolution =
    UniqueRes abstraction
  | AmbiguousRes abstraction "(string \<times> string) list"
  | IndeterminateRes

definition candidate_key :: "string \<times> string \<Rightarrow> string" where
  "candidate_key x = fst x @ '':'' @ snd x"

definition requireProxyArtifact ::
  "(string \<Rightarrow> js + resolution) \<Rightarrow> string \<Rightarrow> proxy_error + abstraction" where
  "requireProxyArtifact resolve name =
     (case resolve name of
        Inl _ \<Rightarrow> Inl (ProxyArtifactMissing name)
      | Inr (UniqueRes a) \<Rightarrow> Inr a
      | Inr (AmbiguousRes a candidates) \<Rightarrow>
          if length (js_dedupe (map candidate_key candidates)) \<le> 1 then Inr a
          else Inl (ProxyArtifactCollision name (js_dedupe (map fst candidates)))
      | Inr IndeterminateRes \<Rightarrow> Inl (ProxyArtifactMissing name))"

definition assertNoOptionsInArgsPosition ::
  "string \<Rightarrow> js \<Rightarrow> string list \<Rightarrow> proxy_error + unit" where
  "assertNoOptionsInArgsPosition operation args accepted =
     (case args of
        JArr _ \<Rightarrow> Inr ()
      | _ \<Rightarrow> Inl (OptionsInArgsPosition operation (js_typeof args)
                (case args of JObj _ \<Rightarrow> list_ex (\<lambda>k. has_own args k) accepted | _ \<Rightarrow> False)))"

section \<open>Facts\<close>

lemma decide_proceed:
  "decideDeployReplay c (Some p) vs = Inr Proceed \<longleftrightarrow>
     (\<exists>a v. canonicalizeAddress c (JStr p) = Inr a \<and> find (\<lambda>v. pv_address v = a) vs = Some v \<and>
        pv_status v = Authoritative)"
  by (cases "canonicalizeAddress c (JStr p)")
     (auto simp: decideDeployReplay_def split: option.split proxy_status.split)

lemma isAlreadyCurrent_iff:
  "isAlreadyCurrent c x y = Inr True \<longleftrightarrow>
     (\<exists>a. canonicalizeAddress c (JStr x) = Inr a \<and> canonicalizeAddress c (JStr y) = Inr a)"
  by (auto simp: isAlreadyCurrent_def bind_sum_Inr)

section \<open>Properties\<close>

text \<open>
  The dispatch matrix.  A version the plugin does not know is refused, naming who reported
  it; every other probe gets the one entry point of its generation: version 5 always carries
  data, an earlier generation takes the data-carrying call exactly when there is call data, so
  the implementation is never force-called without it.
\<close>

theorem dispatch_is_the_matrix:
  "planUpgradeDispatch \<lparr>pb_kind = k, pb_version = v, pb_hasCallData = d\<rparr> =
     (case (k, v) of
        (_, Some w) \<Rightarrow>
          if w = [53, 46, 48, 46, 48] then
            Inr (if k = ProbeTransparent
                 then \<lparr>pl_route = AdminV5, pl_call = UpgradeAndCall, pl_carriesData = True\<rparr>
                 else \<lparr>pl_route = UupsV5, pl_call = UpgradeToAndCall, pl_carriesData = True\<rparr>)
          else Inl (UnknownProxyGeneration (if k = ProbeTransparent then ''admin'' else ''proxy'') w)
      | (ProbeTransparent, None) \<Rightarrow>
          Inr \<lparr>pl_route = AdminV4, pl_call = (if d then UpgradeAndCall else Upgrade), pl_carriesData = d\<rparr>
      | (ProbeUups, None) \<Rightarrow>
          Inr \<lparr>pl_route = UupsPre5, pl_call = (if d then UpgradeToAndCall else UpgradeTo),
               pl_carriesData = d\<rparr>)"
  by (cases k; cases v) (auto simp: planUpgradeDispatch_def KNOWN_VERSION_def)

text \<open>
  Candidates of one source are one contract.  An artifact name resolves exactly when the
  index has a single candidate or when all its candidates name one source path and contract;
  a collision lists every distinct source path and is never resolved by order.
\<close>

theorem artifact_triage:
  "(case requireProxyArtifact resolve name of
      Inr a \<Rightarrow> (case resolve name of
          Inr (UniqueRes b) \<Rightarrow> a = b
        | Inr (AmbiguousRes b cs) \<Rightarrow> a = b \<and> card (set (map candidate_key cs)) \<le> 1
        | _ \<Rightarrow> False)
    | Inl (ProxyArtifactCollision n paths) \<Rightarrow>
        n = name \<and> distinct paths \<and>
        (\<exists>b cs. resolve name = Inr (AmbiguousRes b cs) \<and> set paths = fst ` set cs \<and>
           1 < card (set (map candidate_key cs)))
    | Inl e \<Rightarrow> e = ProxyArtifactMissing name)"
proof -
  have card: "length (js_dedupe xs) = card (set xs)" for xs :: "string list"
    by (simp add: js_dedupe_def length_remdups_card_conv)
  have ded: "distinct (js_dedupe xs)" "set (js_dedupe xs) = set xs" for xs :: "string list"
    by (simp_all add: js_dedupe_def)
  show ?thesis
    unfolding requireProxyArtifact_def card
    by (auto simp: ded not_le split: sum.split resolution.split)
qed

text \<open>
  A deploy goes ahead beside an earlier one only when the record vouches for it.  With no
  prior address the decision is to proceed; with one it is to proceed exactly when the first
  verdict for that address, in whatever encoding it was written, is "authoritative".
\<close>

theorem replay_proceeds_only_when_vouched:
  "decideDeployReplay c None vs = Inr Proceed \<and>
   (decideDeployReplay c (Some p) vs = Inr Proceed \<longleftrightarrow>
     (\<exists>a v. canonicalizeAddress c (JStr p) = Inr a \<and> find (\<lambda>v. pv_address v = a) vs = Some v \<and>
        pv_status v = Authoritative))"
  unfolding decide_proceed by (simp add: decideDeployReplay_def)

end
