(* ===== verification/ProxyToolkit.thy ===== *)
theory ProxyToolkit
  imports ProxyDispatch ChainAccess
begin

text \<open>
  \<open>proxy/toolkit.ts\<close>: the capabilities the operations consume, as \<open>createOperationToolkit\<close>
  wires them.  \<open>'w cx\<close> collects what the toolkit is built over: the chain provider and the
  record's manifest (both components of this model, over the world \<open>'w\<close>), and, as
  parameters, the host's abstractions, the receipt wait, the ABI encoder and the engine.

  The state of an operation is the world, the per-network entry of every abstraction (its
  write-back), and a log of the calls that send or record something, in the order they are
  made.  An event is logged when the call is made, whether or not it then succeeds.
\<close>

section \<open>Write-backs\<close>

text \<open>
  \<open>None\<close> is an abstraction with no entry for this network: the host's getters throw.  A
  deleted or unset field reads as undefined.
\<close>

record entry =
  e_address :: js
  e_hash :: js

record write_back =
  wb_address :: "string option"
  wb_hash :: "string option"

fun nonempty :: "js \<Rightarrow> string option" where
  "nonempty (JStr s) = (if s = [] then None else Some s)"
| "nonempty _ = None"

definition readWriteBackHash :: "entry option \<Rightarrow> string option" where
  "readWriteBackHash e = (case e of None \<Rightarrow> None | Some x \<Rightarrow> nonempty (e_hash x))"

definition readWriteBack :: "entry option \<Rightarrow> write_back" where
  "readWriteBack e =
     \<lparr>wb_address = (case e of None \<Rightarrow> None | Some x \<Rightarrow> nonempty (e_address x)),
      wb_hash = readWriteBackHash e\<rparr>"

text \<open>The setter of \<open>address\<close> creates the entry; the one of \<open>transactionHash\<close> needs it.\<close>

definition set_address :: "string \<Rightarrow> entry option \<Rightarrow> entry option" where
  "set_address a e =
     (case e of
        None \<Rightarrow> Some \<lparr>e_address = JStr a, e_hash = JUndef\<rparr>
      | Some x \<Rightarrow> Some (x\<lparr>e_address := JStr a\<rparr>))"

definition set_hash :: "js \<Rightarrow> entry option \<Rightarrow> entry option" where
  "set_hash h e = map_option (\<lambda>x. x\<lparr>e_hash := h\<rparr>) e"

definition restoreWriteBack :: "write_back \<Rightarrow> entry option \<Rightarrow> entry option" where
  "restoreWriteBack prior e =
     (let e1 = (case wb_address prior of
                  None \<Rightarrow> map_option (\<lambda>x. x\<lparr>e_address := JUndef\<rparr>) e
                | Some a \<Rightarrow> set_address a e)
      in set_hash (case wb_hash prior of None \<Rightarrow> JUndef | Some h \<Rightarrow> JStr h) e1)"

definition readPriorDeployedAddress :: "abstraction \<Rightarrow> entry option \<Rightarrow> string option" where
  "readPriorDeployedAddress a e =
     (if \<not> ab_has_deployed a then None
      else case e of
          None \<Rightarrow> None
        | Some x \<Rightarrow> nonempty (e_address x))"

section \<open>The state of an operation\<close>

datatype op_event =
    EvQueue
  | EvDeploy string "js list"
  | EvCall string string string "js list"
  | EvRecord string string
  | EvWarn string
  | EvNote string

datatype op_error =
    OpDeploy deploy_error "(string \<times> string) option"
  | OpDeployerAbsent string
  | OpReverted verdict_tx
  | OpIndeterminate verdict_tx "(string \<times> string) option"
  | OpOption option_error
  | OpProxy proxy_error
  | OpRecordWriteFailed string string op_error
  | OpAddress address_error
  | OpRecord record_error
  | OpChain chain_error
  | OpResult string
  | OpHost js
  | OpFailure string

record 'w ost =
  op_world :: 'w
  op_net :: "string \<Rightarrow> entry option"
  op_local :: "(string \<times> string) option"
  op_log :: "op_event list"

record validated =
  va_name :: string
  va_layout :: js
  va_version :: js

record 'w cx =
  cx_codec :: codec
  cx_send :: "'w provider"
  cx_engine :: "'w engine"
  cx_session :: session
  cx_scheduling :: bool
  cx_chain :: "op_error chain"
  cx_sender :: "string option"
  cx_wildcard :: bool
  cx_resolve :: "string \<Rightarrow> js + resolution"
  cx_new :: "abstraction \<Rightarrow> js list \<Rightarrow> ('w, js, js) io"
  cx_at :: "abstraction \<Rightarrow> string \<Rightarrow> ('w, js, string list) io"
  cx_call :: "abstraction \<Rightarrow> string \<Rightarrow> string \<Rightarrow> js list \<Rightarrow> ('w, js, js) io"
  cx_wait :: "string \<Rightarrow> nat \<Rightarrow> nat \<Rightarrow> ('w, js, js) io"
  cx_utf8 :: "nat list \<Rightarrow> string"
  cx_encode :: "js \<Rightarrow> string \<Rightarrow> js list \<Rightarrow> js + string option"
  cx_validate :: "string \<Rightarrow> resolved \<Rightarrow> ('w, op_error, validated) io"
  cx_fetch :: "js \<Rightarrow> ('w ost, op_error, string \<times> string option) io \<Rightarrow> int \<Rightarrow> int \<Rightarrow> bool \<Rightarrow>
               ('w ost, op_error, string) io"
  cx_removed :: "op_error \<Rightarrow> bool"
  cx_inferKind :: "validated \<Rightarrow> js"
  cx_processKind :: "string \<Rightarrow> validation \<Rightarrow> string option \<Rightarrow> validated \<Rightarrow> ('w, op_error, js) io"
  cx_storageOk :: "js \<Rightarrow> js \<Rightarrow> validation \<Rightarrow> bool"
  cx_hash :: "string \<Rightarrow> string"

text \<open>Calls that act on the world alone, with their errors named; the log.\<close>

definition on_world :: "('e \<Rightarrow> op_error) \<Rightarrow> ('w, 'e, 'a) io \<Rightarrow> ('w ost, op_error, 'a) io" where
  "on_world err m s = (case m (op_world s) of (r, w) \<Rightarrow> (map_sum err id r, s\<lparr>op_world := w\<rparr>))"

definition emit :: "op_event \<Rightarrow> ('w ost, op_error, unit) io" where
  "emit ev s = (Inr (), s\<lparr>op_log := op_log s @ [ev]\<rparr>)"

definition raise_if :: "bool \<Rightarrow> op_error \<Rightarrow> ('s, op_error, unit) io" where
  "raise_if b e = (if b then throw_io e else return_io ())"

definition lifted :: "('e \<Rightarrow> op_error) \<Rightarrow> 'e + 'a \<Rightarrow> ('s, op_error, 'a) io" where
  "lifted err r = lift_io (map_sum err id r)"

definition canonical :: "'w cx \<Rightarrow> string \<Rightarrow> ('s, op_error, string) io" where
  "canonical cx a = lifted OpAddress (canonicalizeAddress (cx_codec cx) (JStr a))"

definition write_back_of :: "abstraction \<Rightarrow> ('w ost, op_error, write_back) io" where
  "write_back_of a s = (Inr (readWriteBack (op_net s (ab_id a))), s)"

definition change_net :: "abstraction \<Rightarrow> (entry option \<Rightarrow> entry option) \<Rightarrow> ('w ost, op_error, unit) io" where
  "change_net a g s = (Inr (), s\<lparr>op_net := (op_net s)(ab_id a := g (op_net s (ab_id a)))\<rparr>)"

text \<open>The variable a queued step shares with the callback it hands to the engine.\<close>

definition set_local :: "(string \<times> string) option \<Rightarrow> ('w ost, op_error, unit) io" where
  "set_local v s = (Inr (), s\<lparr>op_local := v\<rparr>)"

definition get_local :: "('w ost, op_error, (string \<times> string) option) io" where
  "get_local s = (Inr (op_local s), s)"

section \<open>The toolkit\<close>

definition HANDLE_OPTION_KEYS :: "string list" where
  "HANDLE_OPTION_KEYS = [''deployer'', ''artifacts'', ''tronWrap'', ''tronWeb'', ''waitForTransactionReceipt'']"

definition nameOf :: "abstraction \<Rightarrow> op_error + string" where
  "nameOf a =
     (case nonempty (ab_contractName a) of
        None \<Rightarrow> Inl (OpFailure ''needs the contract abstraction from artifacts.require(...)'')
      | Some n \<Rightarrow> Inr n)"

definition encodeInitializer ::
  "'w cx \<Rightarrow> js \<Rightarrow> string \<Rightarrow> js list \<Rightarrow> initializer option \<Rightarrow> op_error + string" where
  "encodeInitializer cx abi kind args initializer =
     (if initializer = Some InitFalse
      then Inl (OpProxy (EmptyInitializerRefused kind ''initializer-false''))
      else let name = (case initializer of Some (InitName s) \<Rightarrow> s | _ \<Rightarrow> ''initialize'')
           in case cx_encode cx abi name args of
               Inl e \<Rightarrow> Inl (OpHost e)
             | Inr None \<Rightarrow> Inl (OpProxy (EmptyInitializerRefused kind ''no-default-initializer''))
             | Inr (Some d) \<Rightarrow>
                 if d = ''0x'' then Inl (OpProxy (EmptyInitializerRefused kind ''no-default-initializer''))
                 else Inr d)"

text \<open>Restored on a failing exit only; the prior write-back is read at entry.\<close>

definition restoringWriteBackOnFailure ::
  "abstraction \<Rightarrow> ('w ost, op_error, 'a) io \<Rightarrow> ('w ost, op_error, 'a) io" where
  "restoringWriteBackOnFailure a step =
     bind_io (write_back_of a) (\<lambda>prior.
       catch_io step (\<lambda>e. bind_io (change_net a (restoreWriteBack prior)) (\<lambda>_. throw_io e)))"

definition validateImplementation :: "'w cx \<Rightarrow> string \<Rightarrow> resolved \<Rightarrow> ('w ost, op_error, validated) io" where
  "validateImplementation cx name r = on_world id (cx_validate cx name r)"

definition requireDeployer :: "'w cx \<Rightarrow> ('s, op_error, unit) io" where
  "requireDeployer cx = raise_if (\<not> cx_scheduling cx) (OpDeployerAbsent ''scheduling'')"

text \<open>
  The operation's step through the host's queue.  The promise of a step that has a \<open>catch\<close>
  is never pending once the chain has reached it.
\<close>

definition queue :: "'w cx \<Rightarrow> ('w ost, op_error, 'a) io \<Rightarrow> ('w ost, op_error, 'a) io" where
  "queue cx step =
     bind_io (emit EvQueue) (\<lambda>_ s.
       case runThroughQueue True step (cx_chain cx) s of
         (_, p, t) \<Rightarrow>
           (case settled_as p of
              Resolved_with v \<Rightarrow> (Inr v, t)
            | Rejected_with (Failure e) \<Rightarrow> (Inl e, t)
            | _ \<Rightarrow> (Inl (OpDeploy SeamInvariant None), t)))"

definition resolveSender :: "'w cx \<Rightarrow> ('s, op_error, sender) io" where
  "resolveSender cx = lifted (\<lambda>e. OpDeploy e None) (resolveEffectiveSender (cx_codec cx) (cx_sender cx))"

definition signerOf :: "'w cx \<Rightarrow> string \<Rightarrow> ('w ost, op_error, string option) io" where
  "signerOf cx hash =
     catch_io
       (bind_io (on_world OpChain (cx_send cx ''eth_getTransactionByHash'' [JStr hash])) (\<lambda>tx.
          case nonempty (own_prop tx ''from'') of
            None \<Rightarrow> return_io None
          | Some from \<Rightarrow> bind_io (canonical cx from) (\<lambda>a. return_io (Some a))))
       (\<lambda>_. return_io None)"

definition proxyArtifact :: "'w cx \<Rightarrow> string \<Rightarrow> ('s, op_error, abstraction) io" where
  "proxyArtifact cx name = lifted OpProxy (requireProxyArtifact (cx_resolve cx) name)"

text \<open>The record's lock around an action of an operation.\<close>

definition throughLock :: "'w cx \<Rightarrow> ('s, op_error, 'a) io \<Rightarrow> ('s, op_error, 'a) io" where
  "throughLock cx action =
     catch_io action (\<lambda>e.
       case e of
         OpRecord re \<Rightarrow>
           if isLockContention re
           then throw_io (OpRecord (RecLocked (ss_manifest_file (cx_session cx)) re)) else throw_io e
       | _ \<Rightarrow> throw_io e)"

definition fetch_once ::
  "'w cx \<Rightarrow> validated \<Rightarrow> resolved \<Rightarrow> ('w ost, op_error, string \<times> string option) io \<Rightarrow>
   ('w ost, op_error, string) io" where
  "fetch_once cx v r deploy =
     cx_fetch cx (va_version v)
       (bind_io (raise_if (r_redeploy r = ''never'')
                   (OpProxy (ImplementationNotPreviouslyDeployed (va_name v)))) (\<lambda>_. deploy))
       (r_timeout r) (r_pollingInterval r) (r_redeploy r = ''always'')"

definition fetchOrDeployImplementation ::
  "'w cx \<Rightarrow> validated \<Rightarrow> resolved \<Rightarrow> ('w ost, op_error, string \<times> string option) io \<Rightarrow>
   ('w ost, op_error, string) io" where
  "fetchOrDeployImplementation cx v r deploy =
     throughLock cx
       (catch_io (fetch_once cx v r deploy)
          (\<lambda>e. if \<not> cx_removed cx e \<or> r_redeploy r = ''never'' then throw_io e
               else fetch_once cx v r deploy))"

definition or_else :: "string option \<Rightarrow> string \<Rightarrow> string" where
  "or_else v d = (case v of None \<Rightarrow> d | Some x \<Rightarrow> x)"

definition hostDeploy ::
  "'w cx \<Rightarrow> abstraction \<Rightarrow> js list \<Rightarrow> ('w ost, op_error, string \<times> string) io" where
  "hostDeploy cx a args =
     bind_io (raise_if (\<not> ab_has_new a) (OpFailure ''no deployable surface in this context'')) (\<lambda>_.
     bind_io (lifted (\<lambda>e. OpDeploy e None)
                (assertFullyLinked (or_else (ab_binary a) (or_else (ab_bytecode a) [])))) (\<lambda>_.
     bind_io (lifted (\<lambda>e. OpDeploy e None) (assertNoCheatcodeCollision args)) (\<lambda>_.
     bind_io (emit (EvDeploy (ab_id a) args)) (\<lambda>_.
     bind_io (on_world OpHost (cx_new cx a args)) (\<lambda>instance.
       case (own_prop instance ''address'', own_prop instance ''transactionHash'') of
         (JStr address, JStr hash) \<Rightarrow>
           bind_io (raise_if (address = []) (OpFailure ''the setter refuses an empty address'')) (\<lambda>_.
           bind_io (change_net a (set_address address)) (\<lambda>_.
           bind_io (change_net a (set_hash (JStr hash))) (\<lambda>_.
             return_io (address, hash))))
       | _ \<Rightarrow> throw_io (OpFailure ''the host deploy resolved without an address and transaction hash''))))))"

definition confirm :: "'w cx \<Rightarrow> string \<Rightarrow> ('w ost, op_error, verdict_tx) io" where
  "confirm cx hash =
     on_world id (\<lambda>w. case confirmTransaction (cx_utf8 cx) hash (cx_wait cx) HOST_CONFIRMATION_BOUNDS w of
                        (v, w') \<Rightarrow> (Inr v, w'))"

definition inferKind :: "'w cx \<Rightarrow> validated \<Rightarrow> ('s, op_error, string) io" where
  "inferKind cx v =
     (case cx_inferKind cx v of
        JStr k \<Rightarrow>
          if k \<in> {''transparent'', ''uups'', ''beacon''} then return_io k
          else throw_io (OpFailure ''the engine inferred an unknown proxy kind'')
      | _ \<Rightarrow> throw_io (OpFailure ''the engine inferred an unknown proxy kind''))"

definition processProxyKind ::
  "'w cx \<Rightarrow> string \<Rightarrow> validated \<Rightarrow> resolved \<Rightarrow> ('w ost, op_error, probe_kind) io" where
  "processProxyKind cx proxy v r =
     bind_io (on_world id (cx_processKind cx proxy (engineValidationOptions r) (r_kind r) v)) (\<lambda>kind.
       if kind = JStr ''transparent'' then return_io ProbeTransparent
       else if kind = JStr ''uups'' then return_io ProbeUups
       else throw_io (OpFailure ''unsupported proxy kind for this operation''))"

definition kind_name :: "probe_kind \<Rightarrow> string" where
  "kind_name k = (case k of ProbeTransparent \<Rightarrow> ''transparent'' | ProbeUups \<Rightarrow> ''uups'')"

definition storedLayoutFor :: "'w cx \<Rightarrow> string \<Rightarrow> ('w ost, op_error, js) io" where
  "storedLayoutFor cx implementation =
     bind_io (on_world OpRecord (getImplRecord (cx_codec cx) (cx_engine cx)
                (ss_manifest_file (cx_session cx)) implementation)) (\<lambda>found.
       case found of
         None \<Rightarrow> throw_io (OpFailure ''No stored storage layout for the implementation'')
       | Some r \<Rightarrow>
           if own_prop (im_rest r) ''layout'' = JUndef
           then throw_io (OpFailure ''No stored storage layout for the implementation'')
           else return_io (own_prop (im_rest r) ''layout''))"

definition assertStorageCompatible ::
  "'w cx \<Rightarrow> js \<Rightarrow> validated \<Rightarrow> resolved \<Rightarrow> ('s, op_error, unit) io" where
  "assertStorageCompatible cx current v r =
     raise_if (\<not> cx_storageOk cx current (va_layout v) (engineValidationOptions r))
       (OpFailure ''The new implementation is not storage-compatible with the current one'')"

text \<open>The transaction id of a send: a string, or a member of a receipt-shaped answer.\<close>

definition transaction_id :: "js \<Rightarrow> string option" where
  "transaction_id result =
     (case result of
        JStr s \<Rightarrow> Some s
      | _ \<Rightarrow>
          (case own_prop result ''txID'' of
             JStr s \<Rightarrow> Some s
           | _ \<Rightarrow> (case own_prop result ''transactionHash'' of JStr s \<Rightarrow> Some s | _ \<Rightarrow> None)))"

definition callThroughFacade ::
  "'w cx \<Rightarrow> string \<Rightarrow> string \<Rightarrow> string \<Rightarrow> js list \<Rightarrow> ('w ost, op_error, string \<times> string) io" where
  "callThroughFacade cx facadeName at method args =
     bind_io (proxyArtifact cx facadeName) (\<lambda>facade.
     bind_io (raise_if (\<not> ab_has_at facade) (OpFailure ''no attachable surface in this context'')) (\<lambda>_.
     bind_io (on_world OpHost (cx_at cx facade at)) (\<lambda>members.
     bind_io (raise_if (method \<notin> set members) (OpFailure ''exposes no such method'')) (\<lambda>_.
     bind_io (emit (EvCall facadeName at method args)) (\<lambda>_.
     bind_io (on_world OpHost (cx_call cx facade at method args)) (\<lambda>result.
       case transaction_id result of
         None \<Rightarrow> throw_io (OpFailure ''returned no recognisable transaction id'')
       | Some h \<Rightarrow> return_io (at, h)))))))"

definition proxySlots :: "'w cx \<Rightarrow> string \<Rightarrow> ('w ost, op_error, proxy_slots) io" where
  "proxySlots cx a =
     on_world OpChain (readProxySlots (cx_send cx) a [Implementation, Admin, Beacon])"

definition ownerOf :: "'w cx \<Rightarrow> string \<Rightarrow> ('w ost, op_error, string option) io" where
  "ownerOf cx a =
     bind_io (on_world OpChain (tvmCallOptional (cx_send cx) a ''0x8da5cb5b'')) (\<lambda>outcome.
       case outcome of
         NoAnswer _ \<Rightarrow> return_io None
       | Answered d \<Rightarrow>
           let word = strip_bytecode d
           in if length word < 40 \<or> list_all (\<lambda>c. c = CHR ''0'') word then return_io None
              else bind_io (canonical cx (''0x'' @ drop (length word - 40) word)) (\<lambda>o1.
                return_io (Some o1)))"

definition facade_of :: "route \<Rightarrow> string" where
  "facade_of r =
     (case r of AdminV5 \<Rightarrow> ''ProxyAdmin'' | AdminV4 \<Rightarrow> ''ITronUpgradesProxyAdminV4''
      | _ \<Rightarrow> ''ITronUpgradesUUPS'')"

definition call_text :: "call_name \<Rightarrow> string" where
  "call_text c =
     (case c of UpgradeAndCall \<Rightarrow> ''upgradeAndCall'' | Upgrade \<Rightarrow> ''upgrade''
      | UpgradeToAndCall \<Rightarrow> ''upgradeToAndCall'' | UpgradeTo \<Rightarrow> ''upgradeTo'')"

definition upgrade_args :: "route \<Rightarrow> call_name \<Rightarrow> string \<Rightarrow> string \<Rightarrow> string \<Rightarrow> js list" where
  "upgrade_args r c proxy implementation data =
     (if r = AdminV5 \<or> r = AdminV4 then
        (if c = Upgrade then [JStr proxy, JStr implementation]
         else [JStr proxy, JStr implementation, JStr data])
      else if c = UpgradeTo then [JStr implementation]
      else [JStr implementation, JStr data])"

definition sendUpgradeCall ::
  "'w cx \<Rightarrow> plan \<Rightarrow> string \<Rightarrow> string option \<Rightarrow> string \<Rightarrow> string \<Rightarrow> ('w ost, op_error, string \<times> string) io" where
  "sendUpgradeCall cx pl proxy admin implementation data =
     bind_io (callThroughFacade cx (facade_of (pl_route pl)) (or_else admin proxy)
                (call_text (pl_call pl))
                (upgrade_args (pl_route pl) (pl_call pl) proxy implementation data)) (\<lambda>wb.
       return_io (proxy, snd wb))"

definition recordProxy :: "'w cx \<Rightarrow> string \<Rightarrow> string \<Rightarrow> ('w ost, op_error, unit) io" where
  "recordProxy cx address kind =
     bind_io (emit (EvRecord address kind)) (\<lambda>_.
       on_world OpRecord (session_addProxyRecord (cx_codec cx) (cx_engine cx)
         (ss_manifest_file (cx_session cx)) address kind))"

definition recordingLiveProxy ::
  "string \<times> string \<Rightarrow> ('s, op_error, 'a) io \<Rightarrow> ('s, op_error, 'a) io" where
  "recordingLiveProxy live write =
     catch_io write (\<lambda>cause. throw_io (OpRecordWriteFailed (fst live) (snd live) cause))"

text \<open>The result's handle and its transaction: \<open>sealUnavailable\<close>, \<open>transactionIdentity\<close>.\<close>

definition contractAt :: "'w cx \<Rightarrow> abstraction \<Rightarrow> string \<Rightarrow> ('w ost, op_error, string list) io" where
  "contractAt cx a address =
     bind_io (raise_if (\<not> ab_has_at a) (OpFailure ''the contract abstraction has no .at surface'')) (\<lambda>_.
       on_world OpHost (cx_at cx a address))"

definition unavailableContractMembers :: "string list" where
  "unavailableContractMembers = [''events'']"

definition sealUnavailable :: "string list \<Rightarrow> ('s, op_error, string list) io" where
  "sealUnavailable members =
     (case filter (\<lambda>m. m \<notin> set members) unavailableContractMembers of
        [] \<Rightarrow> return_io members
      | m # _ \<Rightarrow> throw_io (OpResult m))"

definition transactionIdentity :: "string option \<Rightarrow> string \<Rightarrow> ('s, op_error, string) io" where
  "transactionIdentity hash operation =
     (case hash of
        None \<Rightarrow> throw_io (OpResult operation)
      | Some h \<Rightarrow> if h = [] then throw_io (OpResult operation) else return_io h)"

section \<open>What a call may change\<close>

text \<open>
  \<open>stays R m\<close>: whatever \<open>m\<close> does, the state before and after are related by \<open>R\<close>.  The
  locale collects the relations that a change of the world alone respects, and proves once
  that everything built from the toolkit's reads respects them.
\<close>

definition stays :: "('s \<Rightarrow> 's \<Rightarrow> bool) \<Rightarrow> ('s, 'e, 'a) io \<Rightarrow> bool" where
  "stays R m \<longleftrightarrow> (\<forall>s. R s (snd (m s)))"

named_theorems stays_intros \<open>calls that respect a relation\<close>

lemma stays_run: "stays R m \<Longrightarrow> m s = (r, t) \<Longrightarrow> R s t"
  by (metis stays_def snd_conv)

definition engine_through_callback :: "'w cx \<Rightarrow> bool" where
  "engine_through_callback cx \<longleftrightarrow>
     (\<forall>R v cb timeout interval force.
        (\<forall>s. R s s) \<longrightarrow> (\<forall>a b c. R a b \<longrightarrow> R b c \<longrightarrow> R a c) \<longrightarrow> (\<forall>s w. R s (s\<lparr>op_world := w\<rparr>)) \<longrightarrow>
        stays R cb \<longrightarrow> stays R (cx_fetch cx v cb timeout interval force))"

locale frame =
  fixes R :: "'w ost \<Rightarrow> 'w ost \<Rightarrow> bool"
  assumes R_refl: "R s s"
    and R_trans: "R a b \<Longrightarrow> R b c \<Longrightarrow> R a c"
    and R_world: "R s (s\<lparr>op_world := w\<rparr>)"
    and R_local: "R s (s\<lparr>op_local := l\<rparr>)"
begin

lemma stays_local [stays_intros]: "stays R (set_local l)" "stays R get_local"
  by (simp_all add: stays_def set_local_def get_local_def R_local R_refl)

lemma stays_basic [stays_intros]:
  "stays R (return_io x)" "stays R (throw_io e)" "stays R (lift_io r)" "stays R (raise_if b err)"
  "stays R (lifted f r)" "stays R (canonical cx addr)" "stays R (write_back_of ab)"
  "stays R (Pair r)"
  by (simp_all add: stays_def R_refl raise_if_def lifted_def canonical_def write_back_of_def)

lemma stays_bind [stays_intros]:
  assumes "stays R m" and "\<And>x. stays R (f x)"
  shows "stays R (bind_io m f)"
  unfolding stays_def
proof
  fix s
  obtain r t where m: "m s = (r, t)" by force
  then have t: "R s t" using assms(1) by (rule stays_run [rotated])
  show "R s (snd (bind_io m f s))"
    using m t assms(2) R_trans by (cases r) (auto simp: bind_io_def stays_def)
qed

lemma stays_catch [stays_intros]:
  assumes "stays R m" and "\<And>e. stays R (h e)"
  shows "stays R (catch_io m h)"
  unfolding stays_def
proof
  fix s
  obtain r t where m: "m s = (r, t)" by force
  then have t: "R s t" using assms(1) by (rule stays_run [rotated])
  show "R s (snd (catch_io m h s))"
    using m t assms(2) R_trans by (cases r) (auto simp: catch_io_def stays_def)
qed

lemma stays_world [stays_intros]: "stays R (on_world err m)"
  by (simp add: stays_def on_world_def R_world split: prod.split)

lemma stays_reads [stays_intros]:
  "stays R (validateImplementation cx n r)" "stays R (requireDeployer cx)" "stays R (resolveSender cx)"
  "stays R (proxyArtifact cx n)" "stays R (confirm cx h)" "stays R (proxySlots cx p)"
  "stays R (assertStorageCompatible cx l v r)"
  unfolding validateImplementation_def requireDeployer_def resolveSender_def proxyArtifact_def
    confirm_def proxySlots_def assertStorageCompatible_def
  by (rule stays_intros)+

lemma stays_reads2 [stays_intros]:
  "stays R (signerOf cx h)" "stays R (ownerOf cx a)" "stays R (storedLayoutFor cx a)"
  "stays R (processProxyKind cx p v r)" "stays R (contractAt cx ab a)"
  unfolding signerOf_def ownerOf_def storedLayoutFor_def processProxyKind_def contractAt_def Let_def
  by (rule stays_intros | (simp split: option.split call_outcome.split; intro conjI impI allI))+

lemma stays_pure [stays_intros]:
  "stays R (inferKind cx v)" "stays R (sealUnavailable ms)" "stays R (transactionIdentity h n)"
  by (auto simp: inferKind_def sealUnavailable_def transactionIdentity_def stays_intros
      split: js.split list.split option.split)

lemma stays_recording [stays_intros]: "stays R m \<Longrightarrow> stays R (recordingLiveProxy live m)"
  unfolding recordingLiveProxy_def by (rule stays_intros | assumption)+

lemma stays_through_lock: "stays R m \<Longrightarrow> stays R (throughLock cx m)"
  unfolding throughLock_def
  by (rule stays_intros | assumption | (simp split: op_error.split; intro conjI impI allI))+

lemma stays_fetch:
  assumes "engine_through_callback cx" and "stays R deploy"
  shows "stays R (fetchOrDeployImplementation cx v r deploy)"
proof -
  have cb: "stays R (bind_io (raise_if b e) (\<lambda>_. deploy))" for b e
    by (rule stays_intros | rule assms)+
  have once: "stays R (fetch_once cx v r deploy)"
    unfolding fetch_once_def
    using assms(1) cb R_refl R_trans R_world unfolding engine_through_callback_def by blast
  show ?thesis
    unfolding fetchOrDeployImplementation_def
    by (rule stays_through_lock stays_intros once | simp; intro conjI impI)+
qed

lemma stays_host_deploy:
  assumes "\<And>args. stays R (emit (EvDeploy (ab_id ab) args) :: ('w ost, op_error, unit) io)"
    and "\<And>a. stays R (change_net ab (set_address a) :: ('w ost, op_error, unit) io)"
    and "\<And>h. stays R (change_net ab (set_hash h) :: ('w ost, op_error, unit) io)"
  shows "stays R (hostDeploy cx ab args)"
  unfolding hostDeploy_def
  by (rule stays_intros assms | (simp split: js.split; intro conjI impI allI))+

lemma stays_facade:
  assumes "\<And>f at m xs. stays R (emit (EvCall f at m xs) :: ('w ost, op_error, unit) io)"
  shows "stays R (callThroughFacade cx f at m args)"
  unfolding callThroughFacade_def
  by (rule stays_intros assms | (simp split: option.split; intro conjI impI allI))+

lemma stays_upgrade_call:
  assumes "\<And>f at m xs. stays R (emit (EvCall f at m xs) :: ('w ost, op_error, unit) io)"
  shows "stays R (sendUpgradeCall cx pl p a i d)"
  unfolding sendUpgradeCall_def by (rule stays_intros stays_facade assms)+

lemma stays_record:
  assumes "stays R (emit (EvRecord a k) :: ('w ost, op_error, unit) io)"
  shows "stays R (recordProxy cx a k)"
  unfolding recordProxy_def by (rule stays_intros assms)+

lemma stays_restoring:
  assumes "stays R m" and "\<And>wb. stays R (change_net ab (restoreWriteBack wb) :: ('w ost, op_error, unit) io)"
  shows "stays R (restoringWriteBackOnFailure ab m)"
  unfolding restoringWriteBackOnFailure_def by (rule stays_intros assms)+

end

text \<open>The relations the operations' properties are about.\<close>

definition extends :: "(op_event \<Rightarrow> bool) \<Rightarrow> 'w ost \<Rightarrow> 'w ost \<Rightarrow> bool" where
  "extends P s t \<longleftrightarrow> (\<exists>evs. op_log t = op_log s @ evs \<and> list_all P evs)"

definition nets_kept :: "'w ost \<Rightarrow> 'w ost \<Rightarrow> bool" where
  "nets_kept s t \<longleftrightarrow> (\<forall>i. op_net s i \<noteq> None \<longrightarrow> op_net t i \<noteq> None)"

definition net_fixed :: "string \<Rightarrow> 'w ost \<Rightarrow> 'w ost \<Rightarrow> bool" where
  "net_fixed i s t \<longleftrightarrow> op_net t i = op_net s i"

lemma extends_trans: "extends P a b \<Longrightarrow> extends P b c \<Longrightarrow> extends P a c"
  unfolding extends_def by (metis append_assoc list_all_append)

interpretation ext: frame "extends P" for P
  by unfold_locales (auto simp: extends_def intro: extends_trans [unfolded extends_def])

interpretation kept: frame nets_kept
  by unfold_locales (auto simp: nets_kept_def)

interpretation fixed: frame "net_fixed i" for i
  by unfold_locales (auto simp: net_fixed_def)

lemma emit_extends [stays_intros]: "P ev \<Longrightarrow> stays (extends P) (emit ev)"
  by (auto simp: stays_def emit_def extends_def)

lemma emit_kept [stays_intros]: "stays nets_kept (emit ev)"
  by (simp add: stays_def emit_def nets_kept_def)

lemma emit_fixed [stays_intros]: "stays (net_fixed i) (emit ev)"
  by (simp add: stays_def emit_def net_fixed_def)

lemma change_net_extends [stays_intros]: "stays (extends P) (change_net ab f)"
  by (simp add: stays_def change_net_def extends_def)

lemma change_net_kept [stays_intros]:
  "stays nets_kept (change_net ab (set_address a))" "stays nets_kept (change_net ab (set_hash h))"
  "stays nets_kept (change_net ab (restoreWriteBack wb))"
  by (auto simp: stays_def change_net_def nets_kept_def set_address_def set_hash_def
      restoreWriteBack_def Let_def split: option.split)

lemma change_net_fixed: "ab_id ab \<noteq> i \<Longrightarrow> stays (net_fixed i) (change_net ab f)"
  by (simp add: stays_def change_net_def net_fixed_def)

lemma set_both: "set_hash h (set_address a e) = Some \<lparr>e_address = JStr a, e_hash = h\<rparr>"
  by (cases e) (simp_all add: set_hash_def set_address_def)

text \<open>Putting a write-back back, provided its entry has not been lost.\<close>

lemma nonempty_iff: "nonempty v = Some a \<longleftrightarrow> v = JStr a \<and> a \<noteq> []"
  by (cases v) auto

lemma restore_read:
  assumes "e \<noteq> None \<longrightarrow> e' \<noteq> None"
  shows "readWriteBack (restoreWriteBack (readWriteBack e) e') = readWriteBack e"
proof (cases e)
  case None
  then show ?thesis
    by (cases e') (simp_all add: readWriteBack_def readWriteBackHash_def restoreWriteBack_def set_hash_def)
next
  case (Some x)
  then obtain y where y: "e' = Some y" using assms by auto
  have f: "nonempty (case nonempty v of None \<Rightarrow> JUndef | Some a \<Rightarrow> JStr a) = nonempty v" for v
    by (cases "nonempty v") (auto simp: nonempty_iff)
  show ?thesis
  proof (cases "nonempty (e_address x)")
    case None
    then show ?thesis using Some y f
      by (simp add: readWriteBack_def readWriteBackHash_def restoreWriteBack_def set_hash_def Let_def)
  next
    case addr: (Some a)
    then have "a \<noteq> []" by (simp add: nonempty_iff)
    then show ?thesis using Some y f addr
      by (simp add: readWriteBack_def readWriteBackHash_def restoreWriteBack_def set_hash_def
          set_address_def Let_def)
  qed
qed

text \<open>The queue on a healthy chain runs the step; on a failed one it does not.\<close>

lemma queue_fulfilled:
  assumes "cx_chain cx = Fulfilled"
  shows "queue cx step s = step (s\<lparr>op_log := op_log s @ [EvQueue]\<rparr>)"
proof -
  obtain r t where st: "step (s\<lparr>op_log := op_log s @ [EvQueue]\<rparr>) = (r, t)" by force
  show ?thesis
    by (cases r) (simp_all add: queue_def bind_io_def emit_def run_fulfilled assms st)
qed

lemma queue_rejected:
  assumes "cx_chain cx = Rejected f"
  shows "queue cx step s =
    (Inl (case f of Failure e \<Rightarrow> e | SeamFailure \<Rightarrow> OpDeploy SeamInvariant None),
     s\<lparr>op_log := op_log s @ [EvQueue]\<rparr>)"
  by (cases f) (simp_all add: queue_def bind_io_def emit_def run_rejected assms)

lemma queue_cases:
  obtains "queue cx step s = step (s\<lparr>op_log := op_log s @ [EvQueue]\<rparr>)"
  | e where "queue cx step s = (Inl e, s\<lparr>op_log := op_log s @ [EvQueue]\<rparr>)"
  by (cases "cx_chain cx") (auto intro: queue_fulfilled queue_rejected)

lemma queue_log:
  assumes "stays (extends P) step" and "queue cx step s = (r, t)"
  shows "\<exists>rest. op_log t = op_log s @ EvQueue # rest \<and> list_all P rest"
proof (cases rule: queue_cases [of cx step s])
  case 1
  then have "extends P (s\<lparr>op_log := op_log s @ [EvQueue]\<rparr>) t"
    using assms stays_run by metis
  then show ?thesis by (auto simp: extends_def)
next
  case (2 e)
  then show ?thesis using assms(2) by auto
qed

lemma queue_nets:
  assumes "queue cx step s = (r, t)"
  obtains u where "op_net u = op_net s" and "op_log u = op_log s @ [EvQueue]"
    and "step u = (r, t) \<or> (t = u \<and> (\<exists>e. r = Inl e))"
proof (cases rule: queue_cases [of cx step s])
  case 1
  then show ?thesis using that [of "s\<lparr>op_log := op_log s @ [EvQueue]\<rparr>"] assms by simp
next
  case (2 e)
  then show ?thesis using that [of "s\<lparr>op_log := op_log s @ [EvQueue]\<rparr>"] assms by simp
qed

lemma queue_ok:
  assumes "queue cx step s = (Inr v, t)"
  obtains u where "op_log u = op_log s @ [EvQueue]" and "step u = (Inr v, t)"
  using queue_nets [OF assms] by (metis sum.distinct(1))

lemma reads_log:
  "stays (extends (\<lambda>_. False)) m \<Longrightarrow> m s = (r, t) \<Longrightarrow> op_log t = op_log s"
  by (auto simp: extends_def list_all_iff dest!: stays_run)

lemma canonical_ok: "canonical cx a s = (Inr b, t) \<longleftrightarrow> canonicalizeAddress (cx_codec cx) (JStr a) = Inr b \<and> t = s"
  by (cases "canonicalizeAddress (cx_codec cx) (JStr a)") (auto simp: canonical_def lifted_def)

lemma on_world_ok:
  "on_world err m s = (Inr x, t) \<longleftrightarrow> (\<exists>w. m (op_world s) = (Inr x, w) \<and> t = s\<lparr>op_world := w\<rparr>)"
proof -
  obtain r w where "m (op_world s) = (r, w)" by force
  then show ?thesis by (cases r) (auto simp: on_world_def)
qed

lemma raise_if_ok: "raise_if b e s = (Inr x, t) \<longleftrightarrow> \<not> b \<and> t = s"
  by (auto simp: raise_if_def)

lemma lifted_ok: "lifted f r s = (Inr x, t) \<longleftrightarrow> r = Inr x \<and> t = s"
  by (cases r) (auto simp: lifted_def)

text \<open>A guarded step that fails leaves the write-back it found.\<close>

lemma restored_on_failure:
  assumes "stays nets_kept step" and "restoringWriteBackOnFailure ab step s = (Inl e, t)"
  shows "readWriteBack (op_net t (ab_id ab)) = readWriteBack (op_net s (ab_id ab))"
proof -
  obtain r u where u: "step s = (r, u)" by force
  with assms(2) obtain f where "r = Inl f"
    and t: "t = u\<lparr>op_net := (op_net u)(ab_id ab :=
        restoreWriteBack (readWriteBack (op_net s (ab_id ab))) (op_net u (ab_id ab)))\<rparr>"
    by (cases r)
       (auto simp: restoringWriteBackOnFailure_def bind_io_def catch_io_def write_back_of_def change_net_def)
  have "op_net s (ab_id ab) \<noteq> None \<longrightarrow> op_net u (ab_id ab) \<noteq> None"
    using assms(1) u unfolding stays_def nets_kept_def by (metis snd_conv)
  then show ?thesis by (simp add: t restore_read)
qed

lemma restoring_ok:
  "restoringWriteBackOnFailure ab step s = (Inr v, t) \<longleftrightarrow> step s = (Inr v, t)"
  by (cases "step s"; cases "fst (step s)")
     (auto simp: restoringWriteBackOnFailure_def bind_io_def catch_io_def write_back_of_def change_net_def)

lemma hostDeploy_log:
  "stays (extends (\<lambda>ev. ev = EvDeploy (ab_id ab) args)) (hostDeploy cx ab args)"
  unfolding hostDeploy_def
  by (rule stays_intros ext.stays_basic ext.stays_bind | (simp split: js.split; intro conjI impI allI)
     | rule refl)+

lemma hostDeploy_kept: "stays nets_kept (hostDeploy cx ab args)"
  by (rule kept.stays_host_deploy stays_intros)+

lemma hostDeploy_fixed: "ab_id ab \<noteq> i \<Longrightarrow> stays (net_fixed i) (hostDeploy cx ab args)"
  by (rule fixed.stays_host_deploy stays_intros change_net_fixed | assumption)+

section \<open>A concrete context\<close>

text \<open>
  A node whose implementation slot changes with the first method call, a host that deploys
  everything at one address, and an engine that always deploys.
\<close>

definition addr_of :: "char \<Rightarrow> string" where
  "addr_of c = ''0x'' @ replicate 40 c"

definition word_of :: "char \<Rightarrow> string" where
  "word_of c = ''0x'' @ replicate 24 (CHR ''0'') @ replicate 40 c"

definition demo_send :: "string \<Rightarrow> string \<Rightarrow> bool provider" where
  "demo_send slot answer m ps upgraded =
     (if m = ''eth_getCode'' then (Inr (JStr ''0x60''), upgraded)
      else if m = ''eth_getStorageAt'' then
        (Inr (JStr (if ps ! 1 = JStr slot then word_of (if upgraded then CHR ''2'' else CHR ''1'')
                    else zeroSlotWord)), upgraded)
      else if m = ''eth_call'' \<and> answer \<noteq> [] then (Inr (JStr answer), upgraded)
      else if m = ''eth_call'' then
        (Inl (ChainRpc m \<lparr>pl_code = NInt (-32000), pl_message = ''REVERT opcode executed'', pl_data = JUndef\<rparr> []),
         upgraded)
      else (Inr JNull, upgraded))"

definition demo_session :: session where
  "demo_session = \<lparr>ss_manifest_file = ''/r/m.json'', ss_fingerprint_file = ''/r/f'',
     ss_identity = demo_identity,
     ss_report = \<lparr>rp_chain = ''0x7'', rp_instance = InstanceSame, rp_because = None, rp_field = None,
       rp_migrated = 0, rp_unmigratable = 0, rp_proxies = []\<rparr>\<rparr>"

definition absent_error :: record_error where
  "absent_error = RecForeign \<lparr>fe_code = JUndef, fe_syntax = False, fe_not_found = True, fe_message = []\<rparr>"

definition demo_manifest :: "'s engine" where
  "demo_manifest = \<lparr>en_file = ''/r/m.json'',
     en_read = return_io \<lparr>md_impls = [], md_proxies = [], md_admin = None, md_rest = JNull\<rparr>,
     en_write = (\<lambda>_. return_io ()), en_locked = (\<lambda>cb. cb), en_proxy = (\<lambda>_. throw_io absent_error),
     en_impl = (\<lambda>a. return_io \<lparr>im_address = a, im_all = None, im_rest = JObj [(''layout'', JNull)]\<rparr>),
     en_add_proxy = (\<lambda>_ _. return_io ())\<rparr>"

definition demo_abstraction :: "string \<Rightarrow> abstraction" where
  "demo_abstraction n = \<lparr>ab_id = n, ab_contractName = JStr n, ab_abi = JUndef, ab_unlinked_binary = None,
     ab_bytecode = Some ''0x60'', ab_binary = None, ab_deployedBytecode = JStr ''0x60'',
     ab_has_new = True, ab_has_at = True, ab_has_deployed = True\<rparr>"

definition demo_cx :: "string \<Rightarrow> string \<Rightarrow> string \<Rightarrow> bool cx" where
  "demo_cx slot answer kind =
     \<lparr>cx_codec = demo_codec, cx_send = demo_send slot answer, cx_engine = demo_manifest,
      cx_session = demo_session, cx_scheduling = True, cx_chain = Fulfilled, cx_sender = None,
      cx_wildcard = False, cx_resolve = (\<lambda>n. Inr (UniqueRes (demo_abstraction n))),
      cx_new = (\<lambda>a args. return_io (JObj [(''address'', JStr (addr_of (CHR ''2''))), (''transactionHash'', JStr ''ab'')])),
      cx_at = (\<lambda>a at. return_io [''events'', ''upgradeTo'', ''upgradeToAndCall'', ''transferOwnership'']),
      cx_call = (\<lambda>a at m args w. (Inr (JStr ''cd''), True)),
      cx_wait = (\<lambda>h i n. return_io (JObj [(''receipt'', JObj [(''result'', JStr ''SUCCESS'')])])),
      cx_utf8 = (\<lambda>_. []), cx_encode = (\<lambda>abi n args. Inr (Some ''0x8129fc1c'')),
      cx_validate = (\<lambda>n r. return_io \<lparr>va_name = n, va_layout = JNull, va_version = JObj [(''linkedWithoutMetadata'', JStr ''v'')]\<rparr>),
      cx_fetch = (\<lambda>v cb t p force. bind_io cb (\<lambda>x. return_io (fst x))),
      cx_removed = (\<lambda>_. False), cx_inferKind = (\<lambda>_. JStr kind),
      cx_processKind = (\<lambda>p o1 k v. return_io (JStr kind)),
      cx_storageOk = (\<lambda>a b c. True), cx_hash = (\<lambda>s. s)\<rparr>"

definition demo_resolved_options :: resolved where
  "demo_resolved_options =
     \<lparr>r_validation = \<lparr>vo_kind = ''transparent'', vo_unsafeAllow = [], vo_customTypes = False,
        vo_linkedLibraries = False, vo_renames = False, vo_skipStorage = False\<rparr>,
      r_constructorArgs = [], r_redeploy = ''onchange'', r_timeout = 1, r_pollingInterval = 1,
      r_kind = None, r_initializer = None, r_call = None, r_initialOwner = None,
      r_skipAdminCheck = False\<rparr>"

definition demo_ost :: "bool ost" where
  "demo_ost = \<lparr>op_world = False, op_net = (\<lambda>_. None), op_local = None, op_log = []\<rparr>"

lemma demo_engine_callback: "engine_through_callback (demo_cx slot answer kind)"
  unfolding engine_through_callback_def
proof (intro allI impI)
  fix R :: "bool ost \<Rightarrow> bool ost \<Rightarrow> bool" and v t i f
    and cb :: "(bool ost, op_error, string \<times> string option) io"
  assume "stays R cb"
  then have "R s (snd (bind_io cb (\<lambda>x. return_io (fst x)) s))" for s
    by (cases "cb s"; cases "fst (cb s)") (auto simp: bind_io_def dest: stays_run)
  then show "stays R (cx_fetch (demo_cx slot answer kind) v cb t i f)"
    by (simp add: stays_def demo_cx_def)
qed

text \<open>What the calls do there.\<close>

named_theorems demo_steps \<open>the calls of the concrete context\<close>

lemma demo_addresses [demo_steps]:
  "canonicalizeAddress demo_codec (JStr (addr_of (CHR ''1''))) = Inr (addr_of (CHR ''1''))"
  "canonicalizeAddress demo_codec (JStr (addr_of (CHR ''2''))) = Inr (addr_of (CHR ''2''))"
  by code_simp+

lemma demo_canonical [demo_steps]:
  "c = CHR ''1'' \<or> c = CHR ''2'' \<Longrightarrow>
     canonical (demo_cx slot answer kind) (addr_of c) s = (Inr (addr_of c), s)"
  by (auto simp: canonical_def lifted_def demo_cx_def demo_addresses)

lemma demo_unlinked: "assertFullyLinked ''0x60'' = Inr ()" "linkedLibraryNames ''0x60'' = []"
  by code_simp+

lemma demo_validate [demo_steps]:
  "validateImplementation (demo_cx slot answer kind) n r s =
     (Inr \<lparr>va_name = n, va_layout = JNull, va_version = JObj [(''linkedWithoutMetadata'', JStr ''v'')]\<rparr>, s)"
  by (simp add: validateImplementation_def on_world_def demo_cx_def)

lemma demo_hostDeploy [demo_steps]:
  "assertNoCheatcodeCollision args = Inr () \<Longrightarrow>
   hostDeploy (demo_cx slot answer kind) (demo_abstraction n) args s =
     (Inr (addr_of (CHR ''2''), ''ab''),
      s\<lparr>op_log := op_log s @ [EvDeploy n args],
        op_net := (op_net s)(n := Some \<lparr>e_address = JStr (addr_of (CHR ''2'')), e_hash = JStr ''ab''\<rparr>)\<rparr>)"
  by (simp add: hostDeploy_def raise_if_def lifted_def demo_cx_def demo_abstraction_def or_else_def
      demo_unlinked bind_io_def emit_def on_world_def change_net_def set_both addr_of_def)

lemma demo_fetch [demo_steps]:
  "deploy s = (Inr (a, h), t) \<Longrightarrow> r_redeploy r \<noteq> ''never'' \<Longrightarrow>
   fetchOrDeployImplementation (demo_cx slot answer kind) v r deploy s = (Inr a, t)"
  by (simp add: fetchOrDeployImplementation_def throughLock_def fetch_once_def catch_io_def
      bind_io_def raise_if_def demo_cx_def)

lemma demo_confirm [demo_steps]:
  "confirm (demo_cx slot answer kind) h s =
     (Inr (ConfirmedSuccessful h (JObj [(''receipt'', JObj [(''result'', JStr ''SUCCESS'')])])), s)"
  by (simp add: confirm_def on_world_def demo_cx_def confirmTransaction_def verdict_of_info_def)

lemma demo_signer [demo_steps]: "signerOf (demo_cx slot answer kind) h s = (Inr None, s)"
  by (simp add: signerOf_def on_world_def demo_cx_def demo_send_def catch_io_def bind_io_def)

lemma demo_record [demo_steps]:
  "c = CHR ''1'' \<or> c = CHR ''2'' \<Longrightarrow> recordProxy (demo_cx slot answer kind) (addr_of c) k s =
     (Inr (), s\<lparr>op_log := op_log s @ [EvRecord (addr_of c) k]\<rparr>)"
proof -
  have "assertCanonicalAddress demo_codec (JStr (addr_of (CHR ''1''))) = Inr (addr_of (CHR ''1''))"
    "assertCanonicalAddress demo_codec (JStr (addr_of (CHR ''2''))) = Inr (addr_of (CHR ''2''))"
    by code_simp+
  then show "c = CHR ''1'' \<or> c = CHR ''2'' \<Longrightarrow> ?thesis"
    by (auto simp: recordProxy_def bind_io_def emit_def on_world_def session_addProxyRecord_def
        canonical_key_def throughRecordRead_def addProxyRecord_def asserted_def catch_io_def
        demo_cx_def demo_session_def demo_manifest_def demo_addresses)
qed

lemma demo_queue [demo_steps]:
  "queue (demo_cx slot answer kind) step s = step (s\<lparr>op_log := op_log s @ [EvQueue]\<rparr>)"
  by (rule queue_fulfilled) (simp add: demo_cx_def)

lemma demo_simple [demo_steps]:
  "requireDeployer (demo_cx slot answer kind) s = (Inr (), s)"
  "resolveSender (demo_cx slot answer kind) s = (Inr Unconfigured, s)"
  "proxyArtifact (demo_cx slot answer kind) n s = (Inr (demo_abstraction n), s)"
  "contractAt (demo_cx slot answer kind) (demo_abstraction n) a s =
     (Inr [''events'', ''upgradeTo'', ''upgradeToAndCall'', ''transferOwnership''], s)"
  "nameOf (demo_abstraction (c # n)) = Inr (c # n)"
  by (simp_all add: requireDeployer_def raise_if_def resolveSender_def lifted_def resolveEffectiveSender_def
      proxyArtifact_def requireProxyArtifact_def contractAt_def on_world_def nameOf_def demo_cx_def
      demo_abstraction_def bind_io_def)

lemma demo_fields [demo_steps]:
  "cx_wildcard (demo_cx slot answer kind) = False" "cx_codec (demo_cx slot answer kind) = demo_codec"
  "cx_send (demo_cx slot answer kind) = demo_send slot answer"
  "cx_session (demo_cx slot answer kind) = demo_session" "rp_proxies (ss_report demo_session) = []"
  "cx_encode (demo_cx slot answer kind) abi n args = Inr (Some ''0x8129fc1c'')"
  "cx_engine (demo_cx slot answer kind) = demo_manifest" "cx_hash (demo_cx slot answer kind) h = h"
  "cx_storageOk (demo_cx slot answer kind) x y z = True"
  "r_kind demo_resolved_options = None" "r_initialOwner demo_resolved_options = None"
  "r_constructorArgs demo_resolved_options = []" "r_initializer demo_resolved_options = None"
  "r_call demo_resolved_options = None" "r_redeploy demo_resolved_options = ''onchange''"
  "op_net demo_ost n = None" "op_log demo_ost = []"
  "ab_id (demo_abstraction n) = n" "ab_abi (demo_abstraction n) = JUndef"
  by (simp_all add: demo_cx_def demo_session_def demo_resolved_options_def demo_ost_def demo_abstraction_def)

lemma demo_pure [demo_steps]:
  "kind \<in> {''transparent'', ''uups'', ''beacon''} \<Longrightarrow> inferKind (demo_cx slot answer kind) v s = (Inr kind, s)"
  "lifted f (Inr x) s = (Inr x, s)" "raise_if False err s = (Inr (), s)"
  "write_back_of a s = (Inr (readWriteBack (op_net s (ab_id a))), s)"
  "emit ev s = (Inr (), s\<lparr>op_log := op_log s @ [ev]\<rparr>)"
  "change_net a g s = (Inr (), s\<lparr>op_net := (op_net s)(ab_id a := g (op_net s (ab_id a)))\<rparr>)"
  "linkedLibraryNames (or_else (ab_unlinked_binary (demo_abstraction n)) (or_else (ab_bytecode (demo_abstraction n)) [])) = []"
  "refuseUnlessLinkingAllowed [] b = Inr ()"
  "sealUnavailable (''events'' # ms) s = (Inr (''events'' # ms), s)"
  "transactionIdentity (Some (ch # cs)) n2 s = (Inr (ch # cs), s)"
  by (simp_all add: inferKind_def demo_cx_def lifted_def raise_if_def write_back_of_def emit_def
      change_net_def demo_abstraction_def or_else_def demo_unlinked refuseUnlessLinkingAllowed_def
      sealUnavailable_def unavailableContractMembers_def transactionIdentity_def)

end
