(* ===== verification/EnvResolve.thy ===== *)
theory EnvResolve
  imports EnvProject
begin

text \<open>
  \<open>environment/slots.ts\<close>, \<open>output.ts\<close>, \<open>artifacts.ts\<close> (the intercept) and
  \<open>resolve.ts\<close>: the table of slots, and the resolution that turns the migration arguments into
  the slots an operation asked for, or one diagnosis.  Sealing a slot only redacts its JSON form
  and is not modelled.
\<close>

section \<open>Slots\<close>

datatype slot =
    SlotPaths | SlotNetwork | SlotArtifacts | SlotChain | SlotReceipts | SlotScheduling
  | SlotOutput | SlotCompiler

datatype context_name = CtxMigrate | CtxTestMigration | CtxTestMocha | CtxConsole | CtxPlainNode

definition slotNames :: "slot list" where
  "slotNames = [SlotPaths, SlotNetwork, SlotArtifacts, SlotChain, SlotReceipts, SlotScheduling,
     SlotOutput, SlotCompiler]"

definition allContexts :: "context_name list" where
  "allContexts = [CtxMigrate, CtxTestMigration, CtxTestMocha, CtxConsole, CtxPlainNode]"

definition configContexts :: "context_name list" where
  "configContexts = [CtxMigrate, CtxTestMigration, CtxTestMocha]"

definition chainContexts :: "context_name list" where
  "chainContexts = [CtxMigrate, CtxTestMigration, CtxTestMocha, CtxConsole]"

definition deployerContexts :: "context_name list" where
  "deployerContexts = [CtxMigrate, CtxTestMigration]"

definition contextsExcept :: "context_name list \<Rightarrow> context_name list" where
  "contextsExcept provided = filter (\<lambda>c. c \<notin> set provided) allContexts"

record slot_requirement =
  sr_handles :: "handle_name list"
  sr_providedIn :: "context_name list"
  sr_absentIn :: "context_name list"

definition requirement :: "handle_name list \<Rightarrow> context_name list \<Rightarrow> slot_requirement" where
  "requirement handles provided =
     \<lparr>sr_handles = handles, sr_providedIn = provided, sr_absentIn = contextsExcept provided\<rparr>"

fun slotRequirements :: "slot \<Rightarrow> slot_requirement" where
  "slotRequirements SlotPaths = requirement [HDeployer, HArtifacts] configContexts"
| "slotRequirements SlotNetwork = requirement [HDeployer, HArtifacts] configContexts"
| "slotRequirements SlotArtifacts = requirement [HArtifacts] configContexts"
| "slotRequirements SlotChain = requirement [HTronWrap, HTronWeb] chainContexts"
| "slotRequirements SlotReceipts = requirement [HWaitForReceipt] configContexts"
| "slotRequirements SlotScheduling = requirement [HDeployer] deployerContexts"
| "slotRequirements SlotOutput = requirement [HDeployer, HArtifacts] configContexts"
| "slotRequirements SlotCompiler = requirement [HDeployer, HArtifacts] configContexts"

datatype slot_cause =
    CauseMissing handle_name
  | CauseMalformed handle_name string because
  | CauseInvariant invariant

record unsatisfied =
  us_slot :: slot
  us_cause :: slot_cause
  us_providedIn :: "context_name list"
  us_absentIn :: "context_name list"

definition unsatisfiedSlot :: "slot \<Rightarrow> slot_cause \<Rightarrow> unsatisfied" where
  "unsatisfiedSlot sl c =
     \<lparr>us_slot = sl, us_cause = c, us_providedIn = sr_providedIn (slotRequirements sl),
      us_absentIn = sr_absentIn (slotRequirements sl)\<rparr>"

datatype env_error =
    EnvAbsent "slot list"
  | EnvIncomplete "unsatisfied list"
  | EnvInconsistent "inconsistency list"
  | EnvHostThrow

section \<open>Pieces of the resolution\<close>

definition hasBearingHandle :: "raw_handles \<Rightarrow> slot list \<Rightarrow> bool" where
  "hasBearingHandle hs requested \<longleftrightarrow>
     list_ex (\<lambda>sl. list_ex (\<lambda>n. supplied (hs n)) (sr_handles (slotRequirements sl))) requested"

definition missingHandles :: "slot \<Rightarrow> raw_handles \<Rightarrow> unsatisfied list" where
  "missingHandles sl hs =
     map (\<lambda>n. unsatisfiedSlot sl (CauseMissing n))
       (filter (\<lambda>n. \<not> supplied (hs n)) (sr_handles (slotRequirements sl)))"

fun toUnsatisfied :: "slot \<Rightarrow> config_failure \<Rightarrow> unsatisfied" where
  "toUnsatisfied sl (HandleMalformed n p b) = unsatisfiedSlot sl (CauseMalformed n p b)"
| "toUnsatisfied sl (InvariantViolated i) = unsatisfiedSlot sl (CauseInvariant i)"
| "toUnsatisfied sl HostThrow = unsatisfiedSlot sl (CauseInvariant SlotNeitherBuiltNorDiagnosed)"

text \<open>Duplicates are dropped, the first kept, as a \<open>Set\<close> of the values does.\<close>

fun distinct_first :: "'a list \<Rightarrow> 'a list" where
  "distinct_first [] = []"
| "distinct_first (x # xs) = x # filter (\<lambda>y. y \<noteq> x) (distinct_first xs)"

record 'v group =
  gr_values :: "'v option"
  gr_failures :: "config_failure list"
  gr_inconsistencies :: "inconsistency list"

text \<open>What one lineage projects: nothing, a failure, or values; the host's own throw is passed on.\<close>

datatype 'v projection = NotProjected | ProjectionFailed config_failure | Projected 'v

definition project_attempt ::
  "(lineage \<Rightarrow> 'v config_io) \<Rightarrow> lineage_attempt \<Rightarrow> (paths_read, env_error, 'v projection) io" where
  "project_attempt project attempt s =
     (case attempt of
        LineageAbsent \<Rightarrow> (Inr NotProjected, s)
      | LineageMalformed n p b \<Rightarrow> (Inr (ProjectionFailed (HandleMalformed n p b)), s)
      | LineagePresent l \<Rightarrow>
          (case project l s of
             (Inl HostThrow, t) \<Rightarrow> (Inl EnvHostThrow, t)
           | (Inl f, t) \<Rightarrow> (Inr (ProjectionFailed f), t)
           | (Inr v, t) \<Rightarrow> (Inr (Projected v), t)))"

fun projection_failures :: "'v projection \<Rightarrow> config_failure list" where
  "projection_failures (ProjectionFailed f) = [f]"
| "projection_failures _ = []"

definition agree ::
  "string list \<Rightarrow> ('v \<Rightarrow> string \<Rightarrow> hval) \<Rightarrow> 'v projection \<Rightarrow> 'v projection \<Rightarrow> 'v group" where
  "agree names fld d a =
     (let fs = distinct_first (projection_failures d @ projection_failures a)
      in if fs \<noteq> [] then \<lparr>gr_values = None, gr_failures = fs, gr_inconsistencies = []\<rparr>
         else
           (case (d, a) of
              (Projected x, Projected y) \<Rightarrow>
                let bad = compareConfigValues names (fld x) (fld y)
                in if bad \<noteq> [] then \<lparr>gr_values = None, gr_failures = [], gr_inconsistencies = bad\<rparr>
                   else \<lparr>gr_values = Some x, gr_failures = [], gr_inconsistencies = []\<rparr>
            | (Projected x, _) \<Rightarrow> \<lparr>gr_values = Some x, gr_failures = [], gr_inconsistencies = []\<rparr>
            | (_, Projected y) \<Rightarrow> \<lparr>gr_values = Some y, gr_failures = [], gr_inconsistencies = []\<rparr>
            | _ \<Rightarrow> \<lparr>gr_values = None, gr_failures = [], gr_inconsistencies = []\<rparr>))"

definition resolveGroup ::
  "lineages \<Rightarrow> string list \<Rightarrow> ('v \<Rightarrow> string \<Rightarrow> hval) \<Rightarrow> (lineage \<Rightarrow> 'v config_io) \<Rightarrow>
   (paths_read, env_error, 'v group) io" where
  "resolveGroup ls names fld project =
     bind_io (project_attempt project (via_deployer ls)) (\<lambda>d.
     bind_io (project_attempt project (via_artifacts ls)) (\<lambda>a.
       return_io (agree names fld d a)))"

text \<open>The diagnoses a group adds for one slot it backs.\<close>

definition group_unsatisfied :: "raw_handles \<Rightarrow> 'v group \<Rightarrow> slot \<Rightarrow> unsatisfied list" where
  "group_unsatisfied hs g sl =
     (if gr_failures g \<noteq> [] then map (toUnsatisfied sl) (gr_failures g)
      else if gr_values g = None \<and> gr_inconsistencies g = [] then missingHandles sl hs
      else [])"

section \<open>The intercept\<close>

definition malformed_intercept :: "string \<Rightarrow> because \<Rightarrow> config_failure" where
  "malformed_intercept path b = HandleMalformed HArtifacts path b"

definition intercept_method ::
  "heap \<Rightarrow> hval \<Rightarrow> string \<Rightarrow> (paths_read, config_failure, unit) io" where
  "intercept_method h v m =
     (let path = ''artifacts.'' @ m
      in bind_io (readProperty h v m path) (\<lambda>r.
           case r of
             ReadOk f \<Rightarrow> if callable h f then return_io () else throw_io (malformed_intercept path BecauseMissing)
           | bad \<Rightarrow> throw_io (malformed_intercept path (why bad))))"

definition interceptFromHandle :: "heap \<Rightarrow> hval \<Rightarrow> (paths_read, config_failure, hval) io" where
  "interceptFromHandle h v =
     (if \<not> object_like v then throw_io (malformed_intercept ''artifacts'' BecauseMissing)
      else
        bind_io (intercept_method h v ''require'') (\<lambda>_.
        bind_io (intercept_method h v ''contracts'') (\<lambda>_.
        bind_io (readOwnProperty h v ''resolver'' ''artifacts.resolver'') (\<lambda>r.
          case r of
            ReadOk x \<Rightarrow>
              if object_like x then return_io v
              else throw_io (malformed_intercept ''artifacts.resolver'' BecauseMissing)
          | bad \<Rightarrow> throw_io (malformed_intercept ''artifacts.resolver'' (why bad))))))"

section \<open>The output slot\<close>

datatype channel_origin = OriginDeployer | OriginLineage

record output_slot =
  os_logger :: hval
  os_origin :: channel_origin
  os_hostQuiet :: bool

definition loggerFrom ::
  "heap \<Rightarrow> hval \<Rightarrow> string \<Rightarrow> handle_name \<Rightarrow> hval config_io" where
  "loggerFrom h owner path who =
     bind_io (readOwnProperty h owner ''logger'' path) (\<lambda>r.
       case r of
         ReadOk v \<Rightarrow>
           if \<not> object_like v then throw_io (HandleMalformed who path BecauseMissing)
           else
             bind_io (readProperty h v ''log'' (path @ ''.log'')) (\<lambda>l.
               case l of
                 ReadOk f \<Rightarrow>
                   if callable h f then return_io v
                   else throw_io (HandleMalformed who (path @ ''.log'') BecauseMissing)
               | bad \<Rightarrow> throw_io (HandleMalformed who (path @ ''.log'') (why bad)))
       | bad \<Rightarrow> throw_io (HandleMalformed who path (why bad)))"

definition quietFrom :: "heap \<Rightarrow> lineage \<Rightarrow> bool config_io" where
  "quietFrom h l =
     (let path = li_prefix l @ ''.quiet''
      in bind_io (readOwnProperty h (VObj (li_config l)) ''quiet'' path) (\<lambda>r.
           case r of
             ReadMissing \<Rightarrow> return_io False
           | ReadThrew \<Rightarrow> throw_io (HandleMalformed (li_handle l) path BecauseThrew)
           | ReadOk VUndef \<Rightarrow> return_io False
           | ReadOk (VBool b) \<Rightarrow> return_io b
           | ReadOk v \<Rightarrow> failInvariant (QuietNotBoolean (type_name h v))))"

datatype output_attempt = OutputOk output_slot | OutputFailed config_failure | OutputNoHandle

definition output_of_lineage :: "heap \<Rightarrow> raw_handles \<Rightarrow> bool \<Rightarrow> lineage \<Rightarrow> output_slot config_io" where
  "output_of_lineage h hs useDeployer l =
     bind_io (if useDeployer then loggerFrom h (hs HDeployer) ''deployer.logger'' HDeployer
              else loggerFrom h (VObj (li_config l)) (li_prefix l @ ''.logger'') HArtifacts) (\<lambda>logger.
     bind_io (quietFrom h l) (\<lambda>quiet.
       return_io \<lparr>os_logger = logger,
         os_origin = (if useDeployer then OriginDeployer else OriginLineage), os_hostQuiet = quiet\<rparr>))"

definition outputFromHandles ::
  "heap \<Rightarrow> raw_handles \<Rightarrow> lineages \<Rightarrow> (paths_read, 'e, output_attempt) io" where
  "outputFromHandles h hs ls s =
     (let useDeployer = supplied (hs HDeployer);
          who = (if useDeployer then HDeployer else HArtifacts)
      in if useDeployer \<and> \<not> object_like (hs HDeployer)
         then (Inr (OutputFailed (HandleMalformed HDeployer ''deployer'' BecauseMissing)), s)
         else
           (case (if useDeployer then via_deployer ls else via_artifacts ls) of
              LineageAbsent \<Rightarrow> (Inr OutputNoHandle, s)
            | LineageMalformed n p b \<Rightarrow> (Inr (OutputFailed (HandleMalformed who p b)), s)
            | LineagePresent l \<Rightarrow>
                (case output_of_lineage h hs useDeployer l s of
                   (Inl f, t) \<Rightarrow> (Inr (OutputFailed f), t)
                 | (Inr o1, t) \<Rightarrow> (Inr (OutputOk o1), t))))"

section \<open>The resolution\<close>

text \<open>What a section of the resolution leaves: a slot it built, diagnoses, disagreements.\<close>

record 'v section_result =
  sx_slot :: "'v option"
  sx_unsatisfied :: "unsatisfied list"
  sx_inconsistencies :: "inconsistency list"

type_synonym 'v env_io = "(paths_read, env_error, 'v) io"

definition built :: "'v \<Rightarrow> 'v section_result" where
  "built v = \<lparr>sx_slot = Some v, sx_unsatisfied = [], sx_inconsistencies = []\<rparr>"

definition diagnosed :: "unsatisfied list \<Rightarrow> 'v section_result" where
  "diagnosed us = \<lparr>sx_slot = None, sx_unsatisfied = us, sx_inconsistencies = []\<rparr>"

definition disagreed :: "inconsistency list \<Rightarrow> 'v section_result" where
  "disagreed is = \<lparr>sx_slot = None, sx_unsatisfied = [], sx_inconsistencies = is\<rparr>"

definition not_requested :: "'v section_result" where
  "not_requested = \<lparr>sx_slot = None, sx_unsatisfied = [], sx_inconsistencies = []\<rparr>"

definition settings_section ::
  "heap \<Rightarrow> (nat \<Rightarrow> js option) \<Rightarrow> lineages \<Rightarrow> compiler_values \<Rightarrow> compiler_configuration section_result env_io" where
  "settings_section h clone ls v =
     bind_io (compareCompilerSettings h clone ls (cv_settings v)) (\<lambda>r.
       return_io (case r of
         SettingsResolved j \<Rightarrow> built (buildCompilerConfiguration v j)
       | SettingsConflict \<Rightarrow> disagreed [CompilerSettingsConflict]
       | SettingsFailed f \<Rightarrow> diagnosed [toUnsatisfied SlotCompiler f]))"

record artifact_slot =
  as_intercept :: hval
  as_paths :: project_paths

definition artifacts_section ::
  "heap \<Rightarrow> raw_handles \<Rightarrow> path_values option \<Rightarrow> artifact_slot section_result env_io" where
  "artifacts_section h hs paths s =
     (case interceptFromHandle h (hs HArtifacts) s of
        (r, t) \<Rightarrow>
          (Inr (if \<not> supplied (hs HArtifacts) then diagnosed (missingHandles SlotArtifacts hs)
                else
                  (case r of
                     Inl f \<Rightarrow> diagnosed [toUnsatisfied SlotArtifacts f]
                   | Inr i \<Rightarrow>
                       (case paths of
                          None \<Rightarrow> not_requested
                        | Some v \<Rightarrow> built \<lparr>as_intercept = i, as_paths = buildProjectPaths v\<rparr>))), t))"

definition chain_candidate ::
  "heap \<Rightarrow> raw_handles \<Rightarrow> handle_name \<Rightarrow> (paths_read, 'e, unsatisfied list) io" where
  "chain_candidate h hs n =
     (if \<not> object_like (hs n)
      then return_io [unsatisfiedSlot SlotChain (CauseMalformed n (handle_text n) BecauseMissing)]
      else
        (let path = handle_text n @ ''.trx''
         in bind_io (readProperty h (hs n) ''trx'' path) (\<lambda>r.
              return_io (case r of
                ReadOk v \<Rightarrow>
                  if object_like v then []
                  else [unsatisfiedSlot SlotChain (CauseMalformed n path BecauseMissing)]
              | bad \<Rightarrow> [unsatisfiedSlot SlotChain (CauseMalformed n path (why bad))]))))"

fun chain_candidates ::
  "heap \<Rightarrow> raw_handles \<Rightarrow> handle_name list \<Rightarrow> (paths_read, 'e, unsatisfied list) io" where
  "chain_candidates h hs [] = return_io []"
| "chain_candidates h hs (n # ns) =
     bind_io (chain_candidate h hs n) (\<lambda>xs.
     bind_io (chain_candidates h hs ns) (\<lambda>ys. return_io (xs @ ys)))"

definition chain_section :: "heap \<Rightarrow> raw_handles \<Rightarrow> hval section_result env_io" where
  "chain_section h hs =
     (let candidates = filter (\<lambda>n. supplied (hs n)) [HTronWrap, HTronWeb]
      in if candidates = [] then return_io (diagnosed (missingHandles SlotChain hs))
         else
           bind_io (chain_candidates h hs candidates) (\<lambda>failures.
             return_io
               (if failures \<noteq> [] then diagnosed failures
                else if length candidates = 2 \<and> hs HTronWrap \<noteq> hs HTronWeb
                then disagreed [ChainHandleConflict]
                else built (hs (hd candidates)))))"

definition receipts_section :: "heap \<Rightarrow> raw_handles \<Rightarrow> hval section_result" where
  "receipts_section h hs =
     (let v = hs HWaitForReceipt
      in if callable h v then built v
         else if \<not> supplied v then diagnosed (missingHandles SlotReceipts hs)
         else diagnosed [unsatisfiedSlot SlotReceipts
                (CauseMalformed HWaitForReceipt ''waitForTransactionReceipt'' BecauseMissing)])"

definition scheduling_section :: "heap \<Rightarrow> raw_handles \<Rightarrow> hval section_result env_io" where
  "scheduling_section h hs =
     (let v = hs HDeployer
      in if \<not> supplied v then return_io (diagnosed (missingHandles SlotScheduling hs))
         else if \<not> object_like v
         then return_io (diagnosed [unsatisfiedSlot SlotScheduling (CauseMalformed HDeployer ''deployer'' BecauseMissing)])
         else
           bind_io (readProperty h v ''then'' ''deployer.then'') (\<lambda>r.
             return_io (case r of
               ReadOk f \<Rightarrow>
                 if callable h f then built v
                 else diagnosed [unsatisfiedSlot SlotScheduling (CauseMalformed HDeployer ''deployer.then'' BecauseMissing)]
             | bad \<Rightarrow> diagnosed [unsatisfiedSlot SlotScheduling (CauseMalformed HDeployer ''deployer.then'' (why bad))])))"

definition output_section :: "heap \<Rightarrow> raw_handles \<Rightarrow> lineages \<Rightarrow> output_slot section_result env_io" where
  "output_section h hs ls =
     bind_io (outputFromHandles h hs ls) (\<lambda>r.
       return_io (case r of
         OutputOk v \<Rightarrow> built v
       | OutputNoHandle \<Rightarrow> diagnosed (missingHandles SlotOutput hs)
       | OutputFailed f \<Rightarrow> diagnosed [toUnsatisfied SlotOutput f]))"


text \<open>Everything the sections found, before the verdict.\<close>

record env_sections =
  es_paths :: "path_values group"
  es_network :: "network_values group"
  es_compiler :: "compiler_values group"
  es_settings :: "compiler_configuration section_result"
  es_artifacts :: "artifact_slot section_result"
  es_chain :: "hval section_result"
  es_receipts :: "hval section_result"
  es_scheduling :: "hval section_result"
  es_output :: "output_slot section_result"
  es_pairing :: pairing

record host_parameters =
  hp_heap :: heap
  hp_numtext :: "jsnum \<Rightarrow> string"
  hp_clone :: "nat \<Rightarrow> js option"

definition no_group :: "'v group" where
  "no_group = \<lparr>gr_values = None, gr_failures = [], gr_inconsistencies = []\<rparr>"

definition pathsBackedSlots :: "slot list \<Rightarrow> slot list" where
  "pathsBackedSlots requested = filter (\<lambda>sl. sl \<in> set requested) [SlotPaths, SlotArtifacts]"

definition run_sections ::
  "host_parameters \<Rightarrow> raw_handles \<Rightarrow> slot list \<Rightarrow> lineages \<Rightarrow> env_sections env_io" where
  "run_sections hp hs requested ls =
     (let h = hp_heap hp; asked = (\<lambda>sl. sl \<in> set requested) in
      bind_io (if pathsBackedSlots requested \<noteq> []
               then resolveGroup ls pathConfigLineageFields path_field (projectPathValues h)
               else return_io no_group) (\<lambda>paths.
      bind_io (if asked SlotNetwork
               then resolveGroup ls networkConfigLineageFields network_field (projectNetworkValues h (hp_numtext hp))
               else return_io no_group) (\<lambda>network.
      bind_io (if asked SlotCompiler
               then resolveGroup ls compilerConfigLineageFields compiler_field (projectCompilerValues h)
               else return_io no_group) (\<lambda>compiler.
      bind_io (case gr_values compiler of
                 None \<Rightarrow> return_io not_requested
               | Some v \<Rightarrow> settings_section h (hp_clone hp) ls v) (\<lambda>settings.
      bind_io (if asked SlotArtifacts then artifacts_section h hs (gr_values paths)
               else return_io not_requested) (\<lambda>artifacts.
      bind_io (if asked SlotChain then chain_section h hs else return_io not_requested) (\<lambda>chain.
      bind_io (if asked SlotScheduling then scheduling_section h hs else return_io not_requested) (\<lambda>scheduling.
      bind_io (if asked SlotOutput then output_section h hs ls else return_io not_requested) (\<lambda>output.
      bind_io (if supplied (hs HDeployer) \<and> supplied (hs HArtifacts) then checkResolverPairing h ls
               else return_io PairingOk) (\<lambda>pairing.
        return_io \<lparr>es_paths = paths, es_network = network, es_compiler = compiler,
          es_settings = settings, es_artifacts = artifacts, es_chain = chain,
          es_receipts = (if asked SlotReceipts then receipts_section h hs else not_requested),
          es_scheduling = scheduling, es_output = output, es_pairing = pairing\<rparr>))))))))))"

text \<open>Only a required slot's diagnosis counts; the order is the code's.\<close>

definition only_required :: "slot list \<Rightarrow> slot \<Rightarrow> 'a list \<Rightarrow> 'a list" where
  "only_required required sl entries = (if sl \<in> set required then entries else [])"

definition pairing_slots :: "slot list" where
  "pairing_slots = [SlotArtifacts, SlotPaths, SlotNetwork, SlotOutput, SlotCompiler]"

definition pairing_unsatisfied :: "slot list \<Rightarrow> slot list \<Rightarrow> pairing \<Rightarrow> unsatisfied list" where
  "pairing_unsatisfied required requested p =
     (case p of
        PairingFailed f \<Rightarrow>
          concat (map (\<lambda>sl. only_required required sl [toUnsatisfied sl f])
            (filter (\<lambda>sl. sl \<in> set requested) pairing_slots))
      | _ \<Rightarrow> [])"

definition all_unsatisfied :: "raw_handles \<Rightarrow> slot list \<Rightarrow> slot list \<Rightarrow> env_sections \<Rightarrow> unsatisfied list" where
  "all_unsatisfied hs required requested es =
     concat (map (\<lambda>sl. only_required required sl (group_unsatisfied hs (es_paths es) sl))
       (pathsBackedSlots requested))
     @ only_required required SlotNetwork (group_unsatisfied hs (es_network es) SlotNetwork)
     @ only_required required SlotCompiler (group_unsatisfied hs (es_compiler es) SlotCompiler)
     @ only_required required SlotCompiler (sx_unsatisfied (es_settings es))
     @ only_required required SlotArtifacts (sx_unsatisfied (es_artifacts es))
     @ only_required required SlotChain (sx_unsatisfied (es_chain es))
     @ only_required required SlotReceipts (sx_unsatisfied (es_receipts es))
     @ only_required required SlotScheduling (sx_unsatisfied (es_scheduling es))
     @ only_required required SlotOutput (sx_unsatisfied (es_output es))
     @ pairing_unsatisfied required requested (es_pairing es)"

definition all_inconsistencies :: "env_sections \<Rightarrow> inconsistency list" where
  "all_inconsistencies es =
     gr_inconsistencies (es_paths es) @ gr_inconsistencies (es_network es)
     @ gr_inconsistencies (es_compiler es) @ sx_inconsistencies (es_settings es)
     @ sx_inconsistencies (es_chain es)
     @ (if es_pairing es = PairingBroken then [ArtifactsNotWrappingResolver] else [])"

record env_slots =
  sl_paths :: "project_paths option"
  sl_network :: "network_environment option"
  sl_compiler :: "compiler_configuration option"
  sl_artifacts :: "artifact_slot option"
  sl_chain :: "hval option"
  sl_receipts :: "hval option"
  sl_scheduling :: "hval option"
  sl_output :: "output_slot option"

definition build_slots :: "slot list \<Rightarrow> env_sections \<Rightarrow> env_slots" where
  "build_slots requested es =
     \<lparr>sl_paths = (if SlotPaths \<in> set requested then map_option buildProjectPaths (gr_values (es_paths es)) else None),
      sl_network = map_option buildNetworkEnvironment (gr_values (es_network es)),
      sl_compiler = sx_slot (es_settings es), sl_artifacts = sx_slot (es_artifacts es),
      sl_chain = sx_slot (es_chain es), sl_receipts = sx_slot (es_receipts es),
      sl_scheduling = sx_slot (es_scheduling es), sl_output = sx_slot (es_output es)\<rparr>"

fun has_slot :: "env_slots \<Rightarrow> slot \<Rightarrow> bool" where
  "has_slot e SlotPaths = (sl_paths e \<noteq> None)"
| "has_slot e SlotNetwork = (sl_network e \<noteq> None)"
| "has_slot e SlotCompiler = (sl_compiler e \<noteq> None)"
| "has_slot e SlotArtifacts = (sl_artifacts e \<noteq> None)"
| "has_slot e SlotChain = (sl_chain e \<noteq> None)"
| "has_slot e SlotReceipts = (sl_receipts e \<noteq> None)"
| "has_slot e SlotScheduling = (sl_scheduling e \<noteq> None)"
| "has_slot e SlotOutput = (sl_output e \<noteq> None)"

record environment =
  en_slots :: env_slots
  en_present :: "slot list"
  en_lineages :: lineage_provenance
  en_pathsRead :: "string list"

definition settle_environment ::
  "raw_handles \<Rightarrow> slot list \<Rightarrow> slot list \<Rightarrow> lineages \<Rightarrow> env_sections \<Rightarrow> string list \<Rightarrow> env_error + environment" where
  "settle_environment hs required requested ls es paths =
     (let us = all_unsatisfied hs required requested es; is = all_inconsistencies es;
          slots = build_slots requested es; gaps = filter (\<lambda>sl. \<not> has_slot slots sl) required
      in if us \<noteq> [] then Inl (EnvIncomplete us)
         else if is \<noteq> [] then Inl (EnvInconsistent is)
         else if gaps \<noteq> []
         then Inl (EnvIncomplete (map (\<lambda>sl. unsatisfiedSlot sl (CauseInvariant SlotNeitherBuiltNorDiagnosed)) gaps))
         else Inr \<lparr>en_slots = slots, en_present = filter (has_slot slots) slotNames,
                en_lineages = configLineageProvenance ls, en_pathsRead = paths\<rparr>)"

definition resolveEnvironment ::
  "host_parameters \<Rightarrow> raw_handles \<Rightarrow> slot list \<Rightarrow> slot list \<Rightarrow> env_error + environment" where
  "resolveEnvironment hp hs require1 optional1 =
     (let required = distinct_first require1;
          optional2 = filter (\<lambda>sl. sl \<notin> set required) (distinct_first optional1);
          requested = required @ optional2
      in if requested \<noteq> [] \<and> \<not> hasBearingHandle hs requested then Inl (EnvAbsent requested)
         else
           (case bind_io (inspectConfigLineages (hp_heap hp) hs) (\<lambda>ls.
                   bind_io (run_sections hp hs requested ls) (\<lambda>es. return_io (ls, es))) [] of
              (Inl e, _) \<Rightarrow> Inl e
            | (Inr (ls, es), paths) \<Rightarrow> settle_environment hs required requested ls es paths))"


section \<open>Agreement\<close>

lemma distinct_first_set [simp]: "set (distinct_first xs) = set xs"
  by (induction xs) auto

lemma distinct_first_Nil [simp]: "distinct_first xs = [] \<longleftrightarrow> xs = []"
  by (cases xs) auto

lemma compareConfigValues_Nil:
  "compareConfigValues names d a = [] \<longleftrightarrow> (\<forall>f \<in> set names. d f = a f)"
  by (auto simp: compareConfigValues_def)

lemma agree_values:
  assumes "gr_values (agree names fld d a) = Some v"
  shows "(d = Projected v \<or> d = NotProjected) \<and>
    (a = NotProjected \<or> (\<exists>y. a = Projected y \<and> (y = v \<or> d = Projected v \<and> (\<forall>f \<in> set names. fld v f = fld y f))))"
  using assms
  by (auto simp: agree_def Let_def compareConfigValues_Nil split: projection.splits if_splits)

lemma project_attempt_ok:
  "project_attempt project attempt s = (Inr p, t) \<Longrightarrow>
     (case p of
        NotProjected \<Rightarrow> attempt = LineageAbsent
      | Projected v \<Rightarrow> (\<exists>l. attempt = LineagePresent l \<and> project l s = (Inr v, t))
      | ProjectionFailed f \<Rightarrow> attempt \<noteq> LineageAbsent)"
  by (auto simp: project_attempt_def split: lineage_attempt.splits prod.splits sum.splits config_failure.splits)

lemma resolveGroup_ok:
  assumes "resolveGroup ls names fld project s = (Inr g, t)"
  obtains d a u where "project_attempt project (via_deployer ls) s = (Inr d, u)"
    "project_attempt project (via_artifacts ls) u = (Inr a, t)" "g = agree names fld d a"
  using assms unfolding resolveGroup_def by (elim bind_io_InrE) auto

text \<open>Where equal fields mean equal values, the group's values are those of every present lineage.\<close>

lemma group_speaks_for_all:
  assumes g: "resolveGroup ls names fld project s = (Inr g, t)" and v: "gr_values g = Some v"
    and inj: "\<And>x y l m s t s' t'. project l s = (Inr x, t) \<Longrightarrow> project m s' = (Inr y, t') \<Longrightarrow>
       \<forall>f \<in> set names. fld x f = fld y f \<Longrightarrow> x = y"
    and l: "via_deployer ls = LineagePresent l \<or> via_artifacts ls = LineagePresent l"
  shows "\<exists>s t. project l s = (Inr v, t)"
proof -
  obtain d a u where d: "project_attempt project (via_deployer ls) s = (Inr d, u)"
    and a: "project_attempt project (via_artifacts ls) u = (Inr a, t)" and e: "g = agree names fld d a"
    by (rule resolveGroup_ok [OF g])
  note dv = project_attempt_ok [OF d] and av = project_attempt_ok [OF a]
  note ag = agree_values [OF v [unfolded e]]
  show ?thesis
  proof (cases "via_deployer ls = LineagePresent l")
    case True
    then have "d = Projected v" using ag dv by auto
    then show ?thesis using dv True by auto
  next
    case False
    then have al: "via_artifacts ls = LineagePresent l" using l by simp
    then obtain y where y: "a = Projected y" using ag av by auto
    then have ya: "project l u = (Inr y, t)" using av al by simp
    have "y = v"
    proof (cases "d = Projected v \<and> (\<forall>f \<in> set names. fld v f = fld y f)")
      case True
      then obtain l' where "project l' s = (Inr v, u)" using dv by auto
      then show ?thesis using inj ya True by metis
    qed (use ag y in auto)
    then show ?thesis using ya by blast
  qed
qed

lemma path_fields_determine:
  "\<forall>f \<in> set pathConfigLineageFields. path_field x f = path_field y f \<Longrightarrow> (x :: path_values) = y"
  by (simp add: pathConfigLineageFields_def path_field_def path_values.equality)

lemma opt_value_inj:
  "a \<noteq> Some VNull \<Longrightarrow> b \<noteq> Some VNull \<Longrightarrow> opt_value a = opt_value b \<Longrightarrow> a = b"
  by (cases a; cases b) auto

lemma lineage_number_not_null:
  "lineage_number h l f s = (Inr v, t) \<Longrightarrow> v \<noteq> Some VNull"
  unfolding lineage_number_def
  by (elim bind_io_InrE) (auto simp: nullableNumber_def failInvariant_def split: hval.splits)

lemma network_numbers:
  assumes "projectNetworkValues h nt l s = (Inr v, t)"
  shows "nv_feeLimit v \<noteq> Some VNull \<and> nv_userFeePercentage v \<noteq> Some VNull \<and>
    nv_originEnergyLimit v \<noteq> Some VNull \<and> nv_callValue v \<noteq> Some VNull \<and>
    nv_tokenValue v \<noteq> Some VNull \<and> nv_tokenId v \<noteq> Some VNull"
  using assms unfolding projectNetworkValues_def Let_def
  by (elim bind_io_InrE) (auto dest: lineage_number_not_null)

lemma str_options: "opt_value (map_option VStr a) = opt_value (map_option VStr b) \<Longrightarrow> a = b"
  by (cases a; cases b) auto

lemma network_field_of:
  "network_field v ''network'' = VStr (nv_network v)"
  "network_field v ''network_id'' = VStr (nv_network_id v)"
  "network_field v ''networks[network].network_id'' = VStr (nv_configured_id v)"
  "network_field v ''from'' = opt_value (map_option VStr (nv_from v))"
  "network_field v ''feeLimit'' = opt_value (nv_feeLimit v)"
  "network_field v ''userFeePercentage'' = opt_value (nv_userFeePercentage v)"
  "network_field v ''originEnergyLimit'' = opt_value (nv_originEnergyLimit v)"
  "network_field v ''callValue'' = opt_value (nv_callValue v)"
  "network_field v ''tokenValue'' = opt_value (nv_tokenValue v)"
  "network_field v ''tokenId'' = opt_value (nv_tokenId v)"
  "network_field v ''signingKeyConfigured'' = VBool (nv_signingKey v)"
  by (simp_all add: network_field_def)

lemma network_fields_determine:
  assumes "projectNetworkValues h nt l s = (Inr x, t)" and "projectNetworkValues h nt m s' = (Inr y, t')"
    and f: "\<forall>f \<in> set networkConfigLineageFields. network_field x f = network_field y f"
  shows "x = y"
proof -
  note n = network_numbers [OF assms(1)] network_numbers [OF assms(2)]
  note e = f [unfolded networkConfigLineageFields_def list.set ball_simps network_field_of]
  have "nv_from x = nv_from y" using e by (intro str_options) simp
  moreover have "nv_feeLimit x = nv_feeLimit y" using e n by (intro opt_value_inj) simp_all
  moreover have "nv_userFeePercentage x = nv_userFeePercentage y" using e n by (intro opt_value_inj) simp_all
  moreover have "nv_originEnergyLimit x = nv_originEnergyLimit y" using e n by (intro opt_value_inj) simp_all
  moreover have "nv_callValue x = nv_callValue y" using e n by (intro opt_value_inj) simp_all
  moreover have "nv_tokenValue x = nv_tokenValue y" using e n by (intro opt_value_inj) simp_all
  moreover have "nv_tokenId x = nv_tokenId y" using e n by (intro opt_value_inj) simp_all
  moreover have "nv_network x = nv_network y \<and> nv_network_id x = nv_network_id y \<and>
    nv_configured_id x = nv_configured_id y \<and> nv_signingKey x = nv_signingKey y"
    using e by simp
  ultimately show ?thesis by (intro network_values.equality) simp_all
qed

lemma flag_option:
  "opt_value (map_option (\<lambda>x. VStr (flag_key x)) a) = opt_value (map_option (\<lambda>x. VStr (flag_key x)) b) \<Longrightarrow> a = b"
  by (cases a; cases b; cases "the a"; cases "the b") auto

lemma compiler_fields_determine:
  assumes f: "\<forall>f \<in> set compilerConfigLineageFields. compiler_field x f = compiler_field y f"
  shows "(x :: compiler_values) = y"
proof -
  have "cv_flag x = cv_flag y"
    using f by (intro flag_option) (simp add: compilerConfigLineageFields_def compiler_field_def)
  moreover have "cv_family x = cv_family y"
    using f by (cases "cv_family x"; cases "cv_family y")
      (simp_all add: compilerConfigLineageFields_def compiler_field_def)
  moreover have "cv_settings x = cv_settings y"
    using f by (cases "cv_settings x"; cases "cv_settings y")
      (simp_all add: compilerConfigLineageFields_def compiler_field_def)
  moreover have "cv_version x = cv_version y" "cv_hostDefault x = cv_hostDefault y"
    using f by (simp_all add: compilerConfigLineageFields_def compiler_field_def)
  ultimately show ?thesis by (intro compiler_values.equality) simp_all
qed


section \<open>What can be thrown\<close>

definition throws_only :: "('e \<Rightarrow> bool) \<Rightarrow> ('s, 'e, 'a) io \<Rightarrow> bool" where
  "throws_only P m \<longleftrightarrow> (\<forall>s e t. m s = (Inl e, t) \<longrightarrow> P e)"

named_theorems throws_intros \<open>rules that bound what a call throws\<close>

lemma throws_onlyD: "throws_only P m \<Longrightarrow> m s = (Inl e, t) \<Longrightarrow> P e"
  unfolding throws_only_def by blast

declare ownChainFrom.simps [simp del] first_flag.simps [simp del] found_settings.simps [simp del]

lemma throws_bind [throws_intros]:
  assumes "throws_only P m" and "\<And>x s t. m s = (Inr x, t) \<Longrightarrow> throws_only P (f x)"
  shows "throws_only P (bind_io m f)"
  unfolding throws_only_def
proof (intro allI impI)
  fix s e t
  assume "bind_io m f s = (Inl e, t)"
  then show "P e"
  proof (rule bind_io_InlE)
    assume "m s = (Inl e, t)"
    then show "P e" by (rule throws_onlyD [OF assms(1)])
  next
    fix x s'
    assume "m s = (Inr x, s')" and "f x s' = (Inl e, t)"
    then show "P e" by (metis assms(2) throws_onlyD)
  qed
qed

lemma throws_basic [throws_intros]:
  "throws_only P (return_io x)" "P e \<Longrightarrow> throws_only P (throw_io e)"
  "throws_only P (Pair (Inr x))" "P e \<Longrightarrow> throws_only P (Pair (Inl e))"
  "throws_only P (readOwnProperty h v k p)" "throws_only P (readProperty h v k p)"
  by (auto simp: throws_only_def readOwnProperty_def readProperty_def record_path_def bind_io_def)

definition proper :: "config_failure \<Rightarrow> bool" where
  "proper f \<longleftrightarrow> f \<noteq> HostThrow \<and> f \<noteq> InvariantViolated SlotNeitherBuiltNorDiagnosed"

lemma proper_simps [simp]:
  "proper (HandleMalformed n p b)" "proper (InvariantViolated i) \<longleftrightarrow> i \<noteq> SlotNeitherBuiltNorDiagnosed"
  "\<not> proper HostThrow"
  by (simp_all add: proper_def)

lemmas throws_cases = hval.split property_read.split sum.split option.split list.split prod.split

lemma throws_fields [throws_intros]:
  "throws_only proper (failMalformed l p b)"
  "i \<noteq> SlotNeitherBuiltNorDiagnosed \<Longrightarrow> throws_only proper (failInvariant i)"
  "throws_only proper (readLineageProperty h l k)"
  "throws_only proper (requireString h v f)"
  "throws_only proper (nullableString h v f)"
  "throws_only proper (nullableNumber h v f)"
  "throws_only proper (requireObjectLike h v f)"
proof -
  show m: "throws_only proper (failMalformed l p b)" for l p b
    by (simp add: failMalformed_def throws_intros)
  show i: "i \<noteq> SlotNeitherBuiltNorDiagnosed \<Longrightarrow> throws_only proper (failInvariant i)" for i
    by (simp add: failInvariant_def throws_intros)
  show "throws_only proper (readLineageProperty h l k)"
    unfolding readLineageProperty_def Let_def
    by (rule throws_bind) (auto intro!: m throws_basic split: throws_cases)
  show "throws_only proper (requireString h v f)"
    unfolding requireString_def by (auto intro!: i throws_basic split: throws_cases)
  show "throws_only proper (nullableString h v f)"
    unfolding nullableString_def by (auto intro!: i throws_basic split: throws_cases)
  show "throws_only proper (nullableNumber h v f)"
    unfolding nullableNumber_def by (auto intro!: i throws_basic split: throws_cases)
  show "throws_only proper (requireObjectLike h v f)"
    unfolding requireObjectLike_def by (auto intro!: i throws_basic split: throws_cases)
qed

lemma throws_nonempty [throws_intros]: "throws_only proper (requireNonEmptyString h v f)"
  unfolding requireNonEmptyString_def by (auto intro!: throws_intros)

lemma assertAbsolutePath_proper: "assertAbsolutePath h v f = Inl i \<Longrightarrow> i \<noteq> SlotNeitherBuiltNorDiagnosed"
  by (auto simp: assertAbsolutePath_def split: hval.splits if_splits)

lemma throws_read_path [throws_intros]: "throws_only proper (read_path h l f)"
  unfolding read_path_def
  by (auto intro!: throws_intros dest: assertAbsolutePath_proper split: sum.split)

lemma throws_paths [throws_intros]: "throws_only proper (projectPathValues h l)"
  unfolding projectPathValues_def by (auto intro!: throws_intros)

lemma throws_chain [throws_intros]: "throws_only proper (ownChainFrom h l v p hops)"
  by (induction hops arbitrary: v p) (auto simp: ownChainFrom.simps Let_def intro!: throws_intros split: property_read.split)

lemma throws_ownChain [throws_intros]: "throws_only proper (ownChain h l hops)"
  by (simp add: ownChain_def throws_intros)

lemma throws_settingsSource [throws_intros]: "throws_only proper (settingsSourceOf h l)"
  unfolding settingsSourceOf_def ownKeyCount_def by (auto intro!: throws_intros)

lemma throws_first_flag [throws_intros]: "throws_only proper (first_flag h l v p fs)"
  by (induction fs) (auto simp: first_flag.simps intro!: throws_intros)

lemma throws_select [throws_intros]: "throws_only proper (select_version h l v)"
  unfolding select_version_def Let_def by (auto intro!: throws_intros)

lemma throws_compiler [throws_intros]: "throws_only proper (projectCompilerValues h l)"
  unfolding projectCompilerValues_def by (auto intro!: throws_intros)

lemma throws_found_settings [throws_intros]: "throws_only proper (found_settings h hops as)"
  by (induction h hops as rule: found_settings.induct) (auto simp: found_settings.simps intro!: throws_intros)

lemma throws_settings_of [throws_intros]: "throws_only proper (settings_of h clone source found)"
  unfolding settings_of_def copyOutSettings_def
  by (auto intro!: throws_intros split: list.split option.split)

text \<open>The one place the host's own exception gets through: a \<open>networks\<close> object whose traps raise.\<close>

definition networks_trap :: "heap \<Rightarrow> lineage \<Rightarrow> bool" where
  "networks_trap h l \<longleftrightarrow>
     (case read_slot h (\<lambda>a. own_slot h a ''networks'') (VObj (li_config l)) of
        ReadOk (VObj n) \<Rightarrow> ho_traps (h n)
      | _ \<Rightarrow> False)"

definition proper_or_trap :: "heap \<Rightarrow> lineage \<Rightarrow> config_failure \<Rightarrow> bool" where
  "proper_or_trap h l f \<longleftrightarrow> proper f \<or> f = HostThrow \<and> networks_trap h l"

lemma throws_weaken: "throws_only proper m \<Longrightarrow> throws_only (proper_or_trap h l) m"
  by (auto simp: throws_only_def proper_or_trap_def)

lemma readOwnProperty_result:
  "readOwnProperty h v k p s = (Inr r, t) \<Longrightarrow> r = read_slot h (\<lambda>a. own_slot h a k) v"
  by (simp add: readOwnProperty_def record_path_def bind_io_def)

lemma throws_network_entry: "throws_only (proper_or_trap h l) (assertSelectedNetworkIsConfigured h l name)"
proof -
  have trap: "proper_or_trap h l HostThrow"
    if "readOwnProperty h (VObj (li_config l)) ''networks'' p s = (Inr (ReadOk (VObj n)), t)" "ho_traps (h n)"
    for p s t n
  proof -
    have "read_slot h (\<lambda>a. own_slot h a ''networks'') (VObj (li_config l)) = ReadOk (VObj n)"
      using readOwnProperty_result [OF that(1)] by simp
    then show ?thesis using that(2) by (simp add: proper_or_trap_def networks_trap_def)
  qed
  show ?thesis
    unfolding assertSelectedNetworkIsConfigured_def Let_def
    by (rule throws_bind)
      (auto intro!: throws_bind throws_basic throws_weaken [OF throws_fields(1)]
          throws_weaken [OF throws_fields(2)] intro: trap split: property_read.split hval.split)
qed

lemma throws_number: "throws_only proper (lineage_number h l f)"
  unfolding lineage_number_def by (auto intro!: throws_intros)

lemma throws_network_id: "throws_only proper (normalizeNetworkId h nt v f n)"
  unfolding normalizeNetworkId_def by (auto intro!: throws_intros split: hval.split)

lemma throws_network_parts:
  "throws_only proper (selected_network h l)"
  "throws_only proper (configured_id h nt p e n)"
  "throws_only proper (signing_key_configured h l p e)"
  unfolding selected_network_def configured_id_def signing_key_configured_def
  by (auto intro!: throws_intros throws_network_id split: property_read.split hval.split)

lemma throws_network: "throws_only (proper_or_trap h l) (projectNetworkValues h nt l)"
  unfolding projectNetworkValues_def Let_def
  by (intro throws_bind throws_network_entry throws_basic
      throws_weaken [OF throws_network_parts(1)] throws_weaken [OF throws_network_parts(2)]
      throws_weaken [OF throws_network_parts(3)] throws_weaken [OF throws_network_id]
      throws_weaken [OF throws_number] throws_weaken [OF throws_fields(3)] throws_weaken [OF throws_fields(5)])

lemma throws_intercept: "throws_only proper (interceptFromHandle h v)"
  unfolding interceptFromHandle_def intercept_method_def malformed_intercept_def Let_def
  by (auto intro!: throws_intros split: property_read.split)

lemma throws_output: "throws_only proper (output_of_lineage h hs u l)"
  unfolding output_of_lineage_def loggerFrom_def quietFrom_def Let_def
  by (auto intro!: throws_intros split: property_read.split hval.split)


section \<open>Every requested slot is built or diagnosed\<close>

lemma walk_never_absent: "throws_only (\<lambda>m. m \<noteq> LineageAbsent) (walk_hops h who owner path r hops)"
  by (induction hops arbitrary: owner path r)
    (auto simp: Let_def intro!: throws_intros split: property_read.split hval.split)

lemma inspectLineage_absent: "fst (inspectLineage h who root hops s) = LineageAbsent \<longleftrightarrow> root = VUndef"
proof (cases root)
  case (VObj a)
  let ?m = "bind_io (walk_hops h who a (handle_text who) None hops) (\<lambda>(owner, path, resolver).
    let bp = path @ ''.working_directory''
    in bind_io (record_path bp) (\<lambda>_.
         case classifyBinding h owner of
           None \<Rightarrow> throw_io (LineageMalformed who bp BecauseMissing)
         | Some b \<Rightarrow>
             return_io (LineagePresent \<lparr>li_handle = who, li_prefix = path, li_config = owner,
               li_binding = b, li_resolver = resolver\<rparr>)))"
  have t: "throws_only (\<lambda>m. m \<noteq> LineageAbsent) (record_path p)" for p
    by (simp add: throws_only_def record_path_def)
  have e: "throws_only (\<lambda>m. m \<noteq> LineageAbsent) ?m"
    by (auto simp: Let_def intro!: throws_intros t walk_never_absent split: option.split)
  have "fst (inspectLineage h who (VObj a) hops s) \<noteq> LineageAbsent"
  proof (cases "?m s")
    case (Pair r u)
    show ?thesis
    proof (cases r)
      case (Inl m)
      then show ?thesis using throws_onlyD [OF e] Pair by (simp add: inspectLineage_def)
    next
      case (Inr x)
      have "?m s = (Inr x, u)" using Pair Inr by simp
      then have "x \<noteq> LineageAbsent"
        by (elim bind_io_InrE) (auto simp: Let_def elim!: bind_io_InrE split: option.splits)
      then show ?thesis using Pair Inr by (simp add: inspectLineage_def)
    qed
  qed
  then show ?thesis using VObj by simp
qed (simp_all add: inspectLineage_def)

text \<open>The lineages a set of handles leads to.\<close>

definition lineages_of :: "heap \<Rightarrow> raw_handles \<Rightarrow> lineages" where
  "lineages_of h hs =
     (let d = inspectLineage h HDeployer (hs HDeployer) [''options'', ''options''] []
      in \<lparr>via_deployer = fst d,
          via_artifacts = fst (inspectLineage h HArtifacts (hs HArtifacts) [''resolver'', ''options''] (snd d))\<rparr>)"

lemma inspect_lineages: "fst (inspectConfigLineages h hs []) = Inr (lineages_of h hs)"
  by (simp add: lineages_of_def inspectConfigLineages_def Let_def split: prod.split)

lemma lineage_absent_iff:
  "via_deployer (lineages_of h hs) = LineageAbsent \<longleftrightarrow> \<not> supplied (hs HDeployer)"
  "via_artifacts (lineages_of h hs) = LineageAbsent \<longleftrightarrow> \<not> supplied (hs HArtifacts)"
  by (simp_all add: lineages_of_def supplied_def Let_def inspectLineage_absent)

definition present_lineages :: "lineages \<Rightarrow> lineage list" where
  "present_lineages ls =
     concat (map (\<lambda>a. case present_lineage a of None \<Rightarrow> [] | Some l \<Rightarrow> [l]) [via_deployer ls, via_artifacts ls])"

lemma present_lineages_iff:
  "l \<in> set (present_lineages ls) \<longleftrightarrow> via_deployer ls = LineagePresent l \<or> via_artifacts ls = LineagePresent l"
  by (cases "via_deployer ls"; cases "via_artifacts ls") (auto simp: present_lineages_def)

lemma missingHandles_Nil:
  "missingHandles sl hs = [] \<longleftrightarrow> (\<forall>n \<in> set (sr_handles (slotRequirements sl)). supplied (hs n))"
  by (auto simp: missingHandles_def filter_empty_conv)

lemma agree_empty:
  assumes "gr_values (agree names fld d a) = None" "gr_failures (agree names fld d a) = []"
    "gr_inconsistencies (agree names fld d a) = []"
  shows "d = NotProjected \<and> a = NotProjected"
  using assms by (auto simp: agree_def Let_def split: projection.splits if_splits)

lemma group_covers:
  assumes g: "resolveGroup ls names fld project s = (Inr g, t)"
    and ls: "via_deployer ls = LineageAbsent \<longleftrightarrow> \<not> supplied (hs HDeployer)"
      "via_artifacts ls = LineageAbsent \<longleftrightarrow> \<not> supplied (hs HArtifacts)"
    and sl: "HArtifacts \<in> set (sr_handles (slotRequirements sl))"
    and none: "group_unsatisfied hs g sl = []" "gr_inconsistencies g = []"
  shows "gr_values g \<noteq> None"
proof
  assume v: "gr_values g = None"
  obtain d a u where d: "project_attempt project (via_deployer ls) s = (Inr d, u)"
    and a: "project_attempt project (via_artifacts ls) u = (Inr a, t)" and e: "g = agree names fld d a"
    by (rule resolveGroup_ok [OF g])
  have f: "gr_failures g = []" and m: "missingHandles sl hs = []"
    using none v by (auto simp: group_unsatisfied_def split: if_splits)
  have "a = NotProjected" using agree_empty [of names fld d a] v f none(2) e by simp
  then have "\<not> supplied (hs HArtifacts)" using project_attempt_ok [OF a] ls(2) by simp
  then show False using m sl by (auto simp: missingHandles_Nil)
qed

definition covers :: "'v section_result \<Rightarrow> bool" where
  "covers r \<longleftrightarrow> sx_slot r \<noteq> None \<or> sx_unsatisfied r \<noteq> [] \<or> sx_inconsistencies r \<noteq> []"

lemma covers_simps [simp]:
  "covers (built v)" "covers (diagnosed us) \<longleftrightarrow> us \<noteq> []" "covers (disagreed ds) \<longleftrightarrow> ds \<noteq> []"
  by (simp_all add: covers_def built_def diagnosed_def disagreed_def)

lemma settings_covers: "settings_section h clone ls v s = (Inr r, t) \<Longrightarrow> covers r"
  unfolding settings_section_def by (elim bind_io_InrE) (auto split: settings_outcome.splits)

lemma artifacts_covers: "artifacts_section h hs (Some v) s = (Inr r, t) \<Longrightarrow> covers r"
  by (auto simp: artifacts_section_def missingHandles_Nil requirement_def split: prod.splits sum.splits if_splits)

lemma chain_covers: "chain_section h hs s = (Inr r, t) \<Longrightarrow> covers r"
  by (auto simp: chain_section_def missingHandles_Nil requirement_def Let_def elim!: bind_io_InrE split: if_splits)

lemma receipts_covers: "covers (receipts_section h hs)"
  by (auto simp: receipts_section_def missingHandles_Nil requirement_def Let_def)

lemma scheduling_covers: "scheduling_section h hs s = (Inr r, t) \<Longrightarrow> covers r"
  by (auto simp: scheduling_section_def missingHandles_Nil requirement_def Let_def elim!: bind_io_InrE
      split: if_splits property_read.splits)

lemma output_covers:
  assumes "output_section h hs ls s = (Inr r, t)"
    and "via_artifacts ls = LineageAbsent \<longleftrightarrow> \<not> supplied (hs HArtifacts)"
    and "via_deployer ls = LineageAbsent \<longleftrightarrow> \<not> supplied (hs HDeployer)"
  shows "covers r"
proof -
  obtain o1 u where o1: "outputFromHandles h hs ls s = (Inr o1 :: env_error + output_attempt, u)"
    and r: "return_io (case o1 of OutputOk v \<Rightarrow> built v | OutputNoHandle \<Rightarrow> diagnosed (missingHandles SlotOutput hs)
       | OutputFailed f \<Rightarrow> diagnosed [toUnsatisfied SlotOutput f]) u = (Inr r :: env_error + output_slot section_result, t :: paths_read)"
    using assms(1) unfolding output_section_def by (rule bind_io_InrE)
  have "o1 = OutputNoHandle \<Longrightarrow> \<not> supplied (hs HArtifacts)"
    using o1 assms(2,3)
    by (auto simp: outputFromHandles_def Let_def split: if_splits lineage_attempt.splits prod.splits sum.splits)
  then show ?thesis using r by (cases o1) (auto simp: missingHandles_Nil requirement_def covers_def built_def diagnosed_def)
qed

end
