(* ===== verification/EnvSettle.thy ===== *)
theory EnvSettle
  imports EnvResolve
begin

text \<open>
  What \<open>resolveEnvironment\<close> promises: a requested slot is built or diagnosed, what is exposed is
  what every lineage says, and where an exception of the host's own can get through.
\<close>

section \<open>Diagnoses\<close>

text \<open>A diagnosis for a slot that names a real cause.\<close>

definition names_a_cause :: "slot \<Rightarrow> unsatisfied \<Rightarrow> bool" where
  "names_a_cause sl u \<longleftrightarrow> us_slot u = sl \<and> us_cause u \<noteq> CauseInvariant SlotNeitherBuiltNorDiagnosed"

lemma names_a_cause_simps [simp]:
  "names_a_cause sl (unsatisfiedSlot sl' (CauseMissing n)) \<longleftrightarrow> sl' = sl"
  "names_a_cause sl (unsatisfiedSlot sl' (CauseMalformed n p b)) \<longleftrightarrow> sl' = sl"
  by (auto simp: names_a_cause_def unsatisfiedSlot_def)

lemma toUnsatisfied_names: "proper f \<Longrightarrow> names_a_cause sl (toUnsatisfied sl f)"
  by (cases f) (auto simp: names_a_cause_def unsatisfiedSlot_def)

lemma missingHandles_names: "u \<in> set (missingHandles sl hs) \<Longrightarrow> names_a_cause sl u"
  by (auto simp: missingHandles_def)

lemma project_attempt_proper:
  assumes "project_attempt project attempt s = (Inr (ProjectionFailed f), t)"
    and "\<And>l. throws_only (proper_or_trap h l) (project l)"
  shows "proper f"
  using assms(1)
  by (auto simp: project_attempt_def proper_or_trap_def
      dest: throws_onlyD [OF assms(2)] split: lineage_attempt.splits prod.splits sum.splits config_failure.splits)

lemma group_proper:
  assumes "resolveGroup ls names fld project s = (Inr g, t)"
    and p: "\<And>l. throws_only (proper_or_trap h l) (project l)" and f: "f \<in> set (gr_failures g)"
  shows "proper f"
proof -
  obtain d a u where d: "project_attempt project (via_deployer ls) s = (Inr d, u)"
    and a: "project_attempt project (via_artifacts ls) u = (Inr a, t)" and e: "g = agree names fld d a"
    by (rule resolveGroup_ok [OF assms(1)])
  have "d = ProjectionFailed f \<or> a = ProjectionFailed f"
    using f e by (cases d; cases a) (auto simp: agree_def Let_def split: if_splits)
  then show ?thesis using d a project_attempt_proper [OF _ p] by metis
qed

definition sound_group :: "'v group \<Rightarrow> bool" where
  "sound_group g \<longleftrightarrow> (\<forall>f \<in> set (gr_failures g). proper f)"

lemma sound_no_group [simp]: "sound_group no_group"
  by (simp add: sound_group_def no_group_def)

lemma group_names:
  "sound_group g \<Longrightarrow> u \<in> set (group_unsatisfied hs g sl) \<Longrightarrow> names_a_cause sl u"
  by (auto simp: group_unsatisfied_def sound_group_def toUnsatisfied_names missingHandles_names split: if_splits)

definition sound_section :: "slot \<Rightarrow> 'v section_result \<Rightarrow> bool" where
  "sound_section sl r \<longleftrightarrow> (\<forall>u \<in> set (sx_unsatisfied r). names_a_cause sl u)"

lemma sound_section_simps [simp]:
  "sound_section sl (built v)" "sound_section sl (disagreed ds)" "sound_section sl not_requested"
  "sound_section sl (diagnosed us) \<longleftrightarrow> (\<forall>u \<in> set us. names_a_cause sl u)"
  by (simp_all add: sound_section_def built_def disagreed_def not_requested_def diagnosed_def)

lemma settings_sound: "settings_section h clone ls v s = (Inr r, t) \<Longrightarrow> sound_section SlotCompiler r"
proof -
  have "throws_only proper (bind_io (found_settings h hops as) (settings_of h clone source))" for hops as source
    by (intro throws_bind throws_found_settings throws_settings_of)
  note p = throws_onlyD [OF this]
  show "settings_section h clone ls v s = (Inr r, t) \<Longrightarrow> sound_section SlotCompiler r"
    unfolding settings_section_def
    by (elim bind_io_InrE)
      (auto simp: compareCompilerSettings_def toUnsatisfied_names dest: p
        split: settings_outcome.splits if_splits prod.splits sum.splits option.splits)
qed

lemma artifacts_sound: "artifacts_section h hs v s = (Inr r, t) \<Longrightarrow> sound_section SlotArtifacts r"
  by (auto simp: artifacts_section_def toUnsatisfied_names missingHandles_names
      dest: throws_onlyD [OF throws_intercept] split: prod.splits sum.splits if_splits option.splits)

lemma chain_candidates_names:
  "chain_candidates h hs ns s = (Inr us, t) \<Longrightarrow> u \<in> set us \<Longrightarrow> names_a_cause SlotChain u"
  by (induction ns arbitrary: us s t)
    (auto simp: chain_candidate_def Let_def elim!: bind_io_InrE split: if_splits property_read.splits)

lemma chain_sound:
  assumes "chain_section h hs s = (Inr r, t)"
  shows "sound_section SlotChain r"
proof -
  define ns where "ns = filter (\<lambda>n. supplied (hs n)) [HTronWrap, HTronWeb]"
  note r = assms [unfolded chain_section_def Let_def ns_def [symmetric]]
  show ?thesis
  proof (cases "ns = []")
    case True
    then show ?thesis using r by (auto simp: missingHandles_names)
  next
    case False
    then show ?thesis using r by (auto elim!: bind_io_InrE split: if_splits) (rule chain_candidates_names, assumption, assumption)+
  qed
qed

lemma receipts_sound: "sound_section SlotReceipts (receipts_section h hs)"
  by (auto simp: receipts_section_def missingHandles_names Let_def)

lemma scheduling_sound: "scheduling_section h hs s = (Inr r, t) \<Longrightarrow> sound_section SlotScheduling r"
  by (auto simp: scheduling_section_def missingHandles_names Let_def elim!: bind_io_InrE
      split: if_splits property_read.splits)

lemma output_sound: "output_section h hs ls s = (Inr r, t) \<Longrightarrow> sound_section SlotOutput r"
  unfolding output_section_def
  by (elim bind_io_InrE)
    (auto simp: outputFromHandles_def Let_def toUnsatisfied_names missingHandles_names
      dest: throws_onlyD [OF throws_output]
      split: output_attempt.splits if_splits lineage_attempt.splits prod.splits sum.splits)

lemma pairing_proper: "checkResolverPairing h ls s = (Inr (PairingFailed f), t) \<Longrightarrow> proper f"
proof -
  have "throws_only proper (bind_io (readLineageProperty h d ''resolver'') (\<lambda>v.
      case v of VObj r \<Rightarrow> return_io r | _ \<Rightarrow> failInvariant NoDeployerResolver))" for d
    by (intro throws_bind throws_fields) (auto intro!: throws_intros split: hval.split)
  note p = throws_onlyD [OF this]
  show "checkResolverPairing h ls s = (Inr (PairingFailed f), t) \<Longrightarrow> proper f"
    by (auto simp: checkResolverPairing_def dest!: p split: lineage_attempt.splits prod.splits sum.splits if_splits)
qed


section \<open>The sections together\<close>

text \<open>A call that can end with a value.\<close>

definition runs :: "'a env_io \<Rightarrow> 'a \<Rightarrow> bool" where
  "runs m v \<longleftrightarrow> (\<exists>s t. m s = (Inr v, t))"

lemma runsI: "m s = (Inr v, t) \<Longrightarrow> runs m v"
  by (auto simp: runs_def)

lemma runs_if [simp]: "runs (if c then m else n) v \<longleftrightarrow> (if c then runs m v else runs n v)"
  by simp

lemma runs_return [simp]: "runs (return_io x) v \<longleftrightarrow> v = x"
  by (auto simp: runs_def)

lemma runs_option [simp]: "runs (case v of None \<Rightarrow> m | Some x \<Rightarrow> n x) y \<longleftrightarrow> (case v of None \<Rightarrow> runs m y | Some x \<Rightarrow> runs (n x) y)"
  by (simp split: option.split)

lemma runs_bindE:
  assumes "runs (bind_io m f) y"
  obtains x where "runs m x" "runs (f x) y"
  using assms unfolding runs_def by (metis bind_io_InrE)

lemma run_sections_parts:
  assumes "run_sections hp hs requested ls s = (Inr es, t)"
  shows "if pathsBackedSlots requested \<noteq> []
      then runs (resolveGroup ls pathConfigLineageFields path_field (projectPathValues (hp_heap hp))) (es_paths es)
      else es_paths es = no_group"
    and "if SlotNetwork \<in> set requested
      then runs (resolveGroup ls networkConfigLineageFields network_field
             (projectNetworkValues (hp_heap hp) (hp_numtext hp))) (es_network es)
      else es_network es = no_group"
    and "if SlotCompiler \<in> set requested
      then runs (resolveGroup ls compilerConfigLineageFields compiler_field (projectCompilerValues (hp_heap hp)))
             (es_compiler es)
      else es_compiler es = no_group"
    and "case gr_values (es_compiler es) of
        None \<Rightarrow> es_settings es = not_requested
      | Some v \<Rightarrow> runs (settings_section (hp_heap hp) (hp_clone hp) ls v) (es_settings es)"
    and "if SlotArtifacts \<in> set requested
      then runs (artifacts_section (hp_heap hp) hs (gr_values (es_paths es))) (es_artifacts es)
      else es_artifacts es = not_requested"
    and "if SlotChain \<in> set requested then runs (chain_section (hp_heap hp) hs) (es_chain es)
      else es_chain es = not_requested"
    and "if SlotScheduling \<in> set requested then runs (scheduling_section (hp_heap hp) hs) (es_scheduling es)
      else es_scheduling es = not_requested"
    and "if SlotOutput \<in> set requested then runs (output_section (hp_heap hp) hs ls) (es_output es)
      else es_output es = not_requested"
    and "if supplied (hs HDeployer) \<and> supplied (hs HArtifacts)
      then runs (checkResolverPairing (hp_heap hp) ls) (es_pairing es) else es_pairing es = PairingOk"
    and "es_receipts es = (if SlotReceipts \<in> set requested then receipts_section (hp_heap hp) hs else not_requested)"
  using runsI [of "run_sections hp hs requested ls", OF assms] unfolding run_sections_def Let_def
  by (elim runs_bindE, simp cong: if_cong option.case_cong)+

lemma group_sound:
  "runs (resolveGroup ls names fld project) g \<Longrightarrow> (\<And>l. throws_only (proper_or_trap h l) (project l)) \<Longrightarrow> sound_group g"
  using group_proper by (fastforce simp: runs_def sound_group_def)

definition sections_sound :: "env_sections \<Rightarrow> bool" where
  "sections_sound es \<longleftrightarrow>
     sound_group (es_paths es) \<and> sound_group (es_network es) \<and> sound_group (es_compiler es)
     \<and> sound_section SlotCompiler (es_settings es) \<and> sound_section SlotArtifacts (es_artifacts es)
     \<and> sound_section SlotChain (es_chain es) \<and> sound_section SlotReceipts (es_receipts es)
     \<and> sound_section SlotScheduling (es_scheduling es) \<and> sound_section SlotOutput (es_output es)
     \<and> (case es_pairing es of PairingFailed f \<Rightarrow> proper f | _ \<Rightarrow> True)"

lemma run_sections_sound:
  assumes "run_sections hp hs requested ls s = (Inr es, t)"
  shows "sections_sound es"
proof -
  note parts = run_sections_parts [OF assms]
  have "sound_group (es_paths es)" "sound_group (es_network es)" "sound_group (es_compiler es)"
    using parts(1-3) group_sound [OF _ throws_weaken [OF throws_paths]] group_sound [OF _ throws_network]
      group_sound [OF _ throws_weaken [OF throws_compiler]]
    by (auto split: if_splits)
  moreover have "sound_section SlotCompiler (es_settings es)"
    using parts(4) settings_sound by (auto simp: runs_def split: option.splits)
  moreover have "sound_section SlotArtifacts (es_artifacts es)"
    using parts(5) artifacts_sound by (auto simp: runs_def split: if_splits)
  moreover have "sound_section SlotChain (es_chain es)"
    using parts(6) chain_sound by (auto simp: runs_def split: if_splits)
  moreover have "sound_section SlotScheduling (es_scheduling es)"
    using parts(7) scheduling_sound by (auto simp: runs_def split: if_splits)
  moreover have "sound_section SlotOutput (es_output es)"
    using parts(8) output_sound by (auto simp: runs_def split: if_splits)
  moreover have "sound_section SlotReceipts (es_receipts es)" using parts(10) receipts_sound by simp
  moreover have "case es_pairing es of PairingFailed f \<Rightarrow> proper f | _ \<Rightarrow> True"
    using parts(9) pairing_proper by (auto simp: runs_def split: if_splits pairing.splits)
  ultimately show ?thesis by (simp add: sections_sound_def)
qed


section \<open>The verdict\<close>

lemma group_all_names: "sound_group g \<Longrightarrow> \<forall>u \<in> set (group_unsatisfied hs g sl). names_a_cause sl u"
  using group_names by blast

definition required_cause :: "slot list \<Rightarrow> unsatisfied \<Rightarrow> bool" where
  "required_cause required u \<longleftrightarrow> us_slot u \<in> set required \<and> names_a_cause (us_slot u) u"

lemma only_required_cause:
  "\<forall>x \<in> set xs. names_a_cause sl x \<Longrightarrow> list_all (required_cause required) (only_required required sl xs)"
  by (auto simp: only_required_def required_cause_def names_a_cause_def list_all_iff)

lemma list_all_concat_map: "(\<And>x. x \<in> set xs \<Longrightarrow> list_all P (f x)) \<Longrightarrow> list_all P (concat (map f xs))"
  by (auto simp: list_all_iff)

lemma all_unsatisfied_names:
  assumes "sections_sound es"
  shows "list_all (required_cause required) (all_unsatisfied hs required requested es)"
proof -
  have "list_all (required_cause required) (pairing_unsatisfied required requested (es_pairing es))"
    using assms by (auto simp: pairing_unsatisfied_def sections_sound_def toUnsatisfied_names
        intro!: list_all_concat_map only_required_cause split: pairing.split)
  then show ?thesis
    using assms unfolding all_unsatisfied_def sections_sound_def sound_section_def
    by (simp add: list_all_concat_map only_required_cause only_required_cause [OF group_all_names])
qed

lemma never_disagrees:
  "artifacts_section h hs v s = (Inr a, t) \<Longrightarrow> sx_inconsistencies a = []"
  "sx_inconsistencies (receipts_section h hs) = []"
  "scheduling_section h hs s = (Inr d, t) \<Longrightarrow> sx_inconsistencies d = []"
  "output_section h hs ls s = (Inr w, t) \<Longrightarrow> sx_inconsistencies w = []"
  unfolding artifacts_section_def receipts_section_def scheduling_section_def output_section_def Let_def
  by (auto simp: built_def diagnosed_def not_requested_def elim!: bind_io_InrE
      split: if_splits prod.splits sum.splits option.splits property_read.splits output_attempt.splits)

lemma section_covered:
  assumes "covers r" "only_required required sl (sx_unsatisfied r) = []" "sl \<in> set required"
    "sx_inconsistencies r = []"
  shows "sx_slot r \<noteq> None"
  using assms by (simp add: covers_def only_required_def)


lemma group_built:
  assumes "runs (resolveGroup ls names fld project) g"
    and "via_deployer ls = LineageAbsent \<longleftrightarrow> \<not> supplied (hs HDeployer)"
    and "via_artifacts ls = LineageAbsent \<longleftrightarrow> \<not> supplied (hs HArtifacts)"
    and "HArtifacts \<in> set (sr_handles (slotRequirements sl))" and "sl \<in> set required"
    and "only_required required sl (group_unsatisfied hs g sl) = []" and "gr_inconsistencies g = []"
  shows "\<exists>v. gr_values g = Some v"
  using assms group_covers [of ls names fld project _ g _ hs sl] by (auto simp: runs_def only_required_def)

text \<open>Nothing diagnosed and nothing in disagreement: every required slot is built.\<close>

lemma no_gap:
  assumes run: "run_sections hp hs requested (lineages_of (hp_heap hp) hs) s = (Inr es, t)"
    and us: "all_unsatisfied hs required requested es = []" and ds: "all_inconsistencies es = []"
    and sub: "set required \<subseteq> set requested" and sl: "sl \<in> set required"
  shows "has_slot (build_slots requested es) sl"
proof -
  note parts = run_sections_parts [OF run]
  note absent = lineage_absent_iff [of "hp_heap hp" hs]
  have asked: "sl \<in> set requested" using sub sl by blast
  have dis: "gr_inconsistencies (es_paths es) = []" "gr_inconsistencies (es_network es) = []"
    "gr_inconsistencies (es_compiler es) = []" "sx_inconsistencies (es_settings es) = []"
    "sx_inconsistencies (es_chain es) = []"
    using ds by (simp_all add: all_inconsistencies_def)
  have paths_diag: "only_required required sl (group_unsatisfied hs (es_paths es) sl) = []"
    if "sl \<in> set (pathsBackedSlots requested)"
    using us that by (auto simp: all_unsatisfied_def)
  have diag: "only_required required SlotNetwork (group_unsatisfied hs (es_network es) SlotNetwork) = []"
    "only_required required SlotCompiler (group_unsatisfied hs (es_compiler es) SlotCompiler) = []"
    "only_required required SlotCompiler (sx_unsatisfied (es_settings es)) = []"
    "only_required required SlotArtifacts (sx_unsatisfied (es_artifacts es)) = []"
    "only_required required SlotChain (sx_unsatisfied (es_chain es)) = []"
    "only_required required SlotReceipts (sx_unsatisfied (es_receipts es)) = []"
    "only_required required SlotScheduling (sx_unsatisfied (es_scheduling es)) = []"
    "only_required required SlotOutput (sx_unsatisfied (es_output es)) = []"
    using us by (simp_all add: all_unsatisfied_def)
  have paths: "\<exists>v. gr_values (es_paths es) = Some v" if "sl \<in> {SlotPaths, SlotArtifacts}"
  proof -
    have b: "sl \<in> set (pathsBackedSlots requested)" using that asked by (auto simp: pathsBackedSlots_def)
    then have "pathsBackedSlots requested \<noteq> []" by auto
    then have r: "runs (resolveGroup (lineages_of (hp_heap hp) hs) pathConfigLineageFields path_field
        (projectPathValues (hp_heap hp))) (es_paths es)" using parts(1) by simp
    have "HArtifacts \<in> set (sr_handles (slotRequirements sl))" using that by (auto simp: requirement_def)
    then show ?thesis by (rule group_built [OF r absent _ sl paths_diag [OF b] dis(1)])
  qed
  show ?thesis
  proof (cases sl)
    case SlotPaths
    then show ?thesis using paths asked by (auto simp: build_slots_def)
  next
    case SlotNetwork
    then have "\<exists>v. gr_values (es_network es) = Some v" using parts(2) asked sl
      by (intro group_built [OF _ absent _ _ diag(1) dis(2)]) (simp_all add: requirement_def)
    then show ?thesis using SlotNetwork by (auto simp: build_slots_def)
  next
    case SlotCompiler
    then have "\<exists>v. gr_values (es_compiler es) = Some v" using parts(3) asked sl
      by (intro group_built [OF _ absent _ _ diag(2) dis(3)]) (simp_all add: requirement_def)
    then have "covers (es_settings es)" using parts(4) settings_covers by (auto simp: runs_def)
    then show ?thesis using section_covered diag(3) sl dis SlotCompiler by (auto simp: build_slots_def)
  next
    case SlotArtifacts
    then have "covers (es_artifacts es)" "sx_inconsistencies (es_artifacts es) = []"
      using parts(5) asked paths artifacts_covers never_disagrees(1) by (auto simp: runs_def)
    then show ?thesis using section_covered diag(4) sl SlotArtifacts by (auto simp: build_slots_def)
  next
    case SlotChain
    then have "covers (es_chain es)" using parts(6) asked chain_covers by (auto simp: runs_def)
    then show ?thesis using section_covered diag(5) sl dis SlotChain by (auto simp: build_slots_def)
  next
    case SlotReceipts
    then have "covers (es_receipts es)" "sx_inconsistencies (es_receipts es) = []"
      using parts(10) asked receipts_covers never_disagrees(2) by auto
    then show ?thesis using section_covered diag(6) sl SlotReceipts by (auto simp: build_slots_def)
  next
    case SlotScheduling
    then have "covers (es_scheduling es)" "sx_inconsistencies (es_scheduling es) = []"
      using parts(7) asked scheduling_covers never_disagrees(3) by (auto simp: runs_def)
    then show ?thesis using section_covered diag(7) sl SlotScheduling by (auto simp: build_slots_def)
  next
    case SlotOutput
    then have "covers (es_output es)" "sx_inconsistencies (es_output es) = []"
      using parts(8) asked output_covers absent never_disagrees(4) by (auto simp: runs_def)
    then show ?thesis using section_covered diag(8) sl SlotOutput by (auto simp: build_slots_def)
  qed
qed


section \<open>The host's own exceptions\<close>

definition trapped :: "heap \<Rightarrow> lineages \<Rightarrow> env_error \<Rightarrow> bool" where
  "trapped h ls e \<longleftrightarrow> e = EnvHostThrow \<and> list_ex (networks_trap h) (present_lineages ls)"

lemma throws_attempt:
  assumes p: "\<And>l. throws_only (proper_or_trap h l) (project l)"
    and att: "\<And>l. attempt = LineagePresent l \<Longrightarrow> l \<in> set (present_lineages ls)"
  shows "throws_only (trapped h ls) (project_attempt project attempt)"
proof -
  have "trapped h ls EnvHostThrow" if "attempt = LineagePresent l" "project l s = (Inl HostThrow, t)" for l s t
    using throws_onlyD [OF p that(2)] att [OF that(1)] by (auto simp: trapped_def proper_or_trap_def list_ex_iff)
  then show ?thesis
    by (auto simp: throws_only_def project_attempt_def
        split: lineage_attempt.splits prod.splits sum.splits config_failure.splits)
qed

lemma throws_group:
  assumes "\<And>l. throws_only (proper_or_trap h l) (project l)"
  shows "throws_only (trapped h ls) (resolveGroup ls names fld project)"
  unfolding resolveGroup_def
  by (intro throws_bind throws_attempt assms throws_basic) (auto simp: present_lineages_iff)

lemma throws_settings: "throws_only P (settings_section h clone ls v)"
  unfolding settings_section_def
  by (rule throws_bind) (auto simp: throws_only_def compareCompilerSettings_def
      split: prod.splits sum.splits option.splits if_splits)

lemma throws_candidates: "throws_only P (chain_candidates h hs ns)"
  by (induction ns) (auto simp: chain_candidate_def Let_def intro!: throws_intros)

lemma throws_if: "throws_only P m \<Longrightarrow> throws_only P n \<Longrightarrow> throws_only P (if c then m else n)"
  by simp

lemma throws_sections:
  "throws_only P (artifacts_section h hs v)" "throws_only P (chain_section h hs)"
  "throws_only P (scheduling_section h hs)" "throws_only P (output_section h hs ls)"
  "throws_only P (checkResolverPairing h ls)"
proof -
  show "throws_only P (artifacts_section h hs v)"
    by (simp add: throws_only_def artifacts_section_def split: prod.split)
  show "throws_only P (chain_section h hs)"
    unfolding chain_section_def Let_def by (intro throws_if throws_bind throws_basic throws_candidates)
  show "throws_only P (scheduling_section h hs)"
    unfolding scheduling_section_def Let_def by (auto intro!: throws_intros)
  show "throws_only P (output_section h hs ls)"
    unfolding output_section_def
    by (rule throws_bind) (auto simp: outputFromHandles_def Let_def throws_only_def
        split: lineage_attempt.splits prod.splits sum.splits if_splits)
  show "throws_only P (checkResolverPairing h ls)"
    by (auto simp: throws_only_def checkResolverPairing_def split: lineage_attempt.splits prod.splits sum.splits)
qed

lemma throws_run_sections: "throws_only (trapped (hp_heap hp) ls) (run_sections hp hs requested ls)"
  unfolding run_sections_def Let_def
  by (intro throws_bind throws_if throws_basic throws_group throws_sections
      throws_weaken [OF throws_paths] throws_network throws_weaken [OF throws_compiler])
    (auto intro: throws_settings throws_basic split: option.split)

section \<open>The resolution\<close>

lemma resolved_cases:
  obtains (absent) "resolveEnvironment hp hs req opt = Inl (EnvAbsent (distinct_first req @
      filter (\<lambda>sl. sl \<notin> set req) (distinct_first opt)))"
    "req @ opt \<noteq> []" "\<not> hasBearingHandle hs (req @ opt)"
  | (trap) "resolveEnvironment hp hs req opt = Inl EnvHostThrow"
      "list_ex (networks_trap (hp_heap hp)) (present_lineages (lineages_of (hp_heap hp) hs))"
  | (settled) requested s es t where "set requested = set req \<union> set opt"
      "run_sections hp hs requested (lineages_of (hp_heap hp) hs) s = (Inr es, t)"
      "resolveEnvironment hp hs req opt =
         settle_environment hs (distinct_first req) requested (lineages_of (hp_heap hp) hs) es t"
proof -
  define requested where "requested = distinct_first req @ filter (\<lambda>sl. sl \<notin> set req) (distinct_first opt)"
  define ls where "ls = lineages_of (hp_heap hp) hs"
  obtain u where u: "inspectConfigLineages (hp_heap hp) hs [] = (Inr ls :: env_error + lineages, u)"
    by (simp add: inspectConfigLineages_def lineages_of_def ls_def Let_def case_prod_unfold)
  have set: "set requested = set req \<union> set opt" by (auto simp: requested_def)
  have r: "resolveEnvironment hp hs req opt =
    (if requested \<noteq> [] \<and> \<not> hasBearingHandle hs requested then Inl (EnvAbsent requested)
     else
       (case bind_io (inspectConfigLineages (hp_heap hp) hs) (\<lambda>ls.
               bind_io (run_sections hp hs requested ls) (\<lambda>es. return_io (ls, es))) [] of
          (Inl e, _) \<Rightarrow> Inl e
        | (Inr (ls, es), paths) \<Rightarrow> settle_environment hs (distinct_first req) requested ls es paths))"
    by (simp only: resolveEnvironment_def Let_def requested_def distinct_first_set)
  show thesis
  proof (cases "requested \<noteq> [] \<and> \<not> hasBearingHandle hs requested")
    case True
    have "hasBearingHandle hs (req @ opt) \<longleftrightarrow> hasBearingHandle hs requested"
      by (simp add: hasBearingHandle_def list_ex_iff set flip: set_append)
    moreover have "req @ opt \<noteq> []" using True by (auto simp: requested_def)
    ultimately show thesis
      using absent True by (simp add: r flip: requested_def)
  next
    case no: False
    show thesis
    proof (cases "run_sections hp hs requested ls u")
      case (Pair r t)
      show thesis
      proof (cases r)
        case (Inl e)
        then have e: "trapped (hp_heap hp) ls e" using throws_onlyD [OF throws_run_sections] Pair by blast
        show thesis using trap e no Pair Inl u
          by (simp add: r trapped_def ls_def bind_io_def)
      next
        case (Inr es)
        show thesis using settled [OF set, of u es t] no Pair Inr u
          by (simp add: r ls_def bind_io_def return_io_def)
      qed
    qed
  qed
qed

text \<open>
  C28: A resolution either exposes every slot the operation requires, or says why not: with no
  bearing handle at all it is absent, otherwise every diagnosis is for a required slot and names a
  cause (the defensive assertion that a slot was "neither built nor diagnosed" never fires), or
  the two handles disagree.  An exception of the host's own only gets through where a lineage's
  \<open>networks\<close> object raises when it is listed.
\<close>

theorem every_required_slot_is_built_or_diagnosed:
  "case resolveEnvironment hp hs req opt of
     Inr env \<Rightarrow> list_all (has_slot (en_slots env)) req
   | Inl (EnvAbsent slots) \<Rightarrow> slots \<noteq> [] \<and> set slots = set req \<union> set opt \<and> hasBearingHandle hs slots = False
   | Inl (EnvIncomplete us) \<Rightarrow>
       us \<noteq> [] \<and>
       list_all (\<lambda>u. us_slot u \<in> set req \<and> us_cause u \<noteq> CauseInvariant SlotNeitherBuiltNorDiagnosed) us
   | Inl (EnvInconsistent ds) \<Rightarrow> ds \<noteq> []
   | Inl EnvHostThrow \<Rightarrow> list_ex (networks_trap (hp_heap hp)) (present_lineages (lineages_of (hp_heap hp) hs))"
proof (rule resolved_cases [of hp hs req opt])
  fix requested s es t
  let ?ls = "lineages_of (hp_heap hp) hs" and ?us = "all_unsatisfied hs (distinct_first req) requested es"
  assume requested: "set requested = set req \<union> set opt"
    and run: "run_sections hp hs requested ?ls s = (Inr es, t)"
    and r: "resolveEnvironment hp hs req opt = settle_environment hs (distinct_first req) requested ?ls es t"
  have us: "list_all (required_cause (distinct_first req)) ?us"
    by (rule all_unsatisfied_names [OF run_sections_sound [OF run]])
  have gaps: "filter (\<lambda>sl. \<not> has_slot (build_slots requested es) sl) (distinct_first req) = []"
    if "?us = []" "all_inconsistencies es = []"
    using no_gap [OF run that] requested by (auto simp: filter_empty_conv)
  then show ?thesis using us
    by (auto simp: r settle_environment_def Let_def list_all_iff required_cause_def names_a_cause_def filter_empty_conv
        split: if_splits)
next
  assume "resolveEnvironment hp hs req opt = Inl (EnvAbsent (distinct_first req @
      filter (\<lambda>sl. sl \<notin> set req) (distinct_first opt)))"
    and "req @ opt \<noteq> []" and "\<not> hasBearingHandle hs (req @ opt)"
  then show ?thesis by (cases req; cases opt) (auto simp: hasBearingHandle_def list_ex_iff)
qed simp


section \<open>No lineage is preferred in silence\<close>

lemma settings_slot:
  "settings_section h clone ls v s = (Inr r, t) \<Longrightarrow> sx_slot r = Some x \<Longrightarrow>
     \<exists>j. x = buildCompilerConfiguration v j"
  unfolding settings_section_def
  by (elim bind_io_InrE) (auto simp: built_def disagreed_def diagnosed_def split: settings_outcome.splits)

text \<open>
  What a successful resolution exposes is what every lineage in hand says: the project paths,
  the network environment and the compiler configuration are those that each present lineage, the
  deployer's and the artifacts', projects on its own.
\<close>

theorem exposed_values_are_every_lineages:
  assumes "resolveEnvironment hp hs req opt = Inr env"
    and l: "l \<in> set (present_lineages (lineages_of (hp_heap hp) hs))"
  shows "(case sl_paths (en_slots env) of None \<Rightarrow> SlotPaths \<notin> set req | Some p \<Rightarrow>
        \<exists>v s t. projectPathValues (hp_heap hp) l s = (Inr v, t) \<and> p = buildProjectPaths v) \<and>
    (case sl_network (en_slots env) of None \<Rightarrow> SlotNetwork \<notin> set req | Some n \<Rightarrow>
        \<exists>v s t. projectNetworkValues (hp_heap hp) (hp_numtext hp) l s = (Inr v, t) \<and> n = buildNetworkEnvironment v) \<and>
    (case sl_compiler (en_slots env) of None \<Rightarrow> SlotCompiler \<notin> set req | Some c \<Rightarrow>
        \<exists>v settings s t. projectCompilerValues (hp_heap hp) l s = (Inr v, t) \<and> c = buildCompilerConfiguration v settings)"
proof (rule resolved_cases [of hp hs req opt])
  fix requested s es t
  let ?ls = "lineages_of (hp_heap hp) hs"
  assume run: "run_sections hp hs requested ?ls s = (Inr es, t)"
    and r: "resolveEnvironment hp hs req opt = settle_environment hs (distinct_first req) requested ?ls es t"
  have e: "en_slots env = build_slots requested es" and gaps: "\<forall>sl \<in> set req. has_slot (en_slots env) sl"
    using assms(1) by (auto simp: r settle_environment_def Let_def filter_empty_conv split: if_splits)
  note parts = run_sections_parts [OF run] and present = l [unfolded present_lineages_iff]
  have p: "\<exists>s t. projectPathValues (hp_heap hp) l s = (Inr v, t)" if "gr_values (es_paths es) = Some v" for v
    using parts(1) that group_speaks_for_all [OF _ that _ present] path_fields_determine
    by (fastforce simp: runs_def no_group_def split: if_splits)
  have n: "\<exists>s t. projectNetworkValues (hp_heap hp) (hp_numtext hp) l s = (Inr v, t)"
    if "gr_values (es_network es) = Some v" for v
    using parts(2) that group_speaks_for_all [OF _ that _ present] network_fields_determine
    by (fastforce simp: runs_def no_group_def split: if_splits)
  have c: "\<exists>s t. projectCompilerValues (hp_heap hp) l s = (Inr v, t)" if "gr_values (es_compiler es) = Some v" for v
    using parts(3) that group_speaks_for_all [OF _ that _ present] compiler_fields_determine
    by (fastforce simp: runs_def no_group_def split: if_splits)
  have k: "\<exists>v j. gr_values (es_compiler es) = Some v \<and> x = buildCompilerConfiguration v j"
    if "sx_slot (es_settings es) = Some x" for x
    using parts(4) that settings_slot by (fastforce simp: runs_def not_requested_def split: option.splits)
  show ?thesis
    using p n c k gaps unfolding e
    by (fastforce simp: build_slots_def split: option.split if_splits)
qed (use assms in simp_all)


section \<open>A project with both handles\<close>

definition demo_object :: "(string \<times> hval) list \<Rightarrow> hobj" where
  "demo_object ps =
     \<lparr>ho_callable = False, ho_array = False, ho_traps = False, ho_own = map (\<lambda>(k, v). (k, DataProp v)) ps,
      ho_inherited = []\<rparr>"

definition demo_objects :: heap where
  "demo_objects a =
     demo_object
       (if a = 1 then [(''resolver'', VObj 2)]
        else if a = 2 then [(''options'', VObj 3)]
        else if a = 3 then
          [(''working_directory'', VStr ''/p''), (''contracts_directory'', VStr ''/p/contracts''),
           (''contracts_build_directory'', VStr ''/p/build''), (''build_info_directory'', VStr ''/p/info''),
           (''resolver'', VObj 2)]
        else if a = 4 then [(''options'', VObj 5)]
        else if a = 5 then [(''options'', VObj 3)]
        else [])"

definition demo_host_parameters :: host_parameters where
  "demo_host_parameters = \<lparr>hp_heap = demo_objects, hp_numtext = (\<lambda>_. []), hp_clone = (\<lambda>_. None)\<rparr>"

fun demo_raw_handles :: raw_handles where
  "demo_raw_handles HDeployer = VObj 4"
| "demo_raw_handles HArtifacts = VObj 1"
| "demo_raw_handles _ = VUndef"

definition demo_lineage :: lineage where
  "demo_lineage =
     \<lparr>li_handle = HDeployer, li_prefix = ''deployer.options.options'', li_config = 3,
      li_binding = MaterializedSnapshot, li_resolver = None\<rparr>"

definition demo_other_lineage :: lineage where
  "demo_other_lineage =
     \<lparr>li_handle = HArtifacts, li_prefix = ''artifacts.resolver.options'', li_config = 3,
      li_binding = MaterializedSnapshot, li_resolver = Some 2\<rparr>"

definition demo_path_values :: path_values where
  "demo_path_values = \<lparr>pv_working = ''/p'', pv_contracts = ''/p/contracts'', pv_build = ''/p/build'', pv_buildInfo = ''/p/info''\<rparr>"

lemma demo_contained: "isContainedIn ''/p'' ''/p/info''"
  by code_simp

lemma demo_field:
  assumes "li_config l = 3"
    and "map_of (ho_own (demo_objects 3)) f = Some (DataProp (VStr p))" and "is_absolute p"
  obtains u where "read_path demo_objects l f s = (Inr p, u)"
  using assms
  by (auto simp: read_path_def readLineageProperty_def readOwnProperty_def record_path_def read_slot_def own_slot_def
      slot_value_def assertAbsolutePath_def bind_io_def return_io_def Let_def demo_objects_def demo_object_def)

lemma demo_projects:
  assumes "li_config l = 3"
  obtains t where "projectPathValues demo_objects l s = (Inr demo_path_values, t)"
proof -
  have f: "map_of (ho_own (demo_objects 3)) ''working_directory'' = Some (DataProp (VStr ''/p''))"
    "map_of (ho_own (demo_objects 3)) ''contracts_directory'' = Some (DataProp (VStr ''/p/contracts''))"
    "map_of (ho_own (demo_objects 3)) ''contracts_build_directory'' = Some (DataProp (VStr ''/p/build''))"
    "map_of (ho_own (demo_objects 3)) ''build_info_directory'' = Some (DataProp (VStr ''/p/info''))"
    "is_absolute ''/p''" "is_absolute ''/p/contracts''" "is_absolute ''/p/build''" "is_absolute ''/p/info''"
    by code_simp+
  obtain s1 where "read_path demo_objects l ''working_directory'' s = (Inr ''/p'', s1)"
    by (rule demo_field [OF assms f(1,5)])
  moreover obtain s2 where "read_path demo_objects l ''contracts_directory'' s1 = (Inr ''/p/contracts'', s2)"
    by (rule demo_field [OF assms f(2,6)])
  moreover obtain s3 where "read_path demo_objects l ''contracts_build_directory'' s2 = (Inr ''/p/build'', s3)"
    by (rule demo_field [OF assms f(3,7)])
  moreover obtain s4 where "read_path demo_objects l ''build_info_directory'' s3 = (Inr ''/p/info'', s4)"
    by (rule demo_field [OF assms f(4,8)])
  ultimately show thesis
    using that [of s4] demo_contained by (simp add: projectPathValues_def bind_io_def demo_path_values_def)
qed

lemma demo_attempt:
  "li_config l = 3 \<Longrightarrow>
     \<exists>t. project_attempt (projectPathValues demo_objects) (LineagePresent l) s = (Inr (Projected demo_path_values), t)"
  by (erule demo_projects [of l s]) (simp add: project_attempt_def)

lemma demo_lineages:
  "lineages_of demo_objects demo_raw_handles =
     \<lparr>via_deployer = LineagePresent demo_lineage, via_artifacts = LineagePresent demo_other_lineage\<rparr>"
  by code_simp

lemma demo_pairing:
  "runs (checkResolverPairing demo_objects (lineages_of demo_objects demo_raw_handles)) p \<Longrightarrow> p = PairingOk"
  by (auto simp: runs_def demo_lineages checkResolverPairing_def readLineageProperty_def readOwnProperty_def
      record_path_def read_slot_def own_slot_def slot_value_def bind_io_def return_io_def Let_def demo_objects_def
      demo_object_def demo_lineage_def demo_other_lineage_def)

lemma demo_environment:
  "\<exists>e. resolveEnvironment demo_host_parameters demo_raw_handles [SlotPaths] [] = Inr e \<and> sl_paths (en_slots e) \<noteq> None"
proof (rule resolved_cases [of demo_host_parameters demo_raw_handles "[SlotPaths]" "[]"])
  fix requested s es t
  assume requested: "set requested = set [SlotPaths] \<union> set []"
    and run: "run_sections demo_host_parameters demo_raw_handles requested
      (lineages_of (hp_heap demo_host_parameters) demo_raw_handles) s = (Inr es, t)"
    and r: "resolveEnvironment demo_host_parameters demo_raw_handles [SlotPaths] [] =
      settle_environment demo_raw_handles (distinct_first [SlotPaths]) requested
        (lineages_of (hp_heap demo_host_parameters) demo_raw_handles) es t"
  note parts = run_sections_parts [OF run, unfolded demo_host_parameters_def host_parameters.simps requested]
  have only: "SlotPaths \<in> set requested" "pathsBackedSlots requested = [SlotPaths]"
    "\<And>sl. sl \<noteq> SlotPaths \<Longrightarrow> sl \<notin> set requested"
    using requested by (auto simp: pathsBackedSlots_def)
  obtain u v where "resolveGroup (lineages_of demo_objects demo_raw_handles) pathConfigLineageFields path_field
      (projectPathValues demo_objects) u = (Inr (es_paths es), v)"
    using parts(1) only by (auto simp: runs_def)
  then obtain d a w where d: "project_attempt (projectPathValues demo_objects) (LineagePresent demo_lineage) u = (Inr d, w)"
    and a: "project_attempt (projectPathValues demo_objects) (LineagePresent demo_other_lineage) w = (Inr a, v)"
    and g: "es_paths es = agree pathConfigLineageFields path_field d a"
    by (rule resolveGroup_ok) (simp add: demo_lineages)
  have "d = Projected demo_path_values" "a = Projected demo_path_values"
    using d a demo_attempt [of demo_lineage u] demo_attempt [of demo_other_lineage w]
    by (auto simp: demo_lineage_def demo_other_lineage_def)
  then have paths: "es_paths es = \<lparr>gr_values = Some demo_path_values, gr_failures = [], gr_inconsistencies = []\<rparr>"
    using compareConfigValues_Nil by (simp add: g agree_def Let_def)
  have rest: "es_network es = no_group" "es_compiler es = no_group" "es_settings es = not_requested"
    "es_chain es = not_requested" "es_pairing es = PairingOk"
    using parts(2-9) only demo_pairing by (auto simp: supplied_def no_group_def)
  show ?thesis
    by (simp add: r settle_environment_def all_unsatisfied_def all_inconsistencies_def only_required_def only paths rest
        group_unsatisfied_def no_group_def not_requested_def pairing_unsatisfied_def build_slots_def Let_def)
next
qed (simp_all add: read_slot_def own_slot_def slot_value_def demo_objects_def demo_object_def hasBearingHandle_def requirement_def supplied_def present_lineages_def networks_trap_def
    demo_host_parameters_def demo_lineages demo_lineage_def demo_other_lineage_def)

lemma demo_lineage_present:
  "demo_lineage \<in> set (present_lineages (lineages_of demo_objects demo_raw_handles))"
  by (simp add: demo_lineages present_lineages_def)

theorem exposed_values_are_every_lineages_witness:
  "\<exists>e v s t. resolveEnvironment demo_host_parameters demo_raw_handles [SlotPaths] [] = Inr e \<and>
     projectPathValues demo_objects demo_lineage s = (Inr v, t) \<and>
     sl_paths (en_slots e) = Some (buildProjectPaths v)"
proof -
  obtain e where e: "resolveEnvironment demo_host_parameters demo_raw_handles [SlotPaths] [] = Inr e"
    and n: "sl_paths (en_slots e) \<noteq> None"
    using demo_environment by (auto split: sum.splits)
  have "demo_lineage \<in> set (present_lineages (lineages_of (hp_heap demo_host_parameters) demo_raw_handles))"
    using demo_lineage_present by (simp add: demo_host_parameters_def)
  from exposed_values_are_every_lineages [OF e this] e n show ?thesis
    by (auto simp: demo_host_parameters_def)
qed

end
