(* ===== verification/InputDiagnose.thy ===== *)
theory InputDiagnose
  imports InputCauses Output
begin

text \<open>
  \<open>validation-input/diagnose.ts\<close> and the errors of \<open>validation-input/errors.ts\<close>: what a refusal says.
  \<open>diagnose\<close> renders a cause into a headline and a remedy, whatever the policy decides about it.

  The texts are those of the source.  A character that is not ASCII is written by the bytes of its
  UTF-8 encoding.
\<close>

section \<open>The texts\<close>

definition em_dash :: string where "em_dash = [CHR 0xE2, CHR 0x80, CHR 0x94]"
definition en_dash :: string where "en_dash = [CHR 0xE2, CHR 0x80, CHR 0x93]"

definition SUPPORTED_SOLC_min :: string where "SUPPORTED_SOLC_min = ''0.8.0''"
definition SUPPORTED_SOLC_max :: string where "SUPPORTED_SOLC_max = ''0.8.26''"

record diagnosis =
  dg_headline :: string
  dg_remedy :: string

datatype diagnosis_error = InvariantBroken string

definition diagnosis :: "string \<Rightarrow> string \<Rightarrow> diagnosis_error + diagnosis" where
  "diagnosis headline remedy =
     (if trim headline = [] \<or> trim remedy = []
      then Inl (InvariantBroken
             (''a diagnosis was constructed with an empty '' @
              (if trim headline = [] then ''headline'' else ''remedy'') @ ''.''))
      else Inr \<lparr>dg_headline = headline, dg_remedy = remedy\<rparr>)"

fun rejectionPhrase :: "rejection_reason \<Rightarrow> string" where
  "rejectionPhrase DeployedBytecodeDiffers = ''its deployed bytecode is not the artifact's''"
| "rejectionPhrase NothingToCompare =
     ''it carries no deployed bytecode to verify '' @ em_dash @
     '' an abstract contract or interface cannot be validated''"
| "rejectionPhrase AstClosureIncomplete = ''it lacks an AST for part of the contract's import closure''"
| "rejectionPhrase TargetDefinitionAbsent = ''its AST does not declare this contract''"
| "rejectionPhrase InputPairAbsent = ''its paired compiler-input file is missing''"
| "rejectionPhrase InputPairUnparseable = ''its paired compiler-input file is not valid JSON''"
| "rejectionPhrase InputPairUnusable = ''its paired compiler-input file is not the input of this record''"

fun renderRejections :: "rejection list \<Rightarrow> string" where
  "renderRejections [] = []"
| "renderRejections [x] = rj_file x @ '' ('' @ rejectionPhrase (rj_reason x) @ '')''"
| "renderRejections (x # y # xs) =
     rj_file x @ '' ('' @ rejectionPhrase (rj_reason x) @ '')'' @ ''; '' @ renderRejections (y # xs)"

section \<open>A cause, rendered\<close>

definition unsupported_compiler :: "string \<Rightarrow> string option \<Rightarrow> diagnosis_error + diagnosis" where
  "unsupported_compiler v flag =
     diagnosis
      (''This project compiles with Solidity '' @ v @
       '', which is outside the range tronbox-upgrades supports for upgrade-safety validation ('' @
       SUPPORTED_SOLC_min @ en_dash @ SUPPORTED_SOLC_max @
       ''). Validation interprets the compiler output TronBox recorded for this project, and this '' @
       ''plugin is verified only across that range.'' @
       (case flag of None \<Rightarrow> [] | Some f \<Rightarrow>
        '' The version came from the `'' @ f @ ''` flag in your TronBox config.''))
      (case flag of
         None \<Rightarrow> ''Set `compilers.solc.version` to a version between '' @ SUPPORTED_SOLC_min @ '' and '' @
           SUPPORTED_SOLC_max @ '', then run `tronbox compile`.''
       | Some f \<Rightarrow> ''Remove `'' @ f @ ''` from your TronBox config, set `compilers.solc.version` to a version between '' @
           SUPPORTED_SOLC_min @ '' and '' @ SUPPORTED_SOLC_max @ '', then run `tronbox compile`.'')"

definition unreadable_source :: "string \<Rightarrow> string \<Rightarrow> unreadable_because \<Rightarrow> diagnosis_error + diagnosis" where
  "unreadable_source key path because =
     diagnosis
      (''The source '' @ key @ '', which this contract's import closure needs, is '' @
       (if because = SourceMissing then ''not on disk'' else ''unreadable'') @ '' at '' @ path @ ''.'')
      (if because = SourceMissing
       then ''Restore '' @ path @ '', or remove the import that pulls it in, then run `tronbox compile`.''
       else ''Make '' @ path @ '' readable as UTF-8 text '' @ em_dash @
           '' check its file permissions and that it is not a directory or a '' @ ''broken symlink.'')"

definition unresolvable_import :: "string \<Rightarrow> string \<Rightarrow> diagnosis_error + diagnosis" where
  "unresolvable_import specifier importedBy =
     diagnosis
      (importedBy @ '' refers to \"'' @ specifier @
       ''\", which does not resolve to a source of this project. The validation reads this '' @
       ''contract's whole import closure out of the build record TronBox wrote, so a reference '' @
       ''that cannot be resolved stops it before the record is consulted.'')
      (''Fix the reference to \"'' @ specifier @ ''\" in '' @ importedBy @
       '': local files must start with `./` or `../` and stay inside the contracts directory, and '' @
       ''an npm import must look like `package/path.sol` or `@scope/package/path.sol` with the '' @
       ''package installed.'')"

definition unsupported_artifact :: "string \<Rightarrow> string \<Rightarrow> string \<Rightarrow> diagnosis_error + diagnosis" where
  "unsupported_artifact contract missingField providedSince =
     diagnosis
      (''The compiled artifact for '' @ contract @ '' carries no `'' @ missingField @
       ''`, which upgrade-safety validation needs in order to tie the build record TronBox wrote '' @
       ''to the bytecode that is about to be deployed.'')
      (''Upgrade TronBox to '' @ providedSince @ '' or later '' @ em_dash @
       '' that is the oldest version verified to write `'' @ missingField @ ''` into every artifact '' @ em_dash @
       '' then run `tronbox compile`.'')"

definition absent_record :: "absent_because \<Rightarrow> diagnosis_error + diagnosis" where
  "absent_record because =
     diagnosis
      (''TronBox's build-info directory '' @
       (case because of
           DirectoryAbsent \<Rightarrow> ''does not exist''
         | DirectoryUnreadable \<Rightarrow> ''could not be read''
         | NoRecordForTarget \<Rightarrow> ''holds no build record for this contract'') @
       '', so there is no record of the compile that produced this artifact. Upgrade-safety '' @
       ''validation reads storage information out of that record and never compiles on its own, so '' @
       ''without one there is nothing to validate from.'')
      (''Run `tronbox compile --all` and retry: the `--all` flag forces recompilation of unchanged '' @
       ''sources, so the remedy works for any compilable concrete contract '' @ em_dash @ '' a build record is '' @
       ''written even when TronBox considers the project up to date.'')"

definition stale_record :: "rejection list \<Rightarrow> diagnosis_error + diagnosis" where
  "stale_record rejected =
     diagnosis
      (''Every build record found for this contract was rejected: '' @ renderRejections rejected @
       ''. None of them describes the compiled artifact that is about to be deployed, so '' @
       ''validating from them would check the wrong program.'')
      (''Run `tronbox compile --all` and retry: the `--all` flag forces recompilation of unchanged '' @
       ''sources, so stale build records are regenerated from the same compile as the artifact.'' @
       (if list_ex (\<lambda>x. rj_reason x = NothingToCompare) rejected
        then '' If the target is an abstract contract or interface, select a concrete deployable '' @
         ''contract instead: recompilation cannot create deployed bytecode for it.'' else []))"

definition long_library_name :: "string \<Rightarrow> nat \<Rightarrow> band \<Rightarrow> diagnosis_error + diagnosis" where
  "long_library_name libraryName len band =
     diagnosis
      (''The library '' @ libraryName @ '' has a '' @ decimal len @
       ''-character name, and TronBox writes library placeholders into a fixed 40-character field '' @
       ''without truncating'' @
       (if band = Band39Up
        then ''. At '' @ decimal len @
         '' characters the placeholder overruns that field, so the artifact's own bytecode is no '' @
         ''longer what the compiler produced''
        else ''. At '' @ decimal len @
         '' characters the placeholder no longer has the trailing underscores upgrades-core needs to '' @
         ''recognise it, so no contract identity can be computed'') @
       ''.'')
      (''Rename '' @ libraryName @ '' to '' @ decimal MAX_LIBRARY_NAME_LENGTH @
       '' characters or fewer and run `tronbox compile`.'')"

fun diagnose :: "cause \<Rightarrow> diagnosis_error + diagnosis" where
  "diagnose (CompilerUnsupported v flag) = unsupported_compiler v flag"
| "diagnose (SourceUnreadable key path because) = unreadable_source key path because"
| "diagnose (ImportUnresolvable specifier importedBy) = unresolvable_import specifier importedBy"
| "diagnose (ArtifactShapeUnsupported contract missingField providedSince) =
     unsupported_artifact contract missingField providedSince"
| "diagnose (BuildRecordAbsent because) = absent_record because"
| "diagnose (BuildRecordStale rejected) = stale_record rejected"
| "diagnose (LibraryNameUnsupported libraryName len band) = long_library_name libraryName len band"

text \<open>The two errors of \<open>errors.ts\<close>: the message of a broken invariant and of a refusal.\<close>

definition invariant_message :: "string \<Rightarrow> string" where
  "invariant_message detail =
     ''tronbox-upgrades broke one of its own invariants while deriving a validation input: '' @ detail @
     '' This is a bug in the plugin, not in your project. '' @
     ''Please report it with the contract you were validating.''"

definition refused_message :: "diagnosis \<Rightarrow> string" where
  "refused_message d = dg_headline d @ '' '' @ dg_remedy d"

section \<open>Every diagnosis names its cause and its remedy\<close>

definition visible :: "string \<Rightarrow> bool" where
  "visible s \<longleftrightarrow> list_ex (\<lambda>c. \<not> is_space c) s"

lemma trim_visible: "trim s = [] \<longleftrightarrow> \<not> visible s"
proof -
  have "trim s = [] \<longleftrightarrow> (\<forall>c \<in> set (dropWhile is_space s). is_space c)"
    by (simp add: trim_def trim_end_def)
  also have "\<dots> \<longleftrightarrow> (\<forall>c \<in> set s. is_space c)"
    by (induction s) auto
  finally show ?thesis by (auto simp: visible_def list_ex_iff)
qed

named_theorems naming_intros \<open>where a text is visible and what it names\<close>

lemma visible_here [naming_intros]: "\<not> is_space c \<Longrightarrow> visible ((c # s) @ t)" "\<not> is_space c \<Longrightarrow> visible (c # s)"
  by (simp_all add: visible_def)

lemma visible_later: "visible t \<Longrightarrow> visible (s @ t)"
  by (auto simp: visible_def)

lemma names_here [naming_intros]: "js_includes x (x @ s)"
  by (simp add: js_includes_sublist)

lemma names_later: "js_includes x t \<Longrightarrow> js_includes x (s @ t)"
  by (simp add: js_includes_sublist sublist_append)

lemma names_inside: "js_includes x s \<Longrightarrow> js_includes x (s @ t)"
  by (simp add: js_includes_sublist sublist_append)

lemma rejections_named:
  "x \<in> set rs \<Longrightarrow> js_includes (rj_file x) (renderRejections rs) \<and>
     js_includes (rejectionPhrase (rj_reason x)) (renderRejections rs)"
proof (induction rs rule: renderRejections.induct)
  case (2 y)
  then show ?case
    by (simp only: renderRejections.simps set_simps insert_iff empty_iff)
      (elim disjE; intro conjI; simp only: ; (rule names_here | rule names_later names_later names_here | assumption)+)
next
  case (3 y z ys)
  have rest: "js_includes v (renderRejections (y # z # ys))" if "js_includes v (renderRejections (z # ys))" for v
    unfolding renderRejections.simps using that by (intro names_later)
  have here: "js_includes (rj_file y) (renderRejections (y # z # ys))"
    "js_includes (rejectionPhrase (rj_reason y)) (renderRejections (y # z # ys))"
    unfolding renderRejections.simps by (rule names_here | rule names_later [OF names_later [OF names_here]])+
  show ?case using 3 rest here by (cases "x = y") auto
qed simp

text \<open>What a cause is about: the strings its headline has to show.\<close>

fun concerns :: "cause \<Rightarrow> string list" where
  "concerns (CompilerUnsupported v flag) = v # (case flag of None \<Rightarrow> [] | Some f \<Rightarrow> [f])"
| "concerns (SourceUnreadable key path because) = [key, path]"
| "concerns (ImportUnresolvable specifier importedBy) = [specifier, importedBy]"
| "concerns (ArtifactShapeUnsupported contract missingField providedSince) = [contract, missingField]"
| "concerns (BuildRecordAbsent because) = []"
| "concerns (BuildRecordStale rejected) = concat (map (\<lambda>x. [rj_file x, rejectionPhrase (rj_reason x)]) rejected)"
| "concerns (LibraryNameUnsupported libraryName len band) = [libraryName, decimal len]"

lemma diagnosis_visible: "visible h \<Longrightarrow> visible r \<Longrightarrow> diagnosis h r = Inr \<lparr>dg_headline = h, dg_remedy = r\<rparr>"
  by (simp add: diagnosis_def trim_visible)

text \<open>The two texts of a cause, and what they show.\<close>

definition told :: "diagnosis_error + diagnosis \<Rightarrow> string list \<Rightarrow> bool" where
  "told r xs \<longleftrightarrow> (\<exists>g. r = Inr g \<and> visible (dg_headline g) \<and> visible (dg_remedy g) \<and>
     (\<forall>x \<in> set xs. js_includes x (dg_headline g)))"

lemma toldI:
  "visible h \<Longrightarrow> visible r \<Longrightarrow> list_all (\<lambda>x. js_includes x h) xs \<Longrightarrow> told (diagnosis h r) xs"
  by (simp add: told_def diagnosis_visible list_all_iff)

lemma told_compiler: "told (diagnose (CompilerUnsupported v flag)) (concerns (CompilerUnsupported v flag))"
  unfolding diagnose.simps unsupported_compiler_def concerns.simps
  by (cases flag; simp only: option.case; rule toldI, simp add: visible_def is_space_def, simp add: visible_def is_space_def,
      simp only: list.pred_inject, intro conjI TrueI; (rule names_here | rule names_later)+)

lemma told_source: "told (diagnose (SourceUnreadable key path because)) (concerns (SourceUnreadable key path because))"
  unfolding diagnose.simps unreadable_source_def concerns.simps
  by (rule toldI, simp add: visible_def is_space_def, simp add: visible_def is_space_def,
      simp only: list.pred_inject, intro conjI TrueI; (rule names_here | rule names_later)+)

lemma told_import: "told (diagnose (ImportUnresolvable specifier importedBy)) (concerns (ImportUnresolvable specifier importedBy))"
  unfolding diagnose.simps unresolvable_import_def concerns.simps
  by (rule toldI, simp add: visible_def is_space_def, simp add: visible_def is_space_def,
      simp only: list.pred_inject, intro conjI TrueI; (rule names_here | rule names_later)+)

lemma told_artifact: "told (diagnose (ArtifactShapeUnsupported contract missingField providedSince)) (concerns (ArtifactShapeUnsupported contract missingField providedSince))"
  unfolding diagnose.simps unsupported_artifact_def concerns.simps
  by (rule toldI, simp add: visible_def is_space_def, simp add: visible_def is_space_def,
      simp only: list.pred_inject, intro conjI TrueI; (rule names_here | rule names_later)+)

lemma told_library: "told (diagnose (LibraryNameUnsupported libraryName len band)) (concerns (LibraryNameUnsupported libraryName len band))"
  unfolding diagnose.simps long_library_name_def concerns.simps
  by (rule toldI, simp add: visible_def is_space_def, simp add: visible_def is_space_def,
      simp only: list.pred_inject, intro conjI TrueI; (rule names_here | rule names_later)+)

lemma told_absent: "told (diagnose (BuildRecordAbsent because)) (concerns (BuildRecordAbsent because))"
  unfolding diagnose.simps absent_record_def concerns.simps
  by (rule toldI) (simp_all add: visible_def is_space_def)

lemma told_stale: "told (diagnose (BuildRecordStale rejected)) (concerns (BuildRecordStale rejected))"
  unfolding diagnose.simps stale_record_def
proof (rule toldI)
  show "list_all (\<lambda>x. js_includes x (''Every build record found for this contract was rejected: '' @ renderRejections rejected @
       ''. None of them describes the compiled artifact that is about to be deployed, so '' @
       ''validating from them would check the wrong program.'')) (concerns (BuildRecordStale rejected))"
    unfolding list_all_iff
  proof
    fix x assume "x \<in> set (concerns (BuildRecordStale rejected))"
    then have "js_includes x (renderRejections rejected)" by (auto simp: rejections_named)
    then show "js_includes x (''Every build record found for this contract was rejected: '' @ renderRejections rejected @
       ''. None of them describes the compiled artifact that is about to be deployed, so '' @
       ''validating from them would check the wrong program.'')"
      by (rule names_later [OF names_inside])
  qed
qed (simp_all add: visible_def is_space_def)

lemmas told = told_compiler told_source told_import told_artifact told_absent told_stale told_library

lemma every_cause_is_told: "told (diagnose c) (concerns c)"
  by (cases c) (simp_all only: told)

text \<open>The texts of the remedies of two kinds differ before anything is filled in.\<close>

definition remedy_of :: "diagnosis_error + diagnosis \<Rightarrow> string" where
  "remedy_of r = (case r of Inl _ \<Rightarrow> [] | Inr g \<Rightarrow> dg_remedy g)"

lemma remedy_of_diagnosis: "told (diagnosis h r) xs \<Longrightarrow> remedy_of (diagnosis h r) = r"
  by (auto simp: told_def remedy_of_def diagnosis_def split: if_splits)

fun stems :: "cause \<Rightarrow> string list" where
  "stems (CompilerUnsupported _ _) = [''Set'', ''Remove'']"
| "stems (SourceUnreadable _ _ _) = [''Restore'', ''Make'']"
| "stems (ImportUnresolvable _ _) = [''Fix'']"
| "stems (ArtifactShapeUnsupported _ _ _) = [''Upgrade'']"
| "stems (BuildRecordAbsent _) =
     [''Run `tronbox compile --all` and retry: the `--all` flag forces recompilation of unchanged '' @ ''sources, so the'']"
| "stems (BuildRecordStale _) =
     [''Run `tronbox compile --all` and retry: the `--all` flag forces recompilation of unchanged '' @ ''sources, so stale'']"
| "stems (LibraryNameUnsupported _ _ _) = [''Rename'']"

lemma remedy_stem: "\<exists>p \<in> set (stems c). prefix p (remedy_of (diagnose c))"
proof (cases c)
  case (CompilerUnsupported v flag)
  then show ?thesis using told_compiler [of v flag]
    by (auto simp: unsupported_compiler_def dest!: remedy_of_diagnosis split: option.split)
next
  case (SourceUnreadable key path b)
  then show ?thesis using told_source [of key path b]
    by (auto simp: unreadable_source_def dest!: remedy_of_diagnosis)
next
  case (ImportUnresolvable specifier importedBy)
  then show ?thesis using told_import [of specifier importedBy]
    by (auto simp: unresolvable_import_def dest!: remedy_of_diagnosis)
next
  case (ArtifactShapeUnsupported contract missingField providedSince)
  then show ?thesis using told_artifact [of contract missingField providedSince]
    by (auto simp: unsupported_artifact_def dest!: remedy_of_diagnosis)
next
  case (BuildRecordAbsent b)
  then show ?thesis using told_absent [of b] by (auto simp: absent_record_def dest!: remedy_of_diagnosis)
next
  case (BuildRecordStale rejected)
  then show ?thesis using told_stale [of rejected] by (auto simp: stale_record_def dest!: remedy_of_diagnosis)
next
  case (LibraryNameUnsupported libraryName len band)
  then show ?thesis using told_library [of libraryName len band]
    by (auto simp: long_library_name_def dest!: remedy_of_diagnosis)
qed

definition apart :: "string list \<Rightarrow> string list \<Rightarrow> bool" where
  "apart ps qs \<longleftrightarrow> list_all (\<lambda>p. list_all (\<lambda>q. \<not> prefix p q \<and> \<not> prefix q p) qs) ps"

lemma stems_apart: "cause_kind c \<noteq> cause_kind d \<Longrightarrow> apart (stems c) (stems d)"
  by (cases c; cases d) (simp_all add: apart_def)

lemma remedies_differ:
  assumes "cause_kind c \<noteq> cause_kind d"
  shows "remedy_of (diagnose c) \<noteq> remedy_of (diagnose d)"
proof
  assume same: "remedy_of (diagnose c) = remedy_of (diagnose d)"
  obtain p q where pq: "p \<in> set (stems c)" "q \<in> set (stems d)"
    "prefix p (remedy_of (diagnose c))" "prefix q (remedy_of (diagnose c))"
    using remedy_stem [of c] remedy_stem [of d] same by auto
  then have "prefix p q \<or> prefix q p" by (metis prefix_same_cases)
  then show False using stems_apart [OF assms] pq(1,2) by (auto simp: apart_def list_all_iff)
qed

text \<open>
  Every cause has a diagnosis of its own.  Rendering never fails and never gives a blank text; the
  headline shows every string the cause carries (the sources, the library, each rejected record with
  its reason); and two causes of different kinds never prescribe the same remedy.
\<close>

theorem every_cause_has_its_own_diagnosis:
  "case diagnose c of
     Inl _ \<Rightarrow> False
   | Inr g \<Rightarrow> visible (dg_headline g) \<and> visible (dg_remedy g) \<and>
       list_all (\<lambda>x. js_includes x (dg_headline g)) (concerns c) \<and>
       (case diagnose d of
          Inl _ \<Rightarrow> False
        | Inr h \<Rightarrow> if cause_kind c = cause_kind d then True else dg_remedy g \<noteq> dg_remedy h)"
  using every_cause_is_told [of c] every_cause_is_told [of d] remedies_differ [of c d]
  by (auto simp: told_def remedy_of_def list_all_iff)

end
