(* ===== verification/ProxyAssembly.thy ===== *)
theory ProxyAssembly
  imports InputPipeline ProxyToolkit EnvSettle InputDiagnose
begin

text \<open>
  \<open>createOperationToolkit\<close> of \<open>proxy/toolkit.ts\<close>: how an operation's context is put together from
  the components, in the order of the source, and the toolkit's \<open>validateImplementation\<close>, which
  composes the validation input, the engine and the artifacts.

  The engine (\<open>@openzeppelin/upgrades-core\<close>), ethers' \<open>Interface\<close> and the module loader are
  parameters.  \<open>assembly_state\<close> is what outlives an operation: the process environment, the engine module
  once it is loaded with the record directory it read while loading, and the world.
\<close>

section \<open>The validation of an implementation\<close>

record engine_functions =
  ng_decoder :: "js \<Rightarrow> js \<Rightarrow> js + js"
  ng_validate :: "js \<Rightarrow> js \<Rightarrow> string \<Rightarrow> js \<Rightarrow> (js, js) engine_call"
  ng_unlinked :: "js \<Rightarrow> string \<Rightarrow> js + string"
  ng_encodeDeploy :: "hval option \<Rightarrow> js list \<Rightarrow> js + string"
  ng_version :: "string \<Rightarrow> string \<Rightarrow> string \<Rightarrow> js + js"
  ng_inferKind :: "js \<Rightarrow> js \<Rightarrow> js + string"
  ng_errors :: "js \<Rightarrow> js \<Rightarrow> validation \<Rightarrow> string \<Rightarrow> (js list, js) engine_call"
  ng_layout :: "js \<Rightarrow> js \<Rightarrow> js + js"

datatype validation_failure =
    VfPipeline pipeline_error
  | VfRefused cause
  | VfCapture "js capture_error"
  | VfEngine js
  | VfAbiRaised
  | VfArtifactFields "record_field list"
  | VfUnsafe string "js list"

record validated_implementation =
  vd_name :: string
  vd_input :: InputPipeline.validation_input
  vd_validations :: js
  vd_version :: js
  vd_layout :: js
  vd_encodedArgs :: string

type_synonym 'a vio = "(pipe_state, validation_failure, 'a) io"

definition in_pipe :: "'a pipe \<Rightarrow> 'a vio" where
  "in_pipe m s = (case m s of (r, t) \<Rightarrow> (map_sum VfPipeline id r, t))"

definition engine :: "js + 'a \<Rightarrow> 'a vio" where
  "engine r = lift_io (map_sum VfEngine id r)"

definition captured :: "pipeline_env \<Rightarrow> string \<Rightarrow> ('v, js) engine_call \<Rightarrow> 'v vio" where
  "captured env call fn s =
     (case captureEngineWarnings (vn_facts env) call fn (pi_process s) of
        (r, p) \<Rightarrow> (map_sum VfCapture id r, s\<lparr>pi_process := p\<rparr>))"

text \<open>The operation's own statement, for a name whose collisions could not be checked.\<close>

definition indeterminate_note :: "string \<Rightarrow> note_input" where
  "indeterminate_note contract =
     \<lparr>ni_code = ArtifactNameIndeterminate,
      ni_summary = contract @ '': the build-info index could not be built, so artifact-name collisions could not be checked.'',
      ni_detail = Some [''The abstraction still came from the host resolver for this exact name.''],
      ni_remedy = ''Run `tronbox compile --all` to rebuild the build-info directory, or rename the colliding contract.''\<rparr>"

fun abstraction_of :: "EnvArtifacts.resolution \<Rightarrow> hval" where
  "abstraction_of (UniqueArtifact _ c _) = c"
| "abstraction_of (AmbiguousArtifact _ _ c) = c"
| "abstraction_of (IndeterminateArtifact _ _ c) = c"

fun is_indeterminate :: "EnvArtifacts.resolution \<Rightarrow> bool" where
  "is_indeterminate (IndeterminateArtifact _ _ _) = True"
| "is_indeterminate _ = False"

definition resolved_abstraction :: "pipeline_env \<Rightarrow> string \<Rightarrow> hval vio" where
  "resolved_abstraction env contract =
     bind_io (in_pipe (on_access (resolve_artifact (vn_host env) (vn_paths env) (JStr contract)))) (\<lambda>r.
     bind_io (if is_indeterminate r then in_pipe (state_note env (indeterminate_note contract)) else return_io ()) (\<lambda>_.
       return_io (abstraction_of r)))"

definition complete_record :: "pipeline_env \<Rightarrow> hval \<Rightarrow> artifact_record vio" where
  "complete_record env c =
     bind_io (in_pipe (on_access (record_artifact (vn_host env) c))) (\<lambda>report.
       case report of
         RecordComplete r _ _ \<Rightarrow> return_io r
       | RecordIncomplete missing _ _ \<Rightarrow> throw_io (VfArtifactFields missing))"

text \<open>\<open>abstraction.abi ?? []\<close>: none where the property is missing or nullish.\<close>

definition abi_of :: "pipeline_env \<Rightarrow> hval \<Rightarrow> hval option vio" where
  "abi_of env c =
     (case fst (readProperty (ah_heap (vn_host env)) c ''abi'' ''abi'' [] :: (unit + property_read) \<times> paths_read) of
        Inr (ReadOk v) \<Rightarrow> return_io (if v = VUndef \<or> v = VNull then None else Some v)
      | Inr ReadMissing \<Rightarrow> return_io None
      | _ \<Rightarrow> throw_io VfAbiRaised)"

definition kind_for_errors :: "engine_functions \<Rightarrow> resolved \<Rightarrow> js \<Rightarrow> js \<Rightarrow> string vio" where
  "kind_for_errors ng r validations version =
     (case r_kind r of Some k \<Rightarrow> return_io k | None \<Rightarrow> engine (ng_inferKind ng validations version))"

definition run_validation :: "engine_functions \<Rightarrow> pipeline_env \<Rightarrow> InputPipeline.validation_input \<Rightarrow> js vio" where
  "run_validation ng env i =
     bind_io (engine (ng_decoder ng (vi_solcInput i) (vi_solcOutput i))) (\<lambda>decoder.
       captured env ''validate'' (ng_validate ng (vi_solcOutput i) decoder (vi_solcVersion i) (vi_solcInput i)))"

definition version_of ::
  "engine_functions \<Rightarrow> pipeline_env \<Rightarrow> resolved \<Rightarrow> js \<Rightarrow> hval \<Rightarrow> artifact_record \<Rightarrow> (js \<times> string) vio" where
  "version_of ng env r validations c record =
     bind_io (engine (ng_unlinked ng validations (ar_bytecode record))) (\<lambda>unlinked.
     bind_io (abi_of env c) (\<lambda>abi.
     bind_io (engine (ng_encodeDeploy ng abi (r_constructorArgs r))) (\<lambda>encodedArgs.
     bind_io (engine (ng_version ng unlinked (ar_bytecode record) encodedArgs)) (\<lambda>version.
       return_io (version, encodedArgs)))))"

definition judge_errors ::
  "engine_functions \<Rightarrow> pipeline_env \<Rightarrow> string \<Rightarrow> resolved \<Rightarrow> js \<Rightarrow> js \<Rightarrow> unit vio" where
  "judge_errors ng env contract r validations version =
     bind_io (kind_for_errors ng r validations version) (\<lambda>kind.
     bind_io (captured env ''getErrors'' (ng_errors ng validations version (engineValidationOptions r) kind)) (\<lambda>errors.
       if errors \<noteq> [] then throw_io (VfUnsafe contract errors) else return_io ()))"

definition validate_input ::
  "engine_functions \<Rightarrow> pipeline_env \<Rightarrow> string \<Rightarrow> resolved \<Rightarrow> InputPipeline.validation_input \<Rightarrow> validated_implementation vio" where
  "validate_input ng env contract r i =
     bind_io (run_validation ng env i) (\<lambda>validations.
     bind_io (resolved_abstraction env contract) (\<lambda>c.
     bind_io (complete_record env c) (\<lambda>record.
     bind_io (version_of ng env r validations c record) (\<lambda>(version, encodedArgs).
     bind_io (judge_errors ng env contract r validations version) (\<lambda>_.
     bind_io (engine (ng_layout ng validations version)) (\<lambda>layout.
       return_io \<lparr>vd_name = contract, vd_input = i, vd_validations = validations, vd_version = version,
         vd_layout = layout, vd_encodedArgs = encodedArgs\<rparr>))))))"

text \<open>\<open>None\<close>: the walk of the import graph does not return.\<close>

definition validateContract ::
  "engine_functions \<Rightarrow> pipeline_env \<Rightarrow> string \<Rightarrow> resolved \<Rightarrow> pipe_state \<Rightarrow>
   ((validation_failure + validated_implementation) \<times> pipe_state) option" where
  "validateContract ng env contract r s =
     (case deriveValidationInput env contract s of
        None \<Rightarrow> None
      | Some (Inl e, t) \<Rightarrow> Some (Inl (VfPipeline e), t)
      | Some (Inr (Refused c), t) \<Rightarrow> Some (Inl (VfRefused c), t)
      | Some (Inr (ProducedInput i), t) \<Rightarrow> Some (validate_input ng env contract r i t))"

section \<open>The assembly\<close>

datatype toolkit_mode = StateChanging | ValidateOnly

definition VALIDATE_ONLY_SLOTS :: "slot list" where
  "VALIDATE_ONLY_SLOTS = [SlotPaths, SlotNetwork, SlotArtifacts, SlotOutput, SlotCompiler]"

definition REQUIRED_SLOTS :: "slot list" where
  "REQUIRED_SLOTS = [SlotPaths, SlotNetwork, SlotArtifacts, SlotChain, SlotReceipts, SlotOutput, SlotCompiler]"

definition required_slots :: "toolkit_mode \<Rightarrow> slot list" where
  "required_slots mode = (if mode = ValidateOnly then VALIDATE_ONLY_SLOTS else REQUIRED_SLOTS)"

definition optional_slots :: "toolkit_mode \<Rightarrow> slot list" where
  "optional_slots mode = (if mode = ValidateOnly then [] else [SlotScheduling])"

record toolkit_request =
  rq_handles :: raw_handles
  rq_rawOptions :: js
  rq_acceptedOptions :: "string list"
  rq_mode :: "toolkit_mode option"
  rq_addresses :: "named_address list option"

datatype toolkit_error =
    TkEnvironment env_error
  | TkTypeError
  | TkRecord record_error
  | TkChain access_error
  | TkOptions option_error
  | TkNotInThisMode string

text \<open>
  The connection to a chain: its endpoint, its transport and the state of the access.  \<open>tk_deps\<close>
  wires the record's dependencies to it; the root and the addresses are the operation's.
\<close>

type_synonym 'w connection = "descriptor \<times> transport \<times> 'w chan ChainAccess.access"

record 'w toolkit_host =
  tk_parameters :: host_parameters
  tk_paths :: paths
  tk_handle :: "hval \<Rightarrow> host_value"
  tk_parse :: "string \<Rightarrow> url option"
  tk_globalFetch :: bool
  tk_post :: "transport \<Rightarrow> js \<Rightarrow> ('w, js, js) io"
  tk_native :: "('w chan, js, js) io"
  tk_deps :: "'w connection \<Rightarrow> 'w deps"
  tk_defaults :: "Options.validation_input \<Rightarrow> validation"

record 'w assembly_state =
  am_env :: env
  am_engine :: "string option option"
  am_world :: 'w

record 'w operation_context =
  oc_environment :: environment
  oc_chain :: "'w connection option"
  oc_session :: "session option"
  oc_resolved :: resolved

type_synonym ('w, 'a) tio = "('w assembly_state, toolkit_error, 'a) io"

definition configure_location :: "'w toolkit_host \<Rightarrow> string \<Rightarrow> ('w, string) tio" where
  "configure_location tk root s =
     (case configureRecordLocation (tk_paths tk) root (am_env s) of
        (r, e) \<Rightarrow> (map_sum TkRecord id r, s\<lparr>am_env := e\<rparr>))"

definition connect :: "'w toolkit_host \<Rightarrow> hval \<Rightarrow> ('w, 'w connection) tio" where
  "connect tk handle s =
     (case createChainAccess (tk_parse tk) (tk_globalFetch tk) (tk_handle tk handle) None (am_env s) False
             (tk_post tk) (tk_native tk) (am_world s) of
        (r, w) \<Rightarrow> (map_sum TkChain id r, s\<lparr>am_world := w\<rparr>))"

text \<open>The first import runs the module, which reads the directory; later ones find it loaded.\<close>

definition load_engine :: "('w, unit) tio" where
  "load_engine s =
     (Inr (), if am_engine s = None then s\<lparr>am_engine := Some (am_env s MANIFEST_DIR_VAR)\<rparr> else s)"

text \<open>
  The record is opened over the same process environment, which is configured by now and which it
  leaves as it is (\<open>configured_once\<close> below).  It imports the engine itself, between its own
  configuration and its first use of it, while nothing writes the environment: at its entry here.
\<close>

definition open_record ::
  "'w toolkit_host \<Rightarrow> string \<Rightarrow> 'w connection \<Rightarrow> named_address list \<Rightarrow> ('w, session) tio" where
  "open_record tk root chain addresses =
     bind_io load_engine (\<lambda>_ s.
       (case openRecord ((tk_deps tk chain)\<lparr>dp_root := root, dp_paths := tk_paths tk, dp_addresses := addresses\<rparr>)
               \<lparr>rs_env = am_env s, rs_world = am_world s, rs_trace = []\<rparr> of
          (r, t) \<Rightarrow> (map_sum TkRecord id r, s\<lparr>am_world := rs_world t\<rparr>)))"

definition needed :: "'a option \<Rightarrow> ('w, 'a) tio" where
  "needed v = (case v of None \<Rightarrow> throw_io TkTypeError | Some x \<Rightarrow> return_io x)"

definition mode_of :: "toolkit_request \<Rightarrow> toolkit_mode" where
  "mode_of rq = (case rq_mode rq of None \<Rightarrow> StateChanging | Some m \<Rightarrow> m)"

definition environment_of :: "'w toolkit_host \<Rightarrow> toolkit_request \<Rightarrow> toolkit_error + environment" where
  "environment_of tk rq =
     map_sum TkEnvironment id
       (resolveEnvironment (tk_parameters tk) (rq_handles rq) (required_slots (mode_of rq)) (optional_slots (mode_of rq)))"

text \<open>The chain and the record over it; neither in the mode that changes nothing.\<close>

definition attach ::
  "'w toolkit_host \<Rightarrow> toolkit_request \<Rightarrow> environment \<Rightarrow> string \<Rightarrow> ('w, 'w connection option \<times> session option) tio" where
  "attach tk rq env root =
     (if mode_of rq = ValidateOnly then return_io (None, None)
      else
        bind_io (needed (sl_chain (en_slots env))) (\<lambda>handle.
        bind_io (connect tk handle) (\<lambda>chain.
        bind_io (open_record tk root chain (case rq_addresses rq of None \<Rightarrow> [] | Some as \<Rightarrow> as)) (\<lambda>session.
          return_io (Some chain, Some session)))))"

definition resolve_options :: "'w toolkit_host \<Rightarrow> toolkit_request \<Rightarrow> ('w, resolved) tio" where
  "resolve_options tk rq =
     lift_io (map_sum TkOptions id (resolveUpgradeOptions (tk_defaults tk) (rq_rawOptions rq) (rq_acceptedOptions rq)))"

definition createOperationToolkit :: "'w toolkit_host \<Rightarrow> toolkit_request \<Rightarrow> ('w, 'w operation_context) tio" where
  "createOperationToolkit tk rq =
     bind_io (lift_io (environment_of tk rq)) (\<lambda>env.
     bind_io (needed (sl_paths (en_slots env))) (\<lambda>paths.
     bind_io (configure_location tk (pp_root paths)) (\<lambda>_.
     bind_io (attach tk rq env (pp_root paths)) (\<lambda>(chain, session).
     bind_io load_engine (\<lambda>_.
     bind_io (resolve_options tk rq) (\<lambda>resolved.
       return_io \<lparr>oc_environment = env, oc_chain = chain, oc_session = session, oc_resolved = resolved\<rparr>))))))"

text \<open>What the members of the toolkit do where the mode gave them nothing to work with.\<close>

definition requireChain :: "'w operation_context \<Rightarrow> toolkit_error + 'w connection" where
  "requireChain oc = (case oc_chain oc of None \<Rightarrow> Inl (TkNotInThisMode ''chain access'') | Some c \<Rightarrow> Inr c)"

definition requireSession :: "'w operation_context \<Rightarrow> toolkit_error + session" where
  "requireSession oc = (case oc_session oc of None \<Rightarrow> Inl (TkNotInThisMode ''the record session'') | Some x \<Rightarrow> Inr x)"

text \<open>The stand-in's trap: any member of it raises, named with the stand-in.\<close>

definition stub_member :: "string \<Rightarrow> string \<Rightarrow> toolkit_error" where
  "stub_member name property = TkNotInThisMode (name @ ''.'' @ property)"

text \<open>The refusal of the wait carries the \<open>name\<close> of an anonymous function, not the sentence.\<close>

definition notInThisMode :: "string \<Rightarrow> string" where
  "notInThisMode member =
     ''internal error: '' @ member @ '' was reached from a validate-only operation '' @ em_dash @
     '' this is a bug in @openzeppelin/tronbox-upgrades, please report it''"

definition anonymous_name :: string where
  "anonymous_name = []"

definition bound_wait :: "'w operation_context \<Rightarrow> ('w, js, js) io \<Rightarrow> ('w, js, js) io" where
  "bound_wait oc receipts =
     (case sl_receipts (en_slots (oc_environment oc)) of
        None \<Rightarrow> throw_io (JObj [(''message'', JStr anonymous_name)])
      | Some _ \<Rightarrow> receipts)"

section \<open>One directory for the engine and the record\<close>

text \<open>Once configured, every later configuration, whatever its root, gives the same directory.\<close>

lemma configured_once:
  assumes "configureRecordLocation ps root env = (Inr d, env')" and "\<not> isAbsolute ps []"
  shows "env' MANIFEST_DIR_VAR = Some d \<and> isAbsolute ps d \<and> configureRecordLocation ps root2 env' = (Inr d, env')"
proof (cases "\<exists>c cs. env MANIFEST_DIR_VAR = Some (c # cs)")
  case True
  then show ?thesis using assms(1) by (auto simp: configureRecordLocation_def split: if_splits)
next
  case False
  then have "configureRecordLocation ps root env =
      (let dir = join ps [root, ''.openzeppelin'']
       in if \<not> isAbsolute ps dir then (Inl (RecLocation AnchorNotAbsolute), env) else (Inr dir, env(MANIFEST_DIR_VAR \<mapsto> dir)))"
    by (auto simp: configureRecordLocation_def split: option.split list.split)
  then have d: "d = join ps [root, ''.openzeppelin'']" "isAbsolute ps d" "env' = env(MANIFEST_DIR_VAR \<mapsto> d)"
    using assms(1) by (auto simp: Let_def split: if_splits)
  obtain c cs where dd: "d = c # cs" using d(2) assms(2) by (cases d) auto
  have "env' MANIFEST_DIR_VAR = Some d" using d(3) by simp
  then show ?thesis using d(2) unfolding dd by (simp add: configureRecordLocation_def)
qed

lemma configuration_failed: "configureRecordLocation ps root env = (Inl e, env') \<Longrightarrow> env' = env"
  by (auto simp: configureRecordLocation_def Let_def split: option.splits list.splits if_splits)

definition located :: "'w toolkit_host \<Rightarrow> string \<Rightarrow> 'w assembly_state \<Rightarrow> bool" where
  "located tk d s \<longleftrightarrow>
     am_env s MANIFEST_DIR_VAR = Some d \<and> isAbsolute (tk_paths tk) d \<and>
     (case am_engine s of None \<Rightarrow> True | Some v \<Rightarrow> v = Some d)"

definition settled_location :: "'w toolkit_host \<Rightarrow> 'w assembly_state \<Rightarrow> bool" where
  "settled_location tk s \<longleftrightarrow> am_engine s = None \<or> (\<exists>d. located tk d s)"

definition maintains :: "('s \<Rightarrow> bool) \<Rightarrow> ('s, 'e, 'a) io \<Rightarrow> bool" where
  "maintains I m \<longleftrightarrow> (\<forall>s. I s \<longrightarrow> I (snd (m s)))"

named_theorems maintain_intros \<open>rules that carry an invariant of the assembly through its steps\<close>

lemma maintains_basic [maintain_intros]:
  "maintains I (return_io x)" "maintains I (throw_io e)" "maintains I (lift_io r)" "maintains I (needed v)"
  by (auto simp: maintains_def needed_def split: option.split)

lemma maintains_bind [maintain_intros]:
  "maintains I m \<Longrightarrow> (\<And>x. maintains I (f x)) \<Longrightarrow> maintains I (bind_io m f)"
  unfolding maintains_def bind_io_def by (auto split: prod.split sum.split)

lemma maintains_cases [maintain_intros]:
  "maintains I m \<Longrightarrow> maintains I n \<Longrightarrow> maintains I (if b then m else n)"
  "maintains I m \<Longrightarrow> (\<And>x. maintains I (g x)) \<Longrightarrow> maintains I (case v of None \<Rightarrow> m | Some x \<Rightarrow> g x)"
  by (auto split: option.split)

lemma located_steps [maintain_intros]:
  "maintains (located tk d) load_engine" "maintains (located tk d) (connect tk handle)"
  by (auto simp: maintains_def located_def load_engine_def connect_def split: prod.split option.splits)

lemma located_record [maintain_intros]: "maintains (located tk d) (open_record tk root chain addresses)"
  unfolding open_record_def
  by (intro maintain_intros) (auto simp: maintains_def located_def split: prod.split option.splits)

lemma configure_located:
  assumes "configure_location tk root s = (r, t)" and "\<not> isAbsolute (tk_paths tk) []" and "settled_location tk s"
  shows "case r of Inl _ \<Rightarrow> settled_location tk t | Inr d \<Rightarrow> located tk d t"
proof -
  obtain q env where c: "configureRecordLocation (tk_paths tk) root (am_env s) = (q, env)" by fastforce
  then have r: "r = map_sum TkRecord id q" and t: "t = s\<lparr>am_env := env\<rparr>" using assms(1) by (auto simp: configure_location_def)
  show ?thesis
  proof (cases q)
    case (Inl e)
    then show ?thesis using configuration_failed [of "tk_paths tk" root "am_env s" e env] c r t assms(3) by simp
  next
    case (Inr d)
    note now = configured_once [OF c [unfolded Inr] assms(2)]
    have "am_engine s = None \<or> am_engine s = Some (Some d)"
    proof (cases "am_engine s")
      case (Some v)
      then obtain e where e: "am_env s MANIFEST_DIR_VAR = Some e" "isAbsolute (tk_paths tk) e" "v = Some e"
        using assms(3) by (auto simp: settled_location_def located_def)
      then have "e \<noteq> []" using assms(2) by metis
      then have "d = e" using c Inr e by (cases e) (auto simp: configureRecordLocation_def)
      then show ?thesis using Some e by simp
    qed simp
    then show ?thesis using now Inr r t by (auto simp: located_def)
  qed
qed

lemma located_attach [maintain_intros]: "maintains (located tk d) (attach tk rq env root)"
  unfolding attach_def by (intro maintain_intros)

lemma located_finish:
  assumes "located tk d s"
    and "bind_io (attach tk rq env root) (\<lambda>(chain, session).
       bind_io load_engine (\<lambda>_.
       bind_io (resolve_options tk rq) (\<lambda>resolved.
         return_io \<lparr>oc_environment = env, oc_chain = chain, oc_session = session, oc_resolved = resolved\<rparr>))) s = (r, t)"
  shows "located tk d t \<and> (case r of Inl _ \<Rightarrow> True | Inr _ \<Rightarrow> am_engine t = Some (Some d))"
proof -
  obtain q u where a: "attach tk rq env root s = (q, u)" by fastforce
  have u: "located tk d u" using located_attach [of tk d rq env root] assms(1) a by (auto simp: maintains_def)
  show ?thesis
  proof (cases q)
    case (Inl e)
    then show ?thesis using assms(2) a u by (simp add: bind_io_def) auto
  next
    case (Inr p)
    obtain v where l: "load_engine u = (Inr (), v)" by (simp add: load_engine_def)
    then have v: "located tk d v" "am_engine v = Some (Some d)"
      using u by (auto simp: load_engine_def located_def split: if_splits option.splits)
    show ?thesis using assms(2) a l v Inr
      by (cases p) (auto simp: bind_io_def resolve_options_def split: sum.splits)
  qed
qed

lemma assembly_settled:
  assumes "\<not> isAbsolute (tk_paths tk) []" and "settled_location tk s"
    and "createOperationToolkit tk rq s = (r, t)"
  shows "settled_location tk t \<and> (case r of Inl _ \<Rightarrow> True | Inr _ \<Rightarrow> \<exists>d. located tk d t \<and> am_engine t = Some (Some d))"
proof (cases "environment_of tk rq")
  case (Inl e)
  then show ?thesis using assms(2,3) by (simp add: createOperationToolkit_def bind_io_def) auto
next
  case (Inr env)
  show ?thesis
  proof (cases "sl_paths (en_slots env)")
    case None
    then show ?thesis using assms(2,3) Inr by (simp add: createOperationToolkit_def bind_io_def needed_def) auto
  next
    case (Some paths)
    obtain q u where c: "configure_location tk (pp_root paths) s = (q, u)" by fastforce
    note configured = configure_located [OF c assms(1,2)]
    show ?thesis
    proof (cases q)
      case (Inl e)
      then show ?thesis using assms(3) configured Inr Some c
        by (simp add: createOperationToolkit_def bind_io_def needed_def) auto
    next
      case (Inr d)
      then have l: "located tk d u" using configured by simp
      have "located tk d t \<and> (case r of Inl _ \<Rightarrow> True | Inr _ \<Rightarrow> am_engine t = Some (Some d))"
        by (rule located_finish [OF l])
          (use assms(3) \<open>environment_of tk rq = Inr env\<close> Some c Inr in
            \<open>simp add: createOperationToolkit_def bind_io_ok [where m = "lift_io _"] bind_io_ok [where m = "configure_location _ _"] needed_def\<close>)
      then show ?thesis by (auto simp: settled_location_def split: sum.split)
    qed
  qed
qed

text \<open>What the engine read stays what it is.\<close>

lemma loaded_steps [maintain_intros]:
  "maintains (\<lambda>s. am_engine s = Some v) load_engine" "maintains (\<lambda>s. am_engine s = Some v) (connect tk handle)"
  "maintains (\<lambda>s. am_engine s = Some v) (configure_location tk root)"
  "maintains (\<lambda>s. am_engine s = Some v) (resolve_options tk rq)"
  by (auto simp: maintains_def load_engine_def connect_def configure_location_def resolve_options_def split: prod.split)

lemma loaded_record [maintain_intros]: "maintains (\<lambda>s. am_engine s = Some v) (open_record tk root chain addresses)"
  unfolding open_record_def by (intro maintain_intros) (auto simp: maintains_def split: prod.split)

lemma maintains_pair [maintain_intros]:
  "(\<And>a b. maintains I (f a b)) \<Longrightarrow> maintains I (case z of (a, b) \<Rightarrow> f a b)"
  by (cases z) simp

lemma loaded_assembly: "maintains (\<lambda>s. am_engine s = Some v) (createOperationToolkit tk rq)"
  unfolding createOperationToolkit_def attach_def by (intro maintain_intros)

lemma map_sum_Inr: "map_sum f id r = Inr x \<longleftrightarrow> r = Inr x"
  by (cases r) auto

text \<open>The record a session was opened on lies in the directory that was configured.\<close>

lemma openRecord_location:
  assumes "openRecord dp st = (Inr ss, t)"
  shows "\<exists>d. fst (configureRecordLocation (dp_paths dp) (dp_root dp) (rs_env st)) = Inr d \<and>
    relative (dp_paths dp) (dirname (dp_paths dp) (ss_manifest_file ss)) d = []"
proof -
  obtain d u where d: "configure dp st = (Inr d, u)"
    and rest: "bind_io (dp_identity dp) (\<lambda>i.
      bind_io (lift_io (openRecordManifest (dp_engine dp) (id_chain i))) (\<lambda>en.
      bind_io (lift_io (assertRecordLocation (dp_paths dp) d (en_file en))) (\<lambda>manifestFile.
      let fingerprintFile = fingerprintPathFor (dp_paths dp) manifestFile in
      bind_io (read_fingerprint dp fingerprintFile) (\<lambda>rd.
        case rd of
          FpUnreadable because \<Rightarrow>
            bind_io (diagnoseFingerprintRefusal en (dp_hasCode dp)) (\<lambda>diagnosis.
              throw_io (RecFingerprint fingerprintFile because diagnosis))
        | _ \<Rightarrow> open_settled dp en i manifestFile fingerprintFile rd)))) u = (Inr ss, t)"
    using assms unfolding openRecord_def by (rule bind_io_InrE)
  obtain i en mf v w where mf: "assertRecordLocation (dp_paths dp) d (en_file en) = Inr mf"
    and rest2: "bind_io (read_fingerprint dp (fingerprintPathFor (dp_paths dp) mf)) (\<lambda>rd.
        case rd of
          FpUnreadable because \<Rightarrow>
            bind_io (diagnoseFingerprintRefusal en (dp_hasCode dp)) (\<lambda>diagnosis.
              throw_io (RecFingerprint (fingerprintPathFor (dp_paths dp) mf) because diagnosis))
        | _ \<Rightarrow> open_settled dp en i mf (fingerprintPathFor (dp_paths dp) mf) rd) v = (Inr ss, t)"
    using rest by (elim bind_io_InrE) (auto simp: Let_def)
  obtain rd w where "open_settled dp en i mf (fingerprintPathFor (dp_paths dp) mf) rd w = (Inr ss, t)"
    using rest2 by (elim bind_io_InrE) (auto split: fingerprint_read.splits elim: bind_io_InrE)
  then have "ss_manifest_file ss = mf"
    unfolding open_settled_def Let_def by (auto elim!: bind_io_InrE split: if_splits prod.splits)
  moreover have "relative (dp_paths dp) (dirname (dp_paths dp) mf) d = []"
    using mf by (auto simp: assertRecordLocation_def split: if_splits)
  ultimately show ?thesis
    using d by (auto simp: configure_def split: prod.splits)
qed


lemma attach_session:
  assumes "attach tk rq env root s = (Inr (chain, session), t)" and "located tk d s" and n: "\<not> isAbsolute (tk_paths tk) []"
  shows "case session of None \<Rightarrow> True
    | Some ss \<Rightarrow> relative (tk_paths tk) (dirname (tk_paths tk) (ss_manifest_file ss)) d = []"
proof (cases "mode_of rq = ValidateOnly")
  case True
  then show ?thesis using assms(1) by (simp add: attach_def)
next
  case False
  obtain handle u c v ss w where c: "connect tk handle u = (Inr c, v)" and u: "u = s"
    and o1: "open_record tk root c (case rq_addresses rq of None \<Rightarrow> [] | Some as \<Rightarrow> as) v = (Inr ss, w)" and session: "session = Some ss"
    using assms(1) False unfolding attach_def
    by (auto elim!: bind_io_InrE simp: needed_def split: option.splits)
  have "located tk d v" using located_steps(2) [of tk d handle] assms(2) c u by (auto simp: maintains_def)
  then have "located tk d (snd (load_engine v))" using located_steps(1) by (auto simp: maintains_def)
  then have env: "am_env (snd (load_engine v)) MANIFEST_DIR_VAR = Some d" and a: "isAbsolute (tk_paths tk) d"
    by (auto simp: located_def)
  obtain x where x: "openRecord ((tk_deps tk c)\<lparr>dp_root := root, dp_paths := tk_paths tk,
        dp_addresses := (case rq_addresses rq of None \<Rightarrow> [] | Some as \<Rightarrow> as)\<rparr>)
      \<lparr>rs_env = am_env (snd (load_engine v)), rs_world = am_world (snd (load_engine v)), rs_trace = []\<rparr> = (Inr ss, x)"
    using o1 by (auto simp: open_record_def load_engine_def bind_io_def map_sum_Inr split: prod.splits sum.splits)
  have "d \<noteq> []" using a n by metis
  then have "fst (configureRecordLocation (tk_paths tk) root (am_env (snd (load_engine v)))) = Inr d"
    using env a by (cases d) (auto simp: configureRecordLocation_def)
  then show ?thesis using openRecord_location [OF x] session by simp
qed

fun run_operations :: "'w toolkit_host \<Rightarrow> toolkit_request list \<Rightarrow> 'w assembly_state \<Rightarrow> 'w assembly_state" where
  "run_operations tk [] s = s"
| "run_operations tk (rq # rqs) s = run_operations tk rqs (snd (createOperationToolkit tk rq s))"

lemma run_settled:
  assumes "\<not> isAbsolute (tk_paths tk) []"
  shows "settled_location tk s \<Longrightarrow> settled_location tk (run_operations tk rqs s)"
proof (induction rqs arbitrary: s)
  case (Cons rq rqs)
  obtain r t where "createOperationToolkit tk rq s = (r, t)" by fastforce
  then show ?case using Cons assembly_settled [OF assms Cons.prems] by simp
qed simp

lemma run_loaded: "am_engine s = Some v \<Longrightarrow> am_engine (run_operations tk rqs s) = Some v"
proof (induction rqs arbitrary: s)
  case (Cons rq rqs)
  have "am_engine (snd (createOperationToolkit tk rq s)) = Some v"
    using loaded_assembly [of v tk rq] Cons.prems by (simp add: maintains_def)
  then show ?case using Cons.IH by simp
qed simp

text \<open>The record directory of a built context: the one the engine read.\<close>

definition one_directory :: "'w toolkit_host \<Rightarrow> 'w operation_context \<Rightarrow> 'w assembly_state \<Rightarrow> bool" where
  "one_directory tk oc s \<longleftrightarrow>
     (\<exists>d. am_engine s = Some (Some d) \<and> am_env s MANIFEST_DIR_VAR = Some d \<and> isAbsolute (tk_paths tk) d \<and>
        (case oc_session oc of None \<Rightarrow> True
         | Some ss \<Rightarrow> relative (tk_paths tk) (dirname (tk_paths tk) (ss_manifest_file ss)) d = []))"

lemma toolkit_steps:
  assumes "createOperationToolkit tk rq s = (Inr oc, t)"
  shows "\<exists>env root dir u1 c ss u2 u3 rs. environment_of tk rq = Inr env \<and>
    configure_location tk root s = (Inr dir, u1) \<and>
    attach tk rq env root u1 = (Inr (c, ss), u2) \<and> load_engine u2 = (Inr (), u3) \<and>
    resolve_options tk rq u3 = (Inr rs, t) \<and>
    oc_environment oc = env \<and> oc_chain oc = c \<and> oc_session oc = ss \<and> oc_resolved oc = rs"
  using assms unfolding createOperationToolkit_def
  by (auto elim!: bind_io_InrE simp: needed_def return_io_def lift_io_def throw_io_def
      split: option.splits sum.splits prod.splits) blast

lemma assembly_directory:
  assumes n: "\<not> isAbsolute (tk_paths tk) []" and s: "settled_location tk s"
    and run: "createOperationToolkit tk rq s = (Inr oc, t)"
  shows "one_directory tk oc t"
proof -
  obtain env root dir u1 c ss u2 u3 rs where c: "configure_location tk root s = (Inr dir, u1)"
    and a: "attach tk rq env root u1 = (Inr (c, ss), u2)" and l: "load_engine u2 = (Inr (), u3)"
    and o1: "resolve_options tk rq u3 = (Inr rs, t)" and oc: "oc_session oc = ss"
    using toolkit_steps [OF run] by blast
  have d: "located tk dir u1" using configure_located [OF c n s] by simp
  have u2: "located tk dir u2" using located_attach [of tk dir rq env root] d a by (auto simp: maintains_def)
  then have u3: "located tk dir u3 \<and> am_engine u3 = Some (Some dir)"
    using l by (auto simp: load_engine_def located_def split: if_splits option.splits)
  have "t = u3" using o1 by (auto simp: resolve_options_def lift_io_def)
  then show ?thesis using u3 attach_session [OF a d n] oc
    by (auto simp: one_directory_def located_def)
qed

lemma resolved_has_slots:
  assumes "resolveEnvironment hp hs req opt = Inr env"
  shows "list_all (has_slot (en_slots env)) req"
proof (cases rule: resolved_cases [of hp hs req opt])
  case (settled requested s es t)
  let ?us = "all_unsatisfied hs (distinct_first req) requested es"
  have quiet: "?us = [] \<and> all_inconsistencies es = []" and e: "en_slots env = build_slots requested es"
    using assms settled(3) by (auto simp: settle_environment_def Let_def split: if_splits)
  have "\<forall>sl \<in> set (distinct_first req). has_slot (build_slots requested es) sl"
    using no_gap [OF settled(2)] quiet settled(1) by auto
  then show ?thesis using e by (simp add: list_all_iff)
qed (use assms in auto)

lemma other_steps:
  assumes "v \<noteq> MANIFEST_DIR_VAR"
  shows "maintains (\<lambda>u. am_env u v = x) load_engine" "maintains (\<lambda>u. am_env u v = x) (connect tk handle)"
    "maintains (\<lambda>u. am_env u v = x) (configure_location tk root)"
    "maintains (\<lambda>u. am_env u v = x) (resolve_options tk rq)"
    "maintains (\<lambda>u. am_env u v = x) (open_record tk root chain addresses)"
proof -
  show l: "maintains (\<lambda>u. am_env u v = x) load_engine"
    by (auto simp: maintains_def load_engine_def)
  show "maintains (\<lambda>u. am_env u v = x) (open_record tk root chain addresses)"
    unfolding open_record_def by (intro maintains_bind l) (auto simp: maintains_def split: prod.split)
qed (use assms in \<open>auto simp: maintains_def connect_def configure_location_def resolve_options_def
  configureRecordLocation_def Let_def split: prod.splits option.splits list.splits if_splits\<close>)

lemma context_parts:
  assumes "createOperationToolkit tk rq s = (Inr oc, t)"
  shows "list_all (has_slot (en_slots (oc_environment oc))) (required_slots (mode_of rq)) \<and>
    resolveUpgradeOptions (tk_defaults tk) (rq_rawOptions rq) (rq_acceptedOptions rq) = Inr (oc_resolved oc) \<and>
    (if mode_of rq = ValidateOnly then oc_chain oc = None \<and> oc_session oc = None
     else oc_chain oc \<noteq> None \<and> oc_session oc \<noteq> None)"
proof -
  obtain env root u1 c ss u2 u3 rs where e: "environment_of tk rq = Inr env"
    and a: "attach tk rq env root u1 = (Inr (c, ss), u2)" and o1: "resolve_options tk rq u3 = (Inr rs, t)"
    and oc: "oc_environment oc = env" "oc_chain oc = c" "oc_session oc = ss" "oc_resolved oc = rs"
    using toolkit_steps [OF assms] by blast
  have "list_all (has_slot (en_slots env)) (required_slots (mode_of rq))"
    using e resolved_has_slots by (auto simp: environment_of_def map_sum_Inr)
  moreover have "if mode_of rq = ValidateOnly then c = None \<and> ss = None else c \<noteq> None \<and> ss \<noteq> None"
    using a by (auto simp: attach_def return_io_def elim!: bind_io_InrE)
  ultimately show ?thesis using o1 oc by (auto simp: resolve_options_def lift_io_def map_sum_Inr)
qed

lemma validate_only_run:
  assumes "mode_of rq = ValidateOnly" and "createOperationToolkit tk rq s = (r, t)"
  shows "am_world t = am_world s \<and>
    (case r of Inl (TkChain _) \<Rightarrow> False | Inl (TkNotInThisMode _) \<Rightarrow> False | _ \<Rightarrow> True)"
  using assms
  by (auto simp: createOperationToolkit_def attach_def bind_io_def needed_def return_io_def throw_io_def lift_io_def
      environment_of_def configure_location_def load_engine_def resolve_options_def map_sum_Inr map_sum_Inl
      split: prod.splits option.splits sum.splits if_splits)

text \<open>
  C40: However many operations a process starts, the engine and the record agree on where the record
  is.  The location the engine read when it was loaded stays the location the process environment
  names, the engine is never loaded a second time over another one, and the next context that is
  built has its record in that directory, whatever project root its request names.
\<close>

theorem engine_reads_the_configured_location:
  assumes "\<not> isAbsolute (tk_paths tk) []" and "settled_location tk s"
  shows "settled_location tk (run_operations tk rqs s) \<and>
    (case am_engine s of None \<Rightarrow> True | Some v \<Rightarrow> am_engine (run_operations tk rqs s) = Some v) \<and>
    (case createOperationToolkit tk rq (run_operations tk rqs s) of
       (Inl _, t) \<Rightarrow> settled_location tk t
     | (Inr oc, t) \<Rightarrow> settled_location tk t \<and> one_directory tk oc t)"
proof -
  let ?s = "run_operations tk rqs s"
  obtain r t where run: "createOperationToolkit tk rq ?s = (r, t)" by fastforce
  have l: "settled_location tk ?s" by (rule run_settled [OF assms])
  have "settled_location tk t" using assembly_settled [OF assms(1) l run] by simp
  moreover have "one_directory tk oc t" if "r = Inr oc" for oc
    using assembly_directory [OF assms(1) l] run that by simp
  ultimately show ?thesis using l run run_loaded [of s] by (auto split: option.split sum.split)
qed

text \<open>
  C32: A toolkit that only validates opens nothing: whatever happens, the world is untouched, no
  chain error can arise, and the context holds neither a chain nor a session.  One that changes state
  holds both.  Either way a built context has every slot its mode requires, the options are those the
  resolver answered, and the one process variable that may change is the record directory's.
\<close>

theorem mode_decides_what_is_opened:
  "case createOperationToolkit tk rq s of (r, t) \<Rightarrow>
     (\<forall>v. am_env t v = am_env s v \<or> v = MANIFEST_DIR_VAR) \<and>
     (if mode_of rq = ValidateOnly
      then am_world t = am_world s \<and>
        (case r of
           Inl (TkChain _) \<Rightarrow> False | Inl (TkNotInThisMode _) \<Rightarrow> False | Inl _ \<Rightarrow> True
         | Inr oc \<Rightarrow> requireChain oc = Inl (TkNotInThisMode ''chain access'') \<and>
             requireSession oc = Inl (TkNotInThisMode ''the record session''))
      else case r of Inl _ \<Rightarrow> True
         | Inr oc \<Rightarrow> oc_chain oc \<noteq> None \<and> oc_session oc \<noteq> None) \<and>
     (case r of Inl _ \<Rightarrow> True
      | Inr oc \<Rightarrow> list_all (has_slot (en_slots (oc_environment oc))) (required_slots (mode_of rq)) \<and>
          resolveUpgradeOptions (tk_defaults tk) (rq_rawOptions rq) (rq_acceptedOptions rq) = Inr (oc_resolved oc))"
proof -
  obtain r t where run: "createOperationToolkit tk rq s = (r, t)" by fastforce
  have other: "am_env t v = am_env s v \<or> v = MANIFEST_DIR_VAR" for v
  proof (cases "v = MANIFEST_DIR_VAR")
    case False
    then have "maintains (\<lambda>u. am_env u v = am_env s v) (createOperationToolkit tk rq)"
      unfolding createOperationToolkit_def attach_def by (intro maintain_intros other_steps)
    then show ?thesis using run by (auto simp: maintains_def)
  qed simp
  have built: "list_all (has_slot (en_slots (oc_environment oc))) (required_slots (mode_of rq)) \<and>
      resolveUpgradeOptions (tk_defaults tk) (rq_rawOptions rq) (rq_acceptedOptions rq) = Inr (oc_resolved oc) \<and>
      (if mode_of rq = ValidateOnly then oc_chain oc = None \<and> oc_session oc = None
       else oc_chain oc \<noteq> None \<and> oc_session oc \<noteq> None)" if "r = Inr oc" for oc
    using context_parts [of tk rq s oc t] run that by simp
  show ?thesis
  proof (cases "mode_of rq = ValidateOnly")
    case True
    then show ?thesis using run other built validate_only_run [OF True run]
      by (auto simp: requireChain_def requireSession_def split: sum.split)
  next
    case False
    then show ?thesis using run other built by (auto split: sum.split)
  qed
qed

section \<open>What a validated implementation has passed\<close>

text \<open>The engine's answer to a call, given while its console was captured under that call's name.\<close>

definition engine_answered :: "string \<Rightarrow> ('v, js) engine_call \<Rightarrow> 'v \<Rightarrow> bool" where
  "engine_answered call fn v \<longleftrightarrow>
     (\<exists>p access q. ps_console p = CaptureStub \<and> ps_activeCall p = Some call \<and> fn p = (Inr (Returned v access), q))"

definition resolved_as :: "pipeline_env \<Rightarrow> string \<Rightarrow> hval \<Rightarrow> bool" where
  "resolved_as env contract c \<longleftrightarrow>
     (\<exists>a b res. resolve_artifact (vn_host env) (vn_paths env) (JStr contract) a = (Inr res, b) \<and> abstraction_of res = c)"

lemma engine_Inr: "engine r s = (Inr x, t) \<longleftrightarrow> r = Inr x \<and> t = s"
  by (auto simp: engine_def lift_io_def map_sum_Inr)

lemma engine_answeredI:
  "fn (p\<lparr>ps_activeCall := Some call, ps_console := CaptureStub, ps_captured := ws\<rparr>) = (Inr (Returned v access), q) \<Longrightarrow>
     engine_answered call fn v"
  unfolding engine_answered_def
  by (rule exI [of _ "p\<lparr>ps_activeCall := Some call, ps_console := CaptureStub, ps_captured := ws\<rparr>"]) simp

lemma captured_answer: "captured env call fn s = (Inr v, t) \<Longrightarrow> engine_answered call fn v"
  unfolding captured_def captureEngineWarnings_def runCaptureWindow_def
  by (auto simp: map_sum_Inr Let_def split: option.splits prod.splits sum.splits returned.splits bool.splits
      intro: engine_answeredI)

lemma resolved_abstraction_is:
  assumes "resolved_abstraction env contract s = (Inr c, t)"
  shows "resolved_as env contract c"
proof -
  obtain res u where "in_pipe (on_access (resolve_artifact (vn_host env) (vn_paths env) (JStr contract))) s = (Inr res, u)"
    and "c = abstraction_of res"
    using assms unfolding resolved_abstraction_def by (elim bind_io_InrE) (auto simp: return_io_def)
  then show ?thesis
    by (auto simp: resolved_as_def in_pipe_def on_access_def map_sum_Inr split: prod.splits sum.splits)
qed

lemma complete_record_is:
  "complete_record env c s = (Inr record, t) \<Longrightarrow>
     \<exists>keys paths. readArtifactRecord (ah_heap (vn_host env)) c = Inr (RecordComplete record keys paths)"
  unfolding complete_record_def
  by (elim bind_io_InrE)
    (auto simp: in_pipe_def on_access_def record_artifact_def map_sum_Inr return_io_def throw_io_def
      split: prod.splits sum.splits record_report.splits)

definition versioned ::
  "engine_functions \<Rightarrow> pipeline_env \<Rightarrow> resolved \<Rightarrow> js \<Rightarrow> hval \<Rightarrow> artifact_record \<Rightarrow> js \<Rightarrow> string \<Rightarrow> bool" where
  "versioned ng env r validations c record version encodedArgs \<longleftrightarrow>
     (\<exists>unlinked abi a b. ng_unlinked ng validations (ar_bytecode record) = Inr unlinked \<and>
        abi_of env c a = (Inr abi, b) \<and> ng_encodeDeploy ng abi (r_constructorArgs r) = Inr encodedArgs \<and>
        ng_version ng unlinked (ar_bytecode record) encodedArgs = Inr version)"

lemma version_of_is:
  "version_of ng env r validations c record s = (Inr (version, encodedArgs), t) \<Longrightarrow>
     versioned ng env r validations c record version encodedArgs"
  unfolding version_of_def versioned_def by (elim bind_io_InrE) (auto simp: engine_Inr return_io_def)

definition judged_as :: "engine_functions \<Rightarrow> resolved \<Rightarrow> js \<Rightarrow> js \<Rightarrow> js list \<Rightarrow> bool" where
  "judged_as ng r validations version errors \<longleftrightarrow>
     (\<exists>kind. (case r_kind r of Some k \<Rightarrow> kind = k | None \<Rightarrow> ng_inferKind ng validations version = Inr kind) \<and>
        engine_answered ''getErrors'' (ng_errors ng validations version (engineValidationOptions r) kind) errors)"

lemma kind_for_errors_is:
  "kind_for_errors ng r validations version s = (Inr kind, t) \<Longrightarrow>
     (case r_kind r of Some k \<Rightarrow> kind = k | None \<Rightarrow> ng_inferKind ng validations version = Inr kind)"
  by (auto simp: kind_for_errors_def engine_Inr return_io_def split: option.splits)

lemma judge_errors_is:
  "judge_errors ng env contract r validations version s = (Inr u, t) \<Longrightarrow> judged_as ng r validations version []"
  unfolding judge_errors_def judged_as_def
  by (elim bind_io_InrE) (auto dest!: kind_for_errors_is captured_answer simp: throw_io_def split: if_splits)

lemma run_validation_is:
  "run_validation ng env i s = (Inr validations, t) \<Longrightarrow>
     \<exists>decoder. ng_decoder ng (vi_solcInput i) (vi_solcOutput i) = Inr decoder \<and>
       engine_answered ''validate'' (ng_validate ng (vi_solcOutput i) decoder (vi_solcVersion i) (vi_solcInput i)) validations"
  unfolding run_validation_def by (elim bind_io_InrE) (auto simp: engine_Inr dest: captured_answer)

lemma passed:
  assumes "validate_input ng env contract r i s = (Inr v, t)"
  shows "\<exists>decoder c record keys paths. vd_input v = i \<and>
    ng_decoder ng (vi_solcInput i) (vi_solcOutput i) = Inr decoder \<and>
    engine_answered ''validate'' (ng_validate ng (vi_solcOutput i) decoder (vi_solcVersion i) (vi_solcInput i)) (vd_validations v) \<and>
    resolved_as env contract c \<and>
    readArtifactRecord (ah_heap (vn_host env)) c = Inr (RecordComplete record keys paths) \<and>
    versioned ng env r (vd_validations v) c record (vd_version v) (vd_encodedArgs v) \<and>
    judged_as ng r (vd_validations v) (vd_version v) [] \<and>
    ng_layout ng (vd_validations v) (vd_version v) = Inr (vd_layout v) \<and> vd_name v = contract"
proof -
  obtain va s1 c s2 a s3 p s4 s5 la s6 where steps: "run_validation ng env i s = (Inr va, s1)"
    "resolved_abstraction env contract s1 = (Inr c, s2)" "complete_record env c s2 = (Inr a, s3)"
    "version_of ng env r va c a s3 = (Inr p, s4)" "judge_errors ng env contract r va (fst p) s4 = (Inr (), s5)"
    "engine (ng_layout ng va (fst p)) s5 = (Inr la, s6)"
    and v: "v = \<lparr>vd_name = contract, vd_input = i, vd_validations = va, vd_version = fst p,
         vd_layout = la, vd_encodedArgs = snd p\<rparr>"
    using assms unfolding validate_input_def
    by (auto elim!: bind_io_InrE simp: return_io_def split: prod.splits)
  obtain keys paths where "readArtifactRecord (ah_heap (vn_host env)) c = Inr (RecordComplete a keys paths)"
    using complete_record_is [OF steps(3)] by blast
  moreover have "versioned ng env r va c a (fst p) (snd p)" using version_of_is steps(4) by (metis prod.collapse)
  moreover have "ng_layout ng va (fst p) = Inr la" using steps(6) by (simp add: engine_Inr)
  ultimately show ?thesis
    using run_validation_is [OF steps(1)] resolved_abstraction_is [OF steps(2)] judge_errors_is [OF steps(5)]
    unfolding v by simp blast
qed

text \<open>
  C21: An implementation the toolkit hands back as validated has passed every step, each on what the
  step before it answered: its input is the one the pipeline derived for that contract, the engine
  validated exactly that input, its version is of the deployed contract's own bytecode and encoded
  constructor arguments, the engine, asked with the caller's options under the kind the caller named
  (its own inference where there is none), found no error, and the layout is of that version.
\<close>

theorem validated_implementation_passed_every_step:
  "case validateContract ng env contract r s of
     Some (Inr v, t) \<Rightarrow>
       (\<exists>u decoder c record keys paths.
          deriveValidationInput env contract s = Some (Inr (ProducedInput (vd_input v)), u) \<and>
          ng_decoder ng (vi_solcInput (vd_input v)) (vi_solcOutput (vd_input v)) = Inr decoder \<and>
          engine_answered ''validate''
            (ng_validate ng (vi_solcOutput (vd_input v)) decoder (vi_solcVersion (vd_input v)) (vi_solcInput (vd_input v)))
            (vd_validations v) \<and>
          resolved_as env contract c \<and>
          readArtifactRecord (ah_heap (vn_host env)) c = Inr (RecordComplete record keys paths) \<and>
          versioned ng env r (vd_validations v) c record (vd_version v) (vd_encodedArgs v) \<and>
          judged_as ng r (vd_validations v) (vd_version v) [] \<and>
          ng_layout ng (vd_validations v) (vd_version v) = Inr (vd_layout v) \<and> vd_name v = contract)
   | _ \<Rightarrow> True"
proof (cases "validateContract ng env contract r s")
  case (Some p)
  show ?thesis
  proof (cases p)
    case (Pair q t)
    show ?thesis
    proof (cases q)
      case (Inr v)
      obtain i u where d: "deriveValidationInput env contract s = Some (Inr (ProducedInput i), u)"
        and run: "validate_input ng env contract r i u = (Inr v, t)"
        using Some Pair Inr by (auto simp: validateContract_def split: option.splits sum.splits InputPipeline.outcome.splits)
      show ?thesis using d passed [OF run] Some Pair Inr by auto
    qed (simp add: Some Pair)
  qed
qed simp

section \<open>A process with the engine loaded\<close>

definition assembly_host :: "unit toolkit_host" where
  "assembly_host =
     \<lparr>tk_parameters = demo_host_parameters, tk_paths = demo_paths, tk_handle = (\<lambda>_. HRaises),
      tk_parse = (\<lambda>_. None), tk_globalFetch = False, tk_post = (\<lambda>_ _. throw_io JNull), tk_native = throw_io JNull,
      tk_deps = (\<lambda>_. demo_deps empty_record None), tk_defaults = (\<lambda>_. \<lparr>vo_kind = ''transparent'', vo_unsafeAllow = [], vo_customTypes = False,
        vo_linkedLibraries = False, vo_renames = False, vo_skipStorage = False\<rparr>)\<rparr>"

definition loaded_process :: "unit assembly_state" where
  "loaded_process =
     \<lparr>am_env = [MANIFEST_DIR_VAR \<mapsto> ''/p/.openzeppelin''], am_engine = Some (Some ''/p/.openzeppelin''), am_world = ()\<rparr>"

definition bare_request :: toolkit_request where
  "bare_request =
     \<lparr>rq_handles = (\<lambda>_. VUndef), rq_rawOptions = JObj [], rq_acceptedOptions = [], rq_mode = None, rq_addresses = None\<rparr>"

lemma loaded_process_settled: "settled_location assembly_host loaded_process"
  by (auto simp: settled_location_def located_def loaded_process_def assembly_host_def demo_paths_def)

theorem engine_reads_the_configured_location_witness:
  "am_engine (run_operations assembly_host [bare_request, bare_request\<lparr>rq_mode := Some ValidateOnly\<rparr>] loaded_process) =
     Some (Some ''/p/.openzeppelin'')"
proof -
  have "\<not> isAbsolute (tk_paths assembly_host) []" by (simp add: assembly_host_def demo_paths_def)
  note engine_reads_the_configured_location
    [OF this loaded_process_settled, of "[bare_request, bare_request\<lparr>rq_mode := Some ValidateOnly\<rparr>]"]
  moreover have "am_engine loaded_process = Some (Some ''/p/.openzeppelin'')" by (simp add: loaded_process_def)
  ultimately show ?thesis by (simp del: run_operations.simps)
qed

end
