(* ===== verification/ProxyDeploy.thy ===== *)
theory ProxyDeploy
  imports ProxyToolkit
begin

text \<open>
  \<open>proxy/deploy-proxy.ts\<close>: the pipeline of \<open>deployProxy\<close>, in the order of the source, over
  the toolkit.  The result's notes and contract-call handle carry no more than the log and the
  member list do here.
\<close>

section \<open>The pipeline\<close>

definition DEPLOY_PROXY_ACCEPTED_OPTIONS :: "string list" where
  "DEPLOY_PROXY_ACCEPTED_OPTIONS = HANDLE_OPTION_KEYS @
     [''kind'', ''initializer'', ''constructorArgs'', ''unsafeAllow'', ''unsafeAllowRenames'',
      ''unsafeSkipStorageCheck'', ''unsafeAllowCustomTypes'', ''unsafeAllowLinkedLibraries'',
      ''unsafeSkipProxyAdminCheck'', ''initialOwner'', ''redeployImplementation'',
      ''useDeployedImplementation'', ''timeout'', ''pollingInterval'']"

record deployed_proxy =
  rs_contract :: "string list"
  rs_address :: string
  rs_transaction :: string

fun abi_of :: "js \<Rightarrow> js" where
  "abi_of JUndef = JArr []"
| "abi_of JNull = JArr []"
| "abi_of v = v"

definition linked_gate :: "abstraction \<Rightarrow> resolved \<Rightarrow> ('s, op_error, unit) io" where
  "linked_gate a r =
     lifted (\<lambda>e. OpDeploy e None)
       (refuseUnlessLinkingAllowed
          (linkedLibraryNames (or_else (ab_unlinked_binary a) (or_else (ab_bytecode a) [])))
          (vo_linkedLibraries (r_validation r)))"

text \<open>Steps 1 to 3b: validation, the linking gate, the kind, the owner option.\<close>

definition deploy_kind ::
  "'w cx \<Rightarrow> abstraction \<Rightarrow> resolved \<Rightarrow> ('w ost, op_error, validated \<times> string) io" where
  "deploy_kind cx contract r =
     bind_io (lift_io (nameOf contract)) (\<lambda>name.
     bind_io (validateImplementation cx name r) (\<lambda>validated.
     bind_io (linked_gate contract r) (\<lambda>_.
     bind_io (case r_kind r of Some k \<Rightarrow> return_io k | None \<Rightarrow> inferKind cx validated) (\<lambda>kind.
     bind_io (lifted OpOption (requireProxyKind kind [''transparent'', ''uups''] ''deployProxy'')) (\<lambda>_.
     bind_io (raise_if (kind = ''uups'' \<and> r_initialOwner r \<noteq> None)
                (OpProxy (InitialOwnerUnsupportedKind kind))) (\<lambda>_.
       return_io (validated, kind)))))))"

text \<open>Step 5: the decision about an earlier deployment, and its one exception.\<close>

definition replay_gate :: "'w cx \<Rightarrow> abstraction \<Rightarrow> ('w ost, op_error, unit) io" where
  "replay_gate cx contract =
     (\<lambda>s. bind_io (lifted OpAddress (decideDeployReplay (cx_codec cx)
             (readPriorDeployedAddress contract (op_net s (ab_id contract)))
             (rp_proxies (ss_report (cx_session cx))))) (\<lambda>decision.
        case decision of
          Proceed \<Rightarrow> return_io ()
        | Refuse_replay address because \<Rightarrow>
            bind_io (if because = StaleUnrecorded
                     then on_world OpRecord (getImplRecord (cx_codec cx) (cx_engine cx)
                            (ss_manifest_file (cx_session cx)) address)
                     else return_io None) (\<lambda>known.
              raise_if (known = None) (OpProxy (StaleProxyRecord address because)))) s)"

text \<open>Steps 6 to 8: what must hold before anything is queued.\<close>

definition init_data ::
  "'w cx \<Rightarrow> abstraction \<Rightarrow> js list \<Rightarrow> resolved \<Rightarrow> string \<Rightarrow> ('w ost, op_error, string) io" where
  "init_data cx contract args r kind =
     bind_io (lifted (\<lambda>e. OpDeploy e None) (assertNoCheatcodeCollision (r_constructorArgs r))) (\<lambda>_.
     bind_io (lifted OpOption (resolveInitializer (r_initializer r) (length args))) (\<lambda>res.
       case res of
         ResolvedNone \<Rightarrow> throw_io (OpProxy (EmptyInitializerRefused kind ''initializer-false''))
       | ResolvedCall fn \<Rightarrow>
           lift_io (encodeInitializer cx (abi_of (ab_abi contract)) kind args (Some (InitName fn)))))"

definition initial_owner ::
  "'w cx \<Rightarrow> resolved \<Rightarrow> sender \<Rightarrow> ('w ost, op_error, string) io" where
  "initial_owner cx r sender =
     bind_io (case r_initialOwner r of
                Some o1 \<Rightarrow> canonical cx o1
              | None \<Rightarrow>
                  (case sender of
                     Resolved a \<Rightarrow> canonical cx a
                   | Unconfigured \<Rightarrow> throw_io (OpProxy TransparentInitialOwnerRequired))) (\<lambda>owner.
     bind_io (if r_skipAdminCheck r then return_io False
              else on_world OpChain (looksLikeProxyAdmin (cx_send cx) owner)) (\<lambda>admin.
     bind_io (raise_if admin (OpProxy (ProxyAdminAsOwner owner))) (\<lambda>_.
       return_io owner)))"

definition deploy_args :: "string \<Rightarrow> string \<Rightarrow> string \<Rightarrow> string \<Rightarrow> js list" where
  "deploy_args kind implementation owner data =
     (if kind = ''transparent'' then [JStr implementation, JStr owner, JStr data]
      else [JStr implementation, JStr data])"

text \<open>The check of the signer against the configured sender, after confirmation.\<close>

definition compare_sender ::
  "'w cx \<Rightarrow> sender \<Rightarrow> string \<times> string \<Rightarrow> ('w ost, op_error, unit) io" where
  "compare_sender cx sender live =
     bind_io (signerOf cx (snd live)) (\<lambda>signer.
       case signer of
         Some g \<Rightarrow>
           bind_io (lifted (\<lambda>e. OpDeploy e (Some live)) (assertSignerMatches (cx_codec cx) sender g))
             (\<lambda>_. return_io ())
       | None \<Rightarrow> emit (EvWarn ''sender comparison skipped''))"

text \<open>Step 9, inside the queue.\<close>

definition deploy_step ::
  "'w cx \<Rightarrow> abstraction \<Rightarrow> abstraction \<Rightarrow> resolved \<Rightarrow> validated \<Rightarrow> string \<Rightarrow> string \<Rightarrow> string \<Rightarrow> sender \<Rightarrow>
   ('w ost, op_error, string \<times> string) io" where
  "deploy_step cx contract proxyAbs r validated kind owner data sender =
     bind_io (fetchOrDeployImplementation cx validated r
                (bind_io (hostDeploy cx contract (r_constructorArgs r)) (\<lambda>wb.
                   return_io (fst wb, Some (snd wb))))) (\<lambda>implementation.
     bind_io (write_back_of proxyAbs) (\<lambda>prior.
     bind_io (hostDeploy cx proxyAbs (deploy_args kind implementation owner data)) (\<lambda>wb.
     bind_io (lifted (\<lambda>e. OpDeploy e None) (assertFreshTransaction (wb_hash prior) (snd wb))) (\<lambda>_.
     bind_io (canonical cx (fst wb)) (\<lambda>address.
     bind_io (confirm cx (snd wb)) (\<lambda>verdict.
       case verdict of
         Reverted_tx _ _ _ _ \<Rightarrow>
           bind_io (change_net proxyAbs (restoreWriteBack prior)) (\<lambda>_. throw_io (OpReverted verdict))
       | Indeterminate_tx _ _ _ \<Rightarrow> throw_io (OpIndeterminate verdict (Some (address, snd wb)))
       | ConfirmedSuccessful _ _ \<Rightarrow>
           bind_io (compare_sender cx sender (address, snd wb)) (\<lambda>_.
           bind_io (recordingLiveProxy (address, snd wb) (recordProxy cx address kind)) (\<lambda>_.
             return_io wb))))))))"

text \<open>Steps 9b and 10, and the result.\<close>

definition finish_deploy ::
  "'w cx \<Rightarrow> abstraction \<Rightarrow> string \<times> string \<Rightarrow> ('w ost, op_error, deployed_proxy) io" where
  "finish_deploy cx contract wb =
     bind_io (change_net contract (set_address (fst wb))) (\<lambda>_.
     bind_io (change_net contract (set_hash (JStr (snd wb)))) (\<lambda>_.
     bind_io (if cx_wildcard cx then emit (EvNote (id_chain (ss_identity (cx_session cx))))
              else return_io ()) (\<lambda>_.
     bind_io (contractAt cx contract (fst wb)) (\<lambda>handle.
     bind_io (sealUnavailable handle) (\<lambda>members.
     bind_io (transactionIdentity (Some (snd wb)) ''deployProxy'') (\<lambda>hash.
       return_io \<lparr>rs_contract = members, rs_address = fst wb, rs_transaction = hash\<rparr>))))))"

definition prepare_deploy ::
  "'w cx \<Rightarrow> abstraction \<Rightarrow> js list \<Rightarrow> resolved \<Rightarrow>
   ('w ost, op_error, validated \<times> string \<times> string \<times> sender \<times> abstraction \<times> string) io" where
  "prepare_deploy cx contract args r =
     bind_io (deploy_kind cx contract r) (\<lambda>(validated, kind).
     bind_io (requireDeployer cx) (\<lambda>_.
     bind_io (replay_gate cx contract) (\<lambda>_.
     bind_io (init_data cx contract args r kind) (\<lambda>data.
     bind_io (resolveSender cx) (\<lambda>sender.
     bind_io (proxyArtifact cx (if kind = ''transparent'' then PROXY_TRANSPARENT else PROXY_TRC1967)) (\<lambda>proxyAbs.
     bind_io (if kind = ''transparent'' then initial_owner cx r sender else return_io []) (\<lambda>owner.
       return_io (validated, kind, data, sender, proxyAbs, owner))))))))"

definition runDeployProxy ::
  "'w cx \<Rightarrow> abstraction \<Rightarrow> js list \<Rightarrow> resolved \<Rightarrow> ('w ost, op_error, deployed_proxy) io" where
  "runDeployProxy cx contract args r =
     bind_io (prepare_deploy cx contract args r)
       (\<lambda>(validated, kind, data, sender, proxyAbs, owner).
     bind_io (queue cx (restoringWriteBackOnFailure contract
                (deploy_step cx contract proxyAbs r validated kind owner data sender))) (\<lambda>wb.
       finish_deploy cx contract wb))"

section \<open>Facts\<close>

text \<open>What the steps before the queue do: nothing but reads.\<close>

definition quiet :: "op_event \<Rightarrow> bool" where
  "quiet ev \<longleftrightarrow> False"

definition deploy_event :: "op_event \<Rightarrow> bool" where
  "deploy_event ev \<longleftrightarrow> (case ev of EvQueue \<Rightarrow> False | EvCall _ _ _ _ \<Rightarrow> False | _ \<Rightarrow> True)"

context frame
begin

lemma stays_prepare [stays_intros]:
  "stays R (linked_gate ab r)" "stays R (deploy_kind cx ab r)" "stays R (init_data cx ab args r k)"
  "stays R (initial_owner cx r sender)"
  unfolding linked_gate_def deploy_kind_def init_data_def initial_owner_def
  by (rule stays_intros
     | (simp split: option.split initializer_resolution.split sender.split; intro conjI impI allI))+

lemma stays_replay_gate [stays_intros]: "stays R (replay_gate cx ab)"
proof -
  have "stays R (bind_io (lifted OpAddress d) (\<lambda>decision.
      case decision of Proceed \<Rightarrow> return_io ()
      | Refuse_replay address because \<Rightarrow>
          bind_io (if because = StaleUnrecorded then on_world OpRecord (m address) else return_io None)
            (\<lambda>known. raise_if (known = None) (OpProxy (StaleProxyRecord address because)))))"
    for d and m :: "string \<Rightarrow> ('w, record_error, impl_record option) io"
    by (rule stays_intros | (simp split: replay.split; intro conjI impI allI))+
  then show ?thesis unfolding replay_gate_def stays_def by blast
qed

lemma stays_prepare_deploy: "stays R (prepare_deploy cx ab args r)"
  unfolding prepare_deploy_def
  by (rule stays_intros | (simp split: prod.split; intro conjI impI allI))+

end

lemma compare_sender_stays [stays_intros]:
  "P (EvWarn ''sender comparison skipped'') \<Longrightarrow> stays (extends P) (compare_sender cx sender live)"
  "stays nets_kept (compare_sender cx sender live)"
  "stays (net_fixed i) (compare_sender cx sender live)"
  unfolding compare_sender_def
  by (rule stays_intros ext.stays_basic kept.stays_basic fixed.stays_basic ext.stays_bind
        kept.stays_bind fixed.stays_bind | assumption
     | (simp split: option.split; intro conjI impI allI))+

lemma deploy_step_log:
  assumes "engine_through_callback cx"
  shows "stays (extends deploy_event) (deploy_step cx ab pa r v k o1 d sn)"
proof -
  have h: "stays (extends deploy_event) (hostDeploy cx x args)" for x args
    by (rule ext.stays_host_deploy stays_intros | simp add: deploy_event_def)+
  show ?thesis
    unfolding deploy_step_def
    by (rule ext.stays_fetch assms h ext.stays_record stays_intros
         | (simp add: deploy_event_def split: verdict_tx.split; intro conjI impI allI))+
qed

lemma deploy_step_kept:
  assumes "engine_through_callback cx"
  shows "stays nets_kept (deploy_step cx ab pa r v k o1 d sn)"
  unfolding deploy_step_def
  by (rule kept.stays_fetch assms hostDeploy_kept kept.stays_record stays_intros
       | (simp split: verdict_tx.split; intro conjI impI allI))+

lemma finish_log: "stays (extends deploy_event) (finish_deploy cx ab wb)"
  unfolding finish_deploy_def
  by (rule stays_intros | (simp add: deploy_event_def stays_intros))+

text \<open>What a successful step establishes.\<close>

lemma hostDeploy_ok:
  assumes "hostDeploy cx ab args s = (Inr wb, t)"
  shows "op_net t (ab_id ab) = Some \<lparr>e_address = JStr (fst wb), e_hash = JStr (snd wb)\<rparr>"
    and "fst wb \<noteq> []" and "op_log t = op_log s @ [EvDeploy (ab_id ab) args]"
  using assms
  by (auto simp: hostDeploy_def raise_if_def lifted_def on_world_def emit_def change_net_def
      set_address_def set_hash_def elim!: bind_io_InrE
      split: if_splits js.splits prod.splits sum.splits option.split)

lemma confirm_run: "confirm cx h s = (Inr v, t) \<Longrightarrow>
    v = fst (confirmTransaction (cx_utf8 cx) h (cx_wait cx) HOST_CONFIRMATION_BOUNDS (op_world s))"
  by (auto simp: confirm_def on_world_def split: prod.splits)

lemma confirmed_hash:
  "fst (confirmTransaction u h wait b w) = ConfirmedSuccessful h' rc \<Longrightarrow> h' = h"
  by (auto simp: confirmTransaction_def verdict_of_info_def Let_def
      split: prod.splits sum.splits js.splits list.splits if_splits)

lemma deploy_step_ok:
  assumes "deploy_step cx ab pa r v k o1 d sn s = (Inr wb, t)"
  obtains a rc w where "canonicalizeAddress (cx_codec cx) (JStr (fst wb)) = Inr a"
    and "EvRecord a k \<in> set (op_log t)" and "fst wb \<noteq> []"
    and "fst (confirmTransaction (cx_utf8 cx) (snd wb) (cx_wait cx) HOST_CONFIRMATION_BOUNDS w) =
           ConfirmedSuccessful (snd wb) rc"
proof -
  from assms obtain im s1 prior s2 wb1 s3 s4 a s5 verdict s6 where
    dep: "hostDeploy cx pa (deploy_args k im o1 d) s2 = (Inr wb1, s3)"
    and addr: "canonical cx (fst wb1) s4 = (Inr a, s5)"
    and conf: "confirm cx (snd wb1) s5 = (Inr verdict, s6)"
    and rest: "(case verdict of
       Reverted_tx _ _ _ _ \<Rightarrow>
           bind_io (change_net pa (restoreWriteBack prior)) (\<lambda>_. throw_io (OpReverted verdict))
       | Indeterminate_tx _ _ _ \<Rightarrow> throw_io (OpIndeterminate verdict (Some (a, snd wb1)))
       | ConfirmedSuccessful _ _ \<Rightarrow>
           bind_io (compare_sender cx sn (a, snd wb1)) (\<lambda>_.
           bind_io (recordingLiveProxy (a, snd wb1) (recordProxy cx a k)) (\<lambda>_.
             return_io wb1))) s6 = (Inr wb, t)"
    unfolding deploy_step_def by (elim bind_io_InrE) blast
  show ?thesis
  proof (cases verdict)
    case (ConfirmedSuccessful h rc)
    with rest obtain s7 u s8 where cmp: "compare_sender cx sn (a, snd wb1) s6 = (Inr u, s7)"
      and rec: "recordingLiveProxy (a, snd wb1) (recordProxy cx a k) s7 = (Inr u, s8)"
      and wb: "wb1 = wb" "s8 = t"
      by (auto elim!: bind_io_InrE)
    from rec obtain q where "recordProxy cx a k s7 = (Inr q, s8)"
      by (auto simp: recordingLiveProxy_def catch_io_def split: prod.splits sum.splits)
    then have "EvRecord a k \<in> set (op_log s8)"
      by (auto simp: recordProxy_def bind_io_def emit_def on_world_def split: prod.splits)
    moreover have "canonicalizeAddress (cx_codec cx) (JStr (fst wb1)) = Inr a"
      using addr by (auto simp: canonical_def lifted_def split: sum.splits)
         (cases "canonicalizeAddress (cx_codec cx) (JStr (fst wb1))"; simp)
    moreover have c: "fst (confirmTransaction (cx_utf8 cx) (snd wb1) (cx_wait cx)
        HOST_CONFIRMATION_BOUNDS (op_world s5)) = ConfirmedSuccessful h rc"
      using confirm_run [OF conf] ConfirmedSuccessful by simp
    ultimately show ?thesis
      using that hostDeploy_ok(2) [OF dep] wb confirmed_hash [OF c] by blast
  qed (use rest in \<open>auto elim!: bind_io_InrE\<close>)
qed

lemma prepare_then:
  assumes "runDeployProxy cx contract args r s = (res, t)"
  obtains (early) e where "prepare_deploy cx contract args r s = (Inl e, t)" and "res = Inl e"
  | (late) v k d sn pa o1 u where "prepare_deploy cx contract args r s = (Inr (v, k, d, sn, pa, o1), u)"
      and "bind_io (queue cx (restoringWriteBackOnFailure contract
              (deploy_step cx contract pa r v k o1 d sn))) (finish_deploy cx contract) u = (res, t)"
proof -
  obtain p u where p: "prepare_deploy cx contract args r s = (p, u)" by force
  show ?thesis
  proof (cases p)
    case (Inl e)
    then show ?thesis using assms p early by (auto simp: runDeployProxy_def bind_io_def)
  next
    case (Inr x)
    obtain v k d sn pa o1 where "x = (v, k, d, sn, pa, o1)" by (metis prod.exhaust)
    then show ?thesis using assms p Inr late
      by (simp add: runDeployProxy_def bind_io_def [of "prepare_deploy cx contract args r"])
  qed
qed

lemma prepare_reads:
  assumes "prepare_deploy cx contract args r s = (p, u)"
  shows "op_log u = op_log s" "op_net u = op_net s"
proof -
  have "extends (\<lambda>_. False) s u"
    by (rule stays_run [OF ext.stays_prepare_deploy assms])
  then show "op_log u = op_log s" by (auto simp: extends_def list_all_iff)
  have "net_fixed i s u" for i
    by (rule stays_run [OF fixed.stays_prepare_deploy assms])
  then show "op_net u = op_net s" by (auto simp: net_fixed_def)
qed

lemma finish_nets:
  assumes "finish_deploy cx ab wb s = (res, t)"
  shows "op_net t (ab_id ab) = Some \<lparr>e_address = JStr (fst wb), e_hash = JStr (snd wb)\<rparr>"
    and "res = Inr x \<Longrightarrow> rs_address x = fst wb \<and> rs_transaction x = snd wb"
proof -
  define s1 where "s1 = s\<lparr>op_net := (op_net s)(ab_id ab := Some \<lparr>e_address = JStr (fst wb), e_hash = JStr (snd wb)\<rparr>)\<rparr>"
  have run: "finish_deploy cx ab wb s =
     bind_io (if cx_wildcard cx then emit (EvNote (id_chain (ss_identity (cx_session cx)))) else return_io ()) (\<lambda>_.
     bind_io (contractAt cx ab (fst wb)) (\<lambda>handle.
     bind_io (sealUnavailable handle) (\<lambda>members.
     bind_io (transactionIdentity (Some (snd wb)) ''deployProxy'') (\<lambda>hash.
       return_io \<lparr>rs_contract = members, rs_address = fst wb, rs_transaction = hash\<rparr>)))) s1"
    unfolding finish_deploy_def s1_def
    by (simp add: bind_io_def [of "change_net ab f" for f] change_net_def set_both)
  have "stays (net_fixed (ab_id ab)) (bind_io (if cx_wildcard cx
      then emit (EvNote (id_chain (ss_identity (cx_session cx)))) else return_io ()) (\<lambda>_.
     bind_io (contractAt cx ab (fst wb)) (\<lambda>handle.
     bind_io (sealUnavailable handle) (\<lambda>members.
     bind_io (transactionIdentity (Some (snd wb)) ''deployProxy'') (\<lambda>hash.
       return_io \<lparr>rs_contract = members, rs_address = fst wb, rs_transaction = hash\<rparr>)))))"
    by (rule stays_intros | simp add: stays_intros)+
  then have "net_fixed (ab_id ab) s1 t" using assms unfolding run by (rule stays_run)
  then show "op_net t (ab_id ab) = Some \<lparr>e_address = JStr (fst wb), e_hash = JStr (snd wb)\<rparr>"
    by (simp add: net_fixed_def s1_def)
  show "rs_address x = fst wb \<and> rs_transaction x = snd wb" if "res = Inr x"
    using assms that unfolding run
    by (auto simp: transactionIdentity_def elim!: bind_io_InrE split: if_splits option.splits)
qed

section \<open>Properties\<close>


text \<open>
  C16: a refused implementation stops everything.  When validation refuses, \<open>deployProxy\<close>
  fails with that refusal, and nothing but validation's own effect on the world has happened,
  whatever else would have refused.
\<close>

theorem deploy_validates_first:
  assumes "nonempty (ab_contractName contract) = Some n"
    and "cx_validate cx n r (op_world s) = (Inl e, w)"
  shows "runDeployProxy cx contract args r s = (Inl e, s\<lparr>op_world := w\<rparr>)"
  using assms
  by (simp add: runDeployProxy_def prepare_deploy_def deploy_kind_def nameOf_def bind_io_def
      validateImplementation_def on_world_def)

text \<open>
  C5: a failing \<open>deployProxy\<close> never leaves the user's artifact naming the implementation.
  When it fails, the contract's write-back is what it was before the call, unless the proxy
  was recorded, and then it names that proxy.
\<close>

theorem failed_deploy_restores_the_write_back:
  assumes "engine_through_callback cx" and "runDeployProxy cx contract args r s = (Inl e, t)"
  shows "if readWriteBack (op_net t (ab_id contract)) = readWriteBack (op_net s (ab_id contract)) then True
    else (\<exists>a c k. wb_address (readWriteBack (op_net t (ab_id contract))) = Some a \<and>
      canonicalizeAddress (cx_codec cx) (JStr a) = Inr c \<and> EvRecord c k \<in> set (op_log t))"
  using assms(2)
proof (cases rule: prepare_then)
  case (early f)
  then show ?thesis using prepare_reads(2) [OF early(1)] by simp
next
  case (late v k d sn pa o1 u)
  let ?step = "restoringWriteBackOnFailure contract (deploy_step cx contract pa r v k o1 d sn)"
  obtain q w where q: "queue cx ?step u = (q, w)" by force
  obtain u1 where u1: "op_net u1 = op_net u" "?step u1 = (q, w) \<or> (w = u1 \<and> (\<exists>e. q = Inl e))"
    using queue_nets [OF q] by metis
  show ?thesis
  proof (cases q)
    case (Inl f)
    then have "t = w" using late(2) q by (simp add: bind_io_def)
    moreover have "readWriteBack (op_net w (ab_id contract)) = readWriteBack (op_net u1 (ab_id contract))"
      using u1(2) restored_on_failure [OF deploy_step_kept [OF assms(1)]] Inl by blast
    ultimately show ?thesis using u1(1) prepare_reads(2) [OF late(1)] by simp
  next
    case (Inr wb)
    then have fin: "finish_deploy cx contract wb w = (Inl e, t)" using late(2) q by (simp add: bind_io_def)
    from u1(2) Inr have "deploy_step cx contract pa r v k o1 d sn u1 = (Inr wb, w)"
      by (auto simp: restoring_ok)
    then obtain a where a: "canonicalizeAddress (cx_codec cx) (JStr (fst wb)) = Inr a"
      "EvRecord a k \<in> set (op_log w)" "fst wb \<noteq> []" by (rule deploy_step_ok)
    have "wb_address (readWriteBack (op_net t (ab_id contract))) = Some (fst wb)"
      using finish_nets(1) [OF fin] a(3) by (simp add: readWriteBack_def)
    moreover have "EvRecord a k \<in> set (op_log t)"
      using stays_run [OF finish_log fin] a(2) by (auto simp: extends_def)
    ultimately show ?thesis using a(1) by auto
  qed
qed

text \<open>
  C2: a successful \<open>deployProxy\<close> is confirmed, recorded and remembered.  The transaction the
  result names was confirmed successful by the chain; the proxy is recorded under its canonical
  address; and the contract's artifact names the proxy and that transaction.
\<close>

theorem deployed_proxy_is_confirmed_and_recorded:
  assumes "engine_through_callback cx" and "runDeployProxy cx contract args r s = (Inr res, t)"
  shows "op_net t (ab_id contract) =
      Some \<lparr>e_address = JStr (rs_address res), e_hash = JStr (rs_transaction res)\<rparr> \<and>
    (\<exists>c k. canonicalizeAddress (cx_codec cx) (JStr (rs_address res)) = Inr c \<and>
       EvRecord c k \<in> set (op_log t)) \<and>
    (\<exists>w rc. fst (confirmTransaction (cx_utf8 cx) (rs_transaction res) (cx_wait cx)
       HOST_CONFIRMATION_BOUNDS w) = ConfirmedSuccessful (rs_transaction res) rc)"
  using assms(2)
proof (cases rule: prepare_then)
  case (early f)
  then show ?thesis by simp
next
  case (late v k d sn pa o1 u)
  let ?step = "restoringWriteBackOnFailure contract (deploy_step cx contract pa r v k o1 d sn)"
  obtain q w where q: "queue cx ?step u = (q, w)" by force
  obtain u1 where u1: "?step u1 = (q, w) \<or> (w = u1 \<and> (\<exists>e. q = Inl e))"
    using queue_nets [OF q] by metis
  obtain wb where wb: "q = Inr wb" and fin: "finish_deploy cx contract wb w = (Inr res, t)"
    using late(2) q by (cases q) (auto simp: bind_io_def)
  then have "deploy_step cx contract pa r v k o1 d sn u1 = (Inr wb, w)"
    using u1 by (auto simp: restoring_ok)
  then obtain a rc w1 where a: "canonicalizeAddress (cx_codec cx) (JStr (fst wb)) = Inr a"
    "EvRecord a k \<in> set (op_log w)"
    "fst (confirmTransaction (cx_utf8 cx) (snd wb) (cx_wait cx) HOST_CONFIRMATION_BOUNDS w1) =
       ConfirmedSuccessful (snd wb) rc" by (rule deploy_step_ok)
  have "EvRecord a k \<in> set (op_log t)"
    using stays_run [OF finish_log fin] a(2) by (auto simp: extends_def)
  then show ?thesis using finish_nets [OF fin] a by auto
qed

text \<open>The demo context, for the witnesses.\<close>

lemma demo_deploy_ok:
  "fst (runDeployProxy (demo_cx [] [] ''uups'') (demo_abstraction ''Box'') [] demo_resolved_options demo_ost) =
     Inr \<lparr>rs_contract = [''events'', ''upgradeTo'', ''upgradeToAndCall'', ''transferOwnership''],
      rs_address = addr_of (CHR ''2''), rs_transaction = ''ab''\<rparr>"
  by (simp add: runDeployProxy_def prepare_deploy_def deploy_kind_def replay_gate_def init_data_def
      deploy_step_def finish_deploy_def linked_gate_def bind_io_def requireProxyKind_def
      readPriorDeployedAddress_def decideDeployReplay_def assertNoCheatcodeCollision_def
      resolveInitializer_def encodeInitializer_def DEFAULT_INITIALIZER_def deploy_args_def
      restoring_ok assertFreshTransaction_def compare_sender_def recordingLiveProxy_def catch_io_def
      readWriteBack_def readWriteBackHash_def restoringWriteBackOnFailure_def PROXY_TRC1967_def set_both demo_steps)

lemma demo_deploy_refused:
  "runDeployProxy (demo_cx [] [] ''uups'') (demo_abstraction ''Box'') []
     (demo_resolved_options\<lparr>r_initializer := Some InitFalse\<rparr>) demo_ost =
   (Inl (OpProxy (EmptyInitializerRefused ''uups'' ''initializer-false'')), demo_ost)"
  by (simp add: runDeployProxy_def prepare_deploy_def deploy_kind_def replay_gate_def init_data_def
      linked_gate_def bind_io_def requireProxyKind_def readPriorDeployedAddress_def decideDeployReplay_def
      assertNoCheatcodeCollision_def resolveInitializer_def validateInitializer_def demo_steps)


theorem deploy_validates_first_witness:
  "runDeployProxy (demo_cx [] [] ''uups''\<lparr>cx_validate := \<lambda>n r w. (Inl (OpFailure n), w)\<rparr>)
     (demo_abstraction ''Box'') [] demo_resolved_options demo_ost = (Inl (OpFailure ''Box''), demo_ost)"
  by (subst deploy_validates_first [where n = "''Box''" and e = "OpFailure ''Box''" and w = False])
     (simp_all add: demo_abstraction_def demo_ost_def)

theorem failed_deploy_restores_the_write_back_witness:
  "\<exists>e t. runDeployProxy (demo_cx [] [] ''uups'') (demo_abstraction ''Box'') []
      (demo_resolved_options\<lparr>r_initializer := Some InitFalse\<rparr>) demo_ost = (Inl e, t) \<and>
    readWriteBack (op_net t ''Box'') = readWriteBack (op_net demo_ost ''Box'')"
  using failed_deploy_restores_the_write_back [OF demo_engine_callback demo_deploy_refused]
    demo_deploy_refused
  by (simp add: demo_steps)

theorem deployed_proxy_is_confirmed_and_recorded_witness:
  "\<exists>res t c k. runDeployProxy (demo_cx [] [] ''uups'') (demo_abstraction ''Box'') []
      demo_resolved_options demo_ost = (Inr res, t) \<and>
    canonicalizeAddress demo_codec (JStr (rs_address res)) = Inr c \<and> EvRecord c k \<in> set (op_log t)"
proof -
  obtain r t where run: "runDeployProxy (demo_cx [] [] ''uups'') (demo_abstraction ''Box'') []
      demo_resolved_options demo_ost = (r, t)" by force
  then obtain res where "r = Inr res" using demo_deploy_ok by auto
  then show ?thesis
    using run deployed_proxy_is_confirmed_and_recorded [OF demo_engine_callback, of "[]" "[]" "''uups''"]
    by (fastforce simp: demo_steps)
qed

end
