(* ===== verification/ProxyUpgrade.thy ===== *)
theory ProxyUpgrade
  imports ProxyDeploy
begin

text \<open>
  \<open>proxy/upgrade-proxy.ts\<close> and \<open>admin/index.ts\<close>: the pipelines of \<open>upgradeProxy\<close>
  and \<open>transferProxyAdminOwnership\<close> over the toolkit, in the order of the source.
\<close>

section \<open>The upgrade pipeline\<close>

definition UPGRADE_PROXY_ACCEPTED_OPTIONS :: "string list" where
  "UPGRADE_PROXY_ACCEPTED_OPTIONS = HANDLE_OPTION_KEYS @
     [''kind'', ''call'', ''constructorArgs'', ''unsafeAllow'', ''unsafeAllowRenames'',
      ''unsafeSkipStorageCheck'', ''unsafeAllowCustomTypes'', ''unsafeAllowLinkedLibraries'',
      ''redeployImplementation'', ''useDeployedImplementation'', ''timeout'', ''pollingInterval'']"

definition encode_function :: "'w cx \<Rightarrow> js \<Rightarrow> string \<Rightarrow> js list \<Rightarrow> op_error + string" where
  "encode_function cx abi fn args =
     (case cx_encode cx abi fn args of
        Inl e \<Rightarrow> Inl (OpHost e)
      | Inr None \<Rightarrow> Inl (OpHost JUndef)
      | Inr (Some d) \<Rightarrow> Inr d)"

definition encodeCall :: "'w cx \<Rightarrow> js \<Rightarrow> call_option option \<Rightarrow> op_error + string" where
  "encodeCall cx abi call =
     (case call of
        None \<Rightarrow> Inr ''0x''
      | Some (CallName s) \<Rightarrow> if prefix ''0x'' s then Inr s else encode_function cx abi s []
      | Some (CallPair fn args) \<Rightarrow>
          encode_function cx abi fn (case args of None \<Rightarrow> [] | Some xs \<Rightarrow> xs))"

record upgrade_plan =
  up_validated :: validated
  up_proxy :: string
  up_kind :: probe_kind
  up_admin :: "string option"
  up_plan :: plan
  up_data :: string

text \<open>Steps 4 to 7: the kind, storage compatibility, authority and dispatch.\<close>

definition plan_upgrade ::
  "'w cx \<Rightarrow> abstraction \<Rightarrow> resolved \<Rightarrow> string \<Rightarrow> validated \<Rightarrow> string \<Rightarrow> string option \<Rightarrow>
   ('w ost, op_error, upgrade_plan) io" where
  "plan_upgrade cx contract r address validated current admin =
     bind_io (processProxyKind cx address validated r) (\<lambda>kind.
     bind_io (storedLayoutFor cx current) (\<lambda>layout.
     bind_io (assertStorageCompatible cx layout validated r) (\<lambda>_.
     bind_io (lift_io (encodeCall cx (abi_of (ab_abi contract)) (r_call r))) (\<lambda>data.
     bind_io (raise_if (kind = ProbeTransparent \<and> admin = None) (OpProxy (NotTransparentProxy address))) (\<lambda>_.
     bind_io (on_world OpChain (readUpgradeInterfaceVersion (cx_send cx)
                (if kind = ProbeTransparent then the admin else address))) (\<lambda>version.
     bind_io (lifted OpProxy (planUpgradeDispatch
                \<lparr>pb_kind = kind, pb_version = version, pb_hasCallData = (data \<noteq> ''0x'')\<rparr>)) (\<lambda>p.
       return_io \<lparr>up_validated = validated, up_proxy = address, up_kind = kind,
         up_admin = (if kind = ProbeTransparent then admin else None),
         up_plan = p, up_data = (if pl_carriesData p then data else ''0x'')\<rparr>)))))))"

text \<open>Steps 1 to 7: everything that must hold before the new implementation deploys.\<close>

definition prepare_upgrade ::
  "'w cx \<Rightarrow> string \<Rightarrow> abstraction \<Rightarrow> resolved \<Rightarrow> ('w ost, op_error, upgrade_plan) io" where
  "prepare_upgrade cx proxy contract r =
     bind_io (lift_io (nameOf contract)) (\<lambda>name.
     bind_io (canonical cx proxy) (\<lambda>address.
     bind_io (validateImplementation cx name r) (\<lambda>validated.
     bind_io (linked_gate contract r) (\<lambda>_.
     bind_io (requireDeployer cx) (\<lambda>_.
     bind_io (proxySlots cx address) (\<lambda>slots.
       case slots of
         NoCode \<Rightarrow> throw_io (OpProxy (NothingToAdopt address None))
       | Code implementation admin beacon \<Rightarrow>
           (case beacon of
              Some b \<Rightarrow> throw_io (OpProxy (BeaconProxyRefused address b))
            | None \<Rightarrow>
                (case implementation of
                   None \<Rightarrow> throw_io (OpProxy (NothingToAdopt address
                             (Some ''code with an empty 1967 implementation slot'')))
                 | Some current \<Rightarrow>
                     plan_upgrade cx contract r address validated current admin))))))))"

text \<open>Step 8, inside the queue.\<close>

definition refuse_unless_confirmed ::
  "'w cx \<Rightarrow> string \<Rightarrow> ('w ost, op_error, unit) io" where
  "refuse_unless_confirmed cx hash =
     bind_io (confirm cx hash) (\<lambda>verdict.
       case verdict of
         Reverted_tx _ _ _ _ \<Rightarrow> throw_io (OpReverted verdict)
       | Indeterminate_tx _ _ _ \<Rightarrow> throw_io (OpIndeterminate verdict None)
       | ConfirmedSuccessful _ _ \<Rightarrow> return_io ())"

definition upgrade_step ::
  "'w cx \<Rightarrow> abstraction \<Rightarrow> resolved \<Rightarrow> upgrade_plan \<Rightarrow> ('w ost, op_error, string \<times> string) io" where
  "upgrade_step cx contract r p =
     bind_io (fetchOrDeployImplementation cx (up_validated p) r
                (bind_io (hostDeploy cx contract (r_constructorArgs r)) (\<lambda>wb.
                   return_io (fst wb, Some (snd wb))))) (\<lambda>implementation.
     bind_io (sendUpgradeCall cx (up_plan p) (up_proxy p) (up_admin p) implementation (up_data p)) (\<lambda>wb.
     bind_io (refuse_unless_confirmed cx (snd wb)) (\<lambda>_.
     bind_io (on_world OpChain (readImplementationAddress (cx_send cx) (up_proxy p))) (\<lambda>observed.
     bind_io (lifted OpAddress (isAlreadyCurrent (cx_codec cx) observed implementation)) (\<lambda>current.
     bind_io (raise_if (\<not> current)
                (OpProxy (UpgradeVerificationFailed (up_proxy p) implementation observed (snd wb)))) (\<lambda>_.
     bind_io (on_world OpRecord (getProxyRecord (cx_codec cx) (cx_engine cx)
                (ss_manifest_file (cx_session cx)) (up_proxy p))) (\<lambda>existing.
     bind_io (if existing = None
              then recordingLiveProxy (up_proxy p, snd wb) (recordProxy cx (up_proxy p) (kind_name (up_kind p)))
              else return_io ()) (\<lambda>_.
       return_io (implementation, snd wb)))))))))"

record upgraded_proxy =
  ug_contract :: "string list"
  ug_address :: string
  ug_transaction :: string
  ug_implementation :: string

definition finish_upgrade ::
  "'w cx \<Rightarrow> abstraction \<Rightarrow> string \<Rightarrow> string \<Rightarrow> string \<times> string \<Rightarrow> ('w ost, op_error, upgraded_proxy) io" where
  "finish_upgrade cx contract operation address outcome =
     bind_io (contractAt cx contract address) (\<lambda>handle.
     bind_io (sealUnavailable handle) (\<lambda>members.
     bind_io (transactionIdentity (Some (snd outcome)) operation) (\<lambda>hash.
       return_io \<lparr>ug_contract = members, ug_address = address, ug_transaction = hash,
                  ug_implementation = fst outcome\<rparr>)))"

definition runUpgradeProxy ::
  "'w cx \<Rightarrow> string \<Rightarrow> abstraction \<Rightarrow> resolved \<Rightarrow> ('w ost, op_error, upgraded_proxy) io" where
  "runUpgradeProxy cx proxy contract r =
     bind_io (prepare_upgrade cx proxy contract r) (\<lambda>p.
     bind_io (queue cx (restoringWriteBackOnFailure contract (upgrade_step cx contract r p))) (\<lambda>outcome.
     bind_io (if cx_wildcard cx then emit (EvNote (id_chain (ss_identity (cx_session cx))))
              else return_io ()) (\<lambda>_.
       finish_upgrade cx contract ''upgradeProxy'' (up_proxy p) outcome)))"

section \<open>Transferring the admin's ownership\<close>

definition TRANSFER_OWNERSHIP_ACCEPTED_OPTIONS :: "string list" where
  "TRANSFER_OWNERSHIP_ACCEPTED_OPTIONS = HANDLE_OPTION_KEYS @ [''timeout'', ''pollingInterval'']"

record authority_transfer =
  at_proxy :: string
  at_previousOwner :: "string option"
  at_newOwner :: string
  at_transaction :: "string option"
  at_alreadyHeld :: bool

definition transfer_step :: "'w cx \<Rightarrow> string \<Rightarrow> string \<Rightarrow> string \<Rightarrow> ('w ost, op_error, string) io" where
  "transfer_step cx proxy admin target =
     bind_io (callThroughFacade cx ''ProxyAdmin'' admin ''transferOwnership'' [JStr target]) (\<lambda>wb.
     bind_io (refuse_unless_confirmed cx (snd wb)) (\<lambda>_.
     bind_io (ownerOf cx admin) (\<lambda>observed.
     bind_io (raise_if (observed \<noteq> Some target)
                (OpProxy (AuthorityVerificationFailed proxy target
                   (or_else observed ''nothing that answers owner()'')))) (\<lambda>_.
       return_io (snd wb)))))"

definition foreign_owner :: "'w cx \<Rightarrow> sender \<Rightarrow> string option \<Rightarrow> ('s, op_error, bool) io" where
  "foreign_owner cx sender current =
     (case (current, sender) of
        (Some o1, Resolved a) \<Rightarrow> bind_io (canonical cx a) (\<lambda>me. return_io (o1 \<noteq> me))
      | _ \<Rightarrow> return_io False)"

definition transfer_from ::
  "'w cx \<Rightarrow> string \<Rightarrow> string \<Rightarrow> string \<Rightarrow> string option \<Rightarrow> ('w ost, op_error, authority_transfer) io" where
  "transfer_from cx address target admin current =
     (if current = Some target then
        return_io \<lparr>at_proxy = address, at_previousOwner = current, at_newOwner = target,
                   at_transaction = None, at_alreadyHeld = True\<rparr>
      else
        bind_io (resolveSender cx) (\<lambda>sender.
        bind_io (foreign_owner cx sender current) (\<lambda>foreign_held.
        bind_io (raise_if foreign_held
                   (OpProxy (AuthorityAlreadyTransferred address (or_else current []) target))) (\<lambda>_.
        bind_io (requireDeployer cx) (\<lambda>_.
        bind_io (queue cx (transfer_step cx address admin target)) (\<lambda>h.
        bind_io (transactionIdentity (Some h) ''transferProxyAdminOwnership'') (\<lambda>hash.
          return_io \<lparr>at_proxy = address, at_previousOwner = current, at_newOwner = target,
                     at_transaction = Some hash, at_alreadyHeld = False\<rparr>)))))))"

definition runTransferProxyAdminOwnership ::
  "'w cx \<Rightarrow> string \<Rightarrow> string \<Rightarrow> ('w ost, op_error, authority_transfer) io" where
  "runTransferProxyAdminOwnership cx proxy newOwner =
     bind_io (canonical cx proxy) (\<lambda>address.
     bind_io (canonical cx newOwner) (\<lambda>target.
     bind_io (proxySlots cx address) (\<lambda>slots.
       case (case slots of NoCode \<Rightarrow> None | Code _ admin _ \<Rightarrow> admin) of
         None \<Rightarrow> throw_io (OpProxy (NotTransparentProxy address))
       | Some slot \<Rightarrow>
           bind_io (canonical cx slot) (\<lambda>admin.
           bind_io (ownerOf cx admin) (\<lambda>current.
             transfer_from cx address target admin current)))))"

section \<open>Facts\<close>

context frame
begin

lemma stays_plan_upgrade [stays_intros]: "stays R (plan_upgrade cx contract r a v current admin)"
  unfolding plan_upgrade_def by (rule stays_intros)+

lemma stays_prepare_upgrade: "stays R (prepare_upgrade cx proxy contract r)"
  unfolding prepare_upgrade_def
  by (rule stays_intros | (simp split: proxy_slots.split option.split; intro conjI impI allI))+

lemma stays_refuse [stays_intros]: "stays R (refuse_unless_confirmed cx h)"
  unfolding refuse_unless_confirmed_def
  by (rule stays_intros | (simp split: verdict_tx.split; intro conjI impI allI))+

lemma stays_finish_upgrade [stays_intros]: "stays R (finish_upgrade cx contract opn a out)"
  unfolding finish_upgrade_def by (rule stays_intros)+

lemma stays_foreign_owner [stays_intros]: "stays R (foreign_owner cx sender current)"
  unfolding foreign_owner_def
  by (rule stays_intros | (simp split: option.split sender.split; intro conjI impI allI))+

end

lemma callThroughFacade_log [stays_intros]:
  "P (EvCall f at m args) \<Longrightarrow> stays (extends P) (callThroughFacade cx f at m args)"
  unfolding callThroughFacade_def
  by (rule stays_intros | assumption | (simp split: option.split; intro conjI impI allI))+

lemma callThroughFacade_kept [stays_intros]: "stays nets_kept (callThroughFacade cx f at m args)"
  by (rule kept.stays_facade stays_intros)+

definition upgrade_event :: "abstraction \<Rightarrow> upgrade_plan \<Rightarrow> op_event \<Rightarrow> bool" where
  "upgrade_event contract p ev \<longleftrightarrow>
     (case ev of
        EvDeploy i _ \<Rightarrow> i = ab_id contract
      | EvCall f at m args \<Rightarrow>
          f = facade_of (pl_route (up_plan p)) \<and> at = or_else (up_admin p) (up_proxy p) \<and>
          m = call_text (pl_call (up_plan p)) \<and>
          (\<exists>i. args = upgrade_args (pl_route (up_plan p)) (pl_call (up_plan p)) (up_proxy p) i (up_data p))
      | EvRecord a k \<Rightarrow> a = up_proxy p \<and> k = kind_name (up_kind p)
      | EvNote _ \<Rightarrow> True
      | _ \<Rightarrow> False)"

lemma upgrade_step_log:
  assumes "engine_through_callback cx"
  shows "stays (extends (upgrade_event contract p)) (upgrade_step cx contract r p)"
proof -
  have h: "stays (extends (upgrade_event contract p)) (hostDeploy cx contract args)" for args
    by (rule ext.stays_host_deploy stays_intros | simp add: upgrade_event_def)+
  have c: "stays (extends (upgrade_event contract p))
      (sendUpgradeCall cx (up_plan p) (up_proxy p) (up_admin p) i (up_data p))" for i
    unfolding sendUpgradeCall_def
    by (rule stays_intros | (simp add: upgrade_event_def; intro exI; rule refl))+
  show ?thesis
    unfolding upgrade_step_def
    by (rule ext.stays_fetch assms h c ext.stays_record stays_intros
         | (simp add: upgrade_event_def; intro conjI impI allI))+
qed

lemma upgrade_step_kept:
  assumes "engine_through_callback cx"
  shows "stays nets_kept (upgrade_step cx contract r p)"
proof -
  have c: "stays nets_kept (sendUpgradeCall cx (up_plan p) (up_proxy p) (up_admin p) i (up_data p))" for i
    by (rule kept.stays_upgrade_call stays_intros)+
  show ?thesis
    unfolding upgrade_step_def
    by (rule kept.stays_fetch assms hostDeploy_kept c kept.stays_record stays_intros
         | (simp; intro conjI impI allI))+
qed

lemma plan_upgrade_ok:
  assumes "plan_upgrade cx contract r a v current admin s = (Inr p, t)"
  obtains layout version d where "up_proxy p = a"
    and "cx_storageOk cx layout (va_layout (up_validated p)) (r_validation r)"
    and "planUpgradeDispatch \<lparr>pb_kind = up_kind p, pb_version = version, pb_hasCallData = d\<rparr> = Inr (up_plan p)"
    and "pl_carriesData (up_plan p) \<Longrightarrow> d = (up_data p \<noteq> ''0x'')"
    and "up_kind p = ProbeTransparent \<longleftrightarrow> up_admin p \<noteq> None"
  using assms unfolding plan_upgrade_def
  by (elim bind_io_InrE)
     (force simp: assertStorageCompatible_def raise_if_ok lifted_ok engineValidationOptions_def)

lemma prepare_upgrade_ok:
  assumes "prepare_upgrade cx proxy contract r s = (Inr p, t)"
  obtains a v current admin u where "plan_upgrade cx contract r a v current admin u = (Inr p, t)"
    and "canonicalizeAddress (cx_codec cx) (JStr proxy) = Inr a"
  using assms unfolding prepare_upgrade_def
  by (auto simp: canonical_ok elim!: bind_io_InrE split: proxy_slots.splits option.splits)

lemma prepare_upgrade_reads:
  assumes "prepare_upgrade cx proxy contract r s = (p, u)"
  shows "op_log u = op_log s" "op_net u = op_net s"
proof -
  have "extends (\<lambda>_. False) s u"
    by (rule stays_run [OF ext.stays_prepare_upgrade assms])
  then show "op_log u = op_log s" by (auto simp: extends_def list_all_iff)
  have "net_fixed i s u" for i
    by (rule stays_run [OF fixed.stays_prepare_upgrade assms])
  then show "op_net u = op_net s" by (auto simp: net_fixed_def)
qed

definition end_upgrade ::
  "'w cx \<Rightarrow> abstraction \<Rightarrow> upgrade_plan \<Rightarrow> string \<times> string \<Rightarrow> ('w ost, op_error, upgraded_proxy) io" where
  "end_upgrade cx contract p outcome =
     bind_io (if cx_wildcard cx then emit (EvNote (id_chain (ss_identity (cx_session cx))))
              else return_io ()) (\<lambda>_.
       finish_upgrade cx contract ''upgradeProxy'' (up_proxy p) outcome)"

lemma end_upgrade_log: "stays (extends (upgrade_event contract p)) (end_upgrade cx contract p out)"
  unfolding end_upgrade_def by (rule stays_intros | simp add: stays_intros upgrade_event_def)+

lemma end_upgrade_ok:
  "end_upgrade cx contract p out s = (Inr res, t) \<Longrightarrow>
     ug_address res = up_proxy p \<and> ug_implementation res = fst out \<and> ug_transaction res = snd out"
  by (auto simp: end_upgrade_def finish_upgrade_def transactionIdentity_def elim!: bind_io_InrE
      split: if_splits option.splits)

lemma upgrade_then:
  assumes "runUpgradeProxy cx proxy contract r s = (res, t)"
  obtains (early) e where "prepare_upgrade cx proxy contract r s = (Inl e, t)" and "res = Inl e"
  | (stopped) p u e where "prepare_upgrade cx proxy contract r s = (Inr p, u)"
      and "queue cx (restoringWriteBackOnFailure contract (upgrade_step cx contract r p)) u = (Inl e, t)"
      and "res = Inl e"
  | (finished) p u out w where "prepare_upgrade cx proxy contract r s = (Inr p, u)"
      and "queue cx (restoringWriteBackOnFailure contract (upgrade_step cx contract r p)) u = (Inr out, w)"
      and "end_upgrade cx contract p out w = (res, t)"
proof -
  obtain q u where q: "prepare_upgrade cx proxy contract r s = (q, u)" by force
  show ?thesis
  proof (cases q)
    case (Inl e)
    then show ?thesis using assms q early by (auto simp: runUpgradeProxy_def bind_io_def)
  next
    case (Inr p)
    obtain o1 w where o1: "queue cx (restoringWriteBackOnFailure contract (upgrade_step cx contract r p)) u
        = (o1, w)" by force
    show ?thesis
      by (cases o1)
         (use assms q Inr o1 stopped finished in \<open>auto simp: runUpgradeProxy_def end_upgrade_def
            bind_io_ok bind_io_err\<close>)
  qed
qed

lemma upgrade_stepE:
  assumes "upgrade_step cx contract r p s = (Inr out, t)"
  obtains im h s3 q s4 observed s5 current s6 q2 s7
    where "refuse_unless_confirmed cx h s3 = (Inr q, s4)"
      and "on_world OpChain (readImplementationAddress (cx_send cx) (up_proxy p)) s4 = (Inr observed, s5)"
      and "lifted OpAddress (isAlreadyCurrent (cx_codec cx) observed im) s5 = (Inr current, s6)"
      and "raise_if (\<not> current)
             (OpProxy (UpgradeVerificationFailed (up_proxy p) im observed h)) s6 = (Inr q2, s7)"
      and "out = (im, h)"
  using assms unfolding upgrade_step_def
  by - (elim bind_io_InrE, rule that, assumption, assumption, assumption, assumption, simp)

lemma upgrade_step_ok:
  assumes "upgrade_step cx contract r p s = (Inr out, t)"
  obtains im h s3 q s4 observed s5
    where "refuse_unless_confirmed cx h s3 = (Inr q, s4)"
      and "on_world OpChain (readImplementationAddress (cx_send cx) (up_proxy p)) s4 = (Inr observed, s5)"
      and "isAlreadyCurrent (cx_codec cx) observed im = Inr True" and "out = (im, h)"
  using assms
proof (rule upgrade_stepE)
  fix im h s3 q s4 observed s5 current s6 q2 s7
  assume r: "refuse_unless_confirmed cx h s3 = (Inr q, s4)"
    "on_world OpChain (readImplementationAddress (cx_send cx) (up_proxy p)) s4 = (Inr observed, s5)"
    and c: "lifted OpAddress (isAlreadyCurrent (cx_codec cx) observed im) s5 = (Inr current, s6)"
    "raise_if (\<not> current) (OpProxy (UpgradeVerificationFailed (up_proxy p) im observed h)) s6 = (Inr q2, s7)"
    and o1: "out = (im, h)"
  from c have "isAlreadyCurrent (cx_codec cx) observed im = Inr True"
    by (simp add: lifted_ok raise_if_ok)
  with r o1 that show thesis by auto
qed

lemma confirmed_run:
  assumes "refuse_unless_confirmed cx h s = (Inr q, t)"
  obtains rc where "confirmTransaction (cx_utf8 cx) h (cx_wait cx) HOST_CONFIRMATION_BOUNDS (op_world s) =
    (ConfirmedSuccessful h rc, op_world t)"
proof -
  obtain v w where v: "confirmTransaction (cx_utf8 cx) h (cx_wait cx) HOST_CONFIRMATION_BOUNDS (op_world s) = (v, w)"
    by force
  then have run: "confirm cx h s = (Inr v, s\<lparr>op_world := w\<rparr>)" by (simp add: confirm_def on_world_def)
  then obtain g rc where g: "v = ConfirmedSuccessful g rc" and "w = op_world t"
    using assms by (cases v) (auto simp: refuse_unless_confirmed_def bind_io_ok)
  moreover from v g have "g = h" using confirmed_hash by (metis fst_conv)
  ultimately show ?thesis using that v by simp
qed

section \<open>Properties of upgrades\<close>


text \<open>
  C4: a successful upgrade was seen on the chain.  The upgrade transaction of the result was
  confirmed successful, and the proxy's implementation slot, read in the world the confirmation
  left, holds the address of the implementation the result names.
\<close>

theorem upgrade_is_verified_on_chain:
  assumes "runUpgradeProxy cx proxy contract r s = (Inr res, t)"
  shows "\<exists>w observed w' v rc.
    confirmTransaction (cx_utf8 cx) (ug_transaction res) (cx_wait cx) HOST_CONFIRMATION_BOUNDS v =
      (ConfirmedSuccessful (ug_transaction res) rc, w) \<and>
    readImplementationAddress (cx_send cx) (ug_address res) w = (Inr observed, w') \<and>
    isAlreadyCurrent (cx_codec cx) observed (ug_implementation res) = Inr True"
  using assms
proof (cases rule: upgrade_then)
  case (finished p u out w)
  obtain u1 where "restoringWriteBackOnFailure contract (upgrade_step cx contract r p) u1 = (Inr out, w)"
    using queue_nets [OF finished(2)] by (metis sum.distinct(1))
  then have "upgrade_step cx contract r p u1 = (Inr out, w)" by (simp add: restoring_ok)
  then obtain im h s3 q s4 observed s5
    where conf: "refuse_unless_confirmed cx h s3 = (Inr q, s4)"
      and obs: "on_world OpChain (readImplementationAddress (cx_send cx) (up_proxy p)) s4 = (Inr observed, s5)"
      and cur: "isAlreadyCurrent (cx_codec cx) observed im = Inr True" and out: "out = (im, h)"
    by (rule upgrade_step_ok)
  from conf obtain rc where "confirmTransaction (cx_utf8 cx) h (cx_wait cx) HOST_CONFIRMATION_BOUNDS
      (op_world s3) = (ConfirmedSuccessful h rc, op_world s4)"
    by (rule confirmed_run)
  moreover obtain w1 where "readImplementationAddress (cx_send cx) (up_proxy p) (op_world s4) = (Inr observed, w1)"
    using obs by (auto simp: on_world_ok)
  ultimately show ?thesis
    using end_upgrade_ok [OF finished(3)] out cur by auto
qed auto

section \<open>Properties of the transfer\<close>

lemma transfer_step_ok:
  assumes "transfer_step cx proxy admin target s = (Inr h, t)"
  shows "op_log t = op_log s @ [EvCall ''ProxyAdmin'' admin ''transferOwnership'' [JStr target]] \<and>
    (\<exists>u u'. ownerOf cx admin u = (Inr (Some target), u'))"
proof -
  from assms obtain wb s1 q s2 observed s3 where
    call: "callThroughFacade cx ''ProxyAdmin'' admin ''transferOwnership'' [JStr target] s = (Inr wb, s1)"
    and conf: "refuse_unless_confirmed cx (snd wb) s1 = (Inr q, s2)"
    and own: "ownerOf cx admin s2 = (Inr observed, s3)"
    and fin: "observed = Some target" "t = s3"
    unfolding transfer_step_def by (auto simp: raise_if_ok elim!: bind_io_InrE)
  have "op_log s1 = op_log s @ [EvCall ''ProxyAdmin'' admin ''transferOwnership'' [JStr target]]"
    using call unfolding callThroughFacade_def
    by (auto simp: raise_if_ok on_world_ok proxyArtifact_def lifted_ok emit_def
        elim!: bind_io_InrE split: option.splits)
  moreover have "op_log s2 = op_log s1" by (rule reads_log [OF ext.stays_refuse conf])
  moreover have "op_log s3 = op_log s2" by (rule reads_log [OF ext.stays_reads2(2) own])
  ultimately show ?thesis using own fin by auto
qed


section \<open>Witnesses\<close>

definition demo_slot :: string where
  "demo_slot = eip1967Slots Implementation"

abbreviation demo_upgrade_cx :: "bool cx" where
  "demo_upgrade_cx \<equiv> demo_cx demo_slot [] ''uups''"

lemma demo_chain:
  "readProxySlots (demo_send demo_slot []) (addr_of (CHR ''1''))
     [Implementation, Admin, Beacon] False = (Inr (Code (Some (addr_of (CHR ''1''))) None None), False)"
  "readUpgradeInterfaceVersion (demo_send demo_slot []) (addr_of (CHR ''1'')) False =
     (Inr None, False)"
  "readImplementationAddress (demo_send demo_slot []) (addr_of (CHR ''1'')) True =
     (Inr (addr_of (CHR ''2'')), True)"
  "isAlreadyCurrent demo_codec (addr_of (CHR ''2'')) (addr_of (CHR ''2'')) = Inr True"
  "getImplRecord demo_codec demo_manifest ''/r/m.json'' (addr_of (CHR ''1'')) False =
     (Inr (Some \<lparr>im_address = addr_of (CHR ''1''), im_all = None, im_rest = JObj [(''layout'', JNull)]\<rparr>), False)"
  "getProxyRecord demo_codec demo_manifest ''/r/m.json'' (addr_of (CHR ''1'')) True = (Inr None, True)"
  by code_simp+

lemma demo_call:
  "m \<in> {''upgradeTo'', ''upgradeToAndCall'', ''transferOwnership''} \<Longrightarrow>
   callThroughFacade (demo_cx slot answer kind) f at m args s =
     (Inr (at, ''cd''), s\<lparr>op_log := op_log s @ [EvCall f at m args], op_world := True\<rparr>)"
  by (auto simp: callThroughFacade_def proxyArtifact_def requireProxyArtifact_def lifted_def raise_if_def
      on_world_def emit_def bind_io_def transaction_id_def demo_cx_def demo_abstraction_def)

lemma demo_more [demo_steps]:
  "cx_processKind (demo_cx slot answer kind) p o1 k v w = (Inr (JStr kind), w)"
  "op_world demo_ost = False" "ss_manifest_file demo_session = ''/r/m.json''"
  by (simp_all add: demo_cx_def demo_ost_def demo_session_def)

lemma demo_linked [demo_steps]: "linked_gate (demo_abstraction n) r s = (Inr (), s)"
  by (simp add: linked_gate_def demo_steps lifted_def)

lemma demo_dispatch:
  "planUpgradeDispatch \<lparr>pb_kind = ProbeUups, pb_version = None, pb_hasCallData = False\<rparr> =
     Inr \<lparr>pl_route = UupsPre5, pl_call = UpgradeTo, pl_carriesData = False\<rparr>"
  by code_simp

lemma demo_upgrade:
  "fst (runUpgradeProxy demo_upgrade_cx (addr_of (CHR ''1'')) (demo_abstraction ''Box'')
     demo_resolved_options demo_ost) =
   Inr \<lparr>ug_contract = [''events'', ''upgradeTo'', ''upgradeToAndCall'', ''transferOwnership''],
      ug_address = addr_of (CHR ''1''), ug_transaction = ''cd'', ug_implementation = addr_of (CHR ''2'')\<rparr>"
  by (simp add: runUpgradeProxy_def prepare_upgrade_def plan_upgrade_def bind_io_def
      demo_steps proxySlots_def on_world_def demo_chain demo_call processProxyKind_def
      storedLayoutFor_def assertStorageCompatible_def encodeCall_def demo_dispatch
      upgrade_step_def sendUpgradeCall_def facade_of_def call_text_def upgrade_args_def
      refuse_unless_confirmed_def assertNoCheatcodeCollision_def restoringWriteBackOnFailure_def
      catch_io_def recordingLiveProxy_def finish_upgrade_def or_else_def)


lemma upgrade_is_verified_on_chain_witness:
  "\<exists>w observed w' v rc.
    confirmTransaction (cx_utf8 demo_upgrade_cx) ''cd'' (cx_wait demo_upgrade_cx) HOST_CONFIRMATION_BOUNDS v =
      (ConfirmedSuccessful ''cd'' rc, w) \<and>
    readImplementationAddress (cx_send demo_upgrade_cx) (addr_of (CHR ''1'')) w = (Inr observed, w') \<and>
    isAlreadyCurrent (cx_codec demo_upgrade_cx) observed (addr_of (CHR ''2'')) = Inr True"
  using upgrade_is_verified_on_chain [OF surjective_pairing [THEN trans,
      OF arg_cong2 [where f = Pair, OF demo_upgrade refl]]]
  by simp

definition demo_admin_slot :: string where
  "demo_admin_slot = eip1967Slots Admin"

lemma demo_admin:
  "readProxySlots (demo_send demo_admin_slot (word_of (CHR ''2''))) (addr_of (CHR ''1''))
     [Implementation, Admin, Beacon] False = (Inr (Code None (Some (addr_of (CHR ''1''))) None), False)"
  "tvmCallOptional (demo_send demo_admin_slot (word_of (CHR ''2''))) (addr_of (CHR ''1'')) ''0x8da5cb5b'' False =
     (Inr (Answered (word_of (CHR ''2''))), False)"
  "strip_bytecode (word_of (CHR ''2'')) = replicate 24 (CHR ''0'') @ replicate 40 (CHR ''2'')"
  by code_simp+

lemma addr_of_cons: "CHR ''0'' # CHR ''x'' # replicate 40 c = addr_of c"
  by (simp add: addr_of_def)

lemma demo_same [simp]: "demo_ost\<lparr>op_world := False\<rparr> = demo_ost"
  by (simp add: demo_ost_def)

lemma demo_owner:
  "ownerOf (demo_cx demo_admin_slot (word_of (CHR ''2'')) kind) (addr_of (CHR ''1'')) demo_ost =
     (Inr (Some (addr_of (CHR ''2''))), demo_ost)"
  by (simp add: ownerOf_def on_world_def demo_steps demo_admin Let_def bind_io_def list_all_iff addr_of_cons)

lemma demo_transfer:
  "runTransferProxyAdminOwnership (demo_cx demo_admin_slot (word_of (CHR ''2'')) ''transparent'')
     (addr_of (CHR ''1'')) (addr_of (CHR ''2'')) demo_ost =
   (Inr \<lparr>at_proxy = addr_of (CHR ''1''), at_previousOwner = Some (addr_of (CHR ''2'')),
      at_newOwner = addr_of (CHR ''2''), at_transaction = None, at_alreadyHeld = True\<rparr>, demo_ost)"
  by (simp add: runTransferProxyAdminOwnership_def transfer_from_def bind_io_def proxySlots_def
      on_world_def demo_steps demo_admin demo_owner)


end
