(* ===== verification/ProxyPipeline.thy ===== *)
theory ProxyPipeline
  imports ProxyUpgrade
begin

text \<open>
  The shape the operations share: checks that only read, one step through the host's queue, and
  a result built from what the step returned.  What a pipeline may log, and what its success
  says about each part, is proved once here.
\<close>

definition pipeline ::
  "'w cx \<Rightarrow> ('w ost, op_error, 'p) io \<Rightarrow> ('p \<Rightarrow> ('w ost, op_error, 'o) io) \<Rightarrow>
   ('p \<Rightarrow> 'o \<Rightarrow> ('w ost, op_error, 'r) io) \<Rightarrow> ('w ost, op_error, 'r) io" where
  "pipeline cx checks step result =
     bind_io checks (\<lambda>p. bind_io (queue cx (step p)) (result p))"

lemma pipeline_log:
  assumes reads: "stays (extends (\<lambda>_. False)) checks"
    and step: "\<And>p. stays (extends (P p)) (step p)"
    and result: "\<And>p out. stays (extends (\<lambda>_. False)) (result p out)"
  shows "\<exists>evs. op_log (snd (pipeline cx checks step result s)) = op_log s @ evs \<and>
    (case evs of [] \<Rightarrow> True
     | ev # rest \<Rightarrow> ev = EvQueue \<and> (\<exists>p u. checks s = (Inr p, u) \<and> list_all (P p) rest))"
proof -
  obtain r u where c: "checks s = (r, u)" by force
  have u: "op_log u = op_log s" by (rule reads_log [OF reads c])
  show ?thesis
  proof (cases r)
    case (Inl e)
    then show ?thesis using c u by (simp add: pipeline_def bind_io_def)
  next
    case (Inr p)
    obtain q w where q: "queue cx (step p) u = (q, w)" by force
    from queue_log [OF step q] obtain rest
      where rest: "op_log w = op_log u @ EvQueue # rest" "list_all (P p) rest" by blast
    have "op_log (snd (pipeline cx checks step result s)) = op_log w"
    proof (cases q)
      case (Inl e)
      then show ?thesis using c Inr q by (simp add: pipeline_def bind_io_def)
    next
      case out: (Inr out)
      obtain f t where f: "result p out w = (f, t)" by force
      then have "op_log t = op_log w" by (rule reads_log [OF result])
      then show ?thesis using c Inr q out f by (simp add: pipeline_def bind_io_def)
    qed
    then show ?thesis using u rest c Inr by (intro exI [of _ "EvQueue # rest"]) auto
  qed
qed

lemma pipeline_events:
  assumes run: "pipeline cx checks step result s = (res, t)"
    and reads: "stays (extends (\<lambda>_. False)) checks"
    and step: "\<And>p. stays (extends (P p)) (step p)"
    and result: "\<And>p out. stays (extends (\<lambda>_. False)) (result p out)"
  obtains (early) "op_log t = op_log s"
  | (queued) p u rest where "checks s = (Inr p, u)" and "op_log t = op_log s @ EvQueue # rest"
      and "list_all (P p) rest"
proof -
  from pipeline_log [of checks P step result cx s, OF reads step result] run obtain evs where "op_log t = op_log s @ evs"
    and "case evs of [] \<Rightarrow> True
      | ev # rest \<Rightarrow> ev = EvQueue \<and> (\<exists>p u. checks s = (Inr p, u) \<and> list_all (P p) rest)"
    by auto
  then show ?thesis using early queued by (cases evs) auto
qed

lemma pipeline_ok:
  assumes "pipeline cx checks step result s = (Inr res, t)"
  obtains p u u1 out w where "checks s = (Inr p, u)" and "op_net u1 = op_net u"
    and "op_log u1 = op_log u @ [EvQueue]" and "step p u1 = (Inr out, w)"
    and "result p out w = (Inr res, t)"
proof -
  from assms obtain p u out w where p: "checks s = (Inr p, u)"
    and q: "queue cx (step p) u = (Inr out, w)" and r: "result p out w = (Inr res, t)"
    unfolding pipeline_def by (elim bind_io_InrE)
  obtain u1 where "op_net u1 = op_net u" "op_log u1 = op_log u @ [EvQueue]"
    "step p u1 = (Inr out, w)"
    by (rule queue_nets [OF q]) auto
  then show ?thesis using that p r by simp
qed

text \<open>A transaction the chain was asked about and confirmed.\<close>

definition was_confirmed :: "'w cx \<Rightarrow> string \<Rightarrow> bool" where
  "was_confirmed cx h \<longleftrightarrow>
     (\<exists>v w rc. confirmTransaction (cx_utf8 cx) h (cx_wait cx) HOST_CONFIRMATION_BOUNDS v =
        (ConfirmedSuccessful h rc, w))"

lemma confirm_confirmed:
  assumes "confirm cx h s = (Inr (ConfirmedSuccessful g rc), t)"
  shows "was_confirmed cx h"
proof -
  obtain v w where v: "confirmTransaction (cx_utf8 cx) h (cx_wait cx) HOST_CONFIRMATION_BOUNDS (op_world s) = (v, w)"
    by force
  with confirm_run [OF assms] have "v = ConfirmedSuccessful g rc" by simp
  moreover from this v have "g = h" using confirmed_hash by (metis fst_conv)
  ultimately show ?thesis using v unfolding was_confirmed_def by blast
qed

lemma refuse_confirmed: "refuse_unless_confirmed cx h s = (Inr q, t) \<Longrightarrow> was_confirmed cx h"
  by (auto simp: refuse_unless_confirmed_def elim!: bind_io_InrE split: verdict_tx.splits
      intro: confirm_confirmed)

lemma confirm_log: "confirm cx h s = (r, t) \<Longrightarrow> op_log t = op_log s"
  by (rule reads_log [OF ext.stays_reads(5)])

lemma facade_ok:
  assumes "callThroughFacade cx f at m args s = (Inr wb, t)"
  shows "op_log t = op_log s @ [EvCall f at m args]"
  using assms unfolding callThroughFacade_def
  by (auto simp: raise_if_ok on_world_ok proxyArtifact_def lifted_ok emit_def
      elim!: bind_io_InrE split: option.splits)

end
