(* ===== verification/ProxyBeacon.thy ===== *)
theory ProxyBeacon
  imports ProxyPipeline
begin

text \<open>
  \<open>beacon/index.ts\<close>: deploying a beacon, deploying a proxy at a beacon, upgrading a beacon.
\<close>

section \<open>Operations\<close>

definition DEPLOY_BEACON_ACCEPTED_OPTIONS :: "string list" where
  "DEPLOY_BEACON_ACCEPTED_OPTIONS = HANDLE_OPTION_KEYS @
     [''constructorArgs'', ''initialOwner'', ''unsafeAllow'', ''unsafeAllowRenames'',
      ''unsafeSkipStorageCheck'', ''unsafeAllowCustomTypes'', ''unsafeAllowLinkedLibraries'',
      ''redeployImplementation'', ''useDeployedImplementation'', ''timeout'', ''pollingInterval'']"

definition UPGRADE_BEACON_ACCEPTED_OPTIONS :: "string list" where
  "UPGRADE_BEACON_ACCEPTED_OPTIONS = HANDLE_OPTION_KEYS @
     [''constructorArgs'', ''unsafeAllow'', ''unsafeAllowRenames'', ''unsafeSkipStorageCheck'',
      ''unsafeAllowCustomTypes'', ''unsafeAllowLinkedLibraries'', ''redeployImplementation'',
      ''useDeployedImplementation'', ''timeout'', ''pollingInterval'']"

definition DEPLOY_BEACON_PROXY_ACCEPTED_OPTIONS :: "string list" where
  "DEPLOY_BEACON_PROXY_ACCEPTED_OPTIONS = HANDLE_OPTION_KEYS @ [''initializer'', ''timeout'', ''pollingInterval'']"

definition requireBeacon :: "'w cx \<Rightarrow> string \<Rightarrow> ('w ost, op_error, string) io" where
  "requireBeacon cx beacon =
     bind_io (on_world OpChain (readBeaconImplementation (cx_send cx) beacon)) (\<lambda>answer.
       case answer of
         BeaconImplementation a \<Rightarrow> return_io a
       | _ \<Rightarrow> throw_io (OpProxy (NothingToAdopt beacon
                (Some ''an address that does not answer implementation()''))))"

text \<open>
  The third argument is present where the transaction is a deploy: the abstraction, its
  write-back before, and what exists on the chain if the transaction landed.
\<close>

definition confirmOrRefuse ::
  "'w cx \<Rightarrow> string \<Rightarrow> (abstraction \<times> write_back \<times> string \<times> string) option \<Rightarrow> ('w ost, op_error, unit) io" where
  "confirmOrRefuse cx hash deploy =
     bind_io (confirm cx hash) (\<lambda>verdict.
       case verdict of
         Reverted_tx _ _ _ _ \<Rightarrow>
           bind_io (case deploy of None \<Rightarrow> return_io ()
                    | Some (a, prior, _) \<Rightarrow> change_net a (restoreWriteBack prior)) (\<lambda>_.
             throw_io (OpReverted verdict))
       | Indeterminate_tx _ _ _ \<Rightarrow>
           throw_io (OpIndeterminate verdict (case deploy of None \<Rightarrow> None | Some (_, _, live) \<Rightarrow> Some live))
       | ConfirmedSuccessful _ _ \<Rightarrow> return_io ())"

text \<open>\<open>deployBeacon\<close>.\<close>

record deployed_beacon =
  bc_contract :: "string list"
  bc_address :: string
  bc_transaction :: string
  bc_implementation :: string

definition beacon_owner :: "'w cx \<Rightarrow> resolved \<Rightarrow> sender \<Rightarrow> ('w ost, op_error, string) io" where
  "beacon_owner cx r sender =
     (case r_initialOwner r of
        Some a \<Rightarrow> canonical cx a
      | None \<Rightarrow>
          (case sender of
             Resolved a \<Rightarrow> canonical cx a
           | Unconfigured \<Rightarrow> throw_io (OpProxy BeaconInitialOwnerRequired)))"

definition prepare_beacon ::
  "'w cx \<Rightarrow> abstraction \<Rightarrow> resolved \<Rightarrow> ('w ost, op_error, validated \<times> string \<times> abstraction) io" where
  "prepare_beacon cx contract r =
     bind_io (lift_io (nameOf contract)) (\<lambda>name.
     bind_io (validateImplementation cx name (r\<lparr>r_kind := Some ''beacon''\<rparr>)) (\<lambda>validated.
     bind_io (requireDeployer cx) (\<lambda>_.
     bind_io (resolveSender cx) (\<lambda>sender.
     bind_io (beacon_owner cx r sender) (\<lambda>owner.
     bind_io (proxyArtifact cx ''UpgradeableBeacon'') (\<lambda>beacon.
       return_io (validated, owner, beacon)))))))"

text \<open>The implementation through the user's contract.\<close>

definition implementation_of ::
  "'w cx \<Rightarrow> abstraction \<Rightarrow> resolved \<Rightarrow> validated \<Rightarrow> ('w ost, op_error, string) io" where
  "implementation_of cx contract r validated =
     fetchOrDeployImplementation cx validated r
       (bind_io (hostDeploy cx contract (r_constructorArgs r)) (\<lambda>wb.
          return_io (fst wb, Some (snd wb))))"

definition confirmed_deploy ::
  "'w cx \<Rightarrow> abstraction \<Rightarrow> js list \<Rightarrow> ('w ost, op_error, string \<times> string) io" where
  "confirmed_deploy cx ab args =
     bind_io (write_back_of ab) (\<lambda>prior.
     bind_io (hostDeploy cx ab args) (\<lambda>wb.
     bind_io (canonical cx (fst wb)) (\<lambda>a.
     bind_io (confirmOrRefuse cx (snd wb) (Some (ab, prior, a, snd wb))) (\<lambda>_.
       return_io wb))))"

definition beacon_step ::
  "'w cx \<Rightarrow> abstraction \<Rightarrow> resolved \<Rightarrow> validated \<times> string \<times> abstraction \<Rightarrow>
   ('w ost, op_error, (string \<times> string) \<times> string) io" where
  "beacon_step cx contract r p =
     (case p of (validated, owner, beacon) \<Rightarrow>
        restoringWriteBackOnFailure contract
          (bind_io (implementation_of cx contract r validated) (\<lambda>implementation.
           bind_io (confirmed_deploy cx beacon [JStr implementation, JStr owner]) (\<lambda>deployed.
             return_io (deployed, implementation)))))"

definition finish_beacon ::
  "'w cx \<Rightarrow> validated \<times> string \<times> abstraction \<Rightarrow> (string \<times> string) \<times> string \<Rightarrow>
   ('w ost, op_error, deployed_beacon) io" where
  "finish_beacon cx p out =
     bind_io (contractAt cx (snd (snd p)) (fst (fst out))) (\<lambda>handle.
     bind_io (sealUnavailable handle) (\<lambda>members.
     bind_io (transactionIdentity (Some (snd (fst out))) ''deployBeacon'') (\<lambda>hash.
       return_io \<lparr>bc_contract = members, bc_address = fst (fst out), bc_transaction = hash,
                  bc_implementation = snd out\<rparr>)))"

definition runDeployBeacon ::
  "'w cx \<Rightarrow> abstraction \<Rightarrow> resolved \<Rightarrow> ('w ost, op_error, deployed_beacon) io" where
  "runDeployBeacon cx contract r =
     pipeline cx (prepare_beacon cx contract r) (beacon_step cx contract r) (finish_beacon cx)"

text \<open>\<open>deployBeaconProxy\<close>.\<close>

definition prepare_beacon_proxy ::
  "'w cx \<Rightarrow> string \<Rightarrow> abstraction \<Rightarrow> js list \<Rightarrow> resolved \<Rightarrow>
   ('w ost, op_error, string \<times> string \<times> abstraction) io" where
  "prepare_beacon_proxy cx beaconAddress contract args r =
     bind_io (canonical cx beaconAddress) (\<lambda>beacon.
     bind_io (requireBeacon cx beacon) (\<lambda>_.
     bind_io (lift_io (encodeInitializer cx (abi_of (ab_abi contract)) ''beacon'' args (r_initializer r))) (\<lambda>data.
     bind_io (requireDeployer cx) (\<lambda>_.
     bind_io (proxyArtifact cx ''BeaconProxy'') (\<lambda>proxy.
       return_io (beacon, data, proxy))))))"

definition beacon_proxy_step ::
  "'w cx \<Rightarrow> string \<times> string \<times> abstraction \<Rightarrow> ('w ost, op_error, string \<times> string) io" where
  "beacon_proxy_step cx p =
     (case p of (beacon, data, proxy) \<Rightarrow>
        bind_io (confirmed_deploy cx proxy [JStr beacon, JStr data]) (\<lambda>wb.
        bind_io (canonical cx (fst wb)) (\<lambda>a.
        bind_io (recordingLiveProxy (a, snd wb) (recordProxy cx a ''beacon'')) (\<lambda>_.
          return_io wb))))"

definition finish_beacon_proxy ::
  "'w cx \<Rightarrow> abstraction \<Rightarrow> string \<times> string \<Rightarrow> ('w ost, op_error, deployed_proxy) io" where
  "finish_beacon_proxy cx contract wb =
     bind_io (contractAt cx contract (fst wb)) (\<lambda>handle.
     bind_io (sealUnavailable handle) (\<lambda>members.
     bind_io (transactionIdentity (Some (snd wb)) ''deployBeaconProxy'') (\<lambda>hash.
       return_io \<lparr>rs_contract = members, rs_address = fst wb, rs_transaction = hash\<rparr>)))"

definition runDeployBeaconProxy ::
  "'w cx \<Rightarrow> string \<Rightarrow> abstraction \<Rightarrow> js list \<Rightarrow> resolved \<Rightarrow> ('w ost, op_error, deployed_proxy) io" where
  "runDeployBeaconProxy cx beaconAddress contract args r =
     pipeline cx (prepare_beacon_proxy cx beaconAddress contract args r) (beacon_proxy_step cx)
       (\<lambda>_. finish_beacon_proxy cx contract)"

text \<open>\<open>upgradeBeacon\<close>.\<close>

definition prepare_beacon_upgrade ::
  "'w cx \<Rightarrow> string \<Rightarrow> abstraction \<Rightarrow> resolved \<Rightarrow> ('w ost, op_error, string \<times> validated) io" where
  "prepare_beacon_upgrade cx beaconAddress contract r =
     bind_io (canonical cx beaconAddress) (\<lambda>beacon.
     bind_io (requireBeacon cx beacon) (\<lambda>current.
     bind_io (lift_io (nameOf contract)) (\<lambda>name.
     bind_io (validateImplementation cx name (r\<lparr>r_kind := Some ''beacon''\<rparr>)) (\<lambda>validated.
     bind_io (storedLayoutFor cx current) (\<lambda>layout.
     bind_io (assertStorageCompatible cx layout validated r) (\<lambda>_.
     bind_io (requireDeployer cx) (\<lambda>_.
       return_io (beacon, validated))))))))"

definition switch_beacon ::
  "'w cx \<Rightarrow> string \<Rightarrow> string \<Rightarrow> ('w ost, op_error, string) io" where
  "switch_beacon cx beacon implementation =
     bind_io (callThroughFacade cx ''UpgradeableBeacon'' beacon ''upgradeTo'' [JStr implementation]) (\<lambda>wb.
     bind_io (confirmOrRefuse cx (snd wb) None) (\<lambda>_.
     bind_io (requireBeacon cx beacon) (\<lambda>observed.
     bind_io (lifted OpAddress (isAlreadyCurrent (cx_codec cx) observed implementation)) (\<lambda>current.
     bind_io (raise_if (\<not> current)
                (OpProxy (UpgradeVerificationFailed beacon implementation observed (snd wb)))) (\<lambda>_.
       return_io (snd wb))))))"

definition beacon_upgrade_step ::
  "'w cx \<Rightarrow> abstraction \<Rightarrow> resolved \<Rightarrow> string \<times> validated \<Rightarrow> ('w ost, op_error, string \<times> string) io" where
  "beacon_upgrade_step cx contract r p =
     (case p of (beacon, validated) \<Rightarrow>
        restoringWriteBackOnFailure contract
          (bind_io (implementation_of cx contract r validated) (\<lambda>implementation.
           bind_io (switch_beacon cx beacon implementation) (\<lambda>hash.
             return_io (implementation, hash)))))"

definition runUpgradeBeacon ::
  "'w cx \<Rightarrow> string \<Rightarrow> abstraction \<Rightarrow> resolved \<Rightarrow> ('w ost, op_error, upgraded_proxy) io" where
  "runUpgradeBeacon cx beaconAddress contract r =
     pipeline cx (prepare_beacon_upgrade cx beaconAddress contract r) (beacon_upgrade_step cx contract r)
       (\<lambda>p. finish_upgrade cx contract ''upgradeBeacon'' (fst p))"

section \<open>What the parts may log\<close>

context frame
begin

lemma stays_require_beacon [stays_intros]: "stays R (requireBeacon cx a)"
  unfolding requireBeacon_def
  by (rule stays_intros | (simp split: beacon_read.split; intro conjI impI allI))+

lemma stays_prepare_beacon_upgrade: "stays R (prepare_beacon_upgrade cx a contract r)"
  unfolding prepare_beacon_upgrade_def by (rule stays_intros)+

lemma stays_prepare_beacon_proxy: "stays R (prepare_beacon_proxy cx a contract args r)"
  unfolding prepare_beacon_proxy_def by (rule stays_intros)+

lemma stays_beacon_owner [stays_intros]: "stays R (beacon_owner cx r sender)"
  unfolding beacon_owner_def by (simp add: stays_intros split: option.split sender.split)

lemma stays_prepare_beacon: "stays R (prepare_beacon cx contract r)"
  unfolding prepare_beacon_def by (rule stays_intros)+

lemma stays_finish_beacon: "stays R (finish_beacon cx p out)" "stays R (finish_beacon_proxy cx contract wb)"
  unfolding finish_beacon_def finish_beacon_proxy_def by (rule stays_intros)+

lemma stays_implementation:
  assumes "engine_through_callback cx" and "stays R (hostDeploy cx contract (r_constructorArgs r))"
  shows "stays R (implementation_of cx contract r v)"
  unfolding implementation_of_def by (rule stays_fetch assms stays_intros)+

end

lemma confirm_or_refuse_log [stays_intros]: "stays (extends P) (confirmOrRefuse cx h d)"
  unfolding confirmOrRefuse_def
  by (rule stays_intros | (simp split: verdict_tx.split option.split; intro conjI impI allI))+

lemma confirm_or_refuse_kept [stays_intros]: "stays nets_kept (confirmOrRefuse cx h d)"
  unfolding confirmOrRefuse_def
  by (rule stays_intros | (simp split: verdict_tx.split option.split; intro conjI impI allI))+

lemma confirm_or_refuse_ok:
  "confirmOrRefuse cx h d s = (Inr q, t) \<Longrightarrow> was_confirmed cx h \<and> op_log t = op_log s"
  by (auto simp: confirmOrRefuse_def elim!: bind_io_InrE split: verdict_tx.splits
      intro: confirm_confirmed dest: confirm_log)

lemma canonical_log: "canonical cx a s = (Inr b, t) \<Longrightarrow> op_log t = op_log s"
  by (simp add: canonical_ok)

lemma confirmed_deploy_ok:
  assumes "confirmed_deploy cx ab args s = (Inr wb, t)"
  obtains a where "op_log t = op_log s @ [EvDeploy (ab_id ab) args]" and "was_confirmed cx (snd wb)"
    and "canonicalizeAddress (cx_codec cx) (JStr (fst wb)) = Inr a"
proof -
  from assms obtain prior s1 s2 a s3 q s4 where
    dep: "hostDeploy cx ab args s1 = (Inr wb, s2)" and "write_back_of ab s = (Inr prior, s1)"
    and can: "canonical cx (fst wb) s2 = (Inr a, s3)"
    and conf: "confirmOrRefuse cx (snd wb) (Some (ab, prior, a, snd wb)) s3 = (Inr q, s4)" "t = s4"
    unfolding confirmed_deploy_def by (auto elim!: bind_io_InrE)
  moreover from this have "s1 = s" by (simp add: write_back_of_def)
  ultimately show ?thesis
    using that hostDeploy_ok(3) [OF dep] confirm_or_refuse_ok [OF conf(1)] by (simp add: canonical_ok)
qed

definition beacon_event :: "abstraction \<Rightarrow> string \<Rightarrow> op_event \<Rightarrow> bool" where
  "beacon_event contract beacon ev \<longleftrightarrow>
     (case ev of
        EvDeploy i _ \<Rightarrow> i = ab_id contract
      | EvCall f at m args \<Rightarrow> f = ''UpgradeableBeacon'' \<and> at = beacon \<and> m = ''upgradeTo''
      | _ \<Rightarrow> False)"

lemma beacon_upgrade_step_log:
  assumes "engine_through_callback cx"
  shows "stays (extends (beacon_event contract (fst p))) (beacon_upgrade_step cx contract r p)"
proof -
  have h: "stays (extends (beacon_event contract b)) (hostDeploy cx contract args)" for b args
    by (rule ext.stays_host_deploy stays_intros | simp add: beacon_event_def)+
  have c: "stays (extends (beacon_event contract b))
      (callThroughFacade cx ''UpgradeableBeacon'' b ''upgradeTo'' args)" for b args
    by (rule stays_intros) (simp add: beacon_event_def)
  obtain b v where "p = (b, v)" by force
  then show ?thesis
    unfolding beacon_upgrade_step_def switch_beacon_def
    by simp (rule ext.stays_restoring ext.stays_implementation assms h c stays_intros)+
qed

section \<open>Properties\<close>

lemma require_beacon_ok:
  "requireBeacon cx b s = (Inr i, t) \<longleftrightarrow>
     (\<exists>w. readBeaconImplementation (cx_send cx) b (op_world s) = (Inr (BeaconImplementation i), w) \<and>
        t = s\<lparr>op_world := w\<rparr>)"
proof -
  obtain x w where x: "readBeaconImplementation (cx_send cx) b (op_world s) = (x, w)" by force
  show ?thesis
  proof (cases x)
    case (Inr answer)
    then show ?thesis using x by (cases answer) (auto simp: requireBeacon_def on_world_def bind_io_def)
  qed (use x in \<open>auto simp: requireBeacon_def on_world_def bind_io_def\<close>)
qed

lemma prepare_beacon_upgrade_ok:
  assumes "prepare_beacon_upgrade cx a contract r s = (Inr p, t)"
  obtains current u u1 u2 layout where "canonicalizeAddress (cx_codec cx) (JStr a) = Inr (fst p)"
    and "requireBeacon cx (fst p) s = (Inr current, u)"
    and "storedLayoutFor cx current u1 = (Inr layout, u2)"
    and "cx_storageOk cx layout (va_layout (snd p)) (r_validation r)"
  using assms unfolding prepare_beacon_upgrade_def
  by (elim bind_io_InrE)
     (auto simp: canonical_ok assertStorageCompatible_def raise_if_ok engineValidationOptions_def)


lemma finish_upgrade_ok:
  "finish_upgrade cx contract opn a out s = (Inr res, t) \<Longrightarrow>
     ug_address res = a \<and> ug_implementation res = fst out \<and> ug_transaction res = snd out"
  by (auto simp: finish_upgrade_def transactionIdentity_def elim!: bind_io_InrE
      split: if_splits option.splits)



lemma recorded_ok:
  assumes "recordingLiveProxy live (recordProxy cx a k) s = (Inr q, t)"
  shows "op_log t = op_log s @ [EvRecord a k]"
proof -
  obtain r u where m: "recordProxy cx a k s = (r, u)" by force
  with assms obtain q' where "r = Inr q'" "t = u"
    by (cases r) (auto simp: recordingLiveProxy_def catch_io_def)
  with m show ?thesis by (auto simp: recordProxy_def emit_def on_world_ok elim!: bind_io_InrE)
qed


text \<open>
  A successful \<open>deployBeacon\<close> deployed its beacon at its implementation.  The last deploy
  of the operation is the resolved \<open>UpgradeableBeacon\<close>, with the implementation of the result
  and an owner that is the canonical initial owner or the resolved sender; the result's
  transaction was confirmed.
\<close>

theorem deployed_beacon_points_at_its_implementation:
  assumes "runDeployBeacon cx contract r s = (Inr res, t)"
  shows "\<exists>beacon owner sender front u u'. requireProxyArtifact (cx_resolve cx) ''UpgradeableBeacon'' = Inr beacon \<and>
    op_log t = front @ [EvDeploy (ab_id beacon) [JStr (bc_implementation res), JStr owner]] \<and>
    beacon_owner cx r sender u = (Inr owner, u') \<and> was_confirmed cx (bc_transaction res)"
proof -
  from assms obtain p u u1 out w where pre: "prepare_beacon cx contract r s = (Inr p, u)"
    and step: "beacon_step cx contract r p u1 = (Inr out, w)" and fin: "finish_beacon cx p out w = (Inr res, t)"
    unfolding runDeployBeacon_def by (rule pipeline_ok)
  obtain v owner beacon where p: "p = (v, owner, beacon)" by (metis prod.exhaust)
  from pre obtain sender s1 s2 where checks: "beacon_owner cx r sender s1 = (Inr owner, s2)"
    "requireProxyArtifact (cx_resolve cx) ''UpgradeableBeacon'' = Inr beacon"
    unfolding prepare_beacon_def p by (auto simp: proxyArtifact_def lifted_ok elim!: bind_io_InrE)
  from step obtain i s3 wb where "confirmed_deploy cx beacon [JStr i, JStr owner] s3 = (Inr wb, w)"
    and out: "out = (wb, i)"
    unfolding beacon_step_def p by (auto simp: restoring_ok elim!: bind_io_InrE)
  then obtain e where d: "op_log w = op_log s3 @ [EvDeploy (ab_id beacon) [JStr i, JStr owner]]"
    "was_confirmed cx (snd wb)" by (rule_tac confirmed_deploy_ok)
  have "op_log t = op_log w" by (rule reads_log [OF ext.stays_finish_beacon(1) fin])
  moreover have "bc_implementation res = i" "bc_transaction res = snd wb"
    using fin out by (auto simp: finish_beacon_def transactionIdentity_def elim!: bind_io_InrE
        split: if_splits option.splits)
  ultimately show ?thesis using checks d by auto
qed

section \<open>Witnesses\<close>

abbreviation demo_beacon_cx :: "bool cx" where
  "demo_beacon_cx \<equiv> demo_cx [] (word_of (CHR ''2'')) ''beacon''"

lemma demo_beacon:
  "readBeaconImplementation (demo_send [] (word_of (CHR ''2''))) (addr_of (CHR ''1'')) False =
     (Inr (BeaconImplementation (addr_of (CHR ''2''))), False)"
  "readBeaconImplementation (demo_send [] (word_of (CHR ''2''))) (addr_of (CHR ''1'')) True =
     (Inr (BeaconImplementation (addr_of (CHR ''2''))), True)"
  "getImplRecord demo_codec demo_manifest ''/r/m.json'' (addr_of (CHR ''2'')) False =
     (Inr (Some \<lparr>im_address = addr_of (CHR ''2''), im_all = None, im_rest = JObj [(''layout'', JNull)]\<rparr>), False)"
  by code_simp+

lemma demo_confirm_or_refuse [demo_steps]: "confirmOrRefuse (demo_cx slot answer kind) h d s = (Inr (), s)"
  by (simp add: confirmOrRefuse_def bind_io_def demo_confirm)

lemma demo_beacon_upgrade:
  "fst (runUpgradeBeacon demo_beacon_cx (addr_of (CHR ''1'')) (demo_abstraction ''Box'')
     demo_resolved_options demo_ost) =
   Inr \<lparr>ug_contract = [''events'', ''upgradeTo'', ''upgradeToAndCall'', ''transferOwnership''],
      ug_address = addr_of (CHR ''1''), ug_transaction = ''cd'', ug_implementation = addr_of (CHR ''2'')\<rparr>"
  by (simp add: runUpgradeBeacon_def pipeline_def prepare_beacon_upgrade_def beacon_upgrade_step_def
      implementation_of_def switch_beacon_def bind_io_def requireBeacon_def on_world_def demo_beacon
      storedLayoutFor_def assertStorageCompatible_def finish_upgrade_def demo_call demo_chain
      restoringWriteBackOnFailure_def catch_io_def assertNoCheatcodeCollision_def demo_steps)

lemma demo_beacon_proxy:
  "fst (runDeployBeaconProxy demo_beacon_cx (addr_of (CHR ''1'')) (demo_abstraction ''Box'') []
     demo_resolved_options demo_ost) =
   Inr \<lparr>rs_contract = [''events'', ''upgradeTo'', ''upgradeToAndCall'', ''transferOwnership''],
      rs_address = addr_of (CHR ''2''), rs_transaction = ''ab''\<rparr>"
  by (simp add: runDeployBeaconProxy_def pipeline_def prepare_beacon_proxy_def beacon_proxy_step_def
      confirmed_deploy_def bind_io_def requireBeacon_def on_world_def demo_beacon encodeInitializer_def
      finish_beacon_proxy_def recordingLiveProxy_def catch_io_def assertNoCheatcodeCollision_def demo_steps)

lemma demo_deploy_beacon:
  "fst (runDeployBeacon demo_beacon_cx (demo_abstraction ''Box'')
     (demo_resolved_options\<lparr>r_initialOwner := Some (addr_of (CHR ''1''))\<rparr>) demo_ost) =
   Inr \<lparr>bc_contract = [''events'', ''upgradeTo'', ''upgradeToAndCall'', ''transferOwnership''],
      bc_address = addr_of (CHR ''2''), bc_transaction = ''ab'', bc_implementation = addr_of (CHR ''2'')\<rparr>"
  by (simp add: runDeployBeacon_def pipeline_def prepare_beacon_def beacon_step_def beacon_owner_def
      implementation_of_def confirmed_deploy_def bind_io_def finish_beacon_def
      restoringWriteBackOnFailure_def catch_io_def assertNoCheatcodeCollision_def demo_steps)


lemma run_of_fst: "fst p = r \<Longrightarrow> p = (r, snd p)"
  by (metis prod.collapse)



lemma deployed_beacon_points_at_its_implementation_witness:
  "\<exists>(beacon :: abstraction) owner front. op_log (snd (runDeployBeacon demo_beacon_cx (demo_abstraction ''Box'')
       (demo_resolved_options\<lparr>r_initialOwner := Some (addr_of (CHR ''1''))\<rparr>) demo_ost)) =
     front @ [EvDeploy (ab_id beacon) [JStr (addr_of (CHR ''2'')), JStr owner]]"
  using deployed_beacon_points_at_its_implementation [OF run_of_fst [OF demo_deploy_beacon]] by auto

end
