(* ===== verification/ProxyAdopt.thy ===== *)
theory ProxyAdopt
  imports ProxyBeacon
begin

text \<open>
  \<open>adopt/index.ts\<close>: \<open>forceImport\<close>, which reads and records and never sends.
\<close>

section \<open>The operation\<close>

definition FORCE_IMPORT_ACCEPTED_OPTIONS :: "string list" where
  "FORCE_IMPORT_ACCEPTED_OPTIONS = HANDLE_OPTION_KEYS @
     [''kind'', ''constructorArgs'', ''unsafeAllow'', ''unsafeAllowRenames'', ''unsafeSkipStorageCheck'',
      ''unsafeAllowCustomTypes'', ''unsafeAllowLinkedLibraries'']"

datatype adopted_kind = FoundTransparent | FoundUups | FoundBeacon | FoundImplementation

definition found_name :: "adopted_kind \<Rightarrow> string" where
  "found_name k =
     (case k of FoundTransparent \<Rightarrow> ''transparent'' | FoundUups \<Rightarrow> ''uups'' | FoundBeacon \<Rightarrow> ''beacon''
      | FoundImplementation \<Rightarrow> ''implementation'')"

text \<open>What is at the address, from the slots and the beacon reader.\<close>

definition classify ::
  "'w cx \<Rightarrow> string \<Rightarrow> string option \<Rightarrow> string option \<Rightarrow> string option \<Rightarrow>
   ('w ost, op_error, adopted_kind \<times> string) io" where
  "classify cx address implementation admin beacon =
     (case beacon of
        Some b \<Rightarrow>
          bind_io (on_world OpChain (readBeaconImplementation (cx_send cx) b)) (\<lambda>answer.
            case answer of
              BeaconImplementation i \<Rightarrow> return_io (FoundBeacon, i)
            | _ \<Rightarrow> throw_io (OpProxy (NothingToAdopt address
                     (Some ''a beacon proxy whose beacon does not answer implementation()''))))
      | None \<Rightarrow>
          (case implementation of
             Some i \<Rightarrow> return_io (if admin = None then FoundUups else FoundTransparent, i)
           | None \<Rightarrow>
               bind_io (on_world OpChain (readBeaconImplementation (cx_send cx) address)) (\<lambda>answer.
                 case answer of
                   BeaconImplementation i \<Rightarrow> return_io (FoundBeacon, i)
                 | _ \<Rightarrow> return_io (FoundImplementation, address))))"

definition kind_for_validation :: "adopted_kind \<Rightarrow> string option \<Rightarrow> string option" where
  "kind_for_validation found kind = (if found = FoundImplementation then kind else Some (found_name found))"

text \<open>The compiled code and the code at the implementation hash alike.\<close>

fun expected_code :: "js \<Rightarrow> string option" where
  "expected_code (JStr s) = (if strip_bytecode s = [] then None else Some s)"
| "expected_code _ = None"

definition verify_code :: "'w cx \<Rightarrow> abstraction \<Rightarrow> string \<Rightarrow> string \<Rightarrow> ('w ost, op_error, unit) io" where
  "verify_code cx contract address implementation =
     (case expected_code (ab_deployedBytecode contract) of
        None \<Rightarrow> throw_io (OpProxy (AdoptionVerificationFailed address
                  ''the compiled artifact carries no deployedBytecode to verify against''))
      | Some expected \<Rightarrow>
          bind_io (on_world OpChain (cx_send cx ''eth_getCode'' [JStr implementation, JStr ''latest''])) (\<lambda>onChain.
            case onChain of
              JStr code \<Rightarrow>
                raise_if (cx_hash cx expected \<noteq> cx_hash cx code)
                  (OpProxy (AdoptionVerificationFailed address ''the code is not the named contract''))
            | other \<Rightarrow> throw_io (OpHost other)))"

definition records_proxy :: "adopted_kind \<Rightarrow> bool" where
  "records_proxy found \<longleftrightarrow> found = FoundTransparent \<or> found = FoundUups"

text \<open>True when a proxy record has to be written.\<close>

definition proxy_record_absent :: "'w cx \<Rightarrow> string \<Rightarrow> adopted_kind \<Rightarrow> ('w ost, op_error, bool) io" where
  "proxy_record_absent cx address found =
     (if \<not> records_proxy found then return_io False
      else
        bind_io (on_world OpRecord (getProxyRecord (cx_codec cx) (cx_engine cx)
                   (ss_manifest_file (cx_session cx)) address)) (\<lambda>existing.
          case existing of
            None \<Rightarrow> return_io True
          | Some p \<Rightarrow>
              bind_io (raise_if (px_kind p \<noteq> found_name found)
                         (OpProxy (AdoptionKindMismatch address (found_name found) (px_kind p)))) (\<lambda>_.
                return_io False)))"

record adoption =
  ao_kind :: adopted_kind
  ao_address :: string
  ao_implementation :: string
  ao_contract :: "string list"

record import_plan =
  ip_address :: string
  ip_kind :: adopted_kind
  ip_implementation :: string
  ip_validated :: validated
  ip_record :: bool

text \<open>Everything that may refuse, up to the version key, in the order of the source.\<close>

definition check_import ::
  "'w cx \<Rightarrow> abstraction \<Rightarrow> resolved \<Rightarrow> string \<Rightarrow> adopted_kind \<Rightarrow> string \<Rightarrow>
   ('w ost, op_error, import_plan) io" where
  "check_import cx contract r address found implementation =
     bind_io (case r_kind r of
                None \<Rightarrow> return_io ()
              | Some k \<Rightarrow> raise_if (k \<noteq> found_name found)
                            (OpProxy (AdoptionKindMismatch address (found_name found) k))) (\<lambda>_.
     bind_io (lift_io (nameOf contract)) (\<lambda>name.
     bind_io (validateImplementation cx name (r\<lparr>r_kind := kind_for_validation found (r_kind r)\<rparr>)) (\<lambda>validated.
     bind_io (verify_code cx contract address implementation) (\<lambda>_.
     bind_io (proxy_record_absent cx address found) (\<lambda>absent.
     bind_io (raise_if (nonempty (own_prop (va_version validated) ''linkedWithoutMetadata'') = None)
                (OpFailure ''the validated contract carries no version key'')) (\<lambda>_.
       return_io \<lparr>ip_address = address, ip_kind = found, ip_implementation = implementation,
                  ip_validated = validated, ip_record = absent\<rparr>))))))"

definition plan_import ::
  "'w cx \<Rightarrow> string \<Rightarrow> abstraction \<Rightarrow> resolved \<Rightarrow> ('w ost, op_error, import_plan) io" where
  "plan_import cx addressInput contract r =
     bind_io (canonical cx addressInput) (\<lambda>address.
     bind_io (proxySlots cx address) (\<lambda>slots.
       case slots of
         NoCode \<Rightarrow> throw_io (OpProxy (NothingToAdopt address None))
       | Code implementation admin beacon \<Rightarrow>
           bind_io (classify cx address implementation admin beacon) (\<lambda>found.
             check_import cx contract r address (fst found) (snd found))))"

text \<open>The engine's store of the implementation, then the proxy record, last.\<close>

definition simulatedDeploy ::
  "abstraction \<Rightarrow> string \<Rightarrow> ('w ost, op_error, string \<times> string option) io" where
  "simulatedDeploy contract implementation s =
     (Inr (implementation, readWriteBackHash (op_net s (ab_id contract))), s)"

definition store_import ::
  "'w cx \<Rightarrow> abstraction \<Rightarrow> resolved \<Rightarrow> import_plan \<Rightarrow> ('w ost, op_error, unit) io" where
  "store_import cx contract r p =
     bind_io (canonical cx (ip_implementation p)) (\<lambda>implementation.
     bind_io (fetchOrDeployImplementation cx (ip_validated p) (r\<lparr>r_redeploy := ''always''\<rparr>)
                (simulatedDeploy contract implementation)) (\<lambda>_.
       if records_proxy (ip_kind p) \<and> ip_record p
       then recordProxy cx (ip_address p) (found_name (ip_kind p)) else return_io ()))"

definition finish_import ::
  "'w cx \<Rightarrow> abstraction \<Rightarrow> import_plan \<Rightarrow> ('w ost, op_error, adoption) io" where
  "finish_import cx contract p =
     bind_io (contractAt cx contract (ip_address p)) (\<lambda>handle.
     bind_io (sealUnavailable handle) (\<lambda>members.
       return_io \<lparr>ao_kind = ip_kind p, ao_address = ip_address p,
                  ao_implementation = ip_implementation p, ao_contract = members\<rparr>))"

definition runForceImport ::
  "'w cx \<Rightarrow> string \<Rightarrow> abstraction \<Rightarrow> resolved \<Rightarrow> ('w ost, op_error, adoption) io" where
  "runForceImport cx addressInput contract r =
     bind_io (plan_import cx addressInput contract r) (\<lambda>p.
     bind_io (store_import cx contract r p) (\<lambda>_.
       finish_import cx contract p))"

section \<open>What an import may change\<close>

context frame
begin

lemma stays_classify [stays_intros]: "stays R (classify cx a i ad b)"
  unfolding classify_def
  by (rule stays_intros | (simp split: beacon_read.split option.split; intro conjI impI allI))+

lemma stays_verify [stays_intros]: "stays R (verify_code cx contract a i)"
  unfolding verify_code_def
  by (rule stays_intros | (simp split: js.split option.split; intro conjI impI allI))+

lemma stays_absent [stays_intros]: "stays R (proxy_record_absent cx a k)"
  unfolding proxy_record_absent_def
  by (rule stays_intros | (simp split: option.split; intro conjI impI allI))+

lemma stays_check_import [stays_intros]: "stays R (check_import cx contract r a k i)"
  unfolding check_import_def
  by (rule stays_intros | (simp split: option.split; intro conjI impI allI))+

lemma stays_plan_import: "stays R (plan_import cx a contract r)"
  unfolding plan_import_def
  by (rule stays_intros | (simp split: proxy_slots.split; intro conjI impI allI))+

lemma stays_finish_import: "stays R (finish_import cx contract p)"
  unfolding finish_import_def by (rule stays_intros)+

lemma stays_store_import:
  assumes "engine_through_callback cx"
    and "stays R (emit (EvRecord (ip_address p) (found_name (ip_kind p))) :: ('w ost, op_error, unit) io)"
  shows "stays R (store_import cx contract r p)"
proof -
  have "stays R (simulatedDeploy contract i)" for i
    by (simp add: stays_def simulatedDeploy_def R_refl)
  then show ?thesis
    unfolding store_import_def
    by (rule_tac stays_intros stays_fetch assms stays_record
        | (simp add: stays_intros stays_fetch assms stays_record; intro conjI impI allI))+
qed

end

section \<open>Properties\<close>

definition code_matches :: "'w cx \<Rightarrow> abstraction \<Rightarrow> string \<Rightarrow> bool" where
  "code_matches cx contract implementation \<longleftrightarrow>
     (\<exists>expected code w w'. expected_code (ab_deployedBytecode contract) = Some expected \<and>
        cx_send cx ''eth_getCode'' [JStr implementation, JStr ''latest''] w = (Inr (JStr code), w') \<and>
        cx_hash cx expected = cx_hash cx code)"

lemma verify_code_ok: "verify_code cx contract a i s = (Inr q, t) \<Longrightarrow> code_matches cx contract i"
  unfolding verify_code_def code_matches_def
  by (auto simp: on_world_ok raise_if_ok elim!: bind_io_InrE split: option.splits js.splits; blast)

lemma check_import_ok:
  assumes "check_import cx contract r a k i s = (Inr p, t)"
  shows "ip_address p = a \<and> ip_kind p = k \<and> ip_implementation p = i \<and> code_matches cx contract i \<and>
    (case r_kind r of None \<Rightarrow> True | Some w \<Rightarrow> w = found_name k)"
  using assms unfolding check_import_def
  by (elim bind_io_InrE) (auto simp: raise_if_ok intro: verify_code_ok split: option.splits)

lemma plan_import_ok:
  assumes "plan_import cx a contract r s = (Inr p, t)"
  shows "canonicalizeAddress (cx_codec cx) (JStr a) = Inr (ip_address p) \<and>
    code_matches cx contract (ip_implementation p) \<and>
    (case r_kind r of None \<Rightarrow> True | Some w \<Rightarrow> w = found_name (ip_kind p))"
  using assms unfolding plan_import_def
  by (auto simp: canonical_ok elim!: bind_io_InrE dest!: check_import_ok split: proxy_slots.splits option.splits)

lemma simulated_log: "stays (extends P) (simulatedDeploy contract i)"
  by (simp add: stays_def simulatedDeploy_def extends_def)

lemma simulated_fixed: "stays (net_fixed n) (simulatedDeploy contract i)"
  by (simp add: stays_def simulatedDeploy_def net_fixed_def)

lemma record_log:
  assumes "recordProxy cx a k s = (q, t)"
  shows "op_log t = op_log s @ [EvRecord a k]"
proof -
  have "stays (extends (\<lambda>_. False)) (on_world OpRecord (session_addProxyRecord (cx_codec cx) (cx_engine cx)
      (ss_manifest_file (cx_session cx)) a k))" by (rule stays_intros)
  from reads_log [OF this] show ?thesis
    using assms by (auto simp: recordProxy_def emit_def bind_io_def)
qed

lemma store_import_log:
  assumes "engine_through_callback cx" and "store_import cx contract r p s = (q, t)"
  shows "op_log t = op_log s @
    (if op_log t = op_log s then [] else [EvRecord (ip_address p) (found_name (ip_kind p))])"
proof -
  have f: "stays (extends (\<lambda>_. False)) (fetchOrDeployImplementation cx (ip_validated p)
      (r\<lparr>r_redeploy := ''always''\<rparr>) (simulatedDeploy contract i))" for i
    by (rule ext.stays_fetch [OF assms(1) simulated_log])
  obtain x u where x: "canonical cx (ip_implementation p) s = (x, u)" by force
  then have u: "u = s" by (cases "canonicalizeAddress (cx_codec cx) (JStr (ip_implementation p))")
      (auto simp: canonical_def lifted_def)
  show ?thesis
  proof (cases x)
    case (Inl e)
    then show ?thesis using assms(2) x u by (simp add: store_import_def bind_io_def)
  next
    case (Inr i)
    obtain y v where y: "fetchOrDeployImplementation cx (ip_validated p)
      (r\<lparr>r_redeploy := ''always''\<rparr>) (simulatedDeploy contract i) s = (y, v)" by force
    have "op_log v = op_log s" by (rule reads_log [OF f y])
    then show ?thesis
      using assms(2) x u Inr y record_log
      by (cases y) (fastforce simp: store_import_def bind_io_def split: if_splits)+
  qed
qed

lemma store_import_fixed:
  assumes "engine_through_callback cx"
  shows "stays (net_fixed n) (store_import cx contract r p)"
  by (rule fixed.stays_store_import assms stays_intros)+

lemma import_net:
  assumes "engine_through_callback cx" and "runForceImport cx a contract r s = (res, t)"
  shows "op_net t = op_net s"
proof -
  have "stays (net_fixed n) (runForceImport cx a contract r)" for n
    unfolding runForceImport_def
    by (rule fixed.stays_bind fixed.stays_plan_import store_import_fixed [OF assms(1)]
        fixed.stays_finish_import)+
  then have "net_fixed n s t" for n using assms(2) by (rule stays_run)
  then show ?thesis by (auto simp: net_fixed_def)
qed


text \<open>
  What \<open>forceImport\<close> reports was verified on the chain.  On success the code at the
  reported implementation hashes like the contract's compiled code, and a kind the caller asked
  for is the kind found.
\<close>

theorem import_is_verified:
  assumes "runForceImport cx a contract r s = (Inr res, t)"
  shows "code_matches cx contract (ao_implementation res) \<and>
    canonicalizeAddress (cx_codec cx) (JStr a) = Inr (ao_address res) \<and>
    (case r_kind r of None \<Rightarrow> True | Some w \<Rightarrow> w = found_name (ao_kind res))"
proof -
  from assms obtain p u q v where p: "plan_import cx a contract r s = (Inr p, u)"
    and "finish_import cx contract p v = (Inr res, t)"
    unfolding runForceImport_def by (elim bind_io_InrE)
  then have "ao_kind res = ip_kind p" "ao_address res = ip_address p"
    "ao_implementation res = ip_implementation p"
    by (auto simp: finish_import_def elim!: bind_io_InrE)
  then show ?thesis using plan_import_ok [OF p] by (auto split: option.splits)
qed

section \<open>Witnesses\<close>

lemma demo_code:
  "demo_send slot answer ''eth_getCode'' ps w = (Inr (JStr ''0x60''), w)"
  "strip_bytecode ''0x60'' = ''60''"
  "getProxyRecord demo_codec demo_manifest ''/r/m.json'' (addr_of (CHR ''1'')) False = (Inr None, False)"
  "ab_deployedBytecode (demo_abstraction n) = JStr ''0x60''"
  "readWriteBackHash None = None"
  by (simp add: demo_send_def, code_simp, code_simp, simp add: demo_abstraction_def,
      simp add: readWriteBackHash_def)

lemma demo_import:
  "runForceImport demo_upgrade_cx (addr_of (CHR ''1'')) (demo_abstraction ''Box'') demo_resolved_options demo_ost =
   (Inr \<lparr>ao_kind = FoundUups, ao_address = addr_of (CHR ''1''), ao_implementation = addr_of (CHR ''1''),
      ao_contract = [''events'', ''upgradeTo'', ''upgradeToAndCall'', ''transferOwnership'']\<rparr>,
    demo_ost\<lparr>op_log := [EvRecord (addr_of (CHR ''1'')) ''uups'']\<rparr>)"
  by (simp add: runForceImport_def plan_import_def check_import_def classify_def verify_code_def
      proxy_record_absent_def store_import_def finish_import_def simulatedDeploy_def bind_io_def
      proxySlots_def on_world_def demo_chain demo_code records_proxy_def found_name_def
      kind_for_validation_def demo_steps)


lemma import_is_verified_witness:
  "code_matches demo_upgrade_cx (demo_abstraction ''Box'') (addr_of (CHR ''1'')) \<and>
   canonicalizeAddress (cx_codec demo_upgrade_cx) (JStr (addr_of (CHR ''1''))) = Inr (addr_of (CHR ''1''))"
  using import_is_verified [OF demo_import] by simp

end
