(* ===== verification/ProxyStandalone.thy ===== *)
theory ProxyStandalone
  imports ProxyAdopt
begin

text \<open>
  \<open>standalone/index.ts\<close>: the two operations that only validate, and the two that deploy an
  implementation and nothing else.
\<close>

section \<open>Validation\<close>

definition VALIDATE_ACCEPTED_OPTIONS :: "string list" where
  "VALIDATE_ACCEPTED_OPTIONS = HANDLE_OPTION_KEYS @
     [''kind'', ''constructorArgs'', ''unsafeAllow'', ''unsafeAllowRenames'', ''unsafeSkipStorageCheck'',
      ''unsafeAllowCustomTypes'', ''unsafeAllowLinkedLibraries'']"

definition DEPLOY_IMPLEMENTATION_ACCEPTED_OPTIONS :: "string list" where
  "DEPLOY_IMPLEMENTATION_ACCEPTED_OPTIONS = VALIDATE_ACCEPTED_OPTIONS @
     [''redeployImplementation'', ''useDeployedImplementation'', ''timeout'', ''pollingInterval'']"

definition runValidateImplementation ::
  "'w cx \<Rightarrow> abstraction \<Rightarrow> resolved \<Rightarrow> ('w ost, op_error, unit) io" where
  "runValidateImplementation cx contract r =
     bind_io (lift_io (nameOf contract)) (\<lambda>name.
     bind_io (validateImplementation cx name r) (\<lambda>_. return_io ()))"

text \<open>An omitted kind is inferred from the reference, never from the candidate.\<close>

definition runValidateUpgrade ::
  "'w cx \<Rightarrow> abstraction \<Rightarrow> abstraction \<Rightarrow> resolved \<Rightarrow> ('w ost, op_error, unit) io" where
  "runValidateUpgrade cx old new r =
     bind_io (lift_io (nameOf old)) (\<lambda>oldName.
     bind_io (validateImplementation cx oldName r) (\<lambda>reference.
     bind_io (case r_kind r of Some k \<Rightarrow> return_io k | None \<Rightarrow> inferKind cx reference) (\<lambda>kind.
     bind_io (lift_io (nameOf new)) (\<lambda>newName.
     bind_io (validateImplementation cx newName (r\<lparr>r_kind := Some kind\<rparr>)) (\<lambda>candidate.
       assertStorageCompatible cx (va_layout reference) candidate r)))))"

section \<open>Deploying an implementation alone\<close>

record implementation_deployment =
  id_address :: string
  id_transaction :: string

text \<open>The callback the engine may run: what it deploys stays in the step's variable.\<close>

definition remembered_deploy ::
  "'w cx \<Rightarrow> abstraction \<Rightarrow> resolved \<Rightarrow> ('w ost, op_error, string \<times> string option) io" where
  "remembered_deploy cx contract r =
     bind_io (hostDeploy cx contract (r_constructorArgs r)) (\<lambda>wb.
     bind_io (set_local (Some wb)) (\<lambda>_.
       return_io (fst wb, Some (snd wb))))"

definition confirm_fresh ::
  "'w cx \<Rightarrow> abstraction \<Rightarrow> write_back \<Rightarrow> string \<times> string \<Rightarrow> ('w ost, op_error, unit) io" where
  "confirm_fresh cx contract prior fresh =
     bind_io (confirm cx (snd fresh)) (\<lambda>verdict.
       case verdict of
         Reverted_tx _ _ _ _ \<Rightarrow>
           bind_io (change_net contract (restoreWriteBack prior)) (\<lambda>_. throw_io (OpReverted verdict))
       | Indeterminate_tx _ _ _ \<Rightarrow>
           bind_io (canonical cx (fst fresh)) (\<lambda>a. throw_io (OpIndeterminate verdict (Some (a, snd fresh))))
       | ConfirmedSuccessful _ _ \<Rightarrow> return_io ())"

definition recorded_hash :: "abstraction \<Rightarrow> ('w ost, op_error, string option) io" where
  "recorded_hash contract s = (Inr (readWriteBackHash (op_net s (ab_id contract))), s)"

definition implementation_step ::
  "'w cx \<Rightarrow> abstraction \<Rightarrow> resolved \<Rightarrow> validated \<Rightarrow> ('w ost, op_error, string \<times> string option) io" where
  "implementation_step cx contract r validated =
     bind_io (set_local None) (\<lambda>_.
     bind_io (write_back_of contract) (\<lambda>prior.
     bind_io (fetchOrDeployImplementation cx validated r (remembered_deploy cx contract r)) (\<lambda>implementation.
     bind_io get_local (\<lambda>fresh.
       case fresh of
         Some wb \<Rightarrow>
           bind_io (confirm_fresh cx contract prior wb) (\<lambda>_. return_io (implementation, Some (snd wb)))
       | None \<Rightarrow>
           bind_io (recorded_hash contract) (\<lambda>h. return_io (implementation, h))))))"

definition prepare_implementation ::
  "'w cx \<Rightarrow> abstraction \<Rightarrow> resolved \<Rightarrow> ('w ost, op_error, validated) io" where
  "prepare_implementation cx contract r =
     bind_io (lift_io (nameOf contract)) (\<lambda>name.
     bind_io (validateImplementation cx name r) (\<lambda>validated.
     bind_io (requireDeployer cx) (\<lambda>_. return_io validated)))"

definition finish_implementation ::
  "string \<Rightarrow> string \<times> string option \<Rightarrow> ('w ost, op_error, implementation_deployment) io" where
  "finish_implementation operation out =
     bind_io (transactionIdentity (snd out) operation) (\<lambda>hash.
       return_io \<lparr>id_address = fst out, id_transaction = hash\<rparr>)"

definition deployImplementationThroughQueue ::
  "'w cx \<Rightarrow> abstraction \<Rightarrow> resolved \<Rightarrow> string \<Rightarrow> ('w ost, op_error, implementation_deployment) io" where
  "deployImplementationThroughQueue cx contract r operation =
     pipeline cx (prepare_implementation cx contract r) (implementation_step cx contract r)
       (\<lambda>_. finish_implementation operation)"

definition runDeployImplementation ::
  "'w cx \<Rightarrow> abstraction \<Rightarrow> resolved \<Rightarrow> ('w ost, op_error, implementation_deployment) io" where
  "runDeployImplementation cx contract r =
     deployImplementationThroughQueue cx contract r ''deployImplementation''"

section \<open>Preparing an upgrade\<close>

text \<open>The kind the proxy was recorded with; an explicit kind may not contradict it.\<close>

definition recorded_kind :: "'w cx \<Rightarrow> string \<Rightarrow> resolved \<Rightarrow> ('w ost, op_error, string) io" where
  "recorded_kind cx proxy r =
     bind_io (on_world OpRecord (getProxyRecord (cx_codec cx) (cx_engine cx)
                (ss_manifest_file (cx_session cx)) proxy)) (\<lambda>found.
       case found of
         None \<Rightarrow> throw_io (OpFailure ''No recorded proxy'')
       | Some p \<Rightarrow>
           bind_io (raise_if (px_kind p = ''beacon'') (OpFailure ''The recorded kind is beacon'')) (\<lambda>_.
           bind_io (raise_if (case r_kind r of None \<Rightarrow> False | Some k \<Rightarrow> k \<noteq> px_kind p)
                      (OpFailure ''Requested an upgrade of another kind'')) (\<lambda>_.
             return_io (px_kind p))))"

definition proxy_implementation :: "'w cx \<Rightarrow> string \<Rightarrow> ('w ost, op_error, string) io" where
  "proxy_implementation cx proxy =
     bind_io (proxySlots cx proxy) (\<lambda>slots.
       case slots of
         NoCode \<Rightarrow> throw_io (OpProxy (NothingToAdopt proxy None))
       | Code implementation admin beacon \<Rightarrow>
           (case beacon of
              Some b \<Rightarrow> throw_io (OpProxy (BeaconProxyRefused proxy b))
            | None \<Rightarrow>
                (case implementation of
                   None \<Rightarrow> throw_io (OpProxy (NothingToAdopt proxy
                             (Some ''code with an empty 1967 implementation slot'')))
                 | Some i \<Rightarrow> return_io i)))"

definition check_preparation ::
  "'w cx \<Rightarrow> string \<Rightarrow> abstraction \<Rightarrow> resolved \<Rightarrow> ('w ost, op_error, string) io" where
  "check_preparation cx proxyAddress contract r =
     bind_io (canonical cx proxyAddress) (\<lambda>proxy.
     bind_io (case r_kind r of
                None \<Rightarrow> return_io ()
              | Some k \<Rightarrow> lifted OpOption (requireProxyKind k [''transparent'', ''uups''] ''prepareUpgrade'')) (\<lambda>_.
     bind_io (proxy_implementation cx proxy) (\<lambda>current.
     bind_io (recorded_kind cx proxy r) (\<lambda>kind.
     bind_io (lift_io (nameOf contract)) (\<lambda>name.
     bind_io (validateImplementation cx name (r\<lparr>r_kind := Some kind\<rparr>)) (\<lambda>validated.
     bind_io (requireDeployer cx) (\<lambda>_.
     bind_io (storedLayoutFor cx current) (\<lambda>layout.
     bind_io (assertStorageCompatible cx layout validated (r\<lparr>r_kind := Some kind\<rparr>)) (\<lambda>_.
       return_io kind)))))))))"

definition runPrepareUpgrade ::
  "'w cx \<Rightarrow> string \<Rightarrow> abstraction \<Rightarrow> resolved \<Rightarrow> ('w ost, op_error, implementation_deployment) io" where
  "runPrepareUpgrade cx proxyAddress contract r =
     bind_io (check_preparation cx proxyAddress contract r) (\<lambda>kind.
       deployImplementationThroughQueue cx contract (r\<lparr>r_kind := Some kind\<rparr>) ''prepareUpgrade'')"

section \<open>What they may change\<close>

context frame
begin

lemma stays_validate_operations:
  "stays R (runValidateImplementation cx contract r)" "stays R (runValidateUpgrade cx old new r)"
  unfolding runValidateImplementation_def runValidateUpgrade_def
  by (rule stays_intros | (simp split: option.split; intro conjI impI allI))+

lemma stays_prepare_implementation [stays_intros]: "stays R (prepare_implementation cx contract r)"
  unfolding prepare_implementation_def by (rule stays_intros)+

lemma stays_finish_implementation [stays_intros]: "stays R (finish_implementation opn out)"
  unfolding finish_implementation_def by (rule stays_intros)+

lemma stays_recorded [stays_intros]:
  "stays R (recorded_kind cx proxy r)" "stays R (proxy_implementation cx proxy)"
  "stays R (recorded_hash contract)"
  unfolding recorded_kind_def proxy_implementation_def
  by (rule stays_intros | (simp split: option.split proxy_slots.split; intro conjI impI allI))+
     (simp add: stays_def recorded_hash_def R_refl)

lemma stays_check_preparation: "stays R (check_preparation cx a contract r)"
  unfolding check_preparation_def
  by (rule stays_intros | (simp split: option.split; intro conjI impI allI))+

end

section \<open>Properties\<close>

text \<open>
  The validating operations touch nothing.  Whatever the options and whatever the outcome,
  \<open>validateImplementation\<close> and \<open>validateUpgrade\<close> queue, deploy, call and record nothing and
  leave every artifact's write-back as it was.
\<close>

theorem validation_touches_nothing:
  "op_log (snd (runValidateImplementation cx contract r s)) = op_log s \<and>
   op_net (snd (runValidateImplementation cx contract r s)) = op_net s \<and>
   op_log (snd (runValidateUpgrade cx old new r s)) = op_log s \<and>
   op_net (snd (runValidateUpgrade cx old new r s)) = op_net s"
proof -
  have "net_fixed n s (snd (runValidateImplementation cx contract r s))"
    "net_fixed n s (snd (runValidateUpgrade cx old new r s))" for n
    using fixed.stays_validate_operations unfolding stays_def by blast+
  then show ?thesis
    using reads_log [OF ext.stays_validate_operations(1) prod.collapse [symmetric]]
      reads_log [OF ext.stays_validate_operations(2) prod.collapse [symmetric]]
    by (auto simp: net_fixed_def)
qed

text \<open>
  \<open>validateUpgrade\<close> judges the candidate by the reference's kind.  When no kind is chosen and
  the operation accepts, the candidate was validated under the kind inferred from the reference.
\<close>

theorem upgrade_validation_uses_the_reference_kind:
  assumes "runValidateUpgrade cx old new r s = (Inr q, t)" and "r_kind r = None"
  shows "\<exists>oldName newName reference kind candidate u v.
    nameOf old = Inr oldName \<and> nameOf new = Inr newName \<and>
    validateImplementation cx oldName r s = (Inr reference, u) \<and>
    inferKind cx reference u = (Inr kind, v) \<and>
    validateImplementation cx newName (r\<lparr>r_kind := Some kind\<rparr>) v = (Inr candidate, t) \<and>
    cx_storageOk cx (va_layout reference) (va_layout candidate) (r_validation r)"
  using assms unfolding runValidateUpgrade_def
  by (elim bind_io_InrE)
     (fastforce simp: assertStorageCompatible_def raise_if_ok engineValidationOptions_def)

definition implementation_event :: "abstraction \<Rightarrow> op_event \<Rightarrow> bool" where
  "implementation_event contract ev \<longleftrightarrow> (\<exists>args. ev = EvDeploy (ab_id contract) args)"

lemma confirm_fresh_log [stays_intros]: "stays (extends P) (confirm_fresh cx contract prior wb)"
  unfolding confirm_fresh_def
  by (rule stays_intros | (simp split: verdict_tx.split; intro conjI impI allI))+

lemma confirm_fresh_ok:
  assumes "confirm_fresh cx contract prior wb s = (Inr q, t)"
  shows "was_confirmed cx (snd wb)" and "op_local t = op_local s"
proof -
  from assms obtain verdict u where v: "confirm cx (snd wb) s = (Inr verdict, u)"
    and "\<exists>g rc. verdict = ConfirmedSuccessful g rc" "t = u"
    unfolding confirm_fresh_def by (auto elim!: bind_io_InrE split: verdict_tx.splits)
  moreover from v have "op_local u = op_local s" by (auto simp: confirm_def on_world_ok)
  ultimately show "was_confirmed cx (snd wb)" "op_local t = op_local s" using confirm_confirmed by auto
qed

lemma remembered_log: "stays (extends (implementation_event contract)) (remembered_deploy cx contract r)"
  unfolding remembered_deploy_def
  by (rule ext.stays_host_deploy stays_intros | simp add: implementation_event_def)+

lemma implementation_step_log:
  assumes "engine_through_callback cx"
  shows "stays (extends (implementation_event contract)) (implementation_step cx contract r v)"
  unfolding implementation_step_def
  by (rule ext.stays_fetch assms remembered_log stays_intros
      | (simp split: option.split; intro conjI impI allI))+

lemma deploy_implementation_events:
  assumes "engine_through_callback cx" and "deployImplementationThroughQueue cx contract r opn s = (res, t)"
  shows "\<exists>evs. op_log t = op_log s @ evs \<and>
    (case evs of [] \<Rightarrow> True | ev # rest \<Rightarrow> ev = EvQueue \<and> list_all (implementation_event contract) rest)"
proof -
  note run = assms(2) [unfolded deployImplementationThroughQueue_def]
  note events = pipeline_events [OF run ext.stays_prepare_implementation
      implementation_step_log [OF assms(1)] ext.stays_finish_implementation]
  show ?thesis
  proof (rule events)
    fix p u rest
    assume "op_log t = op_log s @ EvQueue # rest" "list_all (implementation_event contract) rest"
    then show ?thesis by (intro exI [of _ "EvQueue # rest"]) simp
  qed simp
qed

lemma check_preparation_ok:
  assumes "check_preparation cx a contract r s = (Inr kind, t)"
  obtains proxy current name layout u1 u2 u3 v1 v2 w1 w2 and validated :: validated where
    "canonicalizeAddress (cx_codec cx) (JStr a) = Inr proxy"
    "proxy_implementation cx proxy u1 = (Inr current, v1)" "recorded_kind cx proxy r v1 = (Inr kind, v2)"
    "validateImplementation cx name (r\<lparr>r_kind := Some kind\<rparr>) u2 = (Inr validated, w1)"
    "storedLayoutFor cx current u3 = (Inr layout, w2)"
    "cx_storageOk cx layout (va_layout validated) (r_validation r)"
  using assms unfolding check_preparation_def
  by (elim bind_io_InrE) (auto simp: canonical_ok assertStorageCompatible_def raise_if_ok
      engineValidationOptions_def)



section \<open>Witnesses\<close>

lemma demo_validate_upgrade:
  "runValidateUpgrade demo_upgrade_cx (demo_abstraction ''Box'') (demo_abstraction ''BoxV2'')
     demo_resolved_options demo_ost = (Inr (), demo_ost)"
  by (simp add: runValidateUpgrade_def bind_io_def assertStorageCompatible_def demo_steps)

lemma upgrade_validation_uses_the_reference_kind_witness:
  "\<exists>(reference :: validated) kind (candidate :: validated) u v.
    inferKind demo_upgrade_cx reference u = (Inr kind, v) \<and>
    validateImplementation demo_upgrade_cx ''BoxV2'' (demo_resolved_options\<lparr>r_kind := Some kind\<rparr>) v =
      (Inr candidate, demo_ost)"
  using upgrade_validation_uses_the_reference_kind [OF demo_validate_upgrade]
  by (auto simp: demo_steps)


lemma demo_deploy_implementation:
  "runDeployImplementation demo_upgrade_cx (demo_abstraction ''Box'') demo_resolved_options demo_ost =
   (Inr \<lparr>id_address = addr_of (CHR ''2''), id_transaction = ''ab''\<rparr>,
    demo_ost\<lparr>op_log := [EvQueue, EvDeploy ''Box'' []], op_local := Some (addr_of (CHR ''2''), ''ab''),
      op_net := (op_net demo_ost)(''Box'' := Some \<lparr>e_address = JStr (addr_of (CHR ''2'')), e_hash = JStr ''ab''\<rparr>)\<rparr>)"
  by (simp add: runDeployImplementation_def deployImplementationThroughQueue_def pipeline_def
      prepare_implementation_def implementation_step_def remembered_deploy_def confirm_fresh_def
      finish_implementation_def bind_io_def set_local_def get_local_def assertNoCheatcodeCollision_def
      demo_steps)


end
