(* ===== verification/PublicEntries.thy ===== *)
theory PublicEntries
  imports ProxyAssembly ProxyDeploy ProxyUpgrade ProxyBeacon ProxyAdopt ProxyStandalone
begin

text \<open>
  The eleven public operations as the package exports them: \<open>deployProxy\<close>, \<open>upgradeProxy\<close> and the others at the end
  of \<open>proxy\<close>, \<open>admin\<close>, \<open>beacon\<close>, \<open>adopt\<close> and \<open>standalone\<close>.  An entry refuses an options object in the place of the
  arguments, takes its turn in the mutex, and inside its turn builds its own toolkit and runs its
  pipeline over it.  The pipeline is an argument here: it is what the theories of the operations model.
\<close>

section \<open>The operations\<close>

datatype public_operation =
    DeployProxyOp | UpgradeProxyOp | TransferOwnershipOp | DeployBeaconOp | DeployBeaconProxyOp | UpgradeBeaconOp
  | ForceImportOp | ValidateImplementationOp | ValidateUpgradeOp | DeployImplementationOp | PrepareUpgradeOp

fun operation_name :: "public_operation \<Rightarrow> string" where
  "operation_name DeployProxyOp = ''deployProxy''"
| "operation_name UpgradeProxyOp = ''upgradeProxy''"
| "operation_name TransferOwnershipOp = ''transferProxyAdminOwnership''"
| "operation_name DeployBeaconOp = ''deployBeacon''"
| "operation_name DeployBeaconProxyOp = ''deployBeaconProxy''"
| "operation_name UpgradeBeaconOp = ''upgradeBeacon''"
| "operation_name ForceImportOp = ''forceImport''"
| "operation_name ValidateImplementationOp = ''validateImplementation''"
| "operation_name ValidateUpgradeOp = ''validateUpgrade''"
| "operation_name DeployImplementationOp = ''deployImplementation''"
| "operation_name PrepareUpgradeOp = ''prepareUpgrade''"

fun accepted_options :: "public_operation \<Rightarrow> string list" where
  "accepted_options DeployProxyOp = DEPLOY_PROXY_ACCEPTED_OPTIONS"
| "accepted_options UpgradeProxyOp = UPGRADE_PROXY_ACCEPTED_OPTIONS"
| "accepted_options TransferOwnershipOp = TRANSFER_OWNERSHIP_ACCEPTED_OPTIONS"
| "accepted_options DeployBeaconOp = DEPLOY_BEACON_ACCEPTED_OPTIONS"
| "accepted_options DeployBeaconProxyOp = DEPLOY_BEACON_PROXY_ACCEPTED_OPTIONS"
| "accepted_options UpgradeBeaconOp = UPGRADE_BEACON_ACCEPTED_OPTIONS"
| "accepted_options ForceImportOp = FORCE_IMPORT_ACCEPTED_OPTIONS"
| "accepted_options ValidateImplementationOp = VALIDATE_ACCEPTED_OPTIONS"
| "accepted_options ValidateUpgradeOp = VALIDATE_ACCEPTED_OPTIONS"
| "accepted_options DeployImplementationOp = DEPLOY_IMPLEMENTATION_ACCEPTED_OPTIONS"
| "accepted_options PrepareUpgradeOp = DEPLOY_IMPLEMENTATION_ACCEPTED_OPTIONS"

fun validates_only :: "public_operation \<Rightarrow> bool" where
  "validates_only ValidateImplementationOp = True"
| "validates_only ValidateUpgradeOp = True"
| "validates_only _ = False"

fun takes_args :: "public_operation \<Rightarrow> bool" where
  "takes_args DeployProxyOp = True"
| "takes_args DeployBeaconProxyOp = True"
| "takes_args _ = False"

text \<open>
  A call: the caller's options (their members by name, and their value for the resolver), the
  positional arguments, and for \<open>deployProxy\<close> the address the artifact holds, read in the operation's turn.
\<close>

record public_call =
  pc_member :: "string \<Rightarrow> hval"
  pc_options :: js
  pc_args :: js
  pc_prior :: "string option"

section \<open>Before the turn\<close>

datatype 'e entry_error =
    EnOptionsInArgs string string bool
  | EnDeploy deploy_error
  | EnToolkit toolkit_error
  | EnRun 'e

fun handlesFrom :: "(string \<Rightarrow> hval) \<Rightarrow> raw_handles" where
  "handlesFrom options HDeployer = options ''deployer''"
| "handlesFrom options HArtifacts = options ''artifacts''"
| "handlesFrom options HTronWrap = options ''tronWrap''"
| "handlesFrom options HTronWeb = options ''tronWeb''"
| "handlesFrom options HWaitForReceipt = options ''waitForTransactionReceipt''"

definition assertNoOptionsInArgsPosition :: "string \<Rightarrow> js \<Rightarrow> string list \<Rightarrow> 'e entry_error + unit" where
  "assertNoOptionsInArgsPosition operation args names1 =
     (case args of
        JArr _ \<Rightarrow> Inr ()
      | _ \<Rightarrow> Inl (EnOptionsInArgs operation (js_typeof args) (list_ex (has_own args) names1)))"

text \<open>\<open>hostKey\<close>: only an object can key the mutex.\<close>

fun hostKey :: "hval \<Rightarrow> nat option" where
  "hostKey (VObj a) = Some a"
| "hostKey _ = None"

text \<open>The call itself: what it refuses at once, and its place in the queue.\<close>

definition enter_operation ::
  "nat option \<Rightarrow> public_operation \<Rightarrow> public_call \<Rightarrow> nat \<Rightarrow> op list \<Rightarrow> ('e entry_error + unit) \<times> op list" where
  "enter_operation store opn call1 i ops =
     (case (if takes_args opn
            then assertNoOptionsInArgsPosition (operation_name opn) (pc_args call1) (accepted_options opn) else Inr ()) of
        Inl e \<Rightarrow> (Inl e, ops)
      | Inr _ \<Rightarrow>
          (case serializeOperation store (operation_name opn) i (hostKey (pc_member call1 ''deployer'')) ops of
             (r, ops') \<Rightarrow> (map_sum EnDeploy id r, ops')))"

section \<open>In the turn\<close>

definition entry_request :: "public_operation \<Rightarrow> public_call \<Rightarrow> toolkit_request" where
  "entry_request opn call1 =
     \<lparr>rq_handles = handlesFrom (pc_member call1), rq_rawOptions = pc_options call1,
      rq_acceptedOptions = accepted_options opn,
      rq_mode = (if validates_only opn then Some ValidateOnly else None),
      rq_addresses =
        (if opn = DeployProxyOp
         then Some (case pc_prior call1 of None \<Rightarrow> [] | Some a \<Rightarrow> [\<lparr>na_address = a, na_kind = None\<rparr>])
         else None)\<rparr>"

definition failing_as :: "('e \<Rightarrow> 'f) \<Rightarrow> ('s, 'e, 'a) io \<Rightarrow> ('s, 'f, 'a) io" where
  "failing_as f m s = (case m s of (r, t) \<Rightarrow> (map_sum f id r, t))"

definition run_operation ::
  "'w toolkit_host \<Rightarrow> public_operation \<Rightarrow> public_call \<Rightarrow>
   ('w operation_context \<Rightarrow> ('w assembly_state, 'e, 'a) io) \<Rightarrow> ('w assembly_state, 'e entry_error, 'a) io" where
  "run_operation tk opn call1 body1 =
     bind_io (failing_as EnToolkit (createOperationToolkit tk (entry_request opn call1))) (\<lambda>context1.
       failing_as EnRun (body1 context1))"

text \<open>The entries, each under its own name.\<close>

definition deployProxy_entry ::
  "'w toolkit_host \<Rightarrow> public_call \<Rightarrow>
   ('w operation_context \<Rightarrow> ('w assembly_state, 'e, 'a) io) \<Rightarrow> ('w assembly_state, 'e entry_error, 'a) io" where
  "deployProxy_entry tk call1 body1 = run_operation tk DeployProxyOp call1 body1"

definition upgradeProxy_entry ::
  "'w toolkit_host \<Rightarrow> public_call \<Rightarrow>
   ('w operation_context \<Rightarrow> ('w assembly_state, 'e, 'a) io) \<Rightarrow> ('w assembly_state, 'e entry_error, 'a) io" where
  "upgradeProxy_entry tk call1 body1 = run_operation tk UpgradeProxyOp call1 body1"

definition transferProxyAdminOwnership_entry ::
  "'w toolkit_host \<Rightarrow> public_call \<Rightarrow>
   ('w operation_context \<Rightarrow> ('w assembly_state, 'e, 'a) io) \<Rightarrow> ('w assembly_state, 'e entry_error, 'a) io" where
  "transferProxyAdminOwnership_entry tk call1 body1 = run_operation tk TransferOwnershipOp call1 body1"

definition deployBeacon_entry ::
  "'w toolkit_host \<Rightarrow> public_call \<Rightarrow>
   ('w operation_context \<Rightarrow> ('w assembly_state, 'e, 'a) io) \<Rightarrow> ('w assembly_state, 'e entry_error, 'a) io" where
  "deployBeacon_entry tk call1 body1 = run_operation tk DeployBeaconOp call1 body1"

definition deployBeaconProxy_entry ::
  "'w toolkit_host \<Rightarrow> public_call \<Rightarrow>
   ('w operation_context \<Rightarrow> ('w assembly_state, 'e, 'a) io) \<Rightarrow> ('w assembly_state, 'e entry_error, 'a) io" where
  "deployBeaconProxy_entry tk call1 body1 = run_operation tk DeployBeaconProxyOp call1 body1"

definition upgradeBeacon_entry ::
  "'w toolkit_host \<Rightarrow> public_call \<Rightarrow>
   ('w operation_context \<Rightarrow> ('w assembly_state, 'e, 'a) io) \<Rightarrow> ('w assembly_state, 'e entry_error, 'a) io" where
  "upgradeBeacon_entry tk call1 body1 = run_operation tk UpgradeBeaconOp call1 body1"

definition forceImport_entry ::
  "'w toolkit_host \<Rightarrow> public_call \<Rightarrow>
   ('w operation_context \<Rightarrow> ('w assembly_state, 'e, 'a) io) \<Rightarrow> ('w assembly_state, 'e entry_error, 'a) io" where
  "forceImport_entry tk call1 body1 = run_operation tk ForceImportOp call1 body1"

definition validateImplementation_entry ::
  "'w toolkit_host \<Rightarrow> public_call \<Rightarrow>
   ('w operation_context \<Rightarrow> ('w assembly_state, 'e, 'a) io) \<Rightarrow> ('w assembly_state, 'e entry_error, 'a) io" where
  "validateImplementation_entry tk call1 body1 = run_operation tk ValidateImplementationOp call1 body1"

definition validateUpgrade_entry ::
  "'w toolkit_host \<Rightarrow> public_call \<Rightarrow>
   ('w operation_context \<Rightarrow> ('w assembly_state, 'e, 'a) io) \<Rightarrow> ('w assembly_state, 'e entry_error, 'a) io" where
  "validateUpgrade_entry tk call1 body1 = run_operation tk ValidateUpgradeOp call1 body1"

definition deployImplementation_entry ::
  "'w toolkit_host \<Rightarrow> public_call \<Rightarrow>
   ('w operation_context \<Rightarrow> ('w assembly_state, 'e, 'a) io) \<Rightarrow> ('w assembly_state, 'e entry_error, 'a) io" where
  "deployImplementation_entry tk call1 body1 = run_operation tk DeployImplementationOp call1 body1"

definition prepareUpgrade_entry ::
  "'w toolkit_host \<Rightarrow> public_call \<Rightarrow>
   ('w operation_context \<Rightarrow> ('w assembly_state, 'e, 'a) io) \<Rightarrow> ('w assembly_state, 'e entry_error, 'a) io" where
  "prepareUpgrade_entry tk call1 body1 = run_operation tk PrepareUpgradeOp call1 body1"

section \<open>What an entry promises\<close>

lemma failing_as_Inr: "failing_as f m s = (Inr x, t) \<longleftrightarrow> m s = (Inr x, t)"
  by (auto simp: failing_as_def map_sum_Inr split: prod.splits)

lemma resolved_options_are_accepted:
  assumes "resolveUpgradeOptions wvd options names1 = Inr r"
  shows "set (option_keys (supplied_of options)) \<subseteq> set names1"
proof -
  have "all_checks (checkSteps (supplied_of options) names1) = Inr ()"
    using assms by (auto simp: resolveUpgradeOptions_def Let_def bind_sum_Inr)
  then have "check_keys (supplied_of options) names1 = Inr ()"
    by (auto simp: all_checks_ok checkSteps_def simp del: all_checks.simps)
  then show ?thesis by (auto simp: check_keys_def Let_def filter_empty_conv split: if_splits)
qed

lemma entry_request_simps [simp]:
  "rq_rawOptions (entry_request opn c) = pc_options c" "rq_acceptedOptions (entry_request opn c) = accepted_options opn"
  "rq_handles (entry_request opn c) = handlesFrom (pc_member c)"
  "mode_of (entry_request opn c) = (if validates_only opn then ValidateOnly else StateChanging)"
  by (simp_all add: entry_request_def mode_of_def)

text \<open>What the pipeline of an operation is given, and what was done to build it.\<close>

definition own_context :: "'w toolkit_host \<Rightarrow> public_operation \<Rightarrow> public_call \<Rightarrow> 'w operation_context \<Rightarrow> bool" where
  "own_context tk opn call1 oc \<longleftrightarrow>
     resolveUpgradeOptions (tk_defaults tk) (pc_options call1) (accepted_options opn) = Inr (oc_resolved oc) \<and>
     set (option_keys (supplied_of (pc_options call1))) \<subseteq> set (accepted_options opn) \<and>
     list_all (has_slot (en_slots (oc_environment oc))) (required_slots (mode_of (entry_request opn call1))) \<and>
     (if validates_only opn then oc_chain oc = None \<and> oc_session oc = None
      else oc_chain oc \<noteq> None \<and> oc_session oc \<noteq> None)"

lemma built_context:
  "createOperationToolkit tk (entry_request opn call1) s = (Inr oc, u) \<Longrightarrow> own_context tk opn call1 oc"
  using context_parts [of tk "entry_request opn call1" s oc u]
  by (auto simp: own_context_def resolved_options_are_accepted split: if_splits dest: subsetD [OF resolved_options_are_accepted])

lemma validating_keeps_world:
  "validates_only opn \<Longrightarrow> createOperationToolkit tk (entry_request opn call1) s = (r, u) \<Longrightarrow> am_world u = am_world s"
  using validate_only_run [of "entry_request opn call1" tk s r u] by simp


end
