(* ===== verification/PublicReaders.thy ===== *)
theory PublicReaders
  imports ProxyAssembly
begin

text \<open>
  \<open>erc1967.ts\<close>: the public readers \<open>erc1967\<close> and \<open>beacon\<close>.  Each resolves the chain slot alone, builds an
  access to the chain, reads one address and prints it in base58.  No toolkit is built: nothing is
  validated, no record is opened and nothing can be sent.
\<close>

section \<open>The readers\<close>

datatype reader_error =
    RdEnvironment env_error
  | RdTypeError
  | RdAccess access_error
  | RdChain chain_error
  | RdAddress address_error
  | RdNothingToAdopt string string

text \<open>
  \<open>erc1967\<close>'s three members and \<open>beacon\<close>'s one take the process environment the access reads its
  override from, and the state is the world behind the transport.
\<close>

type_synonym ('w, 'a) rio = "('w, reader_error, 'a) io"

definition chainAccessFrom :: "'w toolkit_host \<Rightarrow> env \<Rightarrow> raw_handles \<Rightarrow> ('w, 'w connection) rio" where
  "chainAccessFrom tk penv options w =
     (case resolveEnvironment (tk_parameters tk) options [SlotChain] [] of
        Inl e \<Rightarrow> (Inl (RdEnvironment e), w)
      | Inr env \<Rightarrow>
          (case sl_chain (en_slots env) of
             None \<Rightarrow> (Inl RdTypeError, w)
           | Some handle \<Rightarrow>
               (case createChainAccess (tk_parse tk) (tk_globalFetch tk) (tk_handle tk handle) None penv False
                       (tk_post tk) (tk_native tk) w of
                  (r, t) \<Rightarrow> (map_sum RdAccess id r, t))))"

text \<open>One reader of \<open>chain.read\<close> over the access.\<close>

definition read_on ::
  "'w toolkit_host \<Rightarrow> 'w connection \<Rightarrow> ('w chan provider \<Rightarrow> ('w chan, chain_error, 'a) io) \<Rightarrow> ('w, 'a) rio" where
  "read_on tk chain reader w =
     (case chain of (d, tr, a) \<Rightarrow>
        (case reader (provider_send (tk_post tk tr) (describe d)) ((acc_chan a)\<lparr>world := w\<rparr>) of
           (r, t) \<Rightarrow> (map_sum RdChain id r, world t)))"

definition toPublicAddress :: "codec \<Rightarrow> string \<Rightarrow> reader_error + string" where
  "toPublicAddress c hex = map_sum RdAddress (toBase58 c) (canonicalizeAddress c (JStr hex))"

definition erc1967_getImplementationAddress ::
  "'w toolkit_host \<Rightarrow> codec \<Rightarrow> env \<Rightarrow> string \<Rightarrow> raw_handles \<Rightarrow> ('w, string) rio" where
  "erc1967_getImplementationAddress tk c penv proxyAddress options =
     bind_io (chainAccessFrom tk penv options) (\<lambda>chain.
     bind_io (read_on tk chain (\<lambda>send. readImplementationAddress send proxyAddress)) (\<lambda>hex.
       lift_io (toPublicAddress c hex)))"

definition erc1967_getAdminAddress ::
  "'w toolkit_host \<Rightarrow> codec \<Rightarrow> env \<Rightarrow> string \<Rightarrow> raw_handles \<Rightarrow> ('w, string) rio" where
  "erc1967_getAdminAddress tk c penv proxyAddress options =
     bind_io (chainAccessFrom tk penv options) (\<lambda>chain.
     bind_io (read_on tk chain (\<lambda>send. readAdminAddress send proxyAddress)) (\<lambda>hex.
       lift_io (toPublicAddress c hex)))"

definition erc1967_getBeaconAddress ::
  "'w toolkit_host \<Rightarrow> codec \<Rightarrow> env \<Rightarrow> string \<Rightarrow> raw_handles \<Rightarrow> ('w, string) rio" where
  "erc1967_getBeaconAddress tk c penv proxyAddress options =
     bind_io (chainAccessFrom tk penv options) (\<lambda>chain.
     bind_io (read_on tk chain (\<lambda>send. readBeaconAddress send proxyAddress)) (\<lambda>hex.
       lift_io (toPublicAddress c hex)))"

definition beacon_getImplementationAddress ::
  "'w toolkit_host \<Rightarrow> codec \<Rightarrow> env \<Rightarrow> string \<Rightarrow> raw_handles \<Rightarrow> ('w, string) rio" where
  "beacon_getImplementationAddress tk c penv beaconAddress options =
     bind_io (chainAccessFrom tk penv options) (\<lambda>chain.
     bind_io (read_on tk chain (\<lambda>send. readBeaconImplementation send beaconAddress)) (\<lambda>answer.
       case answer of
         BeaconImplementation hex \<Rightarrow> lift_io (toPublicAddress c hex)
       | _ \<Rightarrow> throw_io (RdNothingToAdopt beaconAddress
                (''an address that does not answer implementation() '' @ em_dash @ '' not a beacon''))))"

section \<open>What a public answer names\<close>

datatype public_call = ErcImplementation | ErcAdmin | ErcBeacon | BeaconsImplementation

fun answer_of_call ::
  "public_call \<Rightarrow> 'w toolkit_host \<Rightarrow> codec \<Rightarrow> env \<Rightarrow> string \<Rightarrow> raw_handles \<Rightarrow> ('w, string) rio" where
  "answer_of_call ErcImplementation = erc1967_getImplementationAddress"
| "answer_of_call ErcAdmin = erc1967_getAdminAddress"
| "answer_of_call ErcBeacon = erc1967_getBeaconAddress"
| "answer_of_call BeaconsImplementation = beacon_getImplementationAddress"

text \<open>What the chain layer answered to the read of a call.\<close>

fun chain_answers :: "public_call \<Rightarrow> 's provider \<Rightarrow> string \<Rightarrow> 's \<Rightarrow> string \<Rightarrow> bool" where
  "chain_answers ErcImplementation send a s hex = (fst (readImplementationAddress send a s) = Inr hex)"
| "chain_answers ErcAdmin send a s hex = (fst (readAdminAddress send a s) = Inr hex)"
| "chain_answers ErcBeacon send a s hex = (fst (readBeaconAddress send a s) = Inr hex)"
| "chain_answers BeaconsImplementation send a s hex =
     (fst (readBeaconImplementation send a s) = Inr (BeaconImplementation hex))"

text \<open>
  What is assumed of TronWeb's base58check codec at a text: it is of the shape it prints, and it
  decodes to the digits it was made from.
\<close>

definition base58_faithful :: "codec \<Rightarrow> string \<Rightarrow> bool" where
  "base58_faithful c out \<longleftrightarrow>
     (\<forall>d. hex40 d \<and> fromHex c (''41'' @ d) = out \<longrightarrow>
        BASE58_SHAPE out \<and> length out = 34 \<and> isAddress c out \<and> toHex c out = ''41'' @ lower d)"

lemma base58_not_hex:
  assumes "BASE58_SHAPE v"
  shows "\<not> PREFIXED_HEX v" and "\<not> BARE_HEX v"
  using assms by (auto simp: BASE58_SHAPE_def PREFIXED_HEX_def BARE_HEX_def is_hex_digits_def is_hex_char_def prefix_def)

lemma lower_asserts_nothing: "\<not> assertsChecksum (lower d)"
proof -
  have "list_all (\<lambda>c. to_lower c \<noteq> c) ''ABCDEF''" by code_simp
  then have upper: "to_lower u \<noteq> u" if "u \<in> set ''ABCDEF''" for u
    using that unfolding list_all_iff by blast
  have "to_lower x \<notin> set ''ABCDEF''" for x
    using upper [of "to_lower x"] to_lower_to_lower [of x] by blast
  then have "\<not> HAS_UPPER_HEX_LETTER (lower d)"
    by (auto simp: HAS_UPPER_HEX_LETTER_def list_ex_iff lower_def)
  then show ?thesis by (simp add: assertsChecksum_def)
qed

lemma base58_round_trip:
  assumes "checksummer c" and "base58_faithful c (toBase58 c a)" and "canonicalizeAddress c v = Inr a"
  shows "canonicalizeAddress c (JStr (toBase58 c a)) = Inr a"
proof -
  obtain s where m: "mintFrom c s = Inr a" using assms(3) by (auto simp: canonicalizeAddress_ok)
  note canon = mint_canonical [OF assms(1) m]
  obtain d where a: "a = ''0x'' @ d" and d: "hex40 d" using canon(1) by (auto simp: EVM_HEX_def prefix_def)
  let ?b = "toBase58 c a"
  have b: "?b = fromHex c (''41'' @ d)" by (simp add: a toBase58_def toTronHex_def)
  have l: "hex40 (lower d)" using d by (simp add: hex40_def hex_simps)
  have f: "BASE58_SHAPE ?b" "length ?b = 34" "isAddress c ?b" "toHex c ?b = ''41'' @ lower d"
    using assms(2) d b by (auto simp: base58_faithful_def)
  have "evmTailOf c ?b = Inr (lower d)"
    using base58_not_hex [OF f(1)] f l by (simp add: evmTailOf_def TRON_HEX_def)
  moreover have "checksummed c (lower d) = a"
    using canon(2) checksummed_lower [of "lower d" d c] by (simp add: a hex_simps)
  ultimately have "mintFrom c ?b = Inr a" using lower_asserts_nothing by (auto simp: mintFrom_ok)
  then show ?thesis by (simp add: canonicalizeAddress_ok)
qed

lemma public_address: "toPublicAddress c hex = Inr out \<Longrightarrow> \<exists>a. canonicalizeAddress c (JStr hex) = Inr a \<and> out = toBase58 c a"
  by (cases "canonicalizeAddress c (JStr hex)") (auto simp: toPublicAddress_def)

lemma read_on_Inr:
  "read_on tk (d, tr, a) reader w = (Inr x, t) \<Longrightarrow>
     fst (reader (provider_send (tk_post tk tr) (describe d)) ((acc_chan a)\<lparr>world := w\<rparr>)) = Inr x"
  by (auto simp: read_on_def map_sum_Inr split: prod.splits)

lemma call_reads:
  assumes "answer_of_call r tk c penv address options w = (Inr out, t)"
  obtains d tr a u hex where "chainAccessFrom tk penv options w = (Inr (d, tr, a), u)"
    "chain_answers r (provider_send (tk_post tk tr) (describe d)) address ((acc_chan a)\<lparr>world := u\<rparr>) hex"
    "toPublicAddress c hex = Inr out"
proof -
  have "\<exists>d tr a u hex. chainAccessFrom tk penv options w = (Inr (d, tr, a), u) \<and>
    chain_answers r (provider_send (tk_post tk tr) (describe d)) address ((acc_chan a)\<lparr>world := u\<rparr>) hex \<and>
    toPublicAddress c hex = Inr out"
    using assms
    by (cases r)
      (auto simp: erc1967_getImplementationAddress_def erc1967_getAdminAddress_def erc1967_getBeaconAddress_def
        beacon_getImplementationAddress_def lift_io_def throw_io_def
        elim!: bind_io_InrE dest!: read_on_Inr split: beacon_read.splits)
  then show thesis using that by blast
qed

text \<open>
  C34: A public reader's answer names the account the chain answered.  Every successful call has read the
  chain its own handles name, prints the canonical address of what that read answered, and given
  back to any operation its base58 text is canonicalized to exactly that address.
\<close>

theorem public_answers_name_the_account_read:
  assumes "checksummer c" and "base58_faithful c out"
    and "answer_of_call r tk c penv address options w = (Inr out, t)"
  shows "\<exists>d tr a u hex canonical. chainAccessFrom tk penv options w = (Inr (d, tr, a), u) \<and>
    chain_answers r (provider_send (tk_post tk tr) (describe d)) address ((acc_chan a)\<lparr>world := u\<rparr>) hex \<and>
    canonicalizeAddress c (JStr hex) = Inr canonical \<and> out = toBase58 c canonical \<and>
    canonicalizeAddress c (JStr out) = Inr canonical"
proof -
  obtain d tr a u hex where run: "chainAccessFrom tk penv options w = (Inr (d, tr, a), u)"
      "chain_answers r (provider_send (tk_post tk tr) (describe d)) address ((acc_chan a)\<lparr>world := u\<rparr>) hex"
    and p: "toPublicAddress c hex = Inr out"
    by (rule call_reads [OF assms(3)])
  obtain b where b: "canonicalizeAddress c (JStr hex) = Inr b" "out = toBase58 c b"
    using public_address [OF p] by blast
  have "canonicalizeAddress c (JStr out) = Inr b"
    using base58_round_trip [OF assms(1) _ b(1)] assms(2) b(2) by simp
  then show ?thesis using run b by blast
qed

section \<open>A reader at work\<close>

definition reader_post :: "js \<Rightarrow> (unit, js, js) io" where
  "reader_post q w =
     (Inr (JObj [(''result'',
        if own_prop q ''method'' = JStr ''eth_chainId'' then JStr ''0x2B6653DC''
        else JStr ''0x000000000000000000000000a614f803b6fd780986a42c78ec9c7f77e6ded13c'')]), w)"

definition reader_objects :: heap where
  "reader_objects a = demo_object (if a = 1 then [(''trx'', VObj 2)] else [])"

definition reader_host :: "unit toolkit_host" where
  "reader_host = assembly_host
     \<lparr>tk_parameters := demo_host_parameters\<lparr>hp_heap := reader_objects\<rparr>, tk_handle := (\<lambda>_. demo_handle), tk_parse := ChainEndpoint.demo_parse, tk_globalFetch := True,
      tk_post := (\<lambda>_. reader_post)\<rparr>"

definition reader_env :: env where
  "reader_env = [''TRONBOX_UPGRADES_RPC_URL'' \<mapsto> ''http://u:p@node:8545/jsonrpc?k=1'']"

fun reader_handles :: raw_handles where
  "reader_handles HTronWrap = VObj 1"
| "reader_handles _ = VUndef"

definition reader_codec :: codec where
  "reader_codec = demo_codec\<lparr>fromHex := (\<lambda>s.
     if lower s = ''41a614f803b6fd780986a42c78ec9c7f77e6ded13c'' then ''TR7NHqjeKQxGTCi8q8ZY4pL8otSzgjLj6t'' else [])\<rparr>"

lemma reader_codec_laws: "checksummer reader_codec" "base58_faithful reader_codec ''TR7NHqjeKQxGTCi8q8ZY4pL8otSzgjLj6t''"
proof -
  show "checksummer reader_codec" using demo_codec_checksummer by (simp add: checksummer_def reader_codec_def)
  have "BASE58_SHAPE ''TR7NHqjeKQxGTCi8q8ZY4pL8otSzgjLj6t''" by code_simp
  moreover have "lower (''41'' @ d) = ''41'' @ lower d" for d by (simp add: hex_simps to_lower_def lower_table_def)
  ultimately show "base58_faithful reader_codec ''TR7NHqjeKQxGTCi8q8ZY4pL8otSzgjLj6t''"
    by (auto simp: base58_faithful_def reader_codec_def demo_codec_def split: if_splits)
qed

lemma reader_answers:
  "fst (answer_of_call ErcAdmin reader_host reader_codec reader_env ''0xa614f803b6fd780986a42c78ec9c7f77e6ded13c'' reader_handles ()) =
     Inr ''TR7NHqjeKQxGTCi8q8ZY4pL8otSzgjLj6t''"
  by code_simp

theorem public_answers_name_the_account_read_witness:
  "\<exists>canonical. canonicalizeAddress reader_codec (JStr ''TR7NHqjeKQxGTCi8q8ZY4pL8otSzgjLj6t'') = Inr canonical \<and>
     toBase58 reader_codec canonical = ''TR7NHqjeKQxGTCi8q8ZY4pL8otSzgjLj6t''"
proof -
  obtain t where "answer_of_call ErcAdmin reader_host reader_codec reader_env
      ''0xa614f803b6fd780986a42c78ec9c7f77e6ded13c'' reader_handles () = (Inr ''TR7NHqjeKQxGTCi8q8ZY4pL8otSzgjLj6t'', t)"
    using reader_answers by (metis prod.collapse)
  from public_answers_name_the_account_read [OF reader_codec_laws this] show ?thesis by metis
qed

end
