(* ===== verification/ErrorTexts.thy ===== *)
theory ErrorTexts
  imports InputDiagnose RecordAddress
begin

text \<open>
  The messages of \<open>chain/errors.ts\<close> and \<open>deploy/errors.ts\<close>.  A definition is the text an error class hands to
  \<open>super\<close>, over the arguments of its constructor.  Numbers that need not be integers (a JSON-RPC code,
  an HTTP status) come as \<open>String\<close> prints them, and \<open>JSON.stringify\<close> is a parameter.
\<close>

section \<open>Quoting what a node said\<close>

definition ellipsis :: string where "ellipsis = [CHR 0xE2, CHR 0x80, CHR 0xA6]"
definition quote_mark :: string where "quote_mark = [CHR 0x27]"
definition new_line :: string where "new_line = [CHR 0x0A]"

definition RENDERED_MAX_CHARS :: nat where "RENDERED_MAX_CHARS = 200"

definition bounded :: "string \<Rightarrow> string" where
  "bounded t =
     (if length t \<le> RENDERED_MAX_CHARS then t
      else take RENDERED_MAX_CHARS t @ ellipsis @ '' ('' @ decimal (length t) @ '' characters total)'')"

definition renderValue :: "(js \<Rightarrow> string) \<Rightarrow> js \<Rightarrow> string" where
  "renderValue stringify v =
     (case v of
        JStr _ \<Rightarrow> ''a string '' @ bounded (stringify v)
      | JNull \<Rightarrow> ''null''
      | JArr xs \<Rightarrow> ''an array of '' @ decimal (length xs) @ '' element(s)''
      | _ \<Rightarrow> ''a '' @ js_typeof v)"

datatype transport_text =
    TextUnreachable string
  | TextHttpStatus string
  | TextNonJsonBody string
  | TextMalformedEnvelope string
  | TextTimeout

text \<open>The context of an instance change.\<close>

record instance_context =
  ic_manifestFile :: string
  ic_recordCount :: nat
  ic_endpoint :: string
  ic_sidecarFile :: "string option"

fun signalLabels :: "signal \<Rightarrow> string" where
  "signalLabels ChainIdSignal = ''chain id''"
| "signalLabels GenesisSignal = ''genesis block's hash''"
| "signalLabels FirstBlockSignal = ''first block's hash''"

definition renderSignalValue :: "string option \<Rightarrow> string" where
  "renderSignalValue v = (case v of None \<Rightarrow> ''none'' | Some t \<Rightarrow> bounded t)"

text \<open>\<open>because.replace(/\.$/, '')\<close>: one period at the end is dropped.\<close>

definition without_period :: "string \<Rightarrow> string" where
  "without_period t = (if t \<noteq> [] \<and> last t = CHR ''.'' then butlast t else t)"

section \<open>\<open>chain/errors.ts\<close>\<close>

definition method_refused_message :: "string \<Rightarrow> string \<Rightarrow> string" where
  "method_refused_message name1 because =
     ''This plugin does not answer \"'' @ name1 @ ''\": '' @ because @ ''.''"

definition block_tag_refused_message :: "string \<Rightarrow> string \<Rightarrow> string" where
  "block_tag_refused_message name1 because =
     ''\"'' @ name1 @ ''\" cannot be served as requested: '' @ because @ ''.''"

definition endpoint_refused_message :: "string \<Rightarrow> string \<Rightarrow> string" where
  "endpoint_refused_message source because =
     ''The JSON-RPC endpoint from '' @ source @ '' cannot be used: '' @ because @ ''.''"

definition rpc_message :: "string \<Rightarrow> string \<Rightarrow> string \<Rightarrow> string \<Rightarrow> string" where
  "rpc_message name1 code message endpoint =
     ''The node at '' @ endpoint @ '' refused \"'' @ name1 @ ''\" with JSON-RPC code '' @ code @ '': '' @
      bounded message"

fun renderTransportFailure :: "transport_text \<Rightarrow> string" where
  "renderTransportFailure (TextUnreachable detail) =
     (''the endpoint did not accept a connection ('' @ bounded detail @ '')'')"
| "renderTransportFailure (TextHttpStatus status) =
     (''the endpoint answered HTTP '' @ status @ '', which is not a JSON-RPC response'')"
| "renderTransportFailure (TextNonJsonBody detail) =
     (''the endpoint answered successfully with a body that is not JSON, which is what a reverse '' @
      ''proxy or a web server in front of the node produces rather than the node itself (body: '' @
      bounded detail @ '')'')"
| "renderTransportFailure (TextMalformedEnvelope detail) =
     (''the response was not a JSON-RPC envelope ('' @ bounded detail @ '')'')"
| "renderTransportFailure TextTimeout =
     (''the request timed out. The timeout is the one configured for this network '' @ em_dash @
      '' this plugin '' @ ''sets none of its own'')"

definition transport_message :: "string \<Rightarrow> transport_text \<Rightarrow> string \<Rightarrow> string" where
  "transport_message name1 cause endpoint =
     ''\"'' @ name1 @ ''\" could not be completed against '' @ endpoint @ '': '' @ renderTransportFailure cause @
      ''.''"

definition result_shape_message :: "(js \<Rightarrow> string) \<Rightarrow> string \<Rightarrow> string \<Rightarrow> js \<Rightarrow> string" where
  "result_shape_message stringify name1 expected observed =
     ''\"'' @ name1 @ ''\" resolved a value this plugin cannot use: expected '' @ expected @ '', received '' @
      renderValue stringify observed @
      ''. The endpoint may not be an Ethereum-compatible JSON-RPC service for this chain.''"

definition implementation_not_found_message :: "string \<Rightarrow> string" where
  "implementation_not_found_message address =
     ''The contract at '' @ address @
      '' has no ERC-1967 implementation address: both the modern and the legacy implementation '' @
      ''slots are empty, so it does not look like an ERC-1967 proxy.''"

definition beacon_not_found_message :: "string \<Rightarrow> string" where
  "beacon_not_found_message address =
     ''The contract at '' @ address @
      '' has no ERC-1967 beacon address: its beacon slot is empty, so it does not look like a '' @
      ''beacon proxy. (A beacon has no legacy fallback slot, so there is no second place to look.)''"

definition renderFingerprintClause :: "string option \<Rightarrow> string" where
  "renderFingerprintClause sidecarFile =
     (case sidecarFile of
        None \<Rightarrow> []
      | Some file \<Rightarrow>
          ''The chain fingerprint these records were checked against is kept in '' @ file @
          '', beside the manifest. Deleting that file '' @ em_dash @ '' or removing a field from it '' @ em_dash @
          '' resets nothing: '' @
          ''nothing can tell a cleared fingerprint from a first run, so the next run would accept '' @
          ''these records and write this chain fingerprint over them. Whatever you delete, do not '' @
          ''delete the fingerprint on its own.'' @ new_line @ new_line)"

definition records_clause :: "instance_context \<Rightarrow> string" where
  "records_clause cx =
     decimal (ic_recordCount cx) @ '' deployment record(s) in '' @ ic_manifestFile cx"

definition rearm_clause :: "instance_context \<Rightarrow> string" where
  "rearm_clause cx =
     (case ic_sidecarFile cx of
        None \<Rightarrow> []
      | Some _ \<Rightarrow> ''The fingerprint file stays: once the manifest holds no records it re-arms itself against '' @
          ''the chain that answers. '')"

definition renderInstanceChange :: "signal \<Rightarrow> string option \<Rightarrow> string option \<Rightarrow> instance_context \<Rightarrow> string" where
  "renderInstanceChange sig was observed cx =
     (if sig = ChainIdSignal then
        ''The chain at '' @ ic_endpoint cx @ '' is a different network than the '' @ records_clause cx @
        '' were written against: they record chain id '' @ renderSignalValue was @ '' and it reports '' @
        renderSignalValue observed @ ''.'' @ new_line @ new_line @ renderFingerprintClause (ic_sidecarFile cx) @
        ''Nothing has been changed or removed. Check that the network you selected is the one you '' @
        ''meant. If you did intend to switch networks, the records for the new one belong in that '' @
        ''network's own manifest file '' @ em_dash @ '' '' @ ic_manifestFile cx @
        '' describes the old one, and deleting it would lose the record of proxies that are still '' @ ''live.''
      else
        ''The chain at '' @ ic_endpoint cx @ '' reports the same chain id as the '' @ records_clause cx @
        '', but its '' @ signalLabels sig @ '' differs from the one they were written against (recorded '' @
        renderSignalValue was @ '', observed '' @ renderSignalValue observed @
        ''). This is a different instance of the same chain, so those records do not describe it.'' @ new_line @
        new_line @ renderFingerprintClause (ic_sidecarFile cx) @
        ''Nothing has been changed or removed. If this is a disposable local node that has been '' @
        ''restarted, delete '' @ ic_manifestFile cx @
        '', clear the old chain's addresses out of the build artifacts '' @ em_dash @
        '' delete the build directory '' @ ''and run `tronbox compile --all` '' @ em_dash @ '' and run again. '' @
        rearm_clause cx @
        ''The artifacts hold TronBox's per-network write-backs, which would refuse the next deploy '' @
        ''over a proxy this chain has never seen. If you did not expect a restart, the node may be '' @
        ''serving a different chain than intended '' @ em_dash @ '' check the endpoint before deleting anything.'')"

definition unavailable_lead :: "string \<Rightarrow> bool option \<Rightarrow> string" where
  "unavailable_lead endpoint nativeApiReachable =
     (case nativeApiReachable of
        Some True \<Rightarrow> ''the node answered on its native wallet API, but its Ethereum-compatible JSON-RPC service '' @
          ''did not answer at '' @ endpoint
      | Some False \<Rightarrow> ''the node answered neither on its native wallet API nor on its Ethereum-compatible '' @
          ''JSON-RPC service at '' @ endpoint
      | None \<Rightarrow> ''the Ethereum-compatible JSON-RPC service did not answer at '' @ endpoint)"

definition contextDisclaimer :: "string" where
  "contextDisclaimer =
     ''The chain handle itself was supplied and is well-formed, so the invocation contexts '' @
      ''listed at the end of this line are not the cause''"

definition json_rpc_unavailable_detail :: "string \<Rightarrow> bool option \<Rightarrow> string \<Rightarrow> string" where
  "json_rpc_unavailable_detail endpoint nativeApiReachable because =
     unavailable_lead endpoint nativeApiReachable @ '' '' @ em_dash @ '' '' @ without_period because @ ''. '' @
      contextDisclaimer @ ''. On a self-hosted java-tron node this service is disabled by default '' @
      ''(node.jsonrpc.httpFullNodeEnable) and, when enabled, listens on port 8545 while the '' @
      ''wallet API listens on 8090, so a fullHost naming 8090 yields no JSON-RPC. Enable the '' @
      ''service, or set TRONBOX_UPGRADES_RPC_URL to its URL''"

definition handle_wrong_type_detail :: "(js \<Rightarrow> string) \<Rightarrow> string \<Rightarrow> string \<Rightarrow> js \<Rightarrow> string" where
  "handle_wrong_type_detail stringify expectedPath expected observed =
     ''the chain handle's \"'' @ expectedPath @ ''\" is '' @ renderValue stringify observed @ '' rather than '' @
      expected @ '', so this plugin cannot reach the node through it. That is a mismatch between this plugin '' @
      ''and the TronBox version that supplied the handle, not something a project setting controls''"

section \<open>\<open>deploy/errors.ts\<close>\<close>

definition printedAddress :: "codec \<Rightarrow> string \<Rightarrow> string" where
  "printedAddress c address =
     (case canonicalizeAddress c (JStr address) of Inl _ \<Rightarrow> address | Inr a \<Rightarrow> toBase58 c a)"

record spent_deployment =
  sd_address :: string
  sd_transactionHash :: string

fun joined :: "string list \<Rightarrow> string" where
  "joined [] = []"
| "joined [x] = x"
| "joined (x # y # xs) = x @ '', '' @ joined (y # xs)"

definition nested_operation_message :: "string \<Rightarrow> string" where
  "nested_operation_message operation =
     operation @ '' was started from inside another operation. Operations compose by sequence, not by '' @
      ''nesting: await the running operation, then start this one.''"

definition adoptClause :: "codec \<Rightarrow> spent_deployment \<Rightarrow> string" where
  "adoptClause c spent =
     ''The contract is at '' @ printedAddress c (sd_address spent) @ '' (transaction '' @
      sd_transactionHash spent @
      ''). Nothing here removes it. Once the cause above is resolved, record it with forceImport('' @ quote_mark @
      printedAddress c (sd_address spent) @ quote_mark @ '') rather than deploying a second one.''"

definition deployer_absent_message :: "string \<Rightarrow> string" where
  "deployer_absent_message missingHandle =
     ''This operation sends a transaction, but the '' @ missingHandle @
      '' handle is missing, so there is no deployer to send it through. Run it from a migration '' @
      ''(`tronbox migrate`), where TronBox constructs the deployer. Validation does not require '' @
      ''one and has already run if requested.''"

definition transaction_reverted_message :: "string \<Rightarrow> string \<Rightarrow> string option \<Rightarrow> string" where
  "transaction_reverted_message transactionHash vmResult vmMessage =
     ''Transaction '' @ transactionHash @ '' executed and failed: the node reports '' @ vmResult @
      (case vmMessage of None \<Rightarrow> [] | Some m \<Rightarrow> '' '' @ em_dash @ '' \"'' @ m @ ''\"'') @
      ''. This transaction recorded nothing. An implementation the same operation deployed before '' @
      ''sending it may already be in the upgrades record '' @ em_dash @ '' that entry is valid and a later run '' @
      ''reuses it rather than deploying it again. The failure is on-chain and re-running without '' @
      ''a change will fail the same way.''"

definition confirmation_indeterminate_message :: "codec \<Rightarrow> string \<Rightarrow> bool \<Rightarrow> nat option \<Rightarrow> spent_deployment option \<Rightarrow> string" where
  "confirmation_indeterminate_message c transactionHash waitExhausted waitedMs spent1 =
     (if waitExhausted
        then ''Transaction '' @ transactionHash @ '' was sent, and no receipt appeared within '' @
         (case waitedMs of None \<Rightarrow> ''the polling bound'' | Some n \<Rightarrow> decimal n @ '' ms'') @
         ''. It may still confirm. Check the transaction before retrying '' @ em_dash @
         '' re-sending a transaction '' @ ''that later lands deploys twice.''
        else ''Transaction '' @ transactionHash @
         '' has a receipt that carries no execution verdict, so success cannot be affirmed. This '' @
         ''plugin refuses to report success it cannot verify. Inspect the transaction directly '' @
         ''before proceeding.'') @
      (case spent1 of None \<Rightarrow> [] | Some spent \<Rightarrow>
         new_line @ new_line @ ''If it did land, the contract is at '' @ printedAddress c (sd_address spent) @
         '': adopt it with forceImport('' @ quote_mark @ printedAddress c (sd_address spent) @ quote_mark @
         '') rather than deploying again. The artifact's entry for it is left in place on purpose, '' @
         ''for the same reason '' @ em_dash @ '' it may name a real deployment.'')"

definition sender_mismatch_message :: "codec \<Rightarrow> string \<Rightarrow> string \<Rightarrow> spent_deployment option \<Rightarrow> string" where
  "sender_mismatch_message c preflighted signed spent1 =
     ''The upgrade-authority check ran against '' @ printedAddress c preflighted @
      '', but the transaction was signed by '' @ printedAddress c signed @
      ''. The check's answer is about a different account than the one that acted, so the '' @
      ''operation stops here. Configure one sending account (`from`) so the two agree.'' @
      (case spent1 of None \<Rightarrow> [] | Some spent \<Rightarrow> new_line @ new_line @ adoptClause c spent)"

definition linked_implementation_message :: "string list \<Rightarrow> string" where
  "linked_implementation_message libraries =
     ''This implementation links external librar'' @ (if length libraries = 1 then ''y'' else ''ies'') @ '' '' @
      joined libraries @ ''. Deploying it is refused by default: swapping a linked library's address changes '' @
      ''behavior without changing storage layout, and no other validation will catch that. If you '' @
      ''accept that risk, set `unsafeAllow: ['external-library-linking']` '' @ em_dash @
      '' by opting in you take '' @ ''over verifying every future library address yourself.''"

definition link_verification_message :: "string list \<Rightarrow> string" where
  "link_verification_message placeholders =
     ''After linking, the bytecode still carries unresolved placeholder'' @
      (if length placeholders = 1 then [] else ''s'') @ '' '' @ joined placeholders @
      ''. Deploying it would put a contract on-chain that cannot run. Check that every linked '' @
      ''library is deployed and spelled exactly as the implementation imports it.''"

definition stale_transaction_message :: "string \<Rightarrow> string" where
  "stale_transaction_message transactionHash =
     ''The deployment step completed without producing a new transaction: the hash on record ('' @
      transactionHash @
      '') predates this run. Reporting it as this run's would claim a deployment that did not '' @
      ''happen, so the operation stops instead.''"

definition cheatcode_collision_message :: "bool \<Rightarrow> string" where
  "cheatcode_collision_message plainObject =
     (if plainObject
      then ''The last constructor argument is a plain object, and TronBox treats a trailing non-array '' @
          ''object as its own energy-parameter slot: it pops the argument off the constructor call '' @
          ''entirely and mines it for the deploy parameters it recognizes (fee limit, origin energy '' @
          ''limit, and the like) '' @ em_dash @ '' your constructor never receives it, usually as a loud arity '' @
          ''mismatch, silently only when the real constructor happens to expect that many arguments '' @
          ''once the struct is gone. Wrap the struct so it is not the final argument '' @ em_dash @
          '' for example, '' @ ''pass it as an array member or add a trailing dummy argument '' @ em_dash @
          '' or restructure the '' @ ''constructor.''
      else ''The last constructor argument is `null`. TronBox's contract layer takes it down the same '' @
          ''path as a plain object (`typeof null === 'object'`), and the installed host versions '' @
          ''disagree on where that leads: one crashes internally before any deploy is attempted, the '' @
          ''other passes `null` through to your constructor, where the result depends on the '' @
          ''parameter's type and is never something this plugin can vouch for. Pass the actual value '' @
          ''your constructor expects instead of `null`.'')"

definition deploy_invariant_message :: "string \<Rightarrow> string" where
  "deploy_invariant_message detail =
     ''Internal error in the deployment seam: '' @ detail @
      ''. This is a bug in @openzeppelin/tronbox-upgrades '' @ em_dash @ '' please report it.''"

section \<open>What the messages show\<close>

lemma names_start: "prefix p s \<Longrightarrow> js_includes p (s @ t)"
  by (auto simp: js_includes_sublist prefix_def)

lemma length_bounded: "length (bounded t) \<le> 225 + length (decimal (length t))"
  by (simp add: bounded_def RENDERED_MAX_CHARS_def ellipsis_def)

text \<open>
  What a node said is quoted within bounds: whatever it answered, a message is no longer than its
  own words, the arguments that are the plugin's (method, endpoint, code) and 200 characters with a count.
\<close>

theorem node_text_is_quoted_within_bounds:
  "length (rpc_message name1 code message endpoint) \<le>
     300 + length name1 + length code + length endpoint + length (decimal (length message)) \<and>
   length (transport_message name1 cause endpoint) \<le>
     500 + length name1 + length endpoint +
       (case cause of
          TextUnreachable t \<Rightarrow> length (decimal (length t)) | TextHttpStatus n \<Rightarrow> length n
        | TextNonJsonBody t \<Rightarrow> length (decimal (length t))
        | TextMalformedEnvelope t \<Rightarrow> length (decimal (length t)) | TextTimeout \<Rightarrow> 0)"
  using length_bounded [of message]
  by (cases cause)
    (auto simp: rpc_message_def transport_message_def em_dash_def intro: order_trans [OF length_bounded] order_trans [OF add_right_mono [OF length_bounded]])

lemma fingerprint_clause_shown:
  "js_includes file (renderFingerprintClause (Some file))"
  unfolding renderFingerprintClause_def option.case by (rule names_here | rule names_later)+

lemma records_clause_shown:
  "js_includes (decimal (ic_recordCount cx)) (records_clause cx)"
  unfolding records_clause_def by (rule names_here)

lemma includes_trans: "js_includes x y \<Longrightarrow> js_includes y z \<Longrightarrow> js_includes x z"
  unfolding js_includes_sublist by (rule sublist_order.order_trans)

text \<open>
  The refusal of a changed chain says which records, which chain and which two values disagree, that
  nothing was touched, and where the fingerprint is kept.  It prescribes deleting the manifest
  only for a restarted instance of the same chain, never for another network.
\<close>

theorem instance_change_is_explained:
  "list_all (\<lambda>x. js_includes x (renderInstanceChange sig was observed cx))
     ([ic_manifestFile cx, ic_endpoint cx, decimal (ic_recordCount cx), renderSignalValue was, renderSignalValue observed,
       ''Nothing has been changed or removed.''] @
      (case ic_sidecarFile cx of None \<Rightarrow> [] | Some file \<Rightarrow> [file]) @
      (if sig = ChainIdSignal then [''deleting it would lose the record of proxies''] else [signalLabels sig]))"
proof -
  let ?m = "renderInstanceChange sig was observed cx"
  have records: "js_includes (records_clause cx) ?m \<and> js_includes (ic_endpoint cx) ?m \<and>
      js_includes (renderSignalValue was) ?m \<and> js_includes (renderSignalValue observed) ?m \<and>
      js_includes (ic_manifestFile cx) ?m \<and> js_includes (renderFingerprintClause (ic_sidecarFile cx)) ?m"
    by (cases "sig = ChainIdSignal"; simp only: renderInstanceChange_def simp_thms if_True if_False; intro conjI;
        (rule names_here | rule names_later)+)
  have untouched: "js_includes ''Nothing has been changed or removed.'' ?m"
    by (cases "sig = ChainIdSignal"; simp only: renderInstanceChange_def simp_thms if_True if_False;
        ((rule names_start, simp; fail) | rule names_later)+)
  have signal1: "js_includes (if sig = ChainIdSignal then ''deleting it would lose the record of proxies'' else signalLabels sig) ?m"
  proof (cases "sig = ChainIdSignal")
    case True
    have "js_includes ''deleting it would lose the record of proxies''
        '' describes the old one, and deleting it would lose the record of proxies that are still ''" by code_simp
    then show ?thesis unfolding renderInstanceChange_def if_P [OF True]
      by - ((rule names_inside, assumption) | rule names_later)+
  next
    case False
    show ?thesis unfolding renderInstanceChange_def if_not_P [OF False] by (rule names_here | rule names_later)+
  qed
  have sidecar: "js_includes f ?m" if "ic_sidecarFile cx = Some f" for f
    using includes_trans [OF fingerprint_clause_shown [of f]] records that by simp
  show ?thesis
    using records untouched signal1 sidecar includes_trans [OF records_clause_shown, of cx ?m]
    by (auto simp: list_all_iff split: option.splits if_splits)
qed

lemma names_refl: "js_includes x x"
  by (simp add: js_includes_sublist)

lemma call_shown:
  "js_includes (''forceImport('' @ quote_mark @ a @ quote_mark @ '')'')
     (s @ ''forceImport('' @ quote_mark @ a @ quote_mark @ '')'' @ t)"
proof -
  have "s @ ''forceImport('' @ quote_mark @ a @ quote_mark @ '')'' @ t =
      s @ (''forceImport('' @ quote_mark @ a @ quote_mark @ '')'') @ t" by simp
  then show ?thesis by (metis names_here names_later)
qed

text \<open>
  A refusal after a deployment was paid for gives the user what recovering it takes.  Whatever the
  verdict, its message shows the transaction and the address in the spelling the user can copy, and
  spells out the very call of \<open>forceImport\<close> that adopts the contract.
\<close>

theorem refusals_after_a_deployment_name_it:
  "list_all (\<lambda>m. js_includes (printedAddress c (sd_address spent)) m \<and>
       js_includes (''forceImport('' @ quote_mark @ printedAddress c (sd_address spent) @ quote_mark @ '')'') m)
     [sender_mismatch_message c preflighted signed (Some spent),
      confirmation_indeterminate_message c (sd_transactionHash spent) waitExhausted waitedMs (Some spent)] \<and>
   js_includes (sd_transactionHash spent) (sender_mismatch_message c preflighted signed (Some spent)) \<and>
   js_includes hash (confirmation_indeterminate_message c hash waitExhausted waitedMs spentDeployment)"
proof -
  let ?a = "printedAddress c (sd_address spent)"
  let ?call = "''forceImport('' @ quote_mark @ ?a @ quote_mark @ '')''"
  have call: "js_includes ?call (''). Nothing here removes it. Once the cause above is resolved, record it with forceImport('' @
      quote_mark @ ?a @ quote_mark @ '') rather than deploying a second one.'')"
    "js_includes ?call ('': adopt it with forceImport('' @ quote_mark @ ?a @ quote_mark @
      '') rather than deploying again. The artifact's entry for it is left in place on purpose, '' @ rest)" for rest
    using call_shown [of "''). Nothing here removes it. Once the cause above is resolved, record it with ''" ?a
        "'' rather than deploying a second one.''"]
      call_shown [of "'': adopt it with ''" ?a
        "'' rather than deploying again. The artifact's entry for it is left in place on purpose, '' @ rest"] by simp_all
  have clause: "js_includes ?a (adoptClause c spent)" "js_includes (sd_transactionHash spent) (adoptClause c spent)"
    "js_includes ?call (adoptClause c spent)"
    unfolding adoptClause_def by ((rule names_here | (rule call) | rule names_later)+)
  have adopt: "js_includes (adoptClause c spent) (sender_mismatch_message c preflighted signed (Some spent))"
    unfolding sender_mismatch_message_def option.case by (rule names_refl | rule names_later)+
  have confirm: "js_includes ?a (confirmation_indeterminate_message c h waitExhausted waitedMs (Some spent))"
    "js_includes ?call (confirmation_indeterminate_message c h waitExhausted waitedMs (Some spent))" for h
    unfolding confirmation_indeterminate_message_def option.case
    by (rule names_later, (rule names_here | rule call | rule names_later)+)+
  have hash: "js_includes hash (confirmation_indeterminate_message c hash waitExhausted waitedMs spentDeployment)"
    unfolding confirmation_indeterminate_message_def
    by (rule names_inside, cases waitExhausted; simp only: if_True if_False; (rule names_here | rule names_later)+)
  show ?thesis
    using includes_trans [OF clause(1) adopt] includes_trans [OF clause(2) adopt] includes_trans [OF clause(3) adopt] confirm hash
    unfolding list_all_iff by simp
qed

end
