(* ===== verification/RefusalTexts.thy ===== *)
theory RefusalTexts
  imports ErrorTexts ProxyDispatch RecordManifest
begin

text \<open>
  The messages of \<open>record/errors.ts\<close>, \<open>proxy/errors.ts\<close>, \<open>adopt/errors.ts\<close> and \<open>admin/errors.ts\<close>: the
  remedy tables of the record layer, and for each error class the text its constructor hands to \<open>super\<close>.
  A cause is a value of the datatype the component's model raises, so the texts and the refusals of
  the operations speak of the same cases.  The last section is \<open>manifestPathFor\<close> of \<open>chain/instance.ts\<close>, the name of
  the record that a refusal quotes.
\<close>

section \<open>\<open>record/errors.ts\<close>\<close>

fun locationRemedies :: "location_cause \<Rightarrow> string" where
  "locationRemedies AnchorNotAbsolute =
     (''This is a defect in the plugin rather than in your project: the project root it was given '' @
      ''is not an absolute path. Please report it with the command you ran.'')"
| "locationRemedies ConfiguredValueRelative =
     (''Set '' @ MANIFEST_DIR_VAR @
      '' to an absolute path, or unset it and let the plugin place the records under your project '' @
      ''root. A relative value is resolved against the current working directory, not against the '' @
      ''project, so the records would move with the directory you happen to run from.'')"
| "locationRemedies ResolvedOutsideAnchor =
     (''Unset '' @ MANIFEST_DIR_VAR @
      '', or point it at this project. A value left over from another project or a CI variable '' @
      ''would write this project's deployment records into the other project's manifest, where '' @
      ''the chain fingerprints of both would be compared against each other.'')"
| "locationRemedies SetTooLate =
     (''This is a defect in the plugin rather than in your project: something loaded the upgrades '' @
      ''engine before the record location was configured, and the engine reads that location '' @
      ''once, when it is first loaded. Please report it, and note whether your migration requires '' @
      ''\"@openzeppelin/upgrades-core\" itself before requiring this plugin '' @ em_dash @
      '' that is the one form '' @ ''of this failure you can work around, by requiring the plugin first.'')"

definition configured_clause :: "string option \<Rightarrow> string" where
  "configured_clause configuredValue =
     (case configuredValue of
        None \<Rightarrow> []
      | Some v \<Rightarrow> '' '' @ MANIFEST_DIR_VAR @ '' is set to \"'' @ v @ ''\".'')"

definition renderLocationFailure :: "location_cause \<Rightarrow> string \<Rightarrow> string \<Rightarrow> string option \<Rightarrow> string" where
  "renderLocationFailure because intendedDir resolvedFile configuredValue =
     (case because of
        SetTooLate \<Rightarrow> ''The deployment record would be written to the relative path \"'' @ resolvedFile @
          ''\", which resolves against whatever directory this process is in rather than against '' @ intendedDir @ ''.''
      | AnchorNotAbsolute \<Rightarrow> ''The deployment record cannot be anchored: \"'' @ intendedDir @ ''\" is not an absolute path.''
      | ConfiguredValueRelative \<Rightarrow> ''The deployment record cannot be anchored to a relative '' @ MANIFEST_DIR_VAR @ ''.'' @
          configured_clause configuredValue
      | ResolvedOutsideAnchor \<Rightarrow> ''The deployment record would be written to \"'' @ resolvedFile @ ''\", which is not under '' @ intendedDir @
          ''.'' @ configured_clause configuredValue) @
      new_line @ new_line @ locationRemedies because"

fun address_cause_text :: "address_cause \<Rightarrow> string" where
  "address_cause_text UnrecognisedEncoding =
     (''unrecognised-encoding'')"
| "address_cause_text Base58Checksum =
     (''base58-checksum'')"
| "address_cause_text WrongLength =
     (''wrong-length'')"
| "address_cause_text WrongPrefixByte =
     (''wrong-prefix-byte'')"
| "address_cause_text PostConversionShape =
     (''post-conversion-shape'')"

fun addressRemedies :: "address_cause \<Rightarrow> string" where
  "addressRemedies UnrecognisedEncoding =
     (''Pass a TRON address in one of three forms: base58check (\"T\" followed by 33 characters), '' @
      ''21-byte TRON hex (\"41\" followed by 40 hex digits), or EVM-style hex (\"0x\" followed by 40 '' @
      ''hex digits). A contract name is not an address '' @ em_dash @ '' if you meant to name a contract, this '' @
      ''argument is the wrong one for it.'')"
| "addressRemedies Base58Checksum =
     (''The address has the right shape but its checksum does not verify, so at least one '' @
      ''character is wrong. Copy it again from its source rather than retyping it.'')"
| "addressRemedies WrongLength =
     (''A TRON address payload is exactly 20 bytes. Check for a truncated or double-pasted value '' @ em_dash @
      '' a block explorer selection that stops short is the usual cause.'')"
| "addressRemedies WrongPrefixByte =
     (''A TRON address in hex form always begins with the byte \"41\". A value beginning with '' @
      ''anything else is either a different chain's address or a hex string that is not an '' @ ''address at all.'')"
| "addressRemedies PostConversionShape =
     (''If you copied this address in mixed case, its capitalisation is itself a checksum and it '' @
      ''does not match. Use the address exactly as its source gives it, or pass it in lower case '' @
      ''so no checksum is claimed.'')"

definition address_message :: "string \<Rightarrow> address_cause \<Rightarrow> string" where
  "address_message received because =
     ''\"'' @ received @ ''\" is not a usable TRON address ('' @ address_cause_text because @ '').'' @ new_line @
      new_line @ addressRemedies because"

fun fingerprintDispositions :: "refusal_diagnosis \<Rightarrow> string" where
  "fingerprintDispositions ProxiesLive =
     (''At least one recorded proxy holds code at this endpoint. That is consistent with these '' @
      ''records describing this chain '' @ em_dash @
      '' though code presence alone cannot prove it: a reset node '' @
      ''or a different endpoint can hold other code at the same address '' @ em_dash @ '' and it does mean '' @
      ''deleting the record file risks abandoning live deployments. Do not delete the record '' @
      ''file. If this endpoint is the one these records have always pointed at, delete the '' @
      ''fingerprint file and re-run '' @ em_dash @ '' it is rewritten from the current chain. If the endpoint '' @
      ''changed recently, or the node may have been wiped and redeployed since, verify the '' @
      ''endpoint before deleting anything.'')"
| "fingerprintDispositions ProxiesAbsent =
     (''None of the recorded proxies hold code at this endpoint, so the records describe a '' @
      ''different chain. If this is a local node that was reset or replaced, delete the record '' @
      ''file and the fingerprint, delete the build directory and run `tronbox compile --all` '' @ em_dash @ '' '' @
      ''TronBox's artifacts also remember the old chain '' @ em_dash @
      '' and redeploy. If you did not expect the '' @
      ''chain to change, the endpoint is probably not the one you think '' @ em_dash @ '' fix the network '' @
      ''configuration and delete nothing.'')"
| "fingerprintDispositions NoProxies =
     (''The record file lists no proxies, so there is nothing to check the fingerprint against. '' @
      ''Delete the fingerprint file and re-run '' @ em_dash @
      '' it is rewritten from the current chain. If the '' @
      ''node was wiped, also delete the record file and the build directory (then run `tronbox '' @
      ''compile --all`) and redeploy.'')"
| "fingerprintDispositions DiagnosisIndeterminate =
     (''If this is still the same chain, delete the fingerprint file and re-run '' @ em_dash @
      '' it is rewritten '' @ ''from the current chain. If the node was wiped, delete the record file and the '' @
      ''fingerprint, delete the build directory and run `tronbox compile --all`, and redeploy. If '' @
      ''you are on a live network or did not expect the chain to change, check the endpoint and '' @
      ''the network configuration before deleting anything.'')"

fun fingerprint_cause_text :: "fingerprint_cause \<Rightarrow> string" where
  "fingerprint_cause_text FpNotJson =
     (''not-json'')"
| "fingerprint_cause_text FpNotAnObject =
     (''not-an-object'')"
| "fingerprint_cause_text FpUnrecognisedSchema =
     (''unrecognised-schema'')"
| "fingerprint_cause_text FpChainIdUnusable =
     (''chain-id-unusable'')"
| "fingerprint_cause_text FpHashFieldUnusable =
     (''hash-field-unusable'')"
| "fingerprint_cause_text FpUnexpectedKeys =
     (''unexpected-keys'')"
| "fingerprint_cause_text FpUnreadableFile =
     (''unreadable-file'')"

fun fingerprintRemedies :: "fingerprint_cause \<Rightarrow> string" where
  "fingerprintRemedies FpNotJson =
     (''The fingerprint file is not JSON, so nothing could be read from it.'')"
| "fingerprintRemedies FpNotAnObject =
     (''The fingerprint file holds a JSON value that is not an object, so there is no field in it '' @
      ''to compare against.'')"
| "fingerprintRemedies FpUnrecognisedSchema =
     (''The fingerprint was written by a newer version of this plugin, so this version cannot '' @ ''read it '' @
      em_dash @ '' and a rewrite at this version would discard whatever the newer one recorded.'')"
| "fingerprintRemedies FpChainIdUnusable =
     (''The fingerprint names no usable chain id, so there is nothing to compare against. This is '' @
      ''what a hand-edited file most often looks like.'')"
| "fingerprintRemedies FpHashFieldUnusable =
     (''One of the fingerprint's hashes is present but is not a 32-byte hash. Clearing a field '' @
      ''does not clear the check it feeds '' @ em_dash @
      '' it turns the check off, which is why this is reported '' @ ''rather than ignored.'')"
| "fingerprintRemedies FpUnexpectedKeys =
     (''The fingerprint file carries fields this plugin does not write, so it was not written by '' @
      ''this plugin.'')"
| "fingerprintRemedies FpUnreadableFile =
     (''The fingerprint file exists and could not be read '' @ em_dash @ '' most often a permission problem on '' @
      ''the file or on the directory holding it. Once it is readable again the check runs '' @ ''normally.'')"

definition fingerprint_message :: "string \<Rightarrow> fingerprint_cause \<Rightarrow> refusal_diagnosis \<Rightarrow> string" where
  "fingerprint_message path because diag =
     ''The chain fingerprint in '' @ path @ '' cannot be used ('' @ fingerprint_cause_text because @ '').'' @
      new_line @ new_line @ fingerprintRemedies because @ '' Nothing has been changed or removed.'' @ new_line @
      new_line @
      (if because = FpUnrecognisedSchema
        then ''Upgrading this plugin is the exit that loses nothing. The exits below rewrite the '' @
         ''fingerprint at this version, so take them only if discarding what the newer version '' @
         ''recorded is acceptable. '' else []) @
      fingerprintDispositions diag"

definition recordTwoExits :: "string" where
  "recordTwoExits =
     ''Restore the file from version control if you have it '' @ em_dash @
      '' it is the exit that loses nothing. '' @
      ''Failing that, move it aside: the next run starts a fresh record, which knows about no '' @
      ''deployments at all, so every live proxy has to be re-adopted with forceImport(address) '' @
      ''before it can be upgraded again. The proxies themselves are unaffected either way; it is '' @
      ''only this plugin's memory of them that is at stake.''"

fun recordUnreadableRemedies :: "unreadable_cause \<Rightarrow> string" where
  "recordUnreadableRemedies NotJson =
     (''The record file is not JSON, so nothing could be read from it at all. A hand edit, a '' @
      ''merge conflict left unresolved, or a process that died mid-write all look like this. '' @ recordTwoExits)"
| "recordUnreadableRemedies ContentsRefused =
     (''The record file is JSON and its contents were refused '' @ em_dash @
      '' the reason above is the engine's '' @
      ''own. If it names a manifest version this plugin does not understand, the record was '' @
      ''written by a newer version and upgrading @openzeppelin/tronbox-upgrades is the exit that '' @
      ''loses nothing. If it names the OpenZeppelin CLI, no automated migration exists and the '' @
      ''record cannot be carried forward. Editing the file by hand repairs neither. '' @ recordTwoExits)"

definition record_unreadable_message :: "string \<Rightarrow> unreadable_cause \<Rightarrow> string \<Rightarrow> string" where
  "record_unreadable_message path because detail =
     ''The deployment record in '' @ path @ '' cannot be read ('' @
      (case because of NotJson \<Rightarrow> ''not-json'' | ContentsRefused \<Rightarrow> ''contents-refused'') @
      ''): '' @ detail @ new_line @ new_line @ recordUnreadableRemedies because"

definition record_locked_message :: "string \<Rightarrow> string \<Rightarrow> string" where
  "record_locked_message path detail =
     ''The deployment record '' @ path @ '' is locked by another process ('' @ detail @ '').'' @ new_line @
      new_line @ ''Two runs are touching the same record at once '' @ em_dash @
      '' a second `tronbox migrate` in another '' @
      ''terminal, or a CI job sharing the project directory. The engine already waited and '' @
      ''retried before reporting this, so it is not a timing hiccup to shorten. Let the other run '' @
      ''finish and try again. Nothing was written by this run.''"

section \<open>\<open>proxy/errors.ts\<close>\<close>

definition unknown_generation_message :: "string \<Rightarrow> string \<Rightarrow> string" where
  "unknown_generation_message subject reportedVersion =
     ''The '' @ subject @ '' reports UPGRADE_INTERFACE_VERSION \"'' @ reportedVersion @
      ''\", which this plugin does not recognise (it knows the pre-5 shape, where the getter is '' @
      ''absent, and \"5.0.0\"). Upgrading through a guessed entry point could brick the proxy, so '' @
      ''nothing was sent. Check whether a newer plugin version supports this generation.''"

definition artifact_missing_message :: "string \<Rightarrow> string" where
  "artifact_missing_message artifactName =
     ''The proxy contract artifact '' @ artifactName @
      '' is not among this project's compiled contracts. Add a file such as contracts/Proxies.sol '' @
      ''containing `import '' @
      ''\"@openzeppelin/tron-contracts/proxy/transparent/TransparentUpgradeableProxy.sol\";` (see '' @
      ''the plugin README for the full file), then run `tronbox compile`.''"

definition artifact_collision_message :: "string \<Rightarrow> string list \<Rightarrow> string" where
  "artifact_collision_message artifactName candidatePaths =
     artifactName @ '' matches '' @ decimal (length candidatePaths) @ '' different compiled contracts: '' @
      joined candidatePaths @
      ''. TronBox looks artifacts up by bare name, so which one deploys would be an accident of '' @
      ''file order. Rename or remove the colliding contracts so exactly one remains.''"

definition beacon_proxy_message :: "string \<Rightarrow> string \<Rightarrow> string" where
  "beacon_proxy_message proxyAddress beaconAddress =
     ''Proxy '' @ proxyAddress @ '' is a beacon proxy '' @ em_dash @
      '' its implementation lives on the beacon at '' @ beaconAddress @
      ''. Upgrade the beacon instead; every proxy pointing at it follows.''"

definition not_transparent_message :: "string \<Rightarrow> string" where
  "not_transparent_message proxyAddress =
     ''Proxy '' @ proxyAddress @
      '' has no admin in its 1967 admin slot, so it is not a transparent proxy. For a UUPS proxy '' @
      ''pass `kind: 'uups'`.''"

definition upgrade_unverified_message :: "codec \<Rightarrow> string \<Rightarrow> string \<Rightarrow> string \<Rightarrow> string \<Rightarrow> string" where
  "upgrade_unverified_message c transactionHash target observed expected =
     ''The upgrade transaction '' @ transactionHash @ '' for '' @ printedAddress c target @
      '' confirmed, but the target now reports implementation '' @ printedAddress c observed @ '' where '' @
      printedAddress c expected @
      '' was expected. The live implementation is NOT the one this operation deployed '' @ em_dash @ '' '' @
      ''investigate that transaction before running anything else against this target.''"

definition empty_initializer_message :: "string \<Rightarrow> bool \<Rightarrow> string" where
  "empty_initializer_message kind initializerFalse =
     (if initializerFalse
      then ''`initializer: false` is not supported for kind \"'' @ kind @
          ''\": the ported TRC1967Proxy rejects empty initialization data, so an uninitialized proxy '' @
          ''cannot be deployed. Initialize in the same transaction.''
      else ''Uninitialized deployment is not supported for kind \"'' @ kind @
          ''\": the contract has no default initializer and the ported TRC1967Proxy rejects empty '' @
          ''initialization data. Add an initializer function.'')"

fun stale_record_message :: "stale_cause \<Rightarrow> string \<Rightarrow> string" where
  "stale_record_message StaleNoCode proxyAddress =
     (''This migration previously deployed a proxy at '' @ proxyAddress @
      '', but that address holds no code on the current chain '' @ em_dash @ '' the node was likely wiped or '' @
      ''replaced. Deploying a second proxy beside the stale record is refused. If the chain '' @
      ''really was reset, clear the deployment record and the artifact's network entry '' @ em_dash @
      '' delete '' @ ''the build directory and run `tronbox compile --all` '' @ em_dash @ '' then re-run.'')"
| "stale_record_message StaleUnrecorded proxyAddress =
     (''This migration previously deployed a proxy at '' @ proxyAddress @
      '', and the address holds code, but the deployment record has no entry for it. Register it '' @
      ''first with a force-import so upgrades validate against the right layout.'')"
| "stale_record_message StaleNoVerdict proxyAddress =
     (''This migration previously deployed a proxy at '' @ proxyAddress @
      '', but the deployment record knows nothing about that address '' @ em_dash @
      '' an out-of-band deployment, '' @
      ''a deleted record, or another tool's write. Reconcile the record before deploying again. '' @
      ''If the record was deleted on purpose after a chain wipe, clear the artifact's per-network '' @
      ''write-back too '' @ em_dash @ '' delete the build directory and run `tronbox compile --all` '' @ em_dash @
      '' then re-run.'')"

definition not_previously_deployed_message :: "string \<Rightarrow> string" where
  "not_previously_deployed_message contractName =
     ''redeployImplementation: 'never' was set, but the implementation contract '' @ contractName @
      '' was not previously deployed on this network '' @ em_dash @ '' there is no recorded deployment of this '' @
      ''exact contract version to reuse, so the fresh deploy this policy exists to forbid was '' @
      ''refused before anything spent. Deploy it once with 'onchange' or 'always' (or with the '' @
      ''option omitted), or drop 'never' if a fresh deploy is acceptable here.''"

definition owner_unsupported_message :: "string \<Rightarrow> string" where
  "owner_unsupported_message kind =
     ''The `initialOwner` option is not supported for this kind of proxy ('' @ quote_mark @ kind @ quote_mark @
      ''). Set the initial owner as part of your contract's initializer arguments instead.''"

definition beacon_owner_required_message :: "string" where
  "beacon_owner_required_message =
     ''deployBeacon could not determine an initial owner for the beacon: no `initialOwner` '' @
      ''option was given, and the configured network names no sending account to fall back to. '' @
      ''Configure a sending account (`from`) in your network settings, or pass `initialOwner` '' @ ''explicitly.''"

definition transparent_owner_required_message :: "string" where
  "transparent_owner_required_message =
     ''deployProxy could not determine an initial owner for the transparent proxy's admin: no '' @
      ''`initialOwner` option was given, and the configured network names no sending account to '' @
      ''fall back to. Configure a sending account (`from`) in your network settings, or pass '' @
      ''`initialOwner` explicitly.''"

definition proxy_admin_owner_message :: "string \<Rightarrow> string" where
  "proxy_admin_owner_message ownerAddress =
     ''`initialOwner` must not be a ProxyAdmin contract: the v5 transparent proxy deploys its '' @
      ''own admin, owned by initialOwner. If the contract at '' @ ownerAddress @
      '' really should own the new admin, skip this check with `unsafeSkipProxyAdminCheck`.''"

definition options_in_args_message :: "string \<Rightarrow> string \<Rightarrow> bool \<Rightarrow> string" where
  "options_in_args_message operation receivedType looksLikeOptions =
     operation @ quote_mark @ ''s argument list must be an array, but received a '' @ receivedType @
      (if looksLikeOptions
        then '' that carries option keys '' @ em_dash @ '' it looks like an options object was passed positionally, '' @
         ''where the argument list belongs.'' else ''.'') @
      '' There is no overload that accepts options in this position: pass an array of '' @
      ''constructor/initializer arguments (or an empty array) here, and any options as the '' @
      ''following argument.''"

definition record_write_failed_message :: "codec \<Rightarrow> string \<Rightarrow> string \<Rightarrow> string \<Rightarrow> string" where
  "record_write_failed_message c proxyAddress transactionHash cause_text =
     ''A proxy was deployed and confirmed at '' @ printedAddress c proxyAddress @ '' (transaction '' @
      transactionHash @
      ''), and writing it into the deployment record failed. The proxy is live; nothing about '' @
      ''this refusal removes it. What is missing is only this plugin's record of it '' @ em_dash @ '' which '' @
      ''upgrades validate against, so leaving it unrecorded means the next upgradeProxy on this '' @
      ''address has no stored layout to check, and a re-run of deployProxy deploys a second proxy '' @
      ''beside this one.'' @ new_line @ new_line @
      ''Resolve the cause below, then record the existing proxy with '' @ ''forceImport('' @ quote_mark @
      printedAddress c proxyAddress @ quote_mark @ ''). Do not re-run the migration first.'' @ new_line @
      new_line @ ''Cause: '' @ cause_text"

section \<open>\<open>adopt/errors.ts\<close> and \<open>admin/errors.ts\<close>\<close>

definition nothing_to_adopt_message :: "string \<Rightarrow> string \<Rightarrow> bool \<Rightarrow> string" where
  "nothing_to_adopt_message address found reader =
     (if reader
      then ''Nothing usable at '' @ address @ '': found '' @ found @
          ''. Check the address and the network you are connected to.''
      else ''Nothing to import at '' @ address @ '': found '' @ found @
          ''. forceImport adopts a proxy, a beacon, or a deployed implementation '' @ em_dash @
          '' check the address '' @ ''and the network you are connected to.'')"

definition adoption_unverified_message :: "string \<Rightarrow> string \<Rightarrow> string" where
  "adoption_unverified_message address because =
     ''Refusing to import '' @ address @ '': '' @ because @ ''.''"

definition adoption_mismatch_message :: "string \<Rightarrow> string \<Rightarrow> string \<Rightarrow> string" where
  "adoption_mismatch_message address foundKind expectedKind =
     ''The contract at '' @ address @ '' is '' @ foundKind @ '' on-chain, but '' @ expectedKind @
      '' was expected. Recording it under the wrong kind would corrupt the upgrade baseline, so '' @
      ''nothing was recorded.''"

definition authority_transferred_message :: "string \<Rightarrow> string \<Rightarrow> string \<Rightarrow> string" where
  "authority_transferred_message proxyAddress currentHolder requestedOwner =
     ''The upgrade authority for proxy '' @ proxyAddress @ '' is held by '' @ currentHolder @
      '', not by the configured account '' @ em_dash @ '' a transfer to '' @ requestedOwner @
      '' cannot be performed from here. If an earlier run already transferred it, this is that '' @
      ''transfer's result; otherwise the holder has to perform the transfer.''"

definition authority_unverified_message :: "string \<Rightarrow> string \<Rightarrow> string \<Rightarrow> string" where
  "authority_unverified_message proxyAddress observed expected =
     ''The ownership transfer for proxy '' @ proxyAddress @ quote_mark @
      ''s admin confirmed, but owner() answers '' @ observed @ '' where '' @ expected @
      '' was expected. The authority's actual holder is unverified '' @ em_dash @
      '' investigate before relying '' @ ''on either account.''"

section \<open>What the texts tell apart\<close>

text \<open>
  Every list of causes below holds every value of its type, so a cause added to the model without a
  remedy of its own breaks the comparison.
\<close>

lemma every_cause_is_listed:
  "UNIV = set [AnchorNotAbsolute, ConfiguredValueRelative, ResolvedOutsideAnchor, SetTooLate]"
  "UNIV = set [UnrecognisedEncoding, Base58Checksum, WrongLength, WrongPrefixByte, PostConversionShape]"
  "UNIV = set [FpNotJson, FpNotAnObject, FpUnrecognisedSchema, FpChainIdUnusable, FpHashFieldUnusable,
     FpUnexpectedKeys, FpUnreadableFile]"
  "UNIV = set [ProxiesLive, ProxiesAbsent, NoProxies, DiagnosisIndeterminate]"
  "UNIV = set [NotJson, ContentsRefused]"
proof -
  show "UNIV = set [AnchorNotAbsolute, ConfiguredValueRelative, ResolvedOutsideAnchor, SetTooLate]"
    by (auto intro: location_cause.exhaust)
  show "UNIV = set [UnrecognisedEncoding, Base58Checksum, WrongLength, WrongPrefixByte, PostConversionShape]"
    by (auto intro: address_cause.exhaust)
  show "UNIV = set [FpNotJson, FpNotAnObject, FpUnrecognisedSchema, FpChainIdUnusable, FpHashFieldUnusable,
     FpUnexpectedKeys, FpUnreadableFile]"
    by (auto intro: fingerprint_cause.exhaust)
  show "UNIV = set [ProxiesLive, ProxiesAbsent, NoProxies, DiagnosisIndeterminate]"
    by (auto intro: refusal_diagnosis.exhaust)
  show "UNIV = set [NotJson, ContentsRefused]"
    by (auto intro: unreadable_cause.exhaust)
qed

lemma distinct_texts_inj: "distinct (map f xs) \<Longrightarrow> UNIV = set xs \<Longrightarrow> inj f"
  by (simp add: distinct_map)

lemma location_remedies_distinct:
  "distinct (map locationRemedies [AnchorNotAbsolute, ConfiguredValueRelative, ResolvedOutsideAnchor, SetTooLate])"
  by code_simp

lemma address_remedies_distinct:
  "distinct (map addressRemedies
     [UnrecognisedEncoding, Base58Checksum, WrongLength, WrongPrefixByte, PostConversionShape])"
  by code_simp

lemma fingerprint_remedies_distinct:
  "distinct (map fingerprintRemedies [FpNotJson, FpNotAnObject, FpUnrecognisedSchema, FpChainIdUnusable,
     FpHashFieldUnusable, FpUnexpectedKeys, FpUnreadableFile])"
  by code_simp

lemma fingerprint_dispositions_distinct:
  "distinct (map fingerprintDispositions [ProxiesLive, ProxiesAbsent, NoProxies, DiagnosisIndeterminate])"
  by code_simp

lemma unreadable_remedies_distinct:
  "distinct (map recordUnreadableRemedies [NotJson, ContentsRefused])"
  by code_simp

text \<open>
  The rule of the record layer's errors, which the code states of its four remedy tables and the
  table of dispositions: no two causes share a remedy, so the advice alone tells the user which
  situation they are in.
\<close>

theorem no_two_causes_share_a_remedy:
  "inj locationRemedies \<and> inj addressRemedies \<and> inj fingerprintRemedies \<and> inj fingerprintDispositions \<and>
   inj recordUnreadableRemedies"
  by (intro conjI; rule distinct_texts_inj [OF location_remedies_distinct every_cause_is_listed(1)]
      distinct_texts_inj [OF address_remedies_distinct every_cause_is_listed(2)]
      distinct_texts_inj [OF fingerprint_remedies_distinct every_cause_is_listed(3)]
      distinct_texts_inj [OF fingerprint_dispositions_distinct every_cause_is_listed(4)]
      distinct_texts_inj [OF unreadable_remedies_distinct every_cause_is_listed(5)])

lemma reconfigured_record_names_the_directories:
  "js_includes (if because = SetTooLate then resolvedFile else if because = ConfiguredValueRelative then MANIFEST_DIR_VAR
       else intendedDir) (renderLocationFailure because intendedDir resolvedFile configuredValue)"
proof -
  have "js_includes resolvedFile (renderLocationFailure SetTooLate intendedDir resolvedFile configuredValue)"
    "js_includes MANIFEST_DIR_VAR (renderLocationFailure ConfiguredValueRelative intendedDir resolvedFile configuredValue)"
    "js_includes intendedDir (renderLocationFailure AnchorNotAbsolute intendedDir resolvedFile configuredValue)"
    "js_includes intendedDir (renderLocationFailure ResolvedOutsideAnchor intendedDir resolvedFile configuredValue)"
    unfolding renderLocationFailure_def location_cause.case
    by (rule names_inside, ((rule names_here | rule names_later)+)[1])+
  then show ?thesis by (cases because) simp_all
qed

text \<open>
  The failure of the record write after a confirmed deployment shows the live proxy, its transaction, the
  call of \<open>forceImport\<close> that records it and, last, the cause in its own words.
\<close>

theorem failed_record_write_names_the_live_proxy:
  "list_all (\<lambda>x. js_includes x (record_write_failed_message c proxyAddress transactionHash cause_text))
     [printedAddress c proxyAddress, transactionHash,
      ''forceImport('' @ quote_mark @ printedAddress c proxyAddress @ quote_mark @ '')'', ''Cause: '' @ cause_text]"
proof -
  have call: "js_includes (''forceImport('' @ quote_mark @ printedAddress c proxyAddress @ quote_mark @ '')'')
     (''forceImport('' @ quote_mark @ printedAddress c proxyAddress @ quote_mark @ ''). Do not re-run the migration first.'' @ rest)"
    for rest
    using call_shown [of "[]" "printedAddress c proxyAddress" "''. Do not re-run the migration first.'' @ rest"] by simp
  show ?thesis
    unfolding record_write_failed_message_def list_all_iff list.set
    by (simp only: ball_simps simp_thms; intro conjI;
        (rule names_here | rule call | rule names_refl | rule names_later)+)
qed


section \<open>The record's file, as a refusal names it\<close>

text \<open>
  \<open>manifestPathFor\<close> of \<open>chain/instance.ts\<close>.  The number goes through a JavaScript double: \<open>number_text n\<close>
  is \<open>String\<close> of the double nearest to \<open>n\<close>, a parameter; up to 53 bits it is the decimal numeral.
\<close>

definition MANIFEST_DEFAULT_DIR :: string where "MANIFEST_DEFAULT_DIR = ''.openzeppelin''"

definition without_trailing_slashes :: "string \<Rightarrow> string" where
  "without_trailing_slashes s = rev (dropWhile (\<lambda>ch. ch = CHR ''/'') (rev s))"

definition manifest_dir :: "(string \<Rightarrow> string option) \<Rightarrow> string" where
  "manifest_dir env =
     without_trailing_slashes
       (case env MANIFEST_DIR_VAR of
          Some configured \<Rightarrow> if 0 < length configured then configured else MANIFEST_DEFAULT_DIR
        | None \<Rightarrow> MANIFEST_DEFAULT_DIR)"

definition manifestPathFor ::
  "(nat \<Rightarrow> string) \<Rightarrow> string \<Rightarrow> (string \<Rightarrow> string option) \<Rightarrow> chain_error + string" where
  "manifestPathFor number_text chainId env =
     (case requireResultShape ''eth_chainId'' (JStr chainId) of
        Inl e \<Rightarrow> Inl e
      | Inr validated \<Rightarrow>
          Inr (manifest_dir env @ ''/unknown-'' @ number_text (parse_hex (strip_hex_prefix validated)) @ ''.json''))"

definition decimal_value :: "string \<Rightarrow> nat" where
  "decimal_value s = fold (\<lambda>ch n. 10 * n + (of_char ch - 48)) s 0"

lemma decimal_digit_value: "of_char (decimal_digit n) - 48 = n mod 10"
proof -
  have "list_all (\<lambda>d. of_char (''0123456789'' ! d) - 48 = d) [0..<10]" by code_simp
  then show ?thesis by (simp add: decimal_digit_def list_all_iff)
qed

lemma decimal_value_decimal: "decimal_value (decimal n) = n"
proof (induction n rule: decimal.induct)
  case (1 n)
  have "decimal_value (decimal n) =
      (if n < 10 then n else 10 * decimal_value (decimal (n div 10)) + n mod 10)"
    by (subst decimal.simps) (simp add: decimal_value_def decimal_digit_value)
  then show ?case using 1 by simp
qed

lemma decimal_inj: "decimal m = decimal n \<longleftrightarrow> m = n"
  by (metis decimal_value_decimal)

lemma manifest_path_of_chain:
  "manifestPathFor t i env = Inr p \<longleftrightarrow>
     HEX_QUANTITY i \<and> 0 < parse_hex (drop 2 i) \<and>
     p = manifest_dir env @ ''/unknown-'' @ t (parse_hex (drop 2 i)) @ ''.json''"
  by (auto simp: manifestPathFor_def requireResultShape_def string_rule_chainId HEX_QUANTITY_def
      strip_hex_prefix_def)

text \<open>
  Two chains whose ids a double holds exactly never share the name of a record, and a chain id that is not a positive
  quantity names no record at all.
\<close>

lemma chains_have_records_of_their_own:
  assumes "\<And>n. n < 2 ^ 53 \<Longrightarrow> t n = decimal n" "parse_hex (drop 2 i) < 2 ^ 53" "parse_hex (drop 2 j) < 2 ^ 53"
    and "manifestPathFor t i env = Inr p" "manifestPathFor t j env = Inr p"
  shows "parse_hex (drop 2 i) = parse_hex (drop 2 j)"
  using assms by (simp add: manifest_path_of_chain decimal_inj)


end
