(* ===== verification/EnvironmentTexts.thy ===== *)
theory EnvironmentTexts
  imports ErrorTexts EnvSettle EnvArtifacts Options
begin

text \<open>
  The messages of \<open>environment/errors.ts\<close> and \<open>options/errors.ts\<close>, and the sentences the environment's
  readers hand to \<open>failInvariant\<close> and \<open>artifactFailure\<close>.  A sentence is written over the arguments of
  the model's constructor, so the value a reader refuses comes in as its type only, as in the code.
  \<open>JSON.stringify\<close>, \<open>String\<close> of a host value and the text of a number are parameters, and
  so is the range of TronBox versions that the package file declares.
\<close>

section \<open>Lists of texts\<close>

fun join_with :: "string \<Rightarrow> string list \<Rightarrow> string" where
  "join_with sep [] = []"
| "join_with sep [x] = x"
| "join_with sep (x # y # xs) = x @ sep @ join_with sep (y # xs)"

abbreviation lines_of :: "string list \<Rightarrow> string" where
  "lines_of \<equiv> join_with new_line"

abbreviation joined_and :: "string list \<Rightarrow> string" where
  "joined_and \<equiv> join_with '' and ''"

definition formatList :: "string list \<Rightarrow> string" where
  "formatList xs = (if xs = [] then ''none'' else joined xs)"

definition formatValue :: "(hval \<Rightarrow> string option) \<Rightarrow> (hval \<Rightarrow> string) \<Rightarrow> hval \<Rightarrow> string" where
  "formatValue stringify string_of v =
     (case v of
        VUndef \<Rightarrow> ''undefined''
      | VMinusZero \<Rightarrow> ''-0''
      | VNum (NInf _) \<Rightarrow> string_of v
      | VNum NNaN \<Rightarrow> string_of v
      | _ \<Rightarrow> (case stringify v of None \<Rightarrow> string_of v | Some t \<Rightarrow> t))"

section \<open>The sentence of a broken rule\<close>

definition path_not_string_text :: "string \<Rightarrow> string \<Rightarrow> string" where
  "path_not_string_text field observed =
     ''\"'' @ field @ ''\" must be an absolute path string, and is of type '' @ observed @ ''.''"

definition path_relative_text :: "string \<Rightarrow> string \<Rightarrow> string" where
  "path_relative_text field relative =
     ''\"'' @ field @ ''\" must be absolute; TronBox reported the relative value \"'' @ relative @
      ''\". The seam refuses a relative project anchor rather than resolving it against an ambient '' @
      ''working directory.''"

definition build_info_escapes_text :: "string \<Rightarrow> string \<Rightarrow> string" where
  "build_info_escapes_text directory root =
     ''\"build_info_directory\" ('' @ directory @ '') is outside the project root ('' @ root @
      ''). TronBox only permits \"contracts_build_directory\" to escape the project.''"

definition no_network_selected_text :: "string" where
  "no_network_selected_text =
     ''no network is selected. TronBox reports the selected network through a truthiness-guarded '' @
      ''getter, so a `network` configured as an empty string reads back as absent '' @ em_dash @ '' check the '' @
      ''`network` key in your TronBox config and the `--network` argument.''"

definition networks_not_object_text :: "string" where
  "networks_not_object_text =
     ''Config field \"networks\" must be an object mapping network names to their configuration.''"

definition network_unconfigured_text :: "string \<Rightarrow> string list \<Rightarrow> string" where
  "network_unconfigured_text name configured =
     ''the selected network \"'' @ name @ ''\" has no entry in \"networks\". Configured networks: '' @
      formatList configured @
      ''. TronBox's own getters would report a complete but fictional configuration for this '' @
      ''network rather than failing.''"

definition network_id_missing_text :: "string \<Rightarrow> string" where
  "network_id_missing_text name =
     ''the selected network \"'' @ name @ ''\" is configured without a \"network_id\". TronBox requires one '' @
      em_dash @ '' its own `Test.run` gate '' @ ''rejects a missing `network_id` '' @ em_dash @
      '' and the value keys the `networks` map of every saved '' @ ''artifact.''"

definition solc_absent_text :: "string" where
  "solc_absent_text =
     ''Config field \"solc\" is absent. TronBox refuses to compile a project whose \"solc\" is '' @ ''nullish '' @
      em_dash @ '' `expect.options` reports \"Expected parameter 'solc' not passed to function.\" '' @ em_dash @
      '' '' @ ''and a `solc` configured as any falsy value reads back this way, because the Config getter '' @
      ''is truthiness-guarded.''"

definition settings_not_cloneable_text :: "string \<Rightarrow> string" where
  "settings_not_cloneable_text field =
     ''Config field \"'' @ field @
      ''\" could not be copied out of the TronBox config: it holds a value that is not '' @
      ''structured-cloneable, such as a function or a symbol. TronBox serializes these settings '' @
      ''with `JSON.stringify`, which would silently drop such a value, so the plugin cannot '' @
      ''reproduce the compilation faithfully.''"

definition quiet_not_boolean_text :: "string \<Rightarrow> string" where
  "quiet_not_boolean_text observed =
     ''Config field \"quiet\" must be a boolean when present, and is of type '' @ observed @ ''.''"

definition slot_undiagnosed_text :: "string" where
  "slot_undiagnosed_text =
     ''the slot was neither constructed nor diagnosed, which is a bug in the environment seam '' @
      ''rather than a problem with the handles.''"

fun invariant_detail :: "invariant \<Rightarrow> string" where
  "invariant_detail (FieldNotString field observed) =
     (''Config field \"'' @ field @ ''\" must be a string, and is '' @ observed @ ''.'')"
| "invariant_detail (FieldEmpty field) =
     (''Config field \"'' @ field @ ''\" must not be empty.'')"
| "invariant_detail (FieldNotStringOrAbsent field observed) =
     (''Config field \"'' @ field @ ''\" must be a string or absent, and is '' @ observed @ ''.'')"
| "invariant_detail (FieldNotNumberOrAbsent field observed) =
     (''Config field \"'' @ field @ ''\" must be a number or absent, and is '' @ observed @ ''.'')"
| "invariant_detail (FieldNotObject field observed) =
     (''Config field \"'' @ field @ ''\" must be '' @ ''an object of solc settings'' @ '', and is '' @ observed @
      ''.'')"
| "invariant_detail (PathNotString field observed) = path_not_string_text field observed"
| "invariant_detail (PathRelative field relative) = path_relative_text field relative"
| "invariant_detail (BuildInfoEscapes directory root) = build_info_escapes_text directory root"
| "invariant_detail NoNetworkSelected = no_network_selected_text"
| "invariant_detail NetworksNotObject = networks_not_object_text"
| "invariant_detail (NetworkUnconfigured name configured) = network_unconfigured_text name configured"
| "invariant_detail (NetworkIdMissing name) = network_id_missing_text name"
| "invariant_detail SolcAbsent = solc_absent_text"
| "invariant_detail (SettingsNotCloneable field) = settings_not_cloneable_text field"
| "invariant_detail NoDeployerResolver =
     (''The deployer Config carries no resolver object, so the artifacts intercept cannot be '' @
      ''verified as wrapping it.'')"
| "invariant_detail (QuietNotBoolean observed) = quiet_not_boolean_text observed"
| "invariant_detail SlotNeitherBuiltNorDiagnosed = slot_undiagnosed_text"
| "invariant_detail (ArtifactRefused detail) =
     detail"

definition bareNameHint :: "string \<Rightarrow> string" where
  "bareNameHint name =
     (if list_ex (\<lambda>ch. ch = CHR ''/'' \<or> ch = CHR 0x5C) name
      then '' The name contains a path separator; TronBox's filesystem resolver returns nothing for '' @
          ''such a name unless it ends in \".json\". Use `resolvePackaged` for a JSON artifact inside '' @
          ''an installed package.''
      else [])"

definition name_not_string_text :: "string \<Rightarrow> string" where
  "name_not_string_text observed =
     ''a contract must be addressed by a string bare name, and the argument is of type '' @ observed @ ''.''"

definition name_unresolved_text :: "string \<Rightarrow> channel \<Rightarrow> string" where
  "name_unresolved_text name channel =
     ''contract \"'' @ name @ ''\" could not be resolved through the injected ResolverIntercept'' @
      (case channel of
        ChannelThrew \<Rightarrow> '': every resolver source reported no artifact.''
      | ChannelNullish \<Rightarrow> '': a resolver source returned no usable artifact object.'') @
      bareNameHint name"

definition no_source_path_text :: "string \<Rightarrow> string" where
  "no_source_path_text name =
     ''contract \"'' @ name @
      ''\" resolved to an abstraction carrying no source path, and no build-info entry names one '' @ ''either.''"

definition probe_failed_text :: "string \<Rightarrow> string \<Rightarrow> string" where
  "probe_failed_text p hp =
     ''packaged artifact \"'' @ p @ ''\" could not be loaded from \"'' @ hp @
      ''\", and the injected reader's existence probe for that path failed, so the seam cannot say '' @
      ''whether the file is missing or malformed.''"

definition packaged_missing_text :: "string \<Rightarrow> string \<Rightarrow> string" where
  "packaged_missing_text p hp =
     ''packaged artifact \"'' @ p @ ''\" does not exist at \"'' @ hp @
      ''\". Nothing is installed at the path TronBox resolves, so install or update the package '' @
      ''that provides the artifact.''"

definition packaged_malformed_text :: "string \<Rightarrow> string \<Rightarrow> string" where
  "packaged_malformed_text p hp =
     ''packaged artifact \"'' @ p @ ''\" exists at \"'' @ hp @
      ''\" but TronBox could not load it: the file is unreadable or is not valid JSON. Reinstall '' @
      ''the package that provides it, or check its permissions.''"

definition accessor_raised_text :: "string \<Rightarrow> string" where
  "accessor_raised_text path =
     ''reading \"'' @ path @
      ''\" off a resolved contract abstraction raised. TronBox stores the compiled artifact there '' @
      ''as a plain property, so a raising accessor means the abstraction is not one this TronBox '' @
      ''version produces, and the plugin cannot tell which artifact fields are present.''"

fun artifact_failure_detail :: "artifact_error \<Rightarrow> string" where
  "artifact_failure_detail (NameNotString observed) = name_not_string_text observed"
| "artifact_failure_detail (NameUnresolved name channel) = name_unresolved_text name channel"
| "artifact_failure_detail (NoSourcePath name) = no_source_path_text name"
| "artifact_failure_detail (PackagedNotString observed) =
     (''a packaged artifact must be addressed by a string path relative to node_modules, and the '' @
      ''argument is of type '' @ observed @ ''.'')"
| "artifact_failure_detail PackagedEmpty =
     (''a packaged artifact path must not be empty.'')"
| "artifact_failure_detail PackagedNul =
     (''a packaged artifact path must not contain a NUL byte.'')"
| "artifact_failure_detail (PackagedEscapes p) =
     (''packaged artifact path \"'' @ p @
      ''\" must stay within an installed package under node_modules: it must be relative, must not '' @
      ''begin with \"./\", and must not escape upwards.'')"
| "artifact_failure_detail (PackagedNotJson p) =
     (''packaged artifact path \"'' @ p @ ''\" must name a JSON artifact.'')"
| "artifact_failure_detail (PackagedProbeFailed p hp) = probe_failed_text p hp"
| "artifact_failure_detail (PackagedMissing p hp) = packaged_missing_text p hp"
| "artifact_failure_detail (PackagedMalformed p hp) = packaged_malformed_text p hp"
| "artifact_failure_detail (RecordAccessorRaised path) = accessor_raised_text path"

section \<open>\<open>environment/errors.ts\<close>\<close>

fun slot_text :: "slot \<Rightarrow> string" where
  "slot_text SlotPaths = ''paths''"
| "slot_text SlotNetwork = ''network''"
| "slot_text SlotArtifacts = ''artifacts''"
| "slot_text SlotChain = ''chain''"
| "slot_text SlotReceipts = ''receipts''"
| "slot_text SlotScheduling = ''scheduling''"
| "slot_text SlotOutput = ''output''"
| "slot_text SlotCompiler = ''compiler''"

fun context_text :: "context_name \<Rightarrow> string" where
  "context_text CtxMigrate = ''tronbox migrate''"
| "context_text CtxTestMigration = ''tronbox test migration phase''"
| "context_text CtxTestMocha = ''tronbox test mocha files''"
| "context_text CtxConsole = ''tronbox console''"
| "context_text CtxPlainNode = ''plain node''"

definition unsatisfied_context :: "unsatisfied \<Rightarrow> string" where
  "unsatisfied_context u =
     ''provided in '' @ formatList (map context_text (us_providedIn u)) @ ''; absent in '' @
      formatList (map context_text (us_absentIn u))"

definition renderUnsatisfiedSlot :: "unsatisfied \<Rightarrow> string" where
  "renderUnsatisfiedSlot u =
     (case us_cause u of
        CauseMissing n \<Rightarrow>
          ''slot \"'' @ slot_text (us_slot u) @ ''\" needs one of ['' @
          formatList (map handle_text (sr_handles (slotRequirements (us_slot u)))) @ '']; handle \"'' @ handle_text n @
          ''\" was not supplied ('' @ unsatisfied_context u @ '')''
      | CauseMalformed n expectedPath because \<Rightarrow>
          ''slot \"'' @ slot_text (us_slot u) @ ''\" received a malformed handle \"'' @ handle_text n @
          ''\": property path \"'' @ expectedPath @ ''\" '' @
          (case because of BecauseThrew \<Rightarrow> ''threw when read'' | BecauseMissing \<Rightarrow> ''is absent'') @
          '' ('' @ unsatisfied_context u @ '')''
      | CauseInvariant i \<Rightarrow>
          ''slot \"'' @ slot_text (us_slot u) @ ''\" violates an environment invariant: '' @ invariant_detail i @
          '' ('' @ unsatisfied_context u @ '')'')"

fun renderInconsistency :: "(hval \<Rightarrow> string) \<Rightarrow> inconsistency \<Rightarrow> string" where
  "renderInconsistency fv (FieldDisagrees field viaDeployer viaArtifacts) =
     (''Config field \"'' @ field @ ''\" disagrees between the two lineages: via deployer='' @ fv viaDeployer @
      '', via artifacts='' @ fv viaArtifacts)"
| "renderInconsistency fv ArtifactsNotWrappingResolver =
     (''the supplied \"artifacts\" intercept does not wrap the resolver owned by the supplied '' @
      ''deployer's Config, so configuration and artifact write-back would come from different '' @ ''migrations'')"
| "renderInconsistency fv ChainHandleConflict =
     (''the supplied \"tronWrap\" and \"tronWeb\" handles are different objects; TronBox injects them '' @
      ''as two names for one object'')"
| "renderInconsistency fv CompilerSettingsConflict =
     (''the two Config lineages resolved solc settings to different objects, so the compiler '' @
      ''settings a validation would reproduce depend on which handle it was reached through. The '' @
      ''settings' own values are not shown here: only allow-listed scalars are ever rendered, and '' @
      ''\"compiler.settingsSource\" already names the config key they came from'')"

definition environment_absent_message :: "slot list \<Rightarrow> string" where
  "environment_absent_message requested =
     ''The plugin was invoked outside a TronBox migration context: none of the handles bearing '' @
      ''on the requested slots ['' @ formatList (map slot_text requested) @ ''] was supplied.''"

definition environment_incomplete_message :: "string \<Rightarrow> unsatisfied list \<Rightarrow> string" where
  "environment_incomplete_message declaredTronBoxRange us =
     ''The TronBox environment is incomplete:'' @ new_line @
      lines_of (map (\<lambda>u. ''- '' @ renderUnsatisfiedSlot u) us) @ new_line @
      ''Declared TronBox peer range: '' @ declaredTronBoxRange @ ''.''"

definition environment_inconsistent_message :: "(hval \<Rightarrow> string) \<Rightarrow> inconsistency list \<Rightarrow> string" where
  "environment_inconsistent_message fv inconsistencies =
     ''The TronBox environment is internally inconsistent:'' @ new_line @
      lines_of (map (\<lambda>i. ''- '' @ renderInconsistency fv i) inconsistencies)"

definition candidate_line :: "candidate \<Rightarrow> string" where
  "candidate_line ca =
     ''- '' @ ca_sourcePath ca @ '':'' @ ca_contractName ca @ '' (from build info '' @ ca_buildInfoFile ca @ '')''"

definition artifact_ambiguous_message :: "string \<Rightarrow> candidate list \<Rightarrow> string" where
  "artifact_ambiguous_message contractName candidates =
     ''Artifact name \"'' @ contractName @ ''\" is ambiguous across '' @ decimal (length candidates) @
      '' candidates:'' @ new_line @ lines_of (map candidate_line candidates) @ new_line @
      ''Rename one of the contracts so the name is unique, or delete the build directory and run '' @
      ''`tronbox compile --all` if a listed source file no longer exists in the project.''"

section \<open>\<open>options/errors.ts\<close>\<close>

definition RECEIVED_MAX_CHARS :: nat where "RECEIVED_MAX_CHARS = 120"

definition truncate_text :: "string \<Rightarrow> string" where
  "truncate_text t =
     (if length t \<le> RECEIVED_MAX_CHARS then t
      else take RECEIVED_MAX_CHARS t @ ellipsis @ '' ('' @ decimal (length t) @ '' characters total)'')"

definition int_text :: "int \<Rightarrow> string" where
  "int_text i = (if i < 0 then ''-'' @ decimal (nat (- i)) else decimal (nat i))"

definition renderReceived :: "(js \<Rightarrow> string) \<Rightarrow> (jsnum \<Rightarrow> string) \<Rightarrow> js \<Rightarrow> string" where
  "renderReceived stringify numtext v =
     (case v of
        JStr _ \<Rightarrow> truncate_text (stringify v)
      | JNum n \<Rightarrow> numtext n
      | JBig i \<Rightarrow> int_text i @ ''n''
      | JBool b \<Rightarrow> if b then ''true'' else ''false''
      | JUndef \<Rightarrow> ''undefined''
      | JFun \<Rightarrow> ''a function''
      | JNull \<Rightarrow> ''null''
      | JArr xs \<Rightarrow> ''an array of '' @ decimal (length xs) @ '' element(s)''
      | JObj _ \<Rightarrow> ''an object'')"

fun formatAccepted :: "accepted_set \<Rightarrow> string" where
  "formatAccepted (AcceptedText t) = t"
| "formatAccepted (AcceptedSet xs) = joined xs"

definition option_value_message :: "(js \<Rightarrow> string) \<Rightarrow> (jsnum \<Rightarrow> string) \<Rightarrow> string \<Rightarrow> js \<Rightarrow> accepted_set \<Rightarrow> string option \<Rightarrow> string" where
  "option_value_message stringify numtext option received acceptable operation =
     ''Invalid option: '' @ option @
      (case operation of None \<Rightarrow> [] | Some op \<Rightarrow> '' (for '' @ op @ '')'') @ '' was '' @
      renderReceived stringify numtext received @ ''. Accepted: '' @ formatAccepted acceptable @
      ''. The value is refused rather than coerced, because a silently reinterpreted option is a '' @
      ''safety change no output would surface.''"

definition unknown_option_message :: "string list \<Rightarrow> string list \<Rightarrow> string" where
  "unknown_option_message unknownKeys acceptable =
     ''Invalid options: '' @ joined unknownKeys @ ''. This operation accepts: '' @ joined acceptable @
      ''. Unknown keys are refused rather than ignored, because a mistyped option name is '' @
      ''indistinguishable from an option that was never set.''"

definition option_conflict_message :: "string list \<Rightarrow> string \<Rightarrow> string \<Rightarrow> string" where
  "option_conflict_message options because instead =
     ''Conflicting options: '' @ joined_and options @ ''. '' @ because @ '' '' @ instead"

definition option_unsupported_message :: "string \<Rightarrow> string \<Rightarrow> string \<Rightarrow> string" where
  "option_unsupported_message option because instead =
     ''Option \"'' @ option @ ''\" is not supported on TRON. '' @ because @ '' '' @ instead"

section \<open>What a message shows\<close>

lemma joined_member: "x \<in> set xs \<Longrightarrow> js_includes x (join_with sep xs)"
proof (induction sep xs rule: join_with.induct)
  case (3 sep x y xs)
  then show ?case by (auto intro: names_here names_later)
qed (auto intro: names_refl)

lemma line_shown: "x \<in> set xs \<Longrightarrow> js_includes (f x) (join_with sep (map (\<lambda>x. p @ f x) xs))"
  by (rule includes_trans [OF names_later [OF names_refl] joined_member]) auto

lemma slot_shown: "js_includes (slot_text (us_slot u)) (renderUnsatisfiedSlot u)"
proof (cases "us_cause u")
  case (CauseMissing n)
  then show ?thesis by (simp only: renderUnsatisfiedSlot_def slot_cause.case) (rule names_here | rule names_later)+
next
  case (CauseMalformed n p b)
  then show ?thesis by (simp only: renderUnsatisfiedSlot_def slot_cause.case) (rule names_here | rule names_later)+
next
  case (CauseInvariant i)
  then show ?thesis by (simp only: renderUnsatisfiedSlot_def slot_cause.case) (rule names_here | rule names_later)+
qed

lemma cause_shown:
  "js_includes (case us_cause u of CauseMissing n \<Rightarrow> handle_text n | CauseMalformed n p b \<Rightarrow> p | CauseInvariant i \<Rightarrow> invariant_detail i)
     (renderUnsatisfiedSlot u)"
proof (cases "us_cause u")
  case (CauseMissing n)
  then show ?thesis by (simp only: renderUnsatisfiedSlot_def slot_cause.case) (rule names_here | rule names_later)+
next
  case (CauseMalformed n p b)
  then show ?thesis by (simp only: renderUnsatisfiedSlot_def slot_cause.case) (rule names_here | rule names_later)+
next
  case (CauseInvariant i)
  then show ?thesis by (simp only: renderUnsatisfiedSlot_def slot_cause.case) (rule names_here | rule names_later)+
qed

text \<open>
  A refused environment hides none of its gaps: the message has, for every slot that could not be built,
  the slot's name and what was wrong with it, and the range of versions the plugin declares.
\<close>

theorem incomplete_environment_names_every_gap:
  "list_all (\<lambda>u. js_includes (slot_text (us_slot u)) (environment_incomplete_message range_text us) \<and>
       js_includes (case us_cause u of CauseMissing n \<Rightarrow> handle_text n | CauseMalformed n p b \<Rightarrow> p | CauseInvariant i \<Rightarrow> invariant_detail i)
         (environment_incomplete_message range_text us)) us \<and>
   js_includes range_text (environment_incomplete_message range_text us)"
proof -
  have line: "js_includes (renderUnsatisfiedSlot u) (environment_incomplete_message range_text us)" if "u \<in> set us" for u
    unfolding environment_incomplete_message_def
    by (rule names_later, rule names_later, rule names_inside, rule line_shown, rule that)
  have "js_includes range_text (environment_incomplete_message range_text us)"
    unfolding environment_incomplete_message_def by (rule names_here | rule names_later)+
  then show ?thesis
    using includes_trans [OF slot_shown line] includes_trans [OF cause_shown line] by (auto simp: list_all_iff)
qed

theorem ambiguous_name_lists_every_candidate:
  "list_all (\<lambda>ca. js_includes (candidate_line ca) (artifact_ambiguous_message n cs)) cs \<and>
   js_includes n (artifact_ambiguous_message n cs)"
proof -
  have "js_includes (candidate_line ca) (artifact_ambiguous_message n cs)" if "ca \<in> set cs" for ca
    unfolding artifact_ambiguous_message_def
    by (rule names_later, rule names_later, rule names_later, rule names_later, rule names_later,
        rule names_later, rule names_inside, rule joined_member) (simp add: that)
  moreover have "js_includes n (artifact_ambiguous_message n cs)"
    unfolding artifact_ambiguous_message_def by (rule names_here | rule names_later)+
  ultimately show ?thesis by (auto simp: list_all_iff)
qed

text \<open>A rendered value never runs on: the longest part is a cut text with the number of its characters.\<close>

lemma length_truncate: "length (truncate_text t) \<le> 145 + length (decimal (length t))"
  by (auto simp: truncate_text_def RECEIVED_MAX_CHARS_def ellipsis_def)

text \<open>
  What a reader refuses is described by its type: two host values of one description are refused with
  the same sentence, so no value of a configuration shows in a message.
\<close>

lemma refused_values_stay_private:
  assumes "describe_value h v = describe_value h w" "type_name h v = type_name h w"
    and "requireString h v field s = (Inl e, t)" "requireString h w field s = (Inl e', t')"
  shows "e = e' \<and> t = t'"
  using assms by (cases v; cases w) (auto simp: requireString_def failInvariant_def throw_io_def return_io_def)


end
