(* ===== verification/HostSharing.thy ===== *)
theory HostSharing
  imports EnvHost
begin

text \<open>
  \<open>host-sharing.ts\<close>, \<open>results/augmentation.ts\<close> and \<open>sealSlot\<close> of \<open>environment/handles.ts\<close>: the plugin defines
  members only on objects the host does not hold, and a sealed slot never serialises a host handle.

  Objects are property lists with the attributes of JavaScript, in a store by address.
  \<open>define_property\<close> is \<open>Object.defineProperty\<close>, which validates a descriptor against what is there.
\<close>

section \<open>Objects with property attributes\<close>

text \<open>What a property of a slot holds; \<open>SvReturns\<close> is a function that returns one frozen object.\<close>

datatype slot_value = SvHost hval | SvRedacted | SvReturns "(string \<times> slot_value) list"

datatype prop_body = DataBody slot_value bool | GetterBody nat

record prop_slot =
  pr_body :: prop_body
  pr_enumerable :: bool
  pr_configurable :: bool

record js_object =
  jo_props :: "(string \<times> prop_slot) list"
  jo_extensible :: bool

record descriptor =
  ds_value :: "slot_value option"
  ds_writable :: "bool option"
  ds_get :: "nat option"
  ds_enumerable :: "bool option"
  ds_configurable :: "bool option"

definition given :: "'a option \<Rightarrow> 'a \<Rightarrow> 'a" where
  "given v d = (case v of None \<Rightarrow> d | Some x \<Rightarrow> x)"

definition new_body :: "descriptor \<Rightarrow> prop_body" where
  "new_body d =
     (case ds_get d of
        Some g \<Rightarrow> GetterBody g
      | None \<Rightarrow> DataBody (given (ds_value d) (SvHost VUndef)) (given (ds_writable d) False))"

definition is_accessor :: "descriptor \<Rightarrow> bool" where
  "is_accessor d \<longleftrightarrow> ds_get d \<noteq> None"

definition is_generic :: "descriptor \<Rightarrow> bool" where
  "is_generic d \<longleftrightarrow> ds_get d = None \<and> ds_value d = None \<and> ds_writable d = None"

text \<open>What a descriptor makes of the body that is there.\<close>

definition next_body :: "descriptor \<Rightarrow> prop_body \<Rightarrow> prop_body" where
  "next_body d b =
     (if is_generic d then b
      else case b of
        DataBody v w \<Rightarrow> if is_accessor d then new_body d else DataBody (given (ds_value d) v) (given (ds_writable d) w)
      | GetterBody g \<Rightarrow> new_body d)"

text \<open>A property that is not configurable admits only what changes nothing, or stops a write.\<close>

definition admits :: "prop_slot \<Rightarrow> descriptor \<Rightarrow> bool" where
  "admits p d \<longleftrightarrow>
     pr_configurable p \<or>
     (ds_configurable d \<noteq> Some True \<and> given (ds_enumerable d) (pr_enumerable p) = pr_enumerable p \<and>
      (case pr_body p of
         GetterBody g \<Rightarrow> is_generic d \<or> ds_get d = Some g
       | DataBody v True \<Rightarrow> \<not> is_accessor d
       | DataBody v False \<Rightarrow> \<not> is_accessor d \<and> ds_writable d \<noteq> Some True \<and> given (ds_value d) v = v))"

definition put_prop :: "(string \<times> prop_slot) list \<Rightarrow> string \<Rightarrow> prop_slot \<Rightarrow> (string \<times> prop_slot) list" where
  "put_prop ps k p =
     (if map_of ps k = None then ps @ [(k, p)] else map (\<lambda>(j, q). (j, if j = k then p else q)) ps)"

definition define_property :: "js_object \<Rightarrow> string \<Rightarrow> descriptor \<Rightarrow> js_object option" where
  "define_property x k d =
     (case map_of (jo_props x) k of
        None \<Rightarrow>
          if \<not> jo_extensible x then None
          else Some (x\<lparr>jo_props := put_prop (jo_props x) k
                 \<lparr>pr_body = new_body d, pr_enumerable = given (ds_enumerable d) False,
                  pr_configurable = given (ds_configurable d) False\<rparr>\<rparr>)
      | Some p \<Rightarrow>
          if \<not> admits p d then None
          else Some (x\<lparr>jo_props := put_prop (jo_props x) k
                 \<lparr>pr_body = next_body d (pr_body p), pr_enumerable = given (ds_enumerable d) (pr_enumerable p),
                  pr_configurable = given (ds_configurable d) (pr_configurable p)\<rparr>\<rparr>))"

fun fixed_body :: "prop_body \<Rightarrow> prop_body" where
  "fixed_body (DataBody v w) = DataBody v False"
| "fixed_body (GetterBody g) = GetterBody g"

definition freeze :: "js_object \<Rightarrow> js_object" where
  "freeze x =
     x\<lparr>jo_props := map (\<lambda>(k, p). (k, p\<lparr>pr_body := fixed_body (pr_body p), pr_configurable := False\<rparr>)) (jo_props x),
       jo_extensible := False\<rparr>"

section \<open>The guard\<close>

record sharing_guard =
  gd_evidence :: string
  gd_shared :: "nat list"

fun object_address :: "hval \<Rightarrow> nat option" where
  "object_address (VObj a) = Some a"
| "object_address _ = None"

definition hostSharingGuard :: "string \<Rightarrow> hval list \<Rightarrow> sharing_guard" where
  "hostSharingGuard evidence hostObjects =
     \<lparr>gd_evidence = evidence, gd_shared = List.map_filter object_address hostObjects\<rparr>"

definition isHostShared :: "sharing_guard \<Rightarrow> nat \<Rightarrow> bool" where
  "isHostShared g target \<longleftrightarrow> target \<in> set (gd_shared g)"

datatype sharing_error = HostInstanceShared string string | PropertyRefused

type_synonym store = "nat \<Rightarrow> js_object"

text \<open>\<open>{enumerable: false, configurable: false, ...descriptor}\<close>\<close>

definition hidden_by_default :: "descriptor \<Rightarrow> descriptor" where
  "hidden_by_default d =
     d\<lparr>ds_enumerable := Some (given (ds_enumerable d) False), ds_configurable := Some (given (ds_configurable d) False)\<rparr>"

definition define_on :: "store \<Rightarrow> nat \<Rightarrow> string \<Rightarrow> descriptor \<Rightarrow> sharing_error + store" where
  "define_on st a k d =
     (case define_property (st a) k d of None \<Rightarrow> Inl PropertyRefused | Some x \<Rightarrow> Inr (st(a := x)))"

definition installGuarded :: "sharing_guard \<Rightarrow> nat \<Rightarrow> string \<Rightarrow> descriptor \<Rightarrow> store \<Rightarrow> sharing_error + store" where
  "installGuarded guard target member1 d st =
     (if isHostShared guard target then Inl (HostInstanceShared member1 (gd_evidence guard))
      else define_on st target member1 (hidden_by_default d))"

section \<open>Sealing a slot\<close>

text \<open>\<open>Object.entries\<close> reads every enumerable property; \<open>answers\<close> is what the getters return.\<close>

definition entries :: "(nat \<Rightarrow> slot_value) \<Rightarrow> js_object \<Rightarrow> (string \<times> slot_value) list" where
  "entries answers x =
     map (\<lambda>(k, p). (k, case pr_body p of DataBody v _ \<Rightarrow> v | GetterBody g \<Rightarrow> answers g))
       (filter (\<lambda>(k, p). pr_enumerable p) (jo_props x))"

definition redact :: "string list \<Rightarrow> (string \<times> slot_value) list \<Rightarrow> (string \<times> slot_value) list" where
  "redact handleKeys es = map (\<lambda>(k, v). (k, if k \<in> set handleKeys then SvRedacted else v)) es"

definition toJSON_descriptor :: "(string \<times> slot_value) list \<Rightarrow> descriptor" where
  "toJSON_descriptor redacted =
     \<lparr>ds_value = Some (SvReturns redacted), ds_writable = Some False, ds_get = None,
      ds_enumerable = Some False, ds_configurable = Some False\<rparr>"

definition sealSlot ::
  "(nat \<Rightarrow> slot_value) \<Rightarrow> sharing_guard \<Rightarrow> string list \<Rightarrow> nat \<Rightarrow> store \<Rightarrow> sharing_error + store" where
  "sealSlot answers guard handleKeys slot1 st =
     (if isHostShared guard slot1 then Inl (HostInstanceShared ''toJSON'' (gd_evidence guard))
      else case define_on st slot1 ''toJSON'' (toJSON_descriptor (redact handleKeys (entries answers (st slot1)))) of
        Inl e \<Rightarrow> Inl e
      | Inr t \<Rightarrow> Inr (t(slot1 := freeze (t slot1))))"

section \<open>What the policy guarantees\<close>

text \<open>What \<open>JSON.stringify\<close> sees of an object: what its own \<open>toJSON\<close> returns.\<close>

definition serialised :: "js_object \<Rightarrow> (string \<times> slot_value) list option" where
  "serialised x =
     (case map_of (jo_props x) ''toJSON'' of
        Some p \<Rightarrow> (case pr_body p of DataBody (SvReturns r) _ \<Rightarrow> Some r | _ \<Rightarrow> None)
      | None \<Rightarrow> None)"

definition frozen :: "js_object \<Rightarrow> bool" where
  "frozen x \<longleftrightarrow> \<not> jo_extensible x \<and>
     list_all (\<lambda>(k, p). \<not> pr_configurable p \<and> (case pr_body p of DataBody v w \<Rightarrow> \<not> w | GetterBody g \<Rightarrow> True)) (jo_props x)"

lemma map_of_put_slot: "map_of (put_prop ps k p) k = Some p"
proof (cases "map_of ps k")
  case (Some q)
  have "map_of ps k \<noteq> None \<Longrightarrow> map_of (map (\<lambda>(j, q). (j, if j = k then p else q)) ps) k = Some p" for ps
    by (induction ps) auto
  then show ?thesis using Some by (simp add: put_prop_def)
qed (simp add: put_prop_def map_add_def)

lemma frozen_freeze: "frozen (freeze x)"
  by (auto simp: frozen_def freeze_def list_all_iff split: prop_body.split elim: fixed_body.elims)

lemma freeze_keeps:
  "map_of (jo_props (freeze x)) k =
     map_option (\<lambda>p. p\<lparr>pr_body := fixed_body (pr_body p), pr_configurable := False\<rparr>) (map_of (jo_props x) k)"
  unfolding freeze_def by (simp add: map_of_map [unfolded comp_def] comp_def)

lemma define_property_body:
  assumes "define_property x k d = Some y" and "ds_value d = Some v" and "ds_writable d = Some w" and "ds_get d = None"
  shows "\<exists>p. map_of (jo_props y) k = Some p \<and> pr_body p = DataBody v w"
  using assms
  by (auto simp: define_property_def map_of_put_slot new_body_def next_body_def is_generic_def is_accessor_def given_def
      split: option.splits if_splits prop_body.splits)

text \<open>
  A sealed slot never serialises a host handle, and sealing never touches what the host holds.  A shared
  object is refused by name before anything is written.  Otherwise only the slot itself changes: it
  is frozen, and what it serialises to has its own enumerable members in their order, each handle
  replaced by the redaction and every other member as it was.
\<close>

theorem sealed_slots_never_serialise_a_handle:
  "case sealSlot answers guard handleKeys slot1 st of
     Inl e \<Rightarrow> if isHostShared guard slot1 then e = HostInstanceShared ''toJSON'' (gd_evidence guard) else e = PropertyRefused
   | Inr t \<Rightarrow> \<not> isHostShared guard slot1 \<and> t = st(slot1 := t slot1) \<and> frozen (t slot1) \<and>
       (case serialised (t slot1) of
          None \<Rightarrow> False
        | Some r \<Rightarrow> map fst r = map fst (entries answers (st slot1)) \<and>
            list_all2 (\<lambda>(k, v) (_, old). v = (if k \<in> set handleKeys then SvRedacted else old)) r (entries answers (st slot1)))"
proof (cases "sealSlot answers guard handleKeys slot1 st")
  case (Inl e)
  then show ?thesis by (auto simp: sealSlot_def define_on_def split: if_splits option.splits)
next
  case (Inr t)
  let ?es = "entries answers (st slot1)"
  obtain y where y: "define_property (st slot1) ''toJSON'' (toJSON_descriptor (redact handleKeys ?es)) = Some y"
    and t: "t = st(slot1 := freeze y)" and free: "\<not> isHostShared guard slot1"
    using Inr by (auto simp: sealSlot_def define_on_def split: if_splits option.splits)
  obtain p where p: "map_of (jo_props y) ''toJSON'' = Some p" "pr_body p = DataBody (SvReturns (redact handleKeys ?es)) False"
    using define_property_body [OF y] by (auto simp: toJSON_descriptor_def)
  have "serialised (t slot1) = Some (redact handleKeys ?es)"
    using p t by (simp add: serialised_def freeze_keeps)
  moreover have "map fst (redact handleKeys ?es) = map fst ?es"
    by (simp add: redact_def case_prod_unfold comp_def)
  moreover have "list_all2 (\<lambda>(k, v) (_, old). v = (if k \<in> set handleKeys then SvRedacted else old)) (redact handleKeys ?es) ?es"
    by (simp add: redact_def list_all2_map1 list.rel_refl_strong case_prod_unfold)
  ultimately show ?thesis using Inr t free frozen_freeze by simp
qed

text \<open>
  Guarded installation is the only write, and it is refused on a shared object: the store is as it was
  but for the target, the installed member is there with what the descriptor says, and it is hidden
  from enumeration unless the descriptor asks for it.
\<close>

theorem installation_spares_shared_objects:
  "case installGuarded guard target member1 d st of
     Inl e \<Rightarrow> if isHostShared guard target then e = HostInstanceShared member1 (gd_evidence guard) else e = PropertyRefused
   | Inr t \<Rightarrow> \<not> isHostShared guard target \<and> t = st(target := t target) \<and>
       (case map_of (jo_props (t target)) member1 of
          None \<Rightarrow> False
        | Some p \<Rightarrow> pr_enumerable p = given (ds_enumerable d) False \<and> pr_configurable p = given (ds_configurable d) False)"
proof (cases "isHostShared guard target")
  case False
  show ?thesis
  proof (cases "define_property (st target) member1 (hidden_by_default d)")
    case (Some y)
    then have "\<exists>p. map_of (jo_props y) member1 = Some p \<and>
        pr_enumerable p = given (ds_enumerable d) False \<and> pr_configurable p = given (ds_configurable d) False"
      by (auto simp: define_property_def map_of_put_slot hidden_by_default_def given_def split: option.splits if_splits)
    then show ?thesis using Some False by (auto simp: installGuarded_def define_on_def)
  qed (simp add: installGuarded_def define_on_def False)
qed (simp add: installGuarded_def)

end
