(* ===== verification/HardhatUtils.thy ===== *)
theory HardhatUtils
  imports InputLayout
begin

text \<open>
  The pure helpers of the Hardhat plugin (\<open>packages/hardhat-tron-upgrades/src/utils\<close> and
  \<open>config.ts\<close>): options, initializer data, addresses in their three encodings, the slot
  collision scan over namespaces, and the compiler settings.

  \<open>ethers\<close> and \<open>tronWeb\<close> functions are parameters.  An \<open>Error\<close> of the plugin is a
  constructor with what its message names; what other code raises is \<open>HostRaised\<close>.
\<close>

section \<open>Values and errors\<close>

fun js_truthy :: "js \<Rightarrow> bool" where
  "js_truthy JUndef = False"
| "js_truthy JNull = False"
| "js_truthy (JBool b) = b"
| "js_truthy (JNum n) = (n \<noteq> NInt 0 \<and> n \<noteq> NNaN)"
| "js_truthy (JBig i) = (i \<noteq> 0)"
| "js_truthy (JStr s) = (s \<noteq> [])"
| "js_truthy _ = True"

text \<open>\<open>v ?? d\<close>\<close>

definition or_nullish :: "js \<Rightarrow> js \<Rightarrow> js" where
  "or_nullish v d = (if is_nullish v then d else v)"

text \<open>\<open>v[k] = x\<close> on an object: the place of an own key is kept, a new key comes last.\<close>

fun put_prop :: "string \<Rightarrow> js \<Rightarrow> (string \<times> js) list \<Rightarrow> (string \<times> js) list" where
  "put_prop k x [] = [(k, x)]"
| "put_prop k x ((l, y) # ps) = (if l = k then (k, x) # ps else (l, y) # put_prop k x ps)"

fun set_prop :: "js \<Rightarrow> string \<Rightarrow> js \<Rightarrow> js" where
  "set_prop (JObj ps) k x = JObj (put_prop k x ps)"
| "set_prop v k x = v"

record namespace_decl =
  nd_location :: string
  nd_contract :: js
  nd_struct :: js

datatype hardhat_error =
    NativeHexPrefix string
  | AddressInvalid string
  | Base58Unconfirmable string
  | KindNotSupported js
  | OverridesUnsupported "string list"
  | InitializerMissing js
  | NamespaceCollision namespace_decl namespace_decl
  | SettingRefused js
  | TypeErrorThrown
  | HostRaised js
  | BuildInfoMissing string
  | NotUpgradeSafe string
  | StorageIncompatible string
  | LegacyRecord
  | OptionsConflict
  | ImplementationNotDeployed string
  | OwnerNotSupported
  | UninitializedRefused string bool
  | OwnerIsProxyAdmin string
  | BeaconProxyRefused string string
  | NoAdmin string
  | ArtifactMissing string
  | ArtifactAmbiguous "string list"
  | UpgradeUnverified string string
  | NotABeacon string
  | BeaconKindRefused js
  | KindRequired string
  | ValidateKindRequired
  | NoContract string
  | OwnerUnverified string string
  | NamespacedCompile string "js list"

section \<open>Options\<close>

definition KINDS :: "string list" where
  "KINDS = [''transparent'', ''uups'']"

definition checkKind :: "js \<Rightarrow> hardhat_error + string" where
  "checkKind kind = (case kind of JStr k \<Rightarrow> if k \<in> set KINDS then Inr k else Inl (KindNotSupported kind) | _ \<Rightarrow> Inl (KindNotSupported kind))"

definition txOverridesOf :: "js \<Rightarrow> hardhat_error + js option" where
  "txOverridesOf overrides =
     (if \<not> js_truthy overrides then Inr None
      else
        (let unsupported = filter (\<lambda>k. k \<notin> {''value'', ''gasLimit''}) (own_keys overrides)
         in if unsupported \<noteq> [] then Inl (OverridesUnsupported (sort_by compare_units unsupported))
            else Inr (if own_keys overrides = [] then None else Some overrides)))"

text \<open>The words an optional probe may fail with, in either case.\<close>

definition revert_words :: "string list" where
  "revert_words =
     [''revert'', ''invalid opcode'', ''execution error'', ''function selector was not recognized'',
      ''smart contract is not exist'']"

definition isOptionalCallRevert :: "js \<Rightarrow> bool" where
  "isOptionalCallRevert error =
     (case own_prop error ''message'' of
        JStr m \<Rightarrow> list_ex (\<lambda>w. js_includes w (lower m)) revert_words
      | _ \<Rightarrow> False)"

text \<open>\<open>fragment_of\<close> is \<open>iface.getFunction\<close>, none where it raises or finds nothing.\<close>

definition getInitializerData ::
  "(js \<Rightarrow> js option) \<Rightarrow> (js \<Rightarrow> js list \<Rightarrow> js + string) \<Rightarrow> js list \<Rightarrow> js \<Rightarrow> hardhat_error + string" where
  "getInitializerData fragment_of encode args initializer =
     (if initializer = JBool False then Inr ''0x''
      else
        (let name = or_nullish initializer (JStr ''initialize'')
         in case fragment_of name of
              None \<Rightarrow> if initializer = JUndef \<and> args = [] then Inr ''0x'' else Inl (InitializerMissing name)
            | Some fragment \<Rightarrow> map_sum HostRaised id (encode fragment args)))"

section \<open>Addresses\<close>

record address_tools =
  at_checksum :: "string \<Rightarrow> js + string"
  at_tre :: "js option"
  at_toHex :: "string \<Rightarrow> js + js"
  at_isAddress :: "string \<Rightarrow> js + js"
  at_deployer :: string

definition hex_of_length :: "nat \<Rightarrow> string \<Rightarrow> bool" where
  "hex_of_length n s \<longleftrightarrow> length s = n \<and> is_hex_digits s"

definition native_hex :: "string \<Rightarrow> bool" where
  "native_hex s \<longleftrightarrow> prefix ''41'' s \<and> hex_of_length 42 s"

definition checksum_of :: "address_tools \<Rightarrow> string \<Rightarrow> hardhat_error + string" where
  "checksum_of at a = map_sum HostRaised id (at_checksum at a)"

text \<open>\<open>at_tre\<close> is what \<open>makeTronWeb\<close> raises, if it does.\<close>

definition to_hex :: "address_tools \<Rightarrow> string \<Rightarrow> hardhat_error + js" where
  "to_hex at raw =
     (case at_tre at of Some e \<Rightarrow> Inl (HostRaised e) | None \<Rightarrow> map_sum HostRaised id (at_toHex at raw))"

definition resolveAddress :: "address_tools \<Rightarrow> string \<Rightarrow> hardhat_error + string" where
  "resolveAddress at raw =
     (if prefix ''0x'' raw \<or> prefix ''0X'' raw then checksum_of at (''0x'' @ drop 2 raw)
      else if hex_of_length 42 raw \<and> \<not> native_hex raw then Inl (NativeHexPrefix raw)
      else
        bind_sum (to_hex at raw) (\<lambda>hex.
          case hex of
            JStr h \<Rightarrow> if native_hex h then checksum_of at (''0x'' @ drop 2 h) else Inl (AddressInvalid raw)
          | _ \<Rightarrow> Inl (AddressInvalid raw)))"

definition deployerAddress :: "address_tools \<Rightarrow> hardhat_error + string" where
  "deployerAddress at =
     bind_sum (to_hex at (at_deployer at)) (\<lambda>hex.
       case hex of JStr h \<Rightarrow> checksum_of at (''0x'' @ drop 2 h) | _ \<Rightarrow> Inl TypeErrorThrown)"

definition base58_chars :: string where
  "base58_chars = ''123456789ABCDEFGHJKLMNPQRSTUVWXYZabcdefghijkmnopqrstuvwxyz''"

definition BASE58_ADDRESS :: "string \<Rightarrow> bool" where
  "BASE58_ADDRESS s \<longleftrightarrow> prefix ''T'' s \<and> length s = 34 \<and> list_all (\<lambda>c. c \<in> set base58_chars) s"

text \<open>A target that is not a string is a contract instance: \<open>None\<close>.\<close>

definition looksLikeAddress :: "address_tools \<Rightarrow> string option \<Rightarrow> hardhat_error + bool" where
  "looksLikeAddress at target =
     (case target of
        None \<Rightarrow> Inr True
      | Some t \<Rightarrow>
          if (prefix ''0x'' t \<or> prefix ''0X'' t) \<and> hex_of_length 40 (drop 2 t) then Inr True
          else if native_hex t then Inr True
          else
            (case (case at_tre at of Some e \<Rightarrow> Inl e | None \<Rightarrow> at_isAddress at t) of
               Inr v \<Rightarrow> Inr (v = JBool True)
             | Inl _ \<Rightarrow> if BASE58_ADDRESS t then Inl (Base58Unconfirmable t) else Inr False))"

text \<open>A slot's word holds an address in its last forty digits.\<close>

definition slotToAddress :: "string \<Rightarrow> string" where
  "slotToAddress word = ''0x'' @ drop (length word - 40) word"

definition ZERO_ADDRESS :: string where
  "ZERO_ADDRESS = ''0x'' @ replicate 40 (CHR ''0'')"

section \<open>Namespaces on one slot\<close>

definition canonicalNamespaceId :: "string \<Rightarrow> string" where
  "canonicalNamespaceId s =
     (if prefix ''erc7201:'' s \<or> prefix ''trc7201:'' s then ''erc7201:'' @ drop 8 s else s)"

definition line_break :: "char \<Rightarrow> bool" where
  "line_break c \<longleftrightarrow> c = CHR 0x0A \<or> c = CHR 0x0D"

definition word_char :: "char \<Rightarrow> bool" where
  "word_char c \<longleftrightarrow> c \<in> set ''ABCDEFGHIJKLMNOPQRSTUVWXYZabcdefghijklmnopqrstuvwxyz0123456789_''"

text \<open>\<open>/^\s*@custom:storage-location(\s|$)/m\<close>; the flag says that a line starts here.\<close>

fun has_storage_tag :: "bool \<Rightarrow> string \<Rightarrow> bool" where
  "has_storage_tag start [] = False"
| "has_storage_tag start (c # s) =
     ((start \<and>
        (let t = dropWhile is_space (c # s); rest = drop (length storage_tag) t
         in prefix storage_tag t \<and> (case rest of [] \<Rightarrow> True | d # _ \<Rightarrow> is_space d))) \<or>
      has_storage_tag (line_break c) s)"

text \<open>The next tag of a comment: \<open>^\s*@\w+\<close>.\<close>

definition next_tag :: "string \<Rightarrow> bool" where
  "next_tag s =
     (case dropWhile is_space s of c # d # _ \<Rightarrow> c = CHR ''@'' \<and> word_char d | _ \<Rightarrow> False)"

fun tag_arguments :: "bool \<Rightarrow> string \<Rightarrow> string" where
  "tag_arguments start [] = []"
| "tag_arguments start (c # s) =
     (if start \<and> next_tag (c # s) then [] else c # tag_arguments (line_break c) s)"

fun words :: "string \<Rightarrow> string \<Rightarrow> string list" where
  "words acc [] = (if acc = [] then [] else [rev acc])"
| "words acc (c # s) =
     (if is_space c then (if acc = [] then [] else [rev acc]) @ words [] s else words (c # acc) s)"

text \<open>The arguments of every \<open>^\s*@custom:storage-location \<close>, each up to the next tag.\<close>

function storage_arguments :: "bool \<Rightarrow> string \<Rightarrow> string list" where
  "storage_arguments start [] = []"
| "storage_arguments start (c # s) =
     (let t = dropWhile is_space (c # s)
      in if start \<and> prefix (storage_tag @ '' '') t
         then
           (let body = drop (length storage_tag + 1) t; args = tag_arguments False body
            in words [] args @ storage_arguments True (drop (length args) body))
         else storage_arguments (line_break c) s)"
  by pat_completeness auto
termination
proof (relation "measure (\<lambda>(b, s). length s)", goal_cases)
  case (2 start c s t body args)
  have "length t \<le> length (c # s)" unfolding 2(1) by (rule length_dropWhile_le)
  moreover have "length body < length t"
    using 2(2,3) by (auto simp: storage_tag_def prefix_def)
  ultimately show ?case by simp
qed simp_all

definition storageLocationOf :: "js \<Rightarrow> string option" where
  "storageLocationOf node =
     (let doc = own_prop node ''documentation'';
          text = (case doc of JStr s \<Rightarrow> s | _ \<Rightarrow> (case own_prop doc ''text'' of JStr s \<Rightarrow> s | _ \<Rightarrow> []))
      in if \<not> has_storage_tag True text then None
         else (case storage_arguments True text of [a] \<Rightarrow> Some a | _ \<Rightarrow> None))"

text \<open>The last colon of a fully qualified name; without one, \<open>slice(0, -1)\<close> and the whole.\<close>

definition split_name :: "string \<Rightarrow> string \<times> string" where
  "split_name q =
     (if CHR '':'' \<in> set q
      then (rev (tl (dropWhile (\<lambda>c. c \<noteq> CHR '':'') (rev q))), rev (takeWhile (\<lambda>c. c \<noteq> CHR '':'') (rev q)))
      else (butlast q, q))"

definition output_of :: "js \<Rightarrow> js" where
  "output_of buildInfo = own_prop (own_prop buildInfo ''output'') ''sources''"

definition nodes_of :: "js \<Rightarrow> js list option" where
  "nodes_of source = members_of (own_prop (own_prop source ''ast'') ''nodes'')"

definition contract_ids :: "js list \<Rightarrow> (js \<times> js) list option" where
  "contract_ids ns =
     map_option concat
       (map_raise (\<lambda>n. map_option (\<lambda>t. if t = JStr ''ContractDefinition'' then [(own_prop n ''id'', n)] else [])
          (get_prop n ''nodeType'')) ns)"

text \<open>The contract's bases in their order, itself first; \<open>None\<close> is a raise.\<close>

definition linearizedContractDefs :: "js \<Rightarrow> string \<Rightarrow> js list option" where
  "linearizedContractDefs buildInfo fqName =
     (case split_name fqName of
        (sourceName, contractName) \<Rightarrow>
          (case map_raise (\<lambda>(k, s). nodes_of s) (entries_of (output_of buildInfo)) of
             None \<Rightarrow> None
           | Some all_nodes \<Rightarrow>
               (case (contract_ids (concat all_nodes), nodes_of (own_prop (output_of buildInfo) sourceName)) of
                  (Some ids, Some own_nodes) \<Rightarrow>
                    (case find_definition contractName own_nodes of
                       None \<Rightarrow> None
                     | Some None \<Rightarrow> Some []
                     | Some (Some target) \<Rightarrow>
                         map_option (List.map_filter (map_of (rev ids)))
                           (members_of (own_prop target ''linearizedBaseContracts'')))
                | _ \<Rightarrow> None)))"

definition struct_decl :: "js \<Rightarrow> js \<Rightarrow> namespace_decl option option" where
  "struct_decl d n =
     (case get_prop n ''nodeType'' of
        None \<Rightarrow> None
      | Some t \<Rightarrow>
          Some (if t \<noteq> JStr ''StructDefinition'' then None
                else map_option (\<lambda>l. \<lparr>nd_location = l, nd_contract = own_prop d ''name'', nd_struct = own_prop n ''name''\<rparr>)
                  (storageLocationOf n)))"

text \<open>The nodes the scan visits, in order; \<open>None\<close> is one whose visit raises.\<close>

definition struct_visits :: "js list \<Rightarrow> namespace_decl option option list" where
  "struct_visits defs =
     concat (map (\<lambda>d. case members_of (own_prop d ''nodes'') of None \<Rightarrow> [None] | Some ns \<Rightarrow> map (struct_decl d) ns) defs)"

text \<open>The first declaration of an id stands for all; \<open>seen\<close> holds them.\<close>

fun scan_decls :: "(string \<times> namespace_decl) list \<Rightarrow> namespace_decl option option list \<Rightarrow> hardhat_error + unit" where
  "scan_decls seen [] = Inr ()"
| "scan_decls seen (None # vs) = Inl TypeErrorThrown"
| "scan_decls seen (Some None # vs) = scan_decls seen vs"
| "scan_decls seen (Some (Some d) # vs) =
     (let k = canonicalNamespaceId (nd_location d)
      in case map_of seen k of
           None \<Rightarrow> scan_decls ((k, d) # seen) vs
         | Some prev \<Rightarrow>
             if nd_location prev \<noteq> nd_location d then Inl (NamespaceCollision prev d) else scan_decls seen vs)"

definition assertNoNamespaceSlotCollisions :: "js \<Rightarrow> string \<Rightarrow> hardhat_error + unit" where
  "assertNoNamespaceSlotCollisions buildInfo fqName =
     (case linearizedContractDefs buildInfo fqName of
        None \<Rightarrow> Inl TypeErrorThrown
      | Some defs \<Rightarrow> scan_decls [] (struct_visits defs))"


section \<open>No two namespaces on one slot\<close>

definition declared :: "namespace_decl option option list \<Rightarrow> namespace_decl list" where
  "declared vs = concat (map (\<lambda>v. case v of Some (Some d) \<Rightarrow> [d] | _ \<Rightarrow> []) vs)"

lemma declared_simps [simp]:
  "declared [] = []" "declared (Some None # vs) = declared vs" "declared (Some (Some d) # vs) = d # declared vs"
  by (simp_all add: declared_def)

text \<open>One id, one annotation: what hashes to one slot is one and the same namespace.\<close>

definition one_annotation :: "namespace_decl \<Rightarrow> namespace_decl \<Rightarrow> bool" where
  "one_annotation d e \<longleftrightarrow>
     canonicalNamespaceId (nd_location d) = canonicalNamespaceId (nd_location e) \<longrightarrow> nd_location d = nd_location e"

definition one_annotation_per_slot :: "namespace_decl list \<Rightarrow> bool" where
  "one_annotation_per_slot ds \<longleftrightarrow> (\<forall>d \<in> set ds. \<forall>e \<in> set ds. one_annotation d e)"

definition agrees_with :: "(string \<times> namespace_decl) list \<Rightarrow> namespace_decl \<Rightarrow> bool" where
  "agrees_with seen d \<longleftrightarrow>
     (case map_of seen (canonicalNamespaceId (nd_location d)) of
        None \<Rightarrow> True | Some prev \<Rightarrow> nd_location prev = nd_location d)"

lemma one_annotation_refl: "one_annotation d d"
  by (simp add: one_annotation_def)

lemma one_annotation_sym: "one_annotation d e \<Longrightarrow> one_annotation e d"
  unfolding one_annotation_def by metis

lemma agrees_with_one: "agrees_with [(canonicalNamespaceId (nd_location d), d)] e \<longleftrightarrow> one_annotation d e"
  by (simp add: agrees_with_def one_annotation_def)

lemma one_annotation_Cons:
  "one_annotation_per_slot (d # ds) \<longleftrightarrow> one_annotation_per_slot ds \<and> list_all (one_annotation d) ds"
  unfolding one_annotation_per_slot_def list_all_iff set_simps
  using one_annotation_refl one_annotation_sym by blast

lemma agrees_with_Cons:
  "map_of seen k = None \<Longrightarrow> agrees_with ((k, d) # seen) e \<longleftrightarrow> agrees_with seen e \<and> agrees_with [(k, d)] e"
  by (simp add: agrees_with_def)

lemma agrees_with_known:
  "map_of seen (canonicalNamespaceId (nd_location d)) = Some prev \<Longrightarrow> nd_location prev = nd_location d \<Longrightarrow>
     agrees_with seen e \<Longrightarrow> one_annotation d e"
  by (auto simp: agrees_with_def one_annotation_def)

lemma scan_decls_ok:
  "scan_decls seen vs = Inr () \<longleftrightarrow>
     None \<notin> set vs \<and> list_all (agrees_with seen) (declared vs) \<and> one_annotation_per_slot (declared vs)"
proof (induction seen vs rule: scan_decls.induct)
  case (4 seen d vs)
  let ?k = "canonicalNamespaceId (nd_location d)"
  show ?case
  proof (cases "map_of seen ?k")
    case None
    have "list_all (agrees_with ((?k, d) # seen)) ds \<longleftrightarrow>
        list_all (agrees_with seen) ds \<and> list_all (one_annotation d) ds" for ds
      by (auto simp: list_all_iff agrees_with_Cons [OF None] agrees_with_one)
    moreover have "agrees_with seen d" using None by (simp add: agrees_with_def)
    ultimately show ?thesis using 4(1) [OF refl None] None by (simp add: one_annotation_Cons) blast
  next
    case (Some prev)
    show ?thesis
    proof (cases "nd_location prev = nd_location d")
      case True
      have "list_all (agrees_with seen) ds \<Longrightarrow> list_all (one_annotation d) ds" for ds
        unfolding list_all_iff using agrees_with_known [OF Some True] by blast
      moreover have "agrees_with seen d" using Some True by (simp add: agrees_with_def)
      ultimately show ?thesis using 4(2) [OF refl Some] Some True by (simp add: one_annotation_Cons) blast
    next
      case False
      then have "\<not> agrees_with seen d" using Some by (simp add: agrees_with_def)
      then show ?thesis using Some False by simp
    qed
  qed
qed (simp_all add: one_annotation_per_slot_def)


lemma canonical_prefixes: "canonicalNamespaceId (''erc7201:'' @ i) = canonicalNamespaceId (''trc7201:'' @ i)"
  by (simp add: canonicalNamespaceId_def)

section \<open>Three encodings of one account\<close>

lemma native_hex_parts: "native_hex s \<longleftrightarrow> (\<exists>b. s = ''41'' @ b \<and> hex_of_length 40 b)"
  by (auto simp: native_hex_def hex_of_length_def prefix_def is_hex_digits_append is_hex_digits_def is_hex_char_def)

lemma native_no_0x: "native_hex s \<Longrightarrow> \<not> prefix ''0x'' s \<and> \<not> prefix ''0X'' s"
  by (auto simp: native_hex_parts)

text \<open>
  C24: The three encodings of an account are one address.  Where \<open>tronWeb\<close> reads the account's
  Base58 form as its native hex and native hex as itself, the EVM form with either prefix, the
  native form and the Base58 form all resolve to what \<open>ethers\<close> checksums the same twenty bytes to;
  a forty-two digit hex string with another network prefix is refused without asking it.
\<close>

theorem encodings_of_one_account_resolve_alike:
  assumes "hex_of_length 40 b" and "at_tre at = None"
    and "at_toHex at (''41'' @ b) = Inr (JStr (''41'' @ b))"
    and "at_toHex at base58 = Inr (JStr (''41'' @ b))" and "BASE58_ADDRESS base58"
  shows "resolveAddress at (''0x'' @ b) = checksum_of at (''0x'' @ b) \<and>
    resolveAddress at (''0X'' @ b) = checksum_of at (''0x'' @ b) \<and>
    resolveAddress at (''41'' @ b) = checksum_of at (''0x'' @ b) \<and>
    resolveAddress at base58 = checksum_of at (''0x'' @ b) \<and>
    (if p = ''41'' then True else if hex_of_length 2 p then resolveAddress at (p @ b) = Inl (NativeHexPrefix (p @ b)) else True)"
proof -
  have n: "native_hex (''41'' @ b)" using assms(1) native_hex_parts by blast
  have t: "\<not> prefix ''0x'' base58" "\<not> prefix ''0X'' base58" "\<not> hex_of_length 42 base58"
    using assms(5) by (auto simp: BASE58_ADDRESS_def prefix_def hex_of_length_def)
  have hex: "resolveAddress at (p @ b) = Inl (NativeHexPrefix (p @ b))" if p: "p \<noteq> ''41''" "hex_of_length 2 p"
  proof -
    have h: "hex_of_length 42 (p @ b)" using p(2) assms(1) by (simp add: hex_of_length_def is_hex_digits_append)
    then have "\<not> prefix ''0x'' (p @ b)" "\<not> prefix ''0X'' (p @ b)" using hex_no_x by (auto simp: hex_of_length_def)
    moreover have "\<not> native_hex (p @ b)"
      using p by (auto simp: native_hex_def hex_of_length_def prefix_def append_eq_append_conv2 append_eq_Cons_conv length_Suc_conv numeral_2_eq_2)
    ultimately show ?thesis using h by (simp add: resolveAddress_def)
  qed
  have "resolveAddress at (''41'' @ b) = checksum_of at (''0x'' @ b)"
    using n native_no_0x [OF n] assms(2,3) by (simp add: resolveAddress_def to_hex_def)
  moreover have "resolveAddress at base58 = checksum_of at (''0x'' @ b)"
    using n t assms(2,4) by (simp add: resolveAddress_def to_hex_def)
  ultimately show ?thesis using hex by (simp add: resolveAddress_def)
qed

definition demo_tools :: address_tools where
  "demo_tools =
     \<lparr>at_checksum = Inr, at_tre = None,
      at_toHex = (\<lambda>a. Inr (JStr (if prefix ''41'' a then a else ''41'' @ replicate 40 (CHR ''a'')))),
      at_isAddress = (\<lambda>_. Inr (JBool True)), at_deployer = ''T'' @ replicate 33 (CHR ''1'')\<rparr>"

theorem encodings_of_one_account_resolve_alike_witness:
  "resolveAddress demo_tools (''T'' @ replicate 33 (CHR ''1'')) = Inr (''0x'' @ replicate 40 (CHR ''a''))"
proof -
  have "hex_of_length 40 (replicate 40 (CHR ''a''))" "BASE58_ADDRESS (''T'' @ replicate 33 (CHR ''1''))" by code_simp+
  then show ?thesis
    using encodings_of_one_account_resolve_alike
      [of "replicate 40 (CHR ''a'')" demo_tools "''T'' @ replicate 33 (CHR ''1'')" "''41''"]
    by (simp add: demo_tools_def checksum_of_def)
qed


section \<open>The compiler settings\<close>

definition NAMESPACED_COMPILE_ERRORS_RULES :: "string list" where
  "NAMESPACED_COMPILE_ERRORS_RULES = [''error'', ''warn'', ''ignore'']"

definition resolveNamespacedCompileErrors :: "js \<Rightarrow> hardhat_error + string" where
  "resolveNamespacedCompileErrors value =
     (if value = JUndef then Inr ''error''
      else (case value of
              JStr r \<Rightarrow> if r \<in> set NAMESPACED_COMPILE_ERRORS_RULES then Inr r else Inl (SettingRefused value)
            | _ \<Rightarrow> Inl (SettingRefused value)))"

text \<open>\<open>v[k] ??= d\<close>, then \<open>f\<close> on what is there; a primitive has no such place.\<close>

definition within :: "string \<Rightarrow> js \<Rightarrow> (js \<Rightarrow> js option) \<Rightarrow> js \<Rightarrow> js option" where
  "within k d f v =
     (case v of
        JObj _ \<Rightarrow> map_option (set_prop v k) (f (or_nullish (own_prop v k) d))
      | _ \<Rightarrow> None)"

definition push_missing :: "js \<Rightarrow> js \<Rightarrow> js option" where
  "push_missing x v =
     (case v of
        JArr xs \<Rightarrow> Some (if x \<in> set xs then v else JArr (xs @ [x]))
      | _ \<Rightarrow> None)"

definition ensureStorageLayout :: "js \<Rightarrow> js option" where
  "ensureStorageLayout settings =
     within ''outputSelection'' (JObj []) (within ''*'' (JObj []) (within ''*'' (JArr []) (push_missing (JStr ''storageLayout''))))
       settings"

text \<open>The configuration: every compiler, then every override, then the rule.\<close>

definition extendConfig :: "js list \<Rightarrow> js list \<Rightarrow> js \<Rightarrow> hardhat_error + (js list \<times> js list \<times> string)" where
  "extendConfig compilers overrides rule =
     (case map_raise (within ''settings'' (JObj []) ensureStorageLayout) compilers of
        None \<Rightarrow> Inl TypeErrorThrown
      | Some cs \<Rightarrow>
          (case map_raise (within ''settings'' (JObj []) ensureStorageLayout) overrides of
             None \<Rightarrow> Inl TypeErrorThrown
           | Some os \<Rightarrow> map_sum id (\<lambda>r. (cs, os, r)) (resolveNamespacedCompileErrors rule)))"

lemma map_of_put_prop: "map_of (put_prop k x ps) l = (if l = k then Some x else map_of ps l)"
  by (induction ps) auto

lemma own_set_prop: "own_prop (set_prop (JObj ps) k x) l = (if l = k then x else own_prop (JObj ps) l)"
  by (simp add: map_of_put_prop)

lemma put_prop_same: "map_of ps k = Some x \<Longrightarrow> distinct (map fst ps) \<Longrightarrow> put_prop k x ps = ps"
  by (induction ps) auto

lemma put_prop_twice: "put_prop k x (put_prop k y ps) = put_prop k x ps"
  by (induction ps) auto

lemma set_prop_twice: "set_prop (set_prop v k y) k x = set_prop v k x"
  by (cases v) (simp_all add: put_prop_twice)

text \<open>\<open>within\<close> reaches what \<open>f\<close> made, keeps the rest, and is idempotent where \<open>f\<close> is.\<close>

lemma within_ok:
  assumes "within k d f v = Some w"
  shows "\<exists>x. f (or_nullish (own_prop v k) d) = Some x \<and> own_prop w k = x \<and> (\<forall>l. l \<noteq> k \<longrightarrow> own_prop w l = own_prop v l)"
proof -
  obtain ps x where v: "v = JObj ps" and x: "f (or_nullish (own_prop v k) d) = Some x" "w = set_prop v k x"
    using assms by (auto simp: within_def split: js.splits)
  then show ?thesis using own_set_prop [of ps k x] by auto
qed

lemma within_idem:
  assumes "within k d f v = Some w" and "\<And>x y. f x = Some y \<Longrightarrow> f y = Some y \<and> \<not> is_nullish y"
  shows "within k d f w = Some w \<and> \<not> is_nullish w"
proof -
  obtain ps x where v: "v = JObj ps" and x: "f (or_nullish (own_prop v k) d) = Some x" and w: "w = set_prop v k x"
    using assms(1) by (auto simp: within_def split: js.splits)
  have "own_prop w k = x" unfolding w v own_set_prop by simp
  moreover have "f x = Some x" "\<not> is_nullish x" using assms(2) [OF x] by auto
  moreover have "set_prop w k x = w" by (simp add: w set_prop_twice)
  ultimately show ?thesis by (simp add: within_def w v or_nullish_def)
qed

lemma push_missing_ok:
  "push_missing x v = Some w \<Longrightarrow> (\<exists>xs. w = JArr xs \<and> x \<in> set xs) \<and> push_missing x w = Some w \<and> \<not> is_nullish w"
  by (auto simp: push_missing_def split: js.splits if_splits)

text \<open>
  Every compiler is asked for storage layouts.  Whatever the user selected, the settings handed
  to the compiler select \<open>storageLayout\<close> for every contract of every source; every other setting
  and every other selection is the user's; and settings already extended are left as they are.
\<close>

theorem storage_layout_is_always_requested:
  assumes "ensureStorageLayout v = Some w"
  shows "(\<exists>xs. own_prop (own_prop (own_prop w ''outputSelection'') ''*'') ''*'' = JArr xs \<and> JStr ''storageLayout'' \<in> set xs) \<and>
    (\<forall>k. if k = ''outputSelection'' then True else own_prop w k = own_prop v k) \<and>
    ensureStorageLayout w = Some w"
proof -
  let ?layout = "push_missing (JStr ''storageLayout'')"
  obtain s where s: "within ''*'' (JObj []) (within ''*'' (JArr []) ?layout) (or_nullish (own_prop v ''outputSelection'') (JObj [])) = Some s"
    and ws: "own_prop w ''outputSelection'' = s" "\<forall>k. k \<noteq> ''outputSelection'' \<longrightarrow> own_prop w k = own_prop v k"
    using within_ok assms unfolding ensureStorageLayout_def by blast
  obtain t where t: "within ''*'' (JArr []) ?layout (or_nullish (own_prop (or_nullish (own_prop v ''outputSelection'') (JObj [])) ''*'') (JObj [])) = Some t"
    and st: "own_prop s ''*'' = t" using within_ok [OF s] by blast
  obtain u where u: "?layout (or_nullish (own_prop (or_nullish (own_prop (or_nullish (own_prop v ''outputSelection'') (JObj [])) ''*'') (JObj [])) ''*'') (JArr [])) = Some u"
    and tu: "own_prop t ''*'' = u" using within_ok [OF t] by blast
  have "ensureStorageLayout w = Some w"
    using assms unfolding ensureStorageLayout_def
    by (intro within_idem [THEN conjunct1]) (auto dest: push_missing_ok elim!: within_idem)
  then show ?thesis using push_missing_ok [OF u] ws st tu by auto
qed

theorem storage_layout_is_always_requested_witness:
  "\<exists>w. ensureStorageLayout (JObj [(''optimizer'', JBool True)]) = Some w \<and> own_prop w ''optimizer'' = JBool True \<and>
     ensureStorageLayout w = Some w"
proof -
  obtain w where w: "ensureStorageLayout (JObj [(''optimizer'', JBool True)]) = Some w"
    by (simp add: ensureStorageLayout_def within_def or_nullish_def push_missing_def)
  note all3 = storage_layout_is_always_requested [OF w]
  then have "own_prop w ''optimizer'' = own_prop (JObj [(''optimizer'', JBool True)]) ''optimizer''"
    using spec [of _ "''optimizer''"] by fastforce
  then show ?thesis using w all3 by simp
qed

section \<open>An annotation reads back\<close>

lemma words_acc: "list_all (\<lambda>c. \<not> is_space c) w \<Longrightarrow> words acc w = (if rev acc @ w = [] then [] else [rev acc @ w])"
  by (induction acc w rule: words.induct) auto

lemma tag_arguments_line: "list_all (\<lambda>c. \<not> line_break c) s \<Longrightarrow> tag_arguments False s = s"
  by (induction s) auto

lemma no_space_no_break: "list_all (\<lambda>c. \<not> is_space c) s \<Longrightarrow> list_all (\<lambda>c. \<not> line_break c) s"
  by (auto simp: list_all_iff line_break_def is_space_def)

text \<open>A struct annotated with one namespace, and nothing else, is read as that namespace.\<close>

theorem annotation_reads_back:
  assumes "l \<noteq> []" and "list_all (\<lambda>c. \<not> is_space c) l"
  shows "storageLocationOf (JObj [(''documentation'', JStr (storage_tag @ '' '' @ l))]) = Some l"
proof -
  let ?t = "storage_tag @ '' '' @ l"
  have d: "dropWhile is_space ?t = ?t" by (simp add: storage_tag_def is_space_def)
  have e: "?t = CHR ''@'' # tl storage_tag @ '' '' @ l" by (simp add: storage_tag_def)
  have tag: "has_storage_tag True ?t"
    using d unfolding e by (simp add: is_space_def) (simp add: storage_tag_def is_space_def)
  have a: "tag_arguments False l = l" using assms(2) by (simp add: tag_arguments_line no_space_no_break)
  have "storage_arguments True ?t = words [] l @ storage_arguments True []"
    using d a unfolding e by (subst storage_arguments.simps(2)) (simp add: Let_def storage_tag_def)
  then have "storage_arguments True ?t = [l]" using assms by (simp add: words_acc)
  then show ?thesis using tag by (simp add: storageLocationOf_def)
qed

end
