(* ===== verification/HardhatManifest.thy ===== *)
theory HardhatManifest
  imports HardhatUtils
begin

text \<open>
  \<open>utils/manifest.ts\<close> of the Hardhat plugin: the deployment record as parsed JSON, the migration of
  its addresses, the merge of an implementation, and the lookup of a proxy.

  An operation runs over a world \<open>'w\<close> that only the host's functions change, and a log of the calls
  that send a transaction or write the record, in the order they are made.  The engine's manifest
  is a parameter: its read, its write and its lock.
\<close>

section \<open>The state of an operation\<close>

datatype hardhat_event =
    SentDeploy string "js list" "js option"
  | SentCall string string string "js list" "js option" "js option"
  | WroteManifest js
  | AddedProxy js string

record 'w hardhat_state =
  hs_world :: 'w
  hs_log :: "hardhat_event list"

type_synonym ('w, 'a) hio = "('w hardhat_state, hardhat_error, 'a) io"

definition on_host :: "('w, js, 'a) io \<Rightarrow> ('w, 'a) hio" where
  "on_host m s = (case m (hs_world s) of (r, w) \<Rightarrow> (map_sum HostRaised id r, s\<lparr>hs_world := w\<rparr>))"

definition log_hardhat :: "hardhat_event \<Rightarrow> ('w, unit) hio" where
  "log_hardhat ev s = (Inr (), s\<lparr>hs_log := hs_log s @ [ev]\<rparr>)"

definition refuse_if :: "bool \<Rightarrow> hardhat_error \<Rightarrow> ('w, unit) hio" where
  "refuse_if b e = (if b then throw_io e else return_io ())"

definition pure_io :: "hardhat_error + 'a \<Rightarrow> ('w, 'a) hio" where
  "pure_io r = lift_io r"

definition or_type_error :: "'a option \<Rightarrow> hardhat_error + 'a" where
  "or_type_error v = (case v of None \<Rightarrow> Inl TypeErrorThrown | Some x \<Rightarrow> Inr x)"

record 'w manifest =
  mf_read :: "('w, js, js) io"
  mf_write :: "js \<Rightarrow> ('w, js, unit) io"
  mf_locked :: "('w, unit) hio \<Rightarrow> ('w, unit) hio"

definition read_manifest :: "'w manifest \<Rightarrow> ('w, js) hio" where
  "read_manifest m = on_host (mf_read m)"

definition write_manifest :: "'w manifest \<Rightarrow> js \<Rightarrow> ('w, unit) hio" where
  "write_manifest m d = bind_io (log_hardhat (WroteManifest d)) (\<lambda>_. on_host (mf_write m d))"

section \<open>Stored addresses in one form\<close>

text \<open>The flag is \<open>changed\<close>; a checksum that raises ends the rewrite.\<close>

type_synonym 'a fixed = "hardhat_error + 'a \<times> bool"

fun map_fix :: "('a \<Rightarrow> 'a fixed) \<Rightarrow> 'a list \<Rightarrow> 'a list fixed" where
  "map_fix f [] = Inr ([], False)"
| "map_fix f (x # xs) =
     bind_sum (f x) (\<lambda>(y, b). bind_sum (map_fix f xs) (\<lambda>(ys, c). Inr (y # ys, b \<or> c)))"

definition canon :: "(string \<Rightarrow> js + string) \<Rightarrow> js \<Rightarrow> js fixed" where
  "canon cs v =
     (case v of
        JStr a \<Rightarrow>
          if prefix ''0x'' a \<and> hex_of_length 40 (drop 2 a)
          then bind_sum (map_sum HostRaised id (cs a)) (\<lambda>c. Inr (JStr c, c \<noteq> a))
          else Inr (v, False)
      | _ \<Rightarrow> Inr (v, False))"

text \<open>\<open>fix_at k f v\<close>: the property \<open>k\<close> of \<open>v\<close> through \<open>f\<close>, written back where it changes.\<close>

definition fix_at :: "string \<Rightarrow> (js \<Rightarrow> js fixed) \<Rightarrow> js \<Rightarrow> js fixed" where
  "fix_at k f v = bind_sum (f (own_prop v k)) (\<lambda>(x, b). Inr (if b then set_prop v k x else v, b))"

definition fixAddress :: "(string \<Rightarrow> js + string) \<Rightarrow> js \<Rightarrow> js fixed" where
  "fixAddress cs v = fix_at ''address'' (canon cs) v"

text \<open>An array element by element; anything else is left alone.\<close>

definition fix_elements :: "(js \<Rightarrow> js fixed) \<Rightarrow> js \<Rightarrow> js fixed" where
  "fix_elements f v =
     (case v of JArr xs \<Rightarrow> bind_sum (map_fix f xs) (\<lambda>(ys, b). Inr (JArr ys, b)) | _ \<Rightarrow> Inr (v, False))"

text \<open>One after the other; the whole changed where either did.\<close>

definition fix_both :: "('a \<Rightarrow> 'a fixed) \<Rightarrow> ('a \<Rightarrow> 'a fixed) \<Rightarrow> 'a \<Rightarrow> 'a fixed" where
  "fix_both f g v = bind_sum (f v) (\<lambda>(w, b). bind_sum (g w) (\<lambda>(x, c). Inr (x, b \<or> c)))"

definition fix_impl :: "(string \<Rightarrow> js + string) \<Rightarrow> js \<Rightarrow> js fixed" where
  "fix_impl cs v =
     (if \<not> js_truthy v then Inr (v, False)
      else fix_both (fixAddress cs) (fix_at ''allAddresses'' (fix_elements (canon cs))) v)"

fun fix_entry :: "(js \<Rightarrow> js fixed) \<Rightarrow> string \<times> js \<Rightarrow> (string \<times> js) fixed" where
  "fix_entry f (k, x) = bind_sum (f x) (\<lambda>(y, b). Inr ((k, y), b))"

definition fix_entries :: "(js \<Rightarrow> js fixed) \<Rightarrow> js \<Rightarrow> js fixed" where
  "fix_entries f v =
     (case v of
        JObj ps \<Rightarrow> bind_sum (map_fix (fix_entry f) ps) (\<lambda>(qs, b). Inr (JObj qs, b))
      | _ \<Rightarrow> Inr (v, False))"

text \<open>A list of proxies that is neither missing nor an array cannot be iterated.\<close>

definition fix_proxies :: "(string \<Rightarrow> js + string) \<Rightarrow> js \<Rightarrow> js fixed" where
  "fix_proxies cs v = (if members_of v = None then Inl TypeErrorThrown else fix_elements (fixAddress cs) v)"

definition rewrite_data :: "(string \<Rightarrow> js + string) \<Rightarrow> js \<Rightarrow> js fixed" where
  "rewrite_data cs data =
     fix_both (fix_at ''proxies'' (fix_proxies cs))
       (fix_both (fix_at ''impls'' (fix_entries (fix_impl cs))) (fix_at ''admin'' (fixAddress cs))) data"

definition canonicalizeStoredAddresses :: "(string \<Rightarrow> js + string) \<Rightarrow> 'w manifest \<Rightarrow> ('w, unit) hio" where
  "canonicalizeStoredAddresses cs m =
     bind_io (bind_io (read_manifest m) (\<lambda>d. pure_io (rewrite_data cs d))) (\<lambda>(_, changed).
       if \<not> changed then return_io ()
       else mf_locked m
         (bind_io (bind_io (read_manifest m) (\<lambda>d. pure_io (rewrite_data cs d))) (\<lambda>(d, again).
            if again then write_manifest m d else return_io ())))"

text \<open>The legacy record is refused before the record is touched.\<close>

definition getManifest :: "bool \<Rightarrow> (string \<Rightarrow> js + string) \<Rightarrow> 'w manifest \<Rightarrow> ('w, unit) hio" where
  "getManifest legacy cs m = bind_io (refuse_if legacy LegacyRecord) (\<lambda>_. canonicalizeStoredAddresses cs m)"

section \<open>Implementations and proxies\<close>

record upgradeable =
  uc_name :: string
  uc_key :: string
  uc_version :: js
  uc_layout :: js
  uc_abi :: js
  uc_validations :: js
  uc_safe :: bool

fun keep_first :: "'a list \<Rightarrow> 'a list" where
  "keep_first [] = []"
| "keep_first (x # xs) = x # filter (\<lambda>y. y \<noteq> x) (keep_first xs)"

text \<open>The merge: an entry of the same version keeps its primary address and its layout.\<close>

definition merge_impl :: "js \<Rightarrow> upgradeable \<Rightarrow> string \<Rightarrow> js \<Rightarrow> js option" where
  "merge_impl impls c address hash =
     (case get_prop impls (uc_key c) of
        None \<Rightarrow> None
      | Some existing \<Rightarrow>
          if js_truthy existing
          then map_option
                 (\<lambda>known. set_prop impls (uc_key c)
                    (set_prop existing ''allAddresses''
                      (JArr (keep_first (own_prop existing ''address'' # JStr address # known)))))
                 (members_of (own_prop existing ''allAddresses''))
          else Some (set_prop impls (uc_key c)
                 (JObj [(''address'', JStr address), (''txHash'', hash), (''layout'', uc_layout c)])))"

definition recordImpl :: "'w manifest \<Rightarrow> upgradeable \<Rightarrow> string \<Rightarrow> js \<Rightarrow> ('w, unit) hio" where
  "recordImpl m c address hash =
     mf_locked m
       (bind_io (read_manifest m) (\<lambda>d.
        bind_io (pure_io (or_type_error (merge_impl (own_prop d ''impls'') c address hash))) (\<lambda>impls.
          write_manifest m (set_prop d ''impls'' impls))))"

fun find_proxy :: "string \<Rightarrow> js list \<Rightarrow> js option option" where
  "find_proxy target [] = Some None"
| "find_proxy target (p # ps) =
     (case get_prop p ''address'' of
        None \<Rightarrow> None
      | Some a \<Rightarrow>
          (case a of
             JStr s \<Rightarrow> if lower s = target then Some (Some p) else find_proxy target ps
           | _ \<Rightarrow> if is_nullish a then find_proxy target ps else None))"

definition proxyRecordOf :: "'w manifest \<Rightarrow> string \<Rightarrow> ('w, js option) hio" where
  "proxyRecordOf m proxyAddress =
     bind_io (read_manifest m) (\<lambda>d.
       case own_prop d ''proxies'' of
         JArr ps \<Rightarrow> pure_io (or_type_error (find_proxy (lower proxyAddress) ps))
       | _ \<Rightarrow> throw_io TypeErrorThrown)"

section \<open>The rewrite\<close>

text \<open>\<open>settles f\<close>: what \<open>f\<close> made, \<open>f\<close> leaves as it is; what it calls unchanged is unchanged.\<close>

definition settles :: "('a \<Rightarrow> 'a fixed) \<Rightarrow> bool" where
  "settles f \<longleftrightarrow> (\<forall>x y b. f x = Inr (y, b) \<longrightarrow> f y = Inr (y, False) \<and> (\<not> b \<longrightarrow> y = x))"

lemma settlesD: "settles f \<Longrightarrow> f x = Inr (y, b) \<Longrightarrow> f y = Inr (y, False) \<and> (\<not> b \<longrightarrow> y = x)"
  by (simp add: settles_def)

lemma settles_map:
  assumes "settles f"
  shows "settles (map_fix f)"
proof -
  have "map_fix f xs = Inr (ys, b) \<Longrightarrow> map_fix f ys = Inr (ys, False) \<and> (\<not> b \<longrightarrow> ys = xs)" for xs ys b
  proof (induction xs arbitrary: ys b)
    case (Cons x xs)
    obtain y c zs d where f: "f x = Inr (y, c)" and m: "map_fix f xs = Inr (zs, d)" and r: "ys = y # zs" "b = (c \<or> d)"
      using Cons.prems by (auto simp: bind_sum_Inr)
    show ?case using settlesD [OF assms f] Cons.IH [OF m] r by auto
  qed simp
  then show ?thesis by (simp add: settles_def)
qed

lemma settlesI: "(\<And>x y b. f x = Inr (y, b) \<Longrightarrow> f y = Inr (y, False) \<and> (\<not> b \<longrightarrow> y = x)) \<Longrightarrow> settles f"
  by (simp add: settles_def)

lemma settles_elements:
  assumes "settles f"
  shows "settles (fix_elements f)"
proof (rule settlesI)
  fix v w b
  assume r: "fix_elements f v = Inr (w, b)"
  show "fix_elements f w = Inr (w, False) \<and> (\<not> b \<longrightarrow> w = v)"
  proof (cases "\<exists>xs. v = JArr xs")
    case True
    then obtain xs ys where "v = JArr xs" "map_fix f xs = Inr (ys, b)" "w = JArr ys"
      using r by (auto simp: fix_elements_def bind_sum_Inr)
    then show ?thesis using settlesD [OF settles_map [OF assms]] by (simp add: fix_elements_def)
  next
    case False
    then show ?thesis using r by (cases v) (auto simp: fix_elements_def)
  qed
qed

lemma settles_entry:
  assumes "settles f"
  shows "settles (fix_entry f)"
proof (rule settlesI)
  fix x y b
  assume r: "fix_entry f x = Inr (y, b)"
  obtain k v where x: "x = (k, v)" by fastforce
  obtain w where "f v = Inr (w, b)" "y = (k, w)" using r x by (auto simp: bind_sum_Inr)
  then show "fix_entry f y = Inr (y, False) \<and> (\<not> b \<longrightarrow> y = x)" using settlesD [OF assms] x by simp
qed

lemma settles_entries:
  assumes "settles f"
  shows "settles (fix_entries f)"
proof (rule settlesI)
  fix v w b
  assume r: "fix_entries f v = Inr (w, b)"
  show "fix_entries f w = Inr (w, False) \<and> (\<not> b \<longrightarrow> w = v)"
  proof (cases "\<exists>ps. v = JObj ps")
    case True
    then obtain ps qs where "v = JObj ps" "map_fix (fix_entry f) ps = Inr (qs, b)" "w = JObj qs"
      using r by (auto simp: fix_entries_def bind_sum_Inr)
    then show ?thesis using settlesD [OF settles_map [OF settles_entry [OF assms]]] by (simp add: fix_entries_def)
  next
    case False
    then show ?thesis using r by (cases v) (auto simp: fix_entries_def)
  qed
qed

text \<open>A checksummed address is its own checksummed form.\<close>

definition fixes_checksums :: "(string \<Rightarrow> js + string) \<Rightarrow> bool" where
  "fixes_checksums cs \<longleftrightarrow> (\<forall>a c. cs a = Inr c \<longrightarrow> cs c = Inr c)"

lemma settles_canon:
  assumes "fixes_checksums cs"
  shows "settles (canon cs)"
proof (rule settlesI)
  fix v w b
  assume r: "canon cs v = Inr (w, b)"
  show "canon cs w = Inr (w, False) \<and> (\<not> b \<longrightarrow> w = v)"
  proof (cases "\<exists>a. v = JStr a \<and> prefix ''0x'' a \<and> hex_of_length 40 (drop 2 a)")
    case True
    then obtain a c where "v = JStr a" "cs a = Inr c" "w = JStr c" "b = (c \<noteq> a)"
      using r by (cases "cs (case v of JStr a \<Rightarrow> a | _ \<Rightarrow> [])") (auto simp: canon_def)
    then show ?thesis using assms by (auto simp: canon_def fixes_checksums_def)
  next
    case False
    then show ?thesis using r by (cases v) (auto simp: canon_def split: if_splits)
  qed
qed

text \<open>Through a property; two properties apart do not disturb each other.\<close>

lemma own_set [simp]: "own_prop (set_prop v k x) l = (if l = k then (case v of JObj _ \<Rightarrow> x | _ \<Rightarrow> JUndef) else own_prop v l)"
  by (cases v) (auto simp: map_of_put_prop)

lemma fix_at_ok:
  "fix_at k f v = Inr (w, b) \<longleftrightarrow> (\<exists>x. f (own_prop v k) = Inr (x, b) \<and> w = (if b then set_prop v k x else v))"
  by (auto simp: fix_at_def bind_sum_Inr)

lemma settles_at:
  assumes "settles f" and "f JUndef = Inr (JUndef, False)"
  shows "settles (fix_at k f)"
proof (rule settlesI)
  fix v w b
  assume "fix_at k f v = Inr (w, b)"
  then obtain x where x: "f (own_prop v k) = Inr (x, b)" and w: "w = (if b then set_prop v k x else v)"
    by (auto simp: fix_at_ok)
  note s = settlesD [OF assms(1) x]
  have "f (own_prop w k) = Inr (own_prop w k, False)"
    using s x w assms(2) by (cases b; cases v) (auto simp: map_of_put_prop)
  then show "fix_at k f w = Inr (w, False) \<and> (\<not> b \<longrightarrow> w = v)" using w by (simp add: fix_at_ok)
qed

text \<open>\<open>g\<close> leaves what \<open>f\<close> settled.\<close>

definition leaves_settled :: "('a \<Rightarrow> 'a fixed) \<Rightarrow> ('a \<Rightarrow> 'a fixed) \<Rightarrow> bool" where
  "leaves_settled f g \<longleftrightarrow> (\<forall>v w b. f v = Inr (v, False) \<longrightarrow> g v = Inr (w, b) \<longrightarrow> f w = Inr (w, False))"

lemma settles_both:
  assumes "settles f" and "settles g" and "leaves_settled f g"
  shows "settles (fix_both f g)"
proof (rule settlesI)
  fix v w b
  assume "fix_both f g v = Inr (w, b)"
  then obtain u c d where u: "f v = Inr (u, c)" and w: "g u = Inr (w, d)" and b: "b = (c \<or> d)"
    by (auto simp: fix_both_def bind_sum_Inr)
  have "f w = Inr (w, False)" using assms(3) settlesD [OF assms(1) u] w unfolding leaves_settled_def by blast
  then show "fix_both f g w = Inr (w, False) \<and> (\<not> b \<longrightarrow> w = v)"
    using settlesD [OF assms(1) u] settlesD [OF assms(2) w] b by (simp add: fix_both_def)
qed

lemma leaves_at: "k \<noteq> l \<Longrightarrow> leaves_settled (fix_at k f) (fix_at l g)"
  by (auto simp: leaves_settled_def fix_at_ok)

lemma leaves_both: "leaves_settled f g \<Longrightarrow> leaves_settled f h \<Longrightarrow> leaves_settled f (fix_both g h)"
  unfolding leaves_settled_def fix_both_def bind_sum_Inr split_paired_Ex prod.case by blast

lemma canon_undefined: "canon cs JUndef = Inr (JUndef, False)"
  by (simp add: canon_def)

lemma fixAddress_undefined: "fixAddress cs JUndef = Inr (JUndef, False)"
  by (simp add: fixAddress_def fix_at_def canon_def)

lemma fix_at_truthy: "fix_at k f v = Inr (w, b) \<Longrightarrow> js_truthy w = js_truthy v"
  by (cases v) (auto simp: fix_at_ok split: if_splits)

lemma settles_address:
  assumes "fixes_checksums cs"
  shows "settles (fixAddress cs)"
proof -
  have "settles (fix_at ''address'' (canon cs))" by (rule settles_at settles_canon assms canon_undefined)+
  then show ?thesis by (simp add: settles_def fixAddress_def)
qed

lemma settles_impl:
  assumes "fixes_checksums cs"
  shows "settles (fix_impl cs)"
proof (rule settlesI)
  fix v w b
  assume r: "fix_impl cs v = Inr (w, b)"
  let ?all = "fix_at ''allAddresses'' (fix_elements (canon cs))"
  have all3: "settles ?all" by (rule settles_at settles_elements settles_canon assms)+ (simp add: fix_elements_def)
  have "leaves_settled (fixAddress cs) ?all"
    using leaves_at [of "''address''" "''allAddresses''"] by (simp add: leaves_settled_def fixAddress_def)
  then have s: "settles (fix_both (fixAddress cs) ?all)" using settles_both settles_address all3 assms by blast
  show "fix_impl cs w = Inr (w, False) \<and> (\<not> b \<longrightarrow> w = v)"
  proof (cases "js_truthy v")
    case True
    then have f: "fix_both (fixAddress cs) ?all v = Inr (w, b)" using r by (simp add: fix_impl_def)
    obtain u c d where u: "fixAddress cs v = Inr (u, c)" "?all u = Inr (w, d)"
      using f by (auto simp: fix_both_def bind_sum_Inr)
    have "js_truthy u = js_truthy v" using u(1) unfolding fixAddress_def by (rule fix_at_truthy)
    moreover have "js_truthy w = js_truthy u" using u(2) by (rule fix_at_truthy)
    ultimately have "js_truthy w" using True by simp
    then show ?thesis using settlesD [OF s f] by (simp add: fix_impl_def)
  qed (use r in \<open>auto simp: fix_impl_def\<close>)
qed

lemma settles_proxies:
  assumes "fixes_checksums cs"
  shows "settles (fix_proxies cs)"
proof (rule settlesI)
  fix v w b
  assume r: "fix_proxies cs v = Inr (w, b)"
  then have f: "fix_elements (fixAddress cs) v = Inr (w, b)" and m: "members_of v \<noteq> None"
    by (auto simp: fix_proxies_def split: if_splits)
  have "members_of w \<noteq> None"
    using f m by (cases v) (auto simp: fix_elements_def bind_sum_Inr)
  then show "fix_proxies cs w = Inr (w, False) \<and> (\<not> b \<longrightarrow> w = v)"
    using settlesD [OF settles_elements [OF settles_address [OF assms]] f] by (simp add: fix_proxies_def)
qed

lemma settles_rewrite:
  assumes "fixes_checksums cs"
  shows "settles (rewrite_data cs)"
proof -
  have "settles (fix_at ''proxies'' (fix_proxies cs))"
    by (rule settles_at settles_proxies assms)+ (simp add: fix_proxies_def fix_elements_def)
  moreover have "settles (fix_at ''impls'' (fix_entries (fix_impl cs)))"
    by (rule settles_at settles_entries settles_impl assms)+ (simp add: fix_entries_def)
  moreover have "settles (fix_at ''admin'' (fixAddress cs))"
    by (rule settles_at settles_address assms fixAddress_undefined)+
  ultimately have "settles (fix_both (fix_at ''proxies'' (fix_proxies cs))
      (fix_both (fix_at ''impls'' (fix_entries (fix_impl cs))) (fix_at ''admin'' (fixAddress cs))))"
    by (intro settles_both leaves_both leaves_at) simp_all
  then show ?thesis by (simp add: settles_def rewrite_data_def)
qed


section \<open>The record on the disk\<close>

text \<open>
  The migration of the record is a projection.  Where a checksummed address checksums to
  itself, what the rewrite makes of the record it leaves alone the next time, and when it reports
  no change the record is the very one it was given.
\<close>

theorem rewriting_the_record_settles_it:
  assumes "fixes_checksums cs" and "rewrite_data cs data = Inr (data', changed)"
  shows "rewrite_data cs data' = Inr (data', False) \<and> (if changed then True else data' = data)"
  using settlesD [OF settles_rewrite [OF assms(1)] assms(2)] by simp

text \<open>The lock runs the action it is given, on the state it finds, or raises its own error.\<close>

definition lock_runs :: "'w manifest \<Rightarrow> bool" where
  "lock_runs m \<longleftrightarrow>
     (\<forall>f s. mf_locked m f s = f s \<or> (\<exists>e w. mf_locked m f s = (Inl e, s\<lparr>hs_world := w\<rparr>)))"

definition log_extends :: "(hardhat_event \<Rightarrow> bool) \<Rightarrow> ('w, 'a) hio \<Rightarrow> bool" where
  "log_extends P m \<longleftrightarrow> (\<forall>s. \<exists>evs. hs_log (snd (m s)) = hs_log s @ evs \<and> list_all P evs)"

text \<open>What a call appends to the log, bounded along its steps.\<close>

named_theorems log_intros \<open>rules that bound what a call appends to the log\<close>

lemma log_basic [log_intros]:
  "log_extends P (return_io x)" "log_extends P (throw_io e)" "log_extends P (on_host h)" "log_extends P (refuse_if b e)"
  "log_extends P (pure_io r)" "log_extends P (read_manifest m)"
  by (auto simp: log_extends_def on_host_def refuse_if_def pure_io_def read_manifest_def split: prod.split)

lemma log_bind [log_intros]:
  assumes "log_extends P m" and "\<And>x. log_extends P (f x)"
  shows "log_extends P (bind_io m f)"
  unfolding log_extends_def
proof
  fix s
  obtain r t where m: "m s = (r, t)" by fastforce
  then obtain evs where evs: "hs_log t = hs_log s @ evs" "list_all P evs"
    using assms(1) unfolding log_extends_def by (metis snd_conv)
  show "\<exists>evs. hs_log (snd (bind_io m f s)) = hs_log s @ evs \<and> list_all P evs"
  proof (cases r)
    case (Inl e)
    then show ?thesis using m evs by (auto simp: bind_io_def)
  next
    case (Inr x)
    obtain more where "hs_log (snd (f x t)) = hs_log t @ more" "list_all P more"
      using assms(2) unfolding log_extends_def by blast
    then have "hs_log (snd (bind_io m f s)) = hs_log s @ (evs @ more) \<and> list_all P (evs @ more)"
      using m evs Inr by (simp add: bind_io_def)
    then show ?thesis by blast
  qed
qed

lemma log_if [log_intros]: "log_extends P m \<Longrightarrow> log_extends P n \<Longrightarrow> log_extends P (if b then m else n)"
  by simp

lemma log_event: "P ev \<Longrightarrow> log_extends P (log_hardhat ev)"
  by (auto simp: log_extends_def log_hardhat_def)

lemma log_write: "(\<And>d. P (WroteManifest d)) \<Longrightarrow> log_extends P (write_manifest m d)"
  unfolding write_manifest_def by (rule log_intros log_event | simp)+

lemma log_locked:
  assumes "lock_runs m" and "log_extends P f"
  shows "log_extends P (mf_locked m f)"
  unfolding log_extends_def
proof
  fix s
  show "\<exists>evs. hs_log (snd (mf_locked m f s)) = hs_log s @ evs \<and> list_all P evs"
  proof (cases "mf_locked m f s = f s")
    case True
    then show ?thesis using assms(2) by (simp add: log_extends_def)
  next
    case False
    then obtain e w where "mf_locked m f s = (Inl e, s\<lparr>hs_world := w\<rparr>)" using assms(1) unfolding lock_runs_def by blast
    then show ?thesis by (intro exI [of _ "[]"]) simp
  qed
qed

section \<open>The merge\<close>

lemma set_keep_first [simp]: "set (keep_first xs) = set xs"
  by (induction xs) auto

lemma distinct_keep_first: "distinct (keep_first xs)"
  by (induction xs) auto

text \<open>
  C31: Recording an implementation never loses one.  Every other version's entry is untouched; an
  entry of the same version keeps its primary address, its layout and everything else it holds,
  and lists exactly the addresses it knew and the new one, each once; a new version's entry is
  the address with the layout that was validated.
\<close>

theorem recording_an_implementation_never_loses_one:
  assumes "merge_impl (JObj impls) c address hash = Some merged"
  shows "(\<forall>k. if k = uc_key c then True else own_prop merged k = own_prop (JObj impls) k) \<and>
    (case own_prop (JObj impls) (uc_key c) of
       JObj old \<Rightarrow>
         (\<forall>k. if k = ''allAddresses'' then True
              else own_prop (own_prop merged (uc_key c)) k = own_prop (JObj old) k) \<and>
         (\<exists>known addresses. members_of (own_prop (JObj old) ''allAddresses'') = Some known \<and>
            own_prop (own_prop merged (uc_key c)) ''allAddresses'' = JArr addresses \<and> distinct addresses \<and>
            set addresses = {own_prop (JObj old) ''address'', JStr address} \<union> set known)
     | JUndef \<Rightarrow>
         own_prop merged (uc_key c) = JObj [(''address'', JStr address), (''txHash'', hash), (''layout'', uc_layout c)]
     | _ \<Rightarrow> True)"
proof (cases "own_prop (JObj impls) (uc_key c)")
  case (JObj old)
  then obtain known where k: "members_of (own_prop (JObj old) ''allAddresses'') = Some known"
    and m: "merged = set_prop (JObj impls) (uc_key c)
        (set_prop (JObj old) ''allAddresses''
          (JArr (keep_first (own_prop (JObj old) ''address'' # JStr address # known))))"
    using assms by (auto simp: merge_impl_def get_prop_def)
  show ?thesis
    unfolding JObj js.case m using k distinct_keep_first [of "own_prop (JObj old) ''address'' # JStr address # known"]
    by (auto simp: map_of_put_prop)
next
  case JUndef
  then show ?thesis using assms by (auto simp: merge_impl_def get_prop_def map_of_put_prop)
qed (use assms in \<open>auto simp: merge_impl_def get_prop_def map_of_put_prop split: if_splits option.splits\<close>)


definition is_rewrite :: "(string \<Rightarrow> js + string) \<Rightarrow> hardhat_event \<Rightarrow> bool" where
  "is_rewrite cs ev \<longleftrightarrow>
     (case ev of WroteManifest d \<Rightarrow> \<exists>d0. rewrite_data cs d0 = Inr (d, True) | _ \<Rightarrow> False)"

text \<open>
  Loading the record writes it only to bring its addresses into one form.  Whatever happens
  while the manifest is loaded, nothing is sent, and every write is of a record that needed the
  rewrite, as the rewrite made it; beside a legacy record nothing at all is read or written.
\<close>

theorem loading_the_record_writes_only_its_rewrite:
  assumes "lock_runs m" and "getManifest legacy cs m s = (r, t)"
  shows "(\<exists>evs. hs_log t = hs_log s @ evs \<and>
      list_all (is_rewrite cs) evs) \<and>
    (if legacy then r = Inl LegacyRecord \<and> t = s else True)"
proof -
  let ?P = "is_rewrite cs"
  have w: "log_extends ?P (write_manifest m d)" if "rewrite_data cs d0 = Inr (d, True)" for d d0
    unfolding write_manifest_def by (intro log_intros log_event) (use that in \<open>auto simp: is_rewrite_def\<close>)
  have body: "log_extends ?P (bind_io (bind_io (read_manifest m) (\<lambda>d. pure_io (rewrite_data cs d)))
      (\<lambda>(d, again). if again then write_manifest m d else return_io ()))"
    unfolding log_extends_def
  proof
    fix s
    obtain x u where x: "bind_io (read_manifest m) (\<lambda>d. pure_io (rewrite_data cs d)) s = (x, u)" by fastforce
    have "log_extends ?P (bind_io (read_manifest m) (\<lambda>d. pure_io (rewrite_data cs d)))" by (rule log_intros)+
    then obtain evs where e: "hs_log u = hs_log s @ evs" "list_all ?P evs"
      using x unfolding log_extends_def by (metis snd_conv)
    show "\<exists>evs. hs_log (snd (bind_io (bind_io (read_manifest m) (\<lambda>d. pure_io (rewrite_data cs d)))
        (\<lambda>(d, again). if again then write_manifest m d else return_io ()) s)) = hs_log s @ evs \<and> list_all ?P evs"
    proof (cases "\<exists>d. x = Inr (d, True)")
      case True
      then obtain d where d: "x = Inr (d, True)" by blast
      then obtain d0 u0 where "rewrite_data cs d0 = Inr (d, True)"
        using x by (auto elim!: bind_io_InrE simp: pure_io_def)
      from w [OF this] obtain more where "hs_log (snd (write_manifest m d u)) = hs_log u @ more" "list_all ?P more"
        unfolding log_extends_def by blast
      then show ?thesis using x d e by (intro exI [of _ "evs @ more"]) (simp add: bind_io_def)
    next
      case False
      then have "snd (bind_io (bind_io (read_manifest m) (\<lambda>d. pure_io (rewrite_data cs d)))
          (\<lambda>(d, again). if again then write_manifest m d else return_io ()) s) = u"
        using x by (cases x) (auto simp: bind_io_def)
      then show ?thesis using e by auto
    qed
  qed
  have "log_extends ?P (canonicalizeStoredAddresses cs m)"
    unfolding canonicalizeStoredAddresses_def
  proof (intro log_bind log_basic)
    fix x :: "js \<times> bool"
    show "log_extends ?P (case x of (_, changed) \<Rightarrow> if \<not> changed then return_io () else mf_locked m
        (bind_io (bind_io (read_manifest m) (\<lambda>d. pure_io (rewrite_data cs d)))
          (\<lambda>(d, again). if again then write_manifest m d else return_io ())))"
      by (cases x) (simp add: log_basic log_locked [OF assms(1) body])
  qed
  then have "log_extends ?P (getManifest legacy cs m)" unfolding getManifest_def by (intro log_intros) assumption
  then have "\<exists>evs. hs_log t = hs_log s @ evs \<and> list_all ?P evs" using assms(2) unfolding log_extends_def by (metis snd_conv)
  moreover have "r = Inl LegacyRecord \<and> t = s" if legacy
    using assms(2) that by (auto simp: getManifest_def refuse_if_def)
  ultimately show ?thesis by simp
qed

text \<open>A record kept in memory, and checksums that are upper case.\<close>

definition memory_manifest :: "js manifest" where
  "memory_manifest = \<lparr>mf_read = (\<lambda>d. (Inr d, d)), mf_write = (\<lambda>d _. (Inr (), d)), mf_locked = id\<rparr>"

definition demo_checksum :: "string \<Rightarrow> js + string" where
  "demo_checksum a = Inr (map (\<lambda>c. if c = CHR ''a'' then CHR ''A'' else c) a)"

definition demo_stored :: "char \<Rightarrow> js" where
  "demo_stored c = JObj [(''proxies'', JArr [JObj [(''address'', JStr (''0x'' @ replicate 40 c))]]), (''impls'', JObj [])]"

lemma demo_lock: "lock_runs memory_manifest"
  by (simp add: lock_runs_def memory_manifest_def)

lemma demo_checksum_fixes: "fixes_checksums demo_checksum"
  by (auto simp: fixes_checksums_def demo_checksum_def)

lemma demo_rewrites: "rewrite_data demo_checksum (demo_stored (CHR ''a'')) = Inr (demo_stored (CHR ''A''), True)"
  by code_simp

theorem rewriting_the_record_settles_it_witness:
  "rewrite_data demo_checksum (demo_stored (CHR ''A'')) = Inr (demo_stored (CHR ''A''), False)"
  using rewriting_the_record_settles_it [OF demo_checksum_fixes demo_rewrites] by simp

theorem loading_the_record_writes_only_its_rewrite_witness:
  "\<exists>r t evs. getManifest False demo_checksum memory_manifest \<lparr>hs_world = demo_stored (CHR ''a''), hs_log = []\<rparr> = (r, t) \<and>
     hs_log t = evs \<and> evs = [WroteManifest (demo_stored (CHR ''A''))] \<and>
     list_all (is_rewrite demo_checksum) evs"
proof -
  let ?s = "\<lparr>hs_world = demo_stored (CHR ''a''), hs_log = []\<rparr>"
  obtain r t where run: "getManifest False demo_checksum memory_manifest ?s = (r, t)" by fastforce
  have "hs_log t = [WroteManifest (demo_stored (CHR ''A''))]"
    using run demo_rewrites
    by (simp add: getManifest_def refuse_if_def canonicalizeStoredAddresses_def read_manifest_def write_manifest_def
        on_host_def pure_io_def log_hardhat_def memory_manifest_def bind_io_def)
      auto
  then show ?thesis
    using loading_the_record_writes_only_its_rewrite [OF demo_lock run] run by auto
qed

theorem recording_an_implementation_never_loses_one_witness:
  "\<exists>merged. merge_impl (JObj [(''v'', JObj [(''address'', JStr ''1''), (''layout'', JNull)])])
       \<lparr>uc_name = ''C'', uc_key = ''v'', uc_version = JNull, uc_layout = JObj [], uc_abi = JNull, uc_validations = JNull, uc_safe = True\<rparr>
       ''2'' JUndef = Some merged \<and>
     own_prop (own_prop merged ''v'') ''layout'' = JNull"
proof -
  let ?c = "\<lparr>uc_name = ''C'', uc_key = ''v'', uc_version = JNull, uc_layout = JObj [], uc_abi = JNull,
    uc_validations = JNull, uc_safe = True\<rparr>"
  let ?impls = "[(''v'', JObj [(''address'', JStr ''1''), (''layout'', JNull)])]"
  obtain merged where m: "merge_impl (JObj ?impls) ?c ''2'' JUndef = Some merged"
    by (simp add: merge_impl_def get_prop_def)
  have k: "own_prop (JObj ?impls) (uc_key ?c) = JObj [(''address'', JStr ''1''), (''layout'', JNull)]" by simp
  have "\<forall>k. if k = ''allAddresses'' then True else own_prop (own_prop merged (uc_key ?c)) k =
      own_prop (JObj [(''address'', JStr ''1''), (''layout'', JNull)]) k"
    using recording_an_implementation_never_loses_one [OF m, THEN conjunct2] unfolding k js.case by (rule conjunct1)
  from spec [OF this, of "''layout''"] have "own_prop (own_prop merged ''v'') ''layout'' = JNull" by simp
  then show ?thesis using m by blast
qed

end
