(* ===== verification/HardhatNamespaced.thy ===== *)
theory HardhatNamespaced
  imports HardhatManifest
begin

text \<open>
  \<open>utils/namespaced.ts\<close> and \<open>utils/validations.ts\<close> of the Hardhat plugin: the second compilation
  that namespaced storage needs, its cache in memory and beside the build info, and the draft of a
  contract that validation starts from.

  The cache holds outcomes only.  How bad a failed compilation is, is decided where the outcome is
  used, from the setting of that moment.  The compiler and the engine are parameters; what is on
  the disk is its parsed JSON, nothing where the file is missing, unreadable or not JSON.
\<close>

section \<open>Entries\<close>

datatype cache_entry = CachedOutput js | CachedUnsupported | CachedFailed "js list"

definition CACHE_SCHEMA :: js where
  "CACHE_SCHEMA = JNum (NInt 2)"

definition isCacheEntry :: "js \<Rightarrow> cache_entry option" where
  "isCacheEntry v =
     (if own_prop v ''schema'' \<noteq> CACHE_SCHEMA then None
      else if own_prop v ''kind'' = JStr ''output''
      then (if is_nullish (own_prop v ''output'') then None else Some (CachedOutput (own_prop v ''output'')))
      else if own_prop v ''kind'' = JStr ''unsupported'' then Some CachedUnsupported
      else if own_prop v ''kind'' = JStr ''compile-failed''
      then (case own_prop v ''errorLines'' of JArr ls \<Rightarrow> Some (CachedFailed ls) | _ \<Rightarrow> None)
      else None)"

fun entry_value :: "cache_entry \<Rightarrow> js" where
  "entry_value (CachedOutput o1) = JObj [(''schema'', CACHE_SCHEMA), (''kind'', JStr ''output''), (''output'', o1)]"
| "entry_value CachedUnsupported = JObj [(''schema'', CACHE_SCHEMA), (''kind'', JStr ''unsupported'')]"
| "entry_value (CachedFailed ls) =
     JObj [(''schema'', CACHE_SCHEMA), (''kind'', JStr ''compile-failed''), (''errorLines'', JArr ls)]"

text \<open>What \<open>JSON.parse\<close> gives for what \<open>JSON.stringify\<close> wrote; an undefined value is dropped.\<close>

fun jsonable :: "js \<Rightarrow> js" where
  "jsonable (JNum n) = (case n of NInf _ \<Rightarrow> JNull | NNaN \<Rightarrow> JNull | _ \<Rightarrow> JNum n)"
| "jsonable (JArr xs) = JArr (map (\<lambda>x. or_nullish (jsonable x) JNull) xs)"
| "jsonable (JObj ps) = JObj (filter (\<lambda>(k, v). v \<noteq> JUndef) (map (\<lambda>(k, v). (k, jsonable v)) ps))"
| "jsonable JFun = JUndef"
| "jsonable v = v"

section \<open>Annotations in an AST\<close>

lemma own_prop_size: "own_prop v k = JArr xs \<Longrightarrow> x \<in> set xs \<Longrightarrow> size x < size v"
proof (cases v)
  case (JObj ps)
  assume "own_prop v k = JArr xs" "x \<in> set xs"
  then have "(k, JArr xs) \<in> set ps" using JObj by (auto split: option.splits dest: map_of_SomeD)
  then have "size_prod (\<lambda>_. 0) size (k, JArr xs) \<le> size_list (size_prod (\<lambda>_. 0) size) ps"
    by (rule size_list_estimation') simp
  moreover have "size x < size (JArr xs)"
    using \<open>x \<in> set xs\<close> size_list_estimation' [of x xs "size x" size] by simp
  ultimately show ?thesis using JObj by simp
qed simp_all

function astHasStorageLocation :: "js \<Rightarrow> bool" where
  "astHasStorageLocation node =
     (let doc = own_prop node ''documentation'';
          text = (case doc of JStr s \<Rightarrow> s | _ \<Rightarrow> (case own_prop doc ''text'' of JStr s \<Rightarrow> s | _ \<Rightarrow> []))
      in js_includes storage_tag text \<or>
         (case own_prop node ''nodes'' of
            JArr ns \<Rightarrow> list_ex astHasStorageLocation ns
          | _ \<Rightarrow> False))"
  by pat_completeness auto
termination by (relation "measure size") (auto intro: own_prop_size)

declare astHasStorageLocation.simps [simp del]

definition buildInfoHasNamespaces :: "js \<Rightarrow> bool" where
  "buildInfoHasNamespaces buildInfo =
     list_ex (\<lambda>(_, s). astHasStorageLocation (own_prop s ''ast'')) (entries_of (output_of buildInfo))"

section \<open>The second compilation\<close>

record build_info =
  bi_id :: string
  bi_value :: js

text \<open>\<open>nv_compile\<close> makes the input, sanitizes it and compiles it; a raise is \<open>Inl\<close>.\<close>

record namespaced_env =
  nv_supported :: "js \<Rightarrow> js + bool"
  nv_compile :: "js \<Rightarrow> js + js"
  nv_writable :: "string \<Rightarrow> bool"

record namespaced_state =
  nz_memory :: "string \<rightharpoonup> cache_entry"
  nz_disk :: "string \<rightharpoonup> js"
  nz_warned :: "string list"
  nz_warnings :: "(string \<times> js list) list"
  nz_compiled :: "string list"

type_synonym 'a nio = "(namespaced_state, hardhat_error, 'a) io"

definition error_lines :: "js \<Rightarrow> js list option" where
  "error_lines output =
     (case members_of (own_prop output ''errors'') of
        None \<Rightarrow> None
      | Some es \<Rightarrow>
          map_option concat
            (map_raise (\<lambda>e. map_option (\<lambda>severity.
                 if severity = JStr ''error'' then [or_nullish (own_prop e ''formattedMessage'') (own_prop e ''message'')] else [])
               (get_prop e ''severity'')) es))"

definition entry_of_output :: "js \<Rightarrow> hardhat_error + cache_entry" where
  "entry_of_output output =
     (case error_lines output of
        None \<Rightarrow> Inl TypeErrorThrown
      | Some ls \<Rightarrow> Inr (if ls \<noteq> [] then CachedFailed ls else CachedOutput output))"

definition computeNamespacedEntry :: "namespaced_env \<Rightarrow> build_info \<Rightarrow> cache_entry nio" where
  "computeNamespacedEntry env bi s =
     (case nv_supported env (bi_value bi) of
        Inl e \<Rightarrow> (Inl (HostRaised e), s)
      | Inr False \<Rightarrow> (Inr CachedUnsupported, s)
      | Inr True \<Rightarrow>
          (let t = s\<lparr>nz_compiled := nz_compiled s @ [bi_id bi]\<rparr>
           in case nv_compile env (bi_value bi) of
                Inl e \<Rightarrow> (Inl (HostRaised e), t)
              | Inr output \<Rightarrow> (entry_of_output output, t)))"

definition remember :: "string \<Rightarrow> cache_entry \<Rightarrow> unit nio" where
  "remember i e s = (Inr (), s\<lparr>nz_memory := (nz_memory s)(i \<mapsto> e)\<rparr>)"

definition write_entry :: "namespaced_env \<Rightarrow> string \<Rightarrow> cache_entry \<Rightarrow> unit nio" where
  "write_entry env i e s =
     (Inr (), if nv_writable env i then s\<lparr>nz_disk := (nz_disk s)(i \<mapsto> jsonable (entry_value e))\<rparr> else s)"

definition resolveNamespacedEntry :: "namespaced_env \<Rightarrow> build_info \<Rightarrow> cache_entry nio" where
  "resolveNamespacedEntry env bi s =
     (case nz_memory s (bi_id bi) of
        Some e \<Rightarrow> (Inr e, s)
      | None \<Rightarrow>
          (case Option.bind (nz_disk s (bi_id bi)) isCacheEntry of
             Some e \<Rightarrow> bind_io (remember (bi_id bi) e) (\<lambda>_. return_io e) s
           | None \<Rightarrow>
               bind_io (computeNamespacedEntry env bi) (\<lambda>e.
               bind_io (remember (bi_id bi) e) (\<lambda>_.
               bind_io (write_entry env (bi_id bi) e) (\<lambda>_. return_io e))) s))"

section \<open>Severity\<close>

definition warnNamespacedFallback :: "string \<Rightarrow> js list \<Rightarrow> unit nio" where
  "warnNamespacedFallback i lines s =
     (Inr (), if i \<in> set (nz_warned s) then s
              else s\<lparr>nz_warned := nz_warned s @ [i], nz_warnings := nz_warnings s @ [(i, lines)]\<rparr>)"

definition fallback_line :: js where
  "fallback_line = JStr ''Failed to compile the modified contracts for namespaced storage-layout validation; falling back to AST-only checks for namespaced storage.''"

text \<open>The setting, \<open>error\<close> where it is missing; a value that is no rule does nothing.\<close>

definition reportNamespacedCompileFailure :: "js \<Rightarrow> string \<Rightarrow> js list \<Rightarrow> unit nio" where
  "reportNamespacedCompileFailure setting i lines =
     (let rule = or_nullish setting (JStr ''error'')
      in if rule = JStr ''error'' then throw_io (NamespacedCompile i lines)
         else if rule = JStr ''warn'' then warnNamespacedFallback i (fallback_line # lines)
         else return_io ())"

definition getNamespacedOutput :: "namespaced_env \<Rightarrow> js \<Rightarrow> build_info \<Rightarrow> js option nio" where
  "getNamespacedOutput env setting bi =
     bind_io (resolveNamespacedEntry env bi) (\<lambda>entry.
       case entry of
         CachedOutput output \<Rightarrow> return_io (Some output)
       | CachedUnsupported \<Rightarrow>
           bind_io (if buildInfoHasNamespaces (bi_value bi) then warnNamespacedFallback (bi_id bi) [] else return_io ())
             (\<lambda>_. return_io None)
       | CachedFailed lines \<Rightarrow>
           bind_io (reportNamespacedCompileFailure setting (bi_id bi) lines) (\<lambda>_. return_io None))"

text \<open>The warm-up after a compilation: every failure but the deliberate one is swallowed.\<close>

fun warmNamespacedCache :: "namespaced_env \<Rightarrow> js \<Rightarrow> build_info option list \<Rightarrow> unit nio" where
  "warmNamespacedCache env setting [] = return_io ()"
| "warmNamespacedCache env setting (p # ps) =
     bind_io
       (case p of
          None \<Rightarrow> return_io ()
        | Some bi \<Rightarrow>
            catch_io (bind_io (getNamespacedOutput env setting bi) (\<lambda>_. return_io ()))
              (\<lambda>e. case e of NamespacedCompile _ _ \<Rightarrow> throw_io e | _ \<Rightarrow> return_io ()))
       (\<lambda>_. warmNamespacedCache env setting ps)"

text \<open>The compile task: its result, once the cache is warm; only the deliberate failure ends it.\<close>

definition compile_task :: "namespaced_env \<Rightarrow> js \<Rightarrow> build_info option list \<Rightarrow> js nio \<Rightarrow> js nio" where
  "compile_task env setting builds runSuper =
     bind_io runSuper (\<lambda>result.
     bind_io (catch_io (warmNamespacedCache env setting builds)
                (\<lambda>e. case e of NamespacedCompile _ _ \<Rightarrow> throw_io e | _ \<Rightarrow> return_io ())) (\<lambda>_. return_io result))"

section \<open>The draft of a contract\<close>

text \<open>
  The host's artifacts and the engine: an artifact by name; the build info of a qualified name,
  none where there is none; validations over a build info and a namespaced output; the version of
  an artifact with constructor arguments; whether the engine has no error for it; its layout.
\<close>

record draft_env =
  dr_artifact :: "string \<Rightarrow> js + js"
  dr_buildInfo :: "string \<Rightarrow> js + build_info option"
  dr_validate :: "js \<Rightarrow> js option \<Rightarrow> js + js"
  dr_version :: "js \<Rightarrow> js \<Rightarrow> js \<Rightarrow> js + js"
  dr_safe :: "js \<Rightarrow> js \<Rightarrow> js \<Rightarrow> js + bool"
  dr_layout :: "js \<Rightarrow> js \<Rightarrow> js + js"

definition text_of_js :: "js \<Rightarrow> string" where
  "text_of_js v = (case v of JStr s \<Rightarrow> s | _ \<Rightarrow> ''undefined'')"

definition host_io :: "js + 'a \<Rightarrow> 'a nio" where
  "host_io r = lift_io (map_sum HostRaised id r)"

definition validation_options :: "js \<Rightarrow> js" where
  "validation_options opts =
     JObj [(''kind'', or_nullish (own_prop opts ''kind'') (JStr ''transparent'')),
       (''unsafeAllow'', own_prop opts ''unsafeAllow''), (''unsafeAllowRenames'', own_prop opts ''unsafeAllowRenames''),
       (''unsafeSkipStorageCheck'', own_prop opts ''unsafeSkipStorageCheck'')]"

definition upgradeableContractFor :: "draft_env \<Rightarrow> namespaced_env \<Rightarrow> js \<Rightarrow> string \<Rightarrow> js \<Rightarrow> upgradeable nio" where
  "upgradeableContractFor dr env setting contractName opts =
     bind_io (host_io (dr_artifact dr contractName)) (\<lambda>artifact.
     let fqName = text_of_js (own_prop artifact ''sourceName'') @ '':'' @ text_of_js (own_prop artifact ''contractName'') in
     bind_io (host_io (dr_buildInfo dr fqName)) (\<lambda>found.
       case found of
         None \<Rightarrow> throw_io (BuildInfoMissing fqName)
       | Some bi \<Rightarrow>
           bind_io (lift_io (assertNoNamespaceSlotCollisions (bi_value bi) fqName)) (\<lambda>_.
           bind_io (getNamespacedOutput env setting bi) (\<lambda>namespacedOutput.
           bind_io (host_io (dr_validate dr (bi_value bi) namespacedOutput)) (\<lambda>validations.
           bind_io (host_io (dr_version dr validations artifact (or_nullish (own_prop opts ''constructorArgs'') (JArr [])))) (\<lambda>version.
           bind_io (host_io (dr_safe dr validations version (validation_options opts))) (\<lambda>safe.
           bind_io (host_io (dr_layout dr validations version)) (\<lambda>layout.
             return_io
               \<lparr>uc_name = contractName, uc_key = text_of_js (own_prop version ''linkedWithoutMetadata''),
                uc_version = version, uc_layout = layout, uc_abi = own_prop artifact ''abi'',
                uc_validations = validations, uc_safe = safe\<rparr>))))))))"

section \<open>The cache against no cache\<close>

definition compute_outcome :: "namespaced_env \<Rightarrow> build_info \<Rightarrow> hardhat_error + cache_entry" where
  "compute_outcome env bi =
     (case nv_supported env (bi_value bi) of
        Inl e \<Rightarrow> Inl (HostRaised e)
      | Inr False \<Rightarrow> Inr CachedUnsupported
      | Inr True \<Rightarrow> (case nv_compile env (bi_value bi) of Inl e \<Rightarrow> Inl (HostRaised e) | Inr output \<Rightarrow> entry_of_output output))"

text \<open>What a call gives that compiles every time and applies the setting of the moment.\<close>

definition reference_output :: "namespaced_env \<Rightarrow> js \<Rightarrow> build_info \<Rightarrow> hardhat_error + js option" where
  "reference_output env setting bi =
     bind_sum (compute_outcome env bi) (\<lambda>e. case e of
         CachedOutput output \<Rightarrow> Inr (Some output)
       | CachedUnsupported \<Rightarrow> Inr None
       | CachedFailed lines \<Rightarrow>
           if or_nullish setting (JStr ''error'') = JStr ''error'' then Inl (NamespacedCompile (bi_id bi) lines) else Inr None)"

text \<open>Calls of one process after another; a new process keeps the disk only.\<close>

datatype namespaced_action = Consult js build_info | NewProcess

fun run_actions ::
  "namespaced_env \<Rightarrow> namespaced_action list \<Rightarrow> namespaced_state \<Rightarrow> (hardhat_error + js option) list \<times> namespaced_state" where
  "run_actions env [] s = ([], s)"
| "run_actions env (Consult setting bi # as) s =
     (case getNamespacedOutput env setting bi s of
        (r, t) \<Rightarrow> (case run_actions env as t of (rs, u) \<Rightarrow> (r # rs, u)))"
| "run_actions env (NewProcess # as) s =
     run_actions env as (s\<lparr>nz_memory := Map.empty, nz_warned := [], nz_warnings := [], nz_compiled := []\<rparr>)"

definition reference_results :: "namespaced_env \<Rightarrow> namespaced_action list \<Rightarrow> (hardhat_error + js option) list" where
  "reference_results env as =
     concat (map (\<lambda>a. case a of Consult setting bi \<Rightarrow> [reference_output env setting bi] | NewProcess \<Rightarrow> []) as)"

text \<open>
  The id of a build info is a hash of its content: \<open>catalog\<close> is the build info of an id.  An
  outcome survives the disk when it reads back as it was written.
\<close>

definition drawn_from :: "(string \<Rightarrow> build_info) \<Rightarrow> namespaced_action \<Rightarrow> bool" where
  "drawn_from catalog a \<longleftrightarrow> (case a of Consult _ bi \<Rightarrow> bi = catalog (bi_id bi) | NewProcess \<Rightarrow> True)"

definition survives_the_disk :: "namespaced_env \<Rightarrow> (string \<Rightarrow> build_info) \<Rightarrow> bool" where
  "survives_the_disk env catalog \<longleftrightarrow>
     (\<forall>i e. compute_outcome env (catalog i) = Inr e \<longrightarrow> isCacheEntry (jsonable (entry_value e)) = Some e)"

definition honest_caches :: "namespaced_env \<Rightarrow> (string \<Rightarrow> build_info) \<Rightarrow> namespaced_state \<Rightarrow> bool" where
  "honest_caches env catalog s \<longleftrightarrow>
     (\<forall>i e. nz_memory s i = Some e \<or> Option.bind (nz_disk s i) isCacheEntry = Some e \<longrightarrow>
        compute_outcome env (catalog i) = Inr e)"

lemma compute_run:
  "computeNamespacedEntry env bi s =
     (compute_outcome env bi,
      if nv_supported env (bi_value bi) = Inr True then s\<lparr>nz_compiled := nz_compiled s @ [bi_id bi]\<rparr> else s)"
  by (auto simp: computeNamespacedEntry_def compute_outcome_def Let_def split: sum.split bool.split)

text \<open>One lookup: the outcome, and what may have changed.\<close>

lemma resolve_run:
  assumes h: "honest_caches env catalog s" and d: "survives_the_disk env catalog" and c: "bi = catalog (bi_id bi)"
    and r: "resolveNamespacedEntry env bi s = (r, t)"
  shows "r = compute_outcome env bi \<and> honest_caches env catalog t \<and>
    nz_warned t = nz_warned s \<and> nz_warnings t = nz_warnings s \<and>
    (if nz_memory s (bi_id bi) \<noteq> None then t = s
     else (nz_compiled t = nz_compiled s \<or> nz_compiled t = nz_compiled s @ [bi_id bi]) \<and>
       (\<forall>i. i \<noteq> bi_id bi \<longrightarrow> nz_memory t i = nz_memory s i) \<and>
       (\<forall>e. r = Inr e \<longrightarrow> nz_memory t (bi_id bi) = Some e))"
proof (cases "nz_memory s (bi_id bi)")
  case (Some e)
  then have "compute_outcome env (catalog (bi_id bi)) = Inr e" using h by (simp add: honest_caches_def)
  then show ?thesis using r h c Some by (simp add: resolveNamespacedEntry_def)
next
  case memory: None
  show ?thesis
  proof (cases "Option.bind (nz_disk s (bi_id bi)) isCacheEntry")
    case (Some e)
    then have e: "compute_outcome env (catalog (bi_id bi)) = Inr e" using h by (simp add: honest_caches_def)
    have "r = Inr e" "t = s\<lparr>nz_memory := (nz_memory s)(bi_id bi \<mapsto> e)\<rparr>"
      using r memory Some by (auto simp: resolveNamespacedEntry_def remember_def bind_io_def)
    then show ?thesis using memory h e c by (auto simp: honest_caches_def)
  next
    case None
    define u where "u = (if nv_supported env (bi_value bi) = Inr True then s\<lparr>nz_compiled := nz_compiled s @ [bi_id bi]\<rparr> else s)"
    have run: "computeNamespacedEntry env bi s = (compute_outcome env bi, u)" by (simp add: compute_run u_def)
    show ?thesis
    proof (cases "compute_outcome env bi")
      case (Inl err)
      then have "r = Inl err" "t = u" using r memory None run by (auto simp: resolveNamespacedEntry_def bind_io_def)
      then show ?thesis using Inl memory h by (auto simp: honest_caches_def u_def)
    next
      case (Inr e)
      have e: "compute_outcome env (catalog (bi_id bi)) = Inr e" using Inr c by simp
      have b: "isCacheEntry (jsonable (entry_value e)) = Some e" using d e unfolding survives_the_disk_def by blast
      have "r = Inr e" and t: "t = (if nv_writable env (bi_id bi)
            then u\<lparr>nz_memory := (nz_memory u)(bi_id bi \<mapsto> e), nz_disk := (nz_disk u)(bi_id bi \<mapsto> jsonable (entry_value e))\<rparr>
            else u\<lparr>nz_memory := (nz_memory u)(bi_id bi \<mapsto> e)\<rparr>)"
        using r memory None run Inr
        by (auto simp: resolveNamespacedEntry_def remember_def write_entry_def bind_io_def)
      moreover have "honest_caches env catalog t" using t e b h by (auto simp: honest_caches_def u_def)
      ultimately show ?thesis using Inr memory by (auto simp: u_def)
    qed
  qed
qed

lemma warn_run:
  "warnNamespacedFallback i ls s = (Inr (), t) \<Longrightarrow>
     nz_memory t = nz_memory s \<and> nz_disk t = nz_disk s \<and> nz_compiled t = nz_compiled s \<and>
     (map fst (nz_warnings s) = nz_warned s \<and> distinct (nz_warned s) \<longrightarrow>
        map fst (nz_warnings t) = nz_warned t \<and> distinct (nz_warned t))"
  by (auto simp: warnNamespacedFallback_def split: if_splits)

lemma honest_fields: "nz_memory t = nz_memory s \<Longrightarrow> nz_disk t = nz_disk s \<Longrightarrow> honest_caches env catalog s \<Longrightarrow> honest_caches env catalog t"
  by (simp add: honest_caches_def)


text \<open>Within a process: warned once, compiled once where the compilation has an outcome.\<close>

definition once_each :: "namespaced_env \<Rightarrow> (string \<Rightarrow> build_info) \<Rightarrow> namespaced_state \<Rightarrow> bool" where
  "once_each env catalog s \<longleftrightarrow>
     map fst (nz_warnings s) = nz_warned s \<and> distinct (nz_warned s) \<and>
     (\<forall>i e. compute_outcome env (catalog i) = Inr e \<longrightarrow>
        count_list (nz_compiled s) i \<le> (if nz_memory s i = None then 0 else 1))"

lemma resolve_once:
  assumes "honest_caches env catalog s" and "survives_the_disk env catalog" and c: "bi = catalog (bi_id bi)"
    and "resolveNamespacedEntry env bi s = (r, t)" and o1: "once_each env catalog s"
  shows "once_each env catalog t"
proof -
  note run = resolve_run [OF assms(1-4)]
  show ?thesis
  proof (cases "nz_memory s (bi_id bi)")
    case (Some e)
    then show ?thesis using run o1 by simp
  next
    case None
    have "count_list (nz_compiled t) i \<le> (if nz_memory t i = None then 0 else 1)"
      if i: "compute_outcome env (catalog i) = Inr e" for i e
    proof (cases "i = bi_id bi")
      case True
      then have "compute_outcome env bi = Inr e" using i c by simp
      then have "r = Inr e" using run by simp
      then have m: "nz_memory t i = Some e" using run None True by simp
      have "count_list (nz_compiled s) i \<le> (if nz_memory s i = None then 0 else 1)"
        using o1 i unfolding once_each_def by blast
      then have "count_list (nz_compiled s) i = 0" using None True by simp
      then show ?thesis using run None True m by auto
    next
      case False
      then have "count_list (nz_compiled t) i = count_list (nz_compiled s) i" "nz_memory t i = nz_memory s i"
        using run None by auto
      then show ?thesis using o1 i unfolding once_each_def by simp
    qed
    then show ?thesis using run o1 unfolding once_each_def by simp
  qed
qed

lemma consult_run:
  assumes h: "honest_caches env catalog s" and d: "survives_the_disk env catalog" and c: "bi = catalog (bi_id bi)"
    and o1: "once_each env catalog s" and r: "getNamespacedOutput env setting bi s = (r, t)"
  shows "r = reference_output env setting bi \<and> honest_caches env catalog t \<and> once_each env catalog t"
proof -
  obtain x u where u: "resolveNamespacedEntry env bi s = (x, u)" by fastforce
  note run = resolve_run [OF h d c u] and once = resolve_once [OF h d c u o1]
  have kept: "honest_caches env catalog v \<and> once_each env catalog v"
    if "warnNamespacedFallback i ls u = (Inr (), v)" for i ls v
  proof -
    note w = warn_run [OF that]
    have "honest_caches env catalog u" using run by blast
    then have "honest_caches env catalog v" by (rule honest_fields [rotated 2]) (use w in blast)+
    moreover have "once_each env catalog v" unfolding once_each_def
      using w once [unfolded once_each_def] by (simp only: simp_thms) blast
    ultimately show ?thesis by blast
  qed
  show ?thesis
  proof (cases x)
    case (Inl e)
    then show ?thesis using r u run once by (auto simp: getNamespacedOutput_def reference_output_def bind_io_def)
  next
    case (Inr entry)
    obtain v where v: "warnNamespacedFallback (bi_id bi) [] u = (Inr (), v)" by (simp add: warnNamespacedFallback_def)
    obtain w where w: "warnNamespacedFallback (bi_id bi) (fallback_line # ls) u = (Inr (), w ls)" for ls
      by (simp add: warnNamespacedFallback_def)
    have y: "compute_outcome env bi = Inr entry" using run Inr by simp
    show ?thesis
    proof (cases entry)
      case (CachedOutput out1)
      then show ?thesis using r u run once Inr y by (auto simp: getNamespacedOutput_def reference_output_def bind_io_def)
    next
      case CachedUnsupported
      then show ?thesis using r u run once Inr y kept [OF v] v
        by (auto simp: getNamespacedOutput_def reference_output_def bind_io_def split: if_splits)
    next
      case (CachedFailed ls)
      then show ?thesis using r u run once Inr y kept [OF w] w [of ls]
        by (auto simp: getNamespacedOutput_def reference_output_def reportNamespacedCompileFailure_def bind_io_def Let_def
            split: if_splits)
    qed
  qed
qed

text \<open>
  C35: The cache is invisible.  Over any sequence of calls, under whatever settings, across any
  number of processes, every call gives exactly what a call would give that compiled afresh and
  applied its own setting: an outcome cached under one setting is never judged by another.  What
  the disk holds that is no entry of this schema is as if it were not there.
\<close>

theorem cached_outcomes_are_fresh_ones:
  assumes "honest_caches env catalog s" and "survives_the_disk env catalog" and "list_all (drawn_from catalog) as"
    and "once_each env catalog s"
  shows "fst (run_actions env as s) = reference_results env as"
  using assms
proof (induction env as s rule: run_actions.induct)
  case (2 env setting bi as s)
  obtain r t where r: "getNamespacedOutput env setting bi s = (r, t)" by fastforce
  have c: "bi = catalog (bi_id bi)" using "2.prems"(3) by (simp add: drawn_from_def)
  note run = consult_run [OF "2.prems"(1,2) c "2.prems"(4) r]
  have "fst (run_actions env as t) = reference_results env as"
    using "2.IH" [OF r [symmetric]] run "2.prems" by simp
  then show ?case using r run by (cases "run_actions env as t") (simp add: reference_results_def)
next
  case (3 env as s)
  let ?s = "s\<lparr>nz_memory := Map.empty, nz_warned := [], nz_warnings := [], nz_compiled := []\<rparr>"
  have "honest_caches env catalog ?s" "once_each env catalog ?s"
    using "3.prems" by (auto simp: honest_caches_def once_each_def)
  then show ?case using "3.IH" "3.prems" by (simp add: reference_results_def)
qed (simp add: reference_results_def)

text \<open>
  Each build is compiled once and warned about once.  In one process, whatever is asked and
  under whatever settings, no build info is announced as degraded twice, and none whose second
  compilation has an outcome is compiled twice.
\<close>

theorem each_build_is_compiled_and_announced_once:
  assumes "honest_caches env catalog s" and "survives_the_disk env catalog" and "list_all (drawn_from catalog) as"
    and "once_each env catalog s" and "NewProcess \<notin> set as"
  shows "distinct (map fst (nz_warnings (snd (run_actions env as s)))) \<and>
    (\<forall>i. case compute_outcome env (catalog i) of
        Inl _ \<Rightarrow> True | Inr _ \<Rightarrow> count_list (nz_compiled (snd (run_actions env as s))) i \<le> 1)"
proof -
  have "once_each env catalog (snd (run_actions env as s))"
    using assms
  proof (induction env as s rule: run_actions.induct)
    case (2 env setting bi as s)
    obtain r t where r: "getNamespacedOutput env setting bi s = (r, t)" by fastforce
    have c: "bi = catalog (bi_id bi)" using "2.prems"(3) by (simp add: drawn_from_def)
    note run = consult_run [OF "2.prems"(1,2) c "2.prems"(4) r]
    have "once_each env catalog (snd (run_actions env as t))" using "2.IH" [OF r [symmetric]] run "2.prems" by simp
    then show ?case using r by (cases "run_actions env as t") simp
  qed simp_all
  then have o1: "map fst (nz_warnings u) = nz_warned u" "distinct (nz_warned u)"
    "\<And>i e. compute_outcome env (catalog i) = Inr e \<Longrightarrow> count_list (nz_compiled u) i \<le> (if nz_memory u i = None then 0 else 1)"
    if "u = snd (run_actions env as s)" for u
    using that unfolding once_each_def by blast+
  show ?thesis
    using o1(1,2) [OF refl] order_trans [OF o1(3) [OF refl]] by (auto split: sum.split) 
qed


section \<open>A build whose second compilation fails\<close>

definition failing_compiler :: namespaced_env where
  "failing_compiler =
     \<lparr>nv_supported = (\<lambda>_. Inr True),
      nv_compile = (\<lambda>_. Inr (JObj [(''errors'', JArr [JObj [(''severity'', JStr ''error''), (''message'', JStr ''boom'')]])])),
      nv_writable = (\<lambda>_. True)\<rparr>"

definition demo_catalog :: "string \<Rightarrow> build_info" where
  "demo_catalog i = \<lparr>bi_id = i, bi_value = JNull\<rparr>"

definition fresh_process :: namespaced_state where
  "fresh_process =
     \<lparr>nz_memory = Map.empty, nz_disk = [''b'' \<mapsto> JObj [(''schema'', JNum (NInt 1))]], nz_warned = [], nz_warnings = [],
      nz_compiled = []\<rparr>"

lemma demo_outcome: "compute_outcome failing_compiler bi = Inr (CachedFailed [JStr ''boom''])"
proof -
  have "entry_of_output (JObj [(''errors'', JArr [JObj [(''severity'', JStr ''error''), (''message'', JStr ''boom'')]])]) =
      Inr (CachedFailed [JStr ''boom''])" by code_simp
  then show ?thesis by (simp add: compute_outcome_def failing_compiler_def)
qed

lemma demo_survives: "survives_the_disk failing_compiler demo_catalog"
proof -
  have "isCacheEntry (jsonable (entry_value (CachedFailed [JStr ''boom'']))) = Some (CachedFailed [JStr ''boom''])"
    by code_simp
  then show ?thesis by (simp add: survives_the_disk_def demo_outcome)
qed

lemma demo_honest: "honest_caches failing_compiler demo_catalog fresh_process"
proof -
  have "isCacheEntry (JObj [(''schema'', JNum (NInt 1))]) = None" by code_simp
  then show ?thesis by (simp add: honest_caches_def fresh_process_def)
qed

lemma demo_once: "once_each failing_compiler demo_catalog fresh_process"
  by (simp add: once_each_def fresh_process_def)

lemma demo_drawn: "drawn_from demo_catalog (Consult setting (demo_catalog i))" "drawn_from demo_catalog NewProcess"
  by (simp_all add: drawn_from_def demo_catalog_def)

theorem cached_outcomes_are_fresh_ones_witness:
  "fst (run_actions failing_compiler
       [Consult (JStr ''warn'') (demo_catalog ''b''), NewProcess, Consult JUndef (demo_catalog ''b'')] fresh_process) =
     [Inr None, Inl (NamespacedCompile ''b'' [JStr ''boom''])]"
  using cached_outcomes_are_fresh_ones [OF demo_honest demo_survives _ demo_once,
      of "[Consult (JStr ''warn'') (demo_catalog ''b''), NewProcess, Consult JUndef (demo_catalog ''b'')]"]
  by (simp add: demo_drawn reference_results_def reference_output_def demo_outcome or_nullish_def)
     (simp add: demo_catalog_def)

theorem each_build_is_compiled_and_announced_once_witness:
  "count_list (nz_compiled (snd (run_actions failing_compiler
       [Consult (JStr ''warn'') (demo_catalog ''b''), Consult (JStr ''warn'') (demo_catalog ''b'')] fresh_process))) ''b'' \<le> 1"
  using each_build_is_compiled_and_announced_once [OF demo_honest demo_survives _ demo_once,
      of "[Consult (JStr ''warn'') (demo_catalog ''b''), Consult (JStr ''warn'') (demo_catalog ''b'')]"]
  by (simp add: demo_drawn demo_outcome)

end
