(* ===== verification/HardhatOps.thy ===== *)
theory HardhatOps
  imports HardhatManifest
begin

text \<open>
  The operations of the Hardhat plugin: \<open>deploy-proxy.ts\<close>, \<open>upgrade-proxy.ts\<close>, the beacon
  operations, \<open>force-import.ts\<close>, \<open>prepare-upgrade.ts\<close>, \<open>validate-upgrade.ts\<close>, \<open>admin.ts\<close> and
  the utilities they share.

  \<open>'w hx\<close> collects what an operation is given: the engine's functions over the provider, the
  host's \<open>ethers\<close> bridge and its artifacts, each over the world \<open>'w\<close>, and the draft of a contract
  (\<open>upgradeableContractFor\<close> of \<open>HardhatNamespaced\<close>, over the world that holds its caches).
  A contract handle is its interface's name with its address; options are the object passed in.
\<close>

section \<open>The environment\<close>

record 'w hx =
  hx_tools :: address_tools
  hx_legacy :: bool
  hx_manifest :: "'w manifest"
  hx_draft :: "string \<Rightarrow> js \<Rightarrow> ('w, upgradeable) hio"
  hx_infer :: "upgradeable \<Rightarrow> js + js"
  hx_processKind :: "string \<Rightarrow> js \<Rightarrow> upgradeable \<Rightarrow> ('w, js, js) io"
  hx_storage :: "string \<Rightarrow> string \<Rightarrow> ('w, js, js) io"
  hx_fetchStorage :: "string \<Rightarrow> string \<Rightarrow> ('w, js, js) io"
  hx_layoutFor :: "string \<Rightarrow> ('w, js, js) io"
  hx_layoutSafe :: "js \<Rightarrow> js \<Rightarrow> js \<Rightarrow> js + unit"
  hx_layoutReport :: "js \<Rightarrow> js \<Rightarrow> js \<Rightarrow> js + bool"
  hx_fetchOrDeploy :: "js \<Rightarrow> ('w, js) hio \<Rightarrow> js \<Rightarrow> bool \<Rightarrow> ('w, js) hio"
  hx_removed :: "hardhat_error \<Rightarrow> bool"
  hx_deploy :: "string \<Rightarrow> js list \<Rightarrow> js option \<Rightarrow> ('w, js, js) io"
  hx_attach :: "string \<Rightarrow> string \<Rightarrow> ('w, js, unit) io"
  hx_call :: "string \<Rightarrow> string \<Rightarrow> string \<Rightarrow> js list \<Rightarrow> js option \<Rightarrow> js option \<Rightarrow> ('w, js, js) io"
  hx_names :: "('w, js, string list) io"
  hx_interfaceVersion :: "string \<Rightarrow> ('w, js, js) io"
  hx_implementation :: "string \<Rightarrow> ('w, js, string) io"
  hx_beacon :: "string \<Rightarrow> ('w, js, string) io"
  hx_implementationFromBeacon :: "string \<Rightarrow> ('w, js, string) io"
  hx_implementationFromProxy :: "string \<Rightarrow> ('w, js, string option) io"
  hx_isProxy :: "string \<Rightarrow> ('w, js, bool) io"
  hx_isBeaconProxy :: "string \<Rightarrow> ('w, js, bool) io"
  hx_isBeacon :: "string \<Rightarrow> ('w, js, bool) io"
  hx_hasCode :: "string \<Rightarrow> ('w, js, bool) io"
  hx_isProxyAdmin :: "string \<Rightarrow> ('w, js, bool) io"
  hx_transaction :: "js \<Rightarrow> ('w, js, js) io"
  hx_addProxy :: "js \<Rightarrow> string \<Rightarrow> ('w, js, unit) io"
  hx_artifactAbi :: "string \<Rightarrow> js + js"
  hx_fragment :: "js \<Rightarrow> js \<Rightarrow> js option"
  hx_encode :: "js \<Rightarrow> js \<Rightarrow> js list \<Rightarrow> js + string"

type_synonym handle = "string \<times> string"

definition IMPL_SLOT :: string where
  "IMPL_SLOT = ''0x360894a13ba1a3210667c828492db98dca3e2076cc3735a920a3ca505d382bbc''"

definition ADMIN_SLOT :: string where
  "ADMIN_SLOT = ''0xb53127684a568b3173ae13b9f8a6016e243e63b6e8ee1178d6a717850b5d6103''"

definition BEACON_SLOT :: string where
  "BEACON_SLOT = ''0xa3f0ad74e5423aebfd80d3ef4346578335a9a72aeaee59ff6cb3582b35133d50''"

definition PROXY_PKG :: string where
  "PROXY_PKG = ''@openzeppelin/tron-contracts/proxy''"

definition fqn_transparent :: string where
  "fqn_transparent = PROXY_PKG @ ''/transparent/TransparentUpgradeableProxy.sol:TransparentUpgradeableProxy''"

definition fqn_proxyAdmin :: string where
  "fqn_proxyAdmin = PROXY_PKG @ ''/transparent/ProxyAdmin.sol:ProxyAdmin''"

definition fqn_trc1967 :: string where
  "fqn_trc1967 = PROXY_PKG @ ''/TRC1967/TRC1967Proxy.sol:TRC1967Proxy''"

definition fqn_beacon :: string where
  "fqn_beacon = PROXY_PKG @ ''/beacon/UpgradeableBeacon.sol:UpgradeableBeacon''"

definition fqn_beaconProxy :: string where
  "fqn_beaconProxy = PROXY_PKG @ ''/beacon/BeaconProxy.sol:BeaconProxy''"

section \<open>Shared utilities\<close>

definition opt :: "js \<Rightarrow> string \<Rightarrow> js" where
  "opt opts k = own_prop opts k"

definition overrides_of :: "js \<Rightarrow> ('w, js option) hio" where
  "overrides_of opts = pure_io (txOverridesOf (opt opts ''txOverrides''))"

definition with_kind :: "js \<Rightarrow> js \<Rightarrow> js" where
  "with_kind opts kind = set_prop opts ''kind'' kind"

definition args_of :: "js \<Rightarrow> js list" where
  "args_of v = (case v of JArr xs \<Rightarrow> xs | _ \<Rightarrow> [])"

definition load :: "'w hx \<Rightarrow> ('w, unit) hio" where
  "load hx = getManifest (hx_legacy hx) (at_checksum (hx_tools hx)) (hx_manifest hx)"

definition address_io :: "'w hx \<Rightarrow> string \<Rightarrow> ('w, string) hio" where
  "address_io hx a = pure_io (resolveAddress (hx_tools hx) a)"

definition getSlot :: "'w hx \<Rightarrow> string \<Rightarrow> string \<Rightarrow> ('w, js) hio" where
  "getSlot hx address slot =
     catch_io (on_host (hx_storage hx address slot))
       (\<lambda>_. bind_io (on_host (hx_fetchStorage hx address slot)) (\<lambda>json.
          if js_truthy (own_prop json ''error'') then throw_io (HostRaised (own_prop json ''error''))
          else return_io (own_prop json ''result'')))"

text \<open>A word that is no string has no \<open>slice\<close>.\<close>

definition text_or_type_error :: "js \<Rightarrow> ('w, string) hio" where
  "text_or_type_error v = (case v of JStr s \<Rightarrow> return_io s | _ \<Rightarrow> throw_io TypeErrorThrown)"

definition slot_address :: "'w hx \<Rightarrow> string \<Rightarrow> string \<Rightarrow> ('w, string) hio" where
  "slot_address hx address slot =
     bind_io (getSlot hx address slot) (\<lambda>v.
     bind_io (text_or_type_error v) (\<lambda>word. return_io (slotToAddress word)))"

definition or_false_on_revert :: "('w, bool) hio \<Rightarrow> ('w, bool) hio" where
  "or_false_on_revert m =
     catch_io m (\<lambda>e. case e of HostRaised v \<Rightarrow> if isOptionalCallRevert v then return_io False else throw_io e | _ \<Rightarrow> throw_io e)"

definition isBeaconContract :: "'w hx \<Rightarrow> string \<Rightarrow> ('w, bool) hio" where
  "isBeaconContract hx a = or_false_on_revert (on_host (hx_isBeacon hx a))"

definition assertIsBeacon :: "'w hx \<Rightarrow> string \<Rightarrow> ('w, unit) hio" where
  "assertIsBeacon hx a = bind_io (isBeaconContract hx a) (\<lambda>b. refuse_if (\<not> b) (NotABeacon a))"

definition deployContractWithOptions :: "'w hx \<Rightarrow> string \<Rightarrow> js list \<Rightarrow> js \<Rightarrow> ('w, js) hio" where
  "deployContractWithOptions hx name args opts =
     bind_io (overrides_of opts) (\<lambda>ov.
     bind_io (log_hardhat (SentDeploy name args ov)) (\<lambda>_. on_host (hx_deploy hx name args ov)))"

definition call_contract :: "'w hx \<Rightarrow> handle \<Rightarrow> string \<Rightarrow> js list \<Rightarrow> js option \<Rightarrow> js option \<Rightarrow> ('w, js) hio" where
  "call_contract hx h method args ov signer =
     bind_io (log_hardhat (SentCall (fst h) (snd h) method args ov signer)) (\<lambda>_.
       on_host (hx_call hx (fst h) (snd h) method args ov signer))"

definition contract_at :: "'w hx \<Rightarrow> string \<Rightarrow> string \<Rightarrow> ('w, handle) hio" where
  "contract_at hx name a = bind_io (on_host (hx_attach hx name a)) (\<lambda>_. return_io (name, a))"

definition record_proxy :: "'w hx \<Rightarrow> js \<Rightarrow> string \<Rightarrow> ('w, unit) hio" where
  "record_proxy hx kind a = bind_io (log_hardhat (AddedProxy kind a)) (\<lambda>_. on_host (hx_addProxy hx kind a))"

definition validateImplementation :: "'w hx \<Rightarrow> string \<Rightarrow> js \<Rightarrow> ('w, upgradeable) hio" where
  "validateImplementation hx name opts =
     bind_io (hx_draft hx name opts) (\<lambda>c. bind_io (refuse_if (\<not> uc_safe c) (NotUpgradeSafe name)) (\<lambda>_. return_io c))"

definition assertStorageCompatible :: "'w hx \<Rightarrow> js \<Rightarrow> js \<Rightarrow> js \<Rightarrow> ('w, unit) hio" where
  "assertStorageCompatible hx current layout opts =
     (if js_truthy (opt opts ''unsafeSkipStorageCheck'') then return_io ()
      else pure_io (map_sum HostRaised id (hx_layoutSafe hx current layout opts)))"

text \<open>The kind inferred by the engine, or the one asked for.\<close>

definition kind_or_inferred :: "'w hx \<Rightarrow> js \<Rightarrow> upgradeable \<Rightarrow> ('w, js) hio" where
  "kind_or_inferred hx opts draft =
     (if is_nullish (opt opts ''kind'') then pure_io (map_sum HostRaised id (hx_infer hx draft))
      else return_io (opt opts ''kind''))"

section \<open>Implementations\<close>

definition redeploy_mode :: "js \<Rightarrow> js" where
  "redeploy_mode opts =
     or_nullish (opt opts ''redeployImplementation'')
       (JStr (if js_truthy (opt opts ''useDeployedImplementation'') then ''never'' else ''onchange''))"

definition deploy_callback :: "'w hx \<Rightarrow> string \<Rightarrow> js \<Rightarrow> upgradeable \<Rightarrow> ('w, js) hio" where
  "deploy_callback hx name opts c =
     (if redeploy_mode opts = JStr ''never'' then throw_io (ImplementationNotDeployed name)
      else
        bind_io (deployContractWithOptions hx name (args_of (opt opts ''constructorArgs'')) opts) (\<lambda>i.
          return_io (JObj [(''address'', own_prop i ''address''), (''txHash'', own_prop i ''hash''),
            (''layout'', uc_layout c), (''txResponse'', own_prop i ''transaction'')])))"

definition fetch_deployment :: "'w hx \<Rightarrow> string \<Rightarrow> js \<Rightarrow> upgradeable \<Rightarrow> ('w, js) hio" where
  "fetch_deployment hx name opts c =
     (let once = hx_fetchOrDeploy hx (uc_version c) (deploy_callback hx name opts c)
                   (JObj [(''timeout'', opt opts ''timeout''), (''pollingInterval'', opt opts ''pollingInterval'')])
                   (redeploy_mode opts = JStr ''always'')
      in catch_io once
           (\<lambda>e. if \<not> hx_removed hx e \<or> redeploy_mode opts = JStr ''never'' then throw_io e else once))"

definition response_of :: "'w hx \<Rightarrow> js \<Rightarrow> js \<Rightarrow> ('w, js) hio" where
  "response_of hx opts deployment =
     (if \<not> js_truthy (own_prop deployment ''txResponse'') \<and> js_truthy (opt opts ''getTxResponse'') \<and>
         js_truthy (own_prop deployment ''txHash'')
      then
        bind_io (on_host (hx_transaction hx (own_prop deployment ''txHash''))) (\<lambda>tx.
          return_io (if js_truthy tx
            then set_prop tx ''hash'' (or_nullish (own_prop tx ''hash'') (own_prop deployment ''txHash''))
            else own_prop deployment ''txResponse''))
      else return_io (own_prop deployment ''txResponse''))"

definition resolveImplementation :: "'w hx \<Rightarrow> string \<Rightarrow> js \<Rightarrow> upgradeable option \<Rightarrow> ('w, string \<times> js) hio" where
  "resolveImplementation hx name opts validated =
     bind_io (overrides_of opts) (\<lambda>_.
     bind_io (refuse_if (js_truthy (opt opts ''useDeployedImplementation'') \<and> opt opts ''redeployImplementation'' \<noteq> JUndef)
                OptionsConflict) (\<lambda>_.
     bind_io (load hx) (\<lambda>_.
     bind_io (case validated of Some c \<Rightarrow> return_io c | None \<Rightarrow> validateImplementation hx name opts) (\<lambda>c.
     bind_io (fetch_deployment hx name opts c) (\<lambda>d.
     bind_io (response_of hx opts d) (\<lambda>response.
     bind_io (text_or_type_error (own_prop d ''address'')) (\<lambda>a. return_io (a, response))))))))"

definition implementation_address :: "'w hx \<Rightarrow> string \<Rightarrow> js \<Rightarrow> upgradeable \<Rightarrow> ('w, string) hio" where
  "implementation_address hx name opts c =
     bind_io (resolveImplementation hx name opts (Some c)) (\<lambda>r. return_io (fst r))"

section \<open>\<open>deployProxy\<close>\<close>

definition initializer_data :: "'w hx \<Rightarrow> js \<Rightarrow> js list \<Rightarrow> js \<Rightarrow> ('w, string) hio" where
  "initializer_data hx abi args initializer =
     pure_io (getInitializerData (hx_fragment hx abi) (hx_encode hx abi) args initializer)"

record hardhat_deploy_plan =
  dp_kind :: string
  dp_contract :: upgradeable
  dp_data :: string

text \<open>Up to the implementation: everything that can be refused without a transaction.\<close>

definition prepare_deploy :: "'w hx \<Rightarrow> string \<Rightarrow> js list \<Rightarrow> js \<Rightarrow> ('w, hardhat_deploy_plan) hio" where
  "prepare_deploy hx name args opts =
     bind_io (hx_draft hx name opts) (\<lambda>draft.
     bind_io (kind_or_inferred hx opts draft) (\<lambda>k.
     bind_io (pure_io (checkKind k)) (\<lambda>kind.
     bind_io (overrides_of opts) (\<lambda>_.
     bind_io (refuse_if (kind = ''uups'' \<and> opt opts ''initialOwner'' \<noteq> JUndef) OwnerNotSupported) (\<lambda>_.
     bind_io (load hx) (\<lambda>_.
     bind_io (validateImplementation hx name (with_kind opts (JStr kind))) (\<lambda>c.
     bind_io (initializer_data hx (uc_abi c) args (opt opts ''initializer'')) (\<lambda>data.
     bind_io (refuse_if (data = ''0x'') (UninitializedRefused kind (opt opts ''initializer'' = JBool False))) (\<lambda>_.
       return_io \<lparr>dp_kind = kind, dp_contract = c, dp_data = data\<rparr>)))))))))"

definition initial_owner :: "'w hx \<Rightarrow> js \<Rightarrow> ('w, string) hio" where
  "initial_owner hx opts =
     (case opt opts ''initialOwner'' of
        JUndef \<Rightarrow> pure_io (deployerAddress (hx_tools hx))
      | JStr a \<Rightarrow> address_io hx a
      | _ \<Rightarrow> throw_io TypeErrorThrown)"

text \<open>The proxy over its implementation; the admin check is an optional probe.\<close>

definition deploy_proxy_contract :: "'w hx \<Rightarrow> js \<Rightarrow> hardhat_deploy_plan \<Rightarrow> string \<Rightarrow> ('w, js) hio" where
  "deploy_proxy_contract hx opts pl implementation =
     (if dp_kind pl = ''transparent'' then
        bind_io (initial_owner hx opts) (\<lambda>owner.
        bind_io (if js_truthy (opt opts ''unsafeSkipProxyAdminCheck'') then return_io False
                 else or_false_on_revert (on_host (hx_isProxyAdmin hx owner))) (\<lambda>isAdmin.
        bind_io (refuse_if isAdmin (OwnerIsProxyAdmin owner)) (\<lambda>_.
          deployContractWithOptions hx fqn_transparent [JStr implementation, JStr owner, JStr (dp_data pl)] opts)))
      else deployContractWithOptions hx fqn_trc1967 [JStr implementation, JStr (dp_data pl)] opts)"

definition record_deployed :: "'w hx \<Rightarrow> string \<Rightarrow> string \<Rightarrow> js \<Rightarrow> ('w, handle) hio" where
  "record_deployed hx name kind instance1 =
     bind_io (text_or_type_error (own_prop instance1 ''address'')) (\<lambda>a.
     bind_io (record_proxy hx (JStr kind) a) (\<lambda>_. contract_at hx name a))"

definition deployProxy :: "'w hx \<Rightarrow> string \<Rightarrow> js list \<Rightarrow> js \<Rightarrow> ('w, handle) hio" where
  "deployProxy hx name args opts =
     bind_io (prepare_deploy hx name args opts) (\<lambda>pl.
     bind_io (implementation_address hx name opts (dp_contract pl)) (\<lambda>implementation.
     bind_io (deploy_proxy_contract hx opts pl implementation) (\<lambda>i. record_deployed hx name (dp_kind pl) i)))"

section \<open>\<open>upgradeProxy\<close>\<close>

definition encodeUpgradeCall :: "'w hx \<Rightarrow> js \<Rightarrow> js \<Rightarrow> hardhat_error + string" where
  "encodeUpgradeCall hx abi call =
     (if \<not> js_truthy call then Inr ''0x''
      else (case call of
              JStr s \<Rightarrow> if prefix ''0x'' s then Inr s else map_sum HostRaised id (hx_encode hx abi call [])
            | _ \<Rightarrow> map_sum HostRaised id (hx_encode hx abi (own_prop call ''fn'') (args_of (own_prop call ''args'')))))"

definition pluginInterfaceAt :: "'w hx \<Rightarrow> string \<Rightarrow> string \<Rightarrow> ('w, handle) hio" where
  "pluginInterfaceAt hx interface a =
     bind_io (on_host (hx_names hx)) (\<lambda>names.
       case filter (\<lambda>n. n = ''contracts/Proxies.sol:'' @ interface
                      \<or> n = ''@openzeppelin/hardhat-tron-upgrades/contracts/Proxies.sol:'' @ interface) names of
         [] \<Rightarrow> throw_io (ArtifactMissing interface)
       | [n] \<Rightarrow> contract_at hx n a
       | ns \<Rightarrow> throw_io (ArtifactAmbiguous ns))"

definition upgradeInterfaceVersionOf :: "'w hx \<Rightarrow> string \<Rightarrow> ('w, js) hio" where
  "upgradeInterfaceVersionOf hx a =
     catch_io (on_host (hx_interfaceVersion hx a))
       (\<lambda>e. case e of HostRaised v \<Rightarrow> if isOptionalCallRevert v then return_io JUndef else throw_io e | _ \<Rightarrow> throw_io e)"

definition signer_of :: "js \<Rightarrow> js option" where
  "signer_of opts = (if js_truthy (opt opts ''owner'') then Some (opt opts ''owner'') else None)"

record upgrade_plan =
  pn_proxy :: string
  pn_kind :: string
  pn_contract :: upgradeable
  pn_recorded :: bool
  pn_handle :: handle
  pn_method :: string
  pn_front :: "js list"
  pn_data :: "js list"
  pn_overrides :: "js option"

text \<open>Who is called, and how: the admin by its version, or the proxy itself by its own.\<close>

definition upgrade_authority ::
  "'w hx \<Rightarrow> string \<Rightarrow> string \<Rightarrow> string \<Rightarrow> ('w, handle \<times> string \<times> js list \<times> js list) hio" where
  "upgrade_authority hx proxy kind data =
     (if kind = ''transparent'' then
        bind_io (slot_address hx proxy ADMIN_SLOT) (\<lambda>admin.
        bind_io (refuse_if (admin = ZERO_ADDRESS) (NoAdmin proxy)) (\<lambda>_.
        bind_io (pure_io (checksum_of (hx_tools hx) admin)) (\<lambda>a.
        bind_io (upgradeInterfaceVersionOf hx a) (\<lambda>version.
          if version = JStr ''5.0.0'' then
            bind_io (contract_at hx fqn_proxyAdmin a) (\<lambda>h.
              return_io (h, ''upgradeAndCall'', [JStr proxy], [JStr data]))
          else
            bind_io (pluginInterfaceAt hx ''ITronUpgradesProxyAdminV4'' a) (\<lambda>h.
              return_io (if data = ''0x'' then (h, ''upgrade'', [JStr proxy], [])
                         else (h, ''upgradeAndCall'', [JStr proxy], [JStr data])))))))
      else
        bind_io (upgradeInterfaceVersionOf hx proxy) (\<lambda>version.
        bind_io (pluginInterfaceAt hx ''ITronUpgradesUUPS'' proxy) (\<lambda>h.
          return_io (if version = JStr ''5.0.0'' \<or> data \<noteq> ''0x''
                     then (h, ''upgradeToAndCall'', [], [JStr data]) else (h, ''upgradeTo'', [], [])))))"

definition prepare_upgrade :: "'w hx \<Rightarrow> string \<Rightarrow> string \<Rightarrow> js \<Rightarrow> ('w, upgrade_plan) hio" where
  "prepare_upgrade hx proxy name opts =
     bind_io (address_io hx proxy) (\<lambda>a.
     bind_io (load hx) (\<lambda>_.
     bind_io (proxyRecordOf (hx_manifest hx) a) (\<lambda>record1.
     bind_io (slot_address hx a BEACON_SLOT) (\<lambda>beacon.
     bind_io (refuse_if (beacon \<noteq> ZERO_ADDRESS) (BeaconProxyRefused a beacon)) (\<lambda>_.
     bind_io (hx_draft hx name opts) (\<lambda>draft.
     bind_io (on_host (hx_processKind hx a opts draft)) (\<lambda>k.
     bind_io (pure_io (checkKind k)) (\<lambda>kind.
     bind_io (on_host (hx_implementation hx a)) (\<lambda>current.
     bind_io (on_host (hx_layoutFor hx current)) (\<lambda>layout.
     bind_io (validateImplementation hx name (with_kind opts (JStr kind))) (\<lambda>c.
     bind_io (assertStorageCompatible hx layout (uc_layout c) opts) (\<lambda>_.
     bind_io (pure_io (encodeUpgradeCall hx (uc_abi c) (opt opts ''call''))) (\<lambda>data.
     bind_io (overrides_of opts) (\<lambda>ov.
     bind_io (upgrade_authority hx a kind data) (\<lambda>(h, method, front, back).
       return_io
         \<lparr>pn_proxy = a, pn_kind = kind, pn_contract = c,
          pn_recorded = (case record1 of None \<Rightarrow> False | Some v \<Rightarrow> js_truthy v), pn_handle = h,
          pn_method = method, pn_front = front, pn_data = back, pn_overrides = ov\<rparr>)))))))))))))))"

definition send_upgrade :: "'w hx \<Rightarrow> js \<Rightarrow> upgrade_plan \<Rightarrow> string \<Rightarrow> ('w, unit) hio" where
  "send_upgrade hx opts pl implementation =
     bind_io (call_contract hx (pn_handle pl) (pn_method pl) (pn_front pl @ JStr implementation # pn_data pl)
                (pn_overrides pl) (signer_of opts)) (\<lambda>_.
     bind_io (slot_address hx (pn_proxy pl) IMPL_SLOT) (\<lambda>current.
       refuse_if (lower current \<noteq> lower implementation) (UpgradeUnverified (lower current) implementation)))"

definition upgradeProxy :: "'w hx \<Rightarrow> string \<Rightarrow> string \<Rightarrow> js \<Rightarrow> ('w, handle) hio" where
  "upgradeProxy hx proxy name opts =
     bind_io (prepare_upgrade hx proxy name opts) (\<lambda>pl.
     bind_io (implementation_address hx name opts (pn_contract pl)) (\<lambda>implementation.
     bind_io (send_upgrade hx opts pl implementation) (\<lambda>_.
     bind_io (if pn_recorded pl then return_io () else record_proxy hx (JStr (pn_kind pl)) (pn_proxy pl)) (\<lambda>_.
       contract_at hx name (pn_proxy pl)))))"

section \<open>Beacons\<close>

definition deployBeacon :: "'w hx \<Rightarrow> string \<Rightarrow> js \<Rightarrow> ('w, js) hio" where
  "deployBeacon hx name opts =
     bind_io (overrides_of opts) (\<lambda>_.
     bind_io (load hx) (\<lambda>_.
     bind_io (validateImplementation hx name (with_kind opts (JStr ''beacon''))) (\<lambda>c.
     bind_io (implementation_address hx name opts c) (\<lambda>implementation.
     bind_io (initial_owner hx opts) (\<lambda>owner.
       deployContractWithOptions hx fqn_beacon [JStr implementation, JStr owner] opts)))))"

definition prepare_beacon_proxy :: "'w hx \<Rightarrow> string \<Rightarrow> string \<Rightarrow> js list \<Rightarrow> js \<Rightarrow> ('w, string \<times> string) hio" where
  "prepare_beacon_proxy hx beacon name args opts =
     bind_io (overrides_of opts) (\<lambda>_.
     bind_io (refuse_if (opt opts ''kind'' \<noteq> JUndef \<and> opt opts ''kind'' \<noteq> JStr ''beacon'')
                (BeaconKindRefused (opt opts ''kind''))) (\<lambda>_.
     bind_io (address_io hx beacon) (\<lambda>a.
     bind_io (assertIsBeacon hx a) (\<lambda>_.
     bind_io (load hx) (\<lambda>_.
     bind_io (pure_io (map_sum HostRaised id (hx_artifactAbi hx name))) (\<lambda>abi.
     bind_io (initializer_data hx abi args (opt opts ''initializer'')) (\<lambda>data. return_io (a, data))))))))"

definition deployBeaconProxy :: "'w hx \<Rightarrow> string \<Rightarrow> string \<Rightarrow> js list \<Rightarrow> js \<Rightarrow> ('w, handle) hio" where
  "deployBeaconProxy hx beacon name args opts =
     bind_io (prepare_beacon_proxy hx beacon name args opts) (\<lambda>(a, data).
     bind_io (deployContractWithOptions hx fqn_beaconProxy [JStr a, JStr data] opts) (\<lambda>i.
       record_deployed hx name ''beacon'' i))"

definition prepare_beacon_upgrade :: "'w hx \<Rightarrow> string \<Rightarrow> string \<Rightarrow> js \<Rightarrow> ('w, string \<times> upgradeable) hio" where
  "prepare_beacon_upgrade hx beacon name opts =
     bind_io (address_io hx beacon) (\<lambda>a.
     bind_io (assertIsBeacon hx a) (\<lambda>_.
     bind_io (load hx) (\<lambda>_.
     bind_io (on_host (hx_implementationFromBeacon hx a)) (\<lambda>current.
     bind_io (on_host (hx_layoutFor hx current)) (\<lambda>layout.
     bind_io (validateImplementation hx name (with_kind opts (JStr ''beacon''))) (\<lambda>c.
     bind_io (assertStorageCompatible hx layout (uc_layout c) opts) (\<lambda>_. return_io (a, c))))))))"

text \<open>The read after the upgrade goes through the same handle; it sends nothing, so it is not logged.\<close>

definition switch_beacon_implementation :: "'w hx \<Rightarrow> js \<Rightarrow> handle \<Rightarrow> string \<Rightarrow> ('w, unit) hio" where
  "switch_beacon_implementation hx opts h implementation =
     bind_io (overrides_of opts) (\<lambda>ov.
     bind_io (call_contract hx h ''upgradeTo'' [JStr implementation] ov (signer_of opts)) (\<lambda>_.
     bind_io (on_host (hx_call hx (fst h) (snd h) ''implementation'' [] None None)) (\<lambda>answer.
     bind_io (text_or_type_error answer) (\<lambda>current.
       refuse_if (lower current \<noteq> lower implementation) (UpgradeUnverified (lower current) implementation)))))"

definition upgradeBeacon :: "'w hx \<Rightarrow> string \<Rightarrow> string \<Rightarrow> js \<Rightarrow> ('w, handle) hio" where
  "upgradeBeacon hx beacon name opts =
     bind_io (prepare_beacon_upgrade hx beacon name opts) (\<lambda>(a, c).
     bind_io (contract_at hx fqn_beacon a) (\<lambda>h.
     bind_io (implementation_address hx name opts c) (\<lambda>implementation.
     bind_io (switch_beacon_implementation hx opts h implementation) (\<lambda>_. return_io h))))"

section \<open>Reference checks, imports and preparations\<close>

text \<open>Where a reference leads: the kind, and the address of the implementation behind it.\<close>

definition resolveReferenceImpl ::
  "'w hx \<Rightarrow> string \<Rightarrow> string \<Rightarrow> js \<Rightarrow> hardhat_error \<Rightarrow> ('w, js \<times> string) hio" where
  "resolveReferenceImpl hx a name opts missing =
     bind_io (on_host (hx_isProxy hx a)) (\<lambda>proxy.
       if proxy then
         bind_io (hx_draft hx name opts) (\<lambda>draft.
         bind_io (on_host (hx_processKind hx a opts draft)) (\<lambda>kind.
         bind_io (on_host (hx_implementation hx a)) (\<lambda>i. return_io (kind, i))))
       else
         bind_io (on_host (hx_isBeaconProxy hx a)) (\<lambda>beaconProxy.
           if beaconProxy then
             bind_io (on_host (hx_beacon hx a)) (\<lambda>b.
             bind_io (on_host (hx_implementationFromBeacon hx b)) (\<lambda>i. return_io (JStr ''beacon'', i)))
           else
             bind_io (isBeaconContract hx a) (\<lambda>beacon.
               if beacon then
                 bind_io (on_host (hx_implementationFromBeacon hx a)) (\<lambda>i. return_io (JStr ''beacon'', i))
               else if opt opts ''kind'' = JUndef then throw_io missing
               else return_io (opt opts ''kind'', a))))"

text \<open>The candidate against what the reference runs: shared by the validation and the preparation.\<close>

definition check_reference :: "'w hx \<Rightarrow> string \<Rightarrow> string \<Rightarrow> js \<Rightarrow> (string \<Rightarrow> hardhat_error) \<Rightarrow> ('w, upgradeable) hio" where
  "check_reference hx reference name opts missing =
     bind_io (load hx) (\<lambda>_.
     bind_io (address_io hx reference) (\<lambda>a.
     bind_io (resolveReferenceImpl hx a name opts (missing a)) (\<lambda>(kind, current).
     bind_io (on_host (hx_layoutFor hx current)) (\<lambda>layout.
     bind_io (validateImplementation hx name (with_kind opts kind)) (\<lambda>c.
     bind_io (assertStorageCompatible hx layout (uc_layout c) opts) (\<lambda>_. return_io c))))))"

definition validateUpgradeReference :: "'w hx \<Rightarrow> string \<Rightarrow> string \<Rightarrow> js \<Rightarrow> ('w, unit) hio" where
  "validateUpgradeReference hx reference name opts =
     bind_io (check_reference hx reference name opts (\<lambda>_. ValidateKindRequired)) (\<lambda>_. return_io ())"

definition validateUpgrade :: "'w hx \<Rightarrow> string \<Rightarrow> string \<Rightarrow> js \<Rightarrow> ('w, unit) hio" where
  "validateUpgrade hx old name opts =
     bind_io (hx_draft hx old opts) (\<lambda>from1.
     bind_io (kind_or_inferred hx opts from1) (\<lambda>kind.
     bind_io (validateImplementation hx name (with_kind opts kind)) (\<lambda>to1.
       if js_truthy (opt opts ''unsafeSkipStorageCheck'') then return_io ()
       else
         bind_io (pure_io (map_sum HostRaised id (hx_layoutReport hx (uc_layout from1) (uc_layout to1) opts))) (\<lambda>ok.
           refuse_if (\<not> ok) (StorageIncompatible name)))))"

text \<open>
  A target is a string or an instance with its address; an instance is never taken for a name.
\<close>

datatype target = Written string | Instance string

fun written :: "target \<Rightarrow> string option" where
  "written (Written s) = Some s"
| "written (Instance _) = None"

fun raw_address :: "target \<Rightarrow> string" where
  "raw_address (Written s) = s"
| "raw_address (Instance a) = a"

definition validateUpgradeFn :: "'w hx \<Rightarrow> target \<Rightarrow> string \<Rightarrow> js \<Rightarrow> ('w, unit) hio" where
  "validateUpgradeFn hx t name opts =
     bind_io (pure_io (looksLikeAddress (hx_tools hx) (written t))) (\<lambda>isAddress.
       if isAddress then validateUpgradeReference hx (raw_address t) name opts
       else validateUpgrade hx (raw_address t) name opts)"

definition response_or_address :: "js \<Rightarrow> string \<times> js \<Rightarrow> js" where
  "response_or_address opts d =
     (if js_truthy (opt opts ''getTxResponse'') \<and> js_truthy (snd d) then snd d else JStr (fst d))"

definition prepareUpgrade :: "'w hx \<Rightarrow> string \<Rightarrow> string \<Rightarrow> js \<Rightarrow> ('w, js) hio" where
  "prepareUpgrade hx reference name opts =
     bind_io (check_reference hx reference name opts KindRequired) (\<lambda>c.
     bind_io (resolveImplementation hx name opts (Some c)) (\<lambda>d. return_io (response_or_address opts d)))"

definition deployImplementation :: "'w hx \<Rightarrow> string \<Rightarrow> js \<Rightarrow> ('w, js) hio" where
  "deployImplementation hx name opts =
     bind_io (resolveImplementation hx name opts None) (\<lambda>d. return_io (response_or_address opts d))"

definition makeValidateImplementation :: "'w hx \<Rightarrow> string \<Rightarrow> js \<Rightarrow> ('w, unit) hio" where
  "makeValidateImplementation hx name opts = bind_io (validateImplementation hx name opts) (\<lambda>_. return_io ())"

section \<open>\<open>forceImport\<close>\<close>

text \<open>The kind of a proxy that is imported: asked for, a beacon proxy, or inferred.\<close>

definition imported_kind :: "'w hx \<Rightarrow> js \<Rightarrow> string \<Rightarrow> upgradeable \<Rightarrow> ('w, js) hio" where
  "imported_kind hx opts a draft =
     (if is_nullish (opt opts ''kind'') then
        bind_io (on_host (hx_isBeaconProxy hx a)) (\<lambda>b.
          if b then return_io (JStr ''beacon'') else pure_io (map_sum HostRaised id (hx_infer hx draft)))
      else return_io (opt opts ''kind''))"

definition import_proxy :: "'w hx \<Rightarrow> string \<Rightarrow> string \<Rightarrow> string \<Rightarrow> js \<Rightarrow> ('w, handle) hio" where
  "import_proxy hx a i name opts =
     bind_io (hx_draft hx name opts) (\<lambda>draft.
     bind_io (imported_kind hx opts a draft) (\<lambda>kind.
     bind_io (if kind = JStr ''transparent''
              then bind_io (slot_address hx a ADMIN_SLOT) (\<lambda>admin. refuse_if (admin = ZERO_ADDRESS) (NoAdmin a))
              else return_io ()) (\<lambda>_.
     bind_io (validateImplementation hx name (with_kind opts kind)) (\<lambda>c.
     bind_io (recordImpl (hx_manifest hx) c i JUndef) (\<lambda>_.
     bind_io (record_proxy hx kind a) (\<lambda>_. contract_at hx name a))))))"

definition import_bare :: "'w hx \<Rightarrow> string \<Rightarrow> string \<Rightarrow> js \<Rightarrow> ('w, handle) hio" where
  "import_bare hx a name opts =
     bind_io (isBeaconContract hx a) (\<lambda>beacon.
       if beacon then
         bind_io (on_host (hx_implementationFromBeacon hx a)) (\<lambda>i.
         bind_io (validateImplementation hx name (with_kind opts (JStr ''beacon''))) (\<lambda>c.
         bind_io (recordImpl (hx_manifest hx) c i JUndef) (\<lambda>_. contract_at hx fqn_beacon a)))
       else
         bind_io (validateImplementation hx name opts) (\<lambda>c.
         bind_io (recordImpl (hx_manifest hx) c a JUndef) (\<lambda>_. contract_at hx name a)))"

definition forceImport :: "'w hx \<Rightarrow> string \<Rightarrow> string \<Rightarrow> js \<Rightarrow> ('w, handle) hio" where
  "forceImport hx target1 name opts =
     bind_io (load hx) (\<lambda>_.
     bind_io (address_io hx target1) (\<lambda>a.
     bind_io (on_host (hx_hasCode hx a)) (\<lambda>code.
     bind_io (refuse_if (\<not> code) (NoContract a)) (\<lambda>_.
     bind_io (on_host (hx_implementationFromProxy hx a)) (\<lambda>i.
       case i of Some i \<Rightarrow> import_proxy hx a i name opts | None \<Rightarrow> import_bare hx a name opts)))))"

section \<open>The administration and the getters\<close>

definition prepare_transfer :: "'w hx \<Rightarrow> string \<Rightarrow> string \<Rightarrow> js \<Rightarrow> ('w, js option \<times> string \<times> handle) hio" where
  "prepare_transfer hx proxy newOwner opts =
     bind_io (overrides_of opts) (\<lambda>ov.
     bind_io (address_io hx proxy) (\<lambda>p.
     bind_io (address_io hx newOwner) (\<lambda>owner.
     bind_io (slot_address hx p ADMIN_SLOT) (\<lambda>admin.
     bind_io (refuse_if (admin = ZERO_ADDRESS) (NoAdmin p)) (\<lambda>_.
     bind_io (pure_io (checksum_of (hx_tools hx) admin)) (\<lambda>a.
     bind_io (contract_at hx fqn_proxyAdmin a) (\<lambda>h. return_io (ov, owner, h))))))))"

definition send_transfer :: "'w hx \<Rightarrow> js \<Rightarrow> js option \<Rightarrow> string \<Rightarrow> handle \<Rightarrow> ('w, unit) hio" where
  "send_transfer hx opts ov owner h =
     bind_io (call_contract hx h ''transferOwnership'' [JStr owner] ov (signer_of opts)) (\<lambda>_.
     bind_io (on_host (hx_call hx (fst h) (snd h) ''owner'' [] None (signer_of opts))) (\<lambda>answer.
     bind_io (text_or_type_error answer) (\<lambda>actual.
       refuse_if (lower actual \<noteq> lower owner) (OwnerUnverified actual owner))))"

definition transferProxyAdminOwnership :: "'w hx \<Rightarrow> string \<Rightarrow> string \<Rightarrow> js \<Rightarrow> ('w, unit) hio" where
  "transferProxyAdminOwnership hx proxy newOwner opts =
     bind_io (prepare_transfer hx proxy newOwner opts) (\<lambda>(ov, owner, h). send_transfer hx opts ov owner h)"

definition slotAddress :: "'w hx \<Rightarrow> string \<Rightarrow> string \<Rightarrow> ('w, string) hio" where
  "slotAddress hx target1 slot =
     bind_io (address_io hx target1) (\<lambda>a.
     bind_io (slot_address hx a slot) (\<lambda>v. pure_io (checksum_of (hx_tools hx) v)))"

definition beaconImplementation :: "'w hx \<Rightarrow> string \<Rightarrow> ('w, js) hio" where
  "beaconImplementation hx beacon =
     bind_io (address_io hx beacon) (\<lambda>a.
     bind_io (contract_at hx fqn_beacon a) (\<lambda>h. on_host (hx_call hx (fst h) (snd h) ''implementation'' [] None None)))"


end
