(* ===== verification/HardhatRuns.thy ===== *)
theory HardhatRuns
  imports HardhatOps
begin

text \<open>
  What the Hardhat operations promise: what may be sent before the checks have passed, what is
  sent after them and in which order, what is verified on chain, and what reaches the record.
  The log of an operation is bounded step by step with the rules of \<open>log_intros\<close>.
\<close>

section \<open>What the steps append to the log\<close>

lemma log_mono:
  assumes "log_extends P m" and "\<And>ev. P ev \<Longrightarrow> Q ev"
  shows "log_extends Q m"
  unfolding log_extends_def
proof
  fix s
  obtain evs where "hs_log (snd (m s)) = hs_log s @ evs" "list_all P evs"
    using assms(1) unfolding log_extends_def by blast
  then show "\<exists>evs. hs_log (snd (m s)) = hs_log s @ evs \<and> list_all Q evs"
    using assms(2) by (intro exI [of _ evs]) (simp add: list_all_iff)
qed

lemma log_quiet: "log_extends (\<lambda>_. False) m \<Longrightarrow> log_extends P m"
  by (erule log_mono) simp

lemma log_catch [log_intros]:
  assumes "log_extends P m" and "\<And>e. log_extends P (h e)"
  shows "log_extends P (catch_io m h)"
  unfolding log_extends_def
proof
  fix s
  obtain r t where m: "m s = (r, t)" by fastforce
  obtain evs where e: "hs_log t = hs_log s @ evs" "list_all P evs"
    using assms(1) m unfolding log_extends_def by (metis snd_conv)
  show "\<exists>evs. hs_log (snd (catch_io m h s)) = hs_log s @ evs \<and> list_all P evs"
  proof (cases r)
    case (Inl x)
    obtain more where "hs_log (snd (h x t)) = hs_log t @ more" "list_all P more"
      using assms(2) unfolding log_extends_def by blast
    then show ?thesis using m e Inl by (intro exI [of _ "evs @ more"]) (simp add: catch_io_def)
  next
    case (Inr x)
    then show ?thesis using m e by (auto simp: catch_io_def)
  qed
qed

lemma log_cases [log_intros]:
  "(\<And>a b. log_extends P (f a b)) \<Longrightarrow> log_extends P (case z of (a, b) \<Rightarrow> f a b)"
  "log_extends P m \<Longrightarrow> (\<And>x. log_extends P (g x)) \<Longrightarrow> log_extends P (case v of None \<Rightarrow> m | Some x \<Rightarrow> g x)"
  by (auto split: prod.split option.split)

lemma log_steps [log_intros]:
  "log_extends P (address_io hx a)" "log_extends P (text_or_type_error v)" "log_extends P (overrides_of opts)"
  "log_extends P (contract_at hx n a)" "log_extends P (kind_or_inferred hx opts draft)"
  "log_extends P (assertStorageCompatible hx old layout opts)" "log_extends P (initializer_data hx abi args i)"
  unfolding address_io_def text_or_type_error_def overrides_of_def contract_at_def kind_or_inferred_def
    assertStorageCompatible_def initializer_data_def
  by (cases v; (intro log_intros | simp add: log_intros)+)+

lemma log_slot [log_intros]: "log_extends P (getSlot hx a slot)" "log_extends P (slot_address hx a slot)"
  unfolding slot_address_def getSlot_def by (intro log_intros)+

lemma log_or_false [log_intros]: "log_extends P m \<Longrightarrow> log_extends P (or_false_on_revert m)"
  unfolding or_false_on_revert_def by (intro log_intros) (auto split: hardhat_error.split intro: log_intros)

lemma log_beacon [log_intros]: "log_extends P (isBeaconContract hx a)" "log_extends P (assertIsBeacon hx a)"
  unfolding assertIsBeacon_def isBeaconContract_def by (intro log_intros)+

lemma log_deploy: "(\<And>ov. P (SentDeploy name args ov)) \<Longrightarrow> log_extends P (deployContractWithOptions hx name args opts)"
  unfolding deployContractWithOptions_def by (intro log_intros log_event)

lemma log_add: "P (AddedProxy kind a) \<Longrightarrow> log_extends P (record_proxy hx kind a)"
  unfolding record_proxy_def by (intro log_intros log_event)

section \<open>The host\<close>

text \<open>
  What is relied on: a lock runs its action on the state it finds or raises; drafting a contract
  sends and records nothing; and the engine sends only through the callback it is given.
\<close>

definition well_hosted :: "'w hx \<Rightarrow> bool" where
  "well_hosted hx \<longleftrightarrow>
     lock_runs (hx_manifest hx) \<and> (\<forall>name opts. log_extends (\<lambda>_. False) (hx_draft hx name opts)) \<and>
     (\<forall>P version f o1 again. log_extends P f \<longrightarrow> log_extends P (hx_fetchOrDeploy hx version f o1 again))"

lemma log_draft: "well_hosted hx \<Longrightarrow> log_extends P (hx_draft hx name opts)"
  unfolding well_hosted_def by (blast intro: log_quiet)

lemma log_validate: "well_hosted hx \<Longrightarrow> log_extends P (validateImplementation hx name opts)"
  unfolding validateImplementation_def by (intro log_intros log_draft)

lemma log_load:
  assumes "well_hosted hx" and "\<And>d. P (WroteManifest d)"
  shows "log_extends P (load hx)"
proof -
  have l: "lock_runs (hx_manifest hx)" using assms(1) by (simp add: well_hosted_def)
  show ?thesis
    unfolding load_def getManifest_def canonicalizeStoredAddresses_def
    by (intro log_intros log_locked [OF l] log_write assms(2))
qed

lemma log_record:
  assumes "well_hosted hx" and "\<And>d. P (WroteManifest d)"
  shows "log_extends P (recordImpl (hx_manifest hx) c a hash)"
proof -
  have l: "lock_runs (hx_manifest hx)" using assms(1) by (simp add: well_hosted_def)
  show ?thesis unfolding recordImpl_def by (intro log_intros log_locked [OF l] log_write assms(2))
qed

lemma log_implementation:
  assumes "well_hosted hx" and "\<And>d. P (WroteManifest d)" and "\<And>args ov. P (SentDeploy name args ov)"
  shows "log_extends P (resolveImplementation hx name opts v)"
proof -
  have c: "log_extends P (deploy_callback hx name opts c)" for c
    unfolding deploy_callback_def by (intro log_intros log_deploy assms(3))
  then have f: "log_extends P (hx_fetchOrDeploy hx (uc_version c) (deploy_callback hx name opts c) o1 again)" for c o1 again
    using assms(1) by (simp add: well_hosted_def)
  have "log_extends P (fetch_deployment hx name opts c)" for c
    unfolding fetch_deployment_def Let_def by (intro log_intros f)
  moreover have "log_extends P (load hx)" by (rule log_load) (use assms in simp_all)
  ultimately show ?thesis
    unfolding resolveImplementation_def response_of_def
    by (intro log_intros log_validate [OF assms(1)])
qed

text \<open>A run that extends the log, and a bind taken apart.\<close>

lemma log_extendsE:
  assumes "log_extends P m" and "m s = (r, t)"
  obtains evs where "hs_log t = hs_log s @ evs" and "list_all P evs"
  using assms unfolding log_extends_def by (metis snd_conv)

lemma bind_io_cases:
  assumes "bind_io m f s = (r, t)"
  obtains (failed) e where "m s = (Inl e, t)" and "r = Inl e"
  | (ok) x u where "m s = (Inr x, u)" and "f x u = (r, t)"
proof (cases "m s")
  case (Pair q u)
  then show ?thesis using assms that by (cases q) (auto simp: bind_io_def)
qed

lemma quiet_run:
  assumes "m s = (r, t)" and "log_extends (\<lambda>_. False) m"
  shows "hs_log t = hs_log s"
proof -
  obtain evs where "hs_log t = hs_log s @ evs" "list_all (\<lambda>_. False) evs" by (rule log_extendsE [OF assms(2,1)])
  then show ?thesis by (cases evs) simp_all
qed

section \<open>\<open>upgradeProxy\<close>\<close>

definition is_write :: "hardhat_event \<Rightarrow> bool" where
  "is_write ev \<longleftrightarrow> (case ev of WroteManifest _ \<Rightarrow> True | _ \<Rightarrow> False)"

definition implementation_event :: "string \<Rightarrow> hardhat_event \<Rightarrow> bool" where
  "implementation_event name ev \<longleftrightarrow> (case ev of WroteManifest _ \<Rightarrow> True | SentDeploy n _ _ \<Rightarrow> n = name | _ \<Rightarrow> False)"

definition upgrade_call :: "js \<Rightarrow> upgrade_plan \<Rightarrow> string \<Rightarrow> hardhat_event" where
  "upgrade_call opts pl implementation =
     SentCall (fst (pn_handle pl)) (snd (pn_handle pl)) (pn_method pl) (pn_front pl @ JStr implementation # pn_data pl)
       (pn_overrides pl) (signer_of opts)"

text \<open>A plan's contract is safe over the layout recorded for what the proxy runs.\<close>

definition storage_checked :: "'w hx \<Rightarrow> js \<Rightarrow> string \<Rightarrow> upgradeable \<Rightarrow> bool" where
  "storage_checked hx opts a c \<longleftrightarrow>
     (\<exists>w0 w1 w2 current layout.
        hx_implementation hx a w0 = (Inr current, w1) \<and> hx_layoutFor hx current w1 = (Inr layout, w2) \<and>
        (js_truthy (opt opts ''unsafeSkipStorageCheck'') \<or> hx_layoutSafe hx layout (uc_layout c) opts = Inr ()))"

definition routed :: "upgrade_plan \<Rightarrow> bool" where
  "routed pl \<longleftrightarrow>
     (if pn_kind pl = ''transparent''
      then pn_method pl \<in> {''upgrade'', ''upgradeAndCall''} \<and> pn_front pl = [JStr (pn_proxy pl)]
      else pn_kind pl = ''uups'' \<and> pn_method pl \<in> {''upgradeTo'', ''upgradeToAndCall''} \<and> pn_front pl = [] \<and>
        snd (pn_handle pl) = pn_proxy pl)"

lemma on_host_Inr: "on_host m s = (Inr x, t) \<longleftrightarrow> (\<exists>w. m (hs_world s) = (Inr x, w) \<and> t = s\<lparr>hs_world := w\<rparr>)"
  by (cases "m (hs_world s)") (auto simp: on_host_def map_sum_def split: sum.splits)

lemma checkKind_Inr: "checkKind k = Inr kind \<longleftrightarrow> k = JStr kind \<and> kind \<in> {''transparent'', ''uups''}"
  by (auto simp: checkKind_def KINDS_def split: js.splits)

lemma assertStorage_Inr:
  "assertStorageCompatible hx old layout opts s = (Inr x, t) \<longleftrightarrow>
     (js_truthy (opt opts ''unsafeSkipStorageCheck'') \<or> hx_layoutSafe hx old layout opts = Inr ()) \<and> t = s"
  by (cases "hx_layoutSafe hx old layout opts") (auto simp: assertStorageCompatible_def pure_io_def)

lemma refuse_if_Inr: "refuse_if b e s = (Inr x, t) \<longleftrightarrow> \<not> b \<and> t = s"
  by (simp add: refuse_if_def) auto

lemma validateImplementation_Inr:
  assumes "validateImplementation hx name opts s = (Inr c, t)"
  shows "uc_safe c"
  using assms unfolding validateImplementation_def by (auto elim!: bind_io_InrE simp: refuse_if_Inr)

lemma contract_at_Inr: "contract_at hx n a s = (Inr h, t) \<Longrightarrow> h = (n, a)"
  unfolding contract_at_def by (auto elim!: bind_io_InrE)

lemma contract_at_snd: "contract_at hx n a s = (Inr h, t) \<Longrightarrow> snd h = a"
  by (drule contract_at_Inr) simp

lemma pluginInterfaceAt_Inr: "pluginInterfaceAt hx n a s = (Inr h, t) \<Longrightarrow> snd h = a"
  unfolding pluginInterfaceAt_def by (auto elim!: bind_io_InrE split: list.splits dest: contract_at_snd)

lemma upgrade_authority_Inr:
  assumes "upgrade_authority hx proxy kind data s = (Inr (h, method, front, back), t)"
    and "kind \<in> {''transparent'', ''uups''}"
  shows "if kind = ''transparent'' then method \<in> {''upgrade'', ''upgradeAndCall''} \<and> front = [JStr proxy]
    else kind = ''uups'' \<and> method \<in> {''upgradeTo'', ''upgradeToAndCall''} \<and> front = [] \<and> snd h = proxy"
  using assms unfolding upgrade_authority_def
  by (auto elim!: bind_io_InrE split: if_splits dest: pluginInterfaceAt_Inr)

lemma log_interface [log_intros]:
  "log_extends P (pluginInterfaceAt hx n a)" "log_extends P (upgradeInterfaceVersionOf hx a)"
  unfolding pluginInterfaceAt_def upgradeInterfaceVersionOf_def
  by (intro log_intros; auto split: list.splits hardhat_error.splits intro: log_intros)+

lemma log_authority [log_intros]: "log_extends P (upgrade_authority hx proxy kind data)"
  unfolding upgrade_authority_def by (intro log_intros)

lemma log_proxyRecordOf [log_intros]: "log_extends P (proxyRecordOf m a)"
  unfolding proxyRecordOf_def by (intro log_intros) (auto split: js.split intro: log_intros)

lemma log_prepare_upgrade:
  assumes "well_hosted hx"
  shows "log_extends is_write (prepare_upgrade hx proxy name opts)"
proof -
  have "log_extends is_write (load hx)" by (rule log_load) (use assms in \<open>simp_all add: is_write_def\<close>)
  then show ?thesis
    unfolding prepare_upgrade_def by (intro log_intros log_validate [OF assms] log_draft [OF assms])
qed


text \<open>What a plan has passed, step by step.\<close>

lemma prepare_upgrade_Inr:
  assumes "prepare_upgrade hx proxy name opts s = (Inr pl, t)"
  shows "resolveAddress (hx_tools hx) proxy = Inr (pn_proxy pl) \<and> uc_safe (pn_contract pl) \<and>
    storage_checked hx opts (pn_proxy pl) (pn_contract pl) \<and> routed pl"
proof -
  obtain a k kind current layout c data h m1 front rest u1 u2 u3 u4 u5 u6 u7 u8 where
      a: "address_io hx proxy s = (Inr a, u1)" and kind: "pure_io (checkKind k) u2 = (Inr kind, u3)"
    and i: "on_host (hx_implementation hx a) u3 = (Inr current, u4)"
    and l: "on_host (hx_layoutFor hx current) u4 = (Inr layout, u5)"
    and c: "validateImplementation hx name (with_kind opts (JStr kind)) u5 = (Inr c, u6)"
    and safe: "assertStorageCompatible hx layout (uc_layout c) opts u6 = (Inr (), u7)"
    and route: "upgrade_authority hx a kind data u8 = (Inr (h, m1, front, rest), t)"
    and pl: "pn_proxy pl = a" "pn_kind pl = kind" "pn_contract pl = c" "pn_handle pl = h" "pn_method pl = m1"
      "pn_front pl = front"
    using assms unfolding prepare_upgrade_def by (elim bind_io_InrE) (auto split: prod.splits)
  have "storage_checked hx opts a c"
    using i l safe unfolding storage_checked_def on_host_Inr assertStorage_Inr by fastforce
  moreover have "routed pl"
    using upgrade_authority_Inr [OF route] kind pl unfolding pure_io_def lift_io_run prod.inject checkKind_Inr routed_def by auto
  ultimately show ?thesis using a validateImplementation_Inr [OF c] pl by (simp add: address_io_def pure_io_def)
qed

lemma call_contract_run:
  assumes "call_contract hx h method args ov signer s = (r, t)"
  shows "hs_log t = hs_log s @ [SentCall (fst h) (snd h) method args ov signer]"
proof -
  let ?u = "s\<lparr>hs_log := hs_log s @ [SentCall (fst h) (snd h) method args ov signer]\<rparr>"
  have "on_host (hx_call hx (fst h) (snd h) method args ov signer) ?u = (r, t)"
    using assms by (simp add: call_contract_def log_hardhat_def bind_io_def)
  then show ?thesis by (auto dest!: quiet_run intro: log_intros)
qed

lemma record_proxy_run:
  assumes "record_proxy hx kind a s = (r, t)"
  shows "hs_log t = hs_log s @ [AddedProxy kind a]"
proof -
  let ?u = "s\<lparr>hs_log := hs_log s @ [AddedProxy kind a]\<rparr>"
  have "on_host (hx_addProxy hx kind a) ?u = (r, t)"
    using assms by (simp add: record_proxy_def log_hardhat_def bind_io_def)
  then show ?thesis by (auto dest!: quiet_run intro: log_intros)
qed

lemma send_upgrade_run:
  assumes "send_upgrade hx opts pl implementation s = (r, t)"
  shows "hs_log t = hs_log s @ [upgrade_call opts pl implementation] \<and>
    (case r of Inl _ \<Rightarrow> True | Inr _ \<Rightarrow>
       \<exists>u current. hs_log u = hs_log t \<and> slot_address hx (pn_proxy pl) IMPL_SLOT u = (Inr current, t) \<and>
         lower current = lower implementation)"
  using assms unfolding send_upgrade_def
proof (cases rule: bind_io_cases)
  case (failed e)
  then show ?thesis using call_contract_run [OF failed(1)] by (simp add: upgrade_call_def)
next
  case (ok x u)
  have u: "hs_log u = hs_log s @ [upgrade_call opts pl implementation]"
    using call_contract_run [OF ok(1)] by (simp add: upgrade_call_def)
  have "hs_log t = hs_log u" using ok(2) by (rule quiet_run) (intro log_intros)
  then show ?thesis using u ok(2)
    by (auto split: sum.split elim!: bind_io_InrE simp: refuse_if_Inr)
qed

text \<open>The steps after the implementation: at most the call, then at most the record.\<close>

lemma upgrade_tail_run:
  assumes "bind_io (send_upgrade hx opts pl implementation) (\<lambda>_.
     bind_io (if pn_recorded pl then return_io () else record_proxy hx (JStr (pn_kind pl)) (pn_proxy pl)) (\<lambda>_.
       contract_at hx name (pn_proxy pl))) s = (r, t)"
  shows "\<exists>recorded. hs_log t = hs_log s @ upgrade_call opts pl implementation # recorded \<and>
     recorded \<in> {[], [AddedProxy (JStr (pn_kind pl)) (pn_proxy pl)]} \<and>
     (case r of Inl _ \<Rightarrow> True | Inr h \<Rightarrow>
       h = (name, pn_proxy pl) \<and>
       (\<exists>u v current. hs_log u = hs_log s @ [upgrade_call opts pl implementation] \<and>
          slot_address hx (pn_proxy pl) IMPL_SLOT u = (Inr current, v) \<and> lower current = lower implementation) \<and>
       recorded = (if pn_recorded pl then [] else [AddedProxy (JStr (pn_kind pl)) (pn_proxy pl)]))"
  using assms
proof (cases rule: bind_io_cases)
  case (failed e)
  then show ?thesis using send_upgrade_run [OF failed(1)] by simp
next
  case (ok x u)
  note sent = send_upgrade_run [OF ok(1), unfolded sum.case]
  show ?thesis using ok(2)
  proof (cases rule: bind_io_cases)
    case (failed e)
    then have "record_proxy hx (JStr (pn_kind pl)) (pn_proxy pl) u = (Inl e, t)" by (auto split: if_splits)
    then show ?thesis using sent record_proxy_run failed(2) by fastforce
  next
    case (ok y v)
    have v: "hs_log v = hs_log u @ (if pn_recorded pl then [] else [AddedProxy (JStr (pn_kind pl)) (pn_proxy pl)])"
      using ok(1) record_proxy_run by (auto split: if_splits)
    have "hs_log t = hs_log v" using ok(2) by (rule quiet_run) (intro log_intros)
    then show ?thesis
      using sent v ok(2)
      by (intro exI [of _ "if pn_recorded pl then [] else [AddedProxy (JStr (pn_kind pl)) (pn_proxy pl)]"])
         (auto split: sum.split dest: contract_at_Inr)
  qed
qed

lemma implementation_run:
  assumes "well_hosted hx" and "resolveImplementation hx name opts v s = (r, t)"
  obtains evs where "hs_log t = hs_log s @ evs" and "list_all (implementation_event name) evs"
proof -
  have "log_extends (implementation_event name) (resolveImplementation hx name opts v)"
    by (rule log_implementation [OF assms(1)]) (simp_all add: implementation_event_def)
  then show ?thesis using assms(2) that by (rule log_extendsE)
qed

lemma upgrade_after_checks:
  assumes "well_hosted hx"
    and "bind_io (implementation_address hx name opts (pn_contract pl)) (\<lambda>implementation.
        bind_io (send_upgrade hx opts pl implementation) (\<lambda>_.
        bind_io (if pn_recorded pl then return_io () else record_proxy hx (JStr (pn_kind pl)) (pn_proxy pl)) (\<lambda>_.
          contract_at hx name (pn_proxy pl)))) u = (r, t)"
  shows "\<exists>new sent. hs_log t = hs_log u @ new @ sent \<and> list_all (implementation_event name) new \<and>
       (sent = [] \<or> (\<exists>implementation recorded. sent = upgrade_call opts pl implementation # recorded \<and>
          recorded \<in> {[], [AddedProxy (JStr (pn_kind pl)) (pn_proxy pl)]}))"
  using assms(2)
proof (cases rule: bind_io_cases)
  case (failed e)
  then have "resolveImplementation hx name opts (Some (pn_contract pl)) u = (Inl e, t)"
    by (auto simp: implementation_address_def elim!: bind_io_cases)
  then obtain new where "hs_log t = hs_log u @ new" "list_all (implementation_event name) new"
    by (rule implementation_run [OF assms(1)])
  then show ?thesis by (intro exI [of _ new] exI [of _ "[]"]) simp
next
  case (ok i v)
  obtain d where "resolveImplementation hx name opts (Some (pn_contract pl)) u = (Inr d, v)"
    using ok(1) by (auto simp: implementation_address_def elim!: bind_io_InrE)
  then obtain new where new: "hs_log v = hs_log u @ new" "list_all (implementation_event name) new"
    by (rule implementation_run [OF assms(1)])
  obtain recorded where "hs_log t = hs_log v @ upgrade_call opts pl i # recorded"
    "recorded \<in> {[], [AddedProxy (JStr (pn_kind pl)) (pn_proxy pl)]}"
    using upgrade_tail_run [OF ok(2)] by blast
  then show ?thesis using new by (intro exI [of _ new] exI [of _ "upgrade_call opts pl i # recorded"]) auto
qed


text \<open>
  An upgrade that returns has been verified on chain.  The handle is that of the proxy under
  the new contract's name; the upgrade call is in the log with the implementation the operation
  resolved; and a read of the proxy's implementation slot after that call gave its address.
\<close>

theorem hardhat_upgrade_is_verified_on_chain:
  assumes "upgradeProxy hx proxy name opts s = (Inr h, t)"
  shows "\<exists>pl implementation before recorded u v current.
    resolveAddress (hx_tools hx) proxy = Inr (pn_proxy pl) \<and> h = (name, pn_proxy pl) \<and>
    hs_log t = before @ upgrade_call opts pl implementation # recorded \<and>
    hs_log u = before @ [upgrade_call opts pl implementation] \<and>
    slot_address hx (pn_proxy pl) IMPL_SLOT u = (Inr current, v) \<and> lower current = lower implementation \<and>
    recorded = (if pn_recorded pl then [] else [AddedProxy (JStr (pn_kind pl)) (pn_proxy pl)])"
proof -
  obtain pl u where p: "prepare_upgrade hx proxy name opts s = (Inr pl, u)"
    and rest: "bind_io (implementation_address hx name opts (pn_contract pl)) (\<lambda>implementation.
        bind_io (send_upgrade hx opts pl implementation) (\<lambda>_.
        bind_io (if pn_recorded pl then return_io () else record_proxy hx (JStr (pn_kind pl)) (pn_proxy pl)) (\<lambda>_.
          contract_at hx name (pn_proxy pl)))) u = (Inr h, t)"
    using assms unfolding upgradeProxy_def by (rule bind_io_InrE)
  obtain i v where run: "bind_io (send_upgrade hx opts pl i) (\<lambda>_.
        bind_io (if pn_recorded pl then return_io () else record_proxy hx (JStr (pn_kind pl)) (pn_proxy pl)) (\<lambda>_.
          contract_at hx name (pn_proxy pl))) v = (Inr h, t)"
    using rest by (rule bind_io_InrE)
  show ?thesis using upgrade_tail_run [OF run] prepare_upgrade_Inr [OF p] unfolding sum.case by metis
qed


section \<open>\<open>deployProxy\<close>\<close>

lemma log_owner [log_intros]: "log_extends P (initial_owner hx opts)"
  unfolding initial_owner_def by (cases "opt opts ''initialOwner''") (simp_all add: log_intros)

lemma log_prepare_deploy:
  assumes "well_hosted hx"
  shows "log_extends is_write (prepare_deploy hx name args opts)"
proof -
  have "log_extends is_write (load hx)" by (rule log_load) (use assms in \<open>simp_all add: is_write_def\<close>)
  then show ?thesis
    unfolding prepare_deploy_def by (intro log_intros log_validate [OF assms] log_draft [OF assms])
qed

lemma prepare_deploy_Inr:
  fixes hx :: "'w hx"
  assumes "prepare_deploy hx name args opts s = (Inr pl, t)"
  shows "uc_safe (dp_contract pl) \<and> dp_kind pl \<in> {''transparent'', ''uups''} \<and> dp_data pl \<noteq> ''0x'' \<and>
    getInitializerData (hx_fragment hx (uc_abi (dp_contract pl))) (hx_encode hx (uc_abi (dp_contract pl))) args
      (opt opts ''initializer'') = Inr (dp_data pl)"
proof -
  obtain k kind c data n0 u3 u4 u5 u6 and u1 u2 :: "'w hardhat_state" where kind: "pure_io (checkKind k) u1 = (Inr kind, u2)"
    and c: "validateImplementation hx name (with_kind opts (JStr kind)) u3 = (Inr c, u4)"
    and d: "initializer_data hx (uc_abi c) args (opt opts ''initializer'') u4 = (Inr data, u5)"
    and n: "refuse_if (data = ''0x'') (UninitializedRefused kind (opt opts ''initializer'' = JBool False)) u5 = (Inr n0, u6)"
    and pl: "pl = \<lparr>dp_kind = kind, dp_contract = c, dp_data = data\<rparr>"
    using assms unfolding prepare_deploy_def
    by (elim bind_io_InrE) (rule that, assumption+, simp)
  show ?thesis
    using kind validateImplementation_Inr [OF c] d n pl
    unfolding pure_io_def lift_io_run prod.inject checkKind_Inr refuse_if_Inr initializer_data_def by simp
qed

lemma deploy_run:
  assumes "deployContractWithOptions hx name args opts s = (Inr i, t)"
  shows "\<exists>ov. hs_log t = hs_log s @ [SentDeploy name args ov] \<and> txOverridesOf (opt opts ''txOverrides'') = Inr ov"
proof -
  obtain ov u where o0: "overrides_of opts s = (Inr ov, u)"
    and d0: "bind_io (log_hardhat (SentDeploy name args ov)) (\<lambda>_. on_host (hx_deploy hx name args ov)) u = (Inr i, t)"
    using assms unfolding deployContractWithOptions_def by (rule bind_io_InrE)
  then have o1: "txOverridesOf (opt opts ''txOverrides'') = Inr ov"
    and d: "bind_io (log_hardhat (SentDeploy name args ov)) (\<lambda>_. on_host (hx_deploy hx name args ov)) s = (Inr i, t)"
    by (simp_all add: overrides_of_def pure_io_def)
  have "on_host (hx_deploy hx name args ov) (s\<lparr>hs_log := hs_log s @ [SentDeploy name args ov]\<rparr>) = (Inr i, t)"
    using d by (simp add: log_hardhat_def bind_io_def)
  then show ?thesis using o1 by (auto dest!: quiet_run intro: log_intros)
qed

text \<open>The owner a transparent proxy is given: checked not to be an admin contract, unless told not to.\<close>

definition owner_checked :: "'w hx \<Rightarrow> js \<Rightarrow> string \<Rightarrow> bool" where
  "owner_checked hx opts owner \<longleftrightarrow>
     (\<exists>s t. initial_owner hx opts s = (Inr owner, t) \<and>
        (js_truthy (opt opts ''unsafeSkipProxyAdminCheck'') \<or>
         (\<exists>u. or_false_on_revert (on_host (hx_isProxyAdmin hx owner)) t = (Inr False, u))))"

definition proxy_deployment :: "'w hx \<Rightarrow> js \<Rightarrow> hardhat_deploy_plan \<Rightarrow> string \<Rightarrow> js option \<Rightarrow> hardhat_event \<Rightarrow> bool" where
  "proxy_deployment hx opts pl implementation ov ev \<longleftrightarrow>
     (if dp_kind pl = ''transparent''
      then \<exists>owner. owner_checked hx opts owner \<and>
             ev = SentDeploy fqn_transparent [JStr implementation, JStr owner, JStr (dp_data pl)] ov
      else ev = SentDeploy fqn_trc1967 [JStr implementation, JStr (dp_data pl)] ov)"

lemma deploy_proxy_contract_run:
  assumes "deploy_proxy_contract hx opts pl implementation s = (Inr i, t)"
  shows "\<exists>ov ev. hs_log t = hs_log s @ [ev] \<and> proxy_deployment hx opts pl implementation ov ev"
proof (cases "dp_kind pl = ''transparent''")
  case True
  then have run: "bind_io (initial_owner hx opts) (\<lambda>owner.
      bind_io (if js_truthy (opt opts ''unsafeSkipProxyAdminCheck'') then return_io False
               else or_false_on_revert (on_host (hx_isProxyAdmin hx owner))) (\<lambda>isAdmin.
      bind_io (refuse_if isAdmin (OwnerIsProxyAdmin owner)) (\<lambda>_.
        deployContractWithOptions hx fqn_transparent [JStr implementation, JStr owner, JStr (dp_data pl)] opts))) s = (Inr i, t)"
    using assms by (simp add: deploy_proxy_contract_def)
  obtain owner u where o1: "initial_owner hx opts s = (Inr owner, u)"
    and run1: "bind_io (if js_truthy (opt opts ''unsafeSkipProxyAdminCheck'') then return_io False
               else or_false_on_revert (on_host (hx_isProxyAdmin hx owner))) (\<lambda>isAdmin.
      bind_io (refuse_if isAdmin (OwnerIsProxyAdmin owner)) (\<lambda>_.
        deployContractWithOptions hx fqn_transparent [JStr implementation, JStr owner, JStr (dp_data pl)] opts)) u = (Inr i, t)"
    using run by (rule bind_io_InrE)
  obtain v where probe: "(if js_truthy (opt opts ''unsafeSkipProxyAdminCheck'') then return_io False
               else or_false_on_revert (on_host (hx_isProxyAdmin hx owner))) u = (Inr False, v)"
    and d: "deployContractWithOptions hx fqn_transparent [JStr implementation, JStr owner, JStr (dp_data pl)] opts v = (Inr i, t)"
    using run1 by (auto elim!: bind_io_InrE simp: refuse_if_Inr)
  have "hs_log u = hs_log s" using o1 by (rule quiet_run) (intro log_intros)
  moreover have "hs_log v = hs_log u" using probe by (rule quiet_run) (intro log_intros)
  moreover have "owner_checked hx opts owner"
    using o1 probe unfolding owner_checked_def by (auto split: if_splits)
  ultimately show ?thesis using deploy_run [OF d] True unfolding proxy_deployment_def by auto
next
  case False
  then have "deployContractWithOptions hx fqn_trc1967 [JStr implementation, JStr (dp_data pl)] opts s = (Inr i, t)"
    using assms by (simp add: deploy_proxy_contract_def)
  from deploy_run [OF this] show ?thesis using False unfolding proxy_deployment_def by auto
qed



section \<open>The other operations\<close>

definition record_event :: "hardhat_event \<Rightarrow> bool" where
  "record_event ev \<longleftrightarrow> (case ev of WroteManifest _ \<Rightarrow> True | AddedProxy _ _ \<Rightarrow> True | _ \<Rightarrow> False)"

definition calls_nothing :: "hardhat_event \<Rightarrow> bool" where
  "calls_nothing ev \<longleftrightarrow> (case ev of SentCall _ _ _ _ _ _ \<Rightarrow> False | _ \<Rightarrow> True)"

lemma event_kinds [simp]:
  "is_write (WroteManifest d)" "record_event (WroteManifest d)" "record_event (AddedProxy k a)"
  "implementation_event n (WroteManifest d)" "implementation_event n (SentDeploy n as ov)"
  "calls_nothing (WroteManifest d)" "calls_nothing (AddedProxy k a)" "calls_nothing (SentDeploy m as ov)"
  by (simp_all add: is_write_def record_event_def implementation_event_def calls_nothing_def)

lemma log_reference:
  assumes "well_hosted hx"
  shows "log_extends is_write (check_reference hx reference name opts missing)"
proof -
  have "log_extends is_write (load hx)" by (rule log_load) (use assms in simp_all)
  then show ?thesis
    unfolding check_reference_def resolveReferenceImpl_def
    by (intro log_intros log_validate [OF assms] log_draft [OF assms])
qed

lemma log_import:
  assumes "well_hosted hx"
  shows "log_extends record_event (forceImport hx target1 name opts)"
proof -
  have l: "log_extends record_event (load hx)" by (rule log_load) (use assms in simp_all)
  have r: "log_extends record_event (recordImpl (hx_manifest hx) c a hash)" for c a hash
    by (rule log_record) (use assms in simp_all)
  have k: "log_extends record_event (imported_kind hx opts a draft)" for a draft
    unfolding imported_kind_def by (intro log_intros)
  have "log_extends record_event (import_proxy hx a i name opts)" for a i
    unfolding import_proxy_def
    by (intro log_intros k r log_draft [OF assms] log_validate [OF assms] log_add) simp
  moreover have "log_extends record_event (import_bare hx a name opts)" for a
    unfolding import_bare_def by (intro log_intros r log_validate [OF assms])
  ultimately show ?thesis unfolding forceImport_def by (intro log_intros l)
qed

lemma log_address_of:
  assumes "well_hosted hx"
  shows "log_extends calls_nothing (implementation_address hx name opts c)"
  unfolding implementation_address_def by (intro log_intros log_implementation [OF assms]) simp_all

lemma log_deployments:
  assumes "well_hosted hx"
  shows "log_extends calls_nothing (deployProxy hx name args opts)"
    and "log_extends calls_nothing (deployBeacon hx name opts)"
    and "log_extends calls_nothing (deployBeaconProxy hx beacon name args opts)"
proof -
  have l: "log_extends calls_nothing (load hx)" by (rule log_load) (use assms in simp_all)
  have d: "log_extends calls_nothing (deployContractWithOptions hx n as opts)" for n as opts by (rule log_deploy) simp
  have r: "log_extends calls_nothing (record_deployed hx n k i)" for n k i
    unfolding record_deployed_def by (intro log_intros log_add) simp
  have p: "log_extends calls_nothing (deploy_proxy_contract hx opts pl i)" for pl i
    unfolding deploy_proxy_contract_def by (intro log_intros d)
  have "log_extends calls_nothing (prepare_deploy hx name args opts)"
    unfolding prepare_deploy_def by (intro log_intros l log_validate [OF assms] log_draft [OF assms])
  then show "log_extends calls_nothing (deployProxy hx name args opts)"
    unfolding deployProxy_def by (intro log_intros log_address_of [OF assms] r p)
  show "log_extends calls_nothing (deployBeacon hx name opts)"
    unfolding deployBeacon_def by (intro log_intros l log_validate [OF assms] log_address_of [OF assms] d)
  show "log_extends calls_nothing (deployBeaconProxy hx beacon name args opts)"
    unfolding deployBeaconProxy_def prepare_beacon_proxy_def by (intro log_intros l d r)
qed

text \<open>
  C36: What each operation may send.  Validating against a name or a deployed reference, and
  validating an implementation, send nothing and touch the record only to migrate it; importing
  sends nothing and writes only the record; preparing an upgrade and deploying an implementation
  send only that implementation's own deployment, never a call to the proxy; and no deployment of
  a proxy or a beacon calls a contract.
\<close>

theorem what_each_operation_may_send:
  assumes "well_hosted hx"
  shows "log_extends is_write (validateUpgradeFn hx reference name opts) \<and>
    log_extends is_write (makeValidateImplementation hx name opts) \<and>
    log_extends record_event (forceImport hx address name opts) \<and>
    log_extends (implementation_event name) (prepareUpgrade hx address name opts) \<and>
    log_extends (implementation_event name) (deployImplementation hx name opts) \<and>
    log_extends calls_nothing (deployProxy hx name args opts) \<and>
    log_extends calls_nothing (deployBeacon hx name opts) \<and>
    log_extends calls_nothing (deployBeaconProxy hx address name args opts)"
proof -
  have n: "log_extends is_write (validateUpgrade hx old name opts)" for old
    unfolding validateUpgrade_def by (intro log_intros log_validate [OF assms] log_draft [OF assms])
  have "log_extends is_write (validateUpgradeFn hx reference name opts)"
    unfolding validateUpgradeFn_def validateUpgradeReference_def by (intro log_intros n log_reference [OF assms])
  moreover have "log_extends is_write (makeValidateImplementation hx name opts)"
    unfolding makeValidateImplementation_def by (intro log_intros log_validate [OF assms])
  moreover have i: "log_extends (implementation_event name) (resolveImplementation hx name opts c)" for c
    by (rule log_implementation [OF assms]) simp_all
  have w: "implementation_event name ev" if "is_write ev" for ev
    using that by (auto simp: implementation_event_def is_write_def split: hardhat_event.splits)
  have "log_extends (implementation_event name) (check_reference hx address name opts missing)" for missing
    by (rule log_mono [OF log_reference [OF assms]]) (rule w)
  then have "log_extends (implementation_event name) (prepareUpgrade hx address name opts)"
    unfolding prepareUpgrade_def by (intro log_intros i)
  moreover have "log_extends (implementation_event name) (deployImplementation hx name opts)"
    unfolding deployImplementation_def by (intro log_intros i)
  ultimately show ?thesis using log_import [OF assms] log_deployments [OF assms] by blast
qed

text \<open>A call and the read that verifies it, in one shape for the owner and the beacon.\<close>

definition verified_read :: "'w hx \<Rightarrow> handle \<Rightarrow> string \<Rightarrow> js option \<Rightarrow> string \<Rightarrow> bool" where
  "verified_read hx h getter signer expected \<longleftrightarrow>
     (\<exists>actual w w'. hx_call hx (fst h) (snd h) getter [] None signer w = (Inr (JStr actual), w') \<and>
        lower actual = lower expected)"

lemma call_and_verify_run:
  assumes "bind_io (call_contract hx h method args ov signer) (\<lambda>_.
     bind_io (on_host (hx_call hx (fst h) (snd h) getter [] None reader)) (\<lambda>answer.
     bind_io (text_or_type_error answer) (\<lambda>actual. refuse_if (lower actual \<noteq> lower expected) (err actual)))) s = (r, t)"
  shows "hs_log t = hs_log s @ [SentCall (fst h) (snd h) method args ov signer] \<and>
    (case r of Inl _ \<Rightarrow> True | Inr _ \<Rightarrow> verified_read hx h getter reader expected)"
  using assms
proof (cases rule: bind_io_cases)
  case (failed e)
  then show ?thesis using call_contract_run [OF failed(1)] by simp
next
  case (ok x u)
  have "hs_log t = hs_log u" using ok(2) by (rule quiet_run) (intro log_intros)
  moreover have "verified_read hx h getter reader expected" if "r = Inr y" for y
    using ok(2) that unfolding verified_read_def
    by (auto elim!: bind_io_InrE simp: on_host_Inr text_or_type_error_def refuse_if_Inr split: js.splits; blast)
  ultimately show ?thesis using call_contract_run [OF ok(1)] by (auto split: sum.split)
qed

lemma prepare_transfer_Inr:
  fixes hx :: "'w hx"
  assumes "prepare_transfer hx proxy newOwner opts s = (Inr (ov, owner, h), t)"
  shows "\<exists>p admin u v. resolveAddress (hx_tools hx) proxy = Inr p \<and> resolveAddress (hx_tools hx) newOwner = Inr owner \<and>
    slot_address hx p ADMIN_SLOT u = (Inr admin, v) \<and> admin \<noteq> ZERO_ADDRESS \<and>
    checksum_of (hx_tools hx) admin = Inr (snd h) \<and> fst h = fqn_proxyAdmin"
proof -
  obtain p new admin a n0 h1 ov1 s1 s2 s3 s4 s5 s6 s7 where p: "address_io hx proxy s1 = (Inr p, s2)"
    and o1: "address_io hx newOwner s2 = (Inr new, s3)" and ad: "slot_address hx p ADMIN_SLOT s3 = (Inr admin, s4)"
    and z: "refuse_if (admin = ZERO_ADDRESS) (NoAdmin p) s4 = (Inr n0, s5)"
    and a: "pure_io (checksum_of (hx_tools hx) admin) s5 = (Inr a, s6)" and c: "contract_at hx fqn_proxyAdmin a s6 = (Inr h1, s7)"
    and e: "(ov1, new, h1) = (ov, owner, h)"
    using assms unfolding prepare_transfer_def by (elim bind_io_InrE) (rule that, assumption+, simp)
  show ?thesis
    using p o1 ad z a e contract_at_Inr [OF c] unfolding address_io_def pure_io_def lift_io_run prod.inject refuse_if_Inr
    by (intro exI [of _ p] exI [of _ admin] exI [of _ s3] exI [of _ s4]) auto
qed

text \<open>
  A transfer of the admin is at most one call, and a transfer that returns is verified.  On
  every path the log grows by nothing or by the one call of \<open>transferOwnership\<close>, to the admin
  contract that the proxy's slot names and never to the zero address; where the operation returns,
  the owner read from that contract is the one asked for.
\<close>

theorem ownership_transfer_is_one_verified_call:
  "case transferProxyAdminOwnership hx proxy newOwner opts s of (r, t) \<Rightarrow>
     (if hs_log t = hs_log s then r \<noteq> Inr ()
      else \<exists>p owner admin a ov u v.
        resolveAddress (hx_tools hx) proxy = Inr p \<and> resolveAddress (hx_tools hx) newOwner = Inr owner \<and>
        slot_address hx p ADMIN_SLOT u = (Inr admin, v) \<and> admin \<noteq> ZERO_ADDRESS \<and>
        checksum_of (hx_tools hx) admin = Inr a \<and>
        hs_log t = hs_log s @ [SentCall fqn_proxyAdmin a ''transferOwnership'' [JStr owner] ov (signer_of opts)] \<and>
        (case r of Inl _ \<Rightarrow> True
         | Inr _ \<Rightarrow> verified_read hx (fqn_proxyAdmin, a) ''owner'' (signer_of opts) owner))"
proof -
  obtain r t where run: "transferProxyAdminOwnership hx proxy newOwner opts s = (r, t)" by fastforce
  from run [unfolded transferProxyAdminOwnership_def] show ?thesis
  proof (cases rule: bind_io_cases)
    case (failed e)
    have "hs_log t = hs_log s"
      using failed(1) by (rule quiet_run) (unfold prepare_transfer_def, intro log_intros)
    then show ?thesis using run failed(2) by simp
  next
    case (ok x u)
    obtain ov owner h where x: "x = (ov, owner, h)" by (cases x) auto
    have "hs_log u = hs_log s"
      using ok(1) by (rule quiet_run) (unfold prepare_transfer_def, intro log_intros)
    moreover obtain p admin u1 v1 where "resolveAddress (hx_tools hx) proxy = Inr p"
      "resolveAddress (hx_tools hx) newOwner = Inr owner" "slot_address hx p ADMIN_SLOT u1 = (Inr admin, v1)"
      "admin \<noteq> ZERO_ADDRESS" "checksum_of (hx_tools hx) admin = Inr (snd h)" and h: "fst h = fqn_proxyAdmin"
      using prepare_transfer_Inr [OF ok(1) [unfolded x]] by blast
    moreover have "send_transfer hx opts ov owner h u = (r, t)" using ok(2) x by simp
    note call_and_verify_run [OF this [unfolded send_transfer_def]]
    moreover have "h = (fqn_proxyAdmin, snd h)" using h by (cases h) simp
    ultimately show ?thesis unfolding run prod.case by (auto intro!: exI split: sum.split)
  qed
qed

text \<open>
  A beacon upgrade that returns is verified.  The address was confirmed to be a beacon; the
  contract is safe, over the storage layout recorded for what the beacon served; the last call of
  the log switches that beacon to the implementation of this contract; and the beacon, asked after it,
  names that implementation.
\<close>

theorem hardhat_beacon_upgrade_is_verified:
  assumes "upgradeBeacon hx beacon name opts s = (Inr h, t)" and "well_hosted hx"
  shows "\<exists>a (c :: upgradeable) checks implementation ov u v w0 w1 w2 current layout.
    resolveAddress (hx_tools hx) beacon = Inr a \<and> h = (fqn_beacon, a) \<and>
    isBeaconContract hx a u = (Inr True, v) \<and> uc_safe c \<and>
    hx_implementationFromBeacon hx a w0 = (Inr current, w1) \<and> hx_layoutFor hx current w1 = (Inr layout, w2) \<and>
    (js_truthy (opt opts ''unsafeSkipStorageCheck'') \<or> hx_layoutSafe hx layout (uc_layout c) opts = Inr ()) \<and>
    hs_log t = hs_log s @ checks @ [SentCall fqn_beacon a ''upgradeTo'' [JStr implementation] ov (signer_of opts)] \<and>
    list_all (implementation_event name) checks \<and> verified_read hx h ''implementation'' None implementation"
proof -
  obtain a c s1 where p: "prepare_beacon_upgrade hx beacon name opts s = (Inr (a, c), s1)"
    and rest: "bind_io (contract_at hx fqn_beacon a) (\<lambda>h.
      bind_io (implementation_address hx name opts c) (\<lambda>implementation.
      bind_io (switch_beacon_implementation hx opts h implementation) (\<lambda>_. return_io h))) s1 = (Inr h, t)"
    using assms(1) unfolding upgradeBeacon_def by (auto elim!: bind_io_InrE [of "prepare_beacon_upgrade hx beacon name opts"])
  obtain i s2 s3 s4 where c: "contract_at hx fqn_beacon a s1 = (Inr h, s2)"
    and i: "implementation_address hx name opts c s2 = (Inr i, s3)"
    and sw: "switch_beacon_implementation hx opts h i s3 = (Inr (), t)"
    using rest by (auto elim!: bind_io_InrE)
  obtain current layout u0 u1 u2 u3 u4 u5 u6 b d n0 n1 where ad: "address_io hx beacon s = (Inr b, u0)"
    and bc: "assertIsBeacon hx b u0 = (Inr n0, u1)"
    and im: "on_host (hx_implementationFromBeacon hx b) u2 = (Inr current, u3)"
    and la: "on_host (hx_layoutFor hx current) u3 = (Inr layout, u4)"
    and va: "validateImplementation hx name (with_kind opts (JStr ''beacon'')) u4 = (Inr d, u5)"
    and st: "assertStorageCompatible hx layout (uc_layout d) opts u5 = (Inr n1, u6)"
    and ba: "(b, d) = (a, c)"
    using p unfolding prepare_beacon_upgrade_def by (elim bind_io_InrE) (rule that, assumption+, simp)
  have ab: "b = a" "d = c" using ba by simp_all
  have load: "log_extends (implementation_event name) (load hx)" by (rule log_load) (use assms(2) in simp_all)
  have "log_extends (implementation_event name) (prepare_beacon_upgrade hx beacon name opts)"
    unfolding prepare_beacon_upgrade_def by (intro log_intros load log_validate [OF assms(2)])
  then obtain e1 where e1: "hs_log s1 = hs_log s @ e1" "list_all (implementation_event name) e1"
    using p by (rule log_extendsE)
  have e2: "hs_log s2 = hs_log s1" using c by (rule quiet_run) (intro log_intros)
  obtain d1 where "resolveImplementation hx name opts (Some c) s2 = (Inr d1, s3)"
    using i by (auto simp: implementation_address_def elim!: bind_io_InrE)
  then obtain e3 where e3: "hs_log s3 = hs_log s2 @ e3" "list_all (implementation_event name) e3"
    by (rule implementation_run [OF assms(2)])
  obtain ov s5 where ov: "overrides_of opts s3 = (Inr ov, s5)"
    and call: "bind_io (call_contract hx h ''upgradeTo'' [JStr i] ov (signer_of opts)) (\<lambda>_.
      bind_io (on_host (hx_call hx (fst h) (snd h) ''implementation'' [] None None)) (\<lambda>answer.
      bind_io (text_or_type_error answer) (\<lambda>current.
        refuse_if (lower current \<noteq> lower i) (UpgradeUnverified (lower current) i)))) s5 = (Inr (), t)"
    using sw unfolding switch_beacon_implementation_def by (rule bind_io_InrE)
  have e4: "hs_log s5 = hs_log s3" using ov by (rule quiet_run) (intro log_intros)
  have h: "h = (fqn_beacon, a)" using contract_at_Inr [OF c] .
  have "hs_log t = hs_log s @ (e1 @ e3) @ [SentCall fqn_beacon a ''upgradeTo'' [JStr i] ov (signer_of opts)]"
    and "verified_read hx h ''implementation'' None i"
    using call_and_verify_run [OF call] e1 e2 e3 e4 h by simp_all
  moreover have "list_all (implementation_event name) (e1 @ e3)" using e1 e3 by simp
  moreover obtain v where "isBeaconContract hx a u0 = (Inr True, v)"
    using bc ab unfolding assertIsBeacon_def by (auto elim!: bind_io_InrE simp: refuse_if_Inr)
  moreover have "resolveAddress (hx_tools hx) beacon = Inr a" using ad ab by (simp add: address_io_def pure_io_def)
  moreover obtain w0 w1 w2 where "hx_implementationFromBeacon hx a w0 = (Inr current, w1)"
    "hx_layoutFor hx current w1 = (Inr layout, w2)"
    using im la ab unfolding on_host_Inr by fastforce
  moreover have "js_truthy (opt opts ''unsafeSkipStorageCheck'') \<or> hx_layoutSafe hx layout (uc_layout c) opts = Inr ()"
    using st ab unfolding assertStorage_Inr by blast
  moreover have "uc_safe c" using validateImplementation_Inr [OF va] ab by simp
  ultimately show ?thesis using h
    by (intro exI [of _ a] exI [of _ c] exI [of _ "e1 @ e3"] exI [of _ i] exI [of _ ov] exI [of _ u0] exI [of _ v]
        exI [of _ w0] exI [of _ w1] exI [of _ w2] exI [of _ current] exI [of _ layout] conjI)
qed

section \<open>A host\<close>

definition demo_contract :: upgradeable where
  "demo_contract =
     \<lparr>uc_name = ''Box'', uc_key = ''v1'', uc_version = JStr ''v1'', uc_layout = JObj [], uc_abi = JNull,
      uc_validations = JNull, uc_safe = True\<rparr>"

definition demo_account :: "char \<Rightarrow> string" where
  "demo_account c = ''0x'' @ replicate 40 c"

definition demo_word :: "char \<Rightarrow> js" where
  "demo_word c = JStr (''0x'' @ replicate 24 (CHR ''0'') @ replicate 40 c)"

text \<open>Its contracts deploy at \<open>0xbb..\<close>, its proxy's admin is \<open>0xcc..\<close>, and its beacons serve what was deployed.\<close>

definition demo_host :: "js hx" where
  "demo_host =
     \<lparr>hx_tools = demo_tools, hx_legacy = False, hx_manifest = memory_manifest,
      hx_draft = (\<lambda>_ _. return_io demo_contract), hx_infer = (\<lambda>_. Inr (JStr ''transparent'')),
      hx_processKind = (\<lambda>_ _ _ w. (Inr (JStr ''transparent''), w)),
      hx_storage = (\<lambda>_ slot w. (Inr (demo_word (if slot = IMPL_SLOT then CHR ''b'' else if slot = ADMIN_SLOT then CHR ''c'' else CHR ''0'')), w)),
      hx_fetchStorage = (\<lambda>_ _ w. (Inr JNull, w)), hx_layoutFor = (\<lambda>_ w. (Inr (JObj []), w)),
      hx_layoutSafe = (\<lambda>_ _ _. Inr ()), hx_layoutReport = (\<lambda>_ _ _. Inr True),
      hx_fetchOrDeploy = (\<lambda>_ f _ _. f), hx_removed = (\<lambda>_. False),
      hx_deploy = (\<lambda>_ _ _ w. (Inr (JObj [(''address'', JStr (demo_account (CHR ''b'')))]), w)),
      hx_attach = (\<lambda>_ _ w. (Inr (), w)),
      hx_call = (\<lambda>_ _ _ _ _ _ w. (Inr (JStr (demo_account (CHR ''b''))), w)), hx_names = (\<lambda>w. (Inr [], w)),
      hx_interfaceVersion = (\<lambda>_ w. (Inr (JStr ''5.0.0''), w)),
      hx_implementation = (\<lambda>_ w. (Inr (demo_account (CHR ''d'')), w)), hx_beacon = (\<lambda>_ w. (Inr (demo_account (CHR ''e'')), w)),
      hx_implementationFromBeacon = (\<lambda>_ w. (Inr (demo_account (CHR ''d'')), w)),
      hx_implementationFromProxy = (\<lambda>_ w. (Inr None, w)), hx_isProxy = (\<lambda>_ w. (Inr True, w)),
      hx_isBeaconProxy = (\<lambda>_ w. (Inr False, w)), hx_isBeacon = (\<lambda>_ w. (Inr True, w)), hx_hasCode = (\<lambda>_ w. (Inr True, w)),
      hx_isProxyAdmin = (\<lambda>_ w. (Inr False, w)), hx_transaction = (\<lambda>_ w. (Inr JNull, w)),
      hx_addProxy = (\<lambda>_ _ w. (Inr (), w)), hx_artifactAbi = (\<lambda>_. Inr JNull), hx_fragment = (\<lambda>_ _. Some JNull),
      hx_encode = (\<lambda>_ _ _. Inr ''0x8129fc1c'')\<rparr>"

definition demo_start :: "js hardhat_state" where
  "demo_start = \<lparr>hs_world = JObj [(''proxies'', JArr []), (''impls'', JObj [])], hs_log = []\<rparr>"

lemma demo_hosted: "well_hosted demo_host"
  by (simp add: well_hosted_def demo_host_def demo_lock log_intros)

lemma hosted_upgrade:
  "case upgradeProxy demo_host (demo_account (CHR ''a'')) ''Box'' (JObj []) demo_start of
     (Inr h, t) \<Rightarrow> h = (''Box'', demo_account (CHR ''a'')) \<and>
       hs_log t =
         [SentDeploy ''Box'' [] None,
          SentCall fqn_proxyAdmin (demo_account (CHR ''c'')) ''upgradeAndCall''
            [JStr (demo_account (CHR ''a'')), JStr (demo_account (CHR ''b'')), JStr ''0x''] None None,
          AddedProxy (JStr ''transparent'') (demo_account (CHR ''a''))]
   | _ \<Rightarrow> False"
  by code_simp

lemma hosted_deploy:
  "case deployProxy demo_host ''Box'' [] (JObj []) demo_start of
     (Inr h, t) \<Rightarrow> h = (''Box'', demo_account (CHR ''b'')) \<and> length (hs_log t) = 3 | _ \<Rightarrow> False"
  by code_simp

lemma hosted_beacon_upgrade:
  "case upgradeBeacon demo_host (demo_account (CHR ''e'')) ''Box'' (JObj []) demo_start of
     (Inr h, t) \<Rightarrow> h = (fqn_beacon, demo_account (CHR ''e'')) \<and> length (hs_log t) = 2 | _ \<Rightarrow> False"
  by code_simp


theorem hardhat_upgrade_is_verified_on_chain_witness:
  "\<exists>t (pl :: upgrade_plan) u v current. upgradeProxy demo_host (demo_account (CHR ''a'')) ''Box'' (JObj []) demo_start =
       (Inr (''Box'', demo_account (CHR ''a'')), t) \<and> length (hs_log t) = 3 \<and>
     slot_address demo_host (pn_proxy pl) IMPL_SLOT u = (Inr current, v)"
proof -
  obtain t where run: "upgradeProxy demo_host (demo_account (CHR ''a'')) ''Box'' (JObj []) demo_start =
      (Inr (''Box'', demo_account (CHR ''a'')), t)" and l: "length (hs_log t) = 3"
    using hosted_upgrade by (auto split: prod.splits sum.splits)
  show ?thesis using hardhat_upgrade_is_verified_on_chain [OF run] run l by blast
qed


theorem what_each_operation_may_send_witness:
  "log_extends (implementation_event ''Box'') (prepareUpgrade demo_host (demo_account (CHR ''a'')) ''Box'' (JObj []))"
  using what_each_operation_may_send [OF demo_hosted] by blast

theorem hardhat_beacon_upgrade_is_verified_witness:
  "\<exists>t implementation. upgradeBeacon demo_host (demo_account (CHR ''e'')) ''Box'' (JObj []) demo_start =
       (Inr (fqn_beacon, demo_account (CHR ''e'')), t) \<and>
     verified_read demo_host (fqn_beacon, demo_account (CHR ''e'')) ''implementation'' None implementation"
proof -
  obtain t where run: "upgradeBeacon demo_host (demo_account (CHR ''e'')) ''Box'' (JObj []) demo_start =
      (Inr (fqn_beacon, demo_account (CHR ''e'')), t)"
    using hosted_beacon_upgrade by (auto split: prod.splits sum.splits)
  show ?thesis using hardhat_beacon_upgrade_is_verified [OF run demo_hosted] run by blast
qed


end
