(* ===== verification/Spec2Isabelle.thy ===== *)
theory Spec2Isabelle
  imports PublicEntries PublicReaders RefusalTexts EnvironmentTexts HostSharing HardhatNamespaced HardhatRuns
begin

text \<open>
  A model of the two upgrade plugins of the repository: the one for TronBox
  (\<open>packages/tronbox-upgrades/src\<close>, the paths below without a prefix) and the one for Hardhat
  (\<open>packages/hardhat-tron-upgrades/src\<close>, below under its own heading).  Both deploy and upgrade
  contracts behind ERC-1967 proxies on TRON: they validate an implementation, deploy it once, send the
  one call that deploys or upgrades, verify on chain what it did, and keep a record of it on disk.

  How the parts interact.  A migration calls an operation (\<open>proxy\<close>, \<open>beacon\<close>, \<open>admin\<close>, \<open>adopt\<close>,
  \<open>standalone\<close>).  The operation takes its turn in a mutex and builds a toolkit: the environment read off
  the host's objects, the options, the access to the chain, the record.  It then runs checks that only
  read, hands one step to the host's migration queue, and builds its result.  The validation of a contract
  finds a compiler record for it that the deployed artifact was verified against, and asks the engine
  (\<open>@openzeppelin/upgrades-core\<close>) to judge it.

  Effects are state passing.  An action is a function from a state to a result and a state
  (\<open>io\<close> in \<open>Prelude\<close>, with \<open>bind_io\<close>, \<open>return_io\<close>, \<open>throw_io\<close>); an error is the left side of the
  result, and every raise and early return of the source is a branch.  A \<open>Promise\<close> is the action that
  settles it; where order between operations matters (\<open>DeployQueue\<close>) the interleaving is explicit.
  JavaScript values from outside are \<open>js\<close>; a host object that can have accessors and traps is a
  heap address (\<open>EnvHost\<close>).  Machine words do not occur in the sources: storage words are strings of hex
  digits and JavaScript numbers are integers within the ranges the code checks.

  \<^bold>\<open>The shared vocabulary\<close>

  \<^item> \<open>Prelude\<close>: \<open>js\<close>, strings, fallible actions with their inversion rules, request budgets (\<open>costs\<close>), and
    the collections of rules.
  \<^item> \<open>JsArray\<close>: the stable sort, maps that list their entries in insertion order; \<open>NodePath\<close>: Node's \<open>path\<close>
    module on POSIX.

  \<^bold>\<open>The chain\<close> (\<open>chain\<close>)

  \<^item> \<open>ChainSlots\<close>: slot keys and the decoding of a storage word (\<open>slots.ts\<close>).  \<open>ChainRpc\<close>: a JSON-RPC round
    trip, its classification and policy (\<open>provider.ts\<close>, \<open>transport.ts\<close>, \<open>classify.ts\<close>,
    \<open>policy.ts\<close>); the state is the next
    request id.  \<open>ChainRead\<close>: the readers (\<open>read.ts\<close>).  \<open>ChainEndpoint\<close>: which endpoint is used and by which
    transport (\<open>endpoint.ts\<close>).  \<open>ChainInstance\<close>: the identity of a chain (\<open>instance.ts\<close>).  \<open>ChainAccess\<close>: the
    composite with its capability probe (\<open>index.ts\<close>).
  \<^item> The locales \<open>checked_provider\<close> and \<open>metered_provider\<close> are what a reader relies on: answers in the shape
    asked for, one request id for each request.  They are interpreted on the provider of \<open>ChainRpc\<close>, and the
    readers' bounds and branches are proved inside.

  \<^bold>\<open>The record\<close> (\<open>record\<close>)

  \<^item> \<open>RecordAddress\<close>: the canonical spelling of an address (\<open>address.ts\<close>); locale \<open>address_mint\<close>, an
    idempotent spelling, interpreted on it.  \<open>RecordManifest\<close>: the errors, refusals and the migration of the
    manifest (\<open>errors.ts\<close>, \<open>refusals.ts\<close>, \<open>manifest.ts\<close>).  \<open>RecordSidecar\<close>: the location of the record and the
    fingerprint file (\<open>location.ts\<close>, \<open>sidecar.ts\<close>).  \<open>RecordReconcile\<close>: the comparison with the chain and its
    report (\<open>reconcile.ts\<close>).  \<open>RecordSession\<close>: \<open>openRecord\<close> (\<open>session.ts\<close>); its state is the process environment, the
    world and a trace of what was written.
  \<^item> Shown: a refusal writes nothing, what opening reports is what it wrote, a written fingerprint reads back
    as the same chain, the migration acts as a map over the entries.

  \<^bold>\<open>Deployment\<close> (\<open>deploy\<close>)

  \<^item> \<open>DeployChecks\<close>: the confirmation of a transaction, the sender, unlinked bytecode (\<open>confirm.ts\<close>, \<open>sender.ts\<close>,
    \<open>link.ts\<close>).  \<open>DeployQueue\<close>: the bridge to the host's queue and the mutex of the operations (\<open>queue.ts\<close>,
    \<open>serialize.ts\<close>), an inductive step relation over the operations with its reachable states.

  \<^bold>\<open>The environment\<close> (\<open>environment\<close>)

  \<^item> \<open>EnvHost\<close>: reads of host objects and the two configuration lineages (\<open>handles.ts\<close>,
    \<open>config-lineage.ts\<close>).  \<open>EnvProject\<close>: what a lineage says about paths, network and compiler.  \<open>EnvResolve\<close>: the
    sections of \<open>resolveEnvironment\<close>, one for each slot, and how they are settled.  \<open>EnvSettle\<close>: a requested
    slot is built or diagnosed, and what is exposed is what every lineage says.
  \<^item> \<open>EnvArtifacts\<close>: build-info files, the index of ambiguous names, artifact records, packaged artifacts.
  \<^item> \<open>Output\<close> (\<open>output\<close>): the process wide console, the notes and their cap, the capture of the engine's
    warnings.

  \<^bold>\<open>The validation input\<close> (\<open>validation-input\<close>)

  \<^item> \<open>InputCauses\<close>: causes, the policy that decides each, versions, the partition, bytecode identity.
    \<open>InputSources\<close>: source keys and the import graph.  \<open>InputLayout\<close>: which positions a layout carries.
    \<open>InputPipeline\<close>: the gate over the build records and \<open>deriveValidationInput\<close>.

  \<^item> \<open>InputDiagnose\<close>: the headline and the remedy of every cause (\<open>diagnose.ts\<close>, \<open>errors.ts\<close>).  \<open>ErrorTexts\<close>: the
    messages of \<open>chain/errors.ts\<close> and \<open>deploy/errors.ts\<close>; shown are that a node's text is quoted within
    bounds, that a changed chain is explained, and that a refusal after a deployment names what was
    paid for.  \<open>RefusalTexts\<close>: the remedy tables and messages of \<open>record/errors.ts\<close>, \<open>proxy/errors.ts\<close>,
    \<open>adopt/errors.ts\<close> and \<open>admin/errors.ts\<close>; no two causes share a remedy, and the failure of a record write
    after a deployment shows the live proxy and the call that records it; and the name of a chain's
    record (\<open>manifestPathFor\<close>).  \<open>EnvironmentTexts\<close>: the messages
    of \<open>environment/errors.ts\<close> and \<open>options/errors.ts\<close> and the sentence of every broken rule; a refused
    environment names every gap.  The texts are the source's, with UTF-8 bytes for what is not ASCII.
  \<^item> \<open>HostSharing\<close>: the guard under which the plugin defines a member on a host object
    (\<open>host-sharing.ts\<close>, \<open>results/augmentation.ts\<close>, \<open>sealSlot\<close> of \<open>environment/handles.ts\<close>), over objects with
    property attributes.  A sealed slot never serialises a host handle.
  \<^item> \<open>PublicReaders\<close>: the readers of \<open>erc1967.ts\<close>, over the environment and the chain access alone.

  \<^bold>\<open>Options and operations\<close> (\<open>options\<close>, \<open>proxy\<close>, \<open>admin\<close>, \<open>beacon\<close>, \<open>adopt\<close>, \<open>standalone\<close>)

  \<^item> \<open>Options\<close>: the resolution of an operation's options.  \<open>ProxyDispatch\<close>: dispatch by kind, replay of a
    recorded proxy, the plugin's own artifacts.  \<open>ProxyToolkit\<close>: the capabilities of a toolkit over a log
    of events and the artifacts' write-backs; locale \<open>frame\<close>, a reflexive and transitive relation that
    every step of the toolkit keeps, interpreted three times (the log only grows by events of a kind, other
    networks' write-backs stay, a network's write-back stays).  \<open>ProxyPipeline\<close>: checks, one queued
    step, a result: what such a pipeline can log.  \<open>ProxyAssembly\<close>: \<open>createOperationToolkit\<close> itself
    and the toolkit's \<open>validateImplementation\<close>, over the three components below it.
  \<^item> \<open>ProxyDeploy\<close>, \<open>ProxyUpgrade\<close>, \<open>ProxyBeacon\<close>, \<open>ProxyAdopt\<close>, \<open>ProxyStandalone\<close>: the operations.  Shown for each:
    nothing is sent before the checks have passed, what is sent is what was planned, the result was verified
    on chain and recorded, and a failure restores the artifact's write-back.

  \<^item> \<open>PublicEntries\<close>: the eleven exported operations, what they refuse at once, their turn in the mutex and the
    toolkit each builds for its pipeline.

  \<^bold>\<open>The Hardhat plugin\<close>

  \<^item> \<open>HardhatUtils\<close>: options, addresses, initializer data, namespaces (\<open>utils\<close>, \<open>config.ts\<close>).
    \<open>HardhatManifest\<close>: the record as parsed JSON, its migration and the merge of an implementation
    (\<open>utils/manifest.ts\<close>).  \<open>HardhatNamespaced\<close>: the second compilation for namespaced storage, its cache in memory
    and on disk, the draft of a contract (\<open>utils/namespaced.ts\<close>, \<open>utils/validations.ts\<close>, \<open>compile.ts\<close>).
    \<open>HardhatOps\<close>: every operation, over a state of the world and a log of what was sent or written.
    \<open>HardhatRuns\<close>: what the operations promise of that log.

  \<^bold>\<open>Parameters\<close>

  What is not under \<open>src\<close> is an argument of the definitions: the engine, ethers, TronWeb, the HTTP post, the file
  system, the compiler, \<open>localeCompare\<close>, the URL and JSON parsers, hashes and the base58check codec.  A law
  of one of them is a hypothesis with a name (\<open>checksummer\<close>, \<open>honest_lock\<close>, \<open>atomic_files\<close>, \<open>well_hosted\<close> and
  others), and the properties that use one have a witness over a concrete instance.

  \<^bold>\<open>Loops and bounds\<close>

  The scanners over text (\<open>strip_ansi\<close>, \<open>import_statements\<close>, \<open>scan_hashed\<close>, \<open>scan_legacy\<close>,
  \<open>storage_arguments\<close>) are functions whose termination is proved by the length of the rest.  The
  walk over imports is a \<open>partial_function\<close> into \<open>option\<close>, since a file system can name new files for ever;
  \<open>graph_walk_terminates\<close> shows that it returns whenever finitely many
  references are reachable, import cycles included.  No fuel is used.

  \<^bold>\<open>Not modelled\<close>

  \<^item> The package entry (\<open>index.ts\<close>), which only re-exports.
  \<^item> Type declarations, and code that only forwards to a library.
  \<^item> Time: a wait for a receipt is one call of the host's, and its answer is an argument.
\<close>

end
